(* ===== verification/Prelude.thy ===== *)
theory Prelude
  imports Main "HOL-Library.Sublist"
begin

text \<open>
  Shared vocabulary of the development.

  Go functions that return \<open>(value, error)\<close> return \<open>'e + 'a\<close> here: \<open>Inl\<close> is the
  error return, \<open>Inr\<close> the value.  \<open>bindE\<close> is the \<open>if err != nil \{ return err \}\<close>
  idiom.  Methods that also change the database (or another component's state) are
  state transformers \<open>'s \<Rightarrow> ('e + 'a) \<times> 's\<close>, chained with \<open>bindS\<close>: an error stops the
  chain and keeps the writes that were already made, as the Go code does outside a
  transaction.

  Instants are nanoseconds since the epoch (\<open>instant\<close>), durations are nanoseconds
  (\<open>duration\<close>); \<open>AddDate(0, 0, n)\<close> is \<open>n\<close> days of 24 hours, which is what it is when
  the process runs in UTC.
\<close>

named_theorems result_simps "evaluation of the error and state idioms"
named_theorems row_simps "laws of database tables"

type_synonym instant = int
type_synonym duration = int
type_synonym ('s, 'e, 'a) op = "'s \<Rightarrow> ('e + 'a) \<times> 's"

section \<open>Errors as values\<close>

definition bindE :: "'e + 'a \<Rightarrow> ('a \<Rightarrow> 'e + 'b) \<Rightarrow> 'e + 'b" where
  "bindE r f = (case r of Inl e \<Rightarrow> Inl e | Inr x \<Rightarrow> f x)"

definition guardE :: "bool \<Rightarrow> 'e \<Rightarrow> 'e + unit" where
  "guardE ok e = (if ok then Inr () else Inl e)"

definition of_opt :: "'e \<Rightarrow> 'a option \<Rightarrow> 'e + 'a" where
  "of_opt e m = (case m of None \<Rightarrow> Inl e | Some x \<Rightarrow> Inr x)"

definition map_err :: "('e \<Rightarrow> 'f) \<Rightarrow> 'e + 'a \<Rightarrow> 'f + 'a" where
  "map_err h r = (case r of Inl e \<Rightarrow> Inl (h e) | Inr x \<Rightarrow> Inr x)"

definition is_ok :: "'e + 'a \<Rightarrow> bool" where
  "is_ok r = (case r of Inl _ \<Rightarrow> False | Inr _ \<Rightarrow> True)"

lemma bindE_simps [simp, result_simps]:
  "bindE (Inl e) f = Inl e"
  "bindE (Inr x) f = f x"
  by (simp_all add: bindE_def)

lemma bindE_Inr_iff [simp]: "bindE r f = Inr y \<longleftrightarrow> (\<exists>x. r = Inr x \<and> f x = Inr y)"
  by (cases r) auto

lemma guardE_Inr_iff [simp]: "guardE ok e = Inr u \<longleftrightarrow> ok"
  by (simp add: guardE_def)

lemma guardE_simps [simp, result_simps]: "guardE True e = Inr ()" "guardE False e = Inl e"
  by (simp_all add: guardE_def)

lemma guardE_Inl_iff [simp]: "guardE ok e = Inl d \<longleftrightarrow> \<not> ok \<and> d = e"
  by (auto simp: guardE_def)

lemma of_opt_simps [simp, result_simps]: "of_opt e None = Inl e" "of_opt e (Some x) = Inr x"
  by (simp_all add: of_opt_def)

lemma of_opt_Inr_iff [simp]: "of_opt e m = Inr x \<longleftrightarrow> m = Some x"
  by (cases m) auto

lemma map_err_simps [simp, result_simps]: "map_err h (Inl e) = Inl (h e)" "map_err h (Inr x) = Inr x"
  by (simp_all add: map_err_def)

lemma map_err_Inr_iff [simp]: "map_err h r = Inr x \<longleftrightarrow> r = Inr x"
  by (cases r) auto

lemma is_ok_simps [simp]: "is_ok (Inl e) = False" "is_ok (Inr x) = True"
  by (simp_all add: is_ok_def)

lemma is_ok_iff: "is_ok r \<longleftrightarrow> (\<exists>x. r = Inr x)"
  by (cases r) auto

lemma bindE_cong [fundef_cong]:
  "r = r' \<Longrightarrow> (\<And>x. r' = Inr x \<Longrightarrow> f x = g x) \<Longrightarrow> bindE r f = bindE r' g"
  by (cases r') auto

text \<open>A loop that converts every element and stops at the first error.\<close>

fun mapE :: "('a \<Rightarrow> 'e + 'b) \<Rightarrow> 'a list \<Rightarrow> 'e + 'b list" where
  "mapE f [] = Inr []"
| "mapE f (x # xs) = bindE (f x) (\<lambda>y. bindE (mapE f xs) (\<lambda>ys. Inr (y # ys)))"

lemma mapE_ok: "(\<And>x. x \<in> set xs \<Longrightarrow> f x = Inr (g x)) \<Longrightarrow> mapE f xs = Inr (map g xs)"
  by (induction xs) auto

lemma mapE_length: "mapE f xs = Inr ys \<Longrightarrow> length ys = length xs"
  by (induction xs arbitrary: ys) auto

lemma mapE_list_all2: "mapE f xs = Inr ys \<Longrightarrow> list_all2 (\<lambda>x y. f x = Inr y) xs ys"
  by (induction xs arbitrary: ys) auto

lemma mapE_Inr_ex: "mapE f xs = Inr ys \<Longrightarrow> x \<in> set xs \<Longrightarrow> \<exists>y \<in> set ys. f x = Inr y"
  by (induction xs arbitrary: ys) auto

lemma mapE_set: "mapE f xs = Inr ys \<Longrightarrow> y \<in> set ys \<Longrightarrow> \<exists>x \<in> set xs. f x = Inr y"
  by (induction xs arbitrary: ys) auto

text \<open>A loop that checks every element and stops at the first error.\<close>

fun forE :: "('a \<Rightarrow> 'e + unit) \<Rightarrow> 'a list \<Rightarrow> 'e + unit" where
  "forE f [] = Inr ()"
| "forE f (x # xs) = bindE (f x) (\<lambda>_. forE f xs)"

lemma forE_Inr_iff [simp]: "forE f xs = Inr u \<longleftrightarrow> (\<forall>x \<in> set xs. f x = Inr ())"
  by (induction xs) auto

lemma forE_Inl: "forE f xs = Inl e \<Longrightarrow> \<exists>x \<in> set xs. f x = Inl e"
  by (induction xs) (auto simp: bindE_def split: sum.splits)

section \<open>State and errors\<close>

definition bindS :: "('s, 'e, 'a) op \<Rightarrow> ('a \<Rightarrow> ('s, 'e, 'b) op) \<Rightarrow> ('s, 'e, 'b) op" where
  "bindS m f = (\<lambda>s. case m s of (Inl e, t) \<Rightarrow> (Inl e, t) | (Inr x, t) \<Rightarrow> f x t)"

definition returnS :: "'a \<Rightarrow> ('s, 'e, 'a) op" where
  "returnS x = (\<lambda>s. (Inr x, s))"

definition failS :: "'e \<Rightarrow> ('s, 'e, 'a) op" where
  "failS e = (\<lambda>s. (Inl e, s))"

definition liftE :: "'e + 'a \<Rightarrow> ('s, 'e, 'a) op" where
  "liftE r = (\<lambda>s. (r, s))"

definition readS :: "('s \<Rightarrow> 'e + 'a) \<Rightarrow> ('s, 'e, 'a) op" where
  "readS f = (\<lambda>s. (f s, s))"

definition modifyS :: "('s \<Rightarrow> 's) \<Rightarrow> ('s, 'e, unit) op" where
  "modifyS f = (\<lambda>s. (Inr (), f s))"

definition guardS :: "bool \<Rightarrow> 'e \<Rightarrow> ('s, 'e, unit) op" where
  "guardS ok e = liftE (guardE ok e)"

definition whenS :: "bool \<Rightarrow> ('s, 'e, unit) op \<Rightarrow> ('s, 'e, unit) op" where
  "whenS b m = (if b then m else returnS ())"

text \<open>\<open>if err := m(); err != nil \{ log \}\<close>: the error is dropped, the writes stay.\<close>

definition ignoreS :: "('s, 'e, 'a) op \<Rightarrow> ('s, 'f, unit) op" where
  "ignoreS m = (\<lambda>s. (Inr (), snd (m s)))"

definition map_errS :: "('e \<Rightarrow> 'f) \<Rightarrow> ('s, 'e, 'a) op \<Rightarrow> ('s, 'f, 'a) op" where
  "map_errS h m = (\<lambda>s. (map_err h (fst (m s)), snd (m s)))"

lemma op_simps [simp, result_simps]:
  "returnS x s = (Inr x, s)"
  "failS e s = (Inl e, s)"
  "liftE r s = (r, s)"
  "readS f s = (f s, s)"
  "modifyS g s = (Inr (), g s)"
  "guardS ok e s = (guardE ok e, s)"
  "ignoreS m s = (Inr (), snd (m s))"
  by (simp_all add: returnS_def failS_def liftE_def readS_def modifyS_def guardS_def ignoreS_def)

lemma whenS_simps [simp, result_simps]: "whenS True m = m" "whenS False m = returnS ()"
  by (simp_all add: whenS_def)

lemma bindS_eval [result_simps]:
  "m s = (Inr x, t) \<Longrightarrow> bindS m f s = f x t"
  "m s = (Inl e, t) \<Longrightarrow> bindS m f s = (Inl e, t)"
  by (simp_all add: bindS_def)

lemma bindS_Inr_iff:
  "bindS m f s = (Inr y, u) \<longleftrightarrow> (\<exists>x t. m s = (Inr x, t) \<and> f x t = (Inr y, u))"
  by (auto simp: bindS_def split: prod.splits sum.splits)

lemma bindS_InrE:
  assumes "bindS m f s = (Inr y, u)"
  obtains x t where "m s = (Inr x, t)" "f x t = (Inr y, u)"
  using assms by (auto simp: bindS_Inr_iff)

lemma map_errS_simps [simp]:
  "map_errS h m s = (Inr x, t) \<longleftrightarrow> m s = (Inr x, t)"
  by (cases "m s") (auto simp: map_errS_def)

lemma snd_map_errS [simp]: "snd (map_errS h m s) = snd (m s)"
  by (simp add: map_errS_def)

text \<open>
  An operation keeps a property of the state when every run of it does, whatever it
  returns: the notion of an invariant of the service's methods.
\<close>

definition keeps :: "('s \<Rightarrow> bool) \<Rightarrow> ('s, 'e, 'a) op \<Rightarrow> bool" where
  "keeps I m \<longleftrightarrow> (\<forall>s. I s \<longrightarrow> I (snd (m s)))"

named_theorems keeps_intros "composition rules for invariants"

lemma keepsI: "(\<And>s. I s \<Longrightarrow> I (snd (m s))) \<Longrightarrow> keeps I m"
  by (simp add: keeps_def)

lemma keepsD: "keeps I m \<Longrightarrow> I s \<Longrightarrow> I (snd (m s))"
  by (simp add: keeps_def)

lemma keeps_bindS [keeps_intros]:
  "keeps I m \<Longrightarrow> (\<And>x. keeps I (f x)) \<Longrightarrow> keeps I (bindS m f)"
  by (auto simp: keeps_def bindS_def split: prod.splits sum.splits)

lemma keeps_basic [keeps_intros, simp]:
  "keeps I (returnS x)" "keeps I (failS e)" "keeps I (liftE r)" "keeps I (readS g)"
  "keeps I (guardS ok e)"
  by (auto simp: keeps_def)

lemma keeps_whenS [keeps_intros]: "(b \<Longrightarrow> keeps I m) \<Longrightarrow> keeps I (whenS b m)"
  by (simp add: whenS_def)

lemma keeps_ignoreS [keeps_intros]: "keeps I m \<Longrightarrow> keeps I (ignoreS m)"
  by (simp add: keeps_def)

lemma keeps_map_errS [keeps_intros]: "keeps I m \<Longrightarrow> keeps I (map_errS h m)"
  by (simp add: keeps_def)

lemma keeps_if [keeps_intros]:
  "(b \<Longrightarrow> keeps I m) \<Longrightarrow> (\<not> b \<Longrightarrow> keeps I n) \<Longrightarrow> keeps I (if b then m else n)"
  by simp

lemma keeps_case_option [keeps_intros]:
  "keeps I m \<Longrightarrow> (\<And>x. keeps I (f x)) \<Longrightarrow> keeps I (case v of None \<Rightarrow> m | Some x \<Rightarrow> f x)"
  by (simp split: option.split)

lemma keeps_let [keeps_intros]: "keeps I (f x) \<Longrightarrow> keeps I (let y = x in f y)"
  by simp

text \<open>
  The same at one state: what remains to be shown of a property of the final state after
  each kind of step.  Unlike \<open>keeps\<close>, these rules pass on what a read returned.
\<close>

named_theorems inv_intros "steps of an operation, at a state"

lemma inv_bind_read [inv_intros]:
  "I d \<Longrightarrow> (\<And>x. f d = Inr x \<Longrightarrow> I (snd (g x d))) \<Longrightarrow> I (snd (bindS (readS f) g d))"
  "I d \<Longrightarrow> (\<And>x. r = Inr x \<Longrightarrow> I (snd (g x d))) \<Longrightarrow> I (snd (bindS (liftE r) g d))"
  "I d \<Longrightarrow> (ok \<Longrightarrow> I (snd (h () d))) \<Longrightarrow> I (snd (bindS (guardS ok e) h d))"
  by (auto simp: bindS_def split: sum.split)

lemma inv_return [inv_intros]: "I d \<Longrightarrow> I (snd (returnS x d))" "I d \<Longrightarrow> I (snd (failS e d))"
  by simp_all

lemma inv_if [inv_intros]:
  "(b \<Longrightarrow> I (snd (m d))) \<Longrightarrow> (\<not> b \<Longrightarrow> I (snd (n d))) \<Longrightarrow> I (snd ((if b then m else n) d))"
  by simp

lemma inv_cases [inv_intros]:
  "(v = None \<Longrightarrow> I (snd (m d))) \<Longrightarrow> (\<And>x. v = Some x \<Longrightarrow> I (snd (f x d))) \<Longrightarrow>
   I (snd ((case v of None \<Rightarrow> m | Some x \<Rightarrow> f x) d))"
  "(\<And>x. w = Inl x \<Longrightarrow> I (snd (g x d))) \<Longrightarrow> (\<And>y. w = Inr y \<Longrightarrow> I (snd (h y d))) \<Longrightarrow>
   I (snd ((case w of Inl x \<Rightarrow> g x | Inr y \<Rightarrow> h y) d))"
  "(\<And>a b. p = (a, b) \<Longrightarrow> I (snd (k a b d))) \<Longrightarrow> I (snd ((case p of (a, b) \<Rightarrow> k a b) d))"
  by (simp_all split: option.split sum.split prod.split)

lemma inv_step:
  assumes "I (snd (m d))" "\<And>x d'. m d = (Inr x, d') \<Longrightarrow> I d' \<Longrightarrow> I (snd (f x d'))"
  shows "I (snd (bindS m f d))"
  using assms by (cases "m d"; cases "fst (m d)") (auto simp: bindS_def)

lemma inv_when: "I d \<Longrightarrow> (b \<Longrightarrow> I (snd (m d))) \<Longrightarrow> I (snd (whenS b m d))"
  by (simp add: whenS_def)

text \<open>Operations that only read.\<close>

definition reads :: "('s, 'e, 'a) op \<Rightarrow> bool" where
  "reads m \<longleftrightarrow> (\<forall>s. snd (m s) = s)"

named_theorems reads_intros "composition of operations that only read"

lemma reads_basic [reads_intros, simp]:
  "reads (returnS x)" "reads (failS e)" "reads (liftE r)" "reads (readS f)" "reads (guardS ok g)"
  by (simp_all add: reads_def)

lemma reads_bindS [reads_intros]: "reads m \<Longrightarrow> (\<And>x. reads (f x)) \<Longrightarrow> reads (bindS m f)"
proof -
  assume m: "reads m" and f: "\<And>x. reads (f x)"
  have "snd (bindS m f s) = s" for s
  proof -
    obtain r where "m s = (r, s)" using m by (metis prod.collapse reads_def)
    then show ?thesis using f by (cases r) (simp_all add: bindS_def reads_def)
  qed
  then show ?thesis by (simp add: reads_def)
qed

lemma reads_if [reads_intros]: "reads m \<Longrightarrow> reads n \<Longrightarrow> reads (if b then m else n)"
  by simp

lemma reads_case_option [reads_intros]:
  "reads m \<Longrightarrow> (\<And>x. reads (f x)) \<Longrightarrow> reads (case v of None \<Rightarrow> m | Some x \<Rightarrow> f x)"
  by (simp split: option.split)

lemma reads_case_prod [reads_intros]: "(\<And>a b. reads (k a b)) \<Longrightarrow> reads (case p of (a, b) \<Rightarrow> k a b)"
  by (cases p) simp

lemma inv_bind_reads:
  assumes "reads m" "I d" "\<And>x. m d = (Inr x, d) \<Longrightarrow> I (snd (g x d))"
  shows "I (snd (bindS m g d))"
proof -
  obtain r where "m d = (r, d)" using assms(1) by (metis prod.collapse reads_def)
  then show ?thesis using assms(2,3) by (cases r) (simp_all add: bindS_def)
qed

section \<open>Time\<close>

definition second :: duration where "second = 1000000000"
definition minute :: duration where "minute = 60 * second"
definition hour :: duration where "hour = 60 * minute"
definition day :: duration where "day = 24 * hour"

lemma day_pos [simp]: "0 < day"
  by (simp add: day_def hour_def minute_def second_def)

lemma second_pos [simp]: "0 < second"
  by (simp add: second_def)

lemma day_seconds: "day = 86400 * second"
  by (simp add: day_def hour_def minute_def)

text \<open>Go's \<open>AddDate(0, 0, n)\<close> in UTC.\<close>

definition add_days :: "instant \<Rightarrow> int \<Rightarrow> instant" where
  "add_days t n = t + n * day"

text \<open>Go's integer conversion truncates towards zero: \<open>int(d.Hours() / 24)\<close>.\<close>

definition trunc_div :: "int \<Rightarrow> int \<Rightarrow> int" where
  "trunc_div a b = sgn a * sgn b * (\<bar>a\<bar> div \<bar>b\<bar>)"

definition whole_days :: "duration \<Rightarrow> int" where
  "whole_days d = trunc_div d day"

lemma whole_days_mult [simp]: "whole_days (n * day) = n"
  by (auto simp: whole_days_def trunc_div_def sgn_if day_def hour_def minute_def second_def)

lemma whole_days_nonneg: "0 \<le> d \<Longrightarrow> whole_days d = d div day"
  by (simp add: whole_days_def trunc_div_def sgn_if day_def hour_def minute_def second_def)

lemma whole_days_mono_neg: "d \<le> 0 \<Longrightarrow> whole_days d \<le> 0"
  by (auto simp: whole_days_def trunc_div_def sgn_if pos_imp_zdiv_nonneg_iff)

text \<open>ASN.1 times have a resolution of one second.\<close>

definition trunc_seconds :: "instant \<Rightarrow> instant" where
  "trunc_seconds t = second * (t div second)"

lemma trunc_seconds_le: "trunc_seconds t \<le> t"
proof -
  have "trunc_seconds t = t - t mod second"
    by (simp add: trunc_seconds_def minus_mod_eq_mult_div)
  then show ?thesis by (simp add: pos_mod_sign second_def)
qed

lemma trunc_seconds_add: "trunc_seconds (t + k * second) = trunc_seconds t + k * second"
  by (simp add: trunc_seconds_def second_def algebra_simps)

lemma trunc_seconds_add_days: "trunc_seconds (add_days t n) = add_days (trunc_seconds t) n"
  using trunc_seconds_add [of t "n * 86400"] by (simp add: add_days_def day_seconds mult.assoc)

lemma trunc_seconds_mono: "s \<le> t \<Longrightarrow> trunc_seconds s \<le> trunc_seconds t"
  by (simp add: trunc_seconds_def second_def zdiv_mono1)

section \<open>Lists\<close>

lemma find_cong_filter: "List.find P xs = (case filter P xs of [] \<Rightarrow> None | x # _ \<Rightarrow> Some x)"
  by (induction xs) auto

lemma find_SomeD: "List.find P xs = Some x \<Longrightarrow> x \<in> set xs \<and> P x"
  by (auto simp: find_Some_iff)

lemma find_None [simp]: "List.find P xs = None \<longleftrightarrow> (\<forall>x \<in> set xs. \<not> P x)"
  by (auto simp: find_None_iff)

text \<open>With pairwise different keys the row found by its key is the only one.\<close>

lemma find_key_unique:
  "distinct (map k xs) \<Longrightarrow> x \<in> set xs \<Longrightarrow> List.find (\<lambda>y. k y = k x) xs = Some x"
  by (induction xs) (auto simp: image_iff)

lemma distinct_map_filter_key: "distinct (map k xs) \<Longrightarrow> distinct (map k (filter P xs))"
  by (induction xs) auto

lemma map_key_update:
  "(\<And>x. P x \<Longrightarrow> k (f x) = k x) \<Longrightarrow> map k (map (\<lambda>x. if P x then f x else x) xs) = map k xs"
  by (induction xs) auto

end
