(* ===== verification/GoText.thy ===== *)
theory GoText
  imports Prelude "HOL-Library.Char_ord" "HOL-Library.List_Lexorder"
begin

text \<open>
  The functions of Go's \<open>strings\<close>, \<open>strconv\<close> and \<open>fmt\<close> packages that the program uses,
  on byte strings.  Case folding and white space are those of ASCII text: \<open>ToLower\<close> maps
  A-Z to a-z and leaves every other byte alone, \<open>TrimSpace\<close> strips tab, line feed,
  vertical tab, form feed, carriage return and blank.
\<close>

section \<open>Characters\<close>

abbreviation ord :: "char \<Rightarrow> nat" where "ord \<equiv> of_char"

definition is_space :: "char \<Rightarrow> bool" where
  "is_space c = (ord c = 32 \<or> (9 \<le> ord c \<and> ord c \<le> 13))"

definition is_upper :: "char \<Rightarrow> bool" where "is_upper c = (65 \<le> ord c \<and> ord c \<le> 90)"
definition is_lower :: "char \<Rightarrow> bool" where "is_lower c = (97 \<le> ord c \<and> ord c \<le> 122)"
definition is_digit :: "char \<Rightarrow> bool" where "is_digit c = (48 \<le> ord c \<and> ord c \<le> 57)"

definition lower_char :: "char \<Rightarrow> char" where
  "lower_char c = (if is_upper c then char_of (ord c + 32) else c)"

definition upper_char :: "char \<Rightarrow> char" where
  "upper_char c = (if is_lower c then char_of (ord c - 32) else c)"

lemmas char_class_defs = is_space_def is_upper_def is_lower_def is_digit_def

lemma ord_char_of [simp]: "n < 256 \<Longrightarrow> ord (char_of n) = n"
  by simp

lemma ord_less [simp]: "ord c < 256"
  using of_char_mod_256 [of c, where 'a = nat] by (metis mod_less_divisor zero_less_numeral)

text \<open>Evaluation of a character from its code.\<close>

lemma char_of_eval:
  "(char_of :: nat \<Rightarrow> char) n =
     Char (odd n) (odd (n div 2)) (odd (n div 4)) (odd (n div 8)) (odd (n div 16))
          (odd (n div 32)) (odd (n div 64)) (odd (n div 128))"
  by (simp add: char_of_def bit_iff_odd)

lemma not_upper_lower_char [simp]: "\<not> is_upper (lower_char c)"
  by (auto simp: lower_char_def is_upper_def)

lemma lower_char_id: "\<not> is_upper c \<Longrightarrow> lower_char c = c"
  by (simp add: lower_char_def)

lemma lower_char_idem [simp]: "lower_char (lower_char c) = lower_char c"
  by (simp add: lower_char_id)

lemma is_space_lower_char [simp]: "is_space (lower_char c) = is_space c"
  by (auto simp: lower_char_def is_upper_def is_space_def)

section \<open>Trimming and case\<close>

definition trim_left :: "(char \<Rightarrow> bool) \<Rightarrow> string \<Rightarrow> string" where
  "trim_left p s = dropWhile p s"

definition trim_right :: "(char \<Rightarrow> bool) \<Rightarrow> string \<Rightarrow> string" where
  "trim_right p s = rev (dropWhile p (rev s))"

definition trim_chars :: "(char \<Rightarrow> bool) \<Rightarrow> string \<Rightarrow> string" where
  "trim_chars p s = trim_right p (trim_left p s)"

definition trim_space :: "string \<Rightarrow> string" where
  "trim_space = trim_chars is_space"

definition to_lower :: "string \<Rightarrow> string" where "to_lower = map lower_char"
definition to_upper :: "string \<Rightarrow> string" where "to_upper = map upper_char"

definition equal_fold :: "string \<Rightarrow> string \<Rightarrow> bool" where
  "equal_fold a b = (to_lower a = to_lower b)"

lemma to_lower_simps [simp]:
  "to_lower [] = []" "to_lower (c # s) = lower_char c # to_lower s"
  "to_lower (s @ t) = to_lower s @ to_lower t"
  "length (to_lower s) = length s"
  "to_lower s = [] \<longleftrightarrow> s = []"
  by (simp_all add: to_lower_def)

lemma to_lower_idem [simp]: "to_lower (to_lower s) = to_lower s"
  by (induction s) auto

lemma to_lower_id: "\<forall>c \<in> set s. \<not> is_upper c \<Longrightarrow> to_lower s = s"
  by (induction s) (auto simp: lower_char_id)

lemma trim_right_append_not: "\<not> p c \<Longrightarrow> trim_right p (s @ [c]) = s @ [c]"
  by (simp add: trim_right_def)

lemma trim_right_last: "trim_right p s \<noteq> [] \<Longrightarrow> \<not> p (last (trim_right p s))"
  unfolding trim_right_def by (metis hd_dropWhile last_rev rev_is_Nil_conv)

lemma prefix_trim_right: "prefix (trim_right p s) s"
proof -
  have "suffix (dropWhile p (rev s)) (rev s)"
    by (rule suffix_dropWhile)
  then show ?thesis
    by (simp add: trim_right_def suffix_to_prefix)
qed

lemma trim_chars_hd: "trim_chars p s \<noteq> [] \<Longrightarrow> \<not> p (hd (trim_chars p s))"
proof -
  let ?t = "dropWhile p s"
  assume ne: "trim_chars p s \<noteq> []"
  have pre: "prefix (trim_chars p s) ?t"
    by (simp add: trim_chars_def trim_left_def prefix_trim_right)
  then have "hd (trim_chars p s) = hd ?t" "?t \<noteq> []"
    using ne by (auto simp: prefix_def simp del: dropWhile_eq_Nil_conv)
  then show ?thesis using hd_dropWhile [of p s] by simp
qed

lemma trim_chars_last: "trim_chars p s \<noteq> [] \<Longrightarrow> \<not> p (last (trim_chars p s))"
  by (simp add: trim_chars_def trim_right_last)

lemma dropWhile_hd_id: "\<not> p (hd xs) \<and> q \<Longrightarrow> dropWhile p xs = xs"
  by (cases xs) auto

lemma trim_chars_id: "s = [] \<or> \<not> p (hd s) \<and> \<not> p (last s) \<Longrightarrow> trim_chars p s = s"
proof -
  assume "s = [] \<or> \<not> p (hd s) \<and> \<not> p (last s)"
  then show ?thesis
  proof
    assume "s = []"
    then show ?thesis by (simp add: trim_chars_def trim_left_def trim_right_def)
  next
    assume h: "\<not> p (hd s) \<and> \<not> p (last s)"
    show ?thesis
    proof (cases s rule: rev_cases)
      case Nil
      then show ?thesis by (simp add: trim_chars_def trim_left_def trim_right_def)
    next
      case (snoc ys y)
      have "dropWhile p s = s" using h by (rule dropWhile_hd_id)
      then show ?thesis
        using h snoc by (simp add: trim_chars_def trim_left_def trim_right_append_not)
    qed
  qed
qed

lemma trim_chars_idem [simp]: "trim_chars p (trim_chars p s) = trim_chars p s"
  by (rule trim_chars_id) (use trim_chars_hd trim_chars_last in blast)

lemma trim_space_idem [simp]: "trim_space (trim_space s) = trim_space s"
  by (simp add: trim_space_def)

lemma trim_space_Nil [simp]: "trim_space [] = []"
  by (simp add: trim_space_def trim_chars_id)

lemma set_trim_chars: "set (trim_chars p s) \<subseteq> set s"
  by (auto simp: trim_chars_def trim_left_def trim_right_def dest!: set_dropWhileD)

lemma trim_space_no_space: "\<forall>c \<in> set s. \<not> is_space c \<Longrightarrow> trim_space s = s"
  by (cases "s = []") (auto simp: trim_space_def intro!: trim_chars_id)

lemma length_trim_space: "length (trim_space s) \<le> length s"
  using prefix_length_le [OF prefix_trim_right] length_dropWhile_le
  by (metis order_trans trim_chars_def trim_left_def trim_space_def)

lemma dropWhile_map_lower: "dropWhile is_space (map lower_char s) = map lower_char (dropWhile is_space s)"
  by (induction s) auto

lemma trim_space_to_lower: "trim_space (to_lower s) = to_lower (trim_space s)"
  by (simp add: trim_space_def trim_chars_def trim_left_def trim_right_def to_lower_def
      dropWhile_map_lower rev_map)

section \<open>Prefixes, suffixes and splitting\<close>

definition trim_suffix :: "string \<Rightarrow> string \<Rightarrow> string" where
  "trim_suffix t s = (if suffix t s then take (length s - length t) s else s)"

definition trim_prefix :: "string \<Rightarrow> string \<Rightarrow> string" where
  "trim_prefix t s = (if prefix t s then drop (length t) s else s)"

text \<open>\<open>strings.Cut(s, string(c))\<close>: the parts around the first \<open>c\<close>, and whether there was one.\<close>

definition cut :: "char \<Rightarrow> string \<Rightarrow> string \<times> string \<times> bool" where
  "cut c s = (if c \<in> set s then (takeWhile (\<lambda>x. x \<noteq> c) s, tl (dropWhile (\<lambda>x. x \<noteq> c) s), True)
              else (s, [], False))"

text \<open>\<open>strings.Split(s, string(c))\<close>.\<close>

fun split_on :: "char \<Rightarrow> string \<Rightarrow> string list" where
  "split_on c [] = [[]]"
| "split_on c (x # s) =
     (if x = c then [] # split_on c s
      else (case split_on c s of [] \<Rightarrow> [[x]] | w # ws \<Rightarrow> (x # w) # ws))"

text \<open>\<open>strings.FieldsFunc(s, p)\<close>: the maximal runs without a separator.\<close>

fun fields_func :: "(char \<Rightarrow> bool) \<Rightarrow> string \<Rightarrow> string \<Rightarrow> string list" where
  "fields_func p acc [] = (if acc = [] then [] else [rev acc])"
| "fields_func p acc (x # s) =
     (if p x then (if acc = [] then fields_func p [] s else rev acc # fields_func p [] s)
      else fields_func p (x # acc) s)"

fun join_with :: "string \<Rightarrow> string list \<Rightarrow> string" where
  "join_with sep [] = []"
| "join_with sep [s] = s"
| "join_with sep (s # ss) = s @ sep @ join_with sep ss"

definition count_char :: "char \<Rightarrow> string \<Rightarrow> nat" where
  "count_char c s = length (filter ((=) c) s)"

text \<open>\<open>strings.NewReplacer(string(c), "", ...)\<close> for single characters.\<close>

definition remove_chars :: "string \<Rightarrow> string \<Rightarrow> string" where
  "remove_chars cs s = filter (\<lambda>c. c \<notin> set cs) s"

definition replace_char :: "char \<Rightarrow> char \<Rightarrow> string \<Rightarrow> string" where
  "replace_char a b s = map (\<lambda>c. if c = a then b else c) s"

lemma split_on_not_Nil [simp]: "split_on c s \<noteq> []"
  by (induction s) (auto split: list.splits)

lemma split_on_no_sep: "w \<in> set (split_on c s) \<Longrightarrow> c \<notin> set w"
  by (induction s arbitrary: w) (auto split: list.splits if_splits)

lemma join_Cons: "ws \<noteq> [] \<Longrightarrow> join_with sep (w # ws) = w @ sep @ join_with sep ws"
  by (cases ws) auto

lemma join_split: "join_with [c] (split_on c s) = s"
proof (induction s)
  case (Cons x s)
  show ?case
  proof (cases "split_on c s")
    case (Cons w ws)
    with Cons.IH show ?thesis
      by (cases ws) auto
  qed simp
qed simp

lemma split_on_id: "c \<notin> set s \<Longrightarrow> split_on c s = [s]"
  by (induction s) auto

lemma split_on_append: "c \<notin> set w \<Longrightarrow> split_on c (w @ c # s) = w # split_on c s"
  by (induction w) auto

lemma length_split_on: "length (split_on c s) = Suc (count_char c s)"
  by (induction s) (auto simp: count_char_def split: list.splits)

lemma set_split_on: "w \<in> set (split_on c s) \<Longrightarrow> set w \<subseteq> set s"
proof (induction s arbitrary: w)
  case (Cons x s)
  show ?case
  proof (cases "split_on c s")
    case (Cons v vs)
    have "set v \<subseteq> set s" "\<And>u. u \<in> set vs \<Longrightarrow> set u \<subseteq> set s"
      using Cons.IH Cons by simp_all
    then show ?thesis using Cons.prems Cons by (auto split: if_splits)
  qed simp
qed simp

section \<open>Numbers as text\<close>

definition digit_char :: "nat \<Rightarrow> char" where
  "digit_char d = char_of (if d < 10 then 48 + d else 87 + d)"

function digits_of :: "nat \<Rightarrow> nat \<Rightarrow> string" where
  "digits_of b n =
     (if n < b \<or> b < 2 then [digit_char n] else digits_of b (n div b) @ [digit_char (n mod b)])"
  by pat_completeness auto
termination
  by (relation "measure snd") (auto simp: div_less_dividend)

declare digits_of.simps [simp del]

definition dec_nat :: "nat \<Rightarrow> string" where "dec_nat n = digits_of 10 n"

definition dec_int :: "int \<Rightarrow> string" where
  "dec_int i = (if i < 0 then CHR ''-'' # dec_nat (nat (- i)) else dec_nat (nat i))"

definition digit_val :: "char \<Rightarrow> nat option" where
  "digit_val c =
     (if is_digit c then Some (ord c - 48)
      else if 97 \<le> ord c \<and> ord c \<le> 102 then Some (ord c - 87)
      else if 65 \<le> ord c \<and> ord c \<le> 70 then Some (ord c - 55)
      else None)"

fun parse_digits :: "nat \<Rightarrow> nat \<Rightarrow> string \<Rightarrow> nat option" where
  "parse_digits b acc [] = Some acc"
| "parse_digits b acc (c # s) =
     (case digit_val c of
        None \<Rightarrow> None
      | Some d \<Rightarrow> if d < b then parse_digits b (acc * b + d) s else None)"

lemma ord_digit_char: "d < 16 \<Longrightarrow> ord (digit_char d) = (if d < 10 then 48 + d else 87 + d)"
  by (simp add: digit_char_def)

lemma digit_val_digit_char [simp]: "d < 16 \<Longrightarrow> digit_val (digit_char d) = Some d"
  by (simp add: digit_val_def ord_digit_char is_digit_def)

lemma parse_digits_append:
  "parse_digits b acc (s @ t) = (case parse_digits b acc s of None \<Rightarrow> None | Some a \<Rightarrow> parse_digits b a t)"
  by (induction s arbitrary: acc) (auto split: option.splits)

lemma parse_digits_of: "2 \<le> b \<Longrightarrow> b \<le> 16 \<Longrightarrow> parse_digits b 0 (digits_of b n) = Some n"
proof (induction b n rule: digits_of.induct)
  case (1 b n)
  show ?case
  proof (cases "n < b")
    case True
    with "1.prems" show ?thesis by (simp add: digits_of.simps [of b n])
  next
    case False
    have m: "n mod b < b" using "1.prems" by simp
    have d: "digit_val (digit_char (n mod b)) = Some (n mod b)"
      using "1.prems" m by (intro digit_val_digit_char) linarith
    have "parse_digits b 0 (digits_of b (n div b)) = Some (n div b)"
      using False "1.IH" "1.prems" by simp
    then show ?thesis
      using False "1.prems" m by (simp add: digits_of.simps [of b n] parse_digits_append d)
  qed
qed

lemma digits_of_not_Nil [simp]: "digits_of b n \<noteq> []"
  by (simp add: digits_of.simps [of b n])

lemma set_digits_of: "2 \<le> b \<Longrightarrow> b \<le> 16 \<Longrightarrow> set (digits_of b n) \<subseteq> digit_char ` {..<b}"
proof (induction b n rule: digits_of.induct)
  case (1 b n)
  then show ?case by (subst digits_of.simps) auto
qed

end
