(* ===== verification/GoNet.thy ===== *)
theory GoNet
  imports GoText "HOL-Library.Word"
begin

text \<open>
  The part of Go's \<open>net\<close> package the name rules rest on: \<open>net.ParseIP\<close>,
  \<open>net.ParseCIDR\<close>, \<open>IP.To4\<close>, \<open>IPNet.Contains\<close> and \<open>IP.String\<close>.  An address is its
  byte list, 16 bytes as \<open>net.ParseIP\<close> returns it (an IPv4 address in its
  IPv4-in-IPv6 form).
\<close>

unbundle bit_operations_syntax

type_synonym byte = "8 word"
type_synonym ip = "byte list"

record ipnet =
  net_ip :: ip
  net_mask :: "byte list"

section \<open>Parsing addresses\<close>

text \<open>A decimal field of at most three digits without a leading zero, at most 255.\<close>

definition parse_octet :: "string \<Rightarrow> byte option" where
  "parse_octet s =
     (if s = [] \<or> \<not> list_all is_digit s \<or> (1 < length s \<and> hd s = CHR ''0'') \<or> 3 < length s then None
      else (case parse_digits 10 0 s of
              None \<Rightarrow> None
            | Some n \<Rightarrow> if n \<le> 255 then Some (of_nat n) else None))"

fun opt_list :: "'a option list \<Rightarrow> 'a list option" where
  "opt_list [] = Some []"
| "opt_list (None # _) = None"
| "opt_list (Some x # xs) = map_option ((#) x) (opt_list xs)"

definition parse_ipv4 :: "string \<Rightarrow> byte list option" where
  "parse_ipv4 s =
     (let fs = split_on CHR ''.'' s
      in if length fs = 4 then opt_list (map parse_octet fs) else None)"

definition is_hex :: "char \<Rightarrow> bool" where "is_hex c = (digit_val c \<noteq> None)"

text \<open>
  The loop of \<open>netip.parseIPv6\<close>.  \<open>bs\<close> are the bytes written so far, \<open>ell\<close> the position of
  the \<open>::\<close>; every round reads one group of up to four hex digits, or the trailing dotted
  quad.  The fuel bounds the rounds: each writes two bytes and the loop stops at 16.
\<close>

fun ipv6_loop :: "nat \<Rightarrow> byte list \<Rightarrow> nat option \<Rightarrow> string \<Rightarrow> (byte list \<times> nat option \<times> string) option" where
  "ipv6_loop 0 bs ell s = Some (bs, ell, s)"
| "ipv6_loop (Suc k) bs ell s =
     (let g = takeWhile is_hex s; rest = dropWhile is_hex s
      in if g = [] \<or> 4 < length g then None
         else if rest \<noteq> [] \<and> hd rest = CHR ''.'' then
           (if (ell = None \<and> length bs \<noteq> 12) \<or> 16 < length bs + 4 then None
            else (case parse_ipv4 s of None \<Rightarrow> None | Some q \<Rightarrow> Some (bs @ q, ell, [])))
         else (case parse_digits 16 0 g of
             None \<Rightarrow> None
           | Some v \<Rightarrow>
               (let bs' = bs @ [of_nat (v div 256), of_nat (v mod 256)]
                in (case rest of
                      [] \<Rightarrow> Some (bs', ell, [])
                    | c # r \<Rightarrow>
                        if c \<noteq> CHR '':'' \<or> r = [] then None
                        else if hd r = CHR '':'' then
                          (if ell \<noteq> None then None
                           else if tl r = [] then Some (bs', Some (length bs'), [])
                           else ipv6_loop k bs' (Some (length bs')) (tl r))
                        else ipv6_loop k bs' ell r))))"

definition parse_ipv6 :: "string \<Rightarrow> byte list option" where
  "parse_ipv6 s =
     (let lead = prefix ''::'' s;
          s' = (if lead then drop 2 s else s);
          ell = (if lead then Some 0 else None)
      in if lead \<and> s' = [] then Some (replicate 16 0)
         else (case ipv6_loop 8 [] ell s' of
             None \<Rightarrow> None
           | Some (bs, e, rest) \<Rightarrow>
               if rest \<noteq> [] then None
               else if length bs < 16 then
                 (case e of
                    None \<Rightarrow> None
                  | Some p \<Rightarrow> Some (take p bs @ replicate (16 - length bs) 0 @ drop p bs))
               else if e \<noteq> None then None else Some bs))"

definition v4_prefix :: "byte list" where
  "v4_prefix = replicate 10 0 @ [255, 255]"

text \<open>
  \<open>netip.ParseAddr\<close> decides by the first of \<open>. : %\<close> in the text; \<open>net.ParseIP\<close> refuses a zone,
  so a \<open>%\<close> anywhere is a failure.  The flag tells an IPv4 text from an IPv6 one.
\<close>

definition parse_addr :: "string \<Rightarrow> (bool \<times> ip) option" where
  "parse_addr s =
     (case dropWhile (\<lambda>c. c \<notin> set ''.:%'') s of
        [] \<Rightarrow> None
      | c # _ \<Rightarrow>
          if c = CHR ''.'' then map_option (\<lambda>q. (True, v4_prefix @ q)) (parse_ipv4 s)
          else if c = CHR '':'' \<and> CHR ''%'' \<notin> set s then map_option (\<lambda>b. (False, b)) (parse_ipv6 s)
          else None)"

definition parse_ip :: "string \<Rightarrow> ip option" where
  "parse_ip s = map_option snd (parse_addr s)"

section \<open>Networks\<close>

definition to4 :: "ip \<Rightarrow> byte list option" where
  "to4 a = (if length a = 4 then Some a
            else if length a = 16 \<and> take 12 a = v4_prefix then Some (drop 12 a) else None)"

text \<open>\<open>net.CIDRMask\<close>: the first \<open>ones\<close> bits of \<open>n\<close> bytes.\<close>

fun cidr_mask :: "nat \<Rightarrow> nat \<Rightarrow> byte list" where
  "cidr_mask 0 ones = []"
| "cidr_mask (Suc n) ones =
     (if 8 \<le> ones then 255 # cidr_mask n (ones - 8)
      else (NOT (drop_bit ones 255)) # cidr_mask n 0)"

definition and_bytes :: "byte list \<Rightarrow> byte list \<Rightarrow> byte list" where
  "and_bytes a m = map2 (AND) a m"

definition parse_cidr :: "string \<Rightarrow> ipnet option" where
  "parse_cidr s =
     (case cut CHR ''/'' s of (addr, bits, found) \<Rightarrow>
        if \<not> found then None
        else (case parse_addr addr of
            None \<Rightarrow> None
          | Some (is4, a) \<Rightarrow>
              (let len = (if is4 then 4 else 16)
               in if bits = [] \<or> \<not> list_all is_digit bits then None
                  else (case parse_digits 10 0 bits of
                      None \<Rightarrow> None
                    | Some n \<Rightarrow>
                        if 8 * len < n then None
                        else Some \<lparr>net_ip = and_bytes (if is4 then drop 12 a else a) (cidr_mask len n),
                                   net_mask = cidr_mask len n\<rparr>))))"

text \<open>\<open>IPNet.Contains\<close>, with \<open>networkNumberAndMask\<close>.\<close>

definition net_number_mask :: "ipnet \<Rightarrow> (byte list \<times> byte list) option" where
  "net_number_mask n =
     (let a = (case to4 (net_ip n) of Some q \<Rightarrow> q | None \<Rightarrow> net_ip n); m = net_mask n
      in if length a \<noteq> 4 \<and> length a \<noteq> 16 then None
         else if length m = 4 then (if length a = 4 then Some (a, m) else None)
         else if length m = 16 then Some (a, if length a = 4 then drop 12 m else m)
         else None)"

definition net_contains :: "ipnet \<Rightarrow> ip \<Rightarrow> bool" where
  "net_contains n a =
     (let x = (case to4 a of Some q \<Rightarrow> q | None \<Rightarrow> a)
      in case net_number_mask n of
           None \<Rightarrow> x = []
         | Some (nn, m) \<Rightarrow> length x = length nn \<and> and_bytes nn m = and_bytes x m)"

section \<open>Printing addresses\<close>

definition byte_dec :: "byte \<Rightarrow> string" where "byte_dec b = dec_nat (unat b)"

fun groups16 :: "byte list \<Rightarrow> nat list" where
  "groups16 (a # b # r) = (256 * unat a + unat b) # groups16 r"
| "groups16 _ = []"

text \<open>The length of the run of zero groups at every position, and the first longest run.\<close>

definition zero_run :: "nat list \<Rightarrow> nat \<Rightarrow> nat" where
  "zero_run gs i = length (takeWhile ((=) 0) (drop i gs))"

definition longest_run :: "nat list \<Rightarrow> (nat \<times> nat) option" where
  "longest_run gs =
     fold (\<lambda>i best. let r = zero_run gs i in
             if 2 \<le> r \<and> (case best of None \<Rightarrow> True | Some (_, l) \<Rightarrow> l < r) then Some (i, r) else best)
       [0..<length gs] None"

definition hex_nat :: "nat \<Rightarrow> string" where "hex_nat n = digits_of 16 n"

definition ipv6_text :: "nat list \<Rightarrow> string" where
  "ipv6_text gs =
     (case longest_run gs of
        None \<Rightarrow> join_with '':'' (map hex_nat gs)
      | Some (i, r) \<Rightarrow>
          join_with '':'' (map hex_nat (take i gs)) @ ''::'' @
          join_with '':'' (map hex_nat (drop (i + r) gs)))"

definition ip_string :: "ip \<Rightarrow> string" where
  "ip_string a =
     (case to4 a of
        Some q \<Rightarrow> join_with ''.'' (map byte_dec q)
      | None \<Rightarrow> ipv6_text (groups16 a))"

text \<open>\<open>IPNet.String\<close>: the address and the number of leading one bits of its mask.\<close>

definition mask_ones :: "byte list \<Rightarrow> nat" where
  "mask_ones m = length (takeWhile id (concat (map (\<lambda>b. map (\<lambda>i. bit b (7 - i)) [0..<8]) m)))"

definition net_string :: "ipnet \<Rightarrow> string" where
  "net_string n = ip_string (net_ip n) @ ''/'' @ dec_nat (mask_ones (net_mask n))"

section \<open>Laws\<close>

lemma opt_list_Some: "opt_list xs = Some ys \<longleftrightarrow> xs = map Some ys"
  by (induction xs arbitrary: ys rule: opt_list.induct) auto

lemma parse_ipv4_length: "parse_ipv4 s = Some q \<Longrightarrow> length q = 4"
  by (auto simp: parse_ipv4_def Let_def opt_list_Some split: if_splits dest: arg_cong [where f = length])

lemma length_v4_prefix [simp]: "length v4_prefix = 12"
  by (simp add: v4_prefix_def)

lemma length_cidr_mask [simp]: "length (cidr_mask n k) = n"
  by (induction n k rule: cidr_mask.induct) auto

lemma length_and_bytes [simp]: "length (and_bytes a m) = min (length a) (length m)"
  by (simp add: and_bytes_def)

lemma and_bytes_idem: "length a = length m \<Longrightarrow> and_bytes (and_bytes a m) m = and_bytes a m"
  unfolding and_bytes_def by (induction a m rule: list_induct2) (simp_all add: and.assoc)

lemma ipv6_loop_cases:
  assumes "ipv6_loop (Suc k) bs ell s = Some (bs', e, r)"
  obtains q where "bs' = bs @ q" "length q = 4" "length bs + 4 \<le> 16"
  | a b where "bs' = bs @ [a, b]"
  | a b l t where "ipv6_loop k (bs @ [a, b]) l t = Some (bs', e, r)"
  using assms
  by (simp only: ipv6_loop.simps Let_def split: if_split_asm option.split_asm list.split_asm)
     (auto dest: parse_ipv4_length)

lemma ipv6_loop_bytes:
  "ipv6_loop k bs ell s = Some (bs', e, r) \<Longrightarrow> length bs + 2 * k \<le> 16 \<Longrightarrow> length bs' \<le> 16"
proof (induction k arbitrary: bs ell s)
  case (Suc k)
  from Suc.prems(1) show ?case
    by (rule ipv6_loop_cases) (use Suc in fastforce)+
qed auto

lemma parse_ipv6_length: "parse_ipv6 s = Some b \<Longrightarrow> length b = 16"
  unfolding parse_ipv6_def Let_def
  by (auto split: if_splits option.splits dest!: ipv6_loop_bytes)

lemma parse_addr_length: "parse_addr s = Some (v, a) \<Longrightarrow> length a = 16"
  by (auto simp: parse_addr_def dest: parse_ipv4_length parse_ipv6_length split: list.splits if_splits)

lemma parse_ip_length: "parse_ip s = Some a \<Longrightarrow> length a = 16"
  by (auto simp: parse_ip_def dest: parse_addr_length)

end
