(* ===== verification/PkiSan.thy ===== *)
theory PkiSan
  imports GoNet "HOL-Library.Product_Lexorder"
begin

text \<open>
  \<open>internal/pki/san.go\<close>: subject alternative names, their syntax rules and the ordered,
  duplicate-free set of them.  \<open>mail.ParseAddress\<close>, \<open>url.Parse\<close> and the mailbox syntax of
  \<open>crypto/x509\<close> are the parsers of Go's library the model does not restate; they are the
  fields of \<open>parsers\<close>, an argument of everything that depends on them.
\<close>

record url =
  url_scheme :: string
  url_host :: string
  url_text :: string

record parsers =
  mail_ok :: "string \<Rightarrow> bool"
  mailbox_ok :: "string \<Rightarrow> bool"
  url_parse :: "string \<Rightarrow> url option"

datatype dns_error =
    DNSTooLong | DNSEmptyLabel | DNSLabelTooLong | WildcardNotLeftmost | WildcardPartial
  | WildcardTooShort | LabelHyphen string | DNSBadChar char

datatype san_error =
    EmptySANEntry | EmptySANValue string | BadDNS string dns_error | BadIP string | BadEmail string
  | BadURI string | URINotAbsolute string | UnknownSANType string | NoSANs

definition san_dns :: string where "san_dns = ''dns''"
definition san_ip :: string where "san_ip = ''ip''"
definition san_email :: string where "san_email = ''email''"
definition san_uri :: string where "san_uri = ''uri''"

lemmas san_type_defs = san_dns_def san_ip_def san_email_def san_uri_def

record san =
  san_type :: string
  san_value :: string

type_synonym san_set = "san list"

definition mk_san :: "string \<Rightarrow> string \<Rightarrow> san" where
  "mk_san t v = \<lparr>san_type = t, san_value = v\<rparr>"

definition san_string :: "san \<Rightarrow> string" where
  "san_string s = san_type s @ '':'' @ san_value s"

section \<open>DNS names\<close>

definition is_ldh :: "char \<Rightarrow> bool" where
  "is_ldh c = (is_lower c \<or> is_upper c \<or> is_digit c \<or> c = CHR ''-'' \<or> c = CHR ''_'')"

definition validate_dns_label :: "string \<Rightarrow> dns_error + unit" where
  "validate_dns_label l =
     (if prefix ''-'' l \<or> suffix ''-'' l then Inl (LabelHyphen l)
      else forE (\<lambda>c. guardE (is_ldh c) (DNSBadChar c)) l)"

definition validate_label_at :: "nat \<Rightarrow> nat \<Rightarrow> string \<Rightarrow> dns_error + unit" where
  "validate_label_at n i l =
     (if l = [] then Inl DNSEmptyLabel
      else if 63 < length l then Inl DNSLabelTooLong
      else if CHR ''*'' \<in> set l then
        (if i \<noteq> 0 then Inl WildcardNotLeftmost
         else if l \<noteq> ''*'' then Inl WildcardPartial
         else if n < 3 then Inl WildcardTooShort
         else Inr ())
      else validate_dns_label l)"

definition validate_dns_name :: "string \<Rightarrow> dns_error + unit" where
  "validate_dns_name name =
     (if 253 < length name then Inl DNSTooLong
      else let labels = split_on CHR ''.'' name
           in forE (\<lambda>(i, l). validate_label_at (length labels) i l) (enumerate 0 labels))"

section \<open>Entries\<close>

text \<open>\<open>strings.Index(value, ":")\<close> at least 1, then the label before it.\<close>

definition split_san_prefix :: "string \<Rightarrow> (string \<times> string) option" where
  "split_san_prefix v =
     (case cut CHR '':'' v of (label, rest, found) \<Rightarrow>
        if \<not> found \<or> label = [] then None
        else if to_lower label \<in> set [san_dns, san_ip, san_email, san_uri]
        then Some (to_lower label, rest) else None)"

definition detect_san_type :: "string \<Rightarrow> string" where
  "detect_san_type v =
     (if parse_ip v \<noteq> None then san_ip
      else if sublist ''://'' v then san_uri
      else if CHR ''@'' \<in> set v then san_email
      else san_dns)"

definition san_validate :: "parsers \<Rightarrow> san \<Rightarrow> san_error + unit" where
  "san_validate P s =
     (let v = san_value s in
      if v = [] then Inl (EmptySANValue (san_type s))
      else if san_type s = san_dns then map_err (BadDNS v) (validate_dns_name v)
      else if san_type s = san_ip then guardE (parse_ip v \<noteq> None) (BadIP v)
      else if san_type s = san_email then
        (if \<not> mail_ok P v then Inl (BadEmail v) else guardE (count_char CHR ''@'' v = 1) (BadEmail v))
      else if san_type s = san_uri then
        (case url_parse P v of
           None \<Rightarrow> Inl (BadURI v)
         | Some u \<Rightarrow> guardE (url_scheme u \<noteq> []) (URINotAbsolute v))
      else Inl (UnknownSANType (san_type s)))"

definition parse_san :: "parsers \<Rightarrow> string \<Rightarrow> san_error + san" where
  "parse_san P raw =
     (let v = trim_space raw in
      if v = [] then Inl EmptySANEntry
      else let s = (case split_san_prefix v of
                      Some (t, rest) \<Rightarrow> mk_san t (trim_space rest)
                    | None \<Rightarrow> mk_san (detect_san_type v) v)
           in bindE (san_validate P s) (\<lambda>_. Inr s))"

section \<open>Sets\<close>

definition same_san :: "san \<Rightarrow> san \<Rightarrow> bool" where
  "same_san a b = (san_type a = san_type b \<and> equal_fold (san_value a) (san_value b))"

definition san_add :: "san_set \<Rightarrow> san \<Rightarrow> san_set" where
  "san_add s e = (if list_ex (\<lambda>x. same_san x e) s then s else s @ [e])"

definition is_list_sep :: "char \<Rightarrow> bool" where
  "is_list_sep c = (c \<in> set [CHR 0x0A, CHR 0x0D, CHR '','', CHR '';'', CHR '' '', CHR 0x09])"

definition parse_san_list :: "parsers \<Rightarrow> string \<Rightarrow> san_error + san_set" where
  "parse_san_list P raw =
     bindE (mapE (parse_san P) (fields_func is_list_sep [] raw)) (\<lambda>es. Inr (foldl san_add [] es))"

definition san_add_dns :: "san_set \<Rightarrow> string \<Rightarrow> san_set" where
  "san_add_dns s name =
     (if name = [] then s
      else if validate_dns_name name \<noteq> Inr () then s
      else san_add s (mk_san san_dns name))"

definition san_set_validate :: "parsers \<Rightarrow> san_set \<Rightarrow> san_error + unit" where
  "san_set_validate P s = (if s = [] then Inl NoSANs else forE (san_validate P) s)"

definition san_sorted :: "san_set \<Rightarrow> san_set" where
  "san_sorted s = sort_key (\<lambda>e. (san_type e, san_value e)) s"

definition san_strings :: "san_set \<Rightarrow> string list" where
  "san_strings s = map san_string s"

record split_sans =
  sp_dns :: "string list"
  sp_ips :: "ip list"
  sp_emails :: "string list"
  sp_uris :: "url list"

fun san_split_from :: "parsers \<Rightarrow> split_sans \<Rightarrow> san_set \<Rightarrow> san_error + split_sans" where
  "san_split_from P a [] = Inr a"
| "san_split_from P a (e # es) =
     (if san_type e = san_dns then san_split_from P (a\<lparr>sp_dns := sp_dns a @ [san_value e]\<rparr>) es
      else if san_type e = san_ip then
        (case parse_ip (san_value e) of
           None \<Rightarrow> Inl (BadIP (san_value e))
         | Some i \<Rightarrow> san_split_from P (a\<lparr>sp_ips := sp_ips a @ [i]\<rparr>) es)
      else if san_type e = san_email then san_split_from P (a\<lparr>sp_emails := sp_emails a @ [san_value e]\<rparr>) es
      else if san_type e = san_uri then
        (case url_parse P (san_value e) of
           None \<Rightarrow> Inl (BadURI (san_value e))
         | Some u \<Rightarrow> san_split_from P (a\<lparr>sp_uris := sp_uris a @ [u]\<rparr>) es)
      else Inl (UnknownSANType (san_type e)))"

definition no_sans :: split_sans where
  "no_sans = \<lparr>sp_dns = [], sp_ips = [], sp_emails = [], sp_uris = []\<rparr>"

definition san_split :: "parsers \<Rightarrow> san_set \<Rightarrow> san_error + split_sans" where
  "san_split P s = san_split_from P no_sans s"

definition sans_from_certificate_like :: "split_sans \<Rightarrow> san_set" where
  "sans_from_certificate_like c =
     foldl san_add [] (map (mk_san san_dns) (sp_dns c) @ map (\<lambda>i. mk_san san_ip (ip_string i)) (sp_ips c) @
        map (mk_san san_email) (sp_emails c) @ map (\<lambda>u. mk_san san_uri (url_text u)) (sp_uris c))"

definition primary_name :: "san_set \<Rightarrow> string" where
  "primary_name s =
     (case List.find (\<lambda>e. san_type e = san_dns) s of
        Some e \<Rightarrow> san_value e
      | None \<Rightarrow> (case s of [] \<Rightarrow> [] | e # _ \<Rightarrow> san_value e))"

section \<open>Laws of the syntax\<close>

text \<open>The accepted DNS names, stated without the loop.\<close>

definition dns_label_ok :: "string \<Rightarrow> bool" where
  "dns_label_ok l \<longleftrightarrow> l \<noteq> [] \<and> length l \<le> 63 \<and> hd l \<noteq> CHR ''-'' \<and> last l \<noteq> CHR ''-'' \<and>
     (\<forall>c \<in> set l. is_ldh c)"

definition dns_name_ok :: "string \<Rightarrow> bool" where
  "dns_name_ok name \<longleftrightarrow> length name \<le> 253 \<and>
     (let labels = split_on CHR ''.'' name
      in (\<forall>l \<in> set (tl labels). dns_label_ok l) \<and>
         (hd labels = ''*'' \<and> 3 \<le> length labels \<or> dns_label_ok (hd labels)))"

lemma suffix_singleton: "suffix [c] l \<longleftrightarrow> l \<noteq> [] \<and> last l = c"
  by (cases l rule: rev_cases) (auto simp: suffix_def)

lemma prefix_singleton: "prefix [c] l \<longleftrightarrow> l \<noteq> [] \<and> hd l = c"
  by (cases l) auto

lemma star_not_ldh: "\<not> is_ldh CHR ''*''"
  by (simp add: is_ldh_def char_class_defs)

lemma validate_dns_label_iff:
  "l \<noteq> [] \<Longrightarrow> length l \<le> 63 \<Longrightarrow> validate_dns_label l = Inr () \<longleftrightarrow> dns_label_ok l"
  by (auto simp: validate_dns_label_def dns_label_ok_def prefix_singleton suffix_singleton)

lemma validate_label_at_iff:
  "validate_label_at n i l = Inr () \<longleftrightarrow> (l = ''*'' \<and> i = 0 \<and> 3 \<le> n) \<or> dns_label_ok l"
proof (cases "l = [] \<or> 63 < length l")
  case True
  then show ?thesis by (auto simp: validate_label_at_def dns_label_ok_def)
next
  case False
  then have l: "l \<noteq> []" "length l \<le> 63" by auto
  show ?thesis
  proof (cases "CHR ''*'' \<in> set l")
    case True
    then have "\<not> dns_label_ok l" using star_not_ldh by (auto simp: dns_label_ok_def)
    then show ?thesis using l True by (auto simp: validate_label_at_def)
  next
    case no_star: False
    then have "l \<noteq> ''*''" by auto
    then show ?thesis using l no_star by (auto simp: validate_label_at_def validate_dns_label_iff)
  qed
qed

lemma validate_later_labels:
  "0 < i \<Longrightarrow> forE (\<lambda>(j, l). validate_label_at n j l) (enumerate i ws) = Inr () \<longleftrightarrow>
     (\<forall>l \<in> set ws. dns_label_ok l)"
  by (induction ws arbitrary: i) (simp_all add: validate_label_at_iff del: forE_Inr_iff)

lemma validate_dns_name_iff: "validate_dns_name name = Inr () \<longleftrightarrow> dns_name_ok name"
proof -
  obtain w ws where s: "split_on CHR ''.'' name = w # ws"
    by (cases "split_on CHR ''.'' name") auto
  have "forE (\<lambda>(i, l). validate_label_at (length (w # ws)) i l) (enumerate 0 (w # ws)) = Inr () \<longleftrightarrow>
        validate_label_at (length (w # ws)) 0 w = Inr () \<and> (\<forall>l \<in> set ws. dns_label_ok l)"
    by (simp add: validate_later_labels del: forE_Inr_iff)
  then show ?thesis
    by (simp add: validate_dns_name_def dns_name_ok_def s validate_label_at_iff Let_def del: forE_Inr_iff)
       (auto simp: not_less)
qed

lemma parse_san_valid:
  "parse_san P raw = Inr s \<Longrightarrow> san_validate P s = Inr ()"
  by (auto simp: parse_san_def Let_def split: if_splits)

lemma san_validate_value: "san_validate P s = Inr () \<Longrightarrow> san_value s \<noteq> []"
  by (auto simp: san_validate_def Let_def split: if_splits)

lemma san_validate_type:
  "san_validate P s = Inr () \<Longrightarrow> san_type s \<in> {san_dns, san_ip, san_email, san_uri}"
  by (auto simp: san_validate_def Let_def split: if_splits)

lemma san_validate_dns:
  "san_validate P (mk_san san_dns v) = Inr () \<longleftrightarrow> v \<noteq> [] \<and> dns_name_ok v"
  by (auto simp: san_validate_def mk_san_def validate_dns_name_iff)

lemma san_validate_dns_value:
  "san_validate P e = Inr () \<Longrightarrow> san_type e = san_dns \<Longrightarrow> dns_name_ok (san_value e)"
  by (auto simp: san_validate_def Let_def validate_dns_name_iff split: if_splits)

text \<open>\<open>Add\<close> keeps a set free of duplicates up to letter case, and keeps its entries valid.\<close>

definition san_distinct :: "san_set \<Rightarrow> bool" where
  "san_distinct s = distinct (map (\<lambda>e. (san_type e, to_lower (san_value e))) s)"

lemma same_san_key: "same_san a b \<longleftrightarrow>
    (san_type a, to_lower (san_value a)) = (san_type b, to_lower (san_value b))"
  by (auto simp: same_san_def equal_fold_def)

lemma same_san_refl [simp]: "same_san a a"
  by (simp add: same_san_key)

lemma san_add_distinct: "san_distinct s \<Longrightarrow> san_distinct (san_add s e)"
  by (auto simp: san_distinct_def san_add_def same_san_key list_ex_iff image_iff)

lemma set_san_add: "set (san_add s e) \<subseteq> insert e (set s)"
  by (auto simp: san_add_def)

lemma san_add_mono: "set s \<subseteq> set (san_add s e)"
  by (auto simp: san_add_def)

lemma san_add_covers: "\<exists>x \<in> set (san_add s e). same_san x e"
  by (auto simp: san_add_def list_ex_iff)

lemma san_add_absorb: "x \<in> set s \<Longrightarrow> same_san x e \<Longrightarrow> san_add s e = s"
  by (auto simp: san_add_def list_ex_iff)

lemma foldl_san_add:
  shows "san_distinct s \<Longrightarrow> san_distinct (foldl san_add s es)"
    and "set (foldl san_add s es) \<subseteq> set s \<union> set es"
    and "set s \<subseteq> set (foldl san_add s es)"
proof (induction es arbitrary: s)
  case (Cons e es)
  { case 1 then show ?case using Cons.IH(1) [OF san_add_distinct] by simp
  next
    case 2 show ?case using Cons.IH(2) [of "san_add s e"] set_san_add [of s e] by auto
  next
    case 3 show ?case using Cons.IH(3) [of "san_add s e"] san_add_mono [of s e] by auto
  }
qed simp_all

lemma foldl_san_add_covers:
  "e \<in> set es \<Longrightarrow> \<exists>x \<in> set (foldl san_add s es). same_san x e"
proof (induction es arbitrary: s)
  case (Cons a es)
  show ?case
  proof (cases "e = a")
    case True
    then show ?thesis using san_add_covers [of s a] foldl_san_add(3) [of "san_add s a" es] by auto
  qed (use Cons in auto)
qed simp

lemma foldl_san_add_append:
  "san_distinct (s @ es) \<Longrightarrow> foldl san_add s es = s @ es"
proof (induction es arbitrary: s)
  case (Cons e es)
  have "\<forall>x \<in> set s. \<not> same_san x e"
    using Cons.prems by (force simp: san_distinct_def same_san_key image_iff)
  then have "san_add s e = s @ [e]" by (auto simp: san_add_def list_ex_iff)
  with Cons show ?case by simp
qed simp

lemma san_add_dns_valid:
  "\<forall>e \<in> set s. san_validate P e = Inr () \<Longrightarrow> e \<in> set (san_add_dns s n) \<Longrightarrow> san_validate P e = Inr ()"
  using set_san_add [of s "mk_san san_dns n"]
  by (auto simp: san_add_dns_def validate_dns_name_iff san_validate_dns split: if_splits)

lemma san_add_dns_distinct: "san_distinct s \<Longrightarrow> san_distinct (san_add_dns s n)"
  by (simp add: san_add_dns_def san_add_distinct)

lemma san_add_dns_idem: "san_add_dns (san_add_dns s n) n = san_add_dns s n"
  using san_add_covers [of s "mk_san san_dns n"]
  by (auto simp: san_add_dns_def intro: san_add_absorb)

lemma parse_san_list_ok:
  assumes "parse_san_list P raw = Inr s"
  shows "san_distinct s" and "\<forall>e \<in> set s. san_validate P e = Inr ()"
proof -
  obtain es where es: "mapE (parse_san P) (fields_func is_list_sep [] raw) = Inr es" "s = foldl san_add [] es"
    using assms by (auto simp: parse_san_list_def)
  show "san_distinct s" using es foldl_san_add(1) [of "[]" es] by (simp add: san_distinct_def)
  show "\<forall>e \<in> set s. san_validate P e = Inr ()"
    using foldl_san_add(2) [of "[]" es] es by (auto dest!: mapE_set parse_san_valid)
qed

text \<open>A valid entry without surrounding blanks is read back from its text form.\<close>

lemma san_string_head:
  "san_type s \<in> {san_dns, san_ip, san_email, san_uri} \<Longrightarrow>
   cut CHR '':'' (san_string s) = (san_type s, san_value s, True)"
  by (auto simp: san_string_def cut_def san_type_defs)

lemma trim_prefix_text:
  assumes "trim_space v = v" "v \<noteq> []" "t \<noteq> []" "\<not> is_space (hd t)"
  shows "trim_space (t @ v) = t @ v"
proof -
  have "\<not> is_space (last v)"
    using assms trim_chars_last [of is_space v] by (simp add: trim_space_def)
  then show ?thesis
    using assms by (auto simp: trim_space_def intro!: trim_chars_id)
qed

lemma san_types_text:
  assumes "t \<in> {san_dns, san_ip, san_email, san_uri}"
  shows "to_lower t = t" "t \<noteq> []" "\<not> is_space (hd t)"
  using assms by (auto simp: san_type_defs lower_char_def char_class_defs)

lemma parse_san_string:
  assumes "san_validate P s = Inr ()" "trim_space (san_value s) = san_value s"
  shows "parse_san P (san_string s) = Inr s"
proof -
  note ty = san_validate_type [OF assms(1)] and v = san_validate_value [OF assms(1)]
  have "trim_space (san_string s) = san_string s"
    using trim_prefix_text [of "san_value s" "san_type s @ '':''"] san_types_text [OF ty] assms(2) v
    by (simp add: san_string_def)
  moreover have "split_san_prefix (san_string s) = Some (san_type s, san_value s)"
    using ty san_types_text [OF ty] by (auto simp: split_san_prefix_def san_string_head)
  ultimately show ?thesis
    using assms san_types_text [OF ty] by (cases s) (simp add: parse_san_def san_string_def mk_san_def Let_def)
qed

text \<open>Splitting by type keeps every entry, and fails on none that is valid.\<close>

lemma san_split_from_valid:
  "\<forall>e \<in> set es. san_validate P e = Inr () \<Longrightarrow> \<exists>b. san_split_from P a es = Inr b"
  by (induction es arbitrary: a)
     (fastforce simp: san_validate_def Let_def san_type_defs split: if_splits option.splits)+

lemma san_split_from_dns:
  "san_split_from P a es = Inr b \<Longrightarrow>
   sp_dns b = sp_dns a @ map san_value (filter (\<lambda>e. san_type e = san_dns) es)"
  by (induction es arbitrary: a) (auto split: if_splits option.splits simp: san_type_defs)

lemma san_split_from_emails:
  "san_split_from P a es = Inr b \<Longrightarrow>
   sp_emails b = sp_emails a @ map san_value (filter (\<lambda>e. san_type e = san_email) es)"
  by (induction es arbitrary: a) (auto split: if_splits option.splits simp: san_type_defs)

lemma san_split_from_ips:
  "san_split_from P a es = Inr b \<Longrightarrow>
   map Some (sp_ips b) =
     map Some (sp_ips a) @ map (\<lambda>e. parse_ip (san_value e)) (filter (\<lambda>e. san_type e = san_ip) es)"
  by (induction es arbitrary: a) (auto split: if_splits option.splits simp: san_type_defs)

lemma san_split_dns:
  "san_split P s = Inr b \<Longrightarrow> sp_dns b = map san_value (filter (\<lambda>e. san_type e = san_dns) s)"
  unfolding san_split_def by (drule san_split_from_dns) (simp add: no_sans_def)

end
