(* ===== verification/PkiConstraints.thy ===== *)
theory PkiConstraints
  imports PkiSan
begin

text \<open>
  \<open>internal/pki/constraints.go\<close>: the RFC 5280 name constraints of a CA and the test of a
  name against them.  The three name forms share one contract, the locale
  \<open>constraint_form\<close>, interpreted below on the DNS, IP and email tests.
\<close>

datatype constraint_error =
    NotCIDR string | NotDNSConstraint string | BadIPConstraint string
  | OutsideDNS string string | OutsideIP string string | OutsideEmail string string

record name_constraints =
  permitted_dns :: "string list"
  excluded_dns :: "string list"
  permitted_ip :: "string list"
  excluded_ip :: "string list"
  permitted_email :: "string list"
  excluded_email :: "string list"
  permitted_uri :: "string list"
  excluded_uri :: "string list"

definition no_constraints :: name_constraints where
  "no_constraints = \<lparr>permitted_dns = [], excluded_dns = [], permitted_ip = [], excluded_ip = [],
     permitted_email = [], excluded_email = [], permitted_uri = [], excluded_uri = []\<rparr>"

definition nc_is_zero :: "name_constraints \<Rightarrow> bool" where
  "nc_is_zero n = (permitted_dns n = [] \<and> excluded_dns n = [] \<and> permitted_ip n = [] \<and> excluded_ip n = [] \<and>
     permitted_email n = [] \<and> excluded_email n = [] \<and> permitted_uri n = [] \<and> excluded_uri n = [])"

definition clean_list :: "string list \<Rightarrow> string list" where
  "clean_list vs = filter (\<lambda>v. v \<noteq> []) (map (\<lambda>r. to_lower (trim_space r)) vs)"

definition nc_normalize :: "name_constraints \<Rightarrow> name_constraints" where
  "nc_normalize n = \<lparr>permitted_dns = clean_list (permitted_dns n), excluded_dns = clean_list (excluded_dns n),
     permitted_ip = clean_list (permitted_ip n), excluded_ip = clean_list (excluded_ip n),
     permitted_email = clean_list (permitted_email n), excluded_email = clean_list (excluded_email n),
     permitted_uri = clean_list (permitted_uri n), excluded_uri = clean_list (excluded_uri n)\<rparr>"

definition nc_validate :: "name_constraints \<Rightarrow> constraint_error + unit" where
  "nc_validate n =
     bindE (forE (\<lambda>c. guardE (parse_cidr c \<noteq> None) (NotCIDR c)) (permitted_ip n @ excluded_ip n)) (\<lambda>_.
       forE (\<lambda>d. guardE (\<not> list_ex (\<lambda>c. c \<in> set ''*/ '') d) (NotDNSConstraint d))
         (permitted_dns n @ excluded_dns n))"

definition parse_cidrs :: "string list \<Rightarrow> constraint_error + ipnet list" where
  "parse_cidrs = mapE (\<lambda>raw. of_opt (BadIPConstraint raw) (parse_cidr (trim_space raw)))"

definition ip_nets :: "name_constraints \<Rightarrow> constraint_error + (ipnet list \<times> ipnet list)" where
  "ip_nets n = bindE (parse_cidrs (permitted_ip n)) (\<lambda>p.
     bindE (parse_cidrs (excluded_ip n)) (\<lambda>e. Inr (p, e)))"

section \<open>The tests\<close>

definition dns_within :: "string \<Rightarrow> string \<Rightarrow> bool" where
  "dns_within name c =
     (let c = trim_prefix ''.'' (to_lower (trim_suffix ''.'' (trim_space c)))
      in if c = [] then False else name = c \<or> suffix (''.'' @ c) name)"

definition email_within :: "string \<Rightarrow> string \<Rightarrow> bool" where
  "email_within address c =
     (let c = to_lower (trim_space c)
      in if c = [] then False
         else if CHR ''@'' \<in> set c then address = c
         else (case cut CHR ''@'' address of (_, host, ok) \<Rightarrow>
                 if \<not> ok then False
                 else if prefix ''.'' c then suffix c host
                 else host = c))"

definition dns_test_name :: "string \<Rightarrow> string" where
  "dns_test_name name = trim_prefix ''*.'' (to_lower (trim_suffix ''.'' (trim_space name)))"

definition permits_dns :: "name_constraints \<Rightarrow> string \<Rightarrow> bool" where
  "permits_dns n name =
     (let name = dns_test_name name
      in if name = [] then False
         else if list_ex (dns_within name) (excluded_dns n) then False
         else if permitted_dns n = [] then True
         else list_ex (dns_within name) (permitted_dns n))"

definition permits_ip :: "name_constraints \<Rightarrow> ip option \<Rightarrow> bool" where
  "permits_ip n addr = (case addr of
       None \<Rightarrow> False
     | Some a \<Rightarrow> (case ip_nets n of
           Inl _ \<Rightarrow> False
         | Inr (permitted, excluded) \<Rightarrow>
             if list_ex (\<lambda>w. net_contains w a) excluded then False
             else if permitted = [] then True
             else list_ex (\<lambda>w. net_contains w a) permitted))"

definition permits_email :: "name_constraints \<Rightarrow> string \<Rightarrow> bool" where
  "permits_email n address =
     (let address = to_lower (trim_space address)
      in if address = [] then False
         else if list_ex (email_within address) (excluded_email n) then False
         else if permitted_email n = [] then True
         else list_ex (email_within address) (permitted_email n))"

definition describe :: "string list \<Rightarrow> string list \<Rightarrow> string" where
  "describe permitted excluded =
     (if permitted = [] then ''anything'' else join_with '', '' permitted) @
     (if excluded = [] then [] else ''; excluded: '' @ join_with '', '' excluded)"

definition permits_san :: "name_constraints \<Rightarrow> san \<Rightarrow> constraint_error + unit" where
  "permits_san n s =
     (if san_type s = san_dns then
        guardE (permits_dns n (san_value s)) (OutsideDNS (san_value s) (describe (permitted_dns n) (excluded_dns n)))
      else if san_type s = san_ip then
        guardE (permits_ip n (parse_ip (san_value s)))
          (OutsideIP (san_value s) (describe (permitted_ip n) (excluded_ip n)))
      else if san_type s = san_email then
        guardE (permits_email n (san_value s))
          (OutsideEmail (san_value s) (describe (permitted_email n) (excluded_email n)))
      else Inr ())"

definition permits_sans :: "name_constraints \<Rightarrow> san_set \<Rightarrow> constraint_error + unit" where
  "permits_sans n s = (if nc_is_zero n then Inr () else forE (permits_san n) s)"

section \<open>The contract of a name form\<close>

text \<open>
  A form tests a name against a permitted and an excluded list.  \<open>usable\<close> is what the test
  requires of the lists and the name before it looks at any entry.
\<close>

locale constraint_form =
  fixes within :: "'n \<Rightarrow> string \<Rightarrow> bool"
    and usable :: "string list \<Rightarrow> string list \<Rightarrow> 'n \<Rightarrow> bool"
    and verdict :: "string list \<Rightarrow> string list \<Rightarrow> 'n \<Rightarrow> bool"
  assumes verdict_iff:
      "verdict P E n \<longleftrightarrow> usable P E n \<and> \<not> list_ex (within n) E \<and> (P = [] \<or> list_ex (within n) P)"
    and usable_antimono: "set P \<subseteq> set P' \<Longrightarrow> set E \<subseteq> set E' \<Longrightarrow> usable P' E' n \<Longrightarrow> usable P E n"
begin

lemma excluded_wins: "c \<in> set E \<Longrightarrow> within n c \<Longrightarrow> \<not> verdict P E n"
  by (auto simp: verdict_iff list_ex_iff)

lemma permitted_needed: "verdict P E n \<Longrightarrow> P \<noteq> [] \<Longrightarrow> \<exists>c \<in> set P. within n c"
  by (auto simp: verdict_iff list_ex_iff)

lemma exclusion_narrows: "set E \<subseteq> set E' \<Longrightarrow> verdict P E' n \<Longrightarrow> verdict P E n"
  using usable_antimono [of P P E E' n] by (auto simp: verdict_iff list_ex_iff)

lemma permission_narrows:
  "P \<noteq> [] \<Longrightarrow> set P \<subseteq> set P' \<Longrightarrow> usable P' E n \<Longrightarrow> verdict P E n \<Longrightarrow> verdict P' E n"
  by (auto simp: verdict_iff list_ex_iff)

lemma verdict_set_cong:
  "set P = set P' \<Longrightarrow> set E = set E' \<Longrightarrow> verdict P E n = verdict P' E' n"
  using usable_antimono [of P P' E E' n] usable_antimono [of P' P E' E n]
  by (auto simp: verdict_iff list_ex_iff)

end

definition dns_usable :: "string list \<Rightarrow> string list \<Rightarrow> string \<Rightarrow> bool" where
  "dns_usable P E n = (dns_test_name n \<noteq> [])"

definition ip_usable :: "string list \<Rightarrow> string list \<Rightarrow> ip option \<Rightarrow> bool" where
  "ip_usable P E a = (a \<noteq> None \<and> (\<forall>c \<in> set P \<union> set E. parse_cidr (trim_space c) \<noteq> None))"

definition ip_within :: "ip option \<Rightarrow> string \<Rightarrow> bool" where
  "ip_within a c = (case (a, parse_cidr (trim_space c)) of
     (Some x, Some w) \<Rightarrow> net_contains w x | _ \<Rightarrow> False)"

definition email_usable :: "string list \<Rightarrow> string list \<Rightarrow> string \<Rightarrow> bool" where
  "email_usable P E n = (trim_space n \<noteq> [])"

lemma parse_cidrs_iff:
  "parse_cidrs vs = Inr ws \<longleftrightarrow> map Some ws = map (\<lambda>c. parse_cidr (trim_space c)) vs"
  unfolding parse_cidrs_def by (induction vs arbitrary: ws) (auto simp: Cons_eq_map_conv)

lemma parse_cidrs_ok: "(\<exists>ws. parse_cidrs vs = Inr ws) \<longleftrightarrow> (\<forall>c \<in> set vs. parse_cidr (trim_space c) \<noteq> None)"
  unfolding parse_cidrs_def by (induction vs) auto

lemma list_ex_nets:
  "map Some ws = map (\<lambda>c. parse_cidr (trim_space c)) vs \<Longrightarrow>
   list_ex (\<lambda>w. net_contains w a) ws = list_ex (ip_within (Some a)) vs"
  by (induction ws arbitrary: vs) (auto simp: ip_within_def Cons_eq_map_conv split: option.splits)

lemma permits_ip_iff:
  "permits_ip n a \<longleftrightarrow> ip_usable (permitted_ip n) (excluded_ip n) a \<and>
     \<not> list_ex (ip_within a) (excluded_ip n) \<and>
     (permitted_ip n = [] \<or> list_ex (ip_within a) (permitted_ip n))"
proof (cases "ip_usable (permitted_ip n) (excluded_ip n) a")
  case False
  then have "a = None \<or> (\<exists>e. ip_nets n = Inl e)"
    using parse_cidrs_ok [of "permitted_ip n"] parse_cidrs_ok [of "excluded_ip n"]
    by (cases "parse_cidrs (permitted_ip n)"; cases "parse_cidrs (excluded_ip n)")
       (auto simp: ip_usable_def ip_nets_def)
  then show ?thesis using False by (cases a) (auto simp: permits_ip_def)
next
  case True
  then obtain x where x: "a = Some x" by (auto simp: ip_usable_def)
  obtain ps es where p: "parse_cidrs (permitted_ip n) = Inr ps" and e: "parse_cidrs (excluded_ip n) = Inr es"
    using True parse_cidrs_ok [of "permitted_ip n"] parse_cidrs_ok [of "excluded_ip n"]
    by (auto simp: ip_usable_def)
  have "ps = [] \<longleftrightarrow> permitted_ip n = []"
    using p mapE_length by (fastforce simp: parse_cidrs_def)
  then show ?thesis
    using True p e list_ex_nets [OF p [unfolded parse_cidrs_iff]] list_ex_nets [OF e [unfolded parse_cidrs_iff]]
    by (simp add: permits_ip_def x ip_nets_def)
qed

interpretation dns_form: constraint_form "\<lambda>n. dns_within (dns_test_name n)" dns_usable
  "\<lambda>P E. permits_dns (no_constraints\<lparr>permitted_dns := P, excluded_dns := E\<rparr>)"
  by unfold_locales (auto simp: permits_dns_def dns_usable_def Let_def no_constraints_def)

interpretation ip_form: constraint_form ip_within ip_usable
  "\<lambda>P E. permits_ip (no_constraints\<lparr>permitted_ip := P, excluded_ip := E\<rparr>)"
  by unfold_locales (simp add: permits_ip_iff no_constraints_def, auto simp: ip_usable_def)

interpretation email_form: constraint_form "\<lambda>n. email_within (to_lower (trim_space n))" email_usable
  "\<lambda>P E. permits_email (no_constraints\<lparr>permitted_email := P, excluded_email := E\<rparr>)"
  by unfold_locales (auto simp: permits_email_def email_usable_def Let_def no_constraints_def)

text \<open>A test reads only the two lists of its own form.\<close>

lemma permits_dns_form:
  "permits_dns n = permits_dns (no_constraints\<lparr>permitted_dns := permitted_dns n, excluded_dns := excluded_dns n\<rparr>)"
  by (simp add: permits_dns_def fun_eq_iff)

lemma permits_ip_form:
  "permits_ip n = permits_ip (no_constraints\<lparr>permitted_ip := permitted_ip n, excluded_ip := excluded_ip n\<rparr>)"
  by (simp add: permits_ip_iff no_constraints_def fun_eq_iff)

lemma permits_email_form:
  "permits_email n = permits_email (no_constraints\<lparr>permitted_email := permitted_email n,
     excluded_email := excluded_email n\<rparr>)"
  by (simp add: permits_email_def fun_eq_iff)

end
