(* ===== verification/PkiSubject.thy ===== *)
theory PkiSubject
  imports GoText
begin

text \<open>
  \<open>internal/pki/subject.go\<close>: the flattened distinguished name, its validation and
  normalisation, and its conversion to and from the form \<open>crypto/x509\<close> signs.
\<close>

datatype subject_error = CNRequired | CNTooLong | BadCountry string

record subject =
  common_name :: string
  country :: string
  province :: string
  locality :: string
  organization :: string
  organizational_unit :: string
  email :: string
  subject_serial :: string

definition subject_validate :: "subject \<Rightarrow> subject_error + unit" where
  "subject_validate s =
     (if trim_space (common_name s) = [] then Inl CNRequired
      else if 64 < length (common_name s) then Inl CNTooLong
      else if country s \<noteq> [] \<and> length (country s) \<noteq> 2 then Inl (BadCountry (country s))
      else Inr ())"

definition subject_normalize :: "subject \<Rightarrow> subject" where
  "subject_normalize s = s\<lparr>
     common_name := trim_space (common_name s),
     country := to_upper (trim_space (country s)),
     province := trim_space (province s),
     locality := trim_space (locality s),
     organization := trim_space (organization s),
     organizational_unit := trim_space (organizational_unit s),
     email := trim_space (email s)\<rparr>"

section \<open>The x509 form\<close>

type_synonym oid = "int list"

record pkix_name =
  pn_common_name :: string
  pn_serial :: string
  pn_country :: "string list"
  pn_province :: "string list"
  pn_locality :: "string list"
  pn_organization :: "string list"
  pn_unit :: "string list"
  pn_names :: "(oid \<times> string) list"
  pn_extra :: "(oid \<times> string) list"

definition oid_email :: oid where "oid_email = [1, 2, 840, 113549, 1, 9, 1]"

definition append_if_set :: "string list \<Rightarrow> string \<Rightarrow> string list" where
  "append_if_set dst v = (if v \<noteq> [] then dst @ [v] else dst)"

definition to_pkix :: "subject \<Rightarrow> pkix_name" where
  "to_pkix s = \<lparr>
     pn_common_name = common_name s,
     pn_serial = subject_serial s,
     pn_country = append_if_set [] (country s),
     pn_province = append_if_set [] (province s),
     pn_locality = append_if_set [] (locality s),
     pn_organization = append_if_set [] (organization s),
     pn_unit = append_if_set [] (organizational_unit s),
     pn_names = [],
     pn_extra = (if email s \<noteq> [] then [(oid_email, email s)] else [])\<rparr>"

definition first :: "string list \<Rightarrow> string" where
  "first vs = (case vs of [] \<Rightarrow> [] | v # _ \<Rightarrow> v)"

definition pick_email :: "oid \<times> string \<Rightarrow> string \<Rightarrow> string" where
  "pick_email atv e = (if fst atv = oid_email then snd atv else e)"

definition subject_from_pkix :: "pkix_name \<Rightarrow> subject" where
  "subject_from_pkix n = \<lparr>
     common_name = pn_common_name n,
     country = first (pn_country n),
     province = first (pn_province n),
     locality = first (pn_locality n),
     organization = first (pn_organization n),
     organizational_unit = first (pn_unit n),
     email = fold pick_email (pn_names n @ pn_extra n) [],
     subject_serial = pn_serial n\<rparr>"

text \<open>
  What encoding a name and parsing it back does to it: every attribute ends up in
  \<open>Names\<close>, in the order of \<open>pkix.Name.ToRDNSequence\<close>, and \<open>ExtraNames\<close> is empty.
\<close>

definition attrs :: "oid \<Rightarrow> string list \<Rightarrow> (oid \<times> string) list" where
  "attrs t vs = map (Pair t) vs"

definition reparse_name :: "pkix_name \<Rightarrow> pkix_name" where
  "reparse_name n = n\<lparr>
     pn_names := attrs [2,5,4,6] (pn_country n) @ attrs [2,5,4,10] (pn_organization n) @
                 attrs [2,5,4,11] (pn_unit n) @ attrs [2,5,4,7] (pn_locality n) @
                 attrs [2,5,4,8] (pn_province n) @
                 attrs [2,5,4,3] (append_if_set [] (pn_common_name n)) @
                 attrs [2,5,4,5] (append_if_set [] (pn_serial n)) @ pn_extra n,
     pn_extra := []\<rparr>"

definition dn_part :: "string \<Rightarrow> string \<Rightarrow> string" where
  "dn_part key v = (if v \<noteq> [] then ''/'' @ key @ ''='' @ v else [])"

definition dn :: "subject \<Rightarrow> string" where
  "dn s = (let b = dn_part ''C'' (country s) @ dn_part ''ST'' (province s) @
                   dn_part ''L'' (locality s) @ dn_part ''O'' (organization s) @
                   dn_part ''OU'' (organizational_unit s) @ dn_part ''CN'' (common_name s) @
                   dn_part ''emailAddress'' (email s)
           in if b = [] then ''/'' else b)"

section \<open>Laws\<close>

lemma subject_normalize_cn [simp]: "common_name (subject_normalize s) = trim_space (common_name s)"
  by (simp add: subject_normalize_def)

lemma to_upper_idem: "to_upper (to_upper s) = to_upper s"
  by (induction s) (auto simp: to_upper_def upper_char_def is_lower_def)

lemma trim_to_upper: "trim_space (to_upper (trim_space s)) = to_upper (trim_space s)"
proof (cases "trim_space s = []")
  case False
  have sp: "is_space (upper_char c) = is_space c" for c
    by (auto simp: upper_char_def is_lower_def is_space_def)
  have "\<not> is_space (hd (trim_space s))" "\<not> is_space (last (trim_space s))"
    using False trim_chars_hd trim_chars_last by (auto simp: trim_space_def)
  then have "trim_chars is_space (to_upper (trim_space s)) = to_upper (trim_space s)"
    using False by (intro trim_chars_id) (auto simp: to_upper_def hd_map last_map sp)
  then show ?thesis by (simp add: trim_space_def)
qed (simp add: to_upper_def)

lemma subject_normalize_idem [simp]: "subject_normalize (subject_normalize s) = subject_normalize s"
  by (simp add: subject_normalize_def trim_to_upper to_upper_idem)

lemma first_append_if_set [simp]: "first (append_if_set [] v) = v"
  by (simp add: first_def append_if_set_def)

lemma fold_attrs_other: "t \<noteq> oid_email \<Longrightarrow> fold pick_email (attrs t vs) e = e"
  by (induction vs arbitrary: e) (auto simp: attrs_def pick_email_def)

lemma subject_pkix_roundtrip [simp]: "subject_from_pkix (to_pkix s) = s"
  by (simp add: subject_from_pkix_def to_pkix_def pick_email_def)

lemma reparse_email: "fold pick_email (pn_names (reparse_name n)) e = fold pick_email (pn_extra n) e"
proof -
  have ne: "[2,5,4,6] \<noteq> oid_email" "[2,5,4,10] \<noteq> oid_email" "[2,5,4,11] \<noteq> oid_email"
    "[2,5,4,7] \<noteq> oid_email" "[2,5,4,8] \<noteq> oid_email" "[2,5,4,3] \<noteq> oid_email" "[2,5,4,5] \<noteq> oid_email"
    by (simp_all add: oid_email_def)
  show ?thesis
    by (simp add: reparse_name_def ne [THEN fold_attrs_other])
qed

lemma reparse_fields [simp]:
  "pn_common_name (reparse_name n) = pn_common_name n" "pn_serial (reparse_name n) = pn_serial n"
  "pn_country (reparse_name n) = pn_country n" "pn_province (reparse_name n) = pn_province n"
  "pn_locality (reparse_name n) = pn_locality n" "pn_organization (reparse_name n) = pn_organization n"
  "pn_unit (reparse_name n) = pn_unit n" "pn_extra (reparse_name n) = []"
  by (simp_all add: reparse_name_def)

lemma subject_reparse: "subject_from_pkix (reparse_name (to_pkix s)) = s"
  by (simp add: subject_from_pkix_def reparse_email) (simp add: to_pkix_def pick_email_def)

lemma subject_validate_cn: "subject_validate s = Inr () \<Longrightarrow> common_name s \<noteq> []"
  by (auto simp: subject_validate_def split: if_splits)

end
