(* ===== verification/PkiKeys.thy ===== *)
theory PkiKeys
  imports PkiSubject
begin

text \<open>
  \<open>internal/pki/keys.go\<close>: key specifications, their text form, and key material.  A key is
  symbolic: its algorithm, its size or curve, and an identity; a private key is known by the
  public key it belongs to.
\<close>

datatype key_error =
    UnsupportedKeyAlgorithm string | BadRSASize int | BadCurve string | UnknownAlgorithm string
  | UnsupportedKeyType

record key_spec =
  algorithm :: string
  key_size :: int
  curve :: string

definition algo_rsa :: string where "algo_rsa = ''rsa''"
definition algo_ecdsa :: string where "algo_ecdsa = ''ecdsa''"
definition algo_ed25519 :: string where "algo_ed25519 = ''ed25519''"

definition no_spec :: key_spec where
  "no_spec = \<lparr>algorithm = [], key_size = 0, curve = []\<rparr>"

definition rsa_spec :: "int \<Rightarrow> key_spec" where
  "rsa_spec n = \<lparr>algorithm = algo_rsa, key_size = n, curve = []\<rparr>"

definition ecdsa_spec :: "string \<Rightarrow> key_spec" where
  "ecdsa_spec c = \<lparr>algorithm = algo_ecdsa, key_size = 0, curve = c\<rparr>"

definition ed25519_spec :: key_spec where
  "ed25519_spec = \<lparr>algorithm = algo_ed25519, key_size = 0, curve = []\<rparr>"

definition supported_key_specs :: "string list" where
  "supported_key_specs =
     [''ecdsa-p256'', ''ecdsa-p384'', ''ecdsa-p521'', ''rsa-2048'', ''rsa-3072'', ''rsa-4096'', ''ed25519'']"

definition spec_string :: "key_spec \<Rightarrow> string" where
  "spec_string k =
     (if algorithm k = algo_rsa then ''rsa-'' @ dec_int (key_size k)
      else if algorithm k = algo_ecdsa then ''ecdsa-'' @ to_lower (remove_chars ''-'' (curve k))
      else if algorithm k = algo_ed25519 then algo_ed25519
      else algorithm k)"

definition spec_display :: "key_spec \<Rightarrow> string" where
  "spec_display k =
     (if algorithm k = algo_rsa then ''RSA '' @ dec_int (key_size k)
      else if algorithm k = algo_ecdsa then ''ECDSA '' @ curve k
      else if algorithm k = algo_ed25519 then ''Ed25519''
      else algorithm k)"

definition parse_key_spec :: "string \<Rightarrow> key_error + key_spec" where
  "parse_key_spec s =
     (let n = replace_char CHR ''_'' CHR ''-'' (to_lower (trim_space s))
      in if n \<in> set [[], algo_ecdsa, ''ecdsa-p256'', ''ecdsa-p-256'', ''p256'', ''prime256v1'']
         then Inr (ecdsa_spec ''P-256'')
         else if n \<in> set [''ecdsa-p384'', ''ecdsa-p-384'', ''p384'', ''secp384r1'']
         then Inr (ecdsa_spec ''P-384'')
         else if n \<in> set [''ecdsa-p521'', ''ecdsa-p-521'', ''p521'', ''secp521r1'']
         then Inr (ecdsa_spec ''P-521'')
         else if n \<in> set [algo_ed25519, ''ed-25519''] then Inr ed25519_spec
         else if n \<in> set [algo_rsa, ''rsa-2048''] then Inr (rsa_spec 2048)
         else if n = ''rsa-3072'' then Inr (rsa_spec 3072)
         else if n = ''rsa-4096'' then Inr (rsa_spec 4096)
         else Inl (UnsupportedKeyAlgorithm s))"

definition spec_validate :: "key_spec \<Rightarrow> key_error + unit" where
  "spec_validate k =
     (if algorithm k = algo_rsa then
        (if key_size k \<in> {2048, 3072, 4096} then Inr () else Inl (BadRSASize (key_size k)))
      else if algorithm k = algo_ecdsa then
        (if curve k \<in> set [''P-256'', ''P-384'', ''P-521''] then Inr () else Inl (BadCurve (curve k)))
      else if algorithm k = algo_ed25519 then Inr ()
      else Inl (UnknownAlgorithm (algorithm k)))"

section \<open>Key material\<close>

datatype public_key =
    RsaPub nat nat \<comment> \<open>modulus bits, identity\<close>
  | EcdsaPub string nat \<comment> \<open>curve name, identity\<close>
  | Ed25519Pub nat
  | OtherPub nat

datatype private_key = PrivKey (public_of: public_key)

definition spec_of :: "public_key \<Rightarrow> key_error + key_spec" where
  "spec_of k = (case k of
     RsaPub n _ \<Rightarrow> Inr (rsa_spec (int n))
   | EcdsaPub c _ \<Rightarrow> Inr (ecdsa_spec c)
   | Ed25519Pub _ \<Rightarrow> Inr ed25519_spec
   | OtherPub _ \<Rightarrow> Inl UnsupportedKeyType)"

text \<open>\<open>kid\<close> stands for the randomness the key generator draws.\<close>

definition generate_key :: "nat \<Rightarrow> key_spec \<Rightarrow> key_error + private_key" where
  "generate_key kid k =
     bindE (spec_validate k) (\<lambda>_.
       if algorithm k = algo_rsa then Inr (PrivKey (RsaPub (nat (key_size k)) kid))
       else if algorithm k = algo_ecdsa then Inr (PrivKey (EcdsaPub (curve k) kid))
       else if algorithm k = algo_ed25519 then Inr (PrivKey (Ed25519Pub kid))
       else Inl (UnknownAlgorithm (algorithm k)))"

definition key_matches :: "private_key \<Rightarrow> public_key \<Rightarrow> bool" where
  "key_matches k p = (case public_of k of OtherPub _ \<Rightarrow> False | q \<Rightarrow> q = p)"

datatype signature_algorithm =
    SHA256WithRSA | SHA384WithRSA | SHA512WithRSA
  | ECDSAWithSHA256 | ECDSAWithSHA384 | ECDSAWithSHA512
  | PureEd25519 | UnknownSignatureAlgorithm

definition signature_algorithm_for :: "private_key \<Rightarrow> signature_algorithm" where
  "signature_algorithm_for k = (case public_of k of
     RsaPub n _ \<Rightarrow> if 4096 \<le> n then SHA512WithRSA else if 3072 \<le> n then SHA384WithRSA else SHA256WithRSA
   | EcdsaPub c _ \<Rightarrow> if c = ''P-521'' then ECDSAWithSHA512
                     else if c = ''P-384'' then ECDSAWithSHA384 else ECDSAWithSHA256
   | Ed25519Pub _ \<Rightarrow> PureEd25519
   | OtherPub _ \<Rightarrow> UnknownSignatureAlgorithm)"

section \<open>Laws\<close>

lemmas spec_defs = rsa_spec_def ecdsa_spec_def ed25519_spec_def algo_rsa_def algo_ecdsa_def algo_ed25519_def

lemmas key_text_eval = char_of_eval dec_int_def dec_nat_def digits_of.simps digit_char_def trim_space_def
  trim_chars_def trim_left_def trim_right_def lower_char_def char_class_defs remove_chars_def
  replace_char_def

lemma parse_key_spec_result:
  "parse_key_spec s = Inr k \<Longrightarrow>
   k \<in> {ecdsa_spec ''P-256'', ecdsa_spec ''P-384'', ecdsa_spec ''P-521'', ed25519_spec,
        rsa_spec 2048, rsa_spec 3072, rsa_spec 4096}"
  by (auto simp: parse_key_spec_def Let_def split: if_split_asm)

lemma spec_validate_cases:
  "spec_validate k = Inr () \<longleftrightarrow>
     algorithm k = algo_rsa \<and> key_size k \<in> {2048, 3072, 4096} \<or>
     algorithm k = algo_ecdsa \<and> curve k \<in> set [''P-256'', ''P-384'', ''P-521''] \<or>
     algorithm k = algo_ed25519"
  by (auto simp: spec_validate_def spec_defs)

definition spec_of_key :: "private_key \<Rightarrow> key_spec" where
  "spec_of_key p = (case spec_of (public_of p) of Inl _ \<Rightarrow> no_spec | Inr k \<Rightarrow> k)"

lemma generate_key_spec:
  assumes "generate_key kid k = Inr p"
  shows "spec_of (public_of p) = Inr (spec_of_key p)"
    and "spec_string (spec_of_key p) = spec_string k"
    and "spec_validate (spec_of_key p) = Inr ()"
proof -
  have v: "spec_validate k = Inr ()" using assms by (simp add: generate_key_def)
  have "spec_of (public_of p) = Inr (spec_of_key p) \<and> spec_string (spec_of_key p) = spec_string k \<and>
        spec_validate (spec_of_key p) = Inr ()"
    using v assms unfolding spec_validate_cases generate_key_def
    by (elim disjE) (auto simp: spec_of_key_def spec_of_def spec_string_def spec_validate_def spec_defs)
  then show "spec_of (public_of p) = Inr (spec_of_key p)"
    and "spec_string (spec_of_key p) = spec_string k" and "spec_validate (spec_of_key p) = Inr ()"
    by simp_all
qed

text \<open>What \<open>ParseKeySpec\<close> returns is valid, and printing it gives a text it reads back.\<close>

lemma parse_key_spec_canonical:
  assumes "parse_key_spec s = Inr k"
  shows "spec_validate k = Inr ()" and "parse_key_spec (spec_string k) = Inr k"
    and "spec_string k \<in> set supported_key_specs"
proof -
  have "\<forall>k \<in> set [ecdsa_spec ''P-256'', ecdsa_spec ''P-384'', ecdsa_spec ''P-521'', ed25519_spec,
        rsa_spec 2048, rsa_spec 3072, rsa_spec 4096].
      spec_validate k = Inr () \<and> parse_key_spec (spec_string k) = Inr k \<and>
      spec_string k \<in> set supported_key_specs"
    by (simp add: parse_key_spec_def spec_string_def spec_validate_def supported_key_specs_def spec_defs
        key_text_eval)
  with parse_key_spec_result [OF assms]
  show "spec_validate k = Inr ()" and "parse_key_spec (spec_string k) = Inr k"
    and "spec_string k \<in> set supported_key_specs"
    by auto
qed

lemma supported_key_specs_parse:
  "\<forall>s \<in> set supported_key_specs. \<exists>k. parse_key_spec s = Inr k \<and> spec_string k = s"
proof -
  have "\<forall>s \<in> set supported_key_specs.
      (case parse_key_spec s of Inl _ \<Rightarrow> False | Inr k \<Rightarrow> spec_string k = s)"
    by (simp add: parse_key_spec_def spec_string_def supported_key_specs_def spec_defs key_text_eval)
  then show ?thesis by (fastforce split: sum.splits)
qed

end
