(* ===== verification/PkiProfile.thy ===== *)
theory PkiProfile
  imports GoText "HOL-Library.Word"
begin

text \<open>
  \<open>internal/pki/profile.go\<close>: the issuance profiles, and the names of key usages and
  extended key usages.  A key usage set is the bit mask of \<open>x509.KeyUsage\<close>, a 64-bit word;
  an extended key usage is its \<open>x509.ExtKeyUsage\<close> number.
\<close>

unbundle bit_operations_syntax

datatype profile_error = UnknownProfile string | UnknownKeyUsage string | UnknownExtKeyUsage string

type_synonym key_usage = "64 word"
type_synonym ext_key_usage = int

definition ku_digital_signature :: key_usage where "ku_digital_signature = 1"
definition ku_content_commitment :: key_usage where "ku_content_commitment = 2"
definition ku_key_encipherment :: key_usage where "ku_key_encipherment = 4"
definition ku_data_encipherment :: key_usage where "ku_data_encipherment = 8"
definition ku_key_agreement :: key_usage where "ku_key_agreement = 16"
definition ku_cert_sign :: key_usage where "ku_cert_sign = 32"
definition ku_crl_sign :: key_usage where "ku_crl_sign = 64"
definition ku_encipher_only :: key_usage where "ku_encipher_only = 128"
definition ku_decipher_only :: key_usage where "ku_decipher_only = 256"

lemmas ku_defs = ku_digital_signature_def ku_content_commitment_def ku_key_encipherment_def
  ku_data_encipherment_def ku_key_agreement_def ku_cert_sign_def ku_crl_sign_def
  ku_encipher_only_def ku_decipher_only_def

definition eku_server_auth :: ext_key_usage where "eku_server_auth = 1"
definition eku_client_auth :: ext_key_usage where "eku_client_auth = 2"
definition eku_code_signing :: ext_key_usage where "eku_code_signing = 3"

lemmas eku_defs = eku_server_auth_def eku_client_auth_def eku_code_signing_def

section \<open>Profiles\<close>

record profile =
  profile_name :: string
  profile_key_usage :: key_usage
  profile_ext_key_usage :: "ext_key_usage list"
  profile_validity :: int
  profile_is_ca :: bool

definition profile_server :: string where "profile_server = ''server''"
definition profile_client :: string where "profile_client = ''client''"
definition profile_peer :: string where "profile_peer = ''peer''"
definition profile_code_signing :: string where "profile_code_signing = ''code-signing''"
definition profile_intermediate :: string where "profile_intermediate = ''intermediate''"
definition profile_root :: string where "profile_root = ''root''"

lemmas profile_name_defs = profile_server_def profile_client_def profile_peer_def
  profile_code_signing_def profile_intermediate_def profile_root_def

definition max_leaf_validity_days :: int where "max_leaf_validity_days = 397"

definition root_profile :: profile where
  "root_profile = \<lparr>profile_name = profile_root,
     profile_key_usage = ku_cert_sign OR ku_crl_sign OR ku_digital_signature,
     profile_ext_key_usage = [], profile_validity = 3650, profile_is_ca = True\<rparr>"

definition intermediate_profile :: profile where
  "intermediate_profile = \<lparr>profile_name = profile_intermediate,
     profile_key_usage = ku_cert_sign OR ku_crl_sign OR ku_digital_signature,
     profile_ext_key_usage = [], profile_validity = 1825, profile_is_ca = True\<rparr>"

definition profiles :: "(string \<times> profile) list" where
  "profiles =
     [(profile_server, \<lparr>profile_name = profile_server,
        profile_key_usage = ku_digital_signature OR ku_key_encipherment,
        profile_ext_key_usage = [eku_server_auth],
        profile_validity = max_leaf_validity_days, profile_is_ca = False\<rparr>),
      (profile_client, \<lparr>profile_name = profile_client,
        profile_key_usage = ku_digital_signature,
        profile_ext_key_usage = [eku_client_auth],
        profile_validity = max_leaf_validity_days, profile_is_ca = False\<rparr>),
      (profile_peer, \<lparr>profile_name = profile_peer,
        profile_key_usage = ku_digital_signature OR ku_key_encipherment,
        profile_ext_key_usage = [eku_server_auth, eku_client_auth],
        profile_validity = max_leaf_validity_days, profile_is_ca = False\<rparr>),
      (profile_code_signing, \<lparr>profile_name = profile_code_signing,
        profile_key_usage = ku_digital_signature,
        profile_ext_key_usage = [eku_code_signing],
        profile_validity = 1095, profile_is_ca = False\<rparr>),
      (profile_intermediate, intermediate_profile),
      (profile_root, root_profile)]"

definition lookup_profile :: "string \<Rightarrow> profile_error + profile" where
  "lookup_profile name = of_opt (UnknownProfile name) (map_of profiles (to_lower (trim_space name)))"

definition profile_names :: "string list" where
  "profile_names = [profile_server, profile_client, profile_peer, profile_code_signing,
     profile_intermediate, profile_root]"

text \<open>\<open>Profiles()\<close>: the table in presentation order.\<close>

definition profile_table :: "profile option list" where
  "profile_table = map (map_of profiles) profile_names"

section \<open>Key usages\<close>

definition key_usage_names :: "(key_usage \<times> string) list" where
  "key_usage_names =
     [(ku_digital_signature, ''DigitalSignature''), (ku_content_commitment, ''ContentCommitment''),
      (ku_key_encipherment, ''KeyEncipherment''), (ku_data_encipherment, ''DataEncipherment''),
      (ku_key_agreement, ''KeyAgreement''), (ku_cert_sign, ''CertSign''), (ku_crl_sign, ''CRLSign''),
      (ku_encipher_only, ''EncipherOnly''), (ku_decipher_only, ''DecipherOnly'')]"

definition key_usage_strings :: "key_usage \<Rightarrow> string list" where
  "key_usage_strings u = map snd (filter (\<lambda>(b, _). u AND b \<noteq> 0) key_usage_names)"

definition normalize_usage :: "string \<Rightarrow> string" where
  "normalize_usage s = to_lower (remove_chars '' -_'' (trim_space s))"

definition key_usage_lookup :: "(string \<times> key_usage) list" where
  "key_usage_lookup =
     [(''digitalsignature'', ku_digital_signature), (''contentcommitment'', ku_content_commitment),
      (''nonrepudiation'', ku_content_commitment), (''keyencipherment'', ku_key_encipherment),
      (''dataencipherment'', ku_data_encipherment), (''keyagreement'', ku_key_agreement),
      (''certsign'', ku_cert_sign), (''keycertsign'', ku_cert_sign), (''crlsign'', ku_crl_sign),
      (''encipheronly'', ku_encipher_only), (''decipheronly'', ku_decipher_only)]"

fun parse_key_usages_from :: "key_usage \<Rightarrow> string list \<Rightarrow> profile_error + key_usage" where
  "parse_key_usages_from u [] = Inr u"
| "parse_key_usages_from u (n # ns) =
     (case map_of key_usage_lookup (normalize_usage n) of
        None \<Rightarrow> Inl (UnknownKeyUsage n)
      | Some b \<Rightarrow> parse_key_usages_from (u OR b) ns)"

definition parse_key_usages :: "string list \<Rightarrow> profile_error + key_usage" where
  "parse_key_usages = parse_key_usages_from 0"

section \<open>Extended key usages\<close>

definition ext_key_usage_names :: "(ext_key_usage \<times> string) list" where
  "ext_key_usage_names =
     [(0, ''Any''), (1, ''ServerAuth''), (2, ''ClientAuth''), (3, ''CodeSigning''),
      (4, ''EmailProtection''), (5, ''IPSECEndSystem''), (6, ''IPSECTunnel''), (7, ''IPSECUser''),
      (8, ''TimeStamping''), (9, ''OCSPSigning''), (10, ''MicrosoftServerGatedCrypto''),
      (11, ''NetscapeServerGatedCrypto'')]"

definition ext_key_usage_strings :: "ext_key_usage list \<Rightarrow> string list" where
  "ext_key_usage_strings us = map (\<lambda>u. case map_of ext_key_usage_names u of
       Some n \<Rightarrow> n | None \<Rightarrow> ''Unknown('' @ dec_int u @ '')'') us"

definition ext_key_usage_lookup :: "(string \<times> ext_key_usage) list" where
  "ext_key_usage_lookup =
     [(''any'', 0), (''serverauth'', 1), (''clientauth'', 2), (''codesigning'', 3),
      (''emailprotection'', 4), (''ipsecendsystem'', 5), (''ipsectunnel'', 6), (''ipsecuser'', 7),
      (''timestamping'', 8), (''ocspsigning'', 9)]"

definition parse_ext_key_usages :: "string list \<Rightarrow> profile_error + ext_key_usage list" where
  "parse_ext_key_usages =
     mapE (\<lambda>n. of_opt (UnknownExtKeyUsage n) (map_of ext_key_usage_lookup (normalize_usage n)))"

section \<open>Laws\<close>

text \<open>Every profile a lookup returns is one of the six of the table.\<close>

lemma lookup_profile_in: "lookup_profile n = Inr p \<Longrightarrow> p \<in> snd ` set profiles"
  by (force simp: lookup_profile_def dest: map_of_SomeD)

lemma lookup_profile_ca:
  assumes "lookup_profile n = Inr p"
  shows "profile_is_ca p \<longleftrightarrow> profile_key_usage p AND ku_cert_sign \<noteq> 0"
    and "0 < profile_validity p"
    and "profile_is_ca p \<longrightarrow> profile_ext_key_usage p = []"
  using lookup_profile_in [OF assms]
  by (auto simp: profiles_def root_profile_def intermediate_profile_def ku_defs max_leaf_validity_days_def)

text \<open>A mask over the nine defined bits, as the union of the usages it names.\<close>

lemma parse_key_usages_from_strings:
  assumes "list_all (\<lambda>(b, n). map_of key_usage_lookup (normalize_usage n) = Some b) t"
  shows "parse_key_usages_from a (map snd (filter (\<lambda>(b, _). u AND b \<noteq> 0) t)) =
         Inr (fold (\<lambda>(b, _) w. if u AND b \<noteq> 0 then w OR b else w) t a)"
  using assms by (induction t arbitrary: a) auto

lemma key_usage_names_lookup:
  "list_all (\<lambda>(b, n). map_of key_usage_lookup (normalize_usage n) = Some b) key_usage_names"
  by code_simp

text \<open>Testing a mask bit and setting it is taking that bit over.\<close>

lemma take_over_bit: "(if (u :: key_usage) AND 2 ^ k \<noteq> 0 then w OR 2 ^ k else w) = w OR (u AND 2 ^ k)"
  by (rule bit_word_eqI) (auto simp: and_exp_eq_0_iff_not_bit bit_simps)

text \<open>A mask over the nine defined bits is rebuilt from the names of its usages.\<close>

lemma key_usage_fold:
  "fold (\<lambda>(b, _) w. if u AND b \<noteq> 0 then w OR b else w) key_usage_names 0 = u AND 511"
proof -
  have p: "ku_digital_signature = 2 ^ 0" "ku_content_commitment = 2 ^ 1" "ku_key_encipherment = 2 ^ 2"
    "ku_data_encipherment = 2 ^ 3" "ku_key_agreement = 2 ^ 4" "ku_cert_sign = 2 ^ 5" "ku_crl_sign = 2 ^ 6"
    "ku_encipher_only = 2 ^ 7" "ku_decipher_only = 2 ^ 8"
    by (simp_all add: ku_defs)
  have m: "(511 :: key_usage) = 2 ^ 0 OR 2 ^ 1 OR 2 ^ 2 OR 2 ^ 3 OR 2 ^ 4 OR 2 ^ 5 OR 2 ^ 6 OR 2 ^ 7 OR 2 ^ 8"
    by simp
  show ?thesis
    unfolding key_usage_names_def p fold_simps prod.case take_over_bit m
    by (simp only: bit.conj_disj_distrib or.assoc or.left_neutral)
qed

lemma parse_key_usages_strings:
  assumes "u AND 511 = u"
  shows "parse_key_usages (key_usage_strings u) = Inr u"
  using assms key_usage_fold [of u]
  by (simp add: parse_key_usages_def key_usage_strings_def
      parse_key_usages_from_strings [OF key_usage_names_lookup])

end
