(* ===== verification/X509.thy ===== *)
theory X509
  imports PkiConstraints PkiKeys PkiProfile
begin

text \<open>
  Certificates as \<open>crypto/x509\<close> has them, and the functions of that package the PKI code
  calls: \<open>CreateCertificate\<close> followed by \<open>ParseCertificate\<close>, \<open>CheckSignatureFrom\<close>, and the
  DER and PEM containers.  Cryptography is symbolic: a signature names the public key whose
  private half made it (\<open>signed_by\<close>), a key identifier is the key it digests, and DER is
  the value it encodes.  Times lose their fraction of a second when they are encoded.
\<close>

section \<open>Certificates\<close>

record x_constraints =
  xc_critical :: bool
  xp_dns :: "string list"
  xe_dns :: "string list"
  xp_ip :: "ipnet list"
  xe_ip :: "ipnet list"
  xp_email :: "string list"
  xe_email :: "string list"
  xp_uri :: "string list"
  xe_uri :: "string list"

definition unconstrained :: x_constraints where
  "unconstrained = \<lparr>xc_critical = False, xp_dns = [], xe_dns = [], xp_ip = [], xe_ip = [],
     xp_email = [], xe_email = [], xp_uri = [], xe_uri = []\<rparr>"

record x509 =
  x_version :: int
  x_serial :: int
  x_subject :: pkix_name
  x_issuer :: pkix_name
  x_not_before :: instant
  x_not_after :: instant
  x_key_usage :: key_usage
  x_eku :: "ext_key_usage list"
  x_bc_valid :: bool
  x_is_ca :: bool
  x_max_path_len :: int
  x_max_path_len_zero :: bool
  x_sans :: split_sans
  x_crl_urls :: "string list"
  x_ocsp_urls :: "string list"
  x_constraints_of :: x_constraints
  x_public_key :: public_key
  x_skid :: "public_key option"
  x_akid :: "public_key option"
  x_sig_alg :: signature_algorithm
  x_signed_by :: public_key

text \<open>The attributes the RFC 2253 text of a name shows, in order.\<close>

definition standard_oids :: "oid list" where
  "standard_oids = [[2,5,4,6], [2,5,4,10], [2,5,4,11], [2,5,4,7], [2,5,4,8], [2,5,4,3], [2,5,4,5]]"

definition name_rdns :: "pkix_name \<Rightarrow> (oid \<times> string) list" where
  "name_rdns n =
     attrs [2,5,4,6] (pn_country n) @ attrs [2,5,4,10] (pn_organization n) @
     attrs [2,5,4,11] (pn_unit n) @ attrs [2,5,4,7] (pn_locality n) @ attrs [2,5,4,8] (pn_province n) @
     attrs [2,5,4,3] (append_if_set [] (pn_common_name n)) @
     attrs [2,5,4,5] (append_if_set [] (pn_serial n)) @
     (if pn_extra n = [] then filter (\<lambda>a. fst a \<notin> set standard_oids) (pn_names n) else pn_extra n)"

section \<open>Creating a certificate\<close>

datatype x509_error =
    KeyUnsupported | ParentKeyMismatch | NegativeSerial | BadMaxPathLen | MaxPathLenOnLeaf
  | NotIA5 string | TimeOutOfRange | BadConstraintDomain string | BadSANHost string
  | NoCRLSign | NoSubjectKeyId | NextBeforeThis

definition is_ia5 :: "string \<Rightarrow> bool" where "is_ia5 s = list_all (\<lambda>c. ord c < 128) s"

text \<open>\<open>domainToReverseLabels\<close> succeeds.\<close>

definition domain_ok :: "string \<Rightarrow> bool" where
  "domain_ok d = (d = [] \<or>
     list_all (\<lambda>l. l \<noteq> [] \<and> list_all (\<lambda>c. 33 \<le> ord c \<and> ord c \<le> 126) l) (split_on CHR ''.'' d))"

definition nc_domain_ok :: "string \<Rightarrow> bool" where
  "nc_domain_ok d = domain_ok (trim_prefix ''.'' d)"

definition nc_email_ok :: "parsers \<Rightarrow> string \<Rightarrow> bool" where
  "nc_email_ok P c = (if CHR ''@'' \<in> set c then mailbox_ok P c else nc_domain_ok c)"

definition nc_uri_ok :: "string \<Rightarrow> bool" where
  "nc_uri_ok c = (parse_ip c = None \<and> nc_domain_ok c)"

text \<open>The last instant a certificate can carry is in the year 9999.\<close>

definition end_of_time :: instant where "end_of_time = 253402300800 * second"

definition marshalable :: "public_key \<Rightarrow> bool" where
  "marshalable k = (case k of
     RsaPub _ _ \<Rightarrow> True | EcdsaPub c _ \<Rightarrow> c \<in> set [''P-224'', ''P-256'', ''P-384'', ''P-521'']
   | Ed25519Pub _ \<Rightarrow> True | OtherPub _ \<Rightarrow> False)"

definition can_sign :: "private_key \<Rightarrow> bool" where
  "can_sign k = marshalable (public_of k)"

definition check_ia5 :: "x509 \<Rightarrow> x509_error + unit" where
  "check_ia5 t = forE (\<lambda>s. guardE (is_ia5 s) (NotIA5 s))
     (sp_dns (x_sans t) @ sp_emails (x_sans t) @ map url_text (sp_uris (x_sans t)) @
      xp_dns (x_constraints_of t) @ xe_dns (x_constraints_of t) @
      xp_email (x_constraints_of t) @ xe_email (x_constraints_of t) @
      xp_uri (x_constraints_of t) @ xe_uri (x_constraints_of t))"

definition check_parse :: "parsers \<Rightarrow> x509 \<Rightarrow> x509_error + unit" where
  "check_parse P t = (let c = x_constraints_of t in
     bindE (forE (\<lambda>u. guardE (domain_ok (url_host u)) (BadSANHost (url_host u))) (sp_uris (x_sans t))) (\<lambda>_.
     bindE (forE (\<lambda>d. guardE (nc_domain_ok d) (BadConstraintDomain d)) (xp_dns c @ xe_dns c)) (\<lambda>_.
     bindE (forE (\<lambda>d. guardE (nc_email_ok P d) (BadConstraintDomain d)) (xp_email c @ xe_email c)) (\<lambda>_.
       forE (\<lambda>d. guardE (nc_uri_ok d) (BadConstraintDomain d)) (xp_uri c @ xe_uri c)))))"

text \<open>
  \<open>CreateCertificate(template, parent, pub, priv)\<close> and the parse of its result.  A parent
  of \<open>None\<close> is the self-signed call, which passes the template itself as the parent: it
  carries no public key to compare and no key identifier of its own.
\<close>

definition encoded_path_len :: "x509 \<Rightarrow> int" where
  "encoded_path_len t =
     (if x_max_path_len t = 0 \<and> \<not> x_max_path_len_zero t then -1 else x_max_path_len t)"

definition x509_checks :: "x509 \<Rightarrow> x509 option \<Rightarrow> public_key \<Rightarrow> private_key \<Rightarrow> x509_error + unit" where
  "x509_checks t parent pub priv =
     bindE (guardE (can_sign priv) KeyUnsupported) (\<lambda>_.
     bindE (guardE (0 \<le> x_serial t) NegativeSerial) (\<lambda>_.
     bindE (guardE (\<not> (x_bc_valid t \<and> x_max_path_len t < -1)) BadMaxPathLen) (\<lambda>_.
     bindE (guardE (\<not> (x_bc_valid t \<and> \<not> x_is_ca t \<and> x_max_path_len t \<noteq> -1 \<and>
                     (x_max_path_len t \<noteq> 0 \<or> x_max_path_len_zero t))) MaxPathLenOnLeaf) (\<lambda>_.
     bindE (guardE (marshalable pub) KeyUnsupported) (\<lambda>_.
     bindE (guardE (case parent of None \<Rightarrow> True | Some p \<Rightarrow> key_matches priv (x_public_key p))
              ParentKeyMismatch) (\<lambda>_.
     bindE (check_ia5 t) (\<lambda>_.
       guardE (x_not_before t < end_of_time \<and> x_not_after t < end_of_time) TimeOutOfRange)))))))"

definition x509_built :: "x509 \<Rightarrow> x509 option \<Rightarrow> public_key \<Rightarrow> private_key \<Rightarrow> x509" where
  "x509_built t parent pub priv =
     (let subj = reparse_name (x_subject t);
          iss = (case parent of None \<Rightarrow> subj | Some p \<Rightarrow> x_subject p);
          skid = (case x_skid t of Some k \<Rightarrow> Some k | None \<Rightarrow> if x_is_ca t then Some pub else None);
          pskid = (case parent of None \<Rightarrow> x_skid t | Some p \<Rightarrow> x_skid p);
          n = encoded_path_len t
      in t\<lparr>x_version := 3, x_subject := subj, x_issuer := iss,
           x_not_before := trunc_seconds (x_not_before t), x_not_after := trunc_seconds (x_not_after t),
           x_max_path_len := (if x_bc_valid t then n else 0),
           x_max_path_len_zero := (x_bc_valid t \<and> n = 0),
           x_public_key := pub, x_skid := skid,
           x_akid := (if name_rdns iss \<noteq> name_rdns subj \<and> pskid \<noteq> None then pskid else x_akid t),
           x_sig_alg := (if x_sig_alg t = UnknownSignatureAlgorithm then signature_algorithm_for priv
                         else x_sig_alg t),
           x_signed_by := public_of priv\<rparr>)"

definition x509_create ::
    "parsers \<Rightarrow> x509 \<Rightarrow> x509 option \<Rightarrow> public_key \<Rightarrow> private_key \<Rightarrow> x509_error + x509" where
  "x509_create P t parent pub priv =
     bindE (x509_checks t parent pub priv) (\<lambda>_.
     bindE (check_parse P t) (\<lambda>_. Inr (x509_built t parent pub priv)))"

text \<open>\<open>child.CheckSignatureFrom(parent)\<close>.\<close>

definition check_signature_from :: "x509 \<Rightarrow> x509 \<Rightarrow> bool" where
  "check_signature_from child parent =
     (\<not> (x_version parent = 3 \<and> \<not> x_bc_valid parent \<or> x_bc_valid parent \<and> \<not> x_is_ca parent) \<and>
      \<not> (x_key_usage parent \<noteq> 0 \<and> x_key_usage parent AND ku_cert_sign = 0) \<and>
      marshalable (x_public_key parent) \<and>
      x_signed_by child = x_public_key parent)"

section \<open>Requests, lists and containers\<close>

record csr =
  csr_subject :: pkix_name
  csr_sans :: split_sans
  csr_public_key :: public_key
  csr_sig_alg :: signature_algorithm
  csr_signed_by :: public_key

definition csr_check_signature :: "csr \<Rightarrow> bool" where
  "csr_check_signature c = (marshalable (csr_public_key c) \<and> csr_signed_by c = csr_public_key c)"

record crl_entry =
  ce_serial :: int
  ce_at :: instant
  ce_reason :: int

record crl =
  crl_issuer :: pkix_name
  crl_number :: int
  crl_this :: instant
  crl_next :: instant
  crl_entries :: "crl_entry list"
  crl_signed_by :: public_key

datatype key_encoding = PKCS8 | PKCS1 | SEC1

datatype der =
    DerCert x509 | DerCSR csr | DerCRL crl | DerKey key_encoding private_key
  | DerPublicKey public_key | DerJunk string

record pem_block =
  pem_type :: string
  pem_encrypted :: bool
  pem_bytes :: der

text \<open>An input document: the PEM blocks found in it, and what its raw bytes are as DER.\<close>

record document =
  doc_blocks :: "pem_block list"
  doc_raw :: der

type_synonym pem = "pem_block list"

definition parse_certificate :: "der \<Rightarrow> x509 option" where
  "parse_certificate d = (case d of DerCert c \<Rightarrow> Some c | _ \<Rightarrow> None)"

definition parse_request :: "der \<Rightarrow> csr option" where
  "parse_request d = (case d of DerCSR c \<Rightarrow> Some c | _ \<Rightarrow> None)"

definition parse_revocation_list :: "der \<Rightarrow> crl option" where
  "parse_revocation_list d = (case d of DerCRL c \<Rightarrow> Some c | _ \<Rightarrow> None)"

definition parse_encoded_key :: "key_encoding \<Rightarrow> der \<Rightarrow> private_key option" where
  "parse_encoded_key e d = (case d of DerKey f k \<Rightarrow> if e = f then Some k else None | _ \<Rightarrow> None)"

section \<open>Laws\<close>

lemmas x509_create_defs = x509_create_def x509_checks_def x509_built_def Let_def

lemma x509_create_InrD:
  assumes "x509_create P t parent pub priv = Inr c"
  shows "c = x509_built t parent pub priv" and "x509_checks t parent pub priv = Inr ()"
    and "check_parse P t = Inr ()"
  using assms by (auto simp: x509_create_def)

lemma x509_built_fields [simp]:
  "x_serial (x509_built t parent pub priv) = x_serial t"
  "x_not_before (x509_built t parent pub priv) = trunc_seconds (x_not_before t)"
  "x_not_after (x509_built t parent pub priv) = trunc_seconds (x_not_after t)"
  "x_key_usage (x509_built t parent pub priv) = x_key_usage t"
  "x_eku (x509_built t parent pub priv) = x_eku t"
  "x_bc_valid (x509_built t parent pub priv) = x_bc_valid t"
  "x_is_ca (x509_built t parent pub priv) = x_is_ca t"
  "x_sans (x509_built t parent pub priv) = x_sans t"
  "x_public_key (x509_built t parent pub priv) = pub"
  "x_signed_by (x509_built t parent pub priv) = public_of priv"
  "x_constraints_of (x509_built t parent pub priv) = x_constraints_of t"
  "x_subject (x509_built t parent pub priv) = reparse_name (x_subject t)"
  "x_issuer (x509_built t (Some p) pub priv) = x_subject p"
  "x_issuer (x509_built t None pub priv) = reparse_name (x_subject t)"
  "x_version (x509_built t parent pub priv) = 3"
  "x_max_path_len (x509_built t parent pub priv) = (if x_bc_valid t then encoded_path_len t else 0)"
  "x_max_path_len_zero (x509_built t parent pub priv) = (x_bc_valid t \<and> encoded_path_len t = 0)"
  "x_crl_urls (x509_built t parent pub priv) = x_crl_urls t"
  "x_ocsp_urls (x509_built t parent pub priv) = x_ocsp_urls t"
  by (simp_all add: x509_built_def Let_def)

lemma x509_built_skid: "x_is_ca t \<Longrightarrow> x_skid t = None \<Longrightarrow> x_skid (x509_built t parent pub priv) = Some pub"
  by (simp add: x509_built_def Let_def)

lemma x509_checks_InrD:
  assumes "x509_checks t parent pub priv = Inr ()"
  shows "marshalable pub" and "can_sign priv"
    and "\<And>p. parent = Some p \<Longrightarrow> key_matches priv (x_public_key p)"
    and "x_not_after t < end_of_time"
  using assms by (auto simp: x509_checks_def)

lemma key_matches_eq: "key_matches k p \<Longrightarrow> public_of k = p"
  by (auto simp: key_matches_def split: public_key.splits)

lemma key_matches_self: "can_sign k \<Longrightarrow> key_matches k (public_of k)"
  by (cases "public_of k") (auto simp: key_matches_def can_sign_def marshalable_def)

end
