(* ===== verification/PkiSign.thy ===== *)
theory PkiSign
  imports X509
begin

text \<open>
  \<open>internal/pki/sign.go\<close>, \<open>ca.go\<close> and \<open>csr.go\<close>: certificate authorities, issuance, renewal
  and certificate requests.

  Arguments in front of an operation stand for what Go reads from its environment: the
  parsers \<open>P\<close>, the clock \<open>now\<close> (read once per operation), the identity \<open>kid\<close> of the key the
  generator draws, and \<open>draws\<close>, the numbers below \<open>2 ^ 128\<close> the random source delivers.  A
  zero \<open>time.Time\<close> and a nil pointer are \<open>None\<close>.
\<close>

datatype pki_error =
    ESubject subject_error | ESan san_error | EKey key_error | EProfile profile_error
  | EConstraint constraint_error | EX509 x509_error
  | NoIssuer | IssuerNotYetValid string instant | IssuerExpired string instant | IssuerNotCA string
  | IssuerNoCertSign string | ExpiryPastIssuer instant string instant | PathLenExhausted string
  | RandFailed | NoSerial | BadSerial string
  | NoCertBlock | BadCertificate | ImportNotCA | ImportNoCertSign | ImportKeyMismatch
  | NothingToRenew | RenewKeyRequired
  | NoCSR | CSRWeakKey key_error | CSREmpty | CSRWrongBlock string | BadCSR | CSRBadSignature
  | KeyEncrypted | BadKeyEncoding | NoKeyBlock

definition clock_skew :: duration where "clock_skew = 5 * minute"
definition serial_bits :: nat where "serial_bits = 128"

record ca_request =
  cq_subject :: subject
  cq_key_spec :: key_spec
  cq_validity_days :: int
  cq_max_path_len :: int
  cq_max_path_len_zero :: bool
  cq_crl_urls :: "string list"
  cq_ocsp_urls :: "string list"
  cq_constraints :: name_constraints
  cq_not_before :: "instant option"

record cert_authority =
  ca_certificate :: "x509 option"
  ca_private_key :: "private_key option"
  ca_chain :: "x509 list"

section \<open>Serial numbers\<close>

fun first_positive :: "nat \<Rightarrow> nat list \<Rightarrow> pki_error + int" where
  "first_positive 0 ds = Inl NoSerial"
| "first_positive (Suc k) [] = Inl RandFailed"
| "first_positive (Suc k) (d # ds) = (if 0 < d then Inr (int d) else first_positive k ds)"

definition generate_serial :: "nat list \<Rightarrow> pki_error + int" where
  "generate_serial draws = first_positive 8 draws"

definition format_serial :: "int option \<Rightarrow> string" where
  "format_serial s = (case s of
       None \<Rightarrow> []
     | Some i \<Rightarrow>
         (let h = (if i < 0 then ''-'' else []) @ digits_of 16 (nat \<bar>i\<bar>)
          in if odd (length h) then CHR ''0'' # h else h))"

text \<open>\<open>big.Int.SetString(s, 16)\<close>: an optional sign, then hex digits.\<close>

definition parse_serial :: "string \<Rightarrow> pki_error + int" where
  "parse_serial s =
     (let neg = prefix ''-'' s; body = (if neg \<or> prefix ''+'' s then tl s else s)
      in if body = [] then Inl (BadSerial s)
         else (case parse_digits 16 0 body of
             None \<Rightarrow> Inl (BadSerial s)
           | Some n \<Rightarrow> Inr (if neg then - int n else int n)))"

section \<open>The issuer\<close>

text \<open>\<open>ca == nil || ca.Certificate == nil || ca.PrivateKey == nil\<close>.\<close>

definition issuer_of :: "cert_authority \<Rightarrow> pki_error + (x509 \<times> private_key)" where
  "issuer_of ca = (case (ca_certificate ca, ca_private_key ca) of
     (Some c, Some k) \<Rightarrow> Inr (c, k) | _ \<Rightarrow> Inl NoIssuer)"

definition issuer_chain :: "cert_authority \<Rightarrow> x509 list" where
  "issuer_chain ca = (case ca_certificate ca of None \<Rightarrow> [] | Some c \<Rightarrow> [c]) @ ca_chain ca"

definition check_issuer_can_sign :: "instant \<Rightarrow> x509 \<Rightarrow> instant \<Rightarrow> bool \<Rightarrow> pki_error + unit" where
  "check_issuer_can_sign now issuer not_after for_ca =
     (let cn = pn_common_name (x_subject issuer) in
      if now < x_not_before issuer then Inl (IssuerNotYetValid cn (x_not_before issuer))
      else if x_not_after issuer < now then Inl (IssuerExpired cn (x_not_after issuer))
      else if \<not> x_is_ca issuer then Inl (IssuerNotCA cn)
      else if x_key_usage issuer \<noteq> 0 \<and> x_key_usage issuer AND ku_cert_sign = 0 then Inl (IssuerNoCertSign cn)
      else if x_not_after issuer < not_after then Inl (ExpiryPastIssuer not_after cn (x_not_after issuer))
      else if for_ca \<and> x_max_path_len_zero issuer then Inl (PathLenExhausted cn)
      else Inr ())"

definition is_self_signed :: "x509 \<Rightarrow> bool" where
  "is_self_signed c = (name_rdns (x_subject c) = name_rdns (x_issuer c) \<and> check_signature_from c c)"

definition is_root :: "cert_authority \<Rightarrow> bool" where
  "is_root ca = (ca_chain ca = [] \<and> (case ca_certificate ca of None \<Rightarrow> False | Some c \<Rightarrow> is_self_signed c))"

section \<open>Certificate authorities\<close>

definition blank_template :: "subject \<Rightarrow> x509" where
  "blank_template s = \<lparr>x_version = 0, x_serial = 0, x_subject = to_pkix s, x_issuer = to_pkix s,
     x_not_before = 0, x_not_after = 0, x_key_usage = 0, x_eku = [], x_bc_valid = False, x_is_ca = False,
     x_max_path_len = 0, x_max_path_len_zero = False, x_sans = no_sans, x_crl_urls = [], x_ocsp_urls = [],
     x_constraints_of = unconstrained, x_public_key = OtherPub 0, x_skid = None, x_akid = None,
     x_sig_alg = UnknownSignatureAlgorithm, x_signed_by = OtherPub 0\<rparr>"

definition start_of :: "instant \<Rightarrow> instant option \<Rightarrow> instant" where
  "start_of now nb = (case nb of None \<Rightarrow> now - clock_skew | Some t \<Rightarrow> t)"

definition template_constraints :: "name_constraints \<Rightarrow> pki_error + x_constraints" where
  "template_constraints raw =
     (let n = nc_normalize raw in
      if nc_is_zero n then Inr unconstrained
      else bindE (map_err EConstraint (nc_validate n)) (\<lambda>_.
        bindE (map_err EConstraint (ip_nets n)) (\<lambda>(pip, eip).
          Inr \<lparr>xc_critical = True, xp_dns = permitted_dns n, xe_dns = excluded_dns n,
               xp_ip = pip, xe_ip = eip, xp_email = permitted_email n, xe_email = excluded_email n,
               xp_uri = permitted_uri n, xe_uri = excluded_uri n\<rparr>)))"

definition ca_template :: "instant \<Rightarrow> nat list \<Rightarrow> ca_request \<Rightarrow> pki_error + x509" where
  "ca_template now draws req =
     bindE (generate_serial draws) (\<lambda>serial.
     bindE (template_constraints (cq_constraints req)) (\<lambda>xc.
       let nb = start_of now (cq_not_before req) in
       Inr ((blank_template (cq_subject req))\<lparr>
         x_serial := serial, x_not_before := nb, x_not_after := add_days nb (cq_validity_days req),
         x_key_usage := profile_key_usage root_profile, x_bc_valid := True, x_is_ca := True,
         x_max_path_len := cq_max_path_len req, x_max_path_len_zero := cq_max_path_len_zero req,
         x_crl_urls := cq_crl_urls req, x_ocsp_urls := cq_ocsp_urls req,
         x_constraints_of := xc\<rparr>)))"

definition default_days :: "int \<Rightarrow> profile \<Rightarrow> int" where
  "default_days d p = (if d \<le> 0 then profile_validity p else d)"

definition create_root_ca ::
    "parsers \<Rightarrow> instant \<Rightarrow> nat \<Rightarrow> nat list \<Rightarrow> ca_request \<Rightarrow> pki_error + cert_authority" where
  "create_root_ca P now kid draws req =
     (let req = req\<lparr>cq_subject := subject_normalize (cq_subject req)\<rparr> in
      bindE (map_err ESubject (subject_validate (cq_subject req))) (\<lambda>_.
      let req = req\<lparr>cq_validity_days := default_days (cq_validity_days req) root_profile\<rparr> in
      bindE (map_err EKey (generate_key kid (cq_key_spec req))) (\<lambda>key.
      bindE (ca_template now draws req) (\<lambda>t.
      let t = t\<lparr>x_issuer := x_subject t, x_sig_alg := signature_algorithm_for key, x_akid := None\<rparr> in
      bindE (map_err EX509 (x509_create P t None (public_of key) key)) (\<lambda>cert.
        Inr \<lparr>ca_certificate = Some cert, ca_private_key = Some key, ca_chain = []\<rparr>)))))"

definition create_intermediate_ca ::
    "parsers \<Rightarrow> instant \<Rightarrow> nat \<Rightarrow> nat list \<Rightarrow> cert_authority \<Rightarrow> ca_request \<Rightarrow> pki_error + cert_authority" where
  "create_intermediate_ca P now kid draws parent req =
     bindE (issuer_of parent) (\<lambda>(pcert, pkey).
      let req = req\<lparr>cq_subject := subject_normalize (cq_subject req)\<rparr> in
      bindE (map_err ESubject (subject_validate (cq_subject req))) (\<lambda>_.
      let req = req\<lparr>cq_validity_days := default_days (cq_validity_days req) intermediate_profile\<rparr> in
      bindE (map_err EKey (generate_key kid (cq_key_spec req))) (\<lambda>key.
      bindE (ca_template now draws req) (\<lambda>t.
      bindE (check_issuer_can_sign now pcert (x_not_after t) True) (\<lambda>_.
      let t = t\<lparr>x_sig_alg := signature_algorithm_for pkey\<rparr> in
      bindE (map_err EX509 (x509_create P t (Some pcert) (public_of key) pkey)) (\<lambda>cert.
        Inr \<lparr>ca_certificate = Some cert, ca_private_key = Some key, ca_chain = issuer_chain parent\<rparr>))))))"

definition constraints_of :: "x509 option \<Rightarrow> name_constraints" where
  "constraints_of c = (case c of
       None \<Rightarrow> no_constraints
     | Some cert \<Rightarrow> (let x = x_constraints_of cert in
         nc_normalize \<lparr>permitted_dns = xp_dns x, excluded_dns = xe_dns x,
           permitted_ip = map net_string (xp_ip x), excluded_ip = map net_string (xe_ip x),
           permitted_email = xp_email x, excluded_email = xe_email x,
           permitted_uri = xp_uri x, excluded_uri = xe_uri x\<rparr>))"

section \<open>PEM\<close>

definition block_certificate :: string where "block_certificate = ''CERTIFICATE''"
definition block_private_key :: string where "block_private_key = ''PRIVATE KEY''"
definition block_rsa_private_key :: string where "block_rsa_private_key = ''RSA PRIVATE KEY''"
definition block_ec_private_key :: string where "block_ec_private_key = ''EC PRIVATE KEY''"
definition block_certificate_req :: string where "block_certificate_req = ''CERTIFICATE REQUEST''"
definition block_new_cert_req :: string where "block_new_cert_req = ''NEW CERTIFICATE REQUEST''"

definition plain_block :: "string \<Rightarrow> der \<Rightarrow> pem_block" where
  "plain_block t d = \<lparr>pem_type = t, pem_encrypted = False, pem_bytes = d\<rparr>"

definition encode_certificate_pem :: "x509 \<Rightarrow> pem" where
  "encode_certificate_pem c = [plain_block block_certificate (DerCert c)]"

definition parse_certificates_pem :: "pem \<Rightarrow> pki_error + x509 list" where
  "parse_certificates_pem d =
     bindE (mapE (\<lambda>b. of_opt BadCertificate (parse_certificate (pem_bytes b)))
              (filter (\<lambda>b. pem_type b = block_certificate) d)) (\<lambda>cs.
       if cs = [] then Inl NoCertBlock else Inr cs)"

definition parse_certificate_pem :: "pem \<Rightarrow> pki_error + x509" where
  "parse_certificate_pem d = bindE (parse_certificates_pem d) (\<lambda>cs.
     case cs of [] \<Rightarrow> Inl NoCertBlock | c # _ \<Rightarrow> Inr c)"

definition parse_certificate_der :: "der \<Rightarrow> pki_error + x509" where
  "parse_certificate_der d = of_opt BadCertificate (parse_certificate d)"

definition parse_private_key_der :: "string \<Rightarrow> der \<Rightarrow> pki_error + private_key" where
  "parse_private_key_der t d =
     (if t = block_rsa_private_key then of_opt BadKeyEncoding (parse_encoded_key PKCS1 d)
      else if t = block_ec_private_key then of_opt BadKeyEncoding (parse_encoded_key SEC1 d)
      else (case parse_encoded_key PKCS8 d of
          Some k \<Rightarrow> Inr k
        | None \<Rightarrow> (case parse_encoded_key PKCS1 d of
              Some k \<Rightarrow> Inr k
            | None \<Rightarrow> of_opt BadKeyEncoding (parse_encoded_key SEC1 d))))"

fun parse_private_key_pem :: "pem \<Rightarrow> pki_error + private_key" where
  "parse_private_key_pem [] = Inl NoKeyBlock"
| "parse_private_key_pem (b # bs) =
     (if \<not> sublist block_private_key (pem_type b) then parse_private_key_pem bs
      else if pem_encrypted b then Inl KeyEncrypted
      else parse_private_key_der (pem_type b) (pem_bytes b))"

definition marshal_private_key_pem :: "private_key \<Rightarrow> x509_error + pem" where
  "marshal_private_key_pem k =
     (if can_sign k then Inr [plain_block block_private_key (DerKey PKCS8 k)] else Inl KeyUnsupported)"

definition encrypt_private_key_pem :: "private_key \<Rightarrow> string \<Rightarrow> x509_error + pem" where
  "encrypt_private_key_pem k passphrase =
     (if passphrase = [] then marshal_private_key_pem k
      else if can_sign k then Inr [(plain_block block_private_key (DerKey PKCS8 k))\<lparr>pem_encrypted := True\<rparr>]
      else Inl KeyUnsupported)"

definition import_ca :: "pem \<Rightarrow> pem \<Rightarrow> pki_error + cert_authority" where
  "import_ca cert_pem key_pem =
     bindE (parse_certificates_pem cert_pem) (\<lambda>certs.
     bindE (guardE (certs \<noteq> []) NoCertBlock) (\<lambda>_.
     bindE (parse_private_key_pem key_pem) (\<lambda>key.
     let leaf = hd certs in
     if \<not> x_is_ca leaf then Inl ImportNotCA
     else if x_key_usage leaf \<noteq> 0 \<and> x_key_usage leaf AND ku_cert_sign = 0 then Inl ImportNoCertSign
     else if \<not> key_matches key (x_public_key leaf) then Inl ImportKeyMismatch
     else Inr \<lparr>ca_certificate = Some leaf, ca_private_key = Some key, ca_chain = tl certs\<rparr>)))"

section \<open>Issuance\<close>

record issue_request =
  iq_subject :: subject
  iq_sans :: san_set
  iq_key_spec :: key_spec
  iq_profile :: string
  iq_validity_days :: int
  iq_not_before :: "instant option"
  iq_key_usage :: "string list"
  iq_eku :: "string list"
  iq_crl_urls :: "string list"
  iq_ocsp_urls :: "string list"

record issued_certificate =
  ic_certificate :: x509
  ic_private_key :: private_key
  ic_chain :: "x509 list"

definition sign_sans :: "parsers \<Rightarrow> profile \<Rightarrow> subject \<Rightarrow> san_set \<Rightarrow> pki_error + san_set" where
  "sign_sans P p s sans =
     (if profile_is_ca p then Inr sans
      else let sans = san_add_dns sans (common_name s)
           in bindE (map_err ESan (san_set_validate P sans)) (\<lambda>_. Inr sans))"

definition subject_key_id :: "public_key \<Rightarrow> pki_error + public_key" where
  "subject_key_id k = (if marshalable k then Inr k else Inl (EX509 KeyUnsupported))"

definition request_key_usage :: "profile \<Rightarrow> issue_request \<Rightarrow> pki_error + key_usage" where
  "request_key_usage p req =
     (if iq_key_usage req = [] then Inr (profile_key_usage p)
      else map_err EProfile (parse_key_usages (iq_key_usage req)))"

definition request_eku :: "profile \<Rightarrow> issue_request \<Rightarrow> pki_error + ext_key_usage list" where
  "request_eku p req =
     (if iq_eku req = [] then Inr (profile_ext_key_usage p)
      else map_err EProfile (parse_ext_key_usages (iq_eku req)))"

definition sign_public_key ::
    "parsers \<Rightarrow> instant \<Rightarrow> nat list \<Rightarrow> cert_authority \<Rightarrow> public_key \<Rightarrow> issue_request \<Rightarrow> pki_error + x509" where
  "sign_public_key P now draws ca pub req =
     bindE (issuer_of ca) (\<lambda>(cacert, cakey).
     bindE (map_err EProfile (lookup_profile (iq_profile req))) (\<lambda>p.
     let subj = subject_normalize (iq_subject req) in
     bindE (map_err ESubject (subject_validate subj)) (\<lambda>_.
     bindE (sign_sans P p subj (iq_sans req)) (\<lambda>sans.
     bindE (map_err ESan (san_split P sans)) (\<lambda>parts.
     bindE (request_key_usage p req) (\<lambda>ku.
     bindE (request_eku p req) (\<lambda>eku.
     let nb = start_of now (iq_not_before req);
         na = add_days nb (default_days (iq_validity_days req) p) in
     bindE (check_issuer_can_sign now cacert na (profile_is_ca p)) (\<lambda>_.
     bindE (generate_serial draws) (\<lambda>serial.
     bindE (subject_key_id pub) (\<lambda>skid.
     let t = (blank_template subj)\<lparr>
         x_serial := serial, x_skid := Some skid, x_not_before := nb, x_not_after := na,
         x_key_usage := ku, x_eku := eku, x_bc_valid := True, x_is_ca := profile_is_ca p,
         x_sans := parts, x_crl_urls := iq_crl_urls req, x_ocsp_urls := iq_ocsp_urls req,
         x_sig_alg := signature_algorithm_for cakey\<rparr> in
     map_err EX509 (x509_create P t (Some cacert) pub cakey)))))))))))"

definition issue ::
    "parsers \<Rightarrow> instant \<Rightarrow> nat \<Rightarrow> nat list \<Rightarrow> cert_authority \<Rightarrow> issue_request \<Rightarrow> pki_error + issued_certificate" where
  "issue P now kid draws ca req =
     bindE (issuer_of ca) (\<lambda>_.
     bindE (map_err EKey (generate_key kid (iq_key_spec req))) (\<lambda>key.
     bindE (sign_public_key P now draws ca (public_of key) req) (\<lambda>cert.
       Inr \<lparr>ic_certificate = cert, ic_private_key = key, ic_chain = issuer_chain ca\<rparr>)))"

section \<open>Certificate requests\<close>

definition create_csr :: "parsers \<Rightarrow> private_key \<Rightarrow> subject \<Rightarrow> san_set \<Rightarrow> pki_error + pem" where
  "create_csr P key s sans =
     (let s = subject_normalize s in
      bindE (map_err ESubject (subject_validate s)) (\<lambda>_.
      let sans = san_add_dns sans (common_name s) in
      bindE (map_err ESan (san_set_validate P sans)) (\<lambda>_.
      bindE (map_err ESan (san_split P sans)) (\<lambda>parts.
      bindE (map_err EX509 (guardE (can_sign key) KeyUnsupported)) (\<lambda>_.
        Inr [plain_block block_certificate_req (DerCSR
          \<lparr>csr_subject = reparse_name (to_pkix s), csr_sans = parts, csr_public_key = public_of key,
           csr_sig_alg = signature_algorithm_for key, csr_signed_by = public_of key\<rparr>)])))))"

definition parse_csr_der :: "der \<Rightarrow> pki_error + csr" where
  "parse_csr_der d = bindE (of_opt BadCSR (parse_request d)) (\<lambda>c.
     if csr_check_signature c then Inr c else Inl CSRBadSignature)"

definition parse_csr :: "document \<Rightarrow> pki_error + csr" where
  "parse_csr d =
     (case doc_blocks d of
        [] \<Rightarrow> parse_csr_der (doc_raw d)
      | b # _ \<Rightarrow> if pem_type b = block_certificate_req \<or> pem_type b = block_new_cert_req
                 then parse_csr_der (pem_bytes b) else Inl (CSRWrongBlock (pem_type b)))"

definition csr_has_no_sans :: "csr \<Rightarrow> bool" where
  "csr_has_no_sans c = (sp_dns (csr_sans c) = [] \<and> sp_ips (csr_sans c) = [] \<and>
     sp_emails (csr_sans c) = [] \<and> sp_uris (csr_sans c) = [])"

definition validate_csr_for_signing :: "parsers \<Rightarrow> csr option \<Rightarrow> pki_error + unit" where
  "validate_csr_for_signing P r = (case r of
       None \<Rightarrow> Inl NoCSR
     | Some c \<Rightarrow>
         bindE (map_err EKey (spec_of (csr_public_key c))) (\<lambda>spec.
         bindE (map_err CSRWeakKey (spec_validate spec)) (\<lambda>_.
         if pn_common_name (csr_subject c) = [] \<and> csr_has_no_sans c then Inl CSREmpty
         else map_err ESan (forE (san_validate P) (sans_from_certificate_like (csr_sans c))))))"

text \<open>The defaults \<open>SignCSR\<close> takes from the request for what the caller left empty.\<close>

definition fill_from_csr :: "csr \<Rightarrow> issue_request \<Rightarrow> issue_request" where
  "fill_from_csr c req =
     (let req = (if common_name (iq_subject req) = [] then
                   req\<lparr>iq_subject := subject_from_pkix (csr_subject c)\<rparr> else req);
          req = (if iq_sans req = [] then
                   req\<lparr>iq_sans := sans_from_certificate_like (csr_sans c)\<rparr> else req)
      in if common_name (iq_subject req) = [] \<and> primary_name (iq_sans req) \<noteq> [] then
           req\<lparr>iq_subject := (iq_subject req)\<lparr>common_name := primary_name (iq_sans req)\<rparr>\<rparr>
         else req)"

definition sign_csr ::
    "parsers \<Rightarrow> instant \<Rightarrow> nat list \<Rightarrow> cert_authority \<Rightarrow> csr option \<Rightarrow> issue_request \<Rightarrow> pki_error + x509" where
  "sign_csr P now draws ca r req =
     bindE (validate_csr_for_signing P r) (\<lambda>_.
       case r of
         None \<Rightarrow> Inl NoCSR
       | Some c \<Rightarrow> sign_public_key P now draws ca (csr_public_key c) (fill_from_csr c req))"

section \<open>Renewal\<close>

record renew_request =
  rq_rekey :: bool
  rq_key_spec :: key_spec
  rq_validity_days :: int
  rq_subject :: "subject option"
  rq_sans :: san_set
  rq_profile :: string
  rq_crl_urls :: "string list"
  rq_ocsp_urls :: "string list"

definition infer_profile :: "x509 \<Rightarrow> string" where
  "infer_profile c =
     (if x_is_ca c then (if is_self_signed c then profile_root else profile_intermediate)
      else let server = eku_server_auth \<in> set (x_eku c); client = eku_client_auth \<in> set (x_eku c);
               code_signing = eku_code_signing \<in> set (x_eku c)
           in if server \<and> client then profile_peer
              else if client then profile_client
              else if code_signing then profile_code_signing
              else profile_server)"

definition renew_issue_request :: "x509 \<Rightarrow> renew_request \<Rightarrow> issue_request" where
  "renew_issue_request cur req = \<lparr>
     iq_subject = (case rq_subject req of Some s \<Rightarrow> s | None \<Rightarrow> subject_from_pkix (x_subject cur)),
     iq_sans = (if rq_sans req = [] then sans_from_certificate_like (x_sans cur) else rq_sans req),
     iq_key_spec = no_spec,
     iq_profile = (if rq_profile req = [] then infer_profile cur else rq_profile req),
     iq_validity_days = rq_validity_days req, iq_not_before = None, iq_key_usage = [], iq_eku = [],
     iq_crl_urls = rq_crl_urls req, iq_ocsp_urls = rq_ocsp_urls req\<rparr>"

definition renew ::
    "parsers \<Rightarrow> instant \<Rightarrow> nat \<Rightarrow> nat list \<Rightarrow> cert_authority \<Rightarrow> x509 option \<Rightarrow> private_key option \<Rightarrow>
     renew_request \<Rightarrow> pki_error + issued_certificate" where
  "renew P now kid draws ca current key req = (case current of
       None \<Rightarrow> Inl NothingToRenew
     | Some cur \<Rightarrow>
         (let iq = renew_issue_request cur req in
          if \<not> rq_rekey req then
            (case key of
               None \<Rightarrow> Inl RenewKeyRequired
             | Some k \<Rightarrow> bindE (sign_public_key P now draws ca (public_of k) iq) (\<lambda>cert.
                 Inr \<lparr>ic_certificate = cert, ic_private_key = k, ic_chain = issuer_chain ca\<rparr>))
          else bindE (if algorithm (rq_key_spec req) = [] then map_err EKey (spec_of (x_public_key cur))
                      else Inr (rq_key_spec req)) (\<lambda>spec.
            issue P now kid draws ca (iq\<lparr>iq_key_spec := spec\<rparr>))))"

end
