(* ===== verification/PkiSignLaws.thy ===== *)
theory PkiSignLaws
  imports PkiSign
begin

text \<open>
  What the PKI operations guarantee: every certificate goes through \<open>SignPublicKey\<close>, so its
  inversion rule \<open>sign_public_keyE\<close> carries the laws of issuance, request signing and
  renewal; \<open>create_root_caE\<close> and \<open>create_intermediate_caE\<close> carry those of authorities.
\<close>

section \<open>Serial numbers\<close>

lemma first_positive_range:
  "first_positive k ds = Inr s \<Longrightarrow> \<forall>d \<in> set ds. d < b \<Longrightarrow> 0 < s \<and> s < int b"
  by (induction k ds rule: first_positive.induct) (auto split: if_splits)

lemma generate_serial_positive: "generate_serial draws = Inr s \<Longrightarrow> 0 < s"
  unfolding generate_serial_def using first_positive_range [of 8 draws s "Suc (Max (insert 0 (set draws)))"]
  by (auto simp: less_Suc_eq_le)

lemma set_format_digits:
  "c \<in> set (digits_of 16 n) \<Longrightarrow> c \<noteq> CHR ''-'' \<and> c \<noteq> CHR ''+''"
proof -
  assume "c \<in> set (digits_of 16 n)"
  then obtain d where "d < 16" "c = digit_char d"
    using set_digits_of [of 16 n] by auto
  then have "digit_val c = Some d" by simp
  moreover have "digit_val CHR ''-'' = None" "digit_val CHR ''+'' = None"
    by (simp_all add: digit_val_def is_digit_def)
  ultimately show ?thesis by auto
qed

lemma parse_format_serial:
  assumes "0 \<le> i"
  shows "parse_serial (format_serial (Some i)) = Inr i"
proof -
  let ?h = "digits_of 16 (nat i)"
  let ?s = "format_serial (Some i)"
  have s: "?s = ?h \<or> ?s = CHR ''0'' # ?h"
    using assms by (auto simp: format_serial_def Let_def)
  have ne: "?h \<noteq> []" by simp
  have "hd ?h \<noteq> CHR ''-'' \<and> hd ?h \<noteq> CHR ''+''"
    using set_format_digits [of "hd ?h" "nat i"] hd_in_set [OF ne] by blast
  then have np: "\<not> prefix ''-'' ?s \<and> \<not> prefix ''+'' ?s \<and> ?s \<noteq> []"
    using s ne by (cases ?h) auto
  have z: "digit_val CHR ''0'' = Some 0" by (simp add: digit_val_def is_digit_def)
  have "parse_digits 16 0 ?s = Some (nat i)"
    using s parse_digits_of [of 16 "nat i"] by (auto simp: z)
  then show ?thesis using np assms by (simp add: parse_serial_def Let_def)
qed

lemma format_serial_even: "even (length (format_serial s))"
  by (auto simp: format_serial_def Let_def split: option.splits)

section \<open>Signing\<close>

lemma check_issuer_InrD:
  assumes "check_issuer_can_sign now c na f = Inr ()"
  shows "x_not_before c \<le> now" "now \<le> x_not_after c" "x_is_ca c" "na \<le> x_not_after c"
    "x_key_usage c = 0 \<or> x_key_usage c AND ku_cert_sign \<noteq> 0" "f \<Longrightarrow> \<not> x_max_path_len_zero c"
  using assms by (auto simp: check_issuer_can_sign_def Let_def split: if_splits)

text \<open>Parsed certificates have \<open>IsCA\<close> only with a basic constraints extension.\<close>

definition x509_wf :: "x509 \<Rightarrow> bool" where
  "x509_wf c = (x_is_ca c \<longrightarrow> x_bc_valid c)"

lemma check_signature_fromI:
  assumes "x509_wf p" "x_is_ca p" "x_key_usage p = 0 \<or> x_key_usage p AND ku_cert_sign \<noteq> 0"
    "key_matches k (x_public_key p)" "can_sign k" "x_signed_by c = public_of k"
  shows "check_signature_from c p"
  using assms key_matches_eq [OF assms(4)]
  by (auto simp: check_signature_from_def x509_wf_def can_sign_def)

lemma map_err_InrD: "map_err h r = Inr x \<Longrightarrow> r = Inr x" by simp

lemma sign_public_keyE:
  assumes "sign_public_key P now draws ca pub req = Inr cert"
  obtains cacert cakey p sans parts where
    "ca_certificate ca = Some cacert" "ca_private_key ca = Some cakey"
    "lookup_profile (iq_profile req) = Inr p"
    "subject_validate (subject_normalize (iq_subject req)) = Inr ()"
    "sign_sans P p (subject_normalize (iq_subject req)) (iq_sans req) = Inr sans"
    "san_split P sans = Inr parts"
    "check_issuer_can_sign now cacert
       (add_days (start_of now (iq_not_before req)) (default_days (iq_validity_days req) p))
       (profile_is_ca p) = Inr ()"
    "marshalable pub" "can_sign cakey" "key_matches cakey (x_public_key cacert)"
    "generate_serial draws = Inr (x_serial cert)"
    "x_subject cert = reparse_name (to_pkix (subject_normalize (iq_subject req)))"
    "x_issuer cert = x_subject cacert"
    "x_not_before cert = trunc_seconds (start_of now (iq_not_before req))"
    "x_not_after cert = trunc_seconds
       (add_days (start_of now (iq_not_before req)) (default_days (iq_validity_days req) p))"
    "x_bc_valid cert" "x_is_ca cert = profile_is_ca p" "x_sans cert = parts"
    "x_public_key cert = pub" "x_signed_by cert = public_of cakey" "x_version cert = 3"
    "iq_key_usage req = [] \<Longrightarrow> x_key_usage cert = profile_key_usage p"
    "iq_eku req = [] \<Longrightarrow> x_eku cert = profile_ext_key_usage p"
    "x_constraints_of cert = unconstrained"
    "x_max_path_len cert = -1" "\<not> x_max_path_len_zero cert"
    "x_crl_urls cert = iq_crl_urls req" "x_ocsp_urls cert = iq_ocsp_urls req"
proof -
  obtain cacert cakey where i: "ca_certificate ca = Some cacert" "ca_private_key ca = Some cakey"
    using assms by (auto simp: sign_public_key_def issuer_of_def split: option.splits)
  let ?s = "subject_normalize (iq_subject req)"
  let ?nb = "start_of now (iq_not_before req)"
  obtain p sans parts ku eku serial where
    p: "lookup_profile (iq_profile req) = Inr p" and
    s: "subject_validate ?s = Inr ()" and
    sans: "sign_sans P p ?s (iq_sans req) = Inr sans" and
    parts: "san_split P sans = Inr parts" and
    ku: "request_key_usage p req = Inr ku" and
    eku: "request_eku p req = Inr eku" and
    chk: "check_issuer_can_sign now cacert (add_days ?nb (default_days (iq_validity_days req) p))
          (profile_is_ca p) = Inr ()" and
    serial: "generate_serial draws = Inr serial" and
    pub: "marshalable pub" and
    cert: "x509_create P ((blank_template ?s)\<lparr>
         x_serial := serial, x_skid := Some pub, x_not_before := ?nb,
         x_not_after := add_days ?nb (default_days (iq_validity_days req) p),
         x_key_usage := ku, x_eku := eku, x_bc_valid := True, x_is_ca := profile_is_ca p,
         x_sans := parts, x_crl_urls := iq_crl_urls req, x_ocsp_urls := iq_ocsp_urls req,
         x_sig_alg := signature_algorithm_for cakey\<rparr>) (Some cacert) pub cakey = Inr cert"
    using assms i
    by (auto simp: sign_public_key_def issuer_of_def Let_def subject_key_id_def split: if_split_asm)
  note built = x509_create_InrD(1) [OF cert] and ok = x509_checks_InrD [OF x509_create_InrD(2) [OF cert]]
  show thesis
    by (rule that [OF i p s sans parts chk pub]) (use built ok ku eku serial in
      \<open>simp_all add: blank_template_def encoded_path_len_def request_key_usage_def request_eku_def\<close>)
qed

lemma sign_public_key_sound:
  assumes "sign_public_key P now draws ca pub req = Inr cert"
    and "ca_certificate ca = Some cacert" "x509_wf cacert"
  shows "check_signature_from cert cacert" "x_public_key cert = pub" "x_issuer cert = x_subject cacert"
    "x_not_after cert \<le> x_not_after cacert" "now \<le> x_not_after cacert" "x_not_before cacert \<le> now"
    "0 < x_serial cert" "x509_wf cert"
proof -
  obtain cacert' cakey p where
    i: "ca_certificate ca = Some cacert'" and
    chk: "check_issuer_can_sign now cacert'
       (add_days (start_of now (iq_not_before req)) (default_days (iq_validity_days req) p))
       (profile_is_ca p) = Inr ()" and
    k: "can_sign cakey" "key_matches cakey (x_public_key cacert')" "x_signed_by cert = public_of cakey" and
    f: "generate_serial draws = Inr (x_serial cert)" "x_issuer cert = x_subject cacert'"
       "x_public_key cert = pub" "x_bc_valid cert" and
    na: "x_not_after cert = trunc_seconds
       (add_days (start_of now (iq_not_before req)) (default_days (iq_validity_days req) p))"
    using assms(1) by (rule sign_public_keyE) blast
  note ok = check_issuer_InrD [OF chk]
  have same: "cacert' = cacert" using i assms(2) by simp
  show "check_signature_from cert cacert"
    by (rule check_signature_fromI [where k = cakey]) (use assms(3) ok k same in auto)
  show "x_not_after cert \<le> x_not_after cacert"
    using ok(4) na same order_trans [OF trunc_seconds_le] by simp
  show "0 < x_serial cert" by (rule generate_serial_positive [OF f(1)])
  show "x_public_key cert = pub" "x_issuer cert = x_subject cacert" "now \<le> x_not_after cacert"
    "x_not_before cacert \<le> now" "x509_wf cert"
    using f ok same by (simp_all add: x509_wf_def)
qed

lemma sign_sans_leaf:
  assumes "sign_sans P p s sans = Inr out" "\<not> profile_is_ca p"
  shows "out = san_add_dns sans (common_name s)" "out \<noteq> []" "\<forall>e \<in> set out. san_validate P e = Inr ()"
  using assms by (auto simp: sign_sans_def Let_def san_set_validate_def split: if_splits)

text \<open>A leaf's DNS names: the requested ones, and its common name where that is a DNS name.\<close>

lemma san_add_dns_values:
  assumes "dns_name_ok n" "n \<noteq> []"
  shows "\<exists>e \<in> set (san_add_dns s n). san_type e = san_dns \<and> equal_fold (san_value e) n"
  using san_add_covers [of s "mk_san san_dns n"] assms
  by (auto simp: san_add_dns_def validate_dns_name_iff same_san_def mk_san_def)

lemma sign_leaf_names:
  assumes "sign_public_key P now draws ca pub req = Inr cert" "\<not> x_is_ca cert"
  shows "sp_dns (x_sans cert) = map san_value (filter (\<lambda>e. san_type e = san_dns)
           (san_add_dns (iq_sans req) (trim_space (common_name (iq_subject req)))))"
    "\<forall>n \<in> set (sp_dns (x_sans cert)). dns_name_ok n"
proof -
  obtain p sans where
    p: "lookup_profile (iq_profile req) = Inr p" "x_is_ca cert = profile_is_ca p" and
    sans: "sign_sans P p (subject_normalize (iq_subject req)) (iq_sans req) = Inr sans"
      "san_split P sans = Inr (x_sans cert)"
    using assms(1) by (rule sign_public_keyE) blast
  have leaf: "\<not> profile_is_ca p" using p assms(2) by simp
  note sa = sign_sans_leaf [OF sans(1) leaf] and dns = san_split_dns [OF sans(2)]
  show "sp_dns (x_sans cert) = map san_value (filter (\<lambda>e. san_type e = san_dns)
           (san_add_dns (iq_sans req) (trim_space (common_name (iq_subject req)))))"
    using dns sa(1) by simp
  have "dns_name_ok (san_value e)" if "e \<in> set sans" "san_type e = san_dns" for e
    using sa(3) that by (intro san_validate_dns_value) auto
  then show "\<forall>n \<in> set (sp_dns (x_sans cert)). dns_name_ok n"
    unfolding dns by auto
qed

section \<open>Issuance and renewal\<close>

lemma issueE:
  assumes "issue P now kid draws ca req = Inr ic"
  obtains "generate_key kid (iq_key_spec req) = Inr (ic_private_key ic)"
    "sign_public_key P now draws ca (public_of (ic_private_key ic)) req = Inr (ic_certificate ic)"
    "ic_chain ic = issuer_chain ca"
  using assms by (auto simp: issue_def)

lemma sign_csrE:
  assumes "sign_csr P now draws ca r req = Inr cert"
  obtains c where "r = Some c" "validate_csr_for_signing P (Some c) = Inr ()"
    "sign_public_key P now draws ca (csr_public_key c) (fill_from_csr c req) = Inr cert"
  using assms by (cases r) (auto simp: sign_csr_def)

lemma renewE:
  assumes "renew P now kid draws ca current key req = Inr ic"
  obtains cur iq where "current = Some cur" "iq = renew_issue_request cur req \<or>
      (\<exists>spec. iq = (renew_issue_request cur req)\<lparr>iq_key_spec := spec\<rparr>)"
    "sign_public_key P now draws ca (public_of (ic_private_key ic)) iq = Inr (ic_certificate ic)"
    "ic_chain ic = issuer_chain ca"
    "\<not> rq_rekey req \<Longrightarrow> key = Some (ic_private_key ic)"
proof (cases current)
  case None
  then show ?thesis using assms by (simp add: renew_def)
next
  case (Some cur)
  let ?iq = "renew_issue_request cur req"
  show ?thesis
  proof (cases "rq_rekey req")
    case False
    then show ?thesis
      using assms Some by (auto simp: renew_def Let_def split: option.splits intro: that [of cur ?iq])
  next
    case True
    then obtain spec where "issue P now kid draws ca (?iq\<lparr>iq_key_spec := spec\<rparr>) = Inr ic"
      using assms Some by (auto simp: renew_def Let_def split: if_splits)
    then show ?thesis
      by (rule issueE) (rule that [of cur "?iq\<lparr>iq_key_spec := spec\<rparr>"], use Some True in auto)
  qed
qed

section \<open>Authorities\<close>

lemma ca_templateE:
  assumes "ca_template now draws req = Inr t"
  obtains "generate_serial draws = Inr (x_serial t)"
    "template_constraints (cq_constraints req) = Inr (x_constraints_of t)"
    "x_not_before t = start_of now (cq_not_before req)"
    "x_not_after t = add_days (start_of now (cq_not_before req)) (cq_validity_days req)"
    "x_key_usage t = profile_key_usage root_profile" "x_bc_valid t" "x_is_ca t"
    "x_max_path_len t = cq_max_path_len req" "x_max_path_len_zero t = cq_max_path_len_zero req"
    "x_subject t = to_pkix (cq_subject req)" "x_skid t = None" "x_sans t = no_sans"
  using assms by (auto simp: ca_template_def Let_def blank_template_def)

lemma root_usage: "profile_key_usage root_profile AND ku_cert_sign \<noteq> 0"
  "profile_key_usage root_profile AND ku_crl_sign \<noteq> 0"
  by (simp_all add: root_profile_def ku_defs)

lemma create_root_caE:
  assumes "create_root_ca P now kid draws req = Inr ca"
  obtains t cert key where
    "ca = \<lparr>ca_certificate = Some cert, ca_private_key = Some key, ca_chain = []\<rparr>"
    "subject_validate (subject_normalize (cq_subject req)) = Inr ()"
    "generate_key kid (cq_key_spec req) = Inr key"
    "ca_template now draws (req\<lparr>cq_subject := subject_normalize (cq_subject req),
       cq_validity_days := default_days (cq_validity_days req) root_profile\<rparr>) = Inr t"
    "x509_create P (t\<lparr>x_issuer := x_subject t, x_sig_alg := signature_algorithm_for key, x_akid := None\<rparr>)
       None (public_of key) key = Inr cert"
  using assms by (auto simp: create_root_ca_def Let_def)

lemma create_intermediate_caE:
  assumes "create_intermediate_ca P now kid draws parent req = Inr ca"
  obtains t cert key pcert pkey where
    "ca_certificate parent = Some pcert" "ca_private_key parent = Some pkey"
    "ca = \<lparr>ca_certificate = Some cert, ca_private_key = Some key, ca_chain = issuer_chain parent\<rparr>"
    "subject_validate (subject_normalize (cq_subject req)) = Inr ()"
    "generate_key kid (cq_key_spec req) = Inr key"
    "ca_template now draws (req\<lparr>cq_subject := subject_normalize (cq_subject req),
       cq_validity_days := default_days (cq_validity_days req) intermediate_profile\<rparr>) = Inr t"
    "check_issuer_can_sign now pcert (x_not_after t) True = Inr ()"
    "x509_create P (t\<lparr>x_sig_alg := signature_algorithm_for pkey\<rparr>) (Some pcert) (public_of key) pkey = Inr cert"
  using assms
  by (auto simp: create_intermediate_ca_def issuer_of_def Let_def split: option.splits)

text \<open>What both constructors leave behind: an authority able to sign and to publish a CRL.\<close>

definition ca_wf :: "cert_authority \<Rightarrow> bool" where
  "ca_wf ca = (case (ca_certificate ca, ca_private_key ca) of
     (Some c, Some k) \<Rightarrow> x509_wf c \<and> x_is_ca c \<and> x_key_usage c AND ku_cert_sign \<noteq> 0 \<and>
        x_key_usage c AND ku_crl_sign \<noteq> 0 \<and> key_matches k (x_public_key c) \<and> can_sign k \<and>
        x_skid c \<noteq> None \<and> 0 < x_serial c
   | _ \<Rightarrow> False)"

lemma generated_can_sign: "generate_key kid spec = Inr key \<Longrightarrow> can_sign key"
  by (auto simp: generate_key_def can_sign_def marshalable_def spec_validate_def split: if_splits)

lemma create_root_ca_wf:
  assumes "create_root_ca P now kid draws req = Inr ca"
  shows "ca_wf ca" and "is_root ca"
proof -
  obtain t cert key where
    ca: "ca = \<lparr>ca_certificate = Some cert, ca_private_key = Some key, ca_chain = []\<rparr>" and
    k: "generate_key kid (cq_key_spec req) = Inr key" and
    t: "ca_template now draws (req\<lparr>cq_subject := subject_normalize (cq_subject req),
       cq_validity_days := default_days (cq_validity_days req) root_profile\<rparr>) = Inr t" and
    c: "x509_create P (t\<lparr>x_issuer := x_subject t, x_sig_alg := signature_algorithm_for key, x_akid := None\<rparr>)
       None (public_of key) key = Inr cert"
    using assms by (rule create_root_caE) blast
  note built = x509_create_InrD(1) [OF c]
  note m = key_matches_self [OF generated_can_sign [OF k]]
  from t show "ca_wf ca"
    by (rule ca_templateE)
       (use ca built m generated_can_sign [OF k] in
         \<open>simp add: ca_wf_def x509_wf_def root_usage generate_serial_positive x509_built_skid\<close>)
  from t show "is_root ca"
    by (rule ca_templateE)
       (use ca built m generated_can_sign [OF k] in
         \<open>auto simp: is_root_def is_self_signed_def x509_wf_def root_usage
            intro!: check_signature_fromI [where k = key]\<close>)
qed

lemma create_intermediate_ca_wf:
  assumes "create_intermediate_ca P now kid draws parent req = Inr ca"
    and "ca_certificate parent = Some pcert" "x509_wf pcert"
  shows "ca_wf ca"
    and "\<exists>cert. ca_certificate ca = Some cert \<and> check_signature_from cert pcert \<and>
           x_not_after cert \<le> x_not_after pcert \<and> x_issuer cert = x_subject pcert"
    and "ca_chain ca = pcert # ca_chain parent"
    and "\<not> x_max_path_len_zero pcert"
proof -
  obtain t cert key pkey where
    ca: "ca = \<lparr>ca_certificate = Some cert, ca_private_key = Some key, ca_chain = issuer_chain parent\<rparr>" and
    k: "generate_key kid (cq_key_spec req) = Inr key" and
    t: "ca_template now draws (req\<lparr>cq_subject := subject_normalize (cq_subject req),
       cq_validity_days := default_days (cq_validity_days req) intermediate_profile\<rparr>) = Inr t" and
    chk: "check_issuer_can_sign now pcert (x_not_after t) True = Inr ()" and
    c: "x509_create P (t\<lparr>x_sig_alg := signature_algorithm_for pkey\<rparr>) (Some pcert) (public_of key) pkey = Inr cert"
    using assms(1) by (rule create_intermediate_caE) (use assms(2) in auto)
  note built = x509_create_InrD(1) [OF c] and ok = x509_checks_InrD [OF x509_create_InrD(2) [OF c]]
  note m = key_matches_self [OF generated_can_sign [OF k]]
  show "ca_chain ca = pcert # ca_chain parent" using ca assms(2) by (simp add: issuer_chain_def)
  show "\<not> x_max_path_len_zero pcert" using check_issuer_InrD(6) [OF chk] by simp
  from t show "ca_wf ca"
    by (rule ca_templateE)
       (use ca built m generated_can_sign [OF k] in
         \<open>simp add: ca_wf_def x509_wf_def root_usage generate_serial_positive x509_built_skid\<close>)
  have "check_signature_from cert pcert"
    by (rule check_signature_fromI [where k = pkey])
       (use assms(3) ok built check_issuer_InrD [OF chk] in auto)
  moreover have "x_not_after cert \<le> x_not_after pcert"
    using built check_issuer_InrD(4) [OF chk] order_trans [OF trunc_seconds_le] by simp
  ultimately show "\<exists>cert. ca_certificate ca = Some cert \<and> check_signature_from cert pcert \<and>
      x_not_after cert \<le> x_not_after pcert \<and> x_issuer cert = x_subject pcert"
    using ca built by auto
qed

end
