(* ===== verification/PkiRevocation.thy ===== *)
theory PkiRevocation
  imports PkiSignLaws
begin

text \<open>
  \<open>internal/pki/crl.go\<close> and \<open>ocsp.go\<close>: revocation reasons, signed revocation lists and OCSP
  answers.  The OCSP wire format is the package \<open>golang.org/x/crypto/ocsp\<close>: the record
  \<open>ocsp_lib\<close> holds its digest function and its response signer, an argument of what uses
  them.
\<close>

section \<open>Reasons\<close>

definition revocation_reasons :: "(int \<times> string) list" where
  "revocation_reasons =
     [(0, ''unspecified''), (1, ''keyCompromise''), (2, ''cACompromise''), (3, ''affiliationChanged''),
      (4, ''superseded''), (5, ''cessationOfOperation''), (6, ''certificateHold''),
      (8, ''removeFromCRL''), (9, ''privilegeWithdrawn''), (10, ''aACompromise'')]"

definition reason_superseded :: int where "reason_superseded = 4"
definition reason_certificate_hold :: int where "reason_certificate_hold = 6"
definition reason_remove_from_crl :: int where "reason_remove_from_crl = 8"

definition revocation_reason_name :: "int \<Rightarrow> string" where
  "revocation_reason_name code = (case map_of revocation_reasons code of
     Some n \<Rightarrow> n | None \<Rightarrow> ''unknown('' @ dec_int code @ '')'')"

definition validate_revocation_reason :: "int \<Rightarrow> int + unit" where
  "validate_revocation_reason code = guardE (map_of revocation_reasons code \<noteq> None) code"

section \<open>Revocation lists\<close>

datatype crl_error = CRLNoIssuer | CRLUsageMissing string | EntryWithoutSerial | CRLCreate x509_error

record revoked_certificate =
  rc_serial :: "int option"
  rc_at :: "instant option"
  rc_reason :: int

record crl_request =
  lq_number :: "int option"
  lq_this :: "instant option"
  lq_next :: "instant option"
  lq_revoked :: "revoked_certificate list"

text \<open>\<open>x509.CreateRevocationList\<close>.\<close>

definition x509_create_crl ::
    "crl_entry list \<Rightarrow> int \<Rightarrow> instant \<Rightarrow> instant \<Rightarrow> x509 \<Rightarrow> private_key \<Rightarrow> x509_error + crl" where
  "x509_create_crl entries number this nxt issuer key =
     (if x_key_usage issuer AND ku_crl_sign = 0 then Inl NoCRLSign
      else if x_skid issuer = None then Inl NoSubjectKeyId
      else if nxt < this then Inl NextBeforeThis
      else if \<not> can_sign key then Inl KeyUnsupported
      else Inr \<lparr>crl_issuer = x_subject issuer, crl_number = number,
             crl_this = trunc_seconds this, crl_next = trunc_seconds nxt,
             crl_entries = map (\<lambda>e. e\<lparr>ce_at := trunc_seconds (ce_at e)\<rparr>) entries,
             crl_signed_by = public_of key\<rparr>)"

definition crl_entry_of :: "instant \<Rightarrow> revoked_certificate \<Rightarrow> crl_error + crl_entry" where
  "crl_entry_of this r = (case rc_serial r of
       None \<Rightarrow> Inl EntryWithoutSerial
     | Some s \<Rightarrow> Inr \<lparr>ce_serial = s, ce_at = (case rc_at r of None \<Rightarrow> this | Some t \<Rightarrow> t),
                      ce_reason = rc_reason r\<rparr>)"

definition crl_or_default :: "'a \<Rightarrow> 'a option \<Rightarrow> 'a" where
  "crl_or_default d v = (case v of None \<Rightarrow> d | Some x \<Rightarrow> x)"

definition generate_crl :: "instant \<Rightarrow> cert_authority \<Rightarrow> crl_request \<Rightarrow> crl_error + crl" where
  "generate_crl now ca req =
     bindE (map_err (\<lambda>_. CRLNoIssuer) (issuer_of ca)) (\<lambda>(cert, key).
     if x_key_usage cert \<noteq> 0 \<and> x_key_usage cert AND ku_crl_sign = 0
     then Inl (CRLUsageMissing (pn_common_name (x_subject cert)))
     else let this = crl_or_default now (lq_this req);
              nxt = crl_or_default (this + 7 * 24 * hour) (lq_next req);
              number = crl_or_default 1 (lq_number req)
          in bindE (mapE (crl_entry_of this) (lq_revoked req)) (\<lambda>entries.
             map_err CRLCreate (x509_create_crl entries number this nxt cert key)))"

definition block_crl :: string where "block_crl = ''X509 CRL''"

definition encode_crl_pem :: "der \<Rightarrow> pem" where
  "encode_crl_pem d = [plain_block block_crl d]"

definition parse_crl :: "document \<Rightarrow> crl option" where
  "parse_crl d = parse_revocation_list (case doc_blocks d of
       b # _ \<Rightarrow> if pem_type b = block_crl then pem_bytes b else doc_raw d
     | [] \<Rightarrow> doc_raw d)"

section \<open>OCSP\<close>

datatype hash_alg = HashZero | SHA1 | SHA256 | SHA384 | SHA512 | OtherHash nat

datatype digest_input = DigestName pkix_name | DigestKey public_key

datatype ocsp_status = OCSPGood | OCSPRevoked | OCSPUnknown

datatype ocsp_error = OCSPNoIssuer | OCSPNoSerial | OCSPSignFailed

record ocsp_query =
  oq_serial :: int
  oq_key_hash :: "byte list"
  oq_name_hash :: "byte list"
  oq_hash :: hash_alg

record ocsp_response =
  or_serial :: "int option"
  or_status :: ocsp_status
  or_revoked_at :: "instant option"
  or_reason :: int
  or_this :: "instant option"
  or_next :: "instant option"
  or_hash :: hash_alg

record ocsp_template =
  ot_status :: ocsp_status
  ot_serial :: int
  ot_this :: instant
  ot_next :: instant
  ot_hash :: hash_alg
  ot_sig_alg :: signature_algorithm
  ot_revoked_at :: "instant option"
  ot_reason :: int

record 'r ocsp_lib =
  digest :: "hash_alg \<Rightarrow> digest_input \<Rightarrow> byte list"
  linked_hash :: "hash_alg \<Rightarrow> bool"
  ocsp_create :: "x509 \<Rightarrow> x509 \<Rightarrow> ocsp_template \<Rightarrow> private_key \<Rightarrow> 'r option"

text \<open>What \<open>ParseOCSPRequest\<close> makes of a decoded query.\<close>

definition parse_ocsp_query :: "ocsp_query \<Rightarrow> ocsp_query" where
  "parse_ocsp_query q = (if oq_hash q = HashZero then q\<lparr>oq_hash := SHA1\<rparr> else q)"

definition ocsp_issuer_hashes :: "'r ocsp_lib \<Rightarrow> x509 \<Rightarrow> hash_alg \<Rightarrow> byte list \<times> byte list" where
  "ocsp_issuer_hashes L issuer h =
     (digest L h (DigestName (x_subject issuer)), digest L h (DigestKey (x_public_key issuer)))"

fun equal_bytes :: "byte list \<Rightarrow> byte list \<Rightarrow> bool" where
  "equal_bytes [] [] = True"
| "equal_bytes (a # as) (b # bs) = (a = b \<and> equal_bytes as bs)"
| "equal_bytes _ _ = False"

definition matches_issuer :: "'r ocsp_lib \<Rightarrow> ocsp_query option \<Rightarrow> x509 option \<Rightarrow> bool" where
  "matches_issuer L query issuer = (case (query, issuer) of
     (Some q, Some c) \<Rightarrow>
       if \<not> linked_hash L (oq_hash q) then False
       else (case ocsp_issuer_hashes L c (oq_hash q) of (nh, kh) \<Rightarrow>
               equal_bytes nh (oq_name_hash q) \<and> equal_bytes kh (oq_key_hash q))
   | _ \<Rightarrow> False)"

definition ocsp_signature_algorithm :: "private_key \<Rightarrow> signature_algorithm" where
  "ocsp_signature_algorithm k = (case signature_algorithm_for k of
     SHA256WithRSA \<Rightarrow> SHA256WithRSA | SHA384WithRSA \<Rightarrow> SHA256WithRSA | SHA512WithRSA \<Rightarrow> SHA256WithRSA
   | ECDSAWithSHA256 \<Rightarrow> ECDSAWithSHA256 | ECDSAWithSHA384 \<Rightarrow> ECDSAWithSHA256
   | ECDSAWithSHA512 \<Rightarrow> ECDSAWithSHA256
   | _ \<Rightarrow> UnknownSignatureAlgorithm)"

definition sign_ocsp_response ::
    "'r ocsp_lib \<Rightarrow> instant \<Rightarrow> cert_authority \<Rightarrow> ocsp_response \<Rightarrow> ocsp_error + 'r" where
  "sign_ocsp_response L now ca resp =
     bindE (map_err (\<lambda>_. OCSPNoIssuer) (issuer_of ca)) (\<lambda>(cert, key).
     bindE (of_opt OCSPNoSerial (or_serial resp)) (\<lambda>serial.
     let this = crl_or_default now (or_this resp);
         nxt = crl_or_default (this + 24 * hour) (or_next resp);
         h = (if or_hash resp = HashZero then SHA1 else or_hash resp);
         t = \<lparr>ot_status = or_status resp, ot_serial = serial, ot_this = this, ot_next = nxt, ot_hash = h,
              ot_sig_alg = ocsp_signature_algorithm key,
              ot_revoked_at = (if or_status resp = OCSPRevoked then or_revoked_at resp else None),
              ot_reason = (if or_status resp = OCSPRevoked then or_reason resp else 0)\<rparr>
     in of_opt OCSPSignFailed (ocsp_create L cert cert t key)))"

section \<open>Laws\<close>

lemma validate_reason_iff:
  "validate_revocation_reason c = Inr () \<longleftrightarrow> c \<in> {0..10} - {7}"
proof -
  have "c \<in> {0..10} - {7} \<longleftrightarrow> c \<in> {0, 1, 2, 3, 4, 5, 6, 8, 9, 10}"
    by (simp only: Diff_iff atLeastAtMost_iff insert_iff empty_iff) presburger
  then show ?thesis
    by (auto simp: validate_revocation_reason_def revocation_reasons_def)
qed

lemma equal_bytes_iff: "equal_bytes a b \<longleftrightarrow> a = b"
  by (induction a b rule: equal_bytes.induct) auto

lemma mapE_crl_entries:
  "mapE (crl_entry_of this) rs = Inr es \<Longrightarrow>
   map (\<lambda>e. Some (ce_serial e)) es = map rc_serial rs \<and> map ce_reason es = map rc_reason rs"
  by (induction rs arbitrary: es) (auto simp: crl_entry_of_def split: option.splits)

lemma generate_crlE:
  assumes "generate_crl now ca req = Inr l"
  obtains cert key where "ca_certificate ca = Some cert" "ca_private_key ca = Some key"
    "x_key_usage cert AND ku_crl_sign \<noteq> 0"
    "map (\<lambda>e. Some (ce_serial e)) (crl_entries l) = map rc_serial (lq_revoked req)"
    "map ce_reason (crl_entries l) = map rc_reason (lq_revoked req)"
    "crl_signed_by l = public_of key" "crl_issuer l = x_subject cert"
    "crl_number l = crl_or_default 1 (lq_number req)"
    "crl_this l \<le> crl_next l"
proof -
  obtain cert key where i: "ca_certificate ca = Some cert" "ca_private_key ca = Some key"
    using assms by (auto simp: generate_crl_def issuer_of_def split: option.splits)
  let ?upd = "crl_or_default now (lq_this req)"
  obtain es where es: "mapE (crl_entry_of ?upd) (lq_revoked req) = Inr es" and
    c: "x509_create_crl es (crl_or_default 1 (lq_number req)) ?upd
          (crl_or_default (?upd + 7 * 24 * hour) (lq_next req)) cert key = Inr l"
    using assms i by (auto simp: generate_crl_def issuer_of_def Let_def split: if_splits)
  show thesis
    by (rule that [OF i])
       (use c mapE_crl_entries [OF es] trunc_seconds_mono in
         \<open>auto simp: x509_create_crl_def comp_def split: if_split_asm\<close>)
qed

lemma generate_crl_total:
  assumes "ca_wf ca" "\<forall>r \<in> set (lq_revoked req). rc_serial r \<noteq> None"
    and "case (lq_this req, lq_next req) of (Some t, Some n) \<Rightarrow> t \<le> n | (None, Some n) \<Rightarrow> now \<le> n | _ \<Rightarrow> True"
  shows "\<exists>l. generate_crl now ca req = Inr l"
proof -
  obtain cert key where i: "ca_certificate ca = Some cert" "ca_private_key ca = Some key"
    and w: "x_key_usage cert AND ku_crl_sign \<noteq> 0" "x_skid cert \<noteq> None" "can_sign key"
    using assms(1) by (auto simp: ca_wf_def split: option.splits)
  let ?upd = "crl_or_default now (lq_this req)"
  have "mapE (crl_entry_of ?upd) (lq_revoked req) =
      Inr (map (\<lambda>r. \<lparr>ce_serial = the (rc_serial r),
                    ce_at = (case rc_at r of None \<Rightarrow> ?upd | Some t \<Rightarrow> t), ce_reason = rc_reason r\<rparr>) (lq_revoked req))"
    using assms(2) by (intro mapE_ok) (auto simp: crl_entry_of_def split: option.splits)
  moreover have "?upd \<le> crl_or_default (?upd + 7 * 24 * hour) (lq_next req)"
    using assms(3) by (auto simp: crl_or_default_def hour_def minute_def second_def split: option.splits)
  ultimately show ?thesis
    using i w by (simp add: generate_crl_def issuer_of_def x509_create_crl_def Let_def not_less)
qed

lemma matches_issuerI:
  "linked_hash L h \<Longrightarrow>
   matches_issuer L (Some \<lparr>oq_serial = s, oq_key_hash = digest L h (DigestKey (x_public_key c)),
     oq_name_hash = digest L h (DigestName (x_subject c)), oq_hash = h\<rparr>) (Some c)"
  by (simp add: matches_issuer_def ocsp_issuer_hashes_def equal_bytes_iff)

lemma matches_issuer_same:
  assumes "matches_issuer L (Some q) (Some c)" "matches_issuer L (Some q) (Some d)"
    and "inj (digest L (oq_hash q))"
  shows "x_subject c = x_subject d \<and> x_public_key c = x_public_key d"
  using assms
  by (auto simp: matches_issuer_def ocsp_issuer_hashes_def equal_bytes_iff inj_def split: if_splits)
     (metis digest_input.inject)+

end
