(* ===== verification/PkiBundle.thy ===== *)
theory PkiBundle
  imports PkiSignLaws
begin

text \<open>
  \<open>internal/pki/bundle.go\<close>: a certificate with its key and chain, path building over a pool
  of certificates and the health report of a chain.  The SHA-256 fingerprint is the argument
  \<open>fp\<close>.  PKCS#12 files and the path verification of \<open>crypto/x509\<close> are not modelled.
\<close>

datatype bundle_error = NoBundleKey | BundleKeyError x509_error

record cert_bundle =
  b_certificate :: x509
  b_private_key :: "private_key option"
  b_chain :: "x509 list"

definition bundle_cert_pem :: "cert_bundle \<Rightarrow> pem" where
  "bundle_cert_pem b = encode_certificate_pem (b_certificate b)"

definition bundle_chain_pem :: "cert_bundle \<Rightarrow> pem" where
  "bundle_chain_pem b = concat (map encode_certificate_pem (b_chain b))"

definition bundle_full_chain_pem :: "cert_bundle \<Rightarrow> pem" where
  "bundle_full_chain_pem b = bundle_cert_pem b @ bundle_chain_pem b"

definition bundle_root_pem :: "cert_bundle \<Rightarrow> pem" where
  "bundle_root_pem b = (if b_chain b = [] then bundle_cert_pem b
     else encode_certificate_pem (last (b_chain b)))"

definition bundle_key_pem :: "cert_bundle \<Rightarrow> string \<Rightarrow> bundle_error + pem" where
  "bundle_key_pem b passphrase = (case b_private_key b of
       None \<Rightarrow> Inl NoBundleKey
     | Some k \<Rightarrow> map_err BundleKeyError
         (if passphrase = [] then marshal_private_key_pem k else encrypt_private_key_pem k passphrase))"

section \<open>Building a path\<close>

definition next_issuer :: "(x509 \<Rightarrow> string) \<Rightarrow> string list \<Rightarrow> x509 \<Rightarrow> x509 list \<Rightarrow> x509 option" where
  "next_issuer fp used cur pool =
     List.find (\<lambda>c. fp c \<notin> set used \<and> check_signature_from cur c) pool"

fun chain_loop :: "(x509 \<Rightarrow> string) \<Rightarrow> nat \<Rightarrow> string list \<Rightarrow> x509 \<Rightarrow> x509 list \<Rightarrow> x509 list" where
  "chain_loop fp 0 used cur pool = []"
| "chain_loop fp (Suc k) used cur pool =
     (case next_issuer fp used cur pool of
        None \<Rightarrow> []
      | Some i \<Rightarrow> i # (if is_self_signed i then [] else chain_loop fp k (fp i # used) i pool))"

definition build_chain :: "(x509 \<Rightarrow> string) \<Rightarrow> x509 \<Rightarrow> x509 list \<Rightarrow> x509 list" where
  "build_chain fp leaf pool = chain_loop fp (length pool) [fp leaf] leaf pool"

section \<open>Reporting on a chain\<close>

record chain_status =
  cs_subject :: string
  cs_issuer :: string
  cs_serial :: string
  cs_not_before :: instant
  cs_not_after :: instant
  cs_is_ca :: bool
  cs_self_signed :: bool
  cs_valid :: bool
  cs_problem :: string
  cs_days_remaining :: int
  cs_pem :: pem

definition link_problem :: "instant \<Rightarrow> x509 \<Rightarrow> x509 list \<Rightarrow> bool \<times> string" where
  "link_problem at c rest =
     (if at < x_not_before c then (False, ''not valid yet'')
      else if x_not_after c < at then (False, ''expired'')
      else (case rest of
          p # _ \<Rightarrow> if check_signature_from c p then (True, [])
                   else (False, ''not signed by the next certificate in the chain'')
        | [] \<Rightarrow> if is_self_signed c then (True, [])
                else (True, ''chain is incomplete - the issuer of this certificate is missing'')))"

fun describe_links :: "instant \<Rightarrow> x509 list \<Rightarrow> chain_status list" where
  "describe_links at [] = []"
| "describe_links at (c # rest) =
     (case link_problem at c rest of (valid, problem) \<Rightarrow>
       \<lparr>cs_subject = pn_common_name (x_subject c), cs_issuer = pn_common_name (x_issuer c),
        cs_serial = format_serial (Some (x_serial c)), cs_not_before = x_not_before c,
        cs_not_after = x_not_after c, cs_is_ca = x_is_ca c, cs_self_signed = is_self_signed c,
        cs_valid = valid, cs_problem = problem,
        cs_days_remaining = whole_days (x_not_after c - at), cs_pem = encode_certificate_pem c\<rparr>)
     # describe_links at rest"

definition describe_chain :: "cert_bundle \<Rightarrow> instant option \<Rightarrow> instant \<Rightarrow> chain_status list" where
  "describe_chain b at now =
     describe_links (case at of None \<Rightarrow> now | Some t \<Rightarrow> t) (b_certificate b # b_chain b)"

section \<open>Laws\<close>

lemma next_issuer_SomeD:
  "next_issuer fp used cur pool = Some i \<Longrightarrow> i \<in> set pool \<and> fp i \<notin> set used \<and> check_signature_from cur i"
  by (auto simp: next_issuer_def dest: find_SomeD)

text \<open>A list of certificates in which each is signed by the next.\<close>

fun linked :: "x509 list \<Rightarrow> bool" where
  "linked (c # d # r) = (check_signature_from c d \<and> linked (d # r))"
| "linked _ = True"

lemma chain_loop_linked: "linked (cur # chain_loop fp k used cur pool)"
proof (induction k arbitrary: used cur)
  case (Suc k)
  show ?case
    using Suc.IH by (auto split: option.split dest!: next_issuer_SomeD)
qed simp

lemma chain_loop_subset: "set (chain_loop fp k used cur pool) \<subseteq> set pool"
proof (induction k arbitrary: used cur)
  case (Suc k)
  show ?case
    using Suc.IH by (cases "next_issuer fp used cur pool") (auto dest: next_issuer_SomeD)
qed simp

lemma chain_loop_fresh:
  "distinct (map fp (chain_loop fp k used cur pool)) \<and>
   set (map fp (chain_loop fp k used cur pool)) \<inter> set used = {}"
proof (induction k arbitrary: used cur)
  case (Suc k)
  show ?case
  proof (cases "next_issuer fp used cur pool")
    case (Some i)
    then have "fp i \<notin> set used" by (simp add: next_issuer_SomeD)
    then show ?thesis using Some Suc.IH [of "fp i # used" i] by auto
  qed simp
qed simp

text \<open>Fuel of the pool's size is enough: more rounds find nothing more.\<close>

lemma card_used_bound:
  "distinct (map fp (chain_loop fp k used cur pool)) \<Longrightarrow> length (chain_loop fp k used cur pool) \<le> length pool"
proof -
  assume "distinct (map fp (chain_loop fp k used cur pool))"
  then have d: "distinct (chain_loop fp k used cur pool)" by (simp add: distinct_map)
  have "card (set (chain_loop fp k used cur pool)) \<le> card (set pool)"
    by (intro card_mono chain_loop_subset) simp
  then show ?thesis using distinct_card [OF d] card_length [of pool] by linarith
qed

lemma chain_loop_more:
  "length (chain_loop fp (Suc k) used cur pool) \<le> k \<Longrightarrow>
   chain_loop fp (Suc k) used cur pool = chain_loop fp k used cur pool"
proof (induction k arbitrary: used cur)
  case (Suc k)
  show ?case
  proof (cases "next_issuer fp used cur pool")
    case (Some i)
    then show ?thesis
      using Suc.IH [of "fp i # used" i] Suc.prems
      by (auto simp del: chain_loop.simps
          simp: chain_loop.simps(2) [of fp "Suc k" used cur] chain_loop.simps(2) [of fp k used cur])
  qed simp
qed (simp split: option.splits)

lemma chain_loop_fuel: "chain_loop fp (length pool + n) used cur pool = chain_loop fp (length pool) used cur pool"
proof (induction n)
  case (Suc n)
  have "length (chain_loop fp (Suc (length pool + n)) used cur pool) \<le> length pool + n"
    using card_used_bound [OF conjunct1 [OF chain_loop_fresh]] le_add1 order_trans by blast
  then show ?case using chain_loop_more Suc by simp
qed simp

lemma describe_links_length [simp]: "length (describe_links at cs) = length cs"
  by (induction cs) (auto split: prod.splits)

lemma describe_links_valid:
  "(\<forall>s \<in> set (describe_links at cs). cs_valid s) \<longleftrightarrow>
     linked cs \<and> (\<forall>c \<in> set cs. x_not_before c \<le> at \<and> at \<le> x_not_after c)"
  by (induction cs rule: linked.induct) (auto simp: link_problem_def split: prod.splits if_splits)

end
