(* ===== verification/Store.thy ===== *)
theory Store
  imports PkiRevocation PkiBundle
begin

text \<open>
  \<open>internal/store\<close>: the rows of \<open>models.go\<close> and \<open>models_acme.go\<close>, the tables of the database
  and the generic table operations the repositories are made of.

  The database is a record of row lists.  What GORM and the database promise is built into
  the operations: a primary key, the unique indexes of the models and the foreign keys, which
  the default SQLite DSN switches on (\<open>_pragma=foreign_keys(1)\<close>).  A violated index is
  \<open>RecordConflict\<close>, a dangling or still referenced row \<open>ForeignKeyViolation\<close>; a statement that
  fails changes nothing.  \<open>Save\<close> updates the row with its key, or inserts it.  JSON columns
  hold the value they encode, and PEM columns the blocks they contain.
\<close>

section \<open>Rows\<close>

datatype status = StActive | StExpiring | StExpired | StRevoked | StHeld

datatype authority_type = TypeRoot | TypeIntermediate

text \<open>
  A private key at rest: sealed by \<open>Keyring.Seal\<close> under the master key and a passphrase
  (empty for none), or absent.
\<close>

datatype sealed_key = NoSealedKey | Sealed nat string private_key

type_synonym labels = "(string \<times> string) list"

record authority =
  au_id :: string
  au_created_at :: instant
  au_name :: string
  au_slug :: string
  au_type :: authority_type
  au_parent :: "string option"
  au_subject :: subject
  au_key_spec :: key_spec
  au_serial :: string
  au_not_before :: instant
  au_not_after :: instant
  au_path_len :: "int option"
  au_constraints :: name_constraints
  au_cert_pem :: pem
  au_key :: sealed_key
  au_passphrase_protected :: bool
  au_crl_url :: string
  au_ocsp_url :: string
  au_crl_number :: int
  au_crl_pem :: pem
  au_next_crl :: "instant option"
  au_status :: status
  au_fingerprint :: string
  au_description :: string
  au_created_by :: string

record certificate =
  cr_id :: string
  cr_created_at :: instant
  cr_authority :: string
  cr_common_name :: string
  cr_subject :: subject
  cr_profile :: string
  cr_key_spec :: key_spec
  cr_serial :: string
  cr_sans :: san_set
  cr_key_usage :: "string list"
  cr_eku :: "string list"
  cr_not_before :: instant
  cr_not_after :: instant
  cr_validity_days :: int
  cr_cert_pem :: pem
  cr_key :: sealed_key
  cr_csr_pem :: "document option"
  cr_fingerprint :: string
  cr_status :: status
  cr_auto_renew :: bool
  cr_renew_before :: int
  cr_renewed_from :: "string option"
  cr_key_downloads :: int
  cr_last_downloaded :: "instant option"
  cr_labels :: labels
  cr_notes :: string

record revocation =
  rv_id :: string
  rv_certificate :: string
  rv_authority :: string
  rv_serial :: string
  rv_reason_code :: int
  rv_reason :: string
  rv_at :: instant
  rv_by :: string

datatype acme_status = AcPending | AcReady | AcProcessing | AcValid | AcInvalid | AcDeactivated | AcRevoked

record acme_account =
  aa_id :: string
  aa_thumbprint :: string
  aa_jwk :: string
  aa_contact :: "string list"
  aa_status :: acme_status
  aa_terms :: bool
  aa_external :: string
  aa_last_used :: "instant option"

record acme_external =
  ax_id :: string
  ax_kid :: string
  ax_description :: string
  ax_hmac :: "(nat \<times> string) option"
  ax_allowed_domains :: "string list"
  ax_enabled :: bool
  ax_expires :: "instant option"
  ax_last_used :: "instant option"
  ax_created_by :: string

record acme_order =
  ao_id :: string
  ao_created_at :: instant
  ao_account :: string
  ao_status :: acme_status
  ao_identifiers :: "string list"
  ao_not_before :: "instant option"
  ao_not_after :: "instant option"
  ao_expires :: instant
  ao_certificate :: string
  ao_error :: string

record acme_authz =
  az_id :: string
  az_created_at :: instant
  az_order :: string
  az_account :: string
  az_identifier :: string
  az_wildcard :: bool
  az_status :: acme_status
  az_expires :: instant

record acme_challenge =
  ch_id :: string
  ch_created_at :: instant
  ch_authz :: string
  ch_type :: string
  ch_token :: string
  ch_status :: acme_status
  ch_validated :: "instant option"
  ch_error :: string
  ch_attempts :: int

record acme_nonce =
  nc_value :: string
  nc_issued :: instant
  nc_expires :: instant

record db =
  db_authorities :: "authority list"
  db_certificates :: "certificate list"
  db_revocations :: "revocation list"
  db_accounts :: "acme_account list"
  db_externals :: "acme_external list"
  db_orders :: "acme_order list"
  db_authzs :: "acme_authz list"
  db_challenges :: "acme_challenge list"
  db_nonces :: "acme_nonce list"

definition empty_db :: db where
  "empty_db = \<lparr>db_authorities = [], db_certificates = [], db_revocations = [], db_accounts = [],
     db_externals = [], db_orders = [], db_authzs = [], db_challenges = [], db_nonces = []\<rparr>"

datatype store_error =
    RecordNotFound | RecordConflict | RecordInUse nat | ForeignKeyViolation | ChainTooLong string | ValueTooLong

section \<open>Methods of the rows\<close>

definition has_private_key :: "certificate \<Rightarrow> bool" where
  "has_private_key c = (cr_key c \<noteq> NoSealedKey)"

definition days_remaining :: "instant \<Rightarrow> certificate \<Rightarrow> int" where
  "days_remaining now c = whole_days (cr_not_after c - now)"

definition derive_status :: "instant \<Rightarrow> int \<Rightarrow> certificate \<Rightarrow> status" where
  "derive_status now warn c =
     (if cr_status c = StRevoked then StRevoked
      else if cr_status c = StHeld then StHeld
      else if cr_not_after c < now then StExpired
      else if cr_not_after c < add_days now warn then StExpiring
      else StActive)"

definition external_usable :: "instant \<Rightarrow> acme_external \<Rightarrow> bool" where
  "external_usable now e =
     (if \<not> ax_enabled e then False
      else (case ax_expires e of None \<Rightarrow> True | Some t \<Rightarrow> now < t))"

section \<open>Tables\<close>

definition tbl_get :: "('r \<Rightarrow> 'k) \<Rightarrow> 'k \<Rightarrow> 'r list \<Rightarrow> store_error + 'r" where
  "tbl_get key k rows = of_opt RecordNotFound (List.find (\<lambda>r. key r = k) rows)"

definition tbl_has :: "('r \<Rightarrow> 'k) \<Rightarrow> 'k \<Rightarrow> 'r list \<Rightarrow> bool" where
  "tbl_has key k rows = list_ex (\<lambda>r. key r = k) rows"

definition tbl_put :: "('r \<Rightarrow> 'k) \<Rightarrow> 'r \<Rightarrow> 'r list \<Rightarrow> 'r list" where
  "tbl_put key r rows =
     (if tbl_has key (key r) rows then map (\<lambda>x. if key x = key r then r else x) rows else rows @ [r])"

definition tbl_set :: "('r \<Rightarrow> bool) \<Rightarrow> ('r \<Rightarrow> 'r) \<Rightarrow> 'r list \<Rightarrow> 'r list" where
  "tbl_set p f rows = map (\<lambda>x. if p x then f x else x) rows"

text \<open>
  A repository: \<open>rows\<close> is its table, \<open>key\<close> the primary key, \<open>clash\<close> whether a row breaks a
  unique index or a foreign key given the rest of the database.
\<close>

definition repo_create ::
    "('d \<Rightarrow> 'r list) \<Rightarrow> (('r list \<Rightarrow> 'r list) \<Rightarrow> 'd \<Rightarrow> 'd) \<Rightarrow> ('r \<Rightarrow> string) \<Rightarrow>
     ('d \<Rightarrow> 'r \<Rightarrow> store_error option) \<Rightarrow> 'r \<Rightarrow> ('d, store_error, unit) op" where
  "repo_create rows upd key clash r = (\<lambda>d.
     if tbl_has key (key r) (rows d) then (Inl RecordConflict, d)
     else (case clash d r of
         Some e \<Rightarrow> (Inl e, d)
       | None \<Rightarrow> (Inr (), upd (\<lambda>rs. rs @ [r]) d)))"

definition repo_save ::
    "(('r list \<Rightarrow> 'r list) \<Rightarrow> 'd \<Rightarrow> 'd) \<Rightarrow> ('r \<Rightarrow> string) \<Rightarrow>
     ('d \<Rightarrow> 'r \<Rightarrow> store_error option) \<Rightarrow> 'r \<Rightarrow> ('d, store_error, unit) op" where
  "repo_save upd key clash r = (\<lambda>d. case clash d r of
       Some e \<Rightarrow> (Inl e, d)
     | None \<Rightarrow> (Inr (), upd (tbl_put key r) d))"

lemma tbl_has_iff: "tbl_has key k rows \<longleftrightarrow> k \<in> key ` set rows"
  by (auto simp: tbl_has_def list_ex_iff)

lemma tbl_get_InrD: "tbl_get key k rows = Inr r \<Longrightarrow> r \<in> set rows \<and> key r = k"
  by (auto simp: tbl_get_def dest: find_SomeD)

lemma tbl_get_iff:
  "distinct (map key rows) \<Longrightarrow> tbl_get key k rows = Inr r \<longleftrightarrow> r \<in> set rows \<and> key r = k"
  using find_key_unique [of key rows r] by (auto simp: tbl_get_def dest: find_SomeD)

lemma tbl_get_cases:
  "tbl_get key k rows = (if k \<in> key ` set rows then Inr (the (List.find (\<lambda>r. key r = k) rows)) else Inl RecordNotFound)"
proof (cases "List.find (\<lambda>r. key r = k) rows")
  case None
  then have "k \<notin> key ` set rows" by auto
  with None show ?thesis by (simp add: tbl_get_def del: find_None)
qed (auto simp: tbl_get_def dest: find_SomeD)

lemma tbl_get_append:
  "k \<notin> key ` set rows \<Longrightarrow> tbl_get key k (rows @ [r]) = (if key r = k then Inr r else Inl RecordNotFound)"
  by (induction rows) (auto simp: tbl_get_def)

lemma tbl_get_append_other: "key r \<noteq> k \<Longrightarrow> tbl_get key k (rows @ [r]) = tbl_get key k rows"
  by (induction rows) (auto simp: tbl_get_def)

lemma keys_tbl_put: "key ` set (tbl_put key r rows) = insert (key r) (key ` set rows)"
  by (auto simp: tbl_put_def tbl_has_iff image_iff)

lemma distinct_tbl_put: "distinct (map key rows) \<Longrightarrow> distinct (map key (tbl_put key r rows))"
proof -
  have "map key (map (\<lambda>x. if key x = key r then r else x) rows) = map key rows"
    by (induction rows) auto
  moreover assume "distinct (map key rows)"
  ultimately show ?thesis by (auto simp: tbl_put_def tbl_has_iff simp del: map_map map_eq_conv)
qed

lemma set_tbl_put:
  "x \<in> set (tbl_put key r rows) \<longleftrightarrow> x = r \<or> x \<in> set rows \<and> key x \<noteq> key r"
  by (auto simp: tbl_put_def tbl_has_iff image_iff)

lemma tbl_set_simps [simp]:
  "tbl_set p f [] = []" "tbl_set p f (x # xs) = (if p x then f x else x) # tbl_set p f xs"
  "length (tbl_set p f xs) = length xs"
  by (simp_all add: tbl_set_def)

lemma set_tbl_set: "y \<in> set (tbl_set p f rows) \<longleftrightarrow> (\<exists>x \<in> set rows. y = (if p x then f x else x))"
  by (auto simp: tbl_set_def image_iff)

lemma map_tbl_set: "(\<And>x. k (f x) = k x) \<Longrightarrow> map k (tbl_set p f rows) = map k rows"
  by (induction rows) auto

lemma image_tbl_set: "(\<And>x. k (f x) = k x) \<Longrightarrow> k ` set (tbl_set p f rows) = k ` set rows"
  using map_tbl_set [of k f p rows] by (metis set_map)

section \<open>The contract of a repository\<close>

text \<open>
  What a service method relies on: a row it created or saved is the one a lookup by key
  returns, other rows are untouched, and a failed statement changes nothing.  \<open>defaults\<close> is
  what the column defaults make of a new row.
\<close>

locale keyed_repo =
  fixes rows :: "'d \<Rightarrow> 'r list"
    and key :: "'r \<Rightarrow> string"
    and defaults :: "'r \<Rightarrow> 'r"
    and get :: "string \<Rightarrow> 'd \<Rightarrow> store_error + 'r"
    and create :: "'r \<Rightarrow> ('d, store_error, unit) op"
  assumes get_rows: "get k d = tbl_get key k (rows d)"
    and key_defaults: "key (defaults r) = key r"
    and create_ok: "create r d = (Inr u, d') \<Longrightarrow> rows d' = rows d @ [defaults r] \<and> key r \<notin> key ` set (rows d)"
    and create_fail: "create r d = (Inl e, d') \<Longrightarrow> d' = d"
begin

abbreviation keyed :: "'d \<Rightarrow> bool" where "keyed d \<equiv> distinct (map key (rows d))"

lemma get_created: "create r d = (Inr u, d') \<Longrightarrow> get (key r) d' = Inr (defaults r)"
  by (drule create_ok) (simp add: get_rows tbl_get_append key_defaults)

lemma get_created_other: "create r d = (Inr u, d') \<Longrightarrow> k \<noteq> key r \<Longrightarrow> get k d' = get k d"
  by (drule create_ok) (simp add: get_rows tbl_get_append_other key_defaults)

lemma keyed_create: "keyed d \<Longrightarrow> create r d = (x, d') \<Longrightarrow> keyed d'"
  by (cases x) (auto dest: create_ok create_fail simp: key_defaults)

end

locale repository = keyed_repo +
  fixes save :: "'b \<Rightarrow> ('a, store_error, unit) op"
  assumes save_ok: "save r d = (Inr u, d') \<Longrightarrow> rows d' = tbl_put key r (rows d)"
    and save_fail: "save r d = (Inl e, d') \<Longrightarrow> d' = d"
begin

lemma get_saved: "keyed d \<Longrightarrow> save r d = (Inr u, d') \<Longrightarrow> get (key r) d' = Inr r"
  by (drule save_ok) (simp add: get_rows tbl_get_iff distinct_tbl_put set_tbl_put)

lemma get_saved_other:
  assumes "keyed d" "save r d = (Inr u, d')" "k \<noteq> key r"
  shows "get k d' = get k d"
proof -
  have r: "rows d' = tbl_put key r (rows d)" by (rule save_ok [OF assms(2)])
  have "get k d' = Inr x \<longleftrightarrow> get k d = Inr x" for x
    using assms by (auto simp: get_rows r tbl_get_iff distinct_tbl_put set_tbl_put)
  moreover have "get k d' = Inl e \<Longrightarrow> e = RecordNotFound" "get k d = Inl e \<Longrightarrow> e = RecordNotFound" for e
    by (auto simp: get_rows tbl_get_cases split: if_splits)
  ultimately show ?thesis by (metis obj_sumE)
qed

lemma keyed_save: "keyed d \<Longrightarrow> save r d = (x, d') \<Longrightarrow> keyed d'"
  by (cases x) (auto dest!: save_ok save_fail simp: distinct_tbl_put)

end

lemma repo_create_ok:
  assumes "repo_create rows upd key clash r d = (Inr u, d')"
  shows "d' = upd (\<lambda>rs. rs @ [r]) d \<and> key r \<notin> key ` set (rows d) \<and> clash d r = None"
  using assms by (auto simp: repo_create_def tbl_has_iff split: if_splits option.splits)

lemma repo_save_ok:
  assumes "repo_save upd key clash r d = (Inr u, d')"
  shows "d' = upd (tbl_put key r) d \<and> clash d r = None"
  using assms by (auto simp: repo_save_def split: if_splits option.splits)

lemma repo_fail:
  "repo_create rows upd key clash r d = (Inl e, d') \<Longrightarrow> d' = d"
  "repo_save upd key clash r d = (Inl e, d') \<Longrightarrow> d' = d"
  by (auto simp: repo_create_def repo_save_def split: if_splits option.splits)

end
