(* ===== verification/StorePki.thy ===== *)
theory StorePki
  imports Store
begin

text \<open>
  \<open>internal/store/repo_pki.go\<close>: the repositories of authorities, certificates and
  revocations, their interpretations of the locale \<open>repository\<close>, and the integrity the
  database keeps: unique keys and indexes, and no dangling reference.
\<close>

section \<open>Pagination\<close>

record pagination =
  pg_page :: int
  pg_limit :: int

record 'a page =
  p_items :: "'a list"
  p_total :: int
  p_page :: int
  p_limit :: int
  p_total_pages :: int

definition pagination_normalize :: "pagination \<Rightarrow> pagination" where
  "pagination_normalize p = \<lparr>pg_page = (if pg_page p < 1 then 1 else pg_page p),
     pg_limit = (if pg_limit p \<le> 0 then 25 else if 200 < pg_limit p then 200 else pg_limit p)\<rparr>"

definition pagination_offset :: "pagination \<Rightarrow> int" where
  "pagination_offset p = (pg_page p - 1) * pg_limit p"

definition new_page :: "'a list \<Rightarrow> int \<Rightarrow> pagination \<Rightarrow> 'a page" where
  "new_page items n p = \<lparr>p_items = items, p_total = n, p_page = pg_page p, p_limit = pg_limit p,
     p_total_pages = trunc_div n (pg_limit p) + (if n mod pg_limit p \<noteq> 0 then 1 else 0)\<rparr>"

text \<open>\<open>Limit(l).Offset(o)\<close> of an ordered result.\<close>

definition page_rows :: "pagination \<Rightarrow> 'a list \<Rightarrow> 'a list" where
  "page_rows p rows = take (nat (pg_limit p)) (drop (nat (pagination_offset p)) rows)"

definition paginate :: "pagination \<Rightarrow> 'a list \<Rightarrow> 'a page" where
  "paginate p rows = (let p = pagination_normalize p
     in new_page (page_rows p rows) (int (length rows)) p)"

section \<open>Integrity rules\<close>

definition authority_clash :: "db \<Rightarrow> authority \<Rightarrow> store_error option" where
  "authority_clash d a =
     (if list_ex (\<lambda>x. au_id x \<noteq> au_id a \<and> au_slug x = au_slug a) (db_authorities d) then Some RecordConflict
      else if (case au_parent a of None \<Rightarrow> False
               | Some p \<Rightarrow> p \<noteq> au_id a \<and> \<not> tbl_has au_id p (db_authorities d))
      then Some ForeignKeyViolation else None)"

definition certificate_clash :: "db \<Rightarrow> certificate \<Rightarrow> store_error option" where
  "certificate_clash d c =
     (if list_ex (\<lambda>x. cr_id x \<noteq> cr_id c \<and> cr_authority x = cr_authority c \<and> cr_serial x = cr_serial c)
           (db_certificates d) then Some RecordConflict
      else if \<not> tbl_has au_id (cr_authority c) (db_authorities d) then Some ForeignKeyViolation
      else None)"

definition revocation_clash :: "db \<Rightarrow> revocation \<Rightarrow> store_error option" where
  "revocation_clash d r =
     (if list_ex (\<lambda>x. rv_id x \<noteq> rv_id r \<and> rv_certificate x = rv_certificate r) (db_revocations d)
      then Some RecordConflict
      else if \<not> tbl_has cr_id (rv_certificate r) (db_certificates d) then Some ForeignKeyViolation
      else None)"

definition fk_ok :: "db \<Rightarrow> bool" where
  "fk_ok d =
     (list_all (\<lambda>a. case au_parent a of None \<Rightarrow> True | Some p \<Rightarrow> tbl_has au_id p (db_authorities d))
        (db_authorities d) \<and>
      list_all (\<lambda>c. tbl_has au_id (cr_authority c) (db_authorities d)) (db_certificates d) \<and>
      list_all (\<lambda>r. tbl_has cr_id (rv_certificate r) (db_certificates d)) (db_revocations d) \<and>
      list_all (\<lambda>q. tbl_has aa_id (ao_account q) (db_accounts d)) (db_orders d))"

text \<open>A statement that would leave a dangling reference is refused as a whole.\<close>

definition stmt :: "(db \<Rightarrow> db) \<Rightarrow> (db, store_error, unit) op" where
  "stmt f = (\<lambda>d. if fk_ok (f d) then (Inr (), f d) else (Inl ForeignKeyViolation, d))"

definition transaction :: "('d, 'e, 'a) op \<Rightarrow> ('d, 'e, 'a) op" where
  "transaction m = (\<lambda>d. case m d of (Inl e, _) \<Rightarrow> (Inl e, d) | (Inr x, d') \<Rightarrow> (Inr x, d'))"

section \<open>Authorities\<close>

definition create_authority_row :: "authority \<Rightarrow> (db, store_error, unit) op" where
  "create_authority_row = repo_create db_authorities db_authorities_update au_id authority_clash"

definition update_authority_row :: "authority \<Rightarrow> (db, store_error, unit) op" where
  "update_authority_row = repo_save db_authorities_update au_id authority_clash"

definition get_authority :: "string \<Rightarrow> db \<Rightarrow> store_error + authority" where
  "get_authority i d = tbl_get au_id i (db_authorities d)"

definition get_authority_by_slug :: "string \<Rightarrow> db \<Rightarrow> store_error + authority" where
  "get_authority_by_slug s d = tbl_get au_slug s (db_authorities d)"

definition resolve_authority :: "string \<Rightarrow> db \<Rightarrow> store_error + authority" where
  "resolve_authority k d = (case get_authority k d of
       Inr a \<Rightarrow> Inr a
     | Inl e \<Rightarrow> if e = RecordNotFound then get_authority_by_slug k d else Inl e)"

definition all_authorities :: "db \<Rightarrow> authority list" where
  "all_authorities d = sort_key au_created_at (db_authorities d)"

definition authority_children :: "string \<Rightarrow> db \<Rightarrow> authority list" where
  "authority_children i d = filter (\<lambda>a. au_parent a = Some i) (db_authorities d)"

fun chain_walk :: "nat \<Rightarrow> string \<Rightarrow> authority \<Rightarrow> db \<Rightarrow> store_error + authority list" where
  "chain_walk 0 start a d = Inl (ChainTooLong start)"
| "chain_walk (Suc k) start a d = (case au_parent a of
       None \<Rightarrow> Inr []
     | Some p \<Rightarrow> bindE (get_authority p d) (\<lambda>par.
         bindE (chain_walk k start par d) (\<lambda>rest. Inr (par # rest))))"

definition authority_chain :: "authority \<Rightarrow> db \<Rightarrow> store_error + authority list" where
  "authority_chain a d = chain_walk 16 (au_id a) a d"

definition delete_authority_row :: "string \<Rightarrow> bool \<Rightarrow> (db, store_error, unit) op" where
  "delete_authority_row i force =
     bindS (whenS (\<not> force)
       (bindS (readS (\<lambda>d. let n = length (filter (\<lambda>c. cr_authority c = i) (db_certificates d))
                           in guardE (n = 0) (RecordInUse n))) (\<lambda>_.
          readS (\<lambda>d. let n = length (filter (\<lambda>a. au_parent a = Some i) (db_authorities d))
                      in guardE (n = 0) (RecordInUse n))))) (\<lambda>_.
     transaction
       (bindS (whenS force
          (bindS (stmt (db_revocations_update (filter (\<lambda>r. rv_authority r \<noteq> i)))) (\<lambda>_.
           bindS (stmt (db_certificates_update (filter (\<lambda>c. cr_authority c \<noteq> i)))) (\<lambda>_.
             stmt (db_authorities_update (filter (\<lambda>a. au_parent a \<noteq> Some i))))))) (\<lambda>_.
          stmt (db_authorities_update (filter (\<lambda>a. au_id a \<noteq> i))))))"

definition slug_exists :: "string \<Rightarrow> db \<Rightarrow> bool" where
  "slug_exists s d = tbl_has au_slug s (db_authorities d)"

section \<open>Certificates\<close>

text \<open>The column default \<open>renew_before_days\<close>: GORM leaves a zero to the database.\<close>

definition certificate_defaults :: "certificate \<Rightarrow> certificate" where
  "certificate_defaults c = (if cr_renew_before c = 0 then c\<lparr>cr_renew_before := 30\<rparr> else c)"

definition create_certificate_row :: "certificate \<Rightarrow> (db, store_error, unit) op" where
  "create_certificate_row c =
     repo_create db_certificates db_certificates_update cr_id certificate_clash (certificate_defaults c)"

definition update_certificate_row :: "certificate \<Rightarrow> (db, store_error, unit) op" where
  "update_certificate_row = repo_save db_certificates_update cr_id certificate_clash"

text \<open>\<open>UpdateFields\<close> with columns that are neither keys nor references.\<close>

definition update_certificate_fields ::
    "string \<Rightarrow> (certificate \<Rightarrow> certificate) \<Rightarrow> (db, store_error, unit) op" where
  "update_certificate_fields i f = (\<lambda>d.
     if tbl_has cr_id i (db_certificates d)
     then (Inr (), db_certificates_update (tbl_set (\<lambda>c. cr_id c = i) f) d)
     else (Inl RecordNotFound, d))"

definition get_certificate :: "string \<Rightarrow> db \<Rightarrow> store_error + certificate" where
  "get_certificate i d = tbl_get cr_id i (db_certificates d)"

definition get_with_authority :: "string \<Rightarrow> db \<Rightarrow> store_error + (certificate \<times> authority)" where
  "get_with_authority i d = bindE (get_certificate i d) (\<lambda>c.
     bindE (get_authority (cr_authority c) d) (\<lambda>a. Inr (c, a)))"

definition get_by_fingerprint :: "string \<Rightarrow> db \<Rightarrow> store_error + certificate" where
  "get_by_fingerprint f d = tbl_get cr_fingerprint f (db_certificates d)"

definition get_by_serial :: "string \<Rightarrow> string \<Rightarrow> db \<Rightarrow> store_error + certificate" where
  "get_by_serial a s d = tbl_get (\<lambda>c. (cr_authority c, cr_serial c)) (a, s) (db_certificates d)"

definition expiring_before :: "instant \<Rightarrow> db \<Rightarrow> certificate list" where
  "expiring_before cutoff d =
     sort_key cr_not_after (filter (\<lambda>c. cr_status c \<noteq> StRevoked \<and> cr_not_after c \<le> cutoff) (db_certificates d))"

definition due_for_auto_renew :: "instant \<Rightarrow> db \<Rightarrow> certificate list" where
  "due_for_auto_renew now d =
     filter (\<lambda>c. cr_not_after c < now + cr_renew_before c * (24 * hour))
       (sort_key cr_not_after (filter (\<lambda>c. cr_auto_renew c \<and> cr_status c \<noteq> StRevoked) (db_certificates d)))"

definition certificates_by_authority :: "string \<Rightarrow> db \<Rightarrow> certificate list" where
  "certificates_by_authority i d =
     sort_key (\<lambda>c. - cr_created_at c) (filter (\<lambda>c. cr_authority c = i) (db_certificates d))"

text \<open>The walk returns what it collected together with the error, if any.\<close>

fun history_walk :: "nat \<Rightarrow> string \<Rightarrow> db \<Rightarrow> store_error option \<times> certificate list" where
  "history_walk 0 i d = (None, [])"
| "history_walk (Suc k) i d = (case get_certificate i d of
       Inl e \<Rightarrow> (Some e, [])
     | Inr c \<Rightarrow> (case cr_renewed_from c of
           None \<Rightarrow> (None, [c])
         | Some p \<Rightarrow> (case history_walk k p d of (e, rest) \<Rightarrow> (e, c # rest))))"

definition renewal_history :: "string \<Rightarrow> db \<Rightarrow> store_error option \<times> certificate list" where
  "renewal_history i d = history_walk 64 i d"

definition delete_certificate_row :: "string \<Rightarrow> (db, store_error, unit) op" where
  "delete_certificate_row i =
     transaction
       (bindS (stmt (db_revocations_update (filter (\<lambda>r. rv_certificate r \<noteq> i)))) (\<lambda>_.
        bindS (readS (\<lambda>d. Inr (tbl_has cr_id i (db_certificates d)))) (\<lambda>found.
        bindS (stmt (db_certificates_update (filter (\<lambda>c. cr_id c \<noteq> i)))) (\<lambda>_.
          guardS found RecordNotFound))))"

definition count_by_status :: "db \<Rightarrow> (status \<times> nat) list" where
  "count_by_status d = map (\<lambda>s. (s, length (filter (\<lambda>c. cr_status c = s) (db_certificates d))))
     (remdups (map cr_status (db_certificates d)))"

section \<open>Revocations\<close>

definition create_revocation_row :: "revocation \<Rightarrow> (db, store_error, unit) op" where
  "create_revocation_row = repo_create db_revocations db_revocations_update rv_id revocation_clash"

definition get_revocation :: "string \<Rightarrow> db \<Rightarrow> store_error + revocation" where
  "get_revocation i d = tbl_get rv_id i (db_revocations d)"

definition revocations_by_authority :: "string \<Rightarrow> db \<Rightarrow> revocation list" where
  "revocations_by_authority i d = sort_key rv_at (filter (\<lambda>r. rv_authority r = i) (db_revocations d))"

definition revocation_by_certificate :: "string \<Rightarrow> db \<Rightarrow> store_error + revocation" where
  "revocation_by_certificate i d = tbl_get rv_certificate i (db_revocations d)"

definition delete_revocation_row :: "string \<Rightarrow> (db, store_error, unit) op" where
  "delete_revocation_row i = (\<lambda>d.
     if tbl_has rv_id i (db_revocations d)
     then stmt (db_revocations_update (filter (\<lambda>r. rv_id r \<noteq> i))) d
     else (Inl RecordNotFound, d))"

section \<open>The repositories\<close>

interpretation authorities:
  repository db_authorities au_id id get_authority create_authority_row update_authority_row
  by unfold_locales
     (auto simp: get_authority_def create_authority_row_def update_authority_row_def
       dest!: repo_create_ok repo_save_ok repo_fail)

interpretation certificates:
  repository db_certificates cr_id certificate_defaults get_certificate create_certificate_row update_certificate_row
  by unfold_locales
     (auto simp: get_certificate_def create_certificate_row_def update_certificate_row_def certificate_defaults_def
       dest!: repo_create_ok repo_save_ok repo_fail)

interpretation revocations: keyed_repo db_revocations rv_id id get_revocation create_revocation_row
  by unfold_locales
     (auto simp: get_revocation_def create_revocation_row_def dest!: repo_create_ok repo_fail)

end
