(* ===== verification/StoreInv.thy ===== *)
theory StoreInv
  imports StorePki
begin

text \<open>
  The integrity of the database, \<open>db_ok\<close>, which every repository operation keeps; the
  ordering of authorities that makes every issuer walk end; and what the queries return.
\<close>

section \<open>Integrity\<close>

definition db_ok :: "db \<Rightarrow> bool" where
  "db_ok d \<longleftrightarrow>
     distinct (map au_id (db_authorities d)) \<and> distinct (map au_slug (db_authorities d)) \<and>
     distinct (map cr_id (db_certificates d)) \<and>
     distinct (map (\<lambda>c. (cr_authority c, cr_serial c)) (db_certificates d)) \<and>
     distinct (map rv_id (db_revocations d)) \<and> distinct (map rv_certificate (db_revocations d)) \<and>
     fk_ok d"

lemma fk_ok_iff:
  "fk_ok d \<longleftrightarrow>
     (\<forall>a \<in> set (db_authorities d). \<forall>p. au_parent a = Some p \<longrightarrow> p \<in> au_id ` set (db_authorities d)) \<and>
     (\<forall>c \<in> set (db_certificates d). cr_authority c \<in> au_id ` set (db_authorities d)) \<and>
     (\<forall>r \<in> set (db_revocations d). rv_certificate r \<in> cr_id ` set (db_certificates d)) \<and>
     (\<forall>q \<in> set (db_orders d). ao_account q \<in> aa_id ` set (db_accounts d))"
  by (simp add: fk_ok_def list_all_iff tbl_has_iff split: option.split)

lemma db_ok_empty [simp]: "db_ok empty_db"
  by (simp add: db_ok_def empty_db_def fk_ok_iff)

lemma distinct_map_put:
  "distinct (map key rows) \<Longrightarrow> distinct (map f rows) \<Longrightarrow>
   \<forall>x \<in> set rows. key x \<noteq> key r \<longrightarrow> f x \<noteq> f r \<Longrightarrow> distinct (map f (tbl_put key r rows))"
proof (induction rows)
  case (Cons y ys)
  show ?case
  proof (cases "key y = key r")
    case True
    then have "\<forall>x \<in> set ys. key x \<noteq> key r" using Cons.prems(1) by (auto simp: image_iff)
    then have "map (\<lambda>x. if key x = key r then r else x) ys = ys" by (simp add: map_idI)
    then show ?thesis
      using Cons.prems True \<open>\<forall>x \<in> set ys. key x \<noteq> key r\<close> by (auto simp: tbl_put_def tbl_has_iff)
  next
    case False
    have "tbl_put key r (y # ys) = y # tbl_put key r ys"
      using False by (auto simp: tbl_put_def tbl_has_iff)
    moreover have "f y \<notin> f ` set (tbl_put key r ys)"
      using Cons.prems False by (auto simp: set_tbl_put)
    ultimately show ?thesis using Cons by simp
  qed
qed (simp add: tbl_put_def tbl_has_def)

lemma distinct_map_snoc:
  assumes "distinct (map f rows)" "key r \<notin> key ` set rows" "\<forall>x \<in> set rows. key x \<noteq> key r \<longrightarrow> f x \<noteq> f r"
  shows "distinct (map f (rows @ [r]))"
proof -
  have "f x \<noteq> f r" if "x \<in> set rows" for x using assms(2,3) that by (metis imageI)
  then have "f r \<notin> f ` set rows" by (metis imageE)
  then show ?thesis using assms(1) by simp
qed

lemma authority_clash_None:
  "authority_clash d a = None \<longleftrightarrow>
     (\<forall>x \<in> set (db_authorities d). au_id x \<noteq> au_id a \<longrightarrow> au_slug x \<noteq> au_slug a) \<and>
     (\<forall>p. au_parent a = Some p \<longrightarrow> p = au_id a \<or> p \<in> au_id ` set (db_authorities d))"
  by (auto simp: authority_clash_def list_ex_iff tbl_has_iff split: option.splits)

lemma certificate_clash_None:
  "certificate_clash d c = None \<longleftrightarrow>
     (\<forall>x \<in> set (db_certificates d). cr_id x \<noteq> cr_id c \<longrightarrow> (cr_authority x, cr_serial x) \<noteq> (cr_authority c, cr_serial c)) \<and>
     cr_authority c \<in> au_id ` set (db_authorities d)"
  by (auto simp: certificate_clash_def list_ex_iff tbl_has_iff)

lemma revocation_clash_None:
  "revocation_clash d r = None \<longleftrightarrow>
     (\<forall>x \<in> set (db_revocations d). rv_id x \<noteq> rv_id r \<longrightarrow> rv_certificate x \<noteq> rv_certificate r) \<and>
     rv_certificate r \<in> cr_id ` set (db_certificates d)"
  by (auto simp: revocation_clash_def list_ex_iff tbl_has_iff)

lemma keepsI_cases:
  assumes "\<And>d u d'. I d \<Longrightarrow> m d = (Inr u, d') \<Longrightarrow> I d'" "\<And>d e d'. I d \<Longrightarrow> m d = (Inl e, d') \<Longrightarrow> I d'"
  shows "keeps I m"
proof (rule keepsI)
  fix s assume s: "I s"
  obtain x t where m: "m s = (x, t)" by (cases "m s")
  show "I (snd (m s))"
    using s m assms(1) [OF s] assms(2) [OF s] by (cases x) simp_all
qed

text \<open>What a change of one table has to respect.\<close>

lemma db_ok_authorities:
  assumes "db_ok d" "distinct (map au_id (g (db_authorities d)))" "distinct (map au_slug (g (db_authorities d)))"
    "au_id ` set (db_authorities d) \<subseteq> au_id ` set (g (db_authorities d))"
    "\<forall>a \<in> set (g (db_authorities d)). \<forall>p. au_parent a = Some p \<longrightarrow> p \<in> au_id ` set (g (db_authorities d))"
  shows "db_ok (db_authorities_update g d)"
proof -
  note o = assms(1) [unfolded db_ok_def fk_ok_iff]
  have "\<forall>c \<in> set (db_certificates d). cr_authority c \<in> au_id ` set (g (db_authorities d))"
    using o assms(4) by blast
  then show ?thesis using o assms(2,3,5) unfolding db_ok_def fk_ok_iff by simp
qed

lemma db_ok_certificates:
  assumes "db_ok d" "distinct (map cr_id (g (db_certificates d)))"
    "distinct (map (\<lambda>c. (cr_authority c, cr_serial c)) (g (db_certificates d)))"
    "cr_id ` set (db_certificates d) \<subseteq> cr_id ` set (g (db_certificates d))"
    "\<forall>c \<in> set (g (db_certificates d)). cr_authority c \<in> au_id ` set (db_authorities d)"
  shows "db_ok (db_certificates_update g d)"
proof -
  note o = assms(1) [unfolded db_ok_def fk_ok_iff]
  have "\<forall>r \<in> set (db_revocations d). rv_certificate r \<in> cr_id ` set (g (db_certificates d))"
    using o assms(4) by blast
  then show ?thesis using o assms(2,3,5) unfolding db_ok_def fk_ok_iff by simp
qed

lemma db_ok_revocations:
  assumes "db_ok d" "distinct (map rv_id (g (db_revocations d)))" "distinct (map rv_certificate (g (db_revocations d)))"
    "\<forall>r \<in> set (g (db_revocations d)). rv_certificate r \<in> cr_id ` set (db_certificates d)"
  shows "db_ok (db_revocations_update g d)"
  using assms unfolding db_ok_def fk_ok_iff by (elim conjE) simp

lemma db_okD:
  assumes "db_ok d"
  shows "distinct (map au_id (db_authorities d))" "distinct (map au_slug (db_authorities d))"
    "distinct (map cr_id (db_certificates d))"
    "distinct (map (\<lambda>c. (cr_authority c, cr_serial c)) (db_certificates d))"
    "distinct (map rv_id (db_revocations d))" "distinct (map rv_certificate (db_revocations d))"
    "\<And>a p. a \<in> set (db_authorities d) \<Longrightarrow> au_parent a = Some p \<Longrightarrow> p \<in> au_id ` set (db_authorities d)"
    "\<And>c. c \<in> set (db_certificates d) \<Longrightarrow> cr_authority c \<in> au_id ` set (db_authorities d)"
    "\<And>r. r \<in> set (db_revocations d) \<Longrightarrow> rv_certificate r \<in> cr_id ` set (db_certificates d)"
  using assms by (simp_all add: db_ok_def fk_ok_iff)

lemma keeps_create_authority [keeps_intros]: "keeps db_ok (create_authority_row a)"
proof (rule keepsI_cases)
  fix d u d' assume ok: "db_ok d" and c: "create_authority_row a d = (Inr u, d')"
  have s: "d' = db_authorities_update (\<lambda>rs. rs @ [a]) d \<and> au_id a \<notin> au_id ` set (db_authorities d) \<and>
      authority_clash d a = None"
    using c unfolding create_authority_row_def by (rule repo_create_ok)
  have "db_ok (db_authorities_update (\<lambda>rs. rs @ [a]) d)"
  proof (rule db_ok_authorities)
    show "distinct (map au_slug (db_authorities d @ [a]))"
      using s db_okD [OF ok] by (intro distinct_map_snoc [where key = au_id]) (auto simp: authority_clash_None)
  qed (use ok s db_okD [OF ok] in \<open>auto simp: authority_clash_None\<close>)
  then show "db_ok d'" using s by simp
qed (auto simp: create_authority_row_def dest: repo_fail)

lemma keeps_update_authority [keeps_intros]: "keeps db_ok (update_authority_row a)"
proof (rule keepsI_cases)
  fix d u d' assume ok: "db_ok d" and c: "update_authority_row a d = (Inr u, d')"
  have s: "d' = db_authorities_update (tbl_put au_id a) d \<and> authority_clash d a = None"
    using c unfolding update_authority_row_def by (rule repo_save_ok)
  have "db_ok (db_authorities_update (tbl_put au_id a) d)"
  proof (rule db_ok_authorities)
    show "distinct (map au_slug (tbl_put au_id a (db_authorities d)))"
      using s db_okD [OF ok] by (intro distinct_map_put) (auto simp: authority_clash_None)
  qed (use ok s db_okD [OF ok] in
        \<open>auto simp: authority_clash_None distinct_tbl_put keys_tbl_put set_tbl_put\<close>)
  then show "db_ok d'" using s by simp
qed (auto simp: update_authority_row_def dest: repo_fail)

lemma keeps_create_certificate [keeps_intros]: "keeps db_ok (create_certificate_row c)"
proof (rule keepsI_cases)
  fix d u d' assume ok: "db_ok d" and c: "create_certificate_row c d = (Inr u, d')"
  have s: "d' = db_certificates_update (\<lambda>rs. rs @ [(certificate_defaults c)]) d \<and> cr_id (certificate_defaults c) \<notin> cr_id ` set (db_certificates d) \<and>
      certificate_clash d (certificate_defaults c) = None"
    using c unfolding create_certificate_row_def by (rule repo_create_ok)
  have "db_ok (db_certificates_update (\<lambda>rs. rs @ [(certificate_defaults c)]) d)"
  proof (rule db_ok_certificates)
    show "distinct (map (\<lambda>c. (cr_authority c, cr_serial c)) (db_certificates d @ [(certificate_defaults c)]))"
      using s db_okD [OF ok] by (intro distinct_map_snoc [where key = cr_id]) (auto simp: certificate_clash_None)
  qed (use ok s db_okD [OF ok] in \<open>auto simp: certificate_clash_None\<close>)
  then show "db_ok d'" using s by simp
qed (auto simp: create_certificate_row_def dest: repo_fail)

lemma keeps_update_certificate [keeps_intros]: "keeps db_ok (update_certificate_row c)"
proof (rule keepsI_cases)
  fix d u d' assume ok: "db_ok d" and c: "update_certificate_row c d = (Inr u, d')"
  have s: "d' = db_certificates_update (tbl_put cr_id c) d \<and> certificate_clash d c = None"
    using c unfolding update_certificate_row_def by (rule repo_save_ok)
  have "db_ok (db_certificates_update (tbl_put cr_id c) d)"
  proof (rule db_ok_certificates)
    show "distinct (map (\<lambda>c. (cr_authority c, cr_serial c)) (tbl_put cr_id c (db_certificates d)))"
      using s db_okD [OF ok] by (intro distinct_map_put) (auto simp: certificate_clash_None)
  qed (use ok s db_okD [OF ok] in
        \<open>auto simp: certificate_clash_None distinct_tbl_put keys_tbl_put set_tbl_put\<close>)
  then show "db_ok d'" using s by simp
qed (auto simp: update_certificate_row_def dest: repo_fail)

lemma keeps_create_revocation [keeps_intros]: "keeps db_ok (create_revocation_row r)"
proof (rule keepsI_cases)
  fix d u d' assume ok: "db_ok d" and c: "create_revocation_row r d = (Inr u, d')"
  have s: "d' = db_revocations_update (\<lambda>rs. rs @ [r]) d \<and> rv_id r \<notin> rv_id ` set (db_revocations d) \<and>
      revocation_clash d r = None"
    using c unfolding create_revocation_row_def by (rule repo_create_ok)
  have "db_ok (db_revocations_update (\<lambda>rs. rs @ [r]) d)"
  proof (rule db_ok_revocations)
    show "distinct (map rv_certificate (db_revocations d @ [r]))"
      using s db_okD [OF ok] by (intro distinct_map_snoc [where key = rv_id]) (auto simp: revocation_clash_None)
  qed (use ok s db_okD [OF ok] in \<open>auto simp: revocation_clash_None\<close>)
  then show "db_ok d'" using s by simp
qed (auto simp: create_revocation_row_def dest: repo_fail)

text \<open>\<open>UpdateFields\<close> is only used on columns outside the keys and references.\<close>

definition plain_fields :: "(certificate \<Rightarrow> certificate) \<Rightarrow> bool" where
  "plain_fields f \<longleftrightarrow> (\<forall>c. cr_id (f c) = cr_id c \<and> cr_authority (f c) = cr_authority c \<and> cr_serial (f c) = cr_serial c)"

lemma keeps_update_fields [keeps_intros]: "plain_fields f \<Longrightarrow> keeps db_ok (update_certificate_fields i f)"
proof (rule keepsI)
  fix d assume f: "plain_fields f" and ok: "db_ok d"
  have "db_ok (db_certificates_update (tbl_set p f) d)" for p
    by (rule db_ok_certificates [OF ok])
       (use f db_okD [OF ok] in \<open>auto simp: plain_fields_def map_tbl_set image_tbl_set set_tbl_set\<close>)
  then show "db_ok (snd (update_certificate_fields i f d))"
    using ok by (simp add: update_certificate_fields_def)
qed

lemma keeps_transaction [keeps_intros]: "keeps I m \<Longrightarrow> keeps I (transaction m)"
  by (auto simp: keeps_def transaction_def split: prod.splits sum.splits)

lemma keeps_stmt_filter [keeps_intros]:
  "keeps db_ok (stmt (db_revocations_update (filter p)))"
  "keeps db_ok (stmt (db_certificates_update (filter q)))"
  "keeps db_ok (stmt (db_authorities_update (filter r)))"
  by (auto simp: keeps_def stmt_def db_ok_def intro!: distinct_map_filter_key)

lemma keeps_deletes [keeps_intros]:
  "keeps db_ok (delete_authority_row i force)"
  "keeps db_ok (delete_certificate_row i)"
  "keeps db_ok (delete_revocation_row i)"
proof -
  show "keeps db_ok (delete_authority_row i force)" "keeps db_ok (delete_certificate_row i)"
    unfolding delete_authority_row_def delete_certificate_row_def
    by (intro keeps_intros keeps_basic)+
  show "keeps db_ok (delete_revocation_row i)"
    using keeps_stmt_filter(1) [of "\<lambda>r. rv_id r \<noteq> i"]
    by (auto simp: keeps_def delete_revocation_row_def)
qed

section \<open>Queries\<close>

lemma get_authority_iff:
  "db_ok d \<Longrightarrow> get_authority i d = Inr a \<longleftrightarrow> a \<in> set (db_authorities d) \<and> au_id a = i"
  by (simp add: get_authority_def tbl_get_iff db_ok_def)

lemma get_certificate_iff:
  "db_ok d \<Longrightarrow> get_certificate i d = Inr c \<longleftrightarrow> c \<in> set (db_certificates d) \<and> cr_id c = i"
  by (simp add: get_certificate_def tbl_get_iff db_ok_def)

lemma revocation_by_certificate_iff:
  "db_ok d \<Longrightarrow> revocation_by_certificate i d = Inr r \<longleftrightarrow> r \<in> set (db_revocations d) \<and> rv_certificate r = i"
  by (simp add: revocation_by_certificate_def tbl_get_iff db_ok_def)

lemma get_with_authority_iff:
  "db_ok d \<Longrightarrow> get_with_authority i d = Inr (c, a) \<longleftrightarrow>
     c \<in> set (db_certificates d) \<and> cr_id c = i \<and> a \<in> set (db_authorities d) \<and> au_id a = cr_authority c"
  by (auto simp: get_with_authority_def get_certificate_iff get_authority_iff)

lemma get_with_authority_total:
  assumes "db_ok d" "get_certificate i d = Inr c"
  shows "\<exists>a. get_with_authority i d = Inr (c, a)"
proof -
  have c: "c \<in> set (db_certificates d)" "cr_id c = i" using assms by (simp_all add: get_certificate_iff)
  then have "cr_authority c \<in> au_id ` set (db_authorities d)"
    using assms(1) by (simp add: db_ok_def fk_ok_iff)
  then show ?thesis using c assms(1) by (auto simp: get_with_authority_iff)
qed

lemma resolve_authority_InrD:
  "resolve_authority k d = Inr a \<Longrightarrow> a \<in> set (db_authorities d) \<and> (au_id a = k \<or> au_slug a = k)"
  by (auto simp: resolve_authority_def get_authority_def get_authority_by_slug_def
      dest!: tbl_get_InrD split: sum.splits if_splits)

section \<open>Issuer walks\<close>

text \<open>An authority's parent is older than it: rows are appended and never re-parented.\<close>

fun parents_first :: "string set \<Rightarrow> authority list \<Rightarrow> bool" where
  "parents_first seen [] = True"
| "parents_first seen (a # as) =
     ((case au_parent a of None \<Rightarrow> True | Some p \<Rightarrow> p \<in> seen) \<and> parents_first (insert (au_id a) seen) as)"

definition ordered :: "db \<Rightarrow> bool" where
  "ordered d = parents_first {} (db_authorities d)"

definition position :: "db \<Rightarrow> authority \<Rightarrow> nat" where
  "position d a = length (takeWhile (\<lambda>x. au_id x \<noteq> au_id a) (db_authorities d))"

lemma parents_first_append:
  "parents_first seen (as @ bs) \<longleftrightarrow> parents_first seen as \<and> parents_first (seen \<union> au_id ` set as) bs"
  by (induction as arbitrary: seen) auto

lemma parents_first_mono: "seen \<subseteq> seen' \<Longrightarrow> parents_first seen as \<Longrightarrow> parents_first seen' as"
proof (induction as arbitrary: seen seen')
  case (Cons a as)
  have "insert (au_id a) seen \<subseteq> insert (au_id a) seen'" using Cons.prems by auto
  then show ?case using Cons.IH [of "insert (au_id a) seen" "insert (au_id a) seen'"] Cons.prems
    by (auto split: option.splits)
qed simp

lemma length_takeWhile_lt: "x \<in> set xs \<Longrightarrow> \<not> P x \<Longrightarrow> length (takeWhile P xs) < length xs"
  by (induction xs) auto

lemma parent_position:
  assumes "ordered d" "db_ok d" "a \<in> set (db_authorities d)" "au_parent a = Some (au_id p)"
    "p \<in> set (db_authorities d)"
  shows "position d p < position d a"
proof -
  obtain xs ys where s: "db_authorities d = xs @ a # ys" using assms(3) split_list by metis
  have nx: "au_id a \<notin> au_id ` set xs" using assms(2) s by (auto simp: db_ok_def)
  have pa: "position d a = length xs"
    using nx unfolding position_def s by (subst takeWhile_append2) (auto simp: image_iff)
  have "au_id p \<in> au_id ` set xs"
    using assms(1,4) by (auto simp: ordered_def s parents_first_append)
  then have "length (takeWhile (\<lambda>x. au_id x \<noteq> au_id p) xs) < length xs"
    by (auto intro!: length_takeWhile_lt)
  moreover have "takeWhile (\<lambda>x. au_id x \<noteq> au_id p) (xs @ a # ys) = takeWhile (\<lambda>x. au_id x \<noteq> au_id p) xs"
    using \<open>au_id p \<in> au_id ` set xs\<close> by (auto intro: takeWhile_append1)
  ultimately show ?thesis by (simp add: pa) (simp add: position_def s)
qed

text \<open>
  A walk of more steps than the authority's position reaches the root; the walk itself is
  the sequence of parents.
\<close>

lemma chain_walk_total:
  assumes "ordered d" "db_ok d"
  shows "a \<in> set (db_authorities d) \<Longrightarrow> position d a < k \<Longrightarrow> \<exists>as. chain_walk k s a d = Inr as"
proof (induction k arbitrary: a)
  case (Suc k)
  show ?case
  proof (cases "au_parent a")
    case (Some p)
    then obtain par where par: "par \<in> set (db_authorities d)" "au_id par = p"
      using assms(2) Suc.prems(1) by (fastforce simp: db_ok_def fk_ok_iff)
    then have "position d par < k" using parent_position [OF assms Suc.prems(1)] Some Suc.prems(2) by fastforce
    then obtain as where "chain_walk k s par d = Inr as" using Suc.IH par(1) by blast
    moreover have "get_authority p d = Inr par" using assms(2) par by (simp add: get_authority_iff)
    ultimately show ?thesis using Some by auto
  qed simp
qed simp

lemma chain_walk_shape:
  "chain_walk k s a d = Inr as \<Longrightarrow>
   length as < k \<and> (\<forall>x \<in> set as. x \<in> set (db_authorities d)) \<and>
   map (Some \<circ> au_id) as = butlast (map au_parent (a # as)) \<and> au_parent (last (a # as)) = None"
proof (induction k arbitrary: a as)
  case (Suc k)
  show ?case
  proof (cases "au_parent a")
    case (Some p)
    then obtain par rest where "get_authority p d = Inr par" "chain_walk k s par d = Inr rest" "as = par # rest"
      using Suc.prems by auto
    moreover have "par \<in> set (db_authorities d) \<and> au_id par = p"
      using tbl_get_InrD [of au_id p "db_authorities d" par] \<open>get_authority p d = Inr par\<close>
      by (simp add: get_authority_def)
    ultimately show ?thesis using Suc.IH [of par rest] Some by auto
  qed (use Suc.prems in simp)
qed simp

lemma due_iff:
  "c \<in> set (due_for_auto_renew now d) \<longleftrightarrow>
     c \<in> set (db_certificates d) \<and> cr_auto_renew c \<and> cr_status c \<noteq> StRevoked \<and>
     cr_not_after c < now + cr_renew_before c * day"
  by (auto simp: due_for_auto_renew_def day_def)

end
