(* ===== verification/SvcCore.thy ===== *)
theory SvcCore
  imports StoreInv
begin

text \<open>
  \<open>internal/service/service.go\<close>: the errors of the service, sealing and opening keys, loading
  a stored CA, slugs and public URLs.

  \<open>svc_env\<close> is what a method reads without changing it: the parsers and fingerprint of the
  library, the clock (read once per call), the master key and the configuration.  \<open>draws\<close> is
  the randomness of a call: a key identity, serial draws, and the UUID of the row it creates.
  The audit log, the metrics and the logger are write-only and left out.
\<close>

datatype svc_error =
    EInvalid string | EInvalidPki pki_error | EInvalidReason int
  | EStore store_error | EPki pki_error | ECrl crl_error | EOcsp ocsp_error
  | EPassphraseRequired string | EKeyUnavailable | EConflict string | EForbidden string
  | EMissing string | EUnauthorized string

record svc_env =
  se_parsers :: parsers
  se_fingerprint :: "x509 \<Rightarrow> string"
  se_now :: instant
  se_master :: nat
  cfg_key_algorithm :: string
  cfg_ca_validity :: int
  cfg_organization :: string
  cfg_country :: string
  cfg_base_url :: string
  cfg_crl_validity :: duration
  cfg_warn_days :: int
  cfg_download_policy :: string

record draws =
  dr_key :: nat
  dr_serials :: "nat list"
  dr_uuid :: string

type_synonym 'a svc = "(db, svc_error, 'a) op"

definition store_op :: "(db, store_error, 'a) op \<Rightarrow> 'a svc" where
  "store_op = map_errS EStore"

definition store_read :: "(db \<Rightarrow> store_error + 'a) \<Rightarrow> 'a svc" where
  "store_read f = readS (\<lambda>d. map_err EStore (f d))"

definition default_string :: "string \<Rightarrow> string \<Rightarrow> string" where
  "default_string v fallback = (if v = [] then fallback else v)"

section \<open>Keys at rest\<close>

definition seal_key :: "svc_env \<Rightarrow> private_key \<Rightarrow> string \<Rightarrow> svc_error + sealed_key" where
  "seal_key E k passphrase =
     bindE (map_err (\<lambda>e. EPki (EX509 e)) (marshal_private_key_pem k)) (\<lambda>_.
       Inr (Sealed (se_master E) passphrase k))"

definition open_key :: "svc_env \<Rightarrow> sealed_key \<Rightarrow> string \<Rightarrow> svc_error + private_key" where
  "open_key E s passphrase = (case s of
       NoSealedKey \<Rightarrow> Inl EKeyUnavailable
     | Sealed m p k \<Rightarrow> if m = se_master E \<and> p = passphrase then Inr k else Inl (EPassphraseRequired []))"

section \<open>Loading authorities\<close>

definition chain_certificates :: "authority \<Rightarrow> db \<Rightarrow> svc_error + x509 list" where
  "chain_certificates a d =
     bindE (map_err EStore (authority_chain a d)) (\<lambda>rows.
       mapE (\<lambda>r. map_err EPki (parse_certificate_pem (au_cert_pem r))) rows)"

definition load_ca :: "svc_env \<Rightarrow> authority \<Rightarrow> string \<Rightarrow> db \<Rightarrow> svc_error + cert_authority" where
  "load_ca E a passphrase d =
     (if au_passphrase_protected a \<and> passphrase = [] then Inl (EPassphraseRequired (au_name a))
      else bindE (map_err EPki (parse_certificate_pem (au_cert_pem a))) (\<lambda>cert.
           bindE (open_key E (au_key a) passphrase) (\<lambda>key.
           bindE (chain_certificates a d) (\<lambda>chain.
             Inr \<lparr>ca_certificate = Some cert, ca_private_key = Some key, ca_chain = chain\<rparr>))))"

definition load_ca_public :: "authority \<Rightarrow> db \<Rightarrow> svc_error + cert_authority" where
  "load_ca_public a d =
     bindE (map_err EPki (parse_certificate_pem (au_cert_pem a))) (\<lambda>cert.
     bindE (chain_certificates a d) (\<lambda>chain.
       Inr \<lparr>ca_certificate = Some cert, ca_private_key = None, ca_chain = chain\<rparr>))"

section \<open>Slugs and URLs\<close>

definition slug_char :: "char \<Rightarrow> bool" where
  "slug_char c = (is_lower c \<or> is_digit c)"

text \<open>Every maximal run of other characters becomes one dash.\<close>

fun squeeze :: "bool \<Rightarrow> string \<Rightarrow> string" where
  "squeeze inrun [] = []"
| "squeeze inrun (c # s) =
     (if slug_char c then c # squeeze False s
      else if inrun then squeeze True s else CHR ''-'' # squeeze True s)"

definition trim_dashes :: "string \<Rightarrow> string" where
  "trim_dashes = trim_chars (\<lambda>c. c = CHR ''-'')"

definition slugify :: "string \<Rightarrow> string" where
  "slugify name =
     (let s = trim_dashes (squeeze False (to_lower (trim_space name)));
          s = (if s = [] then ''ca'' else s)
      in if 64 < length s then trim_dashes (take 64 s) else s)"

fun unique_slug_loop :: "nat \<Rightarrow> nat \<Rightarrow> string \<Rightarrow> string \<Rightarrow> string \<Rightarrow> db \<Rightarrow> svc_error + string" where
  "unique_slug_loop 0 i base slug candidate d = Inl (EInvalid (''could not derive a free slug from '' @ base))"
| "unique_slug_loop (Suc k) i base slug candidate d =
     (if \<not> slug_exists candidate d then Inr candidate
      else unique_slug_loop k (Suc i) base slug (slug @ ''-'' @ dec_nat i) d)"

text \<open>\<open>for i := 2; i < 100; i++\<close>: 98 rounds.\<close>

definition unique_slug :: "string \<Rightarrow> db \<Rightarrow> svc_error + string" where
  "unique_slug base d = unique_slug_loop 98 2 base (slugify base) (slugify base) d"

definition public_ca_url :: "svc_env \<Rightarrow> string \<Rightarrow> string \<Rightarrow> string" where
  "public_ca_url E i suf =
     (if cfg_base_url E = [] then []
      else trim_right (\<lambda>c. c = CHR ''/'') (cfg_base_url E) @ ''/ca/'' @ i @ ''/'' @ suf)"

definition crl_url :: "svc_env \<Rightarrow> string \<Rightarrow> string" where
  "crl_url E i = public_ca_url E i ''crl.pem''"

definition ocsp_url :: "svc_env \<Rightarrow> string \<Rightarrow> string" where
  "ocsp_url E i = public_ca_url E i ''ocsp''"

definition distribution_points :: "string \<Rightarrow> string list" where
  "distribution_points url = (if url = [] then [] else [url])"

section \<open>Laws\<close>

lemma keeps_store_op [keeps_intros]: "keeps I m \<Longrightarrow> keeps I (store_op m)"
  by (simp add: store_op_def keeps_map_errS)

lemma keeps_store_read [keeps_intros, simp]: "keeps I (store_read f)"
  by (simp add: store_read_def)

lemma snd_store_op [simp]: "snd (store_op m d) = snd (m d)"
  by (simp add: store_op_def)

lemma inv_bind_store_read [inv_intros]:
  "I d \<Longrightarrow> (\<And>x. f d = Inr x \<Longrightarrow> I (snd (g x d))) \<Longrightarrow> I (snd (bindS (store_read f) g d))"
  by (auto simp: bindS_def store_read_def split: sum.split)

lemma reads_store_read [reads_intros, simp]: "reads (store_read f)"
  by (simp add: store_read_def)

lemma store_op_Inr [simp]: "store_op m d = (Inr x, d') \<longleftrightarrow> m d = (Inr x, d')"
  by (simp add: store_op_def)

lemma store_read_Inr [simp]: "store_read f d = (Inr x, d') \<longleftrightarrow> f d = Inr x \<and> d' = d"
  by (auto simp: store_read_def)

lemma open_seal: "seal_key E k p = Inr s \<Longrightarrow> open_key E s q = (if q = p then Inr k else Inl (EPassphraseRequired []))"
  by (auto simp: seal_key_def open_key_def)

lemma squeeze_chars: "c \<in> set (squeeze b s) \<Longrightarrow> slug_char c \<or> c = CHR ''-''"
  by (induction b s rule: squeeze.induct) (auto split: if_splits)

text \<open>No two dashes in a row, and none first when the text starts in a run.\<close>

fun no_double_dash :: "string \<Rightarrow> bool" where
  "no_double_dash (a # b # s) = (\<not> (a = CHR ''-'' \<and> b = CHR ''-'') \<and> no_double_dash (b # s))"
| "no_double_dash _ = True"

lemma dash_not_slug_char: "\<not> slug_char CHR ''-''"
  by (simp add: slug_char_def char_class_defs)

lemma no_double_dash_Cons:
  "no_double_dash (a # s) \<longleftrightarrow> (s = [] \<or> \<not> (a = CHR ''-'' \<and> hd s = CHR ''-'') \<and> no_double_dash s)"
  by (cases s) auto

lemma squeeze_no_double:
  "no_double_dash (squeeze b s) \<and> (b \<longrightarrow> squeeze b s = [] \<or> hd (squeeze b s) \<noteq> CHR ''-'')"
  by (induction b s rule: squeeze.induct)
     (auto simp: no_double_dash_Cons dash_not_slug_char)

lemma no_double_dash_append: "no_double_dash (a @ b) \<Longrightarrow> no_double_dash a \<and> no_double_dash b"
  by (induction a) (auto simp: no_double_dash_Cons)

lemma no_double_dash_sublist: "sublist a b \<Longrightarrow> no_double_dash b \<Longrightarrow> no_double_dash a"
  by (auto simp: sublist_def dest!: no_double_dash_append)

lemma sublist_trim_chars: "sublist (trim_chars p s) s"
proof -
  have "prefix (trim_chars p s) (dropWhile p s)"
    by (simp add: trim_chars_def trim_left_def prefix_trim_right)
  moreover have "suffix (dropWhile p s) s" by (rule suffix_dropWhile)
  ultimately show ?thesis
    by (meson prefix_imp_sublist sublist_order.order_trans suffix_imp_sublist)
qed

definition slug_ok :: "string \<Rightarrow> bool" where
  "slug_ok s \<longleftrightarrow> s \<noteq> [] \<and> length s \<le> 64 \<and> (\<forall>c \<in> set s. slug_char c \<or> c = CHR ''-'') \<and>
     hd s \<noteq> CHR ''-'' \<and> last s \<noteq> CHR ''-'' \<and> no_double_dash s"

lemma trim_dashes_facts:
  "sublist (trim_dashes s) s"
  "trim_dashes s \<noteq> [] \<Longrightarrow> hd (trim_dashes s) \<noteq> CHR ''-'' \<and> last (trim_dashes s) \<noteq> CHR ''-''"
  using trim_chars_hd [of "\<lambda>c. c = CHR ''-''" s] trim_chars_last [of "\<lambda>c. c = CHR ''-''" s]
  by (auto simp: trim_dashes_def sublist_trim_chars)

lemma trim_dashes_keeps_head: "s \<noteq> [] \<Longrightarrow> hd s \<noteq> CHR ''-'' \<Longrightarrow> trim_dashes s \<noteq> []"
  by (cases s) (simp_all add: trim_dashes_def trim_chars_def trim_left_def trim_right_def)

lemma slug_okI:
  "sublist s t \<Longrightarrow> no_double_dash t \<Longrightarrow> \<forall>c \<in> set t. slug_char c \<or> c = CHR ''-'' \<Longrightarrow> s \<noteq> [] \<Longrightarrow> length s \<le> 64 \<Longrightarrow>
   hd s \<noteq> CHR ''-'' \<and> last s \<noteq> CHR ''-'' \<Longrightarrow> slug_ok s"
  using set_mono_sublist [of s t] no_double_dash_sublist [of s t] by (auto simp: slug_ok_def)

lemma slugify_ok: "slug_ok (slugify name)"
proof -
  let ?q = "squeeze False (to_lower (trim_space name))"
  let ?s = "trim_dashes ?q"
  define t where "t = (if ?s = [] then ''ca'' else ?s)"
  have q: "no_double_dash ?q" "\<forall>c \<in> set ?q. slug_char c \<or> c = CHR ''-''"
    using squeeze_no_double squeeze_chars by blast+
  have ca: "slug_ok ''ca''"
    by (simp add: slug_ok_def slug_char_def char_class_defs)
  have t: "t \<noteq> []" "hd t \<noteq> CHR ''-''" "last t \<noteq> CHR ''-''" "no_double_dash t"
    "\<forall>c \<in> set t. slug_char c \<or> c = CHR ''-''"
    using q ca trim_dashes_facts [of ?q] no_double_dash_sublist set_mono_sublist [OF trim_dashes_facts(1) [of ?q]]
    unfolding t_def by (auto simp: slug_ok_def)
  have "slug_ok t" if "length t \<le> 64"
    using t that by (simp add: slug_ok_def)
  moreover have "slug_ok (trim_dashes (take 64 t))" if "64 < length t"
  proof (rule slug_okI)
    have ne: "trim_dashes (take 64 t) \<noteq> []"
      using t that by (intro trim_dashes_keeps_head) (auto simp: hd_take)
    then show "trim_dashes (take 64 t) \<noteq> []"
      "hd (trim_dashes (take 64 t)) \<noteq> CHR ''-'' \<and> last (trim_dashes (take 64 t)) \<noteq> CHR ''-''"
      using trim_dashes_facts(2) by blast+
    show "sublist (trim_dashes (take 64 t)) t"
      using trim_dashes_facts(1) by (meson prefix_imp_sublist sublist_order.order_trans take_is_prefix)
    show "length (trim_dashes (take 64 t)) \<le> 64"
      using sublist_length_le [OF trim_dashes_facts(1) [of "take 64 t"]] by simp
  qed (use t in auto)
  ultimately show ?thesis
    by (simp add: slugify_def Let_def t_def [symmetric] not_less)
qed

lemma unique_slug_loop_free: "unique_slug_loop k i base slug cand d = Inr s \<Longrightarrow> \<not> slug_exists s d"
  by (induction k arbitrary: i cand) (auto split: if_splits)

lemma load_caE:
  assumes "load_ca E a p d = Inr ca"
  obtains cert key chain rows where
    "parse_certificate_pem (au_cert_pem a) = Inr cert" "open_key E (au_key a) p = Inr key"
    "authority_chain a d = Inr rows"
    "mapE (\<lambda>r. map_err EPki (parse_certificate_pem (au_cert_pem r))) rows = Inr chain"
    "ca = \<lparr>ca_certificate = Some cert, ca_private_key = Some key, ca_chain = chain\<rparr>"
    "au_passphrase_protected a \<Longrightarrow> p \<noteq> []"
  using assms by (auto simp: load_ca_def chain_certificates_def split: if_splits)

end
