(* ===== verification/SvcAuthority.thy ===== *)
theory SvcAuthority
  imports SvcCore
begin

text \<open>
  \<open>internal/service/authority.go\<close>: creating, importing, editing, deleting and renewing
  authorities, and publishing their revocation lists.
\<close>

definition apply_subject_defaults :: "svc_env \<Rightarrow> subject \<Rightarrow> subject" where
  "apply_subject_defaults E s =
     (let s = (if organization s = [] then s\<lparr>organization := cfg_organization E\<rparr> else s);
          s = (if country s = [] then s\<lparr>country := cfg_country E\<rparr> else s)
      in subject_normalize s)"

record create_authority_input =
  ci_name :: string
  ci_slug :: string
  ci_description :: string
  ci_type :: string
  ci_parent :: string
  ci_parent_passphrase :: string
  ci_subject :: subject
  ci_key_algorithm :: string
  ci_validity_days :: int
  ci_max_path_len :: "int option"
  ci_passphrase :: string
  ci_crl_urls :: "string list"
  ci_ocsp_urls :: "string list"
  ci_constraints :: name_constraints

definition type_root :: string where "type_root = ''root''"
definition type_intermediate :: string where "type_intermediate = ''intermediate''"

section \<open>Writing the row\<close>

definition authority_row ::
    "svc_env \<Rightarrow> string \<Rightarrow> create_authority_input \<Rightarrow> string \<Rightarrow> authority_type \<Rightarrow> string option \<Rightarrow> key_spec \<Rightarrow>
     x509 \<Rightarrow> sealed_key \<Rightarrow> authority" where
  "authority_row E uuid inp slug ty parent spec cert key = \<lparr>
     au_id = uuid, au_created_at = se_now E, au_name = ci_name inp, au_slug = slug, au_type = ty,
     au_parent = parent, au_subject = subject_from_pkix (x_subject cert), au_key_spec = spec,
     au_serial = format_serial (Some (x_serial cert)),
     au_not_before = x_not_before cert, au_not_after = x_not_after cert,
     au_path_len = (if x_max_path_len_zero cert \<or> 0 < x_max_path_len cert then Some (x_max_path_len cert) else None),
     au_constraints = constraints_of (Some cert),
     au_cert_pem = encode_certificate_pem cert, au_key = key,
     au_passphrase_protected = (ci_passphrase inp \<noteq> []),
     au_crl_url = [], au_ocsp_url = [], au_crl_number = 0, au_crl_pem = [], au_next_crl = None,
     au_status = StActive, au_fingerprint = se_fingerprint E cert,
     au_description = ci_description inp, au_created_by = common_name (ci_subject inp)\<rparr>"

definition with_urls :: "svc_env \<Rightarrow> authority \<Rightarrow> authority" where
  "with_urls E a = (let a = a\<lparr>au_crl_url := crl_url E (au_id a)\<rparr>
     in if \<not> au_passphrase_protected a then a\<lparr>au_ocsp_url := ocsp_url E (au_id a)\<rparr> else a)"

definition persist_authority ::
    "svc_env \<Rightarrow> string \<Rightarrow> cert_authority \<Rightarrow> create_authority_input \<Rightarrow> string \<Rightarrow> authority_type \<Rightarrow>
     string option \<Rightarrow> key_spec \<Rightarrow> authority svc" where
  "persist_authority E uuid ca inp slug ty parent spec =
     bindS (liftE (map_err EPki (issuer_of ca))) (\<lambda>(cert, k).
     bindS (liftE (seal_key E k (ci_passphrase inp))) (\<lambda>key.
     let row = authority_row E uuid inp slug ty parent spec cert key in
     bindS (store_op (create_authority_row row)) (\<lambda>_.
     let row = with_urls E row in
     bindS (whenS (au_crl_url row \<noteq> [] \<or> au_ocsp_url row \<noteq> []) (store_op (update_authority_row row))) (\<lambda>_.
       returnS row))))"

section \<open>Creating\<close>

definition ca_request_of :: "create_authority_input \<Rightarrow> key_spec \<Rightarrow> ca_request" where
  "ca_request_of inp spec = \<lparr>
     cq_subject = ci_subject inp, cq_key_spec = spec, cq_validity_days = ci_validity_days inp,
     cq_max_path_len = (case ci_max_path_len inp of None \<Rightarrow> 0 | Some n \<Rightarrow> n),
     cq_max_path_len_zero = (case ci_max_path_len inp of None \<Rightarrow> False | Some n \<Rightarrow> n = 0),
     cq_crl_urls = ci_crl_urls inp, cq_ocsp_urls = ci_ocsp_urls inp,
     cq_constraints = ci_constraints inp, cq_not_before = None\<rparr>"

definition create_authority :: "svc_env \<Rightarrow> draws \<Rightarrow> create_authority_input \<Rightarrow> authority svc" where
  "create_authority E R inp =
     (let inp = (if ci_type inp = [] then inp\<lparr>ci_type := type_root\<rparr> else inp) in
      if ci_type inp \<noteq> type_root \<and> ci_type inp \<noteq> type_intermediate then
        failS (EInvalid ''type must be root or intermediate'')
      else let inp = (if ci_name inp = [] then inp\<lparr>ci_name := common_name (ci_subject inp)\<rparr> else inp) in
      if ci_name inp = [] then failS (EInvalid ''name is required'')
      else
      bindS (liftE (map_err (\<lambda>e. EInvalidPki (EKey e))
               (parse_key_spec (default_string (ci_key_algorithm inp) (cfg_key_algorithm E))))) (\<lambda>spec.
      let inp = inp\<lparr>ci_subject := apply_subject_defaults E (ci_subject inp)\<rparr> in
      bindS (liftE (map_err (\<lambda>e. EInvalidPki (ESubject e)) (subject_validate (ci_subject inp)))) (\<lambda>_.
      let inp = inp\<lparr>ci_constraints := nc_normalize (ci_constraints inp)\<rparr> in
      bindS (liftE (map_err (\<lambda>e. EInvalidPki (EConstraint e)) (nc_validate (ci_constraints inp)))) (\<lambda>_.
      bindS (readS (unique_slug (default_string (ci_slug inp) (ci_name inp)))) (\<lambda>slug.
      let req = ca_request_of inp spec in
      if ci_type inp = type_root then
        let req = (if cq_validity_days req \<le> 0 then req\<lparr>cq_validity_days := cfg_ca_validity E\<rparr> else req) in
        bindS (liftE (map_err EInvalidPki
                 (create_root_ca (se_parsers E) (se_now E) (dr_key R) (dr_serials R) req))) (\<lambda>ca.
          persist_authority E (dr_uuid R) ca inp slug TypeRoot None spec)
      else if ci_parent inp = [] then failS (EInvalid ''an intermediate CA needs a parent'')
      else
        bindS (store_read (resolve_authority (ci_parent inp))) (\<lambda>prow.
        bindS (readS (load_ca E prow (ci_parent_passphrase inp))) (\<lambda>parent.
        bindS (liftE (map_err EInvalidPki
                 (create_intermediate_ca (se_parsers E) (se_now E) (dr_key R) (dr_serials R) parent req))) (\<lambda>ca.
          persist_authority E (dr_uuid R) ca inp slug TypeIntermediate (Some (au_id prow)) spec))))))))"

section \<open>Importing\<close>

record import_authority_input =
  mi_name :: string
  mi_slug :: string
  mi_description :: string
  mi_cert :: "pem option"
  mi_key :: "pem option"
  mi_passphrase :: string

text \<open>The row whose subject carries the imported certificate's issuer name.\<close>

definition import_parent :: "svc_env \<Rightarrow> x509 \<Rightarrow> authority list \<Rightarrow> authority option" where
  "import_parent E cert rows =
     List.find (\<lambda>a. common_name (au_subject a) = pn_common_name (x_issuer cert) \<and>
                    au_fingerprint a \<noteq> se_fingerprint E cert) rows"

definition import_input :: "import_authority_input \<Rightarrow> string \<Rightarrow> x509 \<Rightarrow> create_authority_input" where
  "import_input inp name cert = \<lparr>ci_name = name, ci_slug = [], ci_description = mi_description inp,
     ci_type = [], ci_parent = [], ci_parent_passphrase = [],
     ci_subject = subject_from_pkix (x_subject cert), ci_key_algorithm = [], ci_validity_days = 0,
     ci_max_path_len = None, ci_passphrase = mi_passphrase inp, ci_crl_urls = [], ci_ocsp_urls = [],
     ci_constraints = no_constraints\<rparr>"

definition import_authority :: "svc_env \<Rightarrow> draws \<Rightarrow> import_authority_input \<Rightarrow> authority svc" where
  "import_authority E R inp = (case (mi_cert inp, mi_key inp) of
     (Some cert_pem, Some key_pem) \<Rightarrow>
       bindS (liftE (map_err EInvalidPki (import_ca cert_pem key_pem))) (\<lambda>ca.
       bindS (liftE (map_err EPki (issuer_of ca))) (\<lambda>(cert, key).
       bindS (liftE (map_err (\<lambda>e. EInvalidPki (EKey e)) (spec_of (public_of key)))) (\<lambda>spec.
       let name = default_string (mi_name inp) (pn_common_name (x_subject cert)) in
       bindS (readS (unique_slug (default_string (mi_slug inp) name))) (\<lambda>slug.
       bindS (readS (\<lambda>d. Inr (all_authorities d))) (\<lambda>rows.
       case List.find (\<lambda>a. au_fingerprint a = se_fingerprint E cert) rows of
         Some a \<Rightarrow> failS (EConflict (au_name a))
       | None \<Rightarrow>
           (case import_parent E cert rows of
              Some p \<Rightarrow> persist_authority E (dr_uuid R) ca (import_input inp name cert) slug
                          TypeIntermediate (Some (au_id p)) spec
            | None \<Rightarrow> persist_authority E (dr_uuid R) ca (import_input inp name cert) slug
                        (if is_root ca then TypeRoot else TypeIntermediate) None spec))))))
   | _ \<Rightarrow> failS (EInvalid ''both the certificate and the private key are required''))"

section \<open>Editing and deleting\<close>

record update_authority_input =
  ui_name :: "string option"
  ui_description :: "string option"
  ui_crl_url :: "string option"
  ui_ocsp_url :: "string option"

definition or_else :: "'a option \<Rightarrow> 'a \<Rightarrow> 'a" where
  "or_else v x = (case v of None \<Rightarrow> x | Some y \<Rightarrow> y)"

definition update_authority :: "string \<Rightarrow> update_authority_input \<Rightarrow> authority svc" where
  "update_authority i inp =
     bindS (store_read (resolve_authority i)) (\<lambda>row.
     let row = row\<lparr>au_name := or_else (ui_name inp) (au_name row),
                   au_description := or_else (ui_description inp) (au_description row),
                   au_crl_url := or_else (ui_crl_url inp) (au_crl_url row),
                   au_ocsp_url := or_else (ui_ocsp_url inp) (au_ocsp_url row)\<rparr> in
     bindS (store_op (update_authority_row row)) (\<lambda>_. returnS row))"

definition delete_authority :: "string \<Rightarrow> bool \<Rightarrow> unit svc" where
  "delete_authority i force =
     bindS (store_read (resolve_authority i)) (\<lambda>row. store_op (delete_authority_row (au_id row) force))"

section \<open>Renewing\<close>

record renew_authority_input =
  ni_validity_days :: int
  ni_rekey :: bool
  ni_passphrase :: string
  ni_parent_passphrase :: string

definition renewal_issue_request :: "subject \<Rightarrow> string \<Rightarrow> int \<Rightarrow> issue_request" where
  "renewal_issue_request s p days = \<lparr>iq_subject = s, iq_sans = [], iq_key_spec = no_spec, iq_profile = p,
     iq_validity_days = days, iq_not_before = None, iq_key_usage = [], iq_eku = [], iq_crl_urls = [],
     iq_ocsp_urls = []\<rparr>"

text \<open>
  The source also builds a \<open>CARequest\<close> with the path length of the row and passes it to
  nothing: the certificate is signed from the \<open>IssueRequest\<close> alone.
\<close>

definition resign_authority ::
    "svc_env \<Rightarrow> draws \<Rightarrow> renew_authority_input \<Rightarrow> authority \<Rightarrow> cert_authority \<Rightarrow> x509 \<Rightarrow> private_key \<Rightarrow> x509 svc" where
  "resign_authority E R inp row ca cert key =
     (let days = (if ni_validity_days inp \<le> 0 then whole_days (au_not_after row - au_not_before row)
                  else ni_validity_days inp);
          subj = subject_from_pkix (x_subject cert)
      in if au_type row = TypeRoot then
           liftE (map_err EInvalidPki (sign_public_key (se_parsers E) (se_now E) (dr_serials R) ca (public_of key)
             (renewal_issue_request subj profile_root days)))
         else (case au_parent row of
             None \<Rightarrow> failS (EInvalid ''intermediate CA has no recorded parent'')
           | Some p \<Rightarrow>
               bindS (store_read (get_authority p)) (\<lambda>prow.
               bindS (readS (load_ca E prow (ni_parent_passphrase inp))) (\<lambda>parent.
                 liftE (map_err EInvalidPki (sign_public_key (se_parsers E) (se_now E) (dr_serials R) parent
                   (public_of key) (renewal_issue_request subj profile_intermediate days)))))))"

definition renew_authority :: "svc_env \<Rightarrow> draws \<Rightarrow> string \<Rightarrow> renew_authority_input \<Rightarrow> authority svc" where
  "renew_authority E R i inp =
     bindS (store_read (resolve_authority i)) (\<lambda>row.
     if ni_rekey inp then failS (EInvalid ''rekeying a CA invalidates every certificate it has issued'')
     else
     bindS (readS (load_ca E row (ni_passphrase inp))) (\<lambda>ca.
     bindS (liftE (map_err EPki (issuer_of ca))) (\<lambda>(cert, key).
     bindS (resign_authority E R inp row ca cert key) (\<lambda>renewed.
     let row = row\<lparr>au_cert_pem := encode_certificate_pem renewed,
                   au_serial := format_serial (Some (x_serial renewed)),
                   au_not_before := x_not_before renewed, au_not_after := x_not_after renewed,
                   au_fingerprint := se_fingerprint E renewed, au_status := StActive\<rparr> in
     bindS (store_op (update_authority_row row)) (\<lambda>_. returnS row)))))"

section \<open>Revocation lists\<close>

definition crl_input :: "revocation list \<Rightarrow> revoked_certificate list" where
  "crl_input rs = concat (map (\<lambda>r. case parse_serial (rv_serial r) of
       Inl _ \<Rightarrow> []
     | Inr s \<Rightarrow> [\<lparr>rc_serial = Some s, rc_at = Some (rv_at r), rc_reason = rv_reason_code r\<rparr>]) rs)"

definition publish_crl :: "svc_env \<Rightarrow> string \<Rightarrow> string \<Rightarrow> crl svc" where
  "publish_crl E i passphrase =
     bindS (store_read (resolve_authority i)) (\<lambda>row.
     bindS (readS (load_ca E row passphrase)) (\<lambda>ca.
     bindS (readS (\<lambda>d. Inr (revocations_by_authority (au_id row) d))) (\<lambda>revs.
     let nxt = se_now E + cfg_crl_validity E in
     bindS (liftE (map_err ECrl (generate_crl (se_now E) ca
       \<lparr>lq_number = Some (au_crl_number row + 1), lq_this = Some (se_now E), lq_next = Some nxt,
        lq_revoked = crl_input revs\<rparr>))) (\<lambda>l.
     bindS (store_op (update_authority_row (row\<lparr>au_crl_number := au_crl_number row + 1,
       au_crl_pem := encode_crl_pem (DerCRL l), au_next_crl := Some nxt\<rparr>))) (\<lambda>_.
       returnS l)))))"

definition crl_for :: "svc_env \<Rightarrow> string \<Rightarrow> pem svc" where
  "crl_for E i =
     bindS (store_read (resolve_authority i)) (\<lambda>row.
     if au_crl_pem row \<noteq> [] then returnS (au_crl_pem row)
     else if au_passphrase_protected row then failS (EMissing (au_name row))
     else bindS (publish_crl E (au_id row) []) (\<lambda>l. returnS (encode_crl_pem (DerCRL l))))"

section \<open>Statuses\<close>

definition authority_status_at :: "instant \<Rightarrow> int \<Rightarrow> authority \<Rightarrow> status" where
  "authority_status_at now warn a =
     (if au_not_after a < now then StExpired
      else if au_not_after a < add_days now warn then StExpiring else StActive)"

fun refresh_authorities :: "svc_env \<Rightarrow> int \<Rightarrow> authority list \<Rightarrow> int svc" where
  "refresh_authorities E n [] = returnS n"
| "refresh_authorities E n (a # as) =
     (if au_status a = StRevoked then refresh_authorities E n as
      else let want = authority_status_at (se_now E) (cfg_warn_days E) a
           in if au_status a \<noteq> want then
                bindS (store_op (update_authority_row (a\<lparr>au_status := want\<rparr>))) (\<lambda>_.
                  refresh_authorities E (n + 1) as)
              else refresh_authorities E n as)"

definition refresh_authority_statuses :: "svc_env \<Rightarrow> int svc" where
  "refresh_authority_statuses E =
     bindS (readS (\<lambda>d. Inr (all_authorities d))) (refresh_authorities E 0)"

section \<open>Integrity\<close>

lemma keeps_prod_case [keeps_intros]: "(\<And>a b. keeps I (f a b)) \<Longrightarrow> keeps I (case p of (a, b) \<Rightarrow> f a b)"
  by (cases p) simp

lemma keeps_persist_authority [keeps_intros]: "keeps db_ok (persist_authority E u ca inp slug ty p spec)"
  unfolding persist_authority_def Let_def by (intro keeps_intros keeps_basic)+

lemma keeps_create_authority_svc [keeps_intros]: "keeps db_ok (create_authority E R inp)"
  unfolding create_authority_def Let_def by (intro keeps_intros keeps_basic)+

lemma keeps_import_authority [keeps_intros]: "keeps db_ok (import_authority E R inp)"
  unfolding import_authority_def Let_def by (intro keeps_intros keeps_basic)+

lemma reads_resign [reads_intros]: "reads (resign_authority E R inp row ca cert key)"
  unfolding resign_authority_def Let_def by (intro reads_intros reads_basic reads_store_read)

lemma keeps_resign [keeps_intros]: "keeps I (resign_authority E R inp row ca cert key)"
  using reads_resign by (simp add: keeps_def reads_def)

lemma resign_authorityE:
  assumes "resign_authority E R inp row ca cert key d = (Inr renewed, d')"
  obtains signer req where "d' = d"
    "sign_public_key (se_parsers E) (se_now E) (dr_serials R) signer (public_of key) req = Inr renewed"
    "au_type row = TypeRoot \<Longrightarrow> signer = ca"
  using assms unfolding resign_authority_def Let_def
  by (cases "au_type row = TypeRoot"; cases "au_parent row") (auto simp: bindS_Inr_iff)

lemma keeps_authority_edits [keeps_intros]:
  "keeps db_ok (update_authority i uin)" "keeps db_ok (delete_authority i force)"
  "keeps db_ok (renew_authority E R i rin)" "keeps db_ok (publish_crl E i passphrase)"
  unfolding update_authority_def delete_authority_def renew_authority_def publish_crl_def Let_def
  by (intro keeps_intros keeps_basic)+

lemma keeps_crl_for [keeps_intros]: "keeps db_ok (crl_for E i)"
  unfolding crl_for_def by (intro keeps_intros keeps_basic)+

lemma keeps_refresh_authorities: "keeps db_ok (refresh_authorities E n as)"
  by (induction as arbitrary: n) (auto simp: Let_def intro!: keeps_intros)

lemma keeps_refresh_authority_statuses [keeps_intros]: "keeps db_ok (refresh_authority_statuses E)"
  unfolding refresh_authority_statuses_def by (intro keeps_intros keeps_basic keeps_refresh_authorities)

end
