(* ===== verification/SvcCertificate.thy ===== *)
theory SvcCertificate
  imports SvcAuthority
begin

text \<open>
  \<open>internal/service/certificate.go\<close>: the life of a certificate - issuance with a managed key,
  signing of an external request, renewal, revocation and holds, edits, exports and the clock
  driven statuses.  A renewal also runs the deployment targets; their outcome is only logged
  and writes no table of this model.
\<close>

record issue_input =
  ii_authority :: string
  ii_passphrase :: string
  ii_subject :: subject
  ii_sans :: san_set
  ii_profile :: string
  ii_key_algorithm :: string
  ii_validity_days :: int
  ii_key_usage :: "string list"
  ii_eku :: "string list"
  ii_auto_renew :: bool
  ii_renew_before :: int
  ii_labels :: labels
  ii_notes :: string

record issue_result =
  ir_row :: certificate
  ir_key_pem :: pem
  ir_bundle :: cert_bundle

section \<open>Name constraints\<close>

definition check_name_constraints :: "authority \<Rightarrow> string \<Rightarrow> san_set \<Rightarrow> svc_error + unit" where
  "check_name_constraints ca cn sans =
     (if nc_is_zero (au_constraints ca) then Inr ()
      else bindE (map_err (\<lambda>e. EInvalidPki (EConstraint e)) (permits_sans (au_constraints ca) sans)) (\<lambda>_.
        if cn \<noteq> [] \<and> CHR ''.'' \<in> set cn \<and> CHR '' '' \<notin> set cn then
          (if \<not> permits_dns (au_constraints ca) cn then Inl (EInvalid cn) else Inr ())
        else Inr ()))"

section \<open>Writing the row\<close>

definition renewal_window :: "int \<Rightarrow> bool \<Rightarrow> int \<Rightarrow> int" where
  "renewal_window requested auto_renew days =
     (let w = (if requested \<le> 0 then 30 else requested)
      in if auto_renew \<and> 0 < days \<and> days \<le> w then
           (let capped = trunc_div days 2 in if capped < 1 then 1 else capped)
         else w)"

definition certificate_row ::
    "svc_env \<Rightarrow> string \<Rightarrow> authority \<Rightarrow> x509 \<Rightarrow> key_spec \<Rightarrow> sealed_key \<Rightarrow> document option \<Rightarrow> issue_input \<Rightarrow>
     string option \<Rightarrow> certificate" where
  "certificate_row E uuid ca cert spec key csr inp from =
     (let days = whole_days (x_not_after cert - x_not_before cert) in \<lparr>
     cr_id = uuid, cr_created_at = se_now E, cr_authority = au_id ca,
     cr_common_name = pn_common_name (x_subject cert), cr_subject = subject_from_pkix (x_subject cert),
     cr_profile = default_string (ii_profile inp) (infer_profile cert), cr_key_spec = spec,
     cr_serial = format_serial (Some (x_serial cert)), cr_sans = sans_from_certificate_like (x_sans cert),
     cr_key_usage = key_usage_strings (x_key_usage cert), cr_eku = ext_key_usage_strings (x_eku cert),
     cr_not_before = x_not_before cert, cr_not_after = x_not_after cert, cr_validity_days = days,
     cr_cert_pem = encode_certificate_pem cert, cr_key = key, cr_csr_pem = csr,
     cr_fingerprint = se_fingerprint E cert, cr_status = StActive, cr_auto_renew = ii_auto_renew inp,
     cr_renew_before = renewal_window (ii_renew_before inp) (ii_auto_renew inp) days,
     cr_renewed_from = from, cr_key_downloads = 0, cr_last_downloaded = None,
     cr_labels = ii_labels inp, cr_notes = ii_notes inp\<rparr>)"

definition persist_certificate ::
    "svc_env \<Rightarrow> string \<Rightarrow> authority \<Rightarrow> x509 \<Rightarrow> private_key option \<Rightarrow> document option \<Rightarrow> issue_input \<Rightarrow>
     string option \<Rightarrow> certificate svc" where
  "persist_certificate E uuid ca cert key csr inp from =
     bindS (liftE (map_err (\<lambda>e. EPki (EKey e)) (spec_of (x_public_key cert)))) (\<lambda>spec.
     bindS (liftE (case key of None \<Rightarrow> Inr NoSealedKey | Some k \<Rightarrow> seal_key E k [])) (\<lambda>sealed.
     let row = certificate_row E uuid ca cert spec sealed csr inp from in
     bindS (store_op (create_certificate_row row)) (\<lambda>_. returnS row)))"

section \<open>Issuing\<close>

definition issue_request_of :: "issue_input \<Rightarrow> key_spec \<Rightarrow> string \<Rightarrow> authority \<Rightarrow> issue_request" where
  "issue_request_of inp spec p ca = \<lparr>
     iq_subject = ii_subject inp, iq_sans = ii_sans inp, iq_key_spec = spec, iq_profile = p,
     iq_validity_days = ii_validity_days inp, iq_not_before = None, iq_key_usage = ii_key_usage inp,
     iq_eku = ii_eku inp, iq_crl_urls = distribution_points (au_crl_url ca),
     iq_ocsp_urls = distribution_points (au_ocsp_url ca)\<rparr>"

definition issue_certificate :: "svc_env \<Rightarrow> draws \<Rightarrow> issue_input \<Rightarrow> issue_result svc" where
  "issue_certificate E R inp =
     bindS (store_read (resolve_authority (ii_authority inp))) (\<lambda>ca_row.
     bindS (readS (load_ca E ca_row (ii_passphrase inp))) (\<lambda>ca.
     bindS (liftE (map_err (\<lambda>e. EInvalidPki (EKey e))
              (parse_key_spec (default_string (ii_key_algorithm inp) (cfg_key_algorithm E))))) (\<lambda>spec.
     let p = default_string (ii_profile inp) profile_server in
     bindS (liftE (map_err (\<lambda>e. EInvalidPki (EProfile e)) (lookup_profile p))) (\<lambda>_.
     let inp = inp\<lparr>ii_subject := apply_subject_defaults E (ii_subject inp)\<rparr> in
     bindS (liftE (map_err (\<lambda>e. EInvalidPki (ESubject e)) (subject_validate (ii_subject inp)))) (\<lambda>_.
     bindS (liftE (check_name_constraints ca_row (common_name (ii_subject inp)) (ii_sans inp))) (\<lambda>_.
     bindS (liftE (map_err EInvalidPki (issue (se_parsers E) (se_now E) (dr_key R) (dr_serials R) ca
              (issue_request_of inp spec p ca_row)))) (\<lambda>ic.
     bindS (persist_certificate E (dr_uuid R) ca_row (ic_certificate ic) (Some (ic_private_key ic)) None inp None) (\<lambda>row.
     bindS (liftE (map_err (\<lambda>e. EPki (EX509 e)) (marshal_private_key_pem (ic_private_key ic)))) (\<lambda>key_pem.
       returnS \<lparr>ir_row = row, ir_key_pem = key_pem,
         ir_bundle = \<lparr>b_certificate = ic_certificate ic, b_private_key = Some (ic_private_key ic),
                      b_chain = ic_chain ic\<rparr>\<rparr>)))))))))"

record sign_csr_input =
  gi_authority :: string
  gi_passphrase :: string
  gi_csr :: document
  gi_profile :: string
  gi_sans :: san_set
  gi_validity_days :: int
  gi_key_usage :: "string list"
  gi_eku :: "string list"
  gi_labels :: labels
  gi_notes :: string

definition no_subject :: subject where
  "no_subject = \<lparr>common_name = [], country = [], province = [], locality = [], organization = [],
     organizational_unit = [], email = [], subject_serial = []\<rparr>"

definition blank_input :: "string \<Rightarrow> string \<Rightarrow> int \<Rightarrow> labels \<Rightarrow> string \<Rightarrow> issue_input" where
  "blank_input a p days ls notes = \<lparr>ii_authority = a, ii_passphrase = [], ii_subject = no_subject, ii_sans = [],
     ii_profile = p, ii_key_algorithm = [], ii_validity_days = days, ii_key_usage = [], ii_eku = [],
     ii_auto_renew = False, ii_renew_before = 0, ii_labels = ls, ii_notes = notes\<rparr>"

definition chain_for :: "authority \<Rightarrow> db \<Rightarrow> svc_error + x509 list" where
  "chain_for a d = bindE (map_err EPki (parse_certificate_pem (au_cert_pem a))) (\<lambda>c.
     bindE (chain_certificates a d) (\<lambda>cs. Inr (c # cs)))"

definition sign_csr_request :: "sign_csr_input \<Rightarrow> string \<Rightarrow> authority \<Rightarrow> issue_request" where
  "sign_csr_request inp p ca = \<lparr>
     iq_subject = no_subject, iq_sans = gi_sans inp, iq_key_spec = no_spec, iq_profile = p,
     iq_validity_days = gi_validity_days inp, iq_not_before = None, iq_key_usage = gi_key_usage inp,
     iq_eku = gi_eku inp, iq_crl_urls = distribution_points (au_crl_url ca),
     iq_ocsp_urls = distribution_points (au_ocsp_url ca)\<rparr>"

definition sign_csr_certificate :: "svc_env \<Rightarrow> draws \<Rightarrow> sign_csr_input \<Rightarrow> issue_result svc" where
  "sign_csr_certificate E R inp =
     bindS (store_read (resolve_authority (gi_authority inp))) (\<lambda>ca_row.
     bindS (readS (load_ca E ca_row (gi_passphrase inp))) (\<lambda>ca.
     bindS (liftE (map_err EInvalidPki (parse_csr (gi_csr inp)))) (\<lambda>r.
     let p = default_string (gi_profile inp) profile_server in
     bindS (liftE (map_err (\<lambda>e. EInvalidPki (EProfile e)) (lookup_profile p))) (\<lambda>_.
     bindS (liftE (check_name_constraints ca_row (pn_common_name (csr_subject r))
              (sans_from_certificate_like (csr_sans r) @ gi_sans inp))) (\<lambda>_.
     bindS (liftE (map_err EInvalidPki (sign_csr (se_parsers E) (se_now E) (dr_serials R) ca (Some r)
              (sign_csr_request inp p ca_row)))) (\<lambda>cert.
     bindS (persist_certificate E (dr_uuid R) ca_row cert None (Some (gi_csr inp))
              (blank_input (au_id ca_row) p (gi_validity_days inp) (gi_labels inp) (gi_notes inp)) None) (\<lambda>row.
     bindS (readS (chain_for ca_row)) (\<lambda>chain.
       returnS \<lparr>ir_row = row, ir_key_pem = [],
         ir_bundle = \<lparr>b_certificate = cert, b_private_key = None, b_chain = chain\<rparr>\<rparr>))))))))"

section \<open>Renewing\<close>

record renew_input =
  wi_rekey :: bool
  wi_key_algorithm :: string
  wi_validity_days :: int
  wi_sans :: san_set
  wi_passphrase :: string

definition renewal_key :: "svc_env \<Rightarrow> renew_input \<Rightarrow> certificate \<Rightarrow> svc_error + private_key option" where
  "renewal_key E inp cur =
     (if wi_rekey inp then Inr None
      else if \<not> has_private_key cur then Inl EKeyUnavailable
      else bindE (open_key E (cr_key cur) []) (\<lambda>k. Inr (Some k)))"

definition renewal_spec :: "renew_input \<Rightarrow> svc_error + key_spec" where
  "renewal_spec inp =
     (if wi_rekey inp \<and> wi_key_algorithm inp \<noteq> [] then
        map_err (\<lambda>e. EInvalidPki (EKey e)) (parse_key_spec (wi_key_algorithm inp))
      else Inr no_spec)"

definition renew_certificate :: "svc_env \<Rightarrow> draws \<Rightarrow> string \<Rightarrow> renew_input \<Rightarrow> issue_result svc" where
  "renew_certificate E R i inp =
     bindS (store_read (get_with_authority i)) (\<lambda>(cur, ca_row).
     if cr_status cur = StRevoked then failS (EInvalid (cr_common_name cur))
     else
     bindS (readS (load_ca E ca_row (wi_passphrase inp))) (\<lambda>ca.
     bindS (liftE (map_err EPki (parse_certificate_pem (cr_cert_pem cur)))) (\<lambda>cur_cert.
     bindS (liftE (renewal_key E inp cur)) (\<lambda>cur_key.
     bindS (liftE (renewal_spec inp)) (\<lambda>spec.
     let req = \<lparr>rq_rekey = wi_rekey inp, rq_key_spec = spec,
                rq_validity_days = (if wi_validity_days inp \<le> 0 then cr_validity_days cur else wi_validity_days inp),
                rq_subject = None, rq_sans = wi_sans inp, rq_profile = cr_profile cur,
                rq_crl_urls = distribution_points (au_crl_url ca_row),
                rq_ocsp_urls = distribution_points (au_ocsp_url ca_row)\<rparr> in
     bindS (liftE (map_err EInvalidPki (renew (se_parsers E) (se_now E) (dr_key R) (dr_serials R) ca
              (Some cur_cert) cur_key req))) (\<lambda>ic.
     let issue_in = (blank_input (au_id ca_row) (cr_profile cur) 0 (cr_labels cur) (cr_notes cur))\<lparr>
                      ii_auto_renew := cr_auto_renew cur, ii_renew_before := cr_renew_before cur\<rparr>;
         store_key = (if \<not> wi_rekey inp \<and> \<not> has_private_key cur then None else Some (ic_private_key ic)) in
     bindS (persist_certificate E (dr_uuid R) ca_row (ic_certificate ic) store_key None issue_in (Some (cr_id cur))) (\<lambda>row.
     bindS (whenS (cr_auto_renew cur)
              (ignoreS (update_certificate_fields (cr_id cur) (cr_auto_renew_update (\<lambda>_. False))))) (\<lambda>_.
     bindS (case store_key of
              None \<Rightarrow> returnS []
            | Some k \<Rightarrow> liftE (map_err (\<lambda>e. EPki (EX509 e)) (marshal_private_key_pem k))) (\<lambda>key_pem.
       returnS \<lparr>ir_row = row, ir_key_pem = key_pem,
         ir_bundle = \<lparr>b_certificate = ic_certificate ic, b_private_key = Some (ic_private_key ic),
                      b_chain = ic_chain ic\<rparr>\<rparr>)))))))))"

section \<open>Revoking and holding\<close>

record revoke_input =
  ki_reason :: int
  ki_passphrase :: string
  ki_skip_crl :: bool

definition drop_hold :: "certificate \<Rightarrow> unit svc" where
  "drop_hold c =
     bindS (readS (\<lambda>d. Inr (revocation_by_certificate (cr_id c) d))) (\<lambda>found.
       case found of
         Inl _ \<Rightarrow> returnS ()
       | Inr r \<Rightarrow> store_op (delete_revocation_row (rv_id r)))"

definition revocation_row :: "svc_env \<Rightarrow> string \<Rightarrow> string \<Rightarrow> certificate \<Rightarrow> int \<Rightarrow> revocation" where
  "revocation_row E uuid actor c reason = \<lparr>rv_id = uuid, rv_certificate = cr_id c, rv_authority = cr_authority c,
     rv_serial = cr_serial c, rv_reason_code = reason, rv_reason = revocation_reason_name reason,
     rv_at = se_now E, rv_by = actor\<rparr>"

definition revoke_certificate :: "svc_env \<Rightarrow> draws \<Rightarrow> string \<Rightarrow> string \<Rightarrow> revoke_input \<Rightarrow> revocation svc" where
  "revoke_certificate E R actor i inp =
     bindS (liftE (map_err EInvalidReason (validate_revocation_reason (ki_reason inp)))) (\<lambda>_.
     bindS (store_read (get_with_authority i)) (\<lambda>(cert, ca_row).
     if cr_status cert = StRevoked then failS (EConflict (cr_common_name cert))
     else
     bindS (whenS (cr_status cert = StHeld) (drop_hold cert)) (\<lambda>_.
     let rev = revocation_row E (dr_uuid R) actor cert (ki_reason inp) in
     bindS (store_op (create_revocation_row rev)) (\<lambda>_.
     bindS (store_op (update_certificate_row (cert\<lparr>cr_status :=
              (if ki_reason inp = reason_certificate_hold then StHeld else StRevoked)\<rparr>))) (\<lambda>_.
     bindS (whenS (\<not> ki_skip_crl inp \<and> (\<not> au_passphrase_protected ca_row \<or> ki_passphrase inp \<noteq> []))
              (ignoreS (publish_crl E (au_id ca_row) (ki_passphrase inp)))) (\<lambda>_.
       returnS rev))))))"

definition release_hold :: "svc_env \<Rightarrow> string \<Rightarrow> string \<Rightarrow> certificate svc" where
  "release_hold E i passphrase =
     bindS (store_read (get_with_authority i)) (\<lambda>(cert, ca_row).
     if cr_status cert \<noteq> StHeld then failS (EConflict (cr_common_name cert))
     else
     bindS (store_read (revocation_by_certificate (cr_id cert))) (\<lambda>rev.
     bindS (store_op (delete_revocation_row (rv_id rev))) (\<lambda>_.
     let cert = cert\<lparr>cr_status := StActive\<rparr>;
         cert = cert\<lparr>cr_status := derive_status (se_now E) (cfg_warn_days E) cert\<rparr> in
     bindS (store_op (update_certificate_row cert)) (\<lambda>_.
     bindS (whenS (\<not> au_passphrase_protected ca_row \<or> passphrase \<noteq> [])
              (ignoreS (publish_crl E (au_id ca_row) passphrase))) (\<lambda>_.
       returnS cert)))))"

section \<open>Edits, exports and statuses\<close>

record update_certificate_input =
  vi_labels :: "labels option"
  vi_notes :: "string option"
  vi_auto_renew :: "bool option"
  vi_renew_before :: "int option"

definition update_certificate :: "string \<Rightarrow> update_certificate_input \<Rightarrow> certificate svc" where
  "update_certificate i inp =
     bindS (store_read (get_certificate i)) (\<lambda>row.
     let row = row\<lparr>cr_labels := or_else (vi_labels inp) (cr_labels row),
                   cr_notes := or_else (vi_notes inp) (cr_notes row),
                   cr_auto_renew := or_else (vi_auto_renew inp) (cr_auto_renew row)\<rparr> in
     bindS (guardS (case vi_renew_before inp of None \<Rightarrow> True | Some n \<Rightarrow> 1 \<le> n \<and> n \<le> 365)
              (EInvalid ''renew_before_days must be between 1 and 365'')) (\<lambda>_.
     let row = row\<lparr>cr_renew_before := or_else (vi_renew_before inp) (cr_renew_before row)\<rparr> in
     bindS (store_op (update_certificate_row row)) (\<lambda>_. returnS row)))"

definition delete_certificate :: "string \<Rightarrow> unit svc" where
  "delete_certificate i =
     bindS (store_read (get_certificate i)) (\<lambda>_. store_op (delete_certificate_row i))"

definition load_bundle :: "svc_env \<Rightarrow> string \<Rightarrow> bool \<Rightarrow> db \<Rightarrow> svc_error + (cert_bundle \<times> certificate)" where
  "load_bundle E i with_key d =
     bindE (map_err EStore (get_with_authority i d)) (\<lambda>(cert, ca_row).
     bindE (map_err EPki (parse_certificate_pem (cr_cert_pem cert))) (\<lambda>leaf.
     bindE (chain_for ca_row d) (\<lambda>chain.
     bindE (if \<not> with_key then Inr None
            else if \<not> has_private_key cert then Inl EKeyUnavailable
            else bindE (open_key E (cr_key cert) []) (\<lambda>k. Inr (Some k))) (\<lambda>key.
       Inr (\<lparr>b_certificate = leaf, b_private_key = key, b_chain = chain\<rparr>, cert)))))"

definition authorize_key_download :: "svc_env \<Rightarrow> certificate \<Rightarrow> unit svc" where
  "authorize_key_download E c =
     (if cfg_download_policy E = ''never'' then failS (EForbidden ''private key downloads are disabled'')
      else if cfg_download_policy E = ''once'' \<and> 0 < cr_key_downloads c then
        failS (EForbidden ''this private key has already been downloaded once'')
      else if \<not> has_private_key c then failS EKeyUnavailable
      else store_op (update_certificate_fields (cr_id c) (\<lambda>r. r\<lparr>cr_key_downloads := cr_key_downloads c + 1,
             cr_last_downloaded := Some (se_now E)\<rparr>)))"

fun refresh_rows :: "svc_env \<Rightarrow> int \<Rightarrow> certificate list \<Rightarrow> int svc" where
  "refresh_rows E n [] = returnS n"
| "refresh_rows E n (c # cs) =
     (let want = derive_status (se_now E) (cfg_warn_days E) c
      in if cr_status c = want then refresh_rows E n cs
         else bindS (store_op (update_certificate_fields (cr_id c) (cr_status_update (\<lambda>_. want)))) (\<lambda>_.
                refresh_rows E (n + 1) cs))"

definition refresh_certificate_statuses :: "svc_env \<Rightarrow> int svc" where
  "refresh_certificate_statuses E =
     bindS (readS (\<lambda>d. Inr (expiring_before (add_days (se_now E) (cfg_warn_days E)) d))) (refresh_rows E 0)"

section \<open>Integrity\<close>

lemma plain_fields_updates [intro!, simp]:
  "plain_fields (cr_auto_renew_update f)" "plain_fields (cr_status_update g)"
  "plain_fields (\<lambda>r. r\<lparr>cr_key_downloads := n, cr_last_downloaded := t\<rparr>)"
  by (simp_all add: plain_fields_def)

lemma keeps_case_sum [keeps_intros]:
  "(\<And>x. keeps I (f x)) \<Longrightarrow> (\<And>y. keeps I (g y)) \<Longrightarrow> keeps I (case v of Inl x \<Rightarrow> f x | Inr y \<Rightarrow> g y)"
  by (simp split: sum.split)

lemma keeps_persist_certificate [keeps_intros]: "keeps db_ok (persist_certificate E u ca c k csr inp from)"
  unfolding persist_certificate_def Let_def by (intro keeps_intros keeps_basic)+

lemma keeps_issue_certificate [keeps_intros]: "keeps db_ok (issue_certificate E R inp)"
  unfolding issue_certificate_def Let_def by (intro keeps_intros keeps_basic)+

lemma keeps_sign_csr_certificate [keeps_intros]: "keeps db_ok (sign_csr_certificate E R inp)"
  unfolding sign_csr_certificate_def Let_def by (intro keeps_intros keeps_basic)+

lemma keeps_renew_certificate [keeps_intros]: "keeps db_ok (renew_certificate E R i inp)"
  unfolding renew_certificate_def Let_def
  by (intro keeps_intros keeps_basic plain_fields_updates)+

lemma keeps_drop_hold [keeps_intros]: "keeps db_ok (drop_hold c)"
  unfolding drop_hold_def by (intro keeps_intros keeps_basic)+

lemma keeps_revocations [keeps_intros]:
  "keeps db_ok (revoke_certificate E R actor i kin)" "keeps db_ok (release_hold E i p)"
  unfolding revoke_certificate_def release_hold_def Let_def by (intro keeps_intros keeps_basic)+

lemma keeps_certificate_edits [keeps_intros]:
  "keeps db_ok (update_certificate i uin)" "keeps db_ok (delete_certificate i)"
  "keeps db_ok (authorize_key_download E c)"
  unfolding update_certificate_def delete_certificate_def authorize_key_download_def Let_def
  by (intro keeps_intros keeps_basic plain_fields_updates)+

lemma keeps_refresh_rows: "keeps db_ok (refresh_rows E n cs)"
  by (induction cs arbitrary: n) (auto simp: Let_def intro!: keeps_intros)

lemma keeps_refresh_certificates [keeps_intros]: "keeps db_ok (refresh_certificate_statuses E)"
  unfolding refresh_certificate_statuses_def by (intro keeps_intros keeps_basic keeps_refresh_rows)

end
