(* ===== verification/SvcInv.thy ===== *)
theory SvcInv
  imports SvcCertificate
begin

text \<open>
  The invariant of the service over its PKI tables: database integrity (\<open>db_ok\<close>), issuers
  older than what they issue (\<open>ordered\<close>), and agreement of certificate statuses with the
  revocations table (\<open>synced\<close>).  Every operation keeps it, so it holds in every reachable
  state.
\<close>

section \<open>Statuses and revocations\<close>

definition on_crl :: "status \<Rightarrow> bool" where
  "on_crl s = (s = StRevoked \<or> s = StHeld)"

definition row_synced :: "revocation list \<Rightarrow> certificate \<Rightarrow> bool" where
  "row_synced rs c \<longleftrightarrow>
     (on_crl (cr_status c) \<longleftrightarrow> (\<exists>r \<in> set rs. rv_certificate r = cr_id c)) \<and>
     (\<forall>r \<in> set rs. rv_certificate r = cr_id c \<longrightarrow>
        rv_authority r = cr_authority c \<and> rv_serial r = cr_serial c \<and>
        (cr_status c = StHeld \<longleftrightarrow> rv_reason_code r = reason_certificate_hold))"

lemma row_synced_cong:
  "cr_id c = cr_id x \<Longrightarrow> cr_authority c = cr_authority x \<Longrightarrow> cr_serial c = cr_serial x \<Longrightarrow>
   cr_status c = cr_status x \<Longrightarrow> row_synced rs c = row_synced rs x"
  by (simp add: row_synced_def)

definition synced :: "db \<Rightarrow> bool" where
  "synced d \<longleftrightarrow> (\<forall>c \<in> set (db_certificates d). row_synced (db_revocations d) c)"

definition pki_inv :: "db \<Rightarrow> bool" where
  "pki_inv d \<longleftrightarrow> db_ok d \<and> ordered d \<and> synced d"

lemma pki_inv_empty: "pki_inv empty_db"
  by (simp add: pki_inv_def ordered_def synced_def) (simp add: empty_db_def)

lemma pki_invD: "pki_inv d \<Longrightarrow> db_ok d" "pki_inv d \<Longrightarrow> ordered d" "pki_inv d \<Longrightarrow> synced d"
  by (simp_all add: pki_inv_def)

lemma synced_frame:
  "db_certificates d' = db_certificates d \<Longrightarrow> db_revocations d' = db_revocations d \<Longrightarrow> synced d' = synced d"
  by (simp add: synced_def)

lemma ordered_frame: "db_authorities d' = db_authorities d \<Longrightarrow> ordered d' = ordered d"
  by (simp add: ordered_def)

section \<open>Authorities\<close>

text \<open>Creating, saving and deleting rows, seen as changes of the three tables.\<close>

lemma create_authority_cases:
  "create_authority_row a d = (x, d') \<Longrightarrow>
   d' = d \<or> d' = db_authorities_update (\<lambda>rs. rs @ [a]) d"
  by (cases x) (auto simp: create_authority_row_def dest: repo_create_ok repo_fail)

lemma update_authority_cases:
  "update_authority_row a d = (x, d') \<Longrightarrow>
   d' = d \<or> d' = db_authorities_update (tbl_put au_id a) d"
  by (cases x) (auto simp: update_authority_row_def dest: repo_save_ok repo_fail)

lemma snd_create_authority:
  obtains "snd (create_authority_row a d) = d"
  | "snd (create_authority_row a d) = db_authorities_update (\<lambda>rs. rs @ [a]) d"
  using create_authority_cases by (metis prod.collapse)

lemma snd_update_authority:
  obtains "snd (update_authority_row a d) = d"
  | "snd (update_authority_row a d) = db_authorities_update (tbl_put au_id a) d"
  using update_authority_cases by (metis prod.collapse)

lemma inv_create_authority:
  assumes "pki_inv d" "case au_parent a of None \<Rightarrow> True | Some p \<Rightarrow> p \<in> au_id ` set (db_authorities d)"
  shows "pki_inv (snd (create_authority_row a d))"
proof -
  have ok: "db_ok (snd (create_authority_row a d))"
    using assms(1) keepsD [OF keeps_create_authority] by (simp add: pki_inv_def)
  show ?thesis
    using assms ok
    by (rule_tac snd_create_authority [of a d])
       (auto simp: pki_inv_def ordered_def parents_first_append synced_def split: option.splits)
qed

lemma parents_first_put:
  "parents_first seen rows \<Longrightarrow> \<forall>x \<in> set rows. au_id x = au_id a \<longrightarrow> au_parent x = au_parent a \<Longrightarrow>
   parents_first seen (map (\<lambda>x. if au_id x = au_id a then a else x) rows)"
proof (induction rows arbitrary: seen)
  case (Cons y ys)
  show ?case
  proof (cases "au_id y = au_id a")
    case True
    then have "au_parent y = au_parent a" using Cons.prems(2) by simp
    then show ?thesis using Cons True by (auto split: option.splits)
  qed (use Cons in \<open>auto split: option.splits\<close>)
qed simp

text \<open>A save of a row that exists and keeps its parent.\<close>

definition same_parent :: "db \<Rightarrow> authority \<Rightarrow> bool" where
  "same_parent d a \<longleftrightarrow> (\<exists>x \<in> set (db_authorities d). au_id x = au_id a \<and> au_parent x = au_parent a)"

lemma inv_update_authority:
  assumes "pki_inv d" "same_parent d a"
  shows "pki_inv (snd (update_authority_row a d))"
proof -
  have ok: "db_ok (snd (update_authority_row a d))"
    using assms(1) keepsD [OF keeps_update_authority] by (simp add: pki_inv_def)
  obtain x where x: "x \<in> set (db_authorities d)" "au_id x = au_id a" "au_parent x = au_parent a"
    using assms(2) by (auto simp: same_parent_def)
  have "\<forall>y \<in> set (db_authorities d). au_id y = au_id a \<longrightarrow> au_parent y = au_parent a"
    using x db_okD(1) [OF pki_invD(1) [OF assms(1)]] by (metis distinct_map inj_on_eq_iff)
  moreover have "au_id a \<in> au_id ` set (db_authorities d)" using x(1,2) by (metis imageI)
  ultimately have "parents_first {} (tbl_put au_id a (db_authorities d))"
    using assms(1) parents_first_put by (simp add: tbl_put_def tbl_has_iff pki_inv_def ordered_def)
  then show ?thesis
    using assms(1) ok
    by (rule_tac snd_update_authority [of a d])
       (auto simp: pki_inv_def ordered_def synced_def)
qed

lemma same_parent_update:
  assumes "db_ok d" "same_parent d a" "same_parent d b"
  shows "same_parent (snd (update_authority_row a d)) b"
proof (cases "au_id b = au_id a")
  case True
  obtain x y where "x \<in> set (db_authorities d)" "au_id x = au_id a" "au_parent x = au_parent a"
    "y \<in> set (db_authorities d)" "au_id y = au_id b" "au_parent y = au_parent b"
    using assms(2,3) by (auto simp: same_parent_def)
  then have "au_parent a = au_parent b" using True db_okD(1) [OF assms(1)] by (metis distinct_map inj_on_eq_iff)
  then show ?thesis
    using assms(3) True by (rule_tac snd_update_authority [of a d]) (auto simp: same_parent_def set_tbl_put)
next
  case False
  then show ?thesis
    using assms(3) by (rule_tac snd_update_authority [of a d]) (fastforce simp: same_parent_def set_tbl_put)+
qed

lemma same_parent_fields:
  "a \<in> set (db_authorities d) \<Longrightarrow> au_id b = au_id a \<Longrightarrow> au_parent b = au_parent a \<Longrightarrow> same_parent d b"
  by (auto simp: same_parent_def)

lemma parents_first_filter:
  assumes "parents_first seen rows" "\<forall>x \<in> set (filter p rows). \<forall>q. au_parent x = Some q \<longrightarrow> q \<in> seen' \<or> q \<in> au_id ` set (filter p rows)"
    "distinct (map au_id rows)" "\<forall>x \<in> set rows. au_id x \<notin> seen" "seen' \<subseteq> seen"
    "\<forall>q \<in> seen - seen'. q \<notin> au_id ` set (filter p rows)"
  shows "parents_first seen' (filter p rows)"
  using assms
proof (induction rows arbitrary: seen seen')
  case (Cons y ys)
  show ?case
  proof (cases "p y")
    case True
    have py: "q \<in> seen'" if "au_parent y = Some q" for q
    proof -
      have "q \<in> seen" using Cons.prems(1) that by simp
      then show ?thesis using Cons.prems(2,6) True that by auto
    qed
    have "parents_first (insert (au_id y) seen') (filter p ys)"
    proof (rule Cons.IH [of "insert (au_id y) seen"])
      show "\<forall>x \<in> set (filter p ys). \<forall>q. au_parent x = Some q \<longrightarrow>
          q \<in> insert (au_id y) seen' \<or> q \<in> au_id ` set (filter p ys)"
        using Cons.prems(2) True by auto
      show "\<forall>q \<in> insert (au_id y) seen - insert (au_id y) seen'. q \<notin> au_id ` set (filter p ys)"
        using Cons.prems(6) True by auto
    qed (use Cons.prems True in \<open>auto simp: image_iff\<close>)
    then show ?thesis using True py by (auto split: option.splits)
  next
    case False
    have "parents_first seen' (filter p ys)"
    proof (rule Cons.IH [of "insert (au_id y) seen"])
      show "\<forall>q \<in> insert (au_id y) seen - seen'. q \<notin> au_id ` set (filter p ys)"
        using Cons.prems(3,6) False by (auto simp: image_iff)
    qed (use Cons.prems False in \<open>auto simp: image_iff\<close>)
    then show ?thesis using False by simp
  qed
qed simp

lemma ordered_filter:
  assumes "ordered d" "db_ok d" "db_authorities d' = filter p (db_authorities d)" "fk_ok d'"
  shows "ordered d'"
  using parents_first_filter [of "{}" "db_authorities d" p "{}"] assms
  by (fastforce simp: ordered_def db_ok_def fk_ok_iff)

section \<open>Certificates and revocations\<close>

lemma create_certificate_cases:
  "create_certificate_row c d = (x, d') \<Longrightarrow>
   d' = d \<or> d' = db_certificates_update (\<lambda>rs. rs @ [certificate_defaults c]) d \<and> cr_id c \<notin> cr_id ` set (db_certificates d)"
  by (cases x) (auto simp: create_certificate_row_def certificate_defaults_def dest!: repo_create_ok repo_fail)

lemma certificate_defaults_fields [simp]:
  "cr_id (certificate_defaults c) = cr_id c" "cr_authority (certificate_defaults c) = cr_authority c"
  "cr_serial (certificate_defaults c) = cr_serial c" "cr_status (certificate_defaults c) = cr_status c"
  by (simp_all add: certificate_defaults_def)

lemma inv_create_certificate:
  assumes "pki_inv d" "\<not> on_crl (cr_status c)"
  shows "pki_inv (snd (create_certificate_row c d))"
proof -
  let ?e = "snd (create_certificate_row c d)"
  have ok: "db_ok ?e" using assms(1) keepsD [OF keeps_create_certificate] by (simp add: pki_inv_def)
  show ?thesis
  proof (cases "?e = d")
    case False
    then have e: "?e = db_certificates_update (\<lambda>rs. rs @ [certificate_defaults c]) d"
      "cr_id c \<notin> cr_id ` set (db_certificates d)"
      using create_certificate_cases by (metis prod.collapse)+
    have "\<forall>r \<in> set (db_revocations d). rv_certificate r \<noteq> cr_id c"
      using e(2) db_okD(9) [OF pki_invD(1) [OF assms(1)]] by metis
    then have "synced ?e"
      using assms unfolding e(1) by (auto simp: pki_inv_def synced_def row_synced_def on_crl_def)
    then show ?thesis using ok assms(1) by (simp add: pki_inv_def e(1) ordered_def)
  qed (use assms in simp)
qed

text \<open>Changing a certificate without touching its keys or status.\<close>

definition same_row :: "db \<Rightarrow> certificate \<Rightarrow> bool" where
  "same_row d c \<longleftrightarrow> (\<exists>x \<in> set (db_certificates d). cr_id x = cr_id c \<and> cr_authority x = cr_authority c \<and>
     cr_serial x = cr_serial c \<and> cr_status x = cr_status c)"

lemma update_certificate_cases:
  "update_certificate_row c d = (x, d') \<Longrightarrow>
   d' = d \<or> d' = db_certificates_update (tbl_put cr_id c) d"
  by (cases x) (auto simp: update_certificate_row_def dest: repo_save_ok repo_fail)

lemma snd_update_certificate:
  obtains "snd (update_certificate_row c d) = d"
  | "snd (update_certificate_row c d) = db_certificates_update (tbl_put cr_id c) d"
  using update_certificate_cases by (metis prod.collapse)

lemma inv_update_certificate:
  assumes "pki_inv d" "same_row d c"
  shows "pki_inv (snd (update_certificate_row c d))"
proof -
  have ok: "db_ok (snd (update_certificate_row c d))"
    using assms(1) keepsD [OF keeps_update_certificate] by (simp add: pki_inv_def)
  obtain x where x: "x \<in> set (db_certificates d)" "cr_id c = cr_id x" "cr_authority c = cr_authority x"
    "cr_serial c = cr_serial x" "cr_status c = cr_status x"
    using assms(2) unfolding same_row_def by metis
  have "row_synced (db_revocations d) c"
    unfolding row_synced_cong [OF x(2-5)] using assms(1) x(1) by (simp add: pki_inv_def synced_def)
  then have "synced (db_certificates_update (tbl_put cr_id c) d)"
    using assms(1) by (auto simp: pki_inv_def synced_def set_tbl_put)
  then show ?thesis
    using assms(1) ok
    by (rule_tac snd_update_certificate [of c d]) (simp_all add: pki_inv_def ordered_def)
qed

lemma same_row_fields:
  "x \<in> set (db_certificates d) \<Longrightarrow> cr_id c = cr_id x \<Longrightarrow> cr_authority c = cr_authority x \<Longrightarrow>
   cr_serial c = cr_serial x \<Longrightarrow> cr_status c = cr_status x \<Longrightarrow> same_row d c"
  by (auto simp: same_row_def)

text \<open>Partial updates: of a column other than the status, or of the status of a live row.\<close>

lemma inv_update_fields:
  assumes "pki_inv d" "plain_fields f"
    and "(\<forall>c. cr_status (f c) = cr_status c) \<or>
         (\<forall>c. \<not> on_crl (cr_status (f c))) \<and> (\<forall>r \<in> set (db_revocations d). rv_certificate r \<noteq> i)"
  shows "pki_inv (snd (update_certificate_fields i f d))"
proof -
  let ?d = "db_certificates_update (tbl_set (\<lambda>c. cr_id c = i) f) d"
  have ok: "db_ok (snd (update_certificate_fields i f d))"
    using assms(1,2) keepsD [OF keeps_update_fields] by (simp add: pki_inv_def)
  have s: "synced d" using assms(1) by (rule pki_invD)
  have "row_synced (db_revocations d) (f x)" if "row_synced (db_revocations d) x" "cr_id x = i" for x
    using assms(3)
  proof
    assume "\<forall>c. cr_status (f c) = cr_status c"
    then show ?thesis using assms(2) that row_synced_cong [of "f x" x] by (simp add: plain_fields_def)
  next
    assume "(\<forall>c. \<not> on_crl (cr_status (f c))) \<and> (\<forall>r \<in> set (db_revocations d). rv_certificate r \<noteq> i)"
    then show ?thesis using assms(2) that by (simp add: plain_fields_def row_synced_def)
  qed
  then have "synced ?d"
    using s unfolding synced_def by (auto simp: set_tbl_set)
  then show ?thesis
    using assms(1) ok by (auto simp: update_certificate_fields_def pki_inv_def ordered_def)
qed

section \<open>Operations on authorities\<close>

lemmas pki_steps = inv_intros [where I = pki_inv]
lemmas pki_step = inv_step [where I = pki_inv] inv_when [where I = pki_inv]

lemma resolve_in: "resolve_authority k d = Inr a \<Longrightarrow> a \<in> set (db_authorities d)"
  by (simp add: resolve_authority_InrD)

lemma inv_persist_authority:
  assumes "pki_inv d" "case p of None \<Rightarrow> True | Some q \<Rightarrow> q \<in> au_id ` set (db_authorities d)"
  shows "pki_inv (snd (persist_authority E u ca inp slug ty p spec d))"
  unfolding persist_authority_def Let_def
proof (intro pki_steps pki_step assms(1))
  fix r cert key sealed
  let ?r = "authority_row E u inp slug ty p spec cert sealed"
  show "pki_inv (snd (store_op (create_authority_row ?r) d))"
    using assms by (simp add: inv_create_authority authority_row_def)
  fix x d' assume c: "store_op (create_authority_row ?r) d = (Inr x, d')" and inv: "pki_inv d'"
  from c have "?r \<in> set (db_authorities d')" by (auto dest: authorities.create_ok)
  then have "same_parent d' (with_urls E ?r)" by (auto intro: same_parent_fields simp: with_urls_def Let_def)
  with inv show "pki_inv (snd (store_op (update_authority_row (with_urls E ?r)) d'))"
    by (simp add: inv_update_authority)
qed

lemma inv_create_authority_svc:
  assumes "pki_inv d"
  shows "pki_inv (snd (create_authority E R inp d))"
  unfolding create_authority_def Let_def
  by (intro pki_steps assms inv_persist_authority) (auto dest: resolve_in)

lemma inv_import_authority:
  assumes "pki_inv d"
  shows "pki_inv (snd (import_authority E R inp d))"
  unfolding import_authority_def Let_def
  by (intro pki_steps assms inv_persist_authority)
     (auto simp: import_parent_def all_authorities_def dest!: find_SomeD)

lemma inv_update_authority_svc:
  assumes "pki_inv d"
  shows "pki_inv (snd (update_authority i inp d))"
  unfolding update_authority_def Let_def
  by (intro pki_steps pki_step assms)
     (auto simp: snd_store_op intro!: inv_update_authority assms same_parent_fields dest: resolve_in)

lemma inv_renew_authority:
  assumes "pki_inv d"
  shows "pki_inv (snd (renew_authority E R i inp d))"
  unfolding renew_authority_def Let_def
  by (intro pki_steps inv_bind_reads [where I = pki_inv] pki_step reads_intros reads_basic assms)
     (auto intro!: inv_update_authority assms same_parent_fields dest: resolve_in)

lemma inv_publish_crl:
  assumes "pki_inv d"
  shows "pki_inv (snd (publish_crl E i p d))"
  unfolding publish_crl_def Let_def
  by (intro pki_steps pki_step assms)
     (auto intro!: inv_update_authority assms same_parent_fields dest: resolve_in)

lemma inv_crl_for: "pki_inv d \<Longrightarrow> pki_inv (snd (crl_for E i d))"
  unfolding crl_for_def by (intro pki_steps pki_step inv_publish_crl)

lemma inv_refresh_authorities:
  "pki_inv d \<Longrightarrow> \<forall>a \<in> set as. same_parent d a \<Longrightarrow> pki_inv (snd (refresh_authorities E n as d))"
proof (induction as arbitrary: n d)
  case (Cons a as)
  let ?w = "authority_status_at (se_now E) (cfg_warn_days E) a"
  let ?a = "a\<lparr>au_status := ?w\<rparr>"
  have sa: "same_parent d ?a" using Cons.prems(2) by (simp add: same_parent_def)
  have "pki_inv (snd (bindS (store_op (update_authority_row ?a)) (\<lambda>_. refresh_authorities E (n + 1) as) d))"
  proof (rule inv_step)
    show "pki_inv (snd (store_op (update_authority_row ?a) d))"
      using Cons.prems(1) sa by (simp add: inv_update_authority)
    fix x d' assume u: "store_op (update_authority_row ?a) d = (Inr x, d')" and inv: "pki_inv d'"
    have "\<forall>b \<in> set as. same_parent d' b"
      using u same_parent_update [OF pki_invD(1) [OF Cons.prems(1)] sa] Cons.prems(2)
      by (metis list.set_intros(2) snd_conv snd_store_op)
    with inv show "pki_inv (snd (refresh_authorities E (n + 1) as d'))" by (rule Cons.IH)
  qed
  then show ?case using Cons by (simp add: Let_def)
qed simp

lemma inv_refresh_authority_statuses: "pki_inv d \<Longrightarrow> pki_inv (snd (refresh_authority_statuses E d))"
  unfolding refresh_authority_statuses_def
  by (intro pki_steps inv_refresh_authorities) (auto simp: all_authorities_def intro: same_parent_fields)

text \<open>Forced or not, a deletion leaves the remaining rows in agreement.\<close>

lemma transaction_snd:
  "P d \<Longrightarrow> (\<And>x d'. m d = (Inr x, d') \<Longrightarrow> P d') \<Longrightarrow> P (snd (transaction m d))"
  by (cases "m d"; cases "fst (m d)") (auto simp: transaction_def)

lemma stmt_Inr: "stmt f d = (Inr x, d') \<longleftrightarrow> fk_ok (f d) \<and> d' = f d"
  by (auto simp: stmt_def)

definition without_authority :: "string \<Rightarrow> bool \<Rightarrow> db \<Rightarrow> db" where
  "without_authority j force d =
     (if force
      then db_authorities_update (filter (\<lambda>a. au_id a \<noteq> j \<and> au_parent a \<noteq> Some j))
             (db_certificates_update (filter (\<lambda>c. cr_authority c \<noteq> j))
               (db_revocations_update (filter (\<lambda>r. rv_authority r \<noteq> j)) d))
      else db_authorities_update (filter (\<lambda>a. au_id a \<noteq> j)) d)"

lemma delete_authority_row_cases:
  "snd (delete_authority_row j force d) = d \<or>
   snd (delete_authority_row j force d) = without_authority j force d \<and> fk_ok (without_authority j force d)"
proof -
  let ?Q = "\<lambda>e. e = d \<or> e = without_authority j force d \<and> fk_ok e"
  have "?Q (snd (delete_authority_row j force d))"
    unfolding delete_authority_row_def
  proof (rule inv_bind_reads [where I = ?Q])
    fix x
    show "?Q (snd (transaction
       (bindS (whenS force
          (bindS (stmt (db_revocations_update (filter (\<lambda>r. rv_authority r \<noteq> j)))) (\<lambda>_.
           bindS (stmt (db_certificates_update (filter (\<lambda>c. cr_authority c \<noteq> j)))) (\<lambda>_.
             stmt (db_authorities_update (filter (\<lambda>a. au_parent a \<noteq> Some j))))))) (\<lambda>_.
          stmt (db_authorities_update (filter (\<lambda>a. au_id a \<noteq> j))))) d))"
      by (rule transaction_snd; cases force)
         (auto simp: bindS_Inr_iff stmt_Inr comp_def without_authority_def conj_commute)
  qed (simp_all add: whenS_def reads_bindS)
  then show ?thesis by auto
qed

lemma inv_delete_authority:
  assumes "pki_inv d"
  shows "pki_inv (snd (delete_authority i force d))"
proof -
  have o: "ordered d" and db: "db_ok d" and s: "synced d" using assms by (simp_all add: pki_inv_def)
  have "pki_inv (snd (delete_authority_row j force d))" for j
  proof (cases "snd (delete_authority_row j force d) = d")
    case False
    then have e: "snd (delete_authority_row j force d) = without_authority j force d"
      and fk: "fk_ok (without_authority j force d)"
      using delete_authority_row_cases [of j force d] by auto
    have "db_ok (without_authority j force d)" using db keepsD [OF keeps_deletes(1) db, of j force] e by simp
    moreover have "ordered (without_authority j force d)"
      by (rule ordered_filter [OF o db _ fk, where p = "\<lambda>a. au_id a \<noteq> j \<and> (force \<longrightarrow> au_parent a \<noteq> Some j)"])
         (simp add: without_authority_def)
    moreover have "synced (without_authority j force d)"
    proof (cases force)
      case True
      have "synced (db_authorities_update f (db_certificates_update (filter (\<lambda>c. cr_authority c \<noteq> j))
          (db_revocations_update (filter (\<lambda>r. rv_authority r \<noteq> j)) d)))" for f
        using s unfolding synced_def row_synced_def by fastforce
      then show ?thesis using True by (simp add: without_authority_def)
    qed (use s in \<open>simp add: without_authority_def synced_def\<close>)
    ultimately show ?thesis by (simp add: e pki_inv_def)
  qed (use assms in simp)
  then show ?thesis
    unfolding delete_authority_def by (intro pki_steps assms) simp
qed

section \<open>Operations on certificates\<close>

lemma certificate_row_status [simp]: "cr_status (certificate_row E u ca c spec k csr inp from) = StActive"
  by (simp add: certificate_row_def Let_def)

lemma inv_persist_certificate:
  assumes "pki_inv d"
  shows "pki_inv (snd (persist_certificate E u ca c k csr inp from d))"
  unfolding persist_certificate_def Let_def
  by (intro pki_steps pki_step assms) (simp add: inv_create_certificate assms on_crl_def)

lemma inv_issue_certificate: "pki_inv d \<Longrightarrow> pki_inv (snd (issue_certificate E R inp d))"
  unfolding issue_certificate_def Let_def
  by (intro pki_steps pki_step inv_persist_certificate)

lemma inv_sign_csr_certificate: "pki_inv d \<Longrightarrow> pki_inv (snd (sign_csr_certificate E R inp d))"
  unfolding sign_csr_certificate_def Let_def
  by (intro pki_steps pki_step inv_persist_certificate)

lemma inv_renew_certificate: "pki_inv d \<Longrightarrow> pki_inv (snd (renew_certificate E R i inp d))"
  unfolding renew_certificate_def Let_def
  by (intro pki_steps pki_step inv_bind_reads [where I = pki_inv] reads_intros reads_basic
      inv_persist_certificate) (auto intro!: inv_update_fields)

lemma get_certificate_in: "get_certificate i d = Inr c \<Longrightarrow> c \<in> set (db_certificates d) \<and> cr_id c = i"
  by (auto simp: get_certificate_def dest: tbl_get_InrD)

lemma inv_update_certificate_svc: "pki_inv d \<Longrightarrow> pki_inv (snd (update_certificate i inp d))"
  unfolding update_certificate_def Let_def
  by (intro pki_steps pki_step)
     (auto intro!: inv_update_certificate same_row_fields dest: get_certificate_in)

lemma inv_authorize_key_download: "pki_inv d \<Longrightarrow> pki_inv (snd (authorize_key_download E c d))"
  unfolding authorize_key_download_def
  by (intro pki_steps) (auto intro!: inv_update_fields)

lemma derive_status_on_crl: "\<not> on_crl (cr_status c) \<Longrightarrow> \<not> on_crl (derive_status now w c)"
  by (auto simp: derive_status_def on_crl_def)

lemma derive_status_fixed: "on_crl (cr_status c) \<Longrightarrow> derive_status now w c = cr_status c"
  by (auto simp: derive_status_def on_crl_def)

lemma inv_refresh_rows:
  "pki_inv d \<Longrightarrow> \<forall>c \<in> set cs. on_crl (cr_status c) \<or> (\<forall>r \<in> set (db_revocations d). rv_certificate r \<noteq> cr_id c) \<Longrightarrow>
   pki_inv (snd (refresh_rows E n cs d))"
proof (induction cs arbitrary: n d)
  case (Cons c cs)
  let ?w = "derive_status (se_now E) (cfg_warn_days E) c"
  let ?u = "update_certificate_fields (cr_id c) (cr_status_update (\<lambda>_. ?w))"
  show ?case
  proof (cases "cr_status c = ?w")
    case False
    then have n: "\<not> on_crl (cr_status c)" by (metis derive_status_fixed)
    have "pki_inv (snd (bindS (store_op ?u) (\<lambda>_. refresh_rows E (n + 1) cs) d))"
    proof (rule inv_step)
      show "pki_inv (snd (store_op ?u d))"
        using Cons.prems n by (simp add: inv_update_fields derive_status_on_crl)
      fix x d' assume u: "store_op ?u d = (Inr x, d')" and inv: "pki_inv d'"
      have "db_revocations d' = db_revocations d"
        using u by (auto simp: update_certificate_fields_def split: if_splits)
      then show "pki_inv (snd (refresh_rows E (n + 1) cs d'))"
        using Cons.prems(2) by (intro Cons.IH inv) simp
    qed
    then show ?thesis using False by (simp add: Let_def)
  qed (use Cons in simp)
qed simp

lemma inv_refresh_certificate_statuses: "pki_inv d \<Longrightarrow> pki_inv (snd (refresh_certificate_statuses E d))"
  unfolding refresh_certificate_statuses_def
  by (intro pki_steps inv_refresh_rows)
     (auto simp: expiring_before_def pki_inv_def synced_def row_synced_def)

definition without_certificate :: "string \<Rightarrow> db \<Rightarrow> db" where
  "without_certificate i = db_certificates_update (filter (\<lambda>c. cr_id c \<noteq> i)) \<circ>
     db_revocations_update (filter (\<lambda>r. rv_certificate r \<noteq> i))"

lemma delete_certificate_row_cases:
  "snd (delete_certificate_row i d) = d \<or> snd (delete_certificate_row i d) = without_certificate i d"
  unfolding delete_certificate_row_def
  by (rule transaction_snd) (auto simp: bindS_Inr_iff stmt_Inr without_certificate_def)

lemma inv_delete_certificate:
  assumes "pki_inv d"
  shows "pki_inv (snd (delete_certificate i d))"
proof -
  have "pki_inv (snd (delete_certificate_row i d))"
  proof (cases "snd (delete_certificate_row i d) = d")
    case False
    then have e: "snd (delete_certificate_row i d) = without_certificate i d"
      using delete_certificate_row_cases [of i d] by simp
    have "db_ok (without_certificate i d)"
      using assms keepsD [OF keeps_deletes(2), of d i] e by (simp add: pki_inv_def)
    moreover have "ordered (without_certificate i d) \<and> synced (without_certificate i d)"
      using assms by (auto simp: pki_inv_def ordered_def synced_def row_synced_def without_certificate_def)
    ultimately show ?thesis by (simp add: e pki_inv_def)
  qed (use assms in simp)
  then show ?thesis unfolding delete_certificate_def by (intro pki_steps assms) simp
qed

section \<open>Revoking and releasing\<close>

text \<open>What the three writes of a revocation do to a database in order.\<close>

lemma delete_revocation_ok:
  assumes "db_ok d" "r \<in> set (db_revocations d)"
  shows "delete_revocation_row (rv_id r) d = (Inr (), db_revocations_update (filter (\<lambda>x. rv_id x \<noteq> rv_id r)) d)"
proof -
  have "tbl_has rv_id (rv_id r) (db_revocations d)" using assms(2) by (simp add: tbl_has_iff)
  moreover have "fk_ok (db_revocations_update (filter (\<lambda>x. rv_id x \<noteq> rv_id r)) d)"
    using assms(1) unfolding db_ok_def fk_ok_iff by simp
  ultimately show ?thesis by (simp add: delete_revocation_row_def stmt_def)
qed

lemma create_revocation_ok:
  assumes "rv_id r \<notin> rv_id ` set (db_revocations d)" "c \<in> set (db_certificates d)" "rv_certificate r = cr_id c"
    "\<forall>x \<in> set (db_revocations d). rv_certificate x \<noteq> cr_id c"
  shows "create_revocation_row r d = (Inr (), db_revocations_update (\<lambda>rs. rs @ [r]) d)"
proof -
  have "revocation_clash d r = None"
    using assms by (simp add: revocation_clash_None)
  then show ?thesis
    using assms(1) by (simp add: create_revocation_row_def repo_create_def tbl_has_iff)
qed

lemma update_certificate_ok:
  assumes "db_ok d" "x \<in> set (db_certificates d)" "cr_id c = cr_id x" "cr_authority c = cr_authority x"
    "cr_serial c = cr_serial x"
  shows "update_certificate_row c d = (Inr (), db_certificates_update (tbl_put cr_id c) d)"
proof -
  have "y = x" if "y \<in> set (db_certificates d)" "(cr_authority y, cr_serial y) = (cr_authority x, cr_serial x)" for y
    using db_okD(4) [OF assms(1)] that assms(2) by (auto simp: distinct_map inj_on_def)
  then have "certificate_clash d c = None"
    using assms db_okD(8) [OF assms(1,2)] by (auto simp: certificate_clash_None)
  then show ?thesis by (simp add: update_certificate_row_def repo_save_def)
qed

text \<open>Everything agrees but the certificate \<open>i\<close>, which has no revocation left.\<close>

definition synced_except :: "string \<Rightarrow> db \<Rightarrow> bool" where
  "synced_except i d \<longleftrightarrow> db_ok d \<and> ordered d \<and>
     (\<forall>c \<in> set (db_certificates d). cr_id c \<noteq> i \<longrightarrow> row_synced (db_revocations d) c) \<and>
     (\<forall>r \<in> set (db_revocations d). rv_certificate r \<noteq> i)"

lemma drop_revocation_synced:
  assumes "pki_inv d" "r \<in> set (db_revocations d)"
  shows "synced_except (rv_certificate r) (db_revocations_update (filter (\<lambda>x. rv_id x \<noteq> rv_id r)) d)"
proof -
  let ?d = "db_revocations_update (filter (\<lambda>x. rv_id x \<noteq> rv_id r)) d"
  have ok: "db_ok d" using assms(1) by (rule pki_invD)
  have "db_ok ?d"
    using keepsD [OF keeps_deletes(3) ok, of "rv_id r"] delete_revocation_ok [OF ok assms(2)] by simp
  moreover have uniq: "x = r" if "x \<in> set (db_revocations d)" "rv_certificate x = rv_certificate r \<or> rv_id x = rv_id r" for x
    using db_okD(5,6) [OF ok] that assms(2) by (auto simp: distinct_map inj_on_def)
  moreover have "row_synced (db_revocations ?d) c"
    if "c \<in> set (db_certificates d)" "cr_id c \<noteq> rv_certificate r" for c
  proof -
    have "row_synced (db_revocations d) c" using assms(1) that(1) by (simp add: pki_inv_def synced_def)
    moreover have "(x \<in> set (db_revocations ?d) \<and> rv_certificate x = cr_id c) \<longleftrightarrow>
        (x \<in> set (db_revocations d) \<and> rv_certificate x = cr_id c)" for x
      using uniq [of x] that(2) by auto
    ultimately show ?thesis unfolding row_synced_def by metis
  qed
  ultimately show ?thesis
    using assms(1) by (auto simp: synced_except_def pki_inv_def ordered_def)
qed

lemma synced_put:
  assumes "\<forall>x \<in> set (db_certificates d). cr_id x \<noteq> cr_id c \<longrightarrow> row_synced (db_revocations d) x"
    "row_synced (db_revocations d) c"
  shows "synced (db_certificates_update (tbl_put cr_id c) d)"
  using assms by (auto simp: synced_def set_tbl_put)

lemma set_status_synced:
  assumes "synced_except (cr_id c) d" "c \<in> set (db_certificates d)" "\<not> on_crl s"
  shows "pki_inv (db_certificates_update (tbl_put cr_id (c\<lparr>cr_status := s\<rparr>)) d)"
proof -
  let ?c = "c\<lparr>cr_status := s\<rparr>"
  let ?d = "db_certificates_update (tbl_put cr_id ?c) d"
  have ok: "db_ok d" and ord: "ordered d" using assms(1) by (simp_all add: synced_except_def)
  have "db_ok ?d"
    using keepsD [OF keeps_update_certificate ok, of ?c] update_certificate_ok [OF ok assms(2), of ?c] by simp
  moreover have "synced ?d"
  proof (rule synced_put)
    show "\<forall>x \<in> set (db_certificates d). cr_id x \<noteq> cr_id ?c \<longrightarrow> row_synced (db_revocations d) x"
      using assms(1) by (simp add: synced_except_def)
    show "row_synced (db_revocations d) ?c"
      using assms(1,3) by (simp add: synced_except_def row_synced_def)
  qed
  ultimately show ?thesis using ord by (simp add: pki_inv_def ordered_def)
qed

lemma record_revocation_synced:
  assumes "synced_except (cr_id c) d" "c \<in> set (db_certificates d)"
    "rv_id r \<notin> rv_id ` set (db_revocations d)" "rv_certificate r = cr_id c"
    "rv_authority r = cr_authority c" "rv_serial r = cr_serial c"
    "s = (if rv_reason_code r = reason_certificate_hold then StHeld else StRevoked)"
  shows "pki_inv (db_certificates_update (tbl_put cr_id (c\<lparr>cr_status := s\<rparr>))
      (db_revocations_update (\<lambda>rs. rs @ [r]) d))"
proof -
  let ?c = "c\<lparr>cr_status := s\<rparr>" and ?d = "db_revocations_update (\<lambda>rs. rs @ [r]) d"
  let ?e = "db_certificates_update (tbl_put cr_id ?c) ?d"
  have ok: "db_ok d" and ord: "ordered d" using assms(1) by (simp_all add: synced_except_def)
  have none: "\<forall>x \<in> set (db_revocations d). rv_certificate x \<noteq> cr_id c"
    using assms(1) by (simp add: synced_except_def)
  have "create_revocation_row r d = (Inr (), ?d)"
    using assms(2,3,4) none by (intro create_revocation_ok)
  then have ok': "db_ok ?d" using keepsD [OF keeps_create_revocation ok, of r] by simp
  have "db_ok ?e"
    using keepsD [OF keeps_update_certificate ok', of ?c] update_certificate_ok [OF ok', of c ?c] assms(2) by simp
  moreover have "synced ?e"
  proof (rule synced_put)
    show "\<forall>x \<in> set (db_certificates ?d). cr_id x \<noteq> cr_id ?c \<longrightarrow> row_synced (db_revocations ?d) x"
      using assms(1,4) by (simp add: synced_except_def row_synced_def)
    show "row_synced (db_revocations ?d) ?c"
      using none assms(4-7) by (simp add: row_synced_def on_crl_def)
  qed
  ultimately show ?thesis using ord by (simp add: pki_inv_def ordered_def)
qed

definition forget_revocations :: "string \<Rightarrow> db \<Rightarrow> db" where
  "forget_revocations i = db_revocations_update (filter (\<lambda>r. rv_certificate r \<noteq> i))"

lemma forget_none: "\<forall>r \<in> set (db_revocations d). rv_certificate r \<noteq> i \<Longrightarrow> forget_revocations i d = d"
  by (cases d) (simp add: forget_revocations_def)

lemma forget_one:
  assumes "db_ok d" "r \<in> set (db_revocations d)"
  shows "db_revocations_update (filter (\<lambda>x. rv_id x \<noteq> rv_id r)) d = forget_revocations (rv_certificate r) d"
proof -
  have "rv_id x \<noteq> rv_id r \<longleftrightarrow> rv_certificate x \<noteq> rv_certificate r" if "x \<in> set (db_revocations d)" for x
    using db_okD(5,6) [OF assms(1)] that assms(2) by (auto simp: distinct_map inj_on_def)
  then have "filter (\<lambda>x. rv_id x \<noteq> rv_id r) (db_revocations d) =
      filter (\<lambda>x. rv_certificate x \<noteq> rv_certificate r) (db_revocations d)"
    by (simp cong: filter_cong)
  then show ?thesis by (simp add: forget_revocations_def)
qed

lemma held_revocation:
  assumes "pki_inv d" "c \<in> set (db_certificates d)" "on_crl (cr_status c)"
  obtains r where "r \<in> set (db_revocations d)" "rv_certificate r = cr_id c"
    "rv_authority r = cr_authority c" "rv_serial r = cr_serial c"
    "cr_status c = StHeld \<longleftrightarrow> rv_reason_code r = reason_certificate_hold"
    "revocation_by_certificate (cr_id c) d = Inr r"
  using assms by (auto simp: pki_inv_def synced_def row_synced_def revocation_by_certificate_iff)

lemma clear_hold:
  assumes "pki_inv d" "c \<in> set (db_certificates d)" "cr_status c \<noteq> StRevoked"
  shows "whenS (cr_status c = StHeld) (drop_hold c) d = (Inr (), forget_revocations (cr_id c) d)"
    and "synced_except (cr_id c) (forget_revocations (cr_id c) d)"
proof -
  have ok: "db_ok d" using assms(1) by (rule pki_invD)
  have "whenS (cr_status c = StHeld) (drop_hold c) d = (Inr (), forget_revocations (cr_id c) d) \<and>
    synced_except (cr_id c) (forget_revocations (cr_id c) d)"
  proof (cases "cr_status c = StHeld")
    case True
    then obtain r where r: "r \<in> set (db_revocations d)" "rv_certificate r = cr_id c"
      "revocation_by_certificate (cr_id c) d = Inr r"
      using held_revocation [OF assms(1,2)] by (auto simp: on_crl_def)
    then have "drop_hold c d = (Inr (), forget_revocations (cr_id c) d)"
      using delete_revocation_ok [OF ok r(1)] forget_one [OF ok r(1)] by (simp add: drop_hold_def bindS_def)
    then show ?thesis
      using True drop_revocation_synced [OF assms(1) r(1)] forget_one [OF ok r(1)] r(2) by simp
  next
    case False
    then have "\<forall>r \<in> set (db_revocations d). rv_certificate r \<noteq> cr_id c"
      using assms by (auto simp: pki_inv_def synced_def row_synced_def on_crl_def)
    then show ?thesis
      using False assms(1) by (simp add: forget_none synced_except_def pki_inv_def synced_def)
  qed
  then show "whenS (cr_status c = StHeld) (drop_hold c) d = (Inr (), forget_revocations (cr_id c) d)"
    "synced_except (cr_id c) (forget_revocations (cr_id c) d)" by simp_all
qed

text \<open>What a revocation and a release write before a new CRL is published.\<close>

definition revoked_db :: "svc_env \<Rightarrow> draws \<Rightarrow> string \<Rightarrow> certificate \<Rightarrow> int \<Rightarrow> db \<Rightarrow> db" where
  "revoked_db E R actor c reason d =
     db_certificates_update (tbl_put cr_id (c\<lparr>cr_status :=
         (if reason = reason_certificate_hold then StHeld else StRevoked)\<rparr>))
       (db_revocations_update (\<lambda>rs. rs @ [revocation_row E (dr_uuid R) actor c reason])
         (forget_revocations (cr_id c) d))"

definition released :: "svc_env \<Rightarrow> certificate \<Rightarrow> certificate" where
  "released E c = c\<lparr>cr_status := derive_status (se_now E) (cfg_warn_days E) (c\<lparr>cr_status := StActive\<rparr>)\<rparr>"

definition released_db :: "svc_env \<Rightarrow> certificate \<Rightarrow> db \<Rightarrow> db" where
  "released_db E c d = db_certificates_update (tbl_put cr_id (released E c)) (forget_revocations (cr_id c) d)"

definition publish_after :: "svc_env \<Rightarrow> authority \<Rightarrow> string \<Rightarrow> bool \<Rightarrow> unit svc" where
  "publish_after E a p go = whenS (go \<and> (\<not> au_passphrase_protected a \<or> p \<noteq> []))
     (ignoreS (publish_crl E (au_id a) p))"

lemma publish_after_bind:
  "bindS (whenS (go \<and> (\<not> au_passphrase_protected a \<or> p \<noteq> [])) (ignoreS (publish_crl E (au_id a) p)))
     (\<lambda>_. returnS x) d = (Inr x, snd (publish_after E a p go d))"
  "bindS (whenS (\<not> au_passphrase_protected a \<or> p \<noteq> []) (ignoreS (publish_crl E (au_id a) p)))
     (\<lambda>_. returnS y) d = (Inr y, snd (publish_after E a p True d))"
  by (auto simp: publish_after_def whenS_def bindS_def)

lemma inv_revoked_db:
  assumes "pki_inv d" "c \<in> set (db_certificates d)" "cr_status c \<noteq> StRevoked"
    "dr_uuid R \<notin> rv_id ` set (db_revocations d)"
  shows "pki_inv (revoked_db E R actor c reason d)"
  unfolding revoked_db_def
  by (rule record_revocation_synced [OF clear_hold(2) [OF assms(1-3)]])
     (use assms in \<open>auto simp: forget_revocations_def revocation_row_def\<close>)

lemma revoke_certificate_run:
  assumes inv: "pki_inv d" and c: "get_with_authority i d = Inr (c, a)" "cr_status c \<noteq> StRevoked"
    and reason: "validate_revocation_reason (ki_reason inp) = Inr ()"
    and fresh: "dr_uuid R \<notin> rv_id ` set (db_revocations d)"
  shows "revoke_certificate E R actor i inp d =
    (Inr (revocation_row E (dr_uuid R) actor c (ki_reason inp)),
     snd (publish_after E a (ki_passphrase inp) (\<not> ki_skip_crl inp) (revoked_db E R actor c (ki_reason inp) d)))"
proof -
  let ?r = "revocation_row E (dr_uuid R) actor c (ki_reason inp)"
  let ?s = "if ki_reason inp = reason_certificate_hold then StHeld else StRevoked"
  let ?d1 = "forget_revocations (cr_id c) d"
  let ?d2 = "db_revocations_update (\<lambda>rs. rs @ [?r]) ?d1"
  have ok: "db_ok d" using inv by (rule pki_invD)
  have mem: "c \<in> set (db_certificates d)" using c(1) ok by (simp add: get_with_authority_iff)
  note clear = clear_hold [OF inv mem c(2)]
  have ok1: "db_ok ?d1" using clear(2) by (simp add: synced_except_def)
  have mk: "create_revocation_row ?r ?d1 = (Inr (), ?d2)"
    by (rule create_revocation_ok) (use mem fresh in \<open>auto simp: forget_revocations_def revocation_row_def\<close>)
  have ok2: "db_ok ?d2" using keepsD [OF keeps_create_revocation ok1, of ?r] mk by simp
  have up: "update_certificate_row (c\<lparr>cr_status := ?s\<rparr>) ?d2 =
      (Inr (), revoked_db E R actor c (ki_reason inp) d)"
    unfolding revoked_db_def
    by (rule update_certificate_ok [OF ok2, of c]) (use mem in \<open>auto simp: forget_revocations_def\<close>)
  have "store_read (get_with_authority i) d = (Inr (c, a), d)" using c(1) by simp
  moreover have "store_op (create_revocation_row ?r) ?d1 = (Inr (), ?d2)" using mk by simp
  moreover have "store_op (update_certificate_row (c\<lparr>cr_status := ?s\<rparr>)) ?d2 =
      (Inr (), revoked_db E R actor c (ki_reason inp) d)" using up by simp
  ultimately show ?thesis
    using c(2) reason clear(1)
    unfolding revoke_certificate_def Let_def by (simp add: bindS_eval publish_after_bind del: disj_not1)
qed

lemma inv_publish_after: "pki_inv d \<Longrightarrow> pki_inv (snd (publish_after E a p go d))"
  unfolding publish_after_def whenS_def using inv_publish_crl [of d E "au_id a" p] by simp

lemma inv_revoke_certificate:
  assumes "pki_inv d" "dr_uuid R \<notin> rv_id ` set (db_revocations d)"
  shows "pki_inv (snd (revoke_certificate E R actor i inp d))"
proof (cases "validate_revocation_reason (ki_reason inp) = Inr () \<and> (\<exists>c a. get_with_authority i d = Inr (c, a) \<and> cr_status c \<noteq> StRevoked)")
  case True
  then obtain c a where ca: "get_with_authority i d = Inr (c, a)" "cr_status c \<noteq> StRevoked"
    and reason: "validate_revocation_reason (ki_reason inp) = Inr ()" by blast
  have "c \<in> set (db_certificates d)"
    using ca(1) pki_invD(1) [OF assms(1)] by (simp add: get_with_authority_iff)
  then show ?thesis
    using revoke_certificate_run [OF assms(1) ca reason assms(2)] inv_publish_after
      inv_revoked_db [OF assms(1) _ ca(2) assms(2)] by simp
next
  case False
  then show ?thesis
    unfolding revoke_certificate_def
    by (intro inv_bind_read(2) [where I = pki_inv] inv_bind_store_read [where I = pki_inv] assms(1))
       (auto simp: assms(1))
qed

lemma released_fields [simp]:
  "cr_id (released E c) = cr_id c" "cr_authority (released E c) = cr_authority c"
  "cr_serial (released E c) = cr_serial c" "\<not> on_crl (cr_status (released E c))"
  by (simp_all add: released_def derive_status_def on_crl_def)

lemma release_hold_run:
  assumes inv: "pki_inv d" and c: "get_with_authority i d = Inr (c, a)" "cr_status c = StHeld"
  shows "release_hold E i p d = (Inr (released E c), snd (publish_after E a p True (released_db E c d)))"
    and "pki_inv (released_db E c d)"
proof -
  have ok: "db_ok d" using inv by (rule pki_invD)
  have mem: "c \<in> set (db_certificates d)" using c(1) ok by (simp add: get_with_authority_iff)
  have sx: "synced_except (cr_id c) (forget_revocations (cr_id c) d)" using clear_hold(2) [OF inv mem] c(2) by simp
  obtain r where r: "r \<in> set (db_revocations d)" "rv_certificate r = cr_id c"
    "revocation_by_certificate (cr_id c) d = Inr r"
    using held_revocation [OF inv mem] c(2) by (auto simp: on_crl_def)
  have "delete_revocation_row (rv_id r) d = (Inr (), forget_revocations (cr_id c) d)"
    using delete_revocation_ok [OF ok r(1)] forget_one [OF ok r(1)] r(2) by simp
  moreover have "update_certificate_row (released E c) (forget_revocations (cr_id c) d) = (Inr (), released_db E c d)"
    unfolding released_db_def
    by (rule update_certificate_ok [of _ c]) (use sx mem in \<open>simp_all add: synced_except_def forget_revocations_def\<close>)
  moreover have "store_read (get_with_authority i) d = (Inr (c, a), d)"
    "store_read (revocation_by_certificate (cr_id c)) d = (Inr r, d)" using c(1) r(3) by simp_all
  ultimately show "release_hold E i p d = (Inr (released E c), snd (publish_after E a p True (released_db E c d)))"
    using c(2) released_def [of E c]
    unfolding release_hold_def Let_def by (simp add: bindS_eval publish_after_bind del: disj_not1)
  show "pki_inv (released_db E c d)"
    using set_status_synced [OF sx, of "cr_status (released E c)"] mem released_fields(4) [of E c]
    by (simp add: released_db_def released_def forget_revocations_def)
qed

lemma inv_release_hold:
  assumes "pki_inv d"
  shows "pki_inv (snd (release_hold E i p d))"
proof (cases "\<exists>c a. get_with_authority i d = Inr (c, a) \<and> cr_status c = StHeld")
  case True
  then show ?thesis using release_hold_run [OF assms] inv_publish_after by fastforce
next
  case False
  then show ?thesis
    using assms unfolding release_hold_def
    by (intro inv_bind_store_read [where I = pki_inv]) auto
qed

end
