(* ===== verification/SvcReach.thy ===== *)
theory SvcReach
  imports SvcInv
begin

text \<open>
  The PKI service as a state machine: a step is one call of a service method, with any
  arguments, at any time, with any configuration and any random draws whose identifiers are
  fresh.  Reachable databases satisfy the invariant; revocations are final; what was issued
  never changes.
\<close>

section \<open>Steps\<close>

text \<open>Each rule is one exported method of \<open>AuthorityService\<close> or \<open>CertificateService\<close>.\<close>

inductive pki_step :: "svc_env \<Rightarrow> db \<Rightarrow> db \<Rightarrow> bool" for E :: svc_env where
  step_create_authority: "pki_step E d (snd (create_authority E R ain d))"
| step_import_authority: "pki_step E d (snd (import_authority E R imp d))"
| step_update_authority: "pki_step E d (snd (update_authority i uin d))"
| step_renew_authority: "pki_step E d (snd (renew_authority E R i rin d))"
| step_delete_authority: "pki_step E d (snd (delete_authority i force d))"
| step_publish_crl: "pki_step E d (snd (publish_crl E i p d))"
| step_crl_for: "pki_step E d (snd (crl_for E i d))"
| step_refresh_authorities: "pki_step E d (snd (refresh_authority_statuses E d))"
| step_issue: "pki_step E d (snd (issue_certificate E R iin d))"
| step_sign_csr: "pki_step E d (snd (sign_csr_certificate E R sin d))"
| step_renew: "pki_step E d (snd (renew_certificate E R i nin d))"
| step_revoke: "dr_uuid R \<notin> rv_id ` set (db_revocations d) \<Longrightarrow>
    pki_step E d (snd (revoke_certificate E R actor i kin d))"
| step_release: "pki_step E d (snd (release_hold E i p d))"
| step_update: "pki_step E d (snd (update_certificate i vin d))"
| step_download: "pki_step E d (snd (authorize_key_download E c d))"
| step_refresh: "pki_step E d (snd (refresh_certificate_statuses E d))"
| step_delete: "pki_step E d (snd (delete_certificate i d))"

inductive reachable :: "db \<Rightarrow> bool" where
  reachable_start: "reachable empty_db"
| reachable_step: "reachable d \<Longrightarrow> pki_step E d d' \<Longrightarrow> reachable d'"

inductive_cases pki_stepE: "pki_step E d d'"

lemmas inv_operations =
  inv_create_authority_svc inv_import_authority inv_update_authority_svc inv_renew_authority
  inv_delete_authority inv_publish_crl inv_crl_for inv_refresh_authority_statuses
  inv_issue_certificate inv_sign_csr_certificate inv_renew_certificate inv_revoke_certificate
  inv_release_hold inv_update_certificate_svc inv_authorize_key_download
  inv_refresh_certificate_statuses inv_delete_certificate

lemma pki_step_inv: "pki_step E d d' \<Longrightarrow> pki_inv d \<Longrightarrow> pki_inv d'"
  by (induction rule: pki_step.induct) (simp_all add: inv_operations)

lemma reachable_inv: "reachable d \<Longrightarrow> pki_inv d"
  by (induction rule: reachable.induct) (simp_all add: pki_inv_empty pki_step_inv)

section \<open>Revocations are final\<close>

text \<open>Only revoking, releasing and deleting touch the revocations table.\<close>

definition revs_are :: "revocation list \<Rightarrow> db \<Rightarrow> bool" where
  "revs_are rs d \<longleftrightarrow> db_revocations d = rs"

lemma keeps_revs_rows [keeps_intros]:
  "keeps (revs_are rs) (create_authority_row a)" "keeps (revs_are rs) (update_authority_row a)"
  "keeps (revs_are rs) (create_certificate_row c)" "keeps (revs_are rs) (update_certificate_row c)"
  "keeps (revs_are rs) (update_certificate_fields i f)"
  unfolding create_authority_row_def update_authority_row_def create_certificate_row_def update_certificate_row_def
  by (auto simp: keeps_def revs_are_def repo_create_def repo_save_def update_certificate_fields_def split: option.split)

lemma keeps_revs_persist [keeps_intros]:
  "keeps (revs_are rs) (persist_authority E u ca ain slug ty p spec)"
  "keeps (revs_are rs) (persist_certificate E u a c k csr iin from)"
  unfolding persist_authority_def persist_certificate_def Let_def by (intro keeps_intros keeps_basic)+

lemma keeps_revs_authority [keeps_intros]:
  "keeps (revs_are rs) (create_authority E R ain)" "keeps (revs_are rs) (import_authority E R imp)"
  "keeps (revs_are rs) (update_authority i uin)" "keeps (revs_are rs) (renew_authority E R i rin)"
  "keeps (revs_are rs) (publish_crl E i p)"
  unfolding create_authority_def import_authority_def update_authority_def renew_authority_def publish_crl_def Let_def
  by (intro keeps_intros keeps_basic)+

lemma keeps_revs_crl_for [keeps_intros]: "keeps (revs_are rs) (crl_for E i)"
  unfolding crl_for_def by (intro keeps_intros keeps_basic)+

lemma keeps_revs_certificate [keeps_intros]:
  "keeps (revs_are rs) (issue_certificate E R iin)" "keeps (revs_are rs) (sign_csr_certificate E R sin)"
  "keeps (revs_are rs) (renew_certificate E R i nin)" "keeps (revs_are rs) (update_certificate i vin)"
  "keeps (revs_are rs) (authorize_key_download E c)"
  unfolding issue_certificate_def sign_csr_certificate_def renew_certificate_def update_certificate_def
    authorize_key_download_def Let_def
  by (intro keeps_intros keeps_basic)+

lemma keeps_revs_refresh:
  "keeps (revs_are rs) (refresh_authorities E n as)" "keeps (revs_are rs) (refresh_rows E n cs)"
  by (induction as arbitrary: n; auto simp: Let_def intro!: keeps_intros)
     (induction cs arbitrary: n; auto simp: Let_def intro!: keeps_intros)

lemma keeps_revs_statuses [keeps_intros]:
  "keeps (revs_are rs) (refresh_authority_statuses E)" "keeps (revs_are rs) (refresh_certificate_statuses E)"
  unfolding refresh_authority_statuses_def refresh_certificate_statuses_def
  by (intro keeps_intros keeps_basic keeps_revs_refresh)+

lemma revs_same: "keeps (revs_are (db_revocations d)) m \<Longrightarrow> db_revocations (snd (m d)) = db_revocations d"
  using keepsD [of "revs_are (db_revocations d)" m d] by (simp add: revs_are_def)

lemma publish_after_revs [simp]: "db_revocations (snd (publish_after E a p go d)) = db_revocations d"
  unfolding publish_after_def
  by (rule revs_same) (intro keeps_intros keeps_basic)


text \<open>Writing and forgetting rows leaves a final revocation in place.\<close>

definition final_revocation :: "revocation \<Rightarrow> db \<Rightarrow> bool" where
  "final_revocation r d \<longleftrightarrow> r \<in> set (db_revocations d) \<and> rv_reason_code r \<noteq> reason_certificate_hold"

lemma final_is_revoked:
  assumes "pki_inv d" "final_revocation r d" "c \<in> set (db_certificates d)" "cr_id c = rv_certificate r"
  shows "cr_status c = StRevoked"
  using assms unfolding pki_inv_def synced_def row_synced_def final_revocation_def on_crl_def by metis

lemma revoked_is_final:
  assumes "pki_inv d" "c \<in> set (db_certificates d)" "cr_status c = StRevoked"
  shows "\<exists>r. final_revocation r d \<and> rv_certificate r = cr_id c"
  using assms unfolding pki_inv_def synced_def row_synced_def final_revocation_def on_crl_def by (metis status.distinct)

lemma final_revoke:
  assumes inv: "pki_inv d" and fresh: "dr_uuid R \<notin> rv_id ` set (db_revocations d)" and fin: "final_revocation r d"
  shows "final_revocation r (snd (revoke_certificate E R actor i inp d))"
proof (cases "\<exists>c a. get_with_authority i d = Inr (c, a) \<and> cr_status c \<noteq> StRevoked \<and>
    validate_revocation_reason (ki_reason inp) = Inr ()")
  case True
  then obtain c a where ca: "get_with_authority i d = Inr (c, a)" "cr_status c \<noteq> StRevoked"
    and reason: "validate_revocation_reason (ki_reason inp) = Inr ()" by blast
  have "c \<in> set (db_certificates d)" using ca(1) pki_invD(1) [OF inv] by (simp add: get_with_authority_iff)
  then have "rv_certificate r \<noteq> cr_id c" using final_is_revoked [OF inv fin] ca(2) by metis
  then have "final_revocation r (revoked_db E R actor c (ki_reason inp) d)"
    using fin by (simp add: final_revocation_def revoked_db_def forget_revocations_def)
  then show ?thesis
    using revoke_certificate_run [OF inv ca reason fresh] by (simp add: final_revocation_def)
next
  case False
  then show ?thesis
    unfolding revoke_certificate_def
    by (intro inv_bind_read(2) [where I = "final_revocation r"] inv_bind_store_read [where I = "final_revocation r"] fin)
       (auto simp: fin)
qed

lemma final_release:
  assumes inv: "pki_inv d" and fin: "final_revocation r d"
  shows "final_revocation r (snd (release_hold E i p d))"
proof (cases "\<exists>c a. get_with_authority i d = Inr (c, a) \<and> cr_status c = StHeld")
  case True
  then obtain c a where ca: "get_with_authority i d = Inr (c, a)" "cr_status c = StHeld" by blast
  have "c \<in> set (db_certificates d)" using ca(1) pki_invD(1) [OF inv] by (simp add: get_with_authority_iff)
  then have "rv_certificate r \<noteq> cr_id c" using final_is_revoked [OF inv fin] ca(2) by (metis status.distinct)
  then have "final_revocation r (released_db E c d)"
    using fin by (simp add: final_revocation_def released_db_def forget_revocations_def)
  then show ?thesis using release_hold_run(1) [OF inv ca] by (simp add: final_revocation_def)
next
  case False
  then show ?thesis
    unfolding release_hold_def
    by (intro inv_bind_store_read [where I = "final_revocation r"] fin) (auto simp: fin)
qed

text \<open>A deletion removes the revocation only together with the certificate it revokes.\<close>

definition final_or_gone :: "revocation \<Rightarrow> db \<Rightarrow> bool" where
  "final_or_gone r d \<longleftrightarrow> final_revocation r d \<or> rv_certificate r \<notin> cr_id ` set (db_certificates d)"

lemma final_deletes:
  assumes inv: "pki_inv d" and fin: "final_revocation r d"
  shows "final_or_gone r (snd (delete_certificate i d))" "final_or_gone r (snd (delete_authority i force d))"
proof -
  have g: "final_or_gone r d" using fin by (simp add: final_or_gone_def)
  have "final_or_gone r (without_certificate j d)" for j
    using fin by (auto simp: final_or_gone_def final_revocation_def without_certificate_def)
  then show "final_or_gone r (snd (delete_certificate i d))"
    unfolding delete_certificate_def
    by (intro inv_bind_store_read [where I = "final_or_gone r"] g)
       (metis g snd_store_op delete_certificate_row_cases)
  have "final_or_gone r (without_authority j True d)" for j
  proof (cases "rv_authority r = j")
    case True
    have "cr_authority c = j" if "c \<in> set (db_certificates d)" "cr_id c = rv_certificate r" for c
      using inv fin that True unfolding pki_inv_def synced_def row_synced_def final_revocation_def by metis
    then show ?thesis by (auto simp: final_or_gone_def without_authority_def)
  qed (use fin in \<open>simp add: final_or_gone_def final_revocation_def without_authority_def\<close>)
  moreover have "final_or_gone r (without_authority j False d)" for j
    using fin by (simp add: final_or_gone_def final_revocation_def without_authority_def)
  ultimately have "final_or_gone r (without_authority j force d)" for j by (cases force) simp_all
  then show "final_or_gone r (snd (delete_authority i force d))"
    unfolding delete_authority_def
    by (intro inv_bind_store_read [where I = "final_or_gone r"] g)
       (metis g snd_store_op delete_authority_row_cases)
qed

lemma final_or_goneI:
  "final_revocation r d' \<Longrightarrow> final_or_gone r d'"
  "final_revocation r d \<Longrightarrow> keeps (revs_are (db_revocations d)) m \<Longrightarrow> final_or_gone r (snd (m d))"
  by (simp_all add: final_or_gone_def final_revocation_def revs_same)

lemma pki_step_final:
  assumes "pki_step E d d'" "pki_inv d" "final_revocation r d"
  shows "final_or_gone r d'"
  using assms
  by (induction rule: pki_step.induct)
     (blast intro: final_deletes final_or_goneI final_revoke final_release keeps_revs_authority keeps_revs_crl_for
        keeps_revs_certificate keeps_revs_statuses)+

section \<open>What was issued never changes\<close>

text \<open>The columns of a certificate that no method but its creation writes.\<close>

definition issued_part :: "certificate \<Rightarrow> certificate" where
  "issued_part c = c\<lparr>cr_status := StActive, cr_auto_renew := False, cr_renew_before := 0,
     cr_key_downloads := 0, cr_last_downloaded := None, cr_labels := [], cr_notes := []\<rparr>"

definition carries :: "certificate \<Rightarrow> db \<Rightarrow> bool" where
  "carries v d \<longleftrightarrow> db_ok d \<and> v \<in> issued_part ` set (db_certificates d)"

lemma issued_part_updates [simp]:
  "issued_part (c\<lparr>cr_status := s\<rparr>) = issued_part c"
  "issued_part (cr_status_update g c) = issued_part c"
  "issued_part (cr_auto_renew_update f c) = issued_part c"
  "issued_part (cr_renew_before_update h c) = issued_part c"
  "issued_part (c\<lparr>cr_key_downloads := n, cr_last_downloaded := t\<rparr>) = issued_part c"
  "issued_part (c\<lparr>cr_labels := l, cr_notes := nt\<rparr>) = issued_part c"
  "issued_part (c\<lparr>cr_labels := l, cr_notes := nt, cr_auto_renew := b\<rparr>) = issued_part c"
  by (simp_all add: issued_part_def)

lemma keeps_carriesI:
  assumes "keeps db_ok m" "\<And>d. v \<in> issued_part ` set (db_certificates d) \<Longrightarrow>
    v \<in> issued_part ` set (db_certificates (snd (m d)))"
  shows "keeps (carries v) m"
  using assms by (simp add: keeps_def carries_def)

lemma keeps_carries_rows [keeps_intros]:
  "keeps (carries v) (create_authority_row a)" "keeps (carries v) (update_authority_row a)"
  "keeps (carries v) (create_certificate_row c)" "keeps (carries v) (create_revocation_row r)"
  "keeps (carries v) (delete_revocation_row i)"
proof -
  note defs = create_authority_row_def update_authority_row_def create_certificate_row_def
    create_revocation_row_def delete_revocation_row_def repo_create_def repo_save_def stmt_def
  show "keeps (carries v) (create_authority_row a)"
    by (rule keeps_carriesI, intro keeps_intros) (auto simp: defs split: option.split)
  show "keeps (carries v) (update_authority_row a)"
    by (rule keeps_carriesI, intro keeps_intros) (auto simp: defs split: option.split)
  show "keeps (carries v) (create_certificate_row c)"
    by (rule keeps_carriesI, intro keeps_intros) (auto simp: defs split: option.split)
  show "keeps (carries v) (create_revocation_row r)"
    by (rule keeps_carriesI, intro keeps_intros) (auto simp: defs split: option.split)
  show "keeps (carries v) (delete_revocation_row i)"
    by (rule keeps_carriesI, intro keeps_intros) (auto simp: defs split: option.split)
qed

lemma keeps_carries_fields [keeps_intros]:
  assumes "plain_fields f" "\<And>c. issued_part (f c) = issued_part c"
  shows "keeps (carries v) (update_certificate_fields i f)"
  using assms
  by (intro keeps_carriesI keeps_intros)
     (auto simp: update_certificate_fields_def image_tbl_set)

lemma issued_put:
  assumes "distinct (map cr_id rows)" "x \<in> set rows" "cr_id c = cr_id x" "issued_part c = issued_part x"
    "v \<in> issued_part ` set rows"
  shows "v \<in> issued_part ` set (tbl_put cr_id c rows)"
proof -
  obtain y where y: "y \<in> set rows" "v = issued_part y" using assms(5) by auto
  have "y = x" if "cr_id y = cr_id x"
    using assms(1,2) y(1) that by (auto simp: distinct_map inj_on_def)
  then have "v = issued_part (if cr_id y = cr_id x then c else y)"
    using y(2) assms(4) by auto
  moreover have "(if cr_id y = cr_id x then c else y) \<in> set (tbl_put cr_id c rows)"
    using y(1) assms(3) by (simp add: set_tbl_put)
  ultimately show ?thesis by blast
qed

lemma carries_save:
  assumes "carries v d" "x \<in> set (db_certificates d)" "cr_id c = cr_id x" "issued_part c = issued_part x"
  shows "carries v (snd (update_certificate_row c d))"
proof -
  have ok: "db_ok d" using assms(1) by (simp add: carries_def)
  have "cr_authority c = cr_authority x" "cr_serial c = cr_serial x"
    using arg_cong [OF assms(4), of cr_authority] arg_cong [OF assms(4), of cr_serial] by (simp_all add: issued_part_def)
  then have "update_certificate_row c d = (Inr (), db_certificates_update (tbl_put cr_id c) d)"
    using update_certificate_ok [OF ok assms(2,3)] by simp
  then show ?thesis
    using issued_put [OF db_okD(3) [OF ok] assms(2-4)] assms(1) keepsD [OF keeps_update_certificate ok, of c]
    by (simp add: carries_def)
qed

lemma keeps_carries_persist [keeps_intros]:
  "keeps (carries v) (persist_authority E u ca ain slug ty p spec)"
  "keeps (carries v) (persist_certificate E u a c k csr iin from)"
  unfolding persist_authority_def persist_certificate_def Let_def by (intro keeps_intros keeps_basic)+

lemma keeps_carries_authority [keeps_intros]:
  "keeps (carries v) (create_authority E R ain)" "keeps (carries v) (import_authority E R imp)"
  "keeps (carries v) (update_authority i uin)" "keeps (carries v) (renew_authority E R i rin)"
  "keeps (carries v) (publish_crl E i p)"
  unfolding create_authority_def import_authority_def update_authority_def renew_authority_def publish_crl_def Let_def
  by (intro keeps_intros keeps_basic)+

lemma keeps_carries_crl_for [keeps_intros]: "keeps (carries v) (crl_for E i)"
  unfolding crl_for_def by (intro keeps_intros keeps_basic)+

lemma keeps_carries_certificate [keeps_intros]:
  "keeps (carries v) (issue_certificate E R iin)" "keeps (carries v) (sign_csr_certificate E R sin)"
  "keeps (carries v) (renew_certificate E R i nin)" "keeps (carries v) (authorize_key_download E c)"
  unfolding issue_certificate_def sign_csr_certificate_def renew_certificate_def
    authorize_key_download_def Let_def
  by (intro keeps_intros keeps_basic plain_fields_updates issued_part_updates)+

lemma keeps_carries_refresh:
  "keeps (carries v) (refresh_authorities E n as)" "keeps (carries v) (refresh_rows E n cs)"
  by (induction as arbitrary: n; auto simp: Let_def intro!: keeps_intros)
     (induction cs arbitrary: n; auto simp: Let_def intro!: keeps_intros)

lemma keeps_carries_statuses [keeps_intros]:
  "keeps (carries v) (refresh_authority_statuses E)" "keeps (carries v) (refresh_certificate_statuses E)"
  unfolding refresh_authority_statuses_def refresh_certificate_statuses_def
  by (intro keeps_intros keeps_basic keeps_carries_refresh)+

lemma carries_update: "carries v d \<Longrightarrow> carries v (snd (update_certificate i inp d))"
  unfolding update_certificate_def Let_def
  by (intro inv_bind_store_read [where I = "carries v"] inv_bind_read(3) [where I = "carries v"]
        inv_step [where I = "carries v"] inv_return [where I = "carries v"])
     (auto intro!: carries_save dest: get_certificate_in)

lemma carries_put_forget:
  assumes "carries v d" "x \<in> set (db_certificates d)" "cr_id c = cr_id x" "issued_part c = issued_part x"
    "db_ok (db_certificates_update (tbl_put cr_id c) (db_revocations_update f d))"
  shows "carries v (db_certificates_update (tbl_put cr_id c) (db_revocations_update f d))"
  using issued_put [OF _ assms(2-4), of v] assms(1,5) db_okD(3) [of d] by (simp add: carries_def)

lemma carries_publish_after: "carries v d \<Longrightarrow> carries v (snd (publish_after E a p go d))"
  unfolding publish_after_def by (rule keepsD) (intro keeps_intros keeps_basic)+

lemma carries_revoke:
  assumes inv: "pki_inv d" and fresh: "dr_uuid R \<notin> rv_id ` set (db_revocations d)" and v: "carries v d"
  shows "carries v (snd (revoke_certificate E R actor i inp d))"
proof (cases "\<exists>c a. get_with_authority i d = Inr (c, a) \<and> cr_status c \<noteq> StRevoked \<and>
    validate_revocation_reason (ki_reason inp) = Inr ()")
  case True
  then obtain c a where ca: "get_with_authority i d = Inr (c, a)" "cr_status c \<noteq> StRevoked"
    and reason: "validate_revocation_reason (ki_reason inp) = Inr ()" by blast
  have c: "c \<in> set (db_certificates d)" using ca(1) pki_invD(1) [OF inv] by (simp add: get_with_authority_iff)
  have "carries v (revoked_db E R actor c (ki_reason inp) d)"
    using carries_put_forget [OF v c] pki_invD(1) [OF inv_revoked_db [OF inv c ca(2) fresh]]
    by (simp add: revoked_db_def forget_revocations_def)
  then show ?thesis
    using revoke_certificate_run [OF inv ca reason fresh] by (simp add: carries_publish_after)
next
  case False
  then show ?thesis
    unfolding revoke_certificate_def
    by (intro inv_bind_read(2) [where I = "carries v"] inv_bind_store_read [where I = "carries v"] v)
       (auto simp: v)
qed

lemma carries_release:
  assumes inv: "pki_inv d" and v: "carries v d"
  shows "carries v (snd (release_hold E i p d))"
proof (cases "\<exists>c a. get_with_authority i d = Inr (c, a) \<and> cr_status c = StHeld")
  case True
  then obtain c a where ca: "get_with_authority i d = Inr (c, a)" "cr_status c = StHeld" by blast
  have c: "c \<in> set (db_certificates d)" using ca(1) pki_invD(1) [OF inv] by (simp add: get_with_authority_iff)
  have "issued_part (released E c) = issued_part c" by (simp add: released_def)
  then have "carries v (released_db E c d)"
    using carries_put_forget [OF v c] pki_invD(1) [OF release_hold_run(2) [OF inv ca]]
    by (simp add: released_db_def forget_revocations_def)
  then show ?thesis using release_hold_run(1) [OF inv ca] by (simp add: carries_publish_after)
next
  case False
  then show ?thesis
    unfolding release_hold_def
    by (intro inv_bind_store_read [where I = "carries v"] v) (auto simp: v)
qed

text \<open>Every step but a deletion keeps every certificate as it was issued.\<close>

definition carries_or_gone :: "certificate \<Rightarrow> db \<Rightarrow> bool" where
  "carries_or_gone v d \<longleftrightarrow> carries v d \<or> cr_id v \<notin> cr_id ` set (db_certificates d)"

lemma issued_part_id [simp]: "cr_id (issued_part c) = cr_id c"
  by (simp add: issued_part_def)

lemma carries_deletes:
  assumes "pki_inv d" "carries v d"
  shows "carries_or_gone v (snd (delete_certificate i d))" "carries_or_gone v (snd (delete_authority i force d))"
proof -
  have ok: "db_ok d" using assms(1) by (rule pki_invD)
  obtain c where c: "c \<in> set (db_certificates d)" "v = issued_part c" using assms(2) by (auto simp: carries_def)
  have uniq: "x = c" if "x \<in> set (db_certificates d)" "cr_id x = cr_id c" for x
    using db_okD(3) [OF ok] that c(1) by (auto simp: distinct_map inj_on_def)
  have kept: "carries_or_gone v d'" if "db_ok d'" "db_certificates d' = filter p (db_certificates d)" for d' p
  proof (cases "p c")
    case True
    then show ?thesis using that c by (auto simp: carries_or_gone_def carries_def)
  next
    case False
    then have "cr_id c \<notin> cr_id ` set (db_certificates d')" using that(2) uniq by auto
    then show ?thesis using c(2) by (simp add: carries_or_gone_def)
  qed
  have g: "carries_or_gone v d" using assms(2) by (simp add: carries_or_gone_def)
  have "carries_or_gone v (snd (delete_certificate_row j d))" for j
  proof (cases "snd (delete_certificate_row j d) = d")
    case False
    then have "db_certificates (snd (delete_certificate_row j d)) = filter (\<lambda>c. cr_id c \<noteq> j) (db_certificates d)"
      using delete_certificate_row_cases [of j d] by (simp add: without_certificate_def)
    then show ?thesis using kept keepsD [OF keeps_deletes(2) ok] by blast
  qed (use g in simp)
  then show "carries_or_gone v (snd (delete_certificate i d))"
    unfolding delete_certificate_def by (intro inv_bind_store_read [where I = "carries_or_gone v"] g) simp
  have "carries_or_gone v (snd (delete_authority_row j force d))" for j
  proof (cases "snd (delete_authority_row j force d) = d")
    case False
    then have "db_certificates (snd (delete_authority_row j force d)) =
        filter (\<lambda>c. force \<longrightarrow> cr_authority c \<noteq> j) (db_certificates d)"
      using delete_authority_row_cases [of j force d] by (auto simp: without_authority_def)
    then show ?thesis using kept keepsD [OF keeps_deletes(1) ok] by blast
  qed (use g in simp)
  then show "carries_or_gone v (snd (delete_authority i force d))"
    unfolding delete_authority_def by (intro inv_bind_store_read [where I = "carries_or_gone v"] g) simp
qed

lemma carries_or_goneI:
  "carries v d' \<Longrightarrow> carries_or_gone v d'"
  "carries v d \<Longrightarrow> keeps (carries v) m \<Longrightarrow> carries_or_gone v (snd (m d))"
  by (simp_all add: carries_or_gone_def keepsD)

lemma pki_step_carries:
  assumes "pki_step E d d'" "pki_inv d" "carries v d"
  shows "carries_or_gone v d'"
  using assms
  by (induction rule: pki_step.induct)
     (blast intro: carries_deletes carries_or_goneI carries_revoke carries_release carries_update
        keeps_carries_authority keeps_carries_crl_for keeps_carries_certificate keeps_carries_statuses)+

end
