(* ===== verification/Samples.thy ===== *)
theory Samples
  imports SvcReach
begin

text \<open>
  A concrete run of the service, from the empty database: a root authority is created, a
  server certificate is issued under it, and the certificate is put on hold.  The witnesses
  of the properties are instances of this run.
\<close>

definition sample_parsers :: parsers where
  "sample_parsers = \<lparr>mail_ok = (\<lambda>s. CHR ''@'' \<in> set s), mailbox_ok = (\<lambda>s. CHR ''@'' \<in> set s),
     url_parse = (\<lambda>s. None)\<rparr>"

text \<open>2024-01-01, 00:00 UTC.\<close>

definition sample_env :: svc_env where
  "sample_env = \<lparr>se_parsers = sample_parsers, se_fingerprint = (\<lambda>c. format_serial (Some (x_serial c))),
     se_now = 1704067200 * second, se_master = 1, cfg_key_algorithm = ''ed25519'', cfg_ca_validity = 3650,
     cfg_organization = ''Acme'', cfg_country = ''DE'', cfg_base_url = ''https://pki.lan'',
     cfg_crl_validity = 24 * hour, cfg_warn_days = 30, cfg_download_policy = ''once''\<rparr>"

definition sample_subject :: "string \<Rightarrow> subject" where
  "sample_subject cn = \<lparr>common_name = cn, country = [], province = [], locality = [], organization = [],
     organizational_unit = [], email = [], subject_serial = []\<rparr>"

definition sample_ca_input :: create_authority_input where
  "sample_ca_input = \<lparr>ci_name = ''Root'', ci_slug = [], ci_description = [], ci_type = ''root'', ci_parent = [],
     ci_parent_passphrase = [], ci_subject = sample_subject ''Root'', ci_key_algorithm = [],
     ci_validity_days = 0, ci_max_path_len = None, ci_passphrase = [], ci_crl_urls = [], ci_ocsp_urls = [],
     ci_constraints = no_constraints\<lparr>permitted_dns := [''lan'']\<rparr>\<rparr>"

definition sample_issue_input :: issue_input where
  "sample_issue_input = \<lparr>ii_authority = ''root'', ii_passphrase = [], ii_subject = sample_subject ''www.lan'',
     ii_sans = [], ii_profile = ''server'', ii_key_algorithm = ''ed25519'', ii_validity_days = 90,
     ii_key_usage = [], ii_eku = [], ii_auto_renew = True, ii_renew_before = 0, ii_labels = [], ii_notes = []\<rparr>"

definition sample_draws :: "nat \<Rightarrow> string \<Rightarrow> draws" where
  "sample_draws n i = \<lparr>dr_key = n, dr_serials = [64 + n], dr_uuid = i\<rparr>"

section \<open>Evaluation\<close>

text \<open>Steps are run one at a time: the rest of an operation waits for the result of the step before it.\<close>

lemma bindS_lazy: "bindS m f = bindS m f"
  by (rule refl)

lemma bindS_run: "bindS m f s = (case m s of (Inl e, t) \<Rightarrow> (Inl e, t) | (Inr x, t) \<Rightarrow> f x t)"
  by (simp add: bindS_def)

lemma sample_env_simps:
  "se_parsers sample_env = sample_parsers" "cfg_key_algorithm sample_env = ''ed25519''"
  "cfg_ca_validity sample_env = 3650" "se_master sample_env = 1"
  by (simp_all add: sample_env_def)

lemma sample_draws_simps:
  "dr_uuid (sample_draws n i) = i" "dr_key (sample_draws n i) = n" "dr_serials (sample_draws n i) = [64 + n]"
  by (simp_all add: sample_draws_def)

lemma op_runs:
  "whenS True m = m" "whenS False m = returnS ()" "store_op n s = (map_err EStore (fst (n s)), snd (n s))"
  "store_read f d = (map_err EStore (f d), d)"
  by (simp_all add: store_op_def store_read_def map_errS_def)

lemmas run = Let_def bindS_run op_simps op_runs default_string_def sample_env_simps sample_draws_simps

section \<open>The root\<close>

definition root_subject :: subject where
  "root_subject = apply_subject_defaults sample_env (sample_subject ''Root'')"

definition root_request :: ca_request where
  "root_request = \<lparr>cq_subject = root_subject, cq_key_spec = ed25519_spec, cq_validity_days = 3650,
     cq_max_path_len = 0, cq_max_path_len_zero = False, cq_crl_urls = [], cq_ocsp_urls = [],
     cq_constraints = no_constraints\<lparr>permitted_dns := [''lan'']\<rparr>, cq_not_before = None\<rparr>"

definition ok_of :: "'e + 'a \<Rightarrow> 'a" where
  "ok_of r = (case r of Inr x \<Rightarrow> x)"

definition root_ca :: cert_authority where
  "root_ca = ok_of (create_root_ca sample_parsers (se_now sample_env) 1 [65] root_request)"

definition root_cert :: x509 where "root_cert = the (ca_certificate root_ca)"
definition root_key :: private_key where "root_key = the (ca_private_key root_ca)"

definition root_row0 :: authority where
  "root_row0 = authority_row sample_env ''ca-1'' (sample_ca_input\<lparr>ci_subject := root_subject\<rparr>) ''root'' TypeRoot
     None ed25519_spec root_cert (Sealed 1 [] root_key)"

definition root_row :: authority where
  "root_row = root_row0\<lparr>au_crl_url := ''https://pki.lan/ca/ca-1/crl.pem'', au_ocsp_url := ''https://pki.lan/ca/ca-1/ocsp''\<rparr>"

definition db1 :: db where
  "db1 = empty_db\<lparr>db_authorities := [root_row]\<rparr>"

lemma root_facts:
  "subject_validate root_subject = Inr ()" "unique_slug ''Root'' empty_db = Inr ''root''"
  "parse_key_spec ''ed25519'' = Inr ed25519_spec"
  "nc_normalize (no_constraints\<lparr>permitted_dns := [''lan'']\<rparr>) = no_constraints\<lparr>permitted_dns := [''lan'']\<rparr>"
  "nc_validate (no_constraints\<lparr>permitted_dns := [''lan'']\<rparr>) = Inr ()"
  "create_root_ca sample_parsers (se_now sample_env) 1 [65] root_request = Inr root_ca"
  "issuer_of root_ca = Inr (root_cert, root_key)"
  "seal_key sample_env root_key [] = Inr (Sealed 1 [] root_key)"
  "crl_url sample_env ''ca-1'' = ''https://pki.lan/ca/ca-1/crl.pem''"
  "ocsp_url sample_env ''ca-1'' = ''https://pki.lan/ca/ca-1/ocsp''"
  by code_simp+

lemma root_row0_fields [simp]:
  "au_id root_row0 = ''ca-1''" "au_slug root_row0 = ''root''" "au_parent root_row0 = None"
  "au_passphrase_protected root_row0 = False" "au_key root_row0 = Sealed 1 [] root_key"
  "au_cert_pem root_row0 = encode_certificate_pem root_cert" "au_name root_row0 = ''Root''"
  "au_constraints root_row0 = constraints_of (Some root_cert)" "au_crl_pem root_row0 = []" "au_crl_number root_row0 = 0"
  by (simp_all add: root_row0_def authority_row_def sample_ca_input_def)

lemma root_row_urls: "with_urls sample_env root_row0 = root_row"
  by (simp add: with_urls_def root_row_def root_facts Let_def)

lemma root_persisted:
  "create_authority_row root_row0 empty_db = (Inr (), empty_db\<lparr>db_authorities := [root_row0]\<rparr>)"
  "update_authority_row root_row (empty_db\<lparr>db_authorities := [root_row0]\<rparr>) = (Inr (), db1)"
  by (simp_all add: create_authority_row_def update_authority_row_def repo_create_def repo_save_def tbl_has_def
    tbl_put_def authority_clash_def empty_db_def root_row_def db1_def)

lemma sample_ca_input_simps [simp]:
  "ci_name sample_ca_input = ''Root''" "ci_slug sample_ca_input = []" "ci_type sample_ca_input = ''root''"
  "ci_subject sample_ca_input = sample_subject ''Root''" "ci_key_algorithm sample_ca_input = []"
  "ci_validity_days sample_ca_input = 0" "ci_max_path_len sample_ca_input = None"
  "ci_passphrase sample_ca_input = []" "ci_crl_urls sample_ca_input = []" "ci_ocsp_urls sample_ca_input = []"
  "ci_constraints sample_ca_input = no_constraints\<lparr>permitted_dns := [''lan'']\<rparr>"
  "sample_ca_input\<lparr>ci_subject := s, ci_constraints := no_constraints\<lparr>permitted_dns := [''lan'']\<rparr>\<rparr> =
   sample_ca_input\<lparr>ci_subject := s\<rparr>"
  by (simp_all add: sample_ca_input_def)

lemma run_create: "create_authority sample_env (sample_draws 1 ''ca-1'') sample_ca_input empty_db = (Inr root_row, db1)"
proof -
  have urls: "au_crl_url root_row \<noteq> []" by (simp add: root_row_def)
  show ?thesis
    by (simp add: create_authority_def persist_authority_def ca_request_of_def type_root_def type_intermediate_def
        root_subject_def [symmetric] root_request_def [symmetric] root_row0_def [symmetric] urls
        root_facts root_row_urls root_persisted run cong: bindS_lazy let_weak_cong del: One_nat_def)
qed

section \<open>A server certificate\<close>

definition www_subject :: subject where
  "www_subject = apply_subject_defaults sample_env (sample_subject ''www.lan'')"

definition www_request :: issue_request where
  "www_request = \<lparr>iq_subject = www_subject, iq_sans = [], iq_key_spec = ed25519_spec, iq_profile = ''server'',
     iq_validity_days = 90, iq_not_before = None, iq_key_usage = [], iq_eku = [],
     iq_crl_urls = [''https://pki.lan/ca/ca-1/crl.pem''], iq_ocsp_urls = [''https://pki.lan/ca/ca-1/ocsp'']\<rparr>"

definition loaded_root :: cert_authority where
  "loaded_root = \<lparr>ca_certificate = Some root_cert, ca_private_key = Some root_key, ca_chain = []\<rparr>"

definition www_issued :: issued_certificate where
  "www_issued = ok_of (issue sample_parsers (se_now sample_env) 2 [66] loaded_root www_request)"

definition www_cert :: x509 where "www_cert = ic_certificate www_issued"
definition www_key :: private_key where "www_key = ic_private_key www_issued"

definition www_row :: certificate where
  "www_row = certificate_row sample_env ''cert-1'' root_row www_cert ed25519_spec (Sealed 1 [] www_key) None
     (sample_issue_input\<lparr>ii_subject := www_subject\<rparr>) None"

definition db2 :: db where
  "db2 = db1\<lparr>db_certificates := [www_row]\<rparr>"

lemma www_facts:
  "subject_validate www_subject = Inr ()"
  "isl (lookup_profile ''server'') = False"
  "constraints_of (Some root_cert) = no_constraints\<lparr>permitted_dns := [''lan'']\<rparr>"
  "common_name www_subject = ''www.lan''"
  "nc_is_zero (no_constraints\<lparr>permitted_dns := [''lan'']\<rparr>) = False"
  "permits_sans (no_constraints\<lparr>permitted_dns := [''lan'']\<rparr>) [] = Inr ()"
  "permits_dns (no_constraints\<lparr>permitted_dns := [''lan'']\<rparr>) ''www.lan'' = True"
  "issue sample_parsers (se_now sample_env) 2 [66] loaded_root www_request = Inr www_issued"
  "seal_key sample_env www_key [] = Inr (Sealed 1 [] www_key)"
  "marshal_private_key_pem www_key = Inr [plain_block block_private_key (DerKey PKCS8 www_key)]"
  "spec_of (x_public_key www_cert) = Inr ed25519_spec"
  by code_simp+

lemma sample_issue_input_simps [simp]:
  "ii_authority sample_issue_input = ''root''" "ii_passphrase sample_issue_input = []"
  "ii_subject sample_issue_input = sample_subject ''www.lan''" "ii_sans sample_issue_input = []"
  "ii_profile sample_issue_input = ''server''" "ii_key_algorithm sample_issue_input = ''ed25519''"
  "ii_validity_days sample_issue_input = 90" "ii_key_usage sample_issue_input = []" "ii_eku sample_issue_input = []"
  by (simp_all add: sample_issue_input_def)

lemma root_row_fields [simp]:
  "au_id root_row = ''ca-1''" "au_slug root_row = ''root''" "au_parent root_row = None"
  "au_passphrase_protected root_row = False" "au_key root_row = Sealed 1 [] root_key"
  "au_cert_pem root_row = encode_certificate_pem root_cert" "au_name root_row = ''Root''"
  "au_constraints root_row = no_constraints\<lparr>permitted_dns := [''lan'']\<rparr>"
  "au_crl_url root_row = ''https://pki.lan/ca/ca-1/crl.pem''" "au_ocsp_url root_row = ''https://pki.lan/ca/ca-1/ocsp''"
  "au_crl_pem root_row = []" "au_crl_number root_row = 0"
  by (simp_all add: root_row_def www_facts)

lemma db1_simps [simp]:
  "db_authorities db1 = [root_row]" "db_certificates db1 = []" "db_revocations db1 = []"
  by (simp_all add: db1_def empty_db_def)

lemma parse_encoded: "parse_certificate_pem (encode_certificate_pem c) = Inr c"
  by (simp add: parse_certificate_pem_def parse_certificates_pem_def encode_certificate_pem_def plain_block_def
      parse_certificate_def)

lemma load_root: "load_ca sample_env root_row [] d = Inr loaded_root"
  by (simp add: load_ca_def chain_certificates_def authority_chain_def open_key_def sample_env_simps loaded_root_def
      eval_nat_numeral parse_encoded)

lemma www_row_fields [simp]:
  "cr_id www_row = ''cert-1''" "cr_authority www_row = ''ca-1''" "cr_status www_row = StActive"
  "cr_key www_row = Sealed 1 [] www_key" "cr_cert_pem www_row = encode_certificate_pem www_cert"
  by (simp_all add: www_row_def certificate_row_def Let_def)

lemma www_persisted: "create_certificate_row www_row db1 = (Inr (), db2)"
proof -
  have "cr_renew_before www_row \<noteq> 0"
    by (simp add: www_row_def certificate_row_def renewal_window_def sample_issue_input_def Let_def)
  then show ?thesis
    by (simp add: create_certificate_row_def repo_create_def certificate_defaults_def certificate_clash_def
      tbl_has_def db2_def)
qed

lemma run_issue: "issue_certificate sample_env (sample_draws 2 ''cert-1'') sample_issue_input db1 =
  (Inr \<lparr>ir_row = www_row, ir_key_pem = [plain_block block_private_key (DerKey PKCS8 www_key)],
        ir_bundle = \<lparr>b_certificate = www_cert, b_private_key = Some www_key, b_chain = ic_chain www_issued\<rparr>\<rparr>, db2)"
proof -
  have "resolve_authority ''root'' db1 = Inr root_row"
    by (simp add: resolve_authority_def get_authority_def get_authority_by_slug_def tbl_get_def)
  moreover obtain p where "lookup_profile ''server'' = Inr p" using www_facts(2) by (cases "lookup_profile ''server''") auto
  ultimately show ?thesis
    by (simp add: issue_certificate_def persist_certificate_def issue_request_of_def distribution_points_def
        check_name_constraints_def www_subject_def [symmetric] www_request_def [symmetric]
        www_row_def [symmetric] www_cert_def [symmetric] www_key_def [symmetric] load_root root_facts www_facts www_persisted
        run cong: bindS_lazy let_weak_cong del: One_nat_def)
qed

lemma reachable_db1: "reachable db1"
  using reachable_step [OF reachable_start step_create_authority, of sample_env "sample_draws 1 ''ca-1''" sample_ca_input]
  by (simp add: run_create del: One_nat_def)

lemma reachable_db2: "reachable db2"
  using reachable_step [OF reachable_db1 step_issue, of sample_env "sample_draws 2 ''cert-1''" sample_issue_input]
  by (simp add: run_issue)

lemma db2_simps [simp]:
  "db_authorities db2 = [root_row]" "db_certificates db2 = [www_row]" "db_revocations db2 = []"
  by (simp_all add: db2_def)

section \<open>The certificate on hold\<close>

definition hold_input :: revoke_input where
  "hold_input = \<lparr>ki_reason = 6, ki_passphrase = [], ki_skip_crl = True\<rparr>"

definition hold_row :: revocation where
  "hold_row = revocation_row sample_env ''rev-1'' ''admin'' www_row 6"

definition db3 :: db where
  "db3 = db2\<lparr>db_certificates := [www_row\<lparr>cr_status := StHeld\<rparr>], db_revocations := [hold_row]\<rparr>"

lemma get_www: "get_with_authority ''cert-1'' db2 = Inr (www_row, root_row)"
  by (simp add: get_with_authority_def get_certificate_def get_authority_def tbl_get_def)

lemma run_hold: "revoke_certificate sample_env (sample_draws 3 ''rev-1'') ''admin'' ''cert-1'' hold_input db2 =
  (Inr hold_row, db3)"
proof -
  have reason: "validate_revocation_reason (ki_reason hold_input) = Inr ()" by code_simp
  have "revoke_certificate sample_env (sample_draws 3 ''rev-1'') ''admin'' ''cert-1'' hold_input db2 =
    (Inr hold_row, revoked_db sample_env (sample_draws 3 ''rev-1'') ''admin'' www_row 6 db2)"
    using revoke_certificate_run [OF reachable_inv [OF reachable_db2] get_www _ reason, of "sample_draws 3 ''rev-1''"]
    by (simp add: hold_input_def publish_after_def hold_row_def sample_draws_simps)
  moreover have "revoked_db sample_env (sample_draws 3 ''rev-1'') ''admin'' www_row 6 db2 = db3"
    by (simp add: revoked_db_def db3_def forget_revocations_def tbl_put_def tbl_has_def hold_row_def
        reason_certificate_hold_def sample_draws_simps db2_def db1_def empty_db_def)
  ultimately show ?thesis by simp
qed

lemma reachable_db3: "reachable db3"
proof -
  have "pki_step sample_env db2 (snd (revoke_certificate sample_env (sample_draws 3 ''rev-1'') ''admin'' ''cert-1'' hold_input db2))"
    by (rule step_revoke) simp
  then show ?thesis using reachable_step [OF reachable_db2] by (simp add: run_hold)
qed

lemma db3_simps [simp]:
  "db_authorities db3 = [root_row]" "db_certificates db3 = [www_row\<lparr>cr_status := StHeld\<rparr>]"
  "db_revocations db3 = [hold_row]"
  by (simp_all add: db3_def)

end
