(* ===== verification/SvcOcsp.thy ===== *)
theory SvcOcsp
  imports SvcCertificate
begin

text \<open>
  \<open>internal/service/ocsp.go\<close>: the OCSP responder, which answers from the tables of
  certificates and revocations.  The decoded request is an argument, absent when
  \<open>ocsp.ParseRequest\<close> refuses it.
\<close>

definition ocsp_validity :: duration where "ocsp_validity = hour"

definition ocsp_answer :: "authority \<Rightarrow> ocsp_query \<Rightarrow> instant \<Rightarrow> db \<Rightarrow> svc_error + ocsp_response" where
  "ocsp_answer row q now d =
     (let resp = \<lparr>or_serial = Some (oq_serial q), or_status = OCSPUnknown, or_revoked_at = None, or_reason = 0,
                  or_this = Some now, or_next = Some (now + ocsp_validity), or_hash = oq_hash q\<rparr>
      in case get_by_serial (au_id row) (format_serial (Some (oq_serial q))) d of
           Inl e \<Rightarrow> if e = RecordNotFound then Inr (resp\<lparr>or_status := OCSPUnknown\<rparr>) else Inl (EStore e)
         | Inr c \<Rightarrow> (case revocation_by_certificate (cr_id c) d of
               Inr r \<Rightarrow> Inr (resp\<lparr>or_status := OCSPRevoked, or_revoked_at := Some (rv_at r),
                                  or_reason := rv_reason_code r\<rparr>)
             | Inl e \<Rightarrow> if e \<noteq> RecordNotFound then Inl (EStore e) else Inr (resp\<lparr>or_status := OCSPGood\<rparr>)))"

definition ocsp_respond :: "svc_env \<Rightarrow> 'r ocsp_lib \<Rightarrow> string \<Rightarrow> ocsp_query option \<Rightarrow> db \<Rightarrow> svc_error + 'r" where
  "ocsp_respond E L i query d = (case query of
     None \<Rightarrow> Inl (EInvalid ''parse OCSP request'')
   | Some raw \<Rightarrow>
       (let q = parse_ocsp_query raw in
        bindE (map_err EStore (resolve_authority i d)) (\<lambda>row.
        if au_passphrase_protected row then Inl (EUnauthorized (au_name row))
        else bindE (load_ca E row [] d) (\<lambda>ca.
        if \<not> matches_issuer L (Some q) (ca_certificate ca) then Inl (EUnauthorized ''different issuer'')
        else bindE (ocsp_answer row q (se_now E) d) (\<lambda>resp.
          map_err EOcsp (sign_ocsp_response L (se_now E) ca resp))))))"

end
