(* ===== verification/CertificateLife.thy ===== *)
theory CertificateLife
  imports Samples SvcOcsp
begin

text \<open>
  What the service guarantees over the life of a certificate: the database stays consistent,
  a revocation is final, an issued certificate never changes, and a hold can be undone.
\<close>

section \<open>Reachable databases\<close>

text \<open>C1: in every reachable database the keys are unique, the references resolve, every authority
  is younger than its issuer, and a certificate is shown revoked or held exactly when the
  revocations table has its row, with the authority and serial of the certificate.\<close>

theorem reachable_consistent:
  "reachable d \<Longrightarrow> db_ok d \<and> ordered d \<and> synced d"
  using reachable_inv by (simp add: pki_inv_def)

theorem reachable_consistent_witness: "db_ok db3 \<and> ordered db3 \<and> synced db3"
  by (rule reachable_consistent [OF reachable_db3])

lemma same_certificate:
  "db_ok d \<Longrightarrow> x \<in> set (db_certificates d) \<Longrightarrow> y \<in> set (db_certificates d) \<Longrightarrow> cr_id x = cr_id y \<Longrightarrow> x = y"
  using db_okD(3) [of d] by (auto simp: distinct_map inj_on_def)

text \<open>C2: no method brings a revoked certificate back: as long as its row exists it says revoked.\<close>

theorem revoked_stays_revoked:
  assumes "reachable d" "pki_step E d d'" "c \<in> set (db_certificates d)" "cr_status c = StRevoked"
    "c' \<in> set (db_certificates d')" "cr_id c' = cr_id c"
  shows "cr_status c' = StRevoked"
proof -
  have inv: "pki_inv d" "pki_inv d'" using assms(1,2) reachable_inv pki_step_inv by blast+
  obtain r where r: "final_revocation r d" "rv_certificate r = cr_id c"
    using revoked_is_final [OF inv(1) assms(3,4)] by blast
  have "cr_id c \<in> cr_id ` set (db_certificates d')" using assms(5,6) by (metis imageI)
  then have "final_revocation r d'"
    using pki_step_final [OF assms(2) inv(1) r(1)] r(2) by (simp add: final_or_gone_def)
  then show ?thesis using final_is_revoked [OF inv(2) _ assms(5)] r(2) assms(6) by simp
qed

definition revoke_input_for :: "int \<Rightarrow> revoke_input" where
  "revoke_input_for r = \<lparr>ki_reason = r, ki_passphrase = [], ki_skip_crl = True\<rparr>"

definition revoked_row :: certificate where
  "revoked_row = www_row\<lparr>cr_status := StRevoked\<rparr>"

definition db4 :: db where
  "db4 = snd (revoke_certificate sample_env (sample_draws 4 ''rev-2'') ''admin'' ''cert-1'' (revoke_input_for 1) db3)"

lemma reachable_db4: "reachable db4"
proof -
  have "pki_step sample_env db3 db4"
    unfolding db4_def by (rule step_revoke) (simp add: hold_row_def revocation_row_def sample_draws_simps)
  then show ?thesis using reachable_step [OF reachable_db3] by blast
qed

lemma db4_row: "revoked_row \<in> set (db_certificates db4)"
proof -
  have reason: "validate_revocation_reason (ki_reason (revoke_input_for 1)) = Inr ()" by code_simp
  have get: "get_with_authority ''cert-1'' db3 = Inr (www_row\<lparr>cr_status := StHeld\<rparr>, root_row)"
    by (simp add: get_with_authority_def get_certificate_def get_authority_def tbl_get_def)
  show ?thesis
    using revoke_certificate_run [OF reachable_inv [OF reachable_db3] get _ reason, of "sample_draws 4 ''rev-2''"]
    by (simp add: db4_def revoke_input_for_def publish_after_def revoked_db_def sample_draws_simps hold_row_def
        revocation_row_def reason_certificate_hold_def forget_revocations_def tbl_put_def tbl_has_def revoked_row_def)
qed

theorem revoked_stays_revoked_witness: "cr_status revoked_row = StRevoked"
proof -
  have "get_with_authority ''cert-1'' db4 = Inr (revoked_row, a) \<Longrightarrow>
      snd (release_hold sample_env ''cert-1'' [] db4) = db4" for a
    by (simp add: release_hold_def bindS_def store_read_def revoked_row_def)
  moreover obtain a where "get_with_authority ''cert-1'' db4 = Inr (revoked_row, a)"
    using get_with_authority_total [of db4 "''cert-1''" revoked_row] get_certificate_iff [of db4 "''cert-1''" revoked_row]
      pki_invD(1) [OF reachable_inv [OF reachable_db4]] db4_row by (auto simp: revoked_row_def)
  ultimately have "pki_step sample_env db4 db4"
    using step_release [of sample_env db4 "''cert-1''" "[]"] by simp
  from revoked_stays_revoked [OF reachable_db4 this db4_row _ db4_row] show ?thesis by (simp add: revoked_row_def)
qed

text \<open>C20: what was issued never changes: authority, serial, names, validity, certificate, key,
  fingerprint and lineage of a row are the same after any call of any method.\<close>

theorem issued_is_immutable:
  assumes "reachable d" "pki_step E d d'" "c \<in> set (db_certificates d)"
    "c' \<in> set (db_certificates d')" "cr_id c' = cr_id c"
  shows "issued_part c' = issued_part c"
proof -
  have inv: "pki_inv d" "pki_inv d'" using assms(1,2) reachable_inv pki_step_inv by blast+
  have "carries (issued_part c) d" using inv(1) assms(3) by (simp add: carries_def pki_inv_def)
  moreover have "cr_id c \<in> cr_id ` set (db_certificates d')" using assms(4,5) by (metis imageI)
  ultimately have "carries (issued_part c) d'"
    using pki_step_carries [OF assms(2) inv(1), of "issued_part c"] by (simp add: carries_or_gone_def)
  then obtain x where "x \<in> set (db_certificates d')" "issued_part x = issued_part c"
    by (auto simp: carries_def)
  moreover have "cr_id x = cr_id c" using arg_cong [OF calculation(2), of cr_id] by simp
  ultimately show ?thesis using same_certificate [OF pki_invD(1) [OF inv(2)], of x c'] assms(4,5) by simp
qed

theorem issued_is_immutable_witness:
  "issued_part (www_row\<lparr>cr_status := StHeld\<rparr>) = issued_part www_row"
proof -
  have "pki_step sample_env db2 db3"
    using step_revoke [of "sample_draws 3 ''rev-1''" db2 sample_env "''admin''" "''cert-1''" hold_input]
    by (simp add: run_hold)
  from issued_is_immutable [OF reachable_db2 this, of www_row "www_row\<lparr>cr_status := StHeld\<rparr>"]
  show ?thesis by simp
qed

section \<open>Holding and releasing\<close>

definition certs_are :: "certificate list \<Rightarrow> db \<Rightarrow> bool" where
  "certs_are cs d \<longleftrightarrow> db_certificates d = cs"

lemma keeps_certs_publish: "keeps (certs_are cs) (publish_crl E i p)"
proof -
  have "keeps (certs_are cs) (update_authority_row a)" for a
    by (auto simp: keeps_def certs_are_def update_authority_row_def repo_save_def split: option.split)
  then show ?thesis unfolding publish_crl_def Let_def by (intro keeps_intros keeps_basic)+
qed

lemma publish_after_certs [simp]: "db_certificates (snd (publish_after E a p go d)) = db_certificates d"
  using keepsD [OF keeps_certs_publish, of "db_certificates d" d E "au_id a" p]
  by (simp add: publish_after_def whenS_def certs_are_def)

lemma forget_twice:
  "rv_certificate r = i \<Longrightarrow>
   filter (\<lambda>x. rv_certificate x \<noteq> i) (filter (\<lambda>x. rv_certificate x \<noteq> i) rs @ [r]) = filter (\<lambda>x. rv_certificate x \<noteq> i) rs"
  by simp

lemma tbl_put_twice:
  "tbl_has key (key a) rows \<Longrightarrow> key b = key a \<Longrightarrow> tbl_put key b (tbl_put key a rows) = tbl_put key b rows"
  by (auto simp: tbl_put_def tbl_has_iff image_iff)

text \<open>C36: a certificate that is put on hold and then released is back where it was: its revocation
  is gone, no other revocation is touched, and its status is what its dates say.\<close>

theorem hold_then_release:
  assumes "reachable d" "get_with_authority i d = Inr (c, a)" "\<not> on_crl (cr_status c)"
    "dr_uuid R \<notin> rv_id ` set (db_revocations d)" "ki_reason inp = reason_certificate_hold"
  shows "\<exists>r d1 d2. revoke_certificate E R actor i inp d = (Inr r, d1) \<and>
    (\<exists>c1. c1 \<in> set (db_certificates d1) \<and> cr_id c1 = i \<and> cr_status c1 = StHeld) \<and>
    release_hold E i p d1 = (Inr (released E c), d2) \<and>
    db_revocations d2 = db_revocations d \<and>
    db_certificates d2 = tbl_put cr_id (released E c) (db_certificates d)"
proof -
  have inv: "pki_inv d" and ok: "db_ok d" using assms(1) reachable_inv pki_invD by blast+
  have c: "c \<in> set (db_certificates d)" "cr_id c = i" using assms(2) ok by (simp_all add: get_with_authority_iff)
  let ?h = "c\<lparr>cr_status := StHeld\<rparr>" and ?r = "revocation_row E (dr_uuid R) actor c (ki_reason inp)"
  define d1 where "d1 = snd (publish_after E a (ki_passphrase inp) (\<not> ki_skip_crl inp)
      (revoked_db E R actor c (ki_reason inp) d))"
  have reason: "validate_revocation_reason (ki_reason inp) = Inr ()"
    by (simp add: assms(5) validate_reason_iff reason_certificate_hold_def)
  have st: "cr_status c \<noteq> StRevoked" using assms(3) by (auto simp: on_crl_def)
  have run: "revoke_certificate E R actor i inp d = (Inr ?r, d1)"
    using revoke_certificate_run [OF inv assms(2) st reason assms(4)] by (simp add: d1_def)
  have none: "\<forall>r \<in> set (db_revocations d). rv_certificate r \<noteq> cr_id c"
    using inv c(1) assms(3) by (auto simp: pki_inv_def synced_def row_synced_def)
  have certs: "db_certificates d1 = tbl_put cr_id ?h (db_certificates d)"
    and revs: "db_revocations d1 = filter (\<lambda>x. rv_certificate x \<noteq> cr_id c) (db_revocations d) @ [?r]"
    by (simp_all add: d1_def revoked_db_def forget_revocations_def assms(5))
  have inv1: "pki_inv d1" using inv_publish_after [OF inv_revoked_db [OF inv c(1) st assms(4)]] by (simp add: d1_def)
  have h: "?h \<in> set (db_certificates d1)" by (simp add: certs set_tbl_put)
  obtain a' where get: "get_with_authority i d1 = Inr (?h, a')"
    using get_with_authority_total [OF pki_invD(1) [OF inv1], of i ?h] get_certificate_iff [OF pki_invD(1) [OF inv1]] h c(2)
    by auto
  have rel: "released E ?h = released E c" by (simp add: released_def derive_status_def)
  note out = release_hold_run(1) [OF inv1 get, of E p]
  have keep: "filter (\<lambda>x. rv_certificate x \<noteq> cr_id c) (db_revocations d) = db_revocations d"
    using none by (simp add: filter_id_conv)
  have "tbl_has cr_id (cr_id ?h) (db_certificates d)" using c(1) by (auto simp: tbl_has_iff)
  then have put: "tbl_put cr_id (released E c) (tbl_put cr_id ?h (db_certificates d)) = tbl_put cr_id (released E c) (db_certificates d)"
    by (rule tbl_put_twice) simp
  define d2 where "d2 = snd (publish_after E a' p True (released_db E ?h d1))"
  have "db_revocations d2 = db_revocations d"
    by (simp add: d2_def released_db_def forget_revocations_def revs keep revocation_row_def)
  moreover have "db_certificates d2 = tbl_put cr_id (released E c) (db_certificates d)"
    by (simp add: d2_def released_db_def forget_revocations_def certs put rel)
  moreover have "release_hold E i p d1 = (Inr (released E c), d2)" using out by (simp add: rel d2_def)
  moreover have "cr_id ?h = i" "cr_status ?h = StHeld" using c(2) by simp_all
  ultimately show ?thesis using run h by blast
qed

theorem hold_then_release_witness:
  "\<exists>r d1 d2. revoke_certificate sample_env (sample_draws 3 ''rev-1'') ''admin'' ''cert-1'' hold_input db2 = (Inr r, d1) \<and>
    (\<exists>c1. c1 \<in> set (db_certificates d1) \<and> cr_id c1 = ''cert-1'' \<and> cr_status c1 = StHeld) \<and>
    release_hold sample_env ''cert-1'' [] d1 = (Inr (released sample_env www_row), d2) \<and>
    db_revocations d2 = db_revocations db2 \<and>
    db_certificates d2 = tbl_put cr_id (released sample_env www_row) (db_certificates db2)"
  by (rule hold_then_release [OF reachable_db2 get_www])
     (simp_all add: on_crl_def hold_input_def reason_certificate_hold_def)

end
