(* ===== verification/StatusAnswers.thy ===== *)
theory StatusAnswers
  imports CertificateLife
begin

text \<open>
  What the outside world learns about revocation: the content of a published CRL, the answer
  of the OCSP responder, and that the two agree with the certificates table.
\<close>

section \<open>Publishing\<close>

lemma update_authority_ok:
  assumes "db_ok d" "x \<in> set (db_authorities d)" "au_id a = au_id x" "au_slug a = au_slug x" "au_parent a = au_parent x"
  shows "update_authority_row a d = (Inr (), db_authorities_update (tbl_put au_id a) d)"
proof -
  have "y = x" if "y \<in> set (db_authorities d)" "au_slug y = au_slug x" for y
    using db_okD(2) [OF assms(1)] that assms(2) by (auto simp: distinct_map inj_on_def)
  then have "authority_clash d a = None"
    using assms db_okD(7) [OF assms(1,2)] by (auto simp: authority_clash_None)
  then show ?thesis by (simp add: update_authority_row_def repo_save_def)
qed

lemma publish_crlE:
  assumes "publish_crl E i p d = (Inr l, d')"
  obtains a ca where "resolve_authority i d = Inr a" "load_ca E a p d = Inr ca"
    "generate_crl (se_now E) ca \<lparr>lq_number = Some (au_crl_number a + 1), lq_this = Some (se_now E),
       lq_next = Some (se_now E + cfg_crl_validity E), lq_revoked = crl_input (revocations_by_authority (au_id a) d)\<rparr> = Inr l"
    "d' = db_authorities_update (tbl_put au_id (a\<lparr>au_crl_number := au_crl_number a + 1,
       au_crl_pem := encode_crl_pem (DerCRL l), au_next_crl := Some (se_now E + cfg_crl_validity E)\<rparr>)) d"
  using assms unfolding publish_crl_def update_authority_row_def
  by (auto simp: bindS_Inr_iff Let_def dest!: repo_save_ok)

lemma crl_input_Cons:
  "crl_input (r # rs) = (case parse_serial (rv_serial r) of Inl _ \<Rightarrow> []
     | Inr s \<Rightarrow> [\<lparr>rc_serial = Some s, rc_at = Some (rv_at r), rc_reason = rv_reason_code r\<rparr>]) @ crl_input rs"
  by (simp add: crl_input_def)

lemma crl_input_serials:
  "Some s \<in> rc_serial ` set (crl_input rs) \<longleftrightarrow> (\<exists>r \<in> set rs. parse_serial (rv_serial r) = Inr s)"
proof (induction rs)
  case (Cons r rs)
  then show ?case by (cases "parse_serial (rv_serial r)") (auto simp: crl_input_Cons)
qed (simp add: crl_input_def)

lemma entry_serials:
  assumes "map (\<lambda>e. Some (ce_serial e)) es = map rc_serial rs"
  shows "s \<in> ce_serial ` set es \<longleftrightarrow> Some s \<in> rc_serial ` set rs"
proof -
  have "Some ` ce_serial ` set es = rc_serial ` set rs"
    using arg_cong [OF assms, of set] by (simp add: image_image)
  then have "Some s \<in> rc_serial ` set rs \<longleftrightarrow> Some s \<in> Some ` ce_serial ` set es" by simp
  then show ?thesis by (simp add: image_iff)
qed

text \<open>The revocations of an authority are those of its certificates on the CRL.\<close>

lemma revoked_serials:
  assumes "pki_inv d"
  shows "(\<exists>r \<in> set (revocations_by_authority i d). parse_serial (rv_serial r) = Inr s) \<longleftrightarrow>
    (\<exists>c \<in> set (db_certificates d). cr_authority c = i \<and> on_crl (cr_status c) \<and> parse_serial (cr_serial c) = Inr s)"
proof -
  have syn: "row_synced (db_revocations d) c" if "c \<in> set (db_certificates d)" for c
    using assms that by (simp add: pki_inv_def synced_def)
  show ?thesis
  proof
    assume "\<exists>r \<in> set (revocations_by_authority i d). parse_serial (rv_serial r) = Inr s"
    then obtain r where r: "r \<in> set (db_revocations d)" "rv_authority r = i" "parse_serial (rv_serial r) = Inr s"
      by (auto simp: revocations_by_authority_def)
    then obtain c where c: "c \<in> set (db_certificates d)" "cr_id c = rv_certificate r"
      using db_okD(9) [OF pki_invD(1) [OF assms]] by (metis imageE)
    then show "\<exists>c \<in> set (db_certificates d). cr_authority c = i \<and> on_crl (cr_status c) \<and> parse_serial (cr_serial c) = Inr s"
      using syn [OF c(1)] r unfolding row_synced_def by metis
  next
    assume "\<exists>c \<in> set (db_certificates d). cr_authority c = i \<and> on_crl (cr_status c) \<and> parse_serial (cr_serial c) = Inr s"
    then obtain c where c: "c \<in> set (db_certificates d)" "cr_authority c = i" "on_crl (cr_status c)"
      "parse_serial (cr_serial c) = Inr s" by blast
    then obtain r where "r \<in> set (db_revocations d)" "rv_authority r = i" "rv_serial r = cr_serial c"
      using syn [OF c(1)] unfolding row_synced_def by metis
    then show "\<exists>r \<in> set (revocations_by_authority i d). parse_serial (rv_serial r) = Inr s"
      using c(4) by (auto simp: revocations_by_authority_def)
  qed
qed

text \<open>C3: a published CRL carries exactly the serials of the authority's certificates that are revoked
  or held, has the next number, and publishing changes no certificate and no revocation.\<close>

theorem crl_lists_the_revoked:
  assumes "reachable d" "publish_crl E i p d = (Inr l, d')"
  shows "\<exists>a. resolve_authority i d = Inr a \<and> crl_number l = au_crl_number a + 1 \<and>
    (\<forall>s. s \<in> ce_serial ` set (crl_entries l) \<longleftrightarrow>
       (\<exists>c \<in> set (db_certificates d). cr_authority c = au_id a \<and> on_crl (cr_status c) \<and> parse_serial (cr_serial c) = Inr s)) \<and>
    (\<exists>a' \<in> set (db_authorities d'). au_id a' = au_id a \<and> au_crl_number a' = crl_number l \<and>
       au_crl_pem a' = encode_crl_pem (DerCRL l)) \<and>
    db_certificates d' = db_certificates d \<and> db_revocations d' = db_revocations d"
proof -
  obtain a ca where a: "resolve_authority i d = Inr a" and
    g: "generate_crl (se_now E) ca \<lparr>lq_number = Some (au_crl_number a + 1), lq_this = Some (se_now E),
       lq_next = Some (se_now E + cfg_crl_validity E), lq_revoked = crl_input (revocations_by_authority (au_id a) d)\<rparr> = Inr l" and
    d': "d' = db_authorities_update (tbl_put au_id (a\<lparr>au_crl_number := au_crl_number a + 1,
       au_crl_pem := encode_crl_pem (DerCRL l), au_next_crl := Some (se_now E + cfg_crl_validity E)\<rparr>)) d"
    using assms(2) by (rule publish_crlE) blast
  have l: "crl_number l = au_crl_number a + 1"
    "map (\<lambda>e. Some (ce_serial e)) (crl_entries l) = map rc_serial (crl_input (revocations_by_authority (au_id a) d))"
    using g by (auto elim!: generate_crlE simp: crl_or_default_def)
  have "s \<in> ce_serial ` set (crl_entries l) \<longleftrightarrow>
       (\<exists>c \<in> set (db_certificates d). cr_authority c = au_id a \<and> on_crl (cr_status c) \<and> parse_serial (cr_serial c) = Inr s)" for s
    using entry_serials [OF l(2)] revoked_serials [OF reachable_inv [OF assms(1)], of "au_id a" s]
    by (auto simp: crl_input_serials)
  moreover have "a\<lparr>au_crl_number := au_crl_number a + 1, au_crl_pem := encode_crl_pem (DerCRL l),
      au_next_crl := Some (se_now E + cfg_crl_validity E)\<rparr> \<in> set (db_authorities d')"
    by (simp add: d' set_tbl_put)
  then have "\<exists>a' \<in> set (db_authorities d'). au_id a' = au_id a \<and> au_crl_number a' = crl_number l \<and>
      au_crl_pem a' = encode_crl_pem (DerCRL l)"
    by (rule rev_bexI) (simp add: l(1))
  ultimately show ?thesis using a l(1) d' by simp
qed

lemma publish_runs:
  assumes "pki_inv d" "resolve_authority i d = Inr a" "load_ca E a p d = Inr ca" "ca_wf ca" "0 \<le> cfg_crl_validity E"
  shows "\<exists>l d'. publish_crl E i p d = (Inr l, d')"
proof -
  let ?req = "\<lparr>lq_number = Some (au_crl_number a + 1), lq_this = Some (se_now E),
    lq_next = Some (se_now E + cfg_crl_validity E), lq_revoked = crl_input (revocations_by_authority (au_id a) d)\<rparr>"
  have "\<forall>r \<in> set (lq_revoked ?req). rc_serial r \<noteq> None"
    by (auto simp: crl_input_def split: sum.splits)
  then obtain l where l: "generate_crl (se_now E) ca ?req = Inr l"
    using generate_crl_total [OF assms(4), of ?req] assms(5) by auto
  have "update_authority_row (a\<lparr>au_crl_number := au_crl_number a + 1, au_crl_pem := encode_crl_pem (DerCRL l),
      au_next_crl := Some (se_now E + cfg_crl_validity E)\<rparr>) d =
    (Inr (), db_authorities_update (tbl_put au_id (a\<lparr>au_crl_number := au_crl_number a + 1,
       au_crl_pem := encode_crl_pem (DerCRL l), au_next_crl := Some (se_now E + cfg_crl_validity E)\<rparr>)) d)"
    using resolve_authority_InrD [OF assms(2)] pki_invD(1) [OF assms(1)]
    by (intro update_authority_ok [where x = a]) auto
  then show ?thesis
    using assms(2,3) l unfolding publish_crl_def Let_def by (auto simp: bindS_Inr_iff)
qed

lemma loaded_root_wf: "ca_wf loaded_root"
  by code_simp

lemma resolve_root: "resolve_authority ''root'' db3 = Inr root_row"
  by (simp add: resolve_authority_def get_authority_def get_authority_by_slug_def tbl_get_def)

lemma sample_publish: "\<exists>l d'. publish_crl sample_env ''root'' [] db3 = (Inr l, d')"
  by (rule publish_runs [OF reachable_inv [OF reachable_db3] resolve_root load_root loaded_root_wf])
     (simp add: sample_env_def hour_def minute_def second_def)

lemma www_serial: "parse_serial (cr_serial www_row) = Inr 66" "cr_serial www_row = format_serial (Some 66)"
proof -
  have "x_serial www_cert = 66" by code_simp
  then show "cr_serial www_row = format_serial (Some 66)" by (simp add: www_row_def certificate_row_def Let_def)
  then show "parse_serial (cr_serial www_row) = Inr 66" by (simp add: parse_format_serial)
qed

theorem crl_lists_the_revoked_witness:
  "\<exists>l d'. publish_crl sample_env ''root'' [] db3 = (Inr l, d') \<and> crl_number l = 1 \<and> 66 \<in> ce_serial ` set (crl_entries l)"
proof -
  obtain l d' where run: "publish_crl sample_env ''root'' [] db3 = (Inr l, d')" using sample_publish by blast
  from crl_lists_the_revoked [OF reachable_db3 run] obtain a where
    a: "resolve_authority ''root'' db3 = Inr a" "crl_number l = au_crl_number a + 1" and
    s: "\<forall>s. s \<in> ce_serial ` set (crl_entries l) \<longleftrightarrow> (\<exists>c \<in> set (db_certificates db3).
       cr_authority c = au_id a \<and> on_crl (cr_status c) \<and> parse_serial (cr_serial c) = Inr s)" by blast
  have "a = root_row" using a(1) resolve_root by simp
  moreover from this have "66 \<in> ce_serial ` set (crl_entries l)"
    using s www_serial(1) by (simp add: on_crl_def)
  ultimately show ?thesis using run a(2) by auto
qed




section \<open>The responder\<close>

text \<open>What the tables say of a serial: nothing, that its certificate is revoked or held, or that it is good.\<close>

lemma get_by_serial_iff:
  assumes "db_ok d"
  shows "get_by_serial a s d = Inr c \<longleftrightarrow> c \<in> set (db_certificates d) \<and> cr_authority c = a \<and> cr_serial c = s"
  using assms by (auto simp: get_by_serial_def tbl_get_iff db_ok_def)

lemma tbl_get_fails: "tbl_get key k rows = Inl e \<Longrightarrow> e = RecordNotFound \<and> (\<forall>r \<in> set rows. key r \<noteq> k)"
  by (cases "List.find (\<lambda>r. key r = k) rows") (auto simp: tbl_get_def find_None_iff)

definition status_of_serial :: "authority \<Rightarrow> int \<Rightarrow> db \<Rightarrow> ocsp_status" where
  "status_of_serial a s d =
     (case List.find (\<lambda>c. cr_authority c = au_id a \<and> cr_serial c = format_serial (Some s)) (db_certificates d) of
        None \<Rightarrow> OCSPUnknown
      | Some c \<Rightarrow> if on_crl (cr_status c) then OCSPRevoked else OCSPGood)"

lemma ocsp_answer_status:
  assumes "pki_inv d"
  shows "\<exists>resp. ocsp_answer a q now d = Inr resp \<and> or_serial resp = Some (oq_serial q) \<and>
    or_status resp = status_of_serial a (oq_serial q) d \<and> or_hash resp = oq_hash q \<and>
    or_this resp = Some now \<and> or_next resp = Some (now + ocsp_validity)"
proof -
  let ?s = "format_serial (Some (oq_serial q))"
  show ?thesis
  proof (cases "get_by_serial (au_id a) ?s d")
    case (Inl e)
    then have "e = RecordNotFound" "\<forall>c \<in> set (db_certificates d). (cr_authority c, cr_serial c) \<noteq> (au_id a, ?s)"
      using tbl_get_fails [OF Inl [unfolded get_by_serial_def]] by simp_all
    then have "List.find (\<lambda>c. cr_authority c = au_id a \<and> cr_serial c = ?s) (db_certificates d) = None"
      by simp
    then have "status_of_serial a (oq_serial q) d = OCSPUnknown" by (simp add: status_of_serial_def del: find_None)
    then show ?thesis using Inl \<open>e = RecordNotFound\<close> by (simp add: ocsp_answer_def Let_def)
  next
    case (Inr c)
    have c: "c \<in> set (db_certificates d)" "cr_authority c = au_id a" "cr_serial c = ?s"
      using Inr get_by_serial_iff [OF pki_invD(1) [OF assms]] by auto
    have "List.find (\<lambda>c. cr_authority c = au_id a \<and> cr_serial c = ?s) (db_certificates d) = Some c"
      using Inr by (cases "List.find (\<lambda>c. cr_authority c = au_id a \<and> cr_serial c = ?s) (db_certificates d)")
        (simp_all add: get_by_serial_def tbl_get_def)
    then have st: "status_of_serial a (oq_serial q) d = (if on_crl (cr_status c) then OCSPRevoked else OCSPGood)"
      by (simp add: status_of_serial_def)
    have syn: "on_crl (cr_status c) \<longleftrightarrow> (\<exists>r \<in> set (db_revocations d). rv_certificate r = cr_id c)"
      using assms c(1) by (simp add: pki_inv_def synced_def row_synced_def)
    show ?thesis
    proof (cases "revocation_by_certificate (cr_id c) d")
      case (Inl e)
      then have "e = RecordNotFound" "\<not> on_crl (cr_status c)"
        using tbl_get_fails [OF Inl [unfolded revocation_by_certificate_def]] syn by simp_all
      then show ?thesis using Inl Inr st by (simp add: ocsp_answer_def Let_def)
    next
      case (Inr r)
      then have "on_crl (cr_status c)"
        using syn revocation_by_certificate_iff [OF pki_invD(1) [OF assms]] by blast
      then show ?thesis using Inr \<open>get_by_serial (au_id a) ?s d = Inr c\<close> st by (simp add: ocsp_answer_def Let_def)
    qed
  qed
qed

text \<open>C4: the responder answers only for an authority it can sign for without a passphrase and that the
  query names, echoes the serial and the hash, and says revoked exactly when the certificate is
  revoked or held, unknown when the authority has no such certificate, good otherwise.\<close>

theorem ocsp_tells_the_status:
  assumes "reachable d" "ocsp_respond E L i query d = Inr out"
  shows "\<exists>q a cert key t. query = Some q \<and> resolve_authority i d = Inr a \<and> \<not> au_passphrase_protected a \<and>
    matches_issuer L (Some (parse_ocsp_query q)) (Some cert) \<and>
    ocsp_create L cert cert t key = Some out \<and>
    ot_serial t = oq_serial q \<and> ot_status t = status_of_serial a (oq_serial q) d \<and>
    ot_this t = se_now E \<and> ot_next t = se_now E + ocsp_validity"
proof -
  obtain raw where raw: "query = Some raw" using assms(2) by (auto simp: ocsp_respond_def split: option.splits)
  let ?q = "parse_ocsp_query raw"
  obtain a ca resp where a: "resolve_authority i d = Inr a" "\<not> au_passphrase_protected a"
    and ca: "load_ca E a [] d = Inr ca" "matches_issuer L (Some ?q) (ca_certificate ca)"
    and resp: "ocsp_answer a ?q (se_now E) d = Inr resp"
    and sign: "sign_ocsp_response L (se_now E) ca resp = Inr out"
    using assms(2) raw by (auto simp: ocsp_respond_def Let_def split: if_splits)
  obtain cert key where c: "ca_certificate ca = Some cert" "ca_private_key ca = Some key"
    using load_caE [OF ca(1)] by (metis cert_authority.select_convs(1,2))
  have same: "oq_serial ?q = oq_serial raw" by (simp add: parse_ocsp_query_def)
  have r: "or_serial resp = Some (oq_serial raw)" "or_status resp = status_of_serial a (oq_serial raw) d"
    "or_this resp = Some (se_now E)" "or_next resp = Some (se_now E + ocsp_validity)"
    using ocsp_answer_status [OF reachable_inv [OF assms(1)], of a ?q "se_now E"] resp same by auto
  obtain t where "ocsp_create L cert cert t key = Some out" "ot_serial t = oq_serial raw"
    "ot_status t = or_status resp" "ot_this t = se_now E" "ot_next t = se_now E + ocsp_validity"
    using sign c r by (auto simp: sign_ocsp_response_def issuer_of_def Let_def crl_or_default_def)
  then show ?thesis using raw a ca(2) c(1) r(2) by auto
qed

text \<open>A library whose responses are the signed templates themselves.\<close>

definition sample_ocsp_lib :: "ocsp_template ocsp_lib" where
  "sample_ocsp_lib = \<lparr>digest = (\<lambda>h x. case x of DigestName _ \<Rightarrow> [1] | DigestKey _ \<Rightarrow> [2]), linked_hash = (\<lambda>h. True),
     ocsp_create = (\<lambda>issuer responder t key. Some t)\<rparr>"

definition sample_query :: ocsp_query where
  "sample_query = \<lparr>oq_serial = 66, oq_key_hash = [2], oq_name_hash = [1], oq_hash = SHA256\<rparr>"

theorem ocsp_tells_the_status_witness:
  "\<exists>out. ocsp_respond sample_env sample_ocsp_lib ''root'' (Some sample_query) db3 = Inr out \<and> ot_status out = OCSPRevoked"
proof -
  have st: "status_of_serial root_row 66 db3 = OCSPRevoked"
    by (simp add: status_of_serial_def www_serial(2) on_crl_def)
  have m: "matches_issuer sample_ocsp_lib (Some sample_query) (ca_certificate loaded_root)"
    by (simp add: matches_issuer_def sample_ocsp_lib_def sample_query_def ocsp_issuer_hashes_def loaded_root_def)
  have p: "parse_ocsp_query sample_query = sample_query" by (simp add: parse_ocsp_query_def sample_query_def)
  obtain resp where resp: "ocsp_answer root_row sample_query (se_now sample_env) db3 = Inr resp"
    "or_serial resp = Some (oq_serial sample_query)"
    using ocsp_answer_status [OF reachable_inv [OF reachable_db3]] by blast
  have i: "issuer_of loaded_root = Inr (root_cert, root_key)" by (simp add: issuer_of_def loaded_root_def)
  have "\<exists>out. sign_ocsp_response sample_ocsp_lib (se_now sample_env) loaded_root resp = Inr out"
    using resp(2) by (simp add: sign_ocsp_response_def i Let_def) (simp add: sample_ocsp_lib_def)
  then obtain out where "ocsp_respond sample_env sample_ocsp_lib ''root'' (Some sample_query) db3 = Inr out"
    using resp by (auto simp: ocsp_respond_def resolve_root load_root m p Let_def)
  from ocsp_tells_the_status [OF reachable_db3 this] this show ?thesis
    using st resolve_root by (auto simp: sample_ocsp_lib_def sample_query_def)
qed

end
