(* ===== verification/PkiGuarantees.thy ===== *)
theory PkiGuarantees
  imports Samples PkiBundle
begin

text \<open>
  What the PKI engine guarantees: authorities that can do their work, certificates that verify
  against their issuer and live within it, names that are well formed, and texts that read back.
\<close>

section \<open>Authorities\<close>


definition sub_request :: ca_request where
  "sub_request = root_request\<lparr>cq_subject := sample_subject ''Issuing'', cq_validity_days := 0, cq_max_path_len_zero := True\<rparr>"

definition sub_ca :: cert_authority where
  "sub_ca = ok_of (create_intermediate_ca sample_parsers (se_now sample_env) 7 [71] loaded_root sub_request)"

lemma loaded_root_simps [simp]: "ca_certificate loaded_root = Some root_cert" "ca_private_key loaded_root = Some root_key"
  "ca_chain loaded_root = []"
  by (simp_all add: loaded_root_def)

lemma root_cert_wf: "x509_wf root_cert"
  by code_simp

lemma sub_ca_made: "create_intermediate_ca sample_parsers (se_now sample_env) 7 [71] loaded_root sub_request = Inr sub_ca"
  by code_simp


section \<open>Leaf certificates\<close>

lemma issued_leaf:
  assumes "sign_public_key P now draws ca pub req = Inr cert"
    "ca_certificate ca = Some cacert" "x509_wf cacert"
  shows "check_signature_from cert cacert \<and> x_public_key cert = pub \<and> x_issuer cert = x_subject cacert \<and>
    x_not_after cert \<le> x_not_after cacert \<and> 0 < x_serial cert \<and>
    (\<not> x_is_ca cert \<longrightarrow> (\<forall>n \<in> set (sp_dns (x_sans cert)). dns_name_ok n) \<and>
      sp_dns (x_sans cert) = map san_value (filter (\<lambda>e. san_type e = san_dns)
        (san_add_dns (iq_sans req) (trim_space (common_name (iq_subject req))))))"
  using sign_public_key_sound [OF assms] sign_leaf_names [OF assms(1)] by simp



text \<open>C24: a request that was read and signed was signed by its sender with the key it asks for, and the
  certificate is for that key.\<close>

theorem signed_request_is_sound:
  assumes "parse_csr doc = Inr c" "sign_csr P now draws ca (Some c) req = Inr cert"
    "ca_certificate ca = Some cacert" "x509_wf cacert"
  shows "csr_signed_by c = csr_public_key c \<and> x_public_key cert = csr_public_key c \<and>
    check_signature_from cert cacert \<and> x_not_after cert \<le> x_not_after cacert \<and> 0 < x_serial cert"
proof -
  have "csr_check_signature c"
    using assms(1) by (auto simp: parse_csr_def parse_csr_der_def split: list.splits if_splits)
  moreover have "sign_public_key P now draws ca (csr_public_key c) (fill_from_csr c req) = Inr cert"
    using assms(2) by (auto elim: sign_csrE)
  ultimately show ?thesis using issued_leaf [OF _ assms(3,4)] by (simp add: csr_check_signature_def)
qed

definition sample_csr :: csr where
  "sample_csr = \<lparr>csr_subject = reparse_name (to_pkix (sample_subject ''api.lan'')), csr_sans = no_sans,
     csr_public_key = Ed25519Pub 9, csr_sig_alg = PureEd25519, csr_signed_by = Ed25519Pub 9\<rparr>"

definition sample_csr_doc :: document where
  "sample_csr_doc = \<lparr>doc_blocks = [plain_block block_certificate_req (DerCSR sample_csr)], doc_raw = DerJunk []\<rparr>"

definition api_cert :: x509 where
  "api_cert = ok_of (sign_csr sample_parsers (se_now sample_env) [77] loaded_root (Some sample_csr) www_request)"

theorem signed_request_is_sound_witness:
  "csr_signed_by sample_csr = csr_public_key sample_csr \<and> x_public_key api_cert = csr_public_key sample_csr \<and>
   check_signature_from api_cert root_cert"
proof -
  have "parse_csr sample_csr_doc = Inr sample_csr" by code_simp
  moreover have "sign_csr sample_parsers (se_now sample_env) [77] loaded_root (Some sample_csr) www_request = Inr api_cert"
    by code_simp
  ultimately show ?thesis using signed_request_is_sound [OF _ _ _ root_cert_wf] by fastforce
qed

text \<open>A renewal is for the same subject and, unless others are asked for, the same names, signed
  afresh with a new serial; without a rekey it is for the same key.\<close>

theorem renewal_is_sound:
  assumes "renew P now kid draws ca (Some cur) key req = Inr ic" "ca_certificate ca = Some cacert" "x509_wf cacert"
    "rq_subject req = None"
  shows "check_signature_from (ic_certificate ic) cacert \<and> x_not_after (ic_certificate ic) \<le> x_not_after cacert \<and>
    x_public_key (ic_certificate ic) = public_of (ic_private_key ic) \<and>
    (rq_rekey req \<or> key = Some (ic_private_key ic)) \<and>
    x_subject (ic_certificate ic) = reparse_name (to_pkix (subject_normalize (subject_from_pkix (x_subject cur)))) \<and>
    (x_is_ca (ic_certificate ic) \<or>
      sp_dns (x_sans (ic_certificate ic)) = map san_value (filter (\<lambda>e. san_type e = san_dns)
        (san_add_dns (if rq_sans req = [] then sans_from_certificate_like (x_sans cur) else rq_sans req)
          (trim_space (common_name (subject_from_pkix (x_subject cur)))))))"
proof -
  obtain iq where iq: "iq = renew_issue_request cur req \<or> (\<exists>spec. iq = (renew_issue_request cur req)\<lparr>iq_key_spec := spec\<rparr>)"
    and s: "sign_public_key P now draws ca (public_of (ic_private_key ic)) iq = Inr (ic_certificate ic)"
    and k: "\<not> rq_rekey req \<Longrightarrow> key = Some (ic_private_key ic)"
    using assms(1) by (rule renewE) auto
  have f: "iq_subject iq = subject_from_pkix (x_subject cur)"
    "iq_sans iq = (if rq_sans req = [] then sans_from_certificate_like (x_sans cur) else rq_sans req)"
    using iq assms(4) by (auto simp: renew_issue_request_def)
  have subj: "x_subject (ic_certificate ic) = reparse_name (to_pkix (subject_normalize (iq_subject iq)))"
    using s by (rule sign_public_keyE)
  note leaf = issued_leaf [OF s assms(2,3)]
  have names: "x_is_ca (ic_certificate ic) \<or> sp_dns (x_sans (ic_certificate ic)) = map san_value
      (filter (\<lambda>e. san_type e = san_dns) (san_add_dns (iq_sans iq) (trim_space (common_name (iq_subject iq)))))"
    using leaf by blast
  show ?thesis
    by (intro conjI) (use leaf k subj [unfolded f] names [unfolded f] in \<open>blast+\<close>)
qed

definition www_renewal :: renew_request where
  "www_renewal = \<lparr>rq_rekey = False, rq_key_spec = no_spec, rq_validity_days = 90, rq_subject = None, rq_sans = [],
     rq_profile = ''server'', rq_crl_urls = [], rq_ocsp_urls = []\<rparr>"

definition renewed_request :: issue_request where
  "renewed_request = www_request\<lparr>iq_sans := [mk_san san_dns ''www.lan''], iq_key_spec := no_spec, iq_crl_urls := [],
     iq_ocsp_urls := []\<rparr>"

definition renewed_cert :: x509 where
  "renewed_cert = ok_of (sign_public_key sample_parsers (se_now sample_env) [80] loaded_root (public_of www_key) renewed_request)"

definition www_renewed :: issued_certificate where
  "www_renewed = \<lparr>ic_certificate = renewed_cert, ic_private_key = www_key, ic_chain = issuer_chain loaded_root\<rparr>"

lemma renewed_runs:
  "renew sample_parsers (se_now sample_env) 5 [80] loaded_root (Some www_cert) (Some www_key) www_renewal = Inr www_renewed"
proof -
  have "renew_issue_request www_cert www_renewal = renewed_request" by code_simp
  moreover have "sign_public_key sample_parsers (se_now sample_env) [80] loaded_root (public_of www_key) renewed_request = Inr renewed_cert"
    by code_simp
  ultimately show ?thesis by (simp add: renew_def www_renewed_def www_renewal_def)
qed

theorem renewal_is_sound_witness:
  "check_signature_from renewed_cert root_cert \<and> x_public_key renewed_cert = public_of www_key"
  using renewal_is_sound [OF renewed_runs _ root_cert_wf] by (simp add: www_renewal_def www_renewed_def)

section \<open>Texts\<close>

text \<open>The text of a serial reads back as the serial.\<close>

theorem serial_roundtrip: "parse_serial (format_serial (Some (int n))) = Inr (int n)"
  by (rule parse_format_serial) simp

text \<open>A valid entry without surrounding blanks reads back from its text with its type.\<close>

theorem san_roundtrip:
  assumes "san_validate P s = Inr ()" "trim_space (san_value s) = san_value s"
  shows "parse_san P (san_string s) = Inr s"
  by (rule parse_san_string [OF assms])

theorem san_roundtrip_witness:
  "parse_san sample_parsers ''dns:*.www.lan'' = Inr (mk_san san_dns ''*.www.lan'')"
proof -
  have "san_validate sample_parsers (mk_san san_dns ''*.www.lan'') = Inr ()"
    "trim_space (san_value (mk_san san_dns ''*.www.lan'')) = san_value (mk_san san_dns ''*.www.lan'')"
    "san_string (mk_san san_dns ''*.www.lan'') = ''dns:*.www.lan''" by code_simp+
  then show ?thesis using san_roundtrip by metis
qed

text \<open>A list of names that was read has only valid entries, none twice up to letter case.\<close>

theorem san_list_is_clean:
  assumes "parse_san_list P raw = Inr s"
  shows "distinct (map (\<lambda>e. (san_type e, to_lower (san_value e))) s) \<and> (\<forall>e \<in> set s. san_validate P e = Inr ())"
  using parse_san_list_ok [OF assms] by (simp add: san_distinct_def)

theorem san_list_is_clean_witness:
  "distinct (map (\<lambda>e. (san_type e, to_lower (san_value e))) [mk_san san_dns ''a.lan'', mk_san san_ip ''10.0.0.1''])"
proof -
  have "parse_san_list sample_parsers ''a.lan, A.lan 10.0.0.1'' = Inr [mk_san san_dns ''a.lan'', mk_san san_ip ''10.0.0.1'']"
    by code_simp
  from san_list_is_clean [OF this] show ?thesis by blast
qed

text \<open>A name passes exactly when it has at most 253 characters and its labels are well formed, the
  first of at least three possibly being a lone star.\<close>

theorem dns_name_check_exact:
  "validate_dns_name name = Inr () \<longleftrightarrow> length name \<le> 253 \<and>
     (let labels = split_on CHR ''.'' name in
       (\<forall>l \<in> set (tl labels). l \<noteq> [] \<and> length l \<le> 63 \<and> hd l \<noteq> CHR ''-'' \<and> last l \<noteq> CHR ''-'' \<and> (\<forall>c \<in> set l. is_ldh c)) \<and>
       (hd labels = ''*'' \<and> 3 \<le> length labels \<or>
        hd labels \<noteq> [] \<and> length (hd labels) \<le> 63 \<and> hd (hd labels) \<noteq> CHR ''-'' \<and> last (hd labels) \<noteq> CHR ''-'' \<and>
          (\<forall>c \<in> set (hd labels). is_ldh c)))"
  unfolding validate_dns_name_iff dns_name_ok_def dns_label_ok_def Let_def by simp

theorem dns_name_check_exact_witness:
  "validate_dns_name ''*.a-b.lan'' = Inr () \<and> validate_dns_name ''*.lan'' \<noteq> Inr ()"
  unfolding dns_name_check_exact by code_simp

section \<open>Name constraints\<close>

lemma split_on_append_sep: "split_on c (a @ c # b) = split_on c a @ split_on c b"
proof (induction a)
  case (Cons x a)
  then show ?case by (cases "split_on c a") auto
qed simp

lemma join_append:
  "vs \<noteq> [] \<Longrightarrow> us \<noteq> [] \<Longrightarrow> join_with [c] (us @ vs) = join_with [c] us @ c # join_with [c] vs"
proof (induction us)
  case (Cons u us)
  then show ?case by (cases "us = []") (simp_all add: join_Cons)
qed simp

lemma labels_suffix: "suffix (split_on c d) (split_on c n) \<longleftrightarrow> n = d \<or> suffix (c # d) n"
proof
  assume "suffix (split_on c d) (split_on c n)"
  then obtain us where us: "split_on c n = us @ split_on c d" by (auto simp: suffix_def)
  show "n = d \<or> suffix (c # d) n"
  proof (cases "us = []")
    case True
    then show ?thesis using us join_split by (metis append_Nil)
  next
    case False
    then have "n = join_with [c] us @ c # d"
      using join_append [of "split_on c d" us c] us join_split [of c n] join_split [of c d] by simp
    then show ?thesis by (auto simp: suffix_def)
  qed
next
  assume "n = d \<or> suffix (c # d) n"
  then show "suffix (split_on c d) (split_on c n)" by (auto simp: suffix_def split_on_append_sep)
qed

text \<open>A name is within a DNS constraint exactly when the labels of the constraint are its last labels:
  \<open>notexample.com\<close> is not within \<open>example.com\<close>.\<close>

theorem dns_within_labels:
  "dns_within name c \<longleftrightarrow>
     (let d = trim_prefix ''.'' (to_lower (trim_suffix ''.'' (trim_space c)))
      in d \<noteq> [] \<and> suffix (split_on CHR ''.'' d) (split_on CHR ''.'' name))"
  by (simp add: dns_within_def Let_def labels_suffix)



section \<open>Paths\<close>

lemma chain_loop_complete:
  assumes "length (chain_loop fp k used cur pool) < k"
  defines "l \<equiv> last (cur # chain_loop fp k used cur pool)"
  shows "is_self_signed l \<and> chain_loop fp k used cur pool \<noteq> [] \<or>
    (\<forall>i \<in> set pool. check_signature_from l i \<longrightarrow> fp i \<in> set used \<union> fp ` set (chain_loop fp k used cur pool))"
  using assms(1) unfolding l_def
proof (induction k arbitrary: used cur)
  case (Suc k)
  show ?case
  proof (cases "next_issuer fp used cur pool")
    case None
    then have "chain_loop fp (Suc k) used cur pool = []" by simp
    moreover have "\<forall>i \<in> set pool. check_signature_from cur i \<longrightarrow> fp i \<in> set used"
      using None by (auto simp: next_issuer_def)
    ultimately show ?thesis by simp
  next
    case (Some i)
    show ?thesis
    proof (cases "is_self_signed i")
      case False
      then show ?thesis using Some Suc.IH [of "fp i # used" i] Suc.prems by auto
    qed (simp add: Some)
  qed
qed simp

text \<open>The path built from a pool links the leaf upwards signature by signature, repeats no
  certificate, and goes as far as it can: it ends at a self-signed certificate or where no unused
  certificate of the pool has signed its last one.\<close>

theorem built_chain_is_a_path:
  "let path = build_chain fp leaf pool; l = last (leaf # path) in
     linked (leaf # path) \<and> set path \<subseteq> set pool \<and> distinct (map fp path) \<and> fp leaf \<notin> fp ` set path \<and>
     ((path \<noteq> [] \<and> is_self_signed l) \<or> \<not> (\<exists>i \<in> set pool. check_signature_from l i \<and> fp i \<noteq> fp leaf \<and> fp i \<notin> fp ` set path))"
proof -
  let ?p = "build_chain fp leaf pool"
  have more: "chain_loop fp (length pool + 1) [fp leaf] leaf pool = ?p"
    unfolding build_chain_def by (rule chain_loop_fuel)
  have len: "length ?p < length pool + 1"
    using card_used_bound [OF conjunct1 [OF chain_loop_fresh]] unfolding build_chain_def by (simp add: le_imp_less_Suc)
  have fresh: "distinct (map fp ?p)" "fp leaf \<notin> fp ` set ?p"
    using chain_loop_fresh [of fp "length pool" "[fp leaf]" leaf pool] by (auto simp: build_chain_def)
  have "is_self_signed (last (leaf # ?p)) \<and> ?p \<noteq> [] \<or>
    (\<forall>i \<in> set pool. check_signature_from (last (leaf # ?p)) i \<longrightarrow> fp i \<in> set [fp leaf] \<union> fp ` set ?p)"
    using chain_loop_complete [of fp "length pool + 1" "[fp leaf]" leaf pool] len unfolding more by blast
  moreover have "linked (leaf # ?p)" "set ?p \<subseteq> set pool"
    unfolding build_chain_def by (rule chain_loop_linked, rule chain_loop_subset)
  ultimately show ?thesis using fresh by (auto simp: Let_def)
qed

theorem built_chain_is_a_path_witness:
  "linked (www_cert # build_chain (se_fingerprint sample_env) www_cert [root_cert, www_cert])"
  using built_chain_is_a_path [of "se_fingerprint sample_env" www_cert "[root_cert, www_cert]"] by (simp only: Let_def)

text \<open>The report on a chain is all valid exactly when every link is signed by the next and every
  certificate is within its dates.\<close>

theorem chain_report_exact:
  "(\<forall>s \<in> set (describe_chain b (Some at) now). cs_valid s) \<longleftrightarrow>
     linked (b_certificate b # b_chain b) \<and>
     (\<forall>c \<in> set (b_certificate b # b_chain b). x_not_before c \<le> at \<and> at \<le> x_not_after c)"
  by (simp only: describe_chain_def describe_links_valid option.case)

theorem chain_report_exact_witness:
  "list_all cs_valid (describe_chain \<lparr>b_certificate = www_cert, b_private_key = None, b_chain = [root_cert]\<rparr>
     (Some (se_now sample_env)) 0)"
  unfolding list_all_iff chain_report_exact by code_simp

end
