(* ===== verification/IssuanceGuarantees.thy ===== *)
theory IssuanceGuarantees
  imports StatusAnswers PkiGuarantees
begin

text \<open>
  What the service guarantees when it issues, renews and hands out certificates and keys, and
  where the code does less than its comments say.
\<close>

section \<open>Issuing\<close>

lemma parse_encoded_cert [simp]: "parse_certificate_pem (encode_certificate_pem c) = Inr c"
  by (rule parse_encoded)

lemma persistE:
  assumes "persist_certificate E u ca cert key csr inp from d = (Inr row, d')"
  obtains spec sealed where "row = certificate_row E u ca cert spec sealed csr inp from"
    "d' = db_certificates_update (\<lambda>rs. rs @ [certificate_defaults row]) d"
    "cr_id row \<notin> cr_id ` set (db_certificates d)"
    "\<And>k. key = Some k \<Longrightarrow> sealed = Sealed (se_master E) [] k"
    "key = None \<Longrightarrow> sealed = NoSealedKey"
  using assms unfolding persist_certificate_def create_certificate_row_def
  by (cases key) (auto simp: bindS_Inr_iff Let_def seal_key_def dest!: repo_create_ok)

lemma certificate_row_fields [simp]:
  "cr_authority (certificate_row E u ca cert spec key csr inp from) = au_id ca"
  "cr_cert_pem (certificate_row E u ca cert spec key csr inp from) = encode_certificate_pem cert"
  "cr_serial (certificate_row E u ca cert spec key csr inp from) = format_serial (Some (x_serial cert))"
  "cr_not_after (certificate_row E u ca cert spec key csr inp from) = x_not_after cert"
  "cr_key (certificate_row E u ca cert spec key csr inp from) = key"
  "cr_renewed_from (certificate_row E u ca cert spec key csr inp from) = from"
  "cr_id (certificate_row E u ca cert spec key csr inp from) = u"
  "cr_auto_renew (certificate_row E u ca cert spec key csr inp from) = ii_auto_renew inp"
  by (simp_all add: certificate_row_def Let_def)

lemma certificate_defaults_same [simp]:
  "cr_cert_pem (certificate_defaults c) = cr_cert_pem c" "cr_key (certificate_defaults c) = cr_key c"
  "cr_renewed_from (certificate_defaults c) = cr_renewed_from c"
  "cr_not_after (certificate_defaults c) = cr_not_after c" "cr_auto_renew (certificate_defaults c) = cr_auto_renew c"
  by (simp_all add: certificate_defaults_def)

lemma issue_certificateE:
  assumes "issue_certificate E R inp d = (Inr res, d')"
  obtains a ca spec ic where
    "resolve_authority (ii_authority inp) d = Inr a" "load_ca E a (ii_passphrase inp) d = Inr ca"
    "check_name_constraints a (common_name (apply_subject_defaults E (ii_subject inp))) (ii_sans inp) = Inr ()"
    "issue (se_parsers E) (se_now E) (dr_key R) (dr_serials R) ca
       (issue_request_of (inp\<lparr>ii_subject := apply_subject_defaults E (ii_subject inp)\<rparr>) spec
          (default_string (ii_profile inp) profile_server) a) = Inr ic"
    "persist_certificate E (dr_uuid R) a (ic_certificate ic) (Some (ic_private_key ic)) None
       (inp\<lparr>ii_subject := apply_subject_defaults E (ii_subject inp)\<rparr>) None d = (Inr (ir_row res), d')"
  using assms unfolding issue_certificate_def Let_def
  by (auto simp: bindS_Inr_iff)

text \<open>A certificate that was parsed is marked as an authority only by a basic constraints extension.\<close>

definition stored_wf :: "db \<Rightarrow> bool" where
  "stored_wf d \<longleftrightarrow> (\<forall>a \<in> set (db_authorities d). \<forall>c. parse_certificate_pem (au_cert_pem a) = Inr c \<longrightarrow> x509_wf c)"



section \<open>A common name outside the constraints\<close>

definition bare_input :: issue_input where
  "bare_input = sample_issue_input\<lparr>ii_subject := sample_subject ''intranet''\<rparr>"

definition bare_subject :: subject where
  "bare_subject = apply_subject_defaults sample_env (sample_subject ''intranet'')"

definition bare_issued :: issued_certificate where
  "bare_issued = ok_of (issue sample_parsers (se_now sample_env) 8 [72] loaded_root (www_request\<lparr>iq_subject := bare_subject\<rparr>))"

definition bare_row :: certificate where
  "bare_row = certificate_row sample_env ''cert-2'' root_row (ic_certificate bare_issued) ed25519_spec
     (Sealed 1 [] (ic_private_key bare_issued)) None (bare_input\<lparr>ii_subject := bare_subject\<rparr>) None"

lemma bare_facts:
  "subject_validate bare_subject = Inr ()" "common_name bare_subject = ''intranet''"
  "issue sample_parsers (se_now sample_env) 8 [72] loaded_root (www_request\<lparr>iq_subject := bare_subject\<rparr>) = Inr bare_issued"
  "seal_key sample_env (ic_private_key bare_issued) [] = Inr (Sealed 1 [] (ic_private_key bare_issued))"
  "marshal_private_key_pem (ic_private_key bare_issued) = Inr [plain_block block_private_key (DerKey PKCS8 (ic_private_key bare_issued))]"
  "spec_of (x_public_key (ic_certificate bare_issued)) = Inr ed25519_spec"
  "sp_dns (x_sans (ic_certificate bare_issued)) = [''intranet'']"
  "permits_dns (no_constraints\<lparr>permitted_dns := [''lan'']\<rparr>) ''intranet'' = False"
  by code_simp+

lemma bare_input_simps [simp]:
  "ii_authority bare_input = ''root''" "ii_passphrase bare_input = []" "ii_subject bare_input = sample_subject ''intranet''"
  "ii_sans bare_input = []" "ii_profile bare_input = ''server''" "ii_key_algorithm bare_input = ''ed25519''"
  "ii_validity_days bare_input = 90" "ii_key_usage bare_input = []" "ii_eku bare_input = []"
  by (simp_all add: bare_input_def)

lemma bare_persisted: "create_certificate_row bare_row db1 = (Inr (), db1\<lparr>db_certificates := [certificate_defaults bare_row]\<rparr>)"
  by (simp add: create_certificate_row_def repo_create_def certificate_clash_def tbl_has_def bare_row_def)

lemma www_request_bare:
  "\<lparr>iq_subject = bare_subject, iq_sans = [], iq_key_spec = ed25519_spec, iq_profile = ''server'',
     iq_validity_days = 90, iq_not_before = None, iq_key_usage = [], iq_eku = [],
     iq_crl_urls = [''https://pki.lan/ca/ca-1/crl.pem''], iq_ocsp_urls = [''https://pki.lan/ca/ca-1/ocsp'']\<rparr> =
   www_request\<lparr>iq_subject := bare_subject\<rparr>"
  by (simp add: www_request_def)

text \<open>A common name without a dot escapes the check of the name constraints and is then put among the
  DNS names: an authority constrained to \<open>lan\<close> issues for \<open>intranet\<close>.\<close>

theorem bare_common_name_escapes:
  "\<exists>res d' cert. issue_certificate sample_env (sample_draws 8 ''cert-2'') bare_input db1 = (Inr res, d') \<and>
     parse_certificate_pem (cr_cert_pem (ir_row res)) = Inr cert \<and> ''intranet'' \<in> set (sp_dns (x_sans cert)) \<and>
     \<not> permits_dns (au_constraints root_row) ''intranet''"
proof -
  have "resolve_authority ''root'' db1 = Inr root_row"
    by (simp add: resolve_authority_def get_authority_def get_authority_by_slug_def tbl_get_def)
  moreover obtain p where "lookup_profile ''server'' = Inr p" using www_facts(2) by (cases "lookup_profile ''server''") auto
  ultimately have "\<exists>b d'. issue_certificate sample_env (sample_draws 8 ''cert-2'') bare_input db1 =
    (Inr \<lparr>ir_row = bare_row, ir_key_pem = [plain_block block_private_key (DerKey PKCS8 (ic_private_key bare_issued))],
        ir_bundle = b\<rparr>, d')"
    by (simp add: issue_certificate_def persist_certificate_def issue_request_of_def distribution_points_def
        check_name_constraints_def bare_subject_def [symmetric] www_request_bare
        bare_row_def [symmetric] load_root root_facts www_facts bare_facts bare_persisted
        run cong: bindS_lazy let_weak_cong del: One_nat_def)
  then show ?thesis using bare_facts(7,8) by (force simp: bare_row_def)
qed

section \<open>Renewing a held certificate\<close>

text \<open>Seventy days later the held certificate is within its renewal window.\<close>

definition later_env :: svc_env where
  "later_env = sample_env\<lparr>se_now := add_days (se_now sample_env) 70\<rparr>"

definition held_row :: certificate where
  "held_row = www_row\<lparr>cr_status := StHeld\<rparr>"

definition plain_renewal :: renew_input where
  "plain_renewal = \<lparr>wi_rekey = False, wi_key_algorithm = [], wi_validity_days = 0, wi_sans = [], wi_passphrase = []\<rparr>"

definition held_request :: issue_request where
  "held_request = www_request\<lparr>iq_sans := [mk_san san_dns ''www.lan''], iq_key_spec := no_spec\<rparr>"

definition held_renewal :: renew_request where
  "held_renewal = \<lparr>rq_rekey = False, rq_key_spec = no_spec, rq_validity_days = 90, rq_subject = None, rq_sans = [],
     rq_profile = ''server'', rq_crl_urls = [''https://pki.lan/ca/ca-1/crl.pem''],
     rq_ocsp_urls = [''https://pki.lan/ca/ca-1/ocsp'']\<rparr>"

definition held_renewed :: x509 where
  "held_renewed = ok_of (sign_public_key sample_parsers (se_now later_env) [73] loaded_root (public_of www_key) held_request)"

lemma www_public_key: "x_public_key www_cert = public_of www_key"
proof -
  obtain req where "sign_public_key sample_parsers (se_now sample_env) [66] loaded_root (public_of www_key) req = Inr www_cert"
    using www_facts(8) unfolding www_cert_def www_key_def by (auto elim: issueE)
  then show ?thesis by (rule sign_public_keyE)
qed

lemma held_facts:
  "renew_issue_request www_cert held_renewal = held_request"
  "sign_public_key sample_parsers (se_now later_env) [73] loaded_root (public_of www_key) held_request = Inr held_renewed"
  "whole_days (x_not_after www_cert - x_not_before www_cert) = 90"
  by code_simp+

lemma held_key: "x_public_key held_renewed = x_public_key www_cert" "spec_of (x_public_key held_renewed) = Inr ed25519_spec"
proof -
  have "x_public_key held_renewed = public_of www_key" using held_facts(2) by (rule sign_public_keyE)
  then show "x_public_key held_renewed = x_public_key www_cert" by (simp add: www_public_key)
  then show "spec_of (x_public_key held_renewed) = Inr ed25519_spec" by (simp add: www_facts)
qed

lemma later_simps:
  "se_parsers later_env = sample_parsers" "se_master later_env = 1" "cfg_key_algorithm later_env = ''ed25519''"
  "seal_key later_env = seal_key sample_env" "open_key later_env = open_key sample_env" "load_ca later_env = load_ca sample_env"
proof -
  have m: "se_master later_env = se_master sample_env" by (simp add: later_env_def)
  show o: "open_key later_env = open_key sample_env" "seal_key later_env = seal_key sample_env"
    unfolding open_key_def [abs_def] seal_key_def [abs_def] m by (rule refl)+
  show "load_ca later_env = load_ca sample_env" unfolding load_ca_def [abs_def] o by (rule refl)
qed (simp_all add: later_env_def sample_env_simps)

lemma held_row_simps [simp]:
  "cr_id held_row = ''cert-1''" "cr_status held_row = StHeld" "cr_key held_row = Sealed 1 [] www_key"
  "cr_cert_pem held_row = encode_certificate_pem www_cert" "cr_profile held_row = ''server''"
  "cr_validity_days held_row = 90" "cr_auto_renew held_row = True" "cr_authority held_row = ''ca-1''"
  "cr_renew_before held_row = 30" "cr_not_after held_row = x_not_after www_cert"
  by (simp_all add: held_row_def www_row_def certificate_row_def Let_def default_string_def sample_issue_input_def
      renewal_window_def held_facts(3) del: One_nat_def)

definition renewed_row :: certificate where
  "renewed_row = certificate_row later_env ''cert-3'' root_row held_renewed ed25519_spec (Sealed 1 [] www_key) None
     ((blank_input ''ca-1'' ''server'' 0 (cr_labels held_row) (cr_notes held_row))\<lparr>ii_auto_renew := True, ii_renew_before := 30\<rparr>)
     (Some ''cert-1'')"

lemma held_persisted:
  "\<exists>d'. create_certificate_row renewed_row db3 = (Inr (), d')"
proof -
  have "x_serial held_renewed = 73" by code_simp
  moreover have "format_serial (Some 73) \<noteq> format_serial (Some 66)" by code_simp
  ultimately show ?thesis
    by (simp add: create_certificate_row_def repo_create_def certificate_clash_def tbl_has_def renewed_row_def www_serial)
qed

lemma held_renew_runs:
  "renew sample_parsers (se_now later_env) 9 [73] loaded_root (Some www_cert) (Some www_key) held_renewal =
   Inr \<lparr>ic_certificate = held_renewed, ic_private_key = www_key, ic_chain = issuer_chain loaded_root\<rparr>"
proof -
  have "\<not> rq_rekey held_renewal" by (simp add: held_renewal_def)
  then show ?thesis by (simp add: renew_def held_facts(1,2))
qed

text \<open>A certificate on hold is picked by the automatic renewal and renewed: the suspect key gets a new
  certificate that is active, while the old one is still on the revocation list.\<close>

theorem held_certificate_is_renewed:
  "held_row \<in> set (due_for_auto_renew (se_now later_env) db3) \<and>
   (\<exists>res d' cert. renew_certificate later_env (sample_draws 9 ''cert-3'') ''cert-1'' plain_renewal db3 = (Inr res, d') \<and>
     cr_status (ir_row res) = StActive \<and> parse_certificate_pem (cr_cert_pem (ir_row res)) = Inr cert \<and>
     x_public_key cert = x_public_key www_cert)"
proof
  have "x_not_after www_cert < se_now later_env + 30 * day" by code_simp
  then show "held_row \<in> set (due_for_auto_renew (se_now later_env) db3)"
    by (simp add: due_iff held_row_def [symmetric])
next
  obtain d' where d': "create_certificate_row renewed_row db3 = (Inr (), d')" using held_persisted by blast
  have get: "get_with_authority ''cert-1'' db3 = Inr (held_row, root_row)"
    by (simp add: get_with_authority_def get_certificate_def get_authority_def tbl_get_def held_row_def [symmetric])
  have "\<exists>res d'. renew_certificate later_env (sample_draws 9 ''cert-3'') ''cert-1'' plain_renewal db3 = (Inr res, d') \<and> ir_row res = renewed_row"
    by (simp add: renew_certificate_def persist_certificate_def renewal_key_def renewal_spec_def has_private_key_def
        plain_renewal_def get load_root later_simps open_key_def held_renew_runs distribution_points_def
        held_renewal_def [symmetric] held_key held_facts root_facts www_facts d' renewed_row_def [symmetric]
        run cong: bindS_lazy let_weak_cong del: One_nat_def)
  then show "\<exists>res d' cert. renew_certificate later_env (sample_draws 9 ''cert-3'') ''cert-1'' plain_renewal db3 = (Inr res, d') \<and>
     cr_status (ir_row res) = StActive \<and> parse_certificate_pem (cr_cert_pem (ir_row res)) = Inr cert \<and>
     x_public_key cert = x_public_key www_cert"
    using held_key(1) by (force simp: renewed_row_def)
qed

section \<open>Renewing an authority\<close>

lemma renew_authorityE:
  assumes "renew_authority E R i inp d = (Inr a, d')"
  obtains row ca old key cert where
    "resolve_authority i d = Inr row" "load_ca E row (ni_passphrase inp) d = Inr ca" "issuer_of ca = Inr (old, key)"
    "resign_authority E R inp row ca old key d = (Inr cert, d)"
    "au_cert_pem a = encode_certificate_pem cert" "au_constraints a = au_constraints row" "au_path_len a = au_path_len row"
proof -
  obtain row where row: "resolve_authority i d = Inr row" and nr: "\<not> ni_rekey inp" and
    1: "bindS (readS (load_ca E row (ni_passphrase inp))) (\<lambda>ca. bindS (liftE (map_err EPki (issuer_of ca))) (\<lambda>(cert, key).
     bindS (resign_authority E R inp row ca cert key) (\<lambda>renewed.
     let row = row\<lparr>au_cert_pem := encode_certificate_pem renewed, au_serial := format_serial (Some (x_serial renewed)),
         au_not_before := x_not_before renewed, au_not_after := x_not_after renewed,
         au_fingerprint := se_fingerprint E renewed, au_status := StActive\<rparr> in
     bindS (store_op (update_authority_row row)) (\<lambda>_. returnS row)))) d = (Inr a, d')"
    using assms unfolding renew_authority_def by (elim bindS_InrE) (simp split: if_split_asm)
  obtain ca where ca: "load_ca E row (ni_passphrase inp) d = Inr ca" and
    2: "bindS (liftE (map_err EPki (issuer_of ca))) (\<lambda>(cert, key).
     bindS (resign_authority E R inp row ca cert key) (\<lambda>renewed.
     let row = row\<lparr>au_cert_pem := encode_certificate_pem renewed, au_serial := format_serial (Some (x_serial renewed)),
         au_not_before := x_not_before renewed, au_not_after := x_not_after renewed,
         au_fingerprint := se_fingerprint E renewed, au_status := StActive\<rparr> in
     bindS (store_op (update_authority_row row)) (\<lambda>_. returnS row))) d = (Inr a, d')"
    using 1 by (rule bindS_InrE) simp
  obtain old key where iss: "issuer_of ca = Inr (old, key)" and
    3: "bindS (resign_authority E R inp row ca old key) (\<lambda>renewed.
     let row = row\<lparr>au_cert_pem := encode_certificate_pem renewed, au_serial := format_serial (Some (x_serial renewed)),
         au_not_before := x_not_before renewed, au_not_after := x_not_after renewed,
         au_fingerprint := se_fingerprint E renewed, au_status := StActive\<rparr> in
     bindS (store_op (update_authority_row row)) (\<lambda>_. returnS row)) d = (Inr a, d')"
    using 2 by (rule bindS_InrE) auto
  obtain cert e where re: "resign_authority E R inp row ca old key d = (Inr cert, e)" and
    4: "(let row = row\<lparr>au_cert_pem := encode_certificate_pem cert, au_serial := format_serial (Some (x_serial cert)),
         au_not_before := x_not_before cert, au_not_after := x_not_after cert,
         au_fingerprint := se_fingerprint E cert, au_status := StActive\<rparr> in
     bindS (store_op (update_authority_row row)) (\<lambda>_. returnS row)) e = (Inr a, d')"
    using 3 by (rule bindS_InrE)
  have "e = d" using re by (auto elim: resign_authorityE)
  moreover have "a = row\<lparr>au_cert_pem := encode_certificate_pem cert, au_serial := format_serial (Some (x_serial cert)),
         au_not_before := x_not_before cert, au_not_after := x_not_after cert,
         au_fingerprint := se_fingerprint E cert, au_status := StActive\<rparr>"
    using 4 unfolding Let_def by (elim bindS_InrE) simp
  ultimately show thesis using that [OF row ca iss] re by simp
qed

text \<open>A renewed authority has lost its name constraints and its path length, although its row still
  shows them, and a root never gains validity by its own renewal.\<close>

theorem renewed_authority_loses_limits:
  assumes "renew_authority E R i inp d = (Inr a, d')"
  shows "\<exists>row old cert. resolve_authority i d = Inr row \<and> parse_certificate_pem (au_cert_pem row) = Inr old \<and>
    parse_certificate_pem (au_cert_pem a) = Inr cert \<and>
    x_constraints_of cert = unconstrained \<and> x_max_path_len cert = -1 \<and>
    au_constraints a = au_constraints row \<and> au_path_len a = au_path_len row \<and>
    (au_type row \<noteq> TypeRoot \<or> x_not_after cert \<le> x_not_after old)"
proof -
  obtain row ca old key cert where row: "resolve_authority i d = Inr row" and ca: "load_ca E row (ni_passphrase inp) d = Inr ca"
    and iss: "issuer_of ca = Inr (old, key)" and re: "resign_authority E R inp row ca old key d = (Inr cert, d)"
    and a: "au_cert_pem a = encode_certificate_pem cert" "au_constraints a = au_constraints row" "au_path_len a = au_path_len row"
    using assms by (rule renew_authorityE)
  have old: "ca_certificate ca = Some old" using iss by (auto simp: issuer_of_def split: option.splits)
  have oldpem: "parse_certificate_pem (au_cert_pem row) = Inr old"
    using load_caE [OF ca] old by (metis cert_authority.select_convs(1) option.inject)
  obtain signer req where
    s: "sign_public_key (se_parsers E) (se_now E) (dr_serials R) signer (public_of key) req = Inr cert"
    and root: "au_type row = TypeRoot \<Longrightarrow> signer = ca"
    using re by (auto elim: resign_authorityE)
  have con: "x_constraints_of cert = unconstrained" using s by (rule sign_public_keyE)
  have path: "x_max_path_len cert = -1" using s by (rule sign_public_keyE)
  have "x_not_after cert \<le> x_not_after old" if "au_type row = TypeRoot"
  proof -
    obtain p cacert where "ca_certificate signer = Some cacert" and
      chk: "check_issuer_can_sign (se_now E) cacert (add_days (start_of (se_now E) (iq_not_before req))
         (default_days (iq_validity_days req) p)) (profile_is_ca p) = Inr ()" and
      na: "x_not_after cert = trunc_seconds (add_days (start_of (se_now E) (iq_not_before req)) (default_days (iq_validity_days req) p))"
      using s by (rule sign_public_keyE)
    then have "cacert = old" using root that old by simp
    then show ?thesis using check_issuer_InrD(4) [OF chk] na trunc_seconds_le order_trans by metis
  qed
  then show ?thesis using row oldpem a con path by auto
qed

definition renew_root_input :: renew_authority_input where
  "renew_root_input = \<lparr>ni_validity_days = 30, ni_rekey = False, ni_passphrase = [], ni_parent_passphrase = []\<rparr>"

lemma root_renewal_runs: "\<exists>a d'. renew_authority sample_env (sample_draws 10 []) ''root'' renew_root_input db3 = (Inr a, d')"
proof -
  obtain cert where cert: "sign_public_key sample_parsers (se_now sample_env) [74] loaded_root (public_of root_key)
      (renewal_issue_request (subject_from_pkix (x_subject root_cert)) profile_root 30) = Inr cert"
  proof -
    have "\<not> isl (sign_public_key sample_parsers (se_now sample_env) [74] loaded_root (public_of root_key)
      (renewal_issue_request (subject_from_pkix (x_subject root_cert)) profile_root 30))" by code_simp
    then show ?thesis using that by (metis isl_def sum.exhaust)
  qed
  let ?a = "root_row\<lparr>au_cert_pem := encode_certificate_pem cert, au_serial := format_serial (Some (x_serial cert)),
      au_not_before := x_not_before cert, au_not_after := x_not_after cert,
      au_fingerprint := se_fingerprint sample_env cert, au_status := StActive\<rparr>"
  have up: "update_authority_row ?a db3 = (Inr (), db_authorities_update (tbl_put au_id ?a) db3)"
    by (rule update_authority_ok [OF pki_invD(1) [OF reachable_inv [OF reachable_db3]], of root_row]) simp_all
  have "au_type root_row = TypeRoot" by (simp add: root_row_def root_row0_def authority_row_def)
  then show ?thesis using up
    by (simp add: renew_authority_def resign_authority_def renew_root_input_def resolve_root load_root root_facts(7) issuer_of_def cert
        run cong: bindS_lazy let_weak_cong)
qed

theorem renewed_authority_loses_limits_witness:
  "\<exists>a d' cert. renew_authority sample_env (sample_draws 10 []) ''root'' renew_root_input db3 = (Inr a, d') \<and>
    parse_certificate_pem (au_cert_pem a) = Inr cert \<and> x_constraints_of cert = unconstrained \<and>
    x_constraints_of root_cert \<noteq> unconstrained"
proof -
  obtain a d' where r: "renew_authority sample_env (sample_draws 10 []) ''root'' renew_root_input db3 = (Inr a, d')"
    using root_renewal_runs by blast
  have "xp_dns (x_constraints_of root_cert) = [''lan'']" by code_simp
  then have "x_constraints_of root_cert \<noteq> unconstrained" by (auto simp: unconstrained_def)
  then show ?thesis using renewed_authority_loses_limits [OF r] r by blast
qed

section \<open>Deleting an authority\<close>

text \<open>An authority with certificates or with authorities below it is not deleted without force, and
  the refusal changes nothing.\<close>

theorem authority_in_use_is_kept:
  assumes "resolve_authority i d = Inr a"
    "(\<exists>c \<in> set (db_certificates d). cr_authority c = au_id a) \<or> (\<exists>b \<in> set (db_authorities d). au_parent b = Some (au_id a))"
  shows "\<exists>n. delete_authority i False d = (Inl (EStore (RecordInUse n)), d) \<and> 0 < n"
proof -
  let ?cs = "filter (\<lambda>c. cr_authority c = au_id a) (db_certificates d)"
  let ?bs = "filter (\<lambda>b. au_parent b = Some (au_id a)) (db_authorities d)"
  have "?cs \<noteq> [] \<or> ?bs \<noteq> []" using assms(2) by (auto simp: filter_empty_conv)
  then have "delete_authority_row (au_id a) False d = (Inl (RecordInUse (if ?cs \<noteq> [] then length ?cs else length ?bs)), d)"
    by (simp add: delete_authority_row_def bindS_def Let_def)
  then show ?thesis using assms(1) \<open>?cs \<noteq> [] \<or> ?bs \<noteq> []\<close>
    by (auto simp: delete_authority_def bindS_def store_read_def store_op_def map_errS_def)
qed

theorem authority_in_use_is_kept_witness:
  "\<exists>n. delete_authority ''root'' False db3 = (Inl (EStore (RecordInUse n)), db3) \<and> 0 < n"
  by (rule authority_in_use_is_kept [OF resolve_root]) simp

section \<open>Issuer walks\<close>

text \<open>C39: in a reachable database of at most sixteen authorities the walk to the root ends, at a root,
  along recorded parents.\<close>

theorem issuer_walk_ends:
  assumes "reachable d" "a \<in> set (db_authorities d)" "length (db_authorities d) \<le> 16"
  shows "\<exists>as. authority_chain a d = Inr as \<and> set as \<subseteq> set (db_authorities d) \<and>
    map (Some \<circ> au_id) as = butlast (map au_parent (a # as)) \<and> au_parent (last (a # as)) = None"
proof -
  have "ordered d" "db_ok d" using reachable_inv [OF assms(1)] by (simp_all add: pki_inv_def)
  moreover have "position d a < 16"
    using length_takeWhile_lt [OF assms(2), of "\<lambda>x. au_id x \<noteq> au_id a"] assms(3) by (simp add: position_def)
  ultimately obtain as where "chain_walk 16 (au_id a) a d = Inr as" using chain_walk_total assms(2) by blast
  then show ?thesis using chain_walk_shape [of 16 "au_id a" a d as] by (auto simp: authority_chain_def)
qed

theorem issuer_walk_ends_witness:
  "\<exists>as. authority_chain root_row db3 = Inr as \<and> au_parent (last (root_row # as)) = None"
  using issuer_walk_ends [OF reachable_db3, of root_row] by auto

section \<open>Handing out keys\<close>

lemma authorize_once:
  assumes "cfg_download_policy E = ''once''" "has_private_key c" "cr_key_downloads c \<le> 0"
    "c \<in> set (db_certificates d)"
  shows "authorize_key_download E c d = (Inr (), db_certificates_update (tbl_set (\<lambda>x. cr_id x = cr_id c)
      (\<lambda>r. r\<lparr>cr_key_downloads := cr_key_downloads c + 1, cr_last_downloaded := Some (se_now E)\<rparr>)) d)"
proof -
  have "tbl_has cr_id (cr_id c) (db_certificates d)" using assms(4) by (auto simp: tbl_has_iff)
  then show ?thesis
    using assms by (simp add: authorize_key_download_def update_certificate_fields_def store_op_def map_errS_def)
qed



text \<open>The check and the count are two steps: two requests that have both read the row before either
  writes are both given the key, and one download is counted.\<close>

theorem key_leaves_twice_in_a_race:
  assumes "cfg_download_policy E = ''once''" "has_private_key c" "cr_key_downloads c = 0"
    "c \<in> set (db_certificates d)" "authorize_key_download E c d = (Inr (), d1)"
  shows "authorize_key_download E c d1 = (Inr (), d1)"
proof -
  let ?f = "\<lambda>r. r\<lparr>cr_key_downloads := cr_key_downloads c + 1, cr_last_downloaded := Some (se_now E)\<rparr>"
  let ?d = "db_certificates_update (tbl_set (\<lambda>x. cr_id x = cr_id c) ?f)"
  have d1: "d1 = ?d d" using authorize_once [OF assms(1,2) _ assms(4)] assms(3,5) by simp
  have "tbl_set p ?f (tbl_set p ?f rows) = tbl_set p ?f rows" if "\<And>x. p (?f x) = p x" for p and rows :: "certificate list"
    using that by (induction rows) auto
  then have twice: "?d d1 = d1" unfolding d1 by (cases d) simp
  have "cr_id ` set (db_certificates d1) = cr_id ` set (db_certificates d)" by (simp add: d1 image_tbl_set)
  then have "tbl_has cr_id (cr_id c) (db_certificates d1)" using assms(4) by (simp add: tbl_has_iff)
  then have "authorize_key_download E c d1 = (Inr (), ?d d1)"
    using assms(1-3) by (simp add: authorize_key_download_def update_certificate_fields_def store_op_def map_errS_def)
  then show ?thesis by (simp only: twice)
qed

theorem key_leaves_twice_in_a_race_witness:
  "\<exists>d1. authorize_key_download sample_env www_row db2 = (Inr (), d1) \<and> authorize_key_download sample_env www_row d1 = (Inr (), d1)"
proof -
  have f: "cr_key_downloads www_row = 0" "has_private_key www_row" "cfg_download_policy sample_env = ''once''"
    by (simp_all add: www_row_def certificate_row_def Let_def has_private_key_def sample_env_def)
  have run: "\<exists>d1. authorize_key_download sample_env www_row db2 = (Inr (), d1)"
    using authorize_once [OF f(3,2), of db2] f(1) by simp
  then show ?thesis using key_leaves_twice_in_a_race [OF f(3,2,1), of db2] by auto
qed

section \<open>Renewal windows\<close>

lemma div_times_le_int: "0 < (b :: int) \<Longrightarrow> a div b * b \<le> a"
  using minus_mod_eq_div_mult [of a b] pos_mod_sign [of b a] by linarith

lemma renewal_window_bounds:
  "0 < days \<Longrightarrow> 1 \<le> renewal_window r True days \<and> (2 \<le> days \<longrightarrow> renewal_window r True days < days)"
proof -
  assume d: "0 < days"
  have h: "trunc_div days 2 = days div 2" using d by (simp add: trunc_div_def)
  have "days div 2 < days" using d by simp
  moreover have "2 \<le> days \<longrightarrow> 1 \<le> days div 2" by auto
  ultimately show ?thesis using d by (auto simp: renewal_window_def Let_def h)
qed

text \<open>A certificate that renews itself and is valid for two days or more is not due when it is issued,
  so that its renewal does not start a chain of renewals.\<close>

theorem fresh_certificate_is_not_due:
  assumes "2 \<le> whole_days (x_not_after cert - x_not_before cert)" "now - clock_skew - second \<le> x_not_before cert"
    "ii_auto_renew inp"
  shows "certificate_defaults (certificate_row E u ca cert spec key csr inp from) \<notin>
    set (due_for_auto_renew now (db\<lparr>db_certificates := [certificate_defaults (certificate_row E u ca cert spec key csr inp from)]\<rparr>))"
proof -
  let ?life = "x_not_after cert - x_not_before cert"
  let ?n = "whole_days ?life"
  let ?w = "renewal_window (ii_renew_before inp) True ?n"
  have w: "1 \<le> ?w" "?w \<le> ?n - 1" using renewal_window_bounds [of ?n] assms(1) by auto
  have "0 \<le> ?life" using whole_days_mono_neg [of ?life] assms(1) by (cases "0 \<le> ?life") auto
  then have "?n * day \<le> ?life" by (simp add: whole_days_nonneg div_times_le_int)
  moreover have "?w * day \<le> (?n - 1) * day" using w(2) by (simp add: mult_right_mono less_imp_le)
  moreover have "(?n - 1) * day = ?n * day - day" by (simp add: left_diff_distrib)
  moreover have "clock_skew + second < day"
    by (simp add: clock_skew_def day_def hour_def minute_def second_def)
  ultimately have "now + ?w * day \<le> x_not_after cert" using assms(2) by linarith
  then show ?thesis using w(1) assms(3)
    by (simp add: due_iff certificate_defaults_def certificate_row_def Let_def)
qed

theorem fresh_certificate_is_not_due_witness:
  "\<exists>row. cr_auto_renew row \<and> row \<notin> set (due_for_auto_renew (se_now sample_env) (db2\<lparr>db_certificates := [row]\<rparr>))"
proof -
  let ?inp = "sample_issue_input\<lparr>ii_auto_renew := True\<rparr>"
  let ?row = "certificate_defaults (certificate_row sample_env ''cert-1'' root_row www_cert ed25519_spec NoSealedKey None ?inp None)"
  have "whole_days (x_not_after www_cert - x_not_before www_cert) = 90"
    "se_now sample_env - clock_skew - second \<le> x_not_before www_cert" by code_simp+
  then have "?row \<notin> set (due_for_auto_renew (se_now sample_env) (db2\<lparr>db_certificates := [?row]\<rparr>))"
    using fresh_certificate_is_not_due [of www_cert "se_now sample_env" ?inp] by simp
  moreover have "cr_auto_renew ?row" by (simp add: certificate_defaults_def certificate_row_def Let_def)
  ultimately show ?thesis by blast
qed

end
