(* ===== verification/StoreAcme.thy ===== *)
theory StoreAcme
  imports StoreInv
begin

text \<open>
  \<open>internal/store/repo_acme.go\<close>: accounts, external account bindings, orders,
  authorizations, challenges and nonces.
\<close>

definition account_clash :: "db \<Rightarrow> acme_account \<Rightarrow> store_error option" where
  "account_clash d a =
     (if list_ex (\<lambda>x. aa_id x \<noteq> aa_id a \<and> aa_thumbprint x = aa_thumbprint a) (db_accounts d)
      then Some RecordConflict else None)"

definition external_clash :: "db \<Rightarrow> acme_external \<Rightarrow> store_error option" where
  "external_clash d e =
     (if list_ex (\<lambda>x. ax_id x \<noteq> ax_id e \<and> ax_kid x = ax_kid e) (db_externals d)
      then Some RecordConflict else None)"

definition order_clash :: "db \<Rightarrow> acme_order \<Rightarrow> store_error option" where
  "order_clash d q = (if tbl_has aa_id (ao_account q) (db_accounts d) then None else Some ForeignKeyViolation)"

section \<open>Accounts and bindings\<close>

definition create_account :: "acme_account \<Rightarrow> (db, store_error, unit) op" where
  "create_account = repo_create db_accounts db_accounts_update aa_id account_clash"

definition update_account :: "acme_account \<Rightarrow> (db, store_error, unit) op" where
  "update_account = repo_save db_accounts_update aa_id account_clash"

definition get_account :: "string \<Rightarrow> db \<Rightarrow> store_error + acme_account" where
  "get_account i d = tbl_get aa_id i (db_accounts d)"

definition account_by_thumbprint :: "string \<Rightarrow> db \<Rightarrow> store_error + acme_account" where
  "account_by_thumbprint t d = tbl_get aa_thumbprint t (db_accounts d)"

definition create_external :: "acme_external \<Rightarrow> (db, store_error, unit) op" where
  "create_external = repo_create db_externals db_externals_update ax_id external_clash"

definition update_external :: "acme_external \<Rightarrow> (db, store_error, unit) op" where
  "update_external = repo_save db_externals_update ax_id external_clash"

definition external_by_kid :: "string \<Rightarrow> db \<Rightarrow> store_error + acme_external" where
  "external_by_kid k d = tbl_get ax_kid k (db_externals d)"

definition get_external :: "string \<Rightarrow> db \<Rightarrow> store_error + acme_external" where
  "get_external i d = tbl_get ax_id i (db_externals d)"

definition delete_external :: "string \<Rightarrow> (db, store_error, unit) op" where
  "delete_external i = (\<lambda>d. if tbl_has ax_id i (db_externals d)
     then (Inr (), db_externals_update (filter (\<lambda>e. ax_id e \<noteq> i)) d) else (Inl RecordNotFound, d))"

section \<open>Orders, authorizations and challenges\<close>

definition create_order :: "acme_order \<Rightarrow> (db, store_error, unit) op" where
  "create_order = repo_create db_orders db_orders_update ao_id order_clash"

definition update_order :: "acme_order \<Rightarrow> (db, store_error, unit) op" where
  "update_order = repo_save db_orders_update ao_id order_clash"

definition get_order :: "string \<Rightarrow> db \<Rightarrow> store_error + acme_order" where
  "get_order i d = tbl_get ao_id i (db_orders d)"

definition orders_by_account :: "string \<Rightarrow> int \<Rightarrow> db \<Rightarrow> acme_order list" where
  "orders_by_account i n d = take (nat (if n \<le> 0 then 100 else n))
     (sort_key (\<lambda>q. - ao_created_at q) (filter (\<lambda>q. ao_account q = i) (db_orders d)))"

definition create_authz :: "acme_authz \<Rightarrow> (db, store_error, unit) op" where
  "create_authz = repo_create db_authzs db_authzs_update az_id (\<lambda>_ _. None)"

definition update_authz :: "acme_authz \<Rightarrow> (db, store_error, unit) op" where
  "update_authz = repo_save db_authzs_update az_id (\<lambda>_ _. None)"

definition get_authz :: "string \<Rightarrow> db \<Rightarrow> store_error + acme_authz" where
  "get_authz i d = tbl_get az_id i (db_authzs d)"

definition authzs_by_order :: "string \<Rightarrow> db \<Rightarrow> acme_authz list" where
  "authzs_by_order i d = sort_key az_created_at (filter (\<lambda>a. az_order a = i) (db_authzs d))"

definition create_challenge :: "acme_challenge \<Rightarrow> (db, store_error, unit) op" where
  "create_challenge = repo_create db_challenges db_challenges_update ch_id (\<lambda>_ _. None)"

definition update_challenge :: "acme_challenge \<Rightarrow> (db, store_error, unit) op" where
  "update_challenge = repo_save db_challenges_update ch_id (\<lambda>_ _. None)"

definition get_challenge :: "string \<Rightarrow> db \<Rightarrow> store_error + acme_challenge" where
  "get_challenge i d = tbl_get ch_id i (db_challenges d)"

definition challenges_by_authz :: "string \<Rightarrow> db \<Rightarrow> acme_challenge list" where
  "challenges_by_authz i d = sort_key ch_created_at (filter (\<lambda>c. ch_authz c = i) (db_challenges d))"

section \<open>Nonces\<close>

text \<open>\<open>OnConflict\{DoNothing\}\<close>: an existing value is left alone.\<close>

definition issue_nonce :: "instant \<Rightarrow> string \<Rightarrow> duration \<Rightarrow> db \<Rightarrow> db" where
  "issue_nonce now v ttl d =
     (if tbl_has nc_value v (db_nonces d) then d
      else db_nonces_update (\<lambda>ns. ns @ [\<lparr>nc_value = v, nc_issued = now, nc_expires = now + ttl\<rparr>]) d)"

definition nonce_live :: "instant \<Rightarrow> string \<Rightarrow> acme_nonce \<Rightarrow> bool" where
  "nonce_live now v n = (nc_value n = v \<and> now < nc_expires n)"

definition spend_nonce_row :: "instant \<Rightarrow> string \<Rightarrow> db \<Rightarrow> bool \<times> db" where
  "spend_nonce_row now v d =
     (list_ex (nonce_live now v) (db_nonces d), db_nonces_update (filter (\<lambda>n. \<not> nonce_live now v n)) d)"

definition prune_nonces :: "instant \<Rightarrow> db \<Rightarrow> nat \<times> db" where
  "prune_nonces before d =
     (length (filter (\<lambda>n. nc_expires n < before) (db_nonces d)),
      db_nonces_update (filter (\<lambda>n. \<not> nc_expires n < before)) d)"

section \<open>Pruning orders\<close>

fun prune_order_children :: "acme_order list \<Rightarrow> db \<Rightarrow> db" where
  "prune_order_children [] d = d"
| "prune_order_children (q # qs) d =
     (let as = map az_id (filter (\<lambda>a. az_order a = ao_id q) (db_authzs d));
          d = fold (\<lambda>i. db_challenges_update (filter (\<lambda>c. ch_authz c \<noteq> i))) as d;
          d = db_authzs_update (filter (\<lambda>a. az_order a \<noteq> ao_id q)) d
      in prune_order_children qs d)"

definition prune_orders :: "instant \<Rightarrow> db \<Rightarrow> nat \<times> db" where
  "prune_orders before d =
     (let stale = filter (\<lambda>q. ao_expires q < before) (db_orders d);
          d = prune_order_children stale d
      in (length (filter (\<lambda>q. ao_expires q < before) (db_orders d)),
          db_orders_update (filter (\<lambda>q. \<not> ao_expires q < before)) d))"

section \<open>The repositories\<close>

lemmas acme_repo_defs = get_account_def create_account_def update_account_def get_external_def
  create_external_def update_external_def get_order_def create_order_def update_order_def get_authz_def
  create_authz_def update_authz_def get_challenge_def create_challenge_def update_challenge_def

interpretation accounts: repository db_accounts aa_id id get_account create_account update_account
  by unfold_locales (auto simp: acme_repo_defs dest!: repo_create_ok repo_save_ok repo_fail)

interpretation externals: repository db_externals ax_id id get_external create_external update_external
  by unfold_locales (auto simp: acme_repo_defs dest!: repo_create_ok repo_save_ok repo_fail)

interpretation orders: repository db_orders ao_id id get_order create_order update_order
  by unfold_locales (auto simp: acme_repo_defs dest!: repo_create_ok repo_save_ok repo_fail)

interpretation authzs: repository db_authzs az_id id get_authz create_authz update_authz
  by unfold_locales (auto simp: acme_repo_defs dest!: repo_create_ok repo_save_ok repo_fail)

interpretation challenges: repository db_challenges ch_id id get_challenge create_challenge update_challenge
  by unfold_locales (auto simp: acme_repo_defs dest!: repo_create_ok repo_save_ok repo_fail)

section \<open>Nonces are spent once\<close>

lemma spend_nonce_once:
  "spend_nonce_row now v d = (ok, d') \<Longrightarrow> spend_nonce_row later v d' = (b, d'') \<Longrightarrow> now \<le> later \<Longrightarrow> \<not> b"
  by (auto simp: spend_nonce_row_def nonce_live_def list_ex_iff)

lemma spend_issued:
  assumes "\<not> tbl_has nc_value v (db_nonces d)" "now \<le> t" "t < now + ttl"
  shows "fst (spend_nonce_row t v (issue_nonce now v ttl d))"
  using assms by (auto simp: spend_nonce_row_def nonce_live_def issue_nonce_def)

lemma spend_other: "v \<noteq> w \<Longrightarrow> fst (spend_nonce_row t w (snd (spend_nonce_row now v d))) = fst (spend_nonce_row t w d)"
  by (auto simp: spend_nonce_row_def nonce_live_def list_ex_iff)

text \<open>Pruning never removes a nonce that could still be spent.\<close>

lemma prune_keeps_live:
  "before \<le> t \<Longrightarrow> fst (spend_nonce_row t v (snd (prune_nonces before d))) = fst (spend_nonce_row t v d)"
  by (auto simp: spend_nonce_row_def nonce_live_def prune_nonces_def list_ex_iff)

lemma fold_drop_challenges:
  "fold (\<lambda>i. db_challenges_update (filter (\<lambda>c. ch_authz c \<noteq> i))) is d =
   db_challenges_update (filter (\<lambda>c. ch_authz c \<notin> set is)) d"
  by (induction "is" arbitrary: d) (simp_all add: comp_def conj_commute)

lemma prune_children_frame:
  "db_orders (prune_order_children qs d) = db_orders d"
  "db_accounts (prune_order_children qs d) = db_accounts d"
  "db_certificates (prune_order_children qs d) = db_certificates d"
  "db_authorities (prune_order_children qs d) = db_authorities d"
  "db_revocations (prune_order_children qs d) = db_revocations d"
  by (induction qs arbitrary: d) (simp_all add: Let_def fold_drop_challenges)

lemma prune_children_authzs:
  "db_authzs (prune_order_children qs d) = filter (\<lambda>a. az_order a \<notin> ao_id ` set qs) (db_authzs d)"
  by (induction qs arbitrary: d) (auto simp: Let_def fold_drop_challenges intro!: filter_cong)

end
