(* ===== verification/SvcAcme.thy ===== *)
theory SvcAcme
  imports StoreAcme SvcCertificate
begin

text \<open>
  \<open>internal/service/acme.go\<close>: the ACME server - nonces, registration with external account
  binding, orders, challenge validation, finalization and revocation.

  \<open>acme_env\<close> extends the service environment with the ACME configuration.  A parsed JWK is
  known by its thumbprint and its encoding, each absent when the library refuses the key; an
  external account binding by what parsing its JWS gives and by the verdict of its HMAC
  check.  The outcome of a challenge (the HTTP fetch or DNS lookup of
  \<open>internal/acme/challenge.go\<close>) is an argument of the validation: \<open>None\<close> for success.
\<close>

datatype acme_error =
    BadNonce | ServerInternal | BadPublicKey | Unauthorized | AccountDoesNotExist | UserActionRequired
  | ExternalAccountRequired | Malformed | RateLimited | UnsupportedIdentifier | RejectedIdentifier
  | BadCSRProblem | OrderNotReady | AlreadyRevoked | BadRevocationReason

datatype problem = Problem (problem_kind: acme_error) (problem_detail: string)

type_synonym 'a acme = "(db, problem, 'a) op"

record acme_env = svc_env +
  ac_authority :: string
  ac_validity_days :: int
  ac_require_eab :: bool
  ac_http01 :: bool
  ac_dns01 :: bool
  ac_terms_url :: string
  ac_parse_time :: "string \<Rightarrow> instant option"

definition nonce_ttl :: duration where "nonce_ttl = hour"
definition order_ttl :: duration where "order_ttl = 7 * 24 * hour"
definition authorization_ttl :: duration where "authorization_ttl = 30 * 24 * hour"
definition max_challenge_attempts :: int where "max_challenge_attempts = 10"
definition max_order_identifiers :: nat where "max_order_identifiers = 100"

definition as_problem :: "acme_error \<Rightarrow> string \<Rightarrow> (db, 'e, 'a) op \<Rightarrow> 'a acme" where
  "as_problem k t m = map_errS (\<lambda>_. Problem k t) m"

definition failP :: "acme_error \<Rightarrow> string \<Rightarrow> 'a acme" where
  "failP k t = failS (Problem k t)"

definition readP :: "acme_error \<Rightarrow> string \<Rightarrow> (db \<Rightarrow> 'e + 'a) \<Rightarrow> 'a acme" where
  "readP k t f = readS (\<lambda>d. map_err (\<lambda>_. Problem k t) (f d))"

section \<open>Nonces\<close>

definition new_nonce :: "acme_env \<Rightarrow> string \<Rightarrow> db \<Rightarrow> string \<times> db" where
  "new_nonce E v d = (v, issue_nonce (se_now E) v nonce_ttl d)"

definition spend_nonce :: "acme_env \<Rightarrow> string \<Rightarrow> unit acme" where
  "spend_nonce E v =
     (if v = [] then failP BadNonce ''the request carried no anti-replay nonce''
      else (\<lambda>d. case spend_nonce_row (se_now E) v d of
          (ok, d') \<Rightarrow> (if ok then Inr () else Inl (Problem BadNonce v), d')))"

section \<open>Registration\<close>

record jwk =
  jwk_thumbprint :: "string option"
  jwk_encoded :: "string option"

text \<open>
  An external account binding: the header and payload \<open>ParseJWS\<close> finds in it, if any, and
  whether its HMAC verifies for an algorithm and a secret.
\<close>

record eab_parts =
  eb_kid :: string
  eb_url :: string
  eb_alg :: string
  eb_payload :: "jwk option"

record eab =
  eb_parsed :: "eab_parts option"
  eb_hmac_ok :: "string \<Rightarrow> string \<Rightarrow> bool"

record new_account_request =
  nr_contact :: "string list"
  nr_terms_agreed :: bool
  nr_only_existing :: bool
  nr_binding :: "eab option"

text \<open>Opening the sealed HMAC secret of a binding: the master key has to be the one that sealed it.\<close>

definition open_external_hmac :: "acme_env \<Rightarrow> acme_external \<Rightarrow> string option" where
  "open_external_hmac E x = (case ax_hmac x of
     None \<Rightarrow> None | Some (m, secret) \<Rightarrow> if m = se_master E then Some secret else None)"

definition verify_external_binding ::
    "acme_env \<Rightarrow> eab option \<Rightarrow> jwk \<Rightarrow> string \<Rightarrow> db \<Rightarrow> problem + acme_external" where
  "verify_external_binding E binding key expected_url d = (case binding of
     None \<Rightarrow> Inl (Problem ExternalAccountRequired ''this ACME server requires external account binding'')
   | Some b \<Rightarrow> (case eb_parsed b of
       None \<Rightarrow> Inl (Problem Malformed ''the external account binding is malformed'')
     | Some h \<Rightarrow>
         if eb_kid h = [] then Inl (Problem Malformed ''the external account binding needs a kid'')
         else if eb_url h \<noteq> expected_url then Inl (Problem Malformed (eb_url h))
         else (case external_by_kid (eb_kid h) d of
             Inl e \<Rightarrow> Inl (if e = RecordNotFound then Problem Unauthorized ''unknown external account key id''
                           else Problem ServerInternal ''could not look the binding up'')
           | Inr row \<Rightarrow>
               if \<not> external_usable (se_now E) row then
                 Inl (Problem Unauthorized ''this external account key has been disabled or has expired'')
               else (case open_external_hmac E row of
                   None \<Rightarrow> Inl (Problem ServerInternal ''could not read the binding key'')
                 | Some secret \<Rightarrow>
                     if \<not> eb_hmac_ok b (eb_alg h) secret then Inl (Problem Unauthorized ''bad signature'')
                     else (case eb_payload h of
                         None \<Rightarrow> Inl (Problem Malformed ''the binding payload is not a JWK'')
                       | Some bound \<Rightarrow> (case jwk_thumbprint bound of
                           None \<Rightarrow> Inl (Problem Malformed ''unusable key'')
                         | Some bt \<Rightarrow> (case jwk_thumbprint key of
                             None \<Rightarrow> Inl (Problem BadPublicKey ''unusable key'')
                           | Some kt \<Rightarrow>
                               if bt \<noteq> kt then Inl (Problem Unauthorized
                                 ''the external account binding is for a different key'')
                               else Inr row)))))))"

definition admit_binding :: "acme_env \<Rightarrow> new_account_request \<Rightarrow> jwk \<Rightarrow> string \<Rightarrow> string acme" where
  "admit_binding E req key url =
     (if ac_require_eab E then
        bindS (readS (verify_external_binding E (nr_binding req) key url)) (\<lambda>row.
        bindS (ignoreS (update_external (row\<lparr>ax_last_used := Some (se_now E)\<rparr>))) (\<lambda>_.
          returnS (ax_id row)))
      else returnS [])"

definition acme_register ::
    "acme_env \<Rightarrow> string \<Rightarrow> jwk \<Rightarrow> new_account_request \<Rightarrow> string \<Rightarrow> (acme_account \<times> bool) acme" where
  "acme_register E uuid key req url = (case jwk_thumbprint key of
     None \<Rightarrow> failP BadPublicKey ''unusable key''
   | Some t \<Rightarrow>
       bindS (readS (\<lambda>d. Inr (account_by_thumbprint t d))) (\<lambda>found. case found of
         Inr acct \<Rightarrow>
           if aa_status acct = AcDeactivated then failP Unauthorized ''this account has been deactivated''
           else returnS (acct, False)
       | Inl e \<Rightarrow>
           if e \<noteq> RecordNotFound then failP ServerInternal ''could not look the account up''
           else if nr_only_existing req then failP AccountDoesNotExist ''no account is registered for this key''
           else
             bindS (admit_binding E req key url) (\<lambda>ext.
             if ac_terms_url E \<noteq> [] \<and> \<not> nr_terms_agreed req then failP UserActionRequired (ac_terms_url E)
             else (case jwk_encoded key of
                 None \<Rightarrow> failP BadPublicKey ''unusable key''
               | Some enc \<Rightarrow>
                   let acct = \<lparr>aa_id = uuid, aa_thumbprint = t, aa_jwk = enc, aa_contact = nr_contact req,
                     aa_status = AcValid, aa_terms = nr_terms_agreed req, aa_external = ext,
                     aa_last_used = None\<rparr> in
                   bindS (as_problem ServerInternal ''could not register the account'' (create_account acct)) (\<lambda>_.
                     returnS (acct, True))))))"

definition acme_deactivate :: "acme_account \<Rightarrow> unit svc" where
  "acme_deactivate a = store_op (update_account (a\<lparr>aa_status := AcDeactivated\<rparr>))"

section \<open>Identifiers\<close>

definition acme_authority :: "acme_env \<Rightarrow> db \<Rightarrow> svc_error + authority" where
  "acme_authority E d = (if ac_authority E = [] then Inl (EInvalid ''acme.authority is not configured'')
     else map_err EStore (resolve_authority (ac_authority E) d))"

definition only_permitted :: "string list \<Rightarrow> name_constraints" where
  "only_permitted ds = no_constraints\<lparr>permitted_dns := ds\<rparr>"

definition binding_allows :: "acme_account \<Rightarrow> string \<Rightarrow> db \<Rightarrow> bool" where
  "binding_allows a name d =
     (if aa_external a = [] then True
      else (case get_external (aa_external a) d of
          Inl _ \<Rightarrow> True
        | Inr b \<Rightarrow> ax_allowed_domains b = [] \<or> permits_dns (only_permitted (ax_allowed_domains b)) name))"

definition check_acme_identifier :: "acme_env \<Rightarrow> acme_account \<Rightarrow> string \<Rightarrow> db \<Rightarrow> problem + unit" where
  "check_acme_identifier E a name d =
     (if name = [] then Inl (Problem Malformed ''an identifier cannot be empty'')
      else if parse_ip (trim_prefix ''*.'' name) \<noteq> None then Inl (Problem UnsupportedIdentifier name)
      else if 1 < count_char CHR ''*'' name \<or> (CHR ''*'' \<in> set name \<and> \<not> prefix ''*.'' name)
      then Inl (Problem Malformed name)
      else if \<not> binding_allows a name d then Inl (Problem RejectedIdentifier name)
      else (case acme_authority E d of
          Inl _ \<Rightarrow> Inl (Problem ServerInternal ''the ACME issuing CA is not available'')
        | Inr ca \<Rightarrow>
            if \<not> nc_is_zero (au_constraints ca) \<and> \<not> permits_dns (au_constraints ca) name
            then Inl (Problem RejectedIdentifier name) else Inr ()))"

section \<open>Orders\<close>

record acme_identifier =
  idn_type :: string
  idn_value :: string

record new_order_request =
  or_identifiers :: "acme_identifier list"
  or_not_before :: string
  or_not_after :: string

text \<open>The identifiers and tokens an order draws: per authorization and per challenge.\<close>

record order_draws =
  od_order :: string
  od_authz :: "nat \<Rightarrow> string"
  od_challenge :: "nat \<Rightarrow> nat \<Rightarrow> string"
  od_token :: "nat \<Rightarrow> nat \<Rightarrow> string"

definition challenge_dns01 :: string where "challenge_dns01 = ''dns-01''"
definition challenge_http01 :: string where "challenge_http01 = ''http-01''"

definition challenge_types :: "acme_env \<Rightarrow> bool \<Rightarrow> string list" where
  "challenge_types E wildcard =
     (let types = [challenge_dns01] @ (if \<not> wildcard \<and> ac_http01 E then [challenge_http01] else [])
      in if \<not> ac_dns01 E then (if \<not> wildcard \<and> ac_http01 E then [challenge_http01] else []) else types)"

definition new_challenge :: "acme_env \<Rightarrow> string \<Rightarrow> string \<Rightarrow> string \<Rightarrow> string \<Rightarrow> acme_challenge" where
  "new_challenge E i authz ty token = \<lparr>ch_id = i, ch_created_at = se_now E, ch_authz = authz, ch_type = ty,
     ch_token = token, ch_status = AcPending, ch_validated = None, ch_error = [], ch_attempts = 0\<rparr>"

fun create_challenges_from ::
    "acme_env \<Rightarrow> (nat \<Rightarrow> string) \<Rightarrow> (nat \<Rightarrow> string) \<Rightarrow> string \<Rightarrow> nat \<Rightarrow> string list \<Rightarrow> unit acme" where
  "create_challenges_from E ids toks authz n [] = returnS ()"
| "create_challenges_from E ids toks authz n (ty # tys) =
     bindS (as_problem ServerInternal ''could not create a challenge''
              (create_challenge (new_challenge E (ids n) authz ty (toks n)))) (\<lambda>_.
       create_challenges_from E ids toks authz (Suc n) tys)"

definition create_challenges ::
    "acme_env \<Rightarrow> (nat \<Rightarrow> string) \<Rightarrow> (nat \<Rightarrow> string) \<Rightarrow> acme_authz \<Rightarrow> unit acme" where
  "create_challenges E ids toks az =
     (if challenge_types E (az_wildcard az) = [] then failP ServerInternal (az_identifier az)
      else create_challenges_from E ids toks (az_id az) 0 (challenge_types E (az_wildcard az)))"

definition new_authz :: "acme_env \<Rightarrow> string \<Rightarrow> string \<Rightarrow> string \<Rightarrow> string \<Rightarrow> acme_authz" where
  "new_authz E i order acct name = \<lparr>az_id = i, az_created_at = se_now E, az_order = order, az_account = acct,
     az_identifier = name, az_wildcard = prefix ''*.'' name, az_status = AcPending,
     az_expires = se_now E + order_ttl\<rparr>"

fun create_authzs ::
    "acme_env \<Rightarrow> order_draws \<Rightarrow> string \<Rightarrow> nat \<Rightarrow> string list \<Rightarrow> acme_authz list acme" where
  "create_authzs E R acct n [] = returnS []"
| "create_authzs E R acct n (name # names) =
     (let az = new_authz E (od_authz R n) (od_order R) acct name in
      bindS (as_problem ServerInternal ''could not create an authorization'' (create_authz az)) (\<lambda>_.
      bindS (create_challenges E (od_challenge R n) (od_token R n) az) (\<lambda>_.
      bindS (create_authzs E R acct (Suc n) names) (\<lambda>rest. returnS (az # rest)))))"

definition order_name :: "acme_env \<Rightarrow> acme_account \<Rightarrow> db \<Rightarrow> acme_identifier \<Rightarrow> problem + string" where
  "order_name E a d i =
     (if idn_type i \<noteq> ''dns'' then Inl (Problem UnsupportedIdentifier (idn_type i))
      else let name = to_lower (trim_space (idn_value i))
           in bindE (check_acme_identifier E a name d) (\<lambda>_. Inr name))"

definition optional_time :: "acme_env \<Rightarrow> string \<Rightarrow> instant option" where
  "optional_time E t = (if t = [] then None else ac_parse_time E t)"

definition new_order_row :: "acme_env \<Rightarrow> order_draws \<Rightarrow> acme_account \<Rightarrow> new_order_request \<Rightarrow> string list \<Rightarrow> acme_order" where
  "new_order_row E R a req names = \<lparr>ao_id = od_order R, ao_created_at = se_now E, ao_account = aa_id a,
     ao_status = AcPending, ao_identifiers = names, ao_not_before = optional_time E (or_not_before req),
     ao_not_after = optional_time E (or_not_after req), ao_expires = se_now E + order_ttl,
     ao_certificate = [], ao_error = []\<rparr>"

definition acme_new_order ::
    "acme_env \<Rightarrow> order_draws \<Rightarrow> acme_account \<Rightarrow> new_order_request \<Rightarrow> (acme_order \<times> acme_authz list) acme" where
  "acme_new_order E R a req =
     (if or_identifiers req = [] then failP Malformed ''an order needs at least one identifier''
      else if max_order_identifiers < length (or_identifiers req) then
        failP RateLimited ''too many identifiers''
      else
        bindS (readS (\<lambda>d. mapE (order_name E a d) (or_identifiers req))) (\<lambda>names.
        let q = new_order_row E R a req names in
        bindS (as_problem ServerInternal ''could not create the order'' (create_order q)) (\<lambda>_.
        bindS (create_authzs E R (aa_id a) 0 names) (\<lambda>azs. returnS (q, azs)))))"

section \<open>Validating a challenge\<close>

definition refresh_order_status :: "string \<Rightarrow> unit acme" where
  "refresh_order_status i =
     bindS (readS (\<lambda>d. Inr (get_order i d))) (\<lambda>found. case found of
       Inl _ \<Rightarrow> returnS ()
     | Inr q \<Rightarrow>
         if ao_status q \<noteq> AcPending then returnS ()
         else bindS (readS (\<lambda>d. Inr (authzs_by_order i d))) (\<lambda>azs.
           if list_ex (\<lambda>z. az_status z \<noteq> AcValid) azs then returnS ()
           else ignoreS (update_order (q\<lparr>ao_status := AcReady\<rparr>))))"

definition fail_order :: "acme_authz \<Rightarrow> unit acme" where
  "fail_order z =
     bindS (readS (\<lambda>d. Inr (get_order (az_order z) d))) (\<lambda>found. case found of
       Inl _ \<Rightarrow> returnS ()
     | Inr q \<Rightarrow> ignoreS (update_order (q\<lparr>ao_status := AcInvalid,
         ao_error := ''could not validate '' @ az_identifier z\<rparr>)))"

definition fail_authorization_if_exhausted :: "acme_authz \<Rightarrow> unit acme" where
  "fail_authorization_if_exhausted z =
     bindS (readS (\<lambda>d. Inr (challenges_by_authz (az_id z) d))) (\<lambda>cs.
     if list_ex (\<lambda>c. ch_status c \<noteq> AcInvalid) cs then returnS ()
     else bindS (\<lambda>d. case update_authz (z\<lparr>az_status := AcInvalid\<rparr>) d of
                    (Inl _, d') \<Rightarrow> (Inr False, d') | (Inr _, d') \<Rightarrow> (Inr True, d')) (\<lambda>saved.
       whenS saved (fail_order z)))"

definition settled :: "acme_challenge \<Rightarrow> bool" where
  "settled c = (ch_status c = AcValid \<or> ch_status c = AcInvalid)"

definition acme_validate_challenge ::
    "acme_env \<Rightarrow> acme_account \<Rightarrow> string \<Rightarrow> string option \<Rightarrow> string option \<Rightarrow> acme_challenge acme" where
  "acme_validate_challenge E a i key_authorization outcome =
     bindS (readP Malformed ''no such challenge'' (get_challenge i)) (\<lambda>c.
     bindS (readP ServerInternal ''could not load the authorization'' (get_authz (ch_authz c))) (\<lambda>z.
     if az_account z \<noteq> aa_id a then failP Unauthorized ''this challenge belongs to another account''
     else if settled c then returnS c
     else if max_challenge_attempts \<le> ch_attempts c then failP RateLimited ''too many attempts''
     else (case key_authorization of
       None \<Rightarrow> failP ServerInternal ''could not read the account key''
     | Some _ \<Rightarrow>
       let c = c\<lparr>ch_attempts := ch_attempts c + 1, ch_status := AcProcessing\<rparr> in
       bindS (ignoreS (update_challenge c)) (\<lambda>_.
       case outcome of
         Some detail \<Rightarrow>
           let c = c\<lparr>ch_status := AcInvalid, ch_error := detail\<rparr> in
           bindS (ignoreS (update_challenge c)) (\<lambda>_.
           bindS (fail_authorization_if_exhausted z) (\<lambda>_. returnS c))
       | None \<Rightarrow>
           let c = c\<lparr>ch_status := AcValid, ch_validated := Some (se_now E), ch_error := []\<rparr> in
           bindS (as_problem ServerInternal ''could not record the validation'' (update_challenge c)) (\<lambda>_.
           let z = z\<lparr>az_status := AcValid, az_expires := se_now E + authorization_ttl\<rparr> in
           bindS (as_problem ServerInternal ''could not record the authorization'' (update_authz z)) (\<lambda>_.
           bindS (refresh_order_status (az_order z)) (\<lambda>_. returnS c)))))))"

section \<open>Finalizing\<close>

definition requested_names :: "csr \<Rightarrow> string list" where
  "requested_names r = map to_lower (sp_dns (csr_sans r)) @
     (let cn = to_lower (trim_space (pn_common_name (csr_subject r)))
      in if cn \<noteq> [] \<and> CHR ''.'' \<in> set cn then [cn] else [])"

definition check_csr_against_order :: "csr \<Rightarrow> string list \<Rightarrow> problem + unit" where
  "check_csr_against_order r ids =
     (if sp_ips (csr_sans r) \<noteq> [] \<or> sp_emails (csr_sans r) \<noteq> [] \<or> sp_uris (csr_sans r) \<noteq> [] then
        Inl (Problem BadCSRProblem ''the CSR carries IP, email or URI names, which this order did not authorise'')
      else bindE (forE (\<lambda>n. guardE (n \<in> to_lower ` set ids) (Problem BadCSRProblem n)) (requested_names r)) (\<lambda>_.
        guardE (requested_names r \<noteq> []) (Problem BadCSRProblem ''the CSR names nothing'')))"

definition save_order_error :: "acme_order \<Rightarrow> string \<Rightarrow> unit acme" where
  "save_order_error q detail = ignoreS (update_order (q\<lparr>ao_status := AcInvalid, ao_error := detail\<rparr>))"

definition is_validation :: "svc_error \<Rightarrow> bool" where
  "is_validation e = (case e of EInvalid _ \<Rightarrow> True | EInvalidPki _ \<Rightarrow> True | EInvalidReason _ \<Rightarrow> True | _ \<Rightarrow> False)"

definition acme_csr_input :: "acme_env \<Rightarrow> authority \<Rightarrow> acme_account \<Rightarrow> der \<Rightarrow> sign_csr_input" where
  "acme_csr_input E ca a d = \<lparr>gi_authority = au_id ca, gi_passphrase = [],
     gi_csr = \<lparr>doc_blocks = [plain_block block_certificate_req d], doc_raw = DerJunk []\<rparr>,
     gi_profile = profile_server, gi_sans = [],
     gi_validity_days = (if ac_validity_days E \<le> 0 then max_leaf_validity_days else ac_validity_days E),
     gi_key_usage = [], gi_eku = [],
     gi_labels = [(''acme'', ''true''), (''acme_account'', aa_id a)], gi_notes = []\<rparr>"

definition base_env :: "acme_env \<Rightarrow> svc_env" where
  "base_env E = svc_env.truncate E"

definition acme_finalize ::
    "acme_env \<Rightarrow> draws \<Rightarrow> acme_account \<Rightarrow> string \<Rightarrow> der option \<Rightarrow> acme_order acme" where
  "acme_finalize E R a i csr_der =
     bindS (readP Malformed ''no such order'' (get_order i)) (\<lambda>q.
     if ao_account q \<noteq> aa_id a then failP Unauthorized ''this order belongs to another account''
     else if ao_status q = AcValid then returnS q
     else if ao_status q \<noteq> AcReady then failP OrderNotReady ''the order is not ready''
     else (case csr_der of
       None \<Rightarrow> failP BadCSRProblem ''the CSR is not valid base64url DER''
     | Some dr \<Rightarrow>
       bindS (liftE (map_err (\<lambda>_. Problem BadCSRProblem ''bad CSR'') (parse_csr_der dr))) (\<lambda>r.
       case check_csr_against_order r (ao_identifiers q) of
         Inl p \<Rightarrow> bindS (save_order_error q (problem_detail p)) (\<lambda>_. failS p)
       | Inr _ \<Rightarrow>
           bindS (readP ServerInternal ''the ACME issuing CA is not available'' (acme_authority E)) (\<lambda>ca.
           bindS (\<lambda>d. case sign_csr_certificate (base_env E) R (acme_csr_input E ca a dr) d of
                     (res, d') \<Rightarrow> (Inr res, d')) (\<lambda>res.
           case res of
             Inl e \<Rightarrow>
               let p = (if is_validation e then Problem BadCSRProblem ''refused''
                        else Problem ServerInternal ''could not issue the certificate'') in
               bindS (save_order_error q (problem_detail p)) (\<lambda>_. failS p)
           | Inr result \<Rightarrow>
               let q = q\<lparr>ao_status := AcValid, ao_certificate := cr_id (ir_row result), ao_error := []\<rparr> in
               bindS (as_problem ServerInternal ''could not attach the certificate to the order''
                        (update_order q)) (\<lambda>_. returnS q))))))"

section \<open>Revoking and administration\<close>

definition acme_revoke ::
    "acme_env \<Rightarrow> draws \<Rightarrow> acme_account option \<Rightarrow> der \<Rightarrow> int \<Rightarrow> bool \<Rightarrow> unit acme" where
  "acme_revoke E R acct d reason by_cert_key =
     bindS (liftE (map_err (\<lambda>_. Problem Malformed ''the certificate is not valid DER'') (parse_certificate_der d))) (\<lambda>cert.
     bindS (readP Malformed ''this certificate was not issued here''
              (get_by_fingerprint (se_fingerprint E cert))) (\<lambda>row.
     if cr_status row = StRevoked then failP AlreadyRevoked ''this certificate is already revoked''
     else
     bindS (if by_cert_key then returnS ()
            else (case acct of
                None \<Rightarrow> failP Unauthorized ''authentication is required to revoke''
              | Some a \<Rightarrow> if map_of (cr_labels row) ''acme_account'' = Some (aa_id a) then returnS ()
                          else failP Unauthorized ''this account did not order this certificate'')) (\<lambda>_.
     bindS (liftE (map_err (\<lambda>_. Problem BadRevocationReason []) (validate_revocation_reason reason))) (\<lambda>_.
     bindS (as_problem ServerInternal ''could not revoke''
              (revoke_certificate (base_env E) R (case acct of None \<Rightarrow> [] | Some a \<Rightarrow> aa_id a) (cr_id row)
                 \<lparr>ki_reason = reason, ki_passphrase = [], ki_skip_crl = False\<rparr>)) (\<lambda>_. returnS ())))))"

definition create_external_account ::
    "acme_env \<Rightarrow> string \<Rightarrow> string \<Rightarrow> string \<Rightarrow> string \<Rightarrow> string \<Rightarrow> string list \<Rightarrow> duration \<Rightarrow>
     (acme_external \<times> string) svc" where
  "create_external_account E uuid kid secret actor desc domains expires_in =
     (let row = \<lparr>ax_id = uuid, ax_kid = kid, ax_description = desc, ax_hmac = Some (se_master E, secret),
                 ax_allowed_domains = domains, ax_enabled = True,
                 ax_expires = (if 0 < expires_in then Some (se_now E + expires_in) else None),
                 ax_last_used = None, ax_created_by = actor\<rparr>
      in bindS (store_op (create_external row)) (\<lambda>_. returnS (row, secret)))"

definition delete_external_account :: "string \<Rightarrow> unit svc" where
  "delete_external_account i =
     bindS (store_read (get_external i)) (\<lambda>_. store_op (delete_external i))"

definition prune_acme :: "instant \<Rightarrow> db \<Rightarrow> (nat \<times> nat) \<times> db" where
  "prune_acme now d = (case prune_nonces now d of (n, d) \<Rightarrow>
     (case prune_orders now d of (m, d) \<Rightarrow> ((n, m), d)))"

end
