(* ===== verification/AcmeInv.thy ===== *)
theory AcmeInv
  imports SvcAcme SvcReach
begin

text \<open>
  The invariant of the ACME server's tables and how it lives beside the PKI tables: methods of
  the PKI service leave accounts, orders, authorizations and challenges alone; every method of
  the ACME service keeps an order that is ready or valid backed by proofs of control.
\<close>

section \<open>What the PKI service leaves alone\<close>

text \<open>
  A predicate that every write to the PKI tables keeps is kept by every method of the PKI
  service: the client of this contract is the service, the provider the store.
\<close>

locale pki_frame =
  fixes I :: "db \<Rightarrow> bool"
  assumes authority_rows: "keeps I (create_authority_row a)" "keeps I (update_authority_row a)"
    "keeps I (delete_authority_row i force)"
    and certificate_rows: "keeps I (create_certificate_row c)" "keeps I (update_certificate_row c)"
    "keeps I (update_certificate_fields i f)" "keeps I (delete_certificate_row i)"
    and revocation_rows: "keeps I (create_revocation_row r)" "keeps I (delete_revocation_row i)"
begin

lemmas frame_rules = keeps_intros keeps_basic authority_rows certificate_rows revocation_rows

lemma keeps_persist:
  "keeps I (persist_authority E u ca ain slug ty p spec)" "keeps I (persist_certificate E u a c k csr iin from)"
  unfolding persist_authority_def persist_certificate_def Let_def by (intro frame_rules)+

lemma keeps_authority_service:
  "keeps I (create_authority E R ain)" "keeps I (import_authority E R imp)" "keeps I (update_authority j uin)"
  "keeps I (renew_authority E R j rin)" "keeps I (delete_authority j force)" "keeps I (publish_crl E j p)"
  unfolding create_authority_def import_authority_def update_authority_def renew_authority_def delete_authority_def
    publish_crl_def Let_def
  by (intro frame_rules keeps_persist)+

lemma keeps_answer_crl: "keeps I (crl_for E j)"
  unfolding crl_for_def by (intro frame_rules keeps_authority_service)+

lemma keeps_refreshing: "keeps I (refresh_authorities E n as)" "keeps I (refresh_rows E n cs)"
  by (induction as arbitrary: n; auto simp: Let_def intro!: frame_rules)
     (induction cs arbitrary: n; auto simp: Let_def intro!: frame_rules)

lemma keeps_certificate_service:
  "keeps I (issue_certificate E R iin)" "keeps I (sign_csr_certificate E R sin)"
  "keeps I (renew_certificate E R j nin)" "keeps I (update_certificate j vin)"
  "keeps I (delete_certificate j)" "keeps I (authorize_key_download E c)"
  "keeps I (refresh_authority_statuses E)" "keeps I (refresh_certificate_statuses E)"
  unfolding issue_certificate_def sign_csr_certificate_def renew_certificate_def update_certificate_def
    delete_certificate_def authorize_key_download_def refresh_authority_statuses_def
    refresh_certificate_statuses_def Let_def
  by (intro frame_rules keeps_persist keeps_refreshing)+

lemma keeps_revocation_service:
  "keeps I (revoke_certificate E R actor j kin)" "keeps I (release_hold E j p)"
  unfolding revoke_certificate_def release_hold_def drop_hold_def Let_def
  by (intro frame_rules keeps_authority_service)+

lemma step_keeps: "pki_step E d d' \<Longrightarrow> I d \<Longrightarrow> I d'"
  by (induction rule: pki_step.induct)
     (blast intro: keepsD keeps_authority_service keeps_answer_crl keeps_certificate_service keeps_revocation_service)+

end

text \<open>The tables of the ACME server.\<close>

definition acme_tables :: "db \<Rightarrow> acme_account list \<times> acme_order list \<times> acme_authz list \<times> acme_challenge list" where
  "acme_tables d = (db_accounts d, db_orders d, db_authzs d, db_challenges d)"

definition acme_are :: "acme_account list \<times> acme_order list \<times> acme_authz list \<times> acme_challenge list \<Rightarrow> db \<Rightarrow> bool" where
  "acme_are t d \<longleftrightarrow> acme_tables d = t"

interpretation acme_frame: pki_frame "acme_are t"
proof unfold_locales
  note defs = keeps_def acme_are_def acme_tables_def repo_create_def repo_save_def stmt_def
  show "keeps (acme_are t) (create_authority_row a)" for a
    by (auto simp: defs create_authority_row_def split: option.split)
  show "keeps (acme_are t) (update_authority_row a)" for a
    by (auto simp: defs update_authority_row_def split: option.split)
  have same: "acme_tables (without_authority i force d) = acme_tables d" "acme_tables (without_certificate i d) = acme_tables d" for i force d
    by (simp_all add: acme_tables_def without_authority_def without_certificate_def)
  show "keeps (acme_are t) (delete_authority_row i force)" for i force
  proof (rule keepsI)
    fix s assume "acme_are t s"
    then show "acme_are t (snd (delete_authority_row i force s))"
      using delete_authority_row_cases [of i force s] same(1) [of i force s] by (metis acme_are_def)
  qed
  show "keeps (acme_are t) (create_certificate_row c)" for c
    by (auto simp: defs create_certificate_row_def split: option.split)
  show "keeps (acme_are t) (update_certificate_row c)" for c
    by (auto simp: defs update_certificate_row_def split: option.split)
  show "keeps (acme_are t) (update_certificate_fields i f)" for i f
    by (auto simp: defs update_certificate_fields_def)
  show "keeps (acme_are t) (delete_certificate_row i)" for i
  proof (rule keepsI)
    fix s assume "acme_are t s"
    then show "acme_are t (snd (delete_certificate_row i s))"
      using delete_certificate_row_cases [of i s] same(2) [of i s] by (metis acme_are_def)
  qed
  show "keeps (acme_are t) (create_revocation_row r)" for r
    by (auto simp: defs create_revocation_row_def split: option.split)
  show "keeps (acme_are t) (delete_revocation_row i)" for i
    by (auto simp: defs delete_revocation_row_def)
qed

section \<open>The invariant\<close>

text \<open>
  An order \<open>q\<close> is covered when each of its names has an authorization, or when one of its
  authorizations has no challenge at all, so that it can never be validated and the order
  never becomes ready: what is left when an order is given up half way.
\<close>

definition covered :: "db \<Rightarrow> acme_order \<Rightarrow> bool" where
  "covered d q \<longleftrightarrow>
     (\<forall>n \<in> set (ao_identifiers q). \<exists>z \<in> set (db_authzs d). az_order z = ao_id q \<and> az_identifier z = n) \<or>
     (\<exists>z \<in> set (db_authzs d). az_order z = ao_id q \<and> az_id z \<notin> ch_authz ` set (db_challenges d))"

definition proved :: "db \<Rightarrow> acme_authz \<Rightarrow> bool" where
  "proved d z \<longleftrightarrow> (\<exists>c \<in> set (db_challenges d). ch_authz c = az_id z \<and> ch_status c = AcValid \<and> ch_validated c \<noteq> None)"

definition validated_order :: "acme_order \<Rightarrow> bool" where
  "validated_order q \<longleftrightarrow> ao_status q = AcReady \<or> ao_status q = AcValid"

definition ao_owner :: "acme_order \<Rightarrow> string \<times> string" where
  "ao_owner q = (ao_id q, ao_account q)"

definition acme_keys :: "db \<Rightarrow> bool" where
  "acme_keys d \<longleftrightarrow>
     distinct (map aa_id (db_accounts d)) \<and> distinct (map aa_thumbprint (db_accounts d)) \<and>
     distinct (map ao_id (db_orders d)) \<and> distinct (map az_id (db_authzs d)) \<and>
     distinct (map ch_id (db_challenges d)) \<and>
     (\<forall>q \<in> set (db_orders d). ao_account q \<in> aa_id ` set (db_accounts d)) \<and>
     (\<forall>c \<in> set (db_challenges d). ch_authz c \<in> az_id ` set (db_authzs d)) \<and>
     (\<forall>z \<in> set (db_authzs d). (az_order z, az_account z) \<in> ao_owner ` set (db_orders d))"

definition acme_proofs :: "db \<Rightarrow> bool" where
  "acme_proofs d \<longleftrightarrow>
     (\<forall>z \<in> set (db_authzs d). az_status z = AcValid \<longrightarrow> proved d z) \<and>
     (\<forall>q \<in> set (db_orders d). validated_order q \<longrightarrow>
        (\<forall>z \<in> set (db_authzs d). az_order z = ao_id q \<longrightarrow> az_status z = AcValid))"

text \<open>While an order is being created it alone need not be covered.\<close>

definition acme_inv_but :: "string set \<Rightarrow> db \<Rightarrow> bool" where
  "acme_inv_but I d \<longleftrightarrow> acme_keys d \<and> acme_proofs d \<and> (\<forall>q \<in> set (db_orders d). ao_id q \<notin> I \<longrightarrow> covered d q)"

abbreviation acme_inv :: "db \<Rightarrow> bool" where "acme_inv \<equiv> acme_inv_but {}"

lemma acme_inv_empty: "acme_inv empty_db"
  by (simp add: acme_inv_but_def acme_keys_def acme_proofs_def empty_db_def)

lemma acme_inv_frame: "acme_tables d' = acme_tables d \<Longrightarrow> acme_inv_but I d' = acme_inv_but I d"
  by (simp add: acme_tables_def acme_inv_but_def acme_keys_def acme_proofs_def covered_def proved_def)

text \<open>What it gives for an order that is ready or valid.\<close>

lemma validated_names_proved:
  assumes "acme_inv d" "q \<in> set (db_orders d)" "validated_order q" "n \<in> set (ao_identifiers q)"
  shows "\<exists>z \<in> set (db_authzs d). az_order z = ao_id q \<and> az_identifier z = n \<and> az_account z = ao_account q \<and>
    az_status z = AcValid \<and> proved d z"
proof -
  have z: "az_status z = AcValid \<and> proved d z" if "z \<in> set (db_authzs d)" "az_order z = ao_id q" for z
    using assms(1-3) that by (simp add: acme_inv_but_def acme_proofs_def)
  have "covered d q" using assms(1,2) by (simp add: acme_inv_but_def)
  moreover have "\<not> (\<exists>z \<in> set (db_authzs d). az_order z = ao_id q \<and> az_id z \<notin> ch_authz ` set (db_challenges d))"
    using z unfolding proved_def by (metis imageI)
  ultimately obtain y where y: "y \<in> set (db_authzs d)" "az_order y = ao_id q" "az_identifier y = n"
    using assms(4) by (auto simp: covered_def)
  have "(az_order y, az_account y) \<in> ao_owner ` set (db_orders d)"
    using assms(1) y(1) by (simp add: acme_inv_but_def acme_keys_def)
  then obtain r where "r \<in> set (db_orders d)" "ao_id r = ao_id q" "ao_account r = az_account y"
    using y(2) by (auto simp: ao_owner_def)
  moreover have "distinct (map ao_id (db_orders d))" using assms(1) by (simp add: acme_inv_but_def acme_keys_def)
  ultimately have "az_account y = ao_account q" using assms(2) by (metis distinct_map inj_on_eq_iff)
  then show ?thesis using y z by blast
qed

section \<open>Writing the rows\<close>

lemma put_all: "(\<forall>x \<in> set (tbl_put key r rows). P x) \<longleftrightarrow> P r \<and> (\<forall>x \<in> set rows. key x \<noteq> key r \<longrightarrow> P x)"
  by (auto simp: set_tbl_put)

lemma put_ex: "(\<exists>x \<in> set (tbl_put key r rows). P x) \<longleftrightarrow> P r \<or> (\<exists>x \<in> set rows. key x \<noteq> key r \<and> P x)"
  by (auto simp: set_tbl_put)

lemma image_put:
  "distinct (map key rows) \<Longrightarrow> x \<in> set rows \<Longrightarrow> key r = key x \<Longrightarrow> f r = f x \<Longrightarrow> f ` set (tbl_put key r rows) = f ` set rows"
proof -
  assume a: "distinct (map key rows)" "x \<in> set rows" "key r = key x" "f r = f x"
  have "y = x" if "y \<in> set rows" "key y = key r" for y
    using a that by (metis distinct_map inj_on_eq_iff)
  moreover have "r \<in> set (tbl_put key r rows)" by (simp add: set_tbl_put)
  ultimately have "f y \<in> f ` set (tbl_put key r rows)" if "y \<in> set rows" for y
    using a(4) that by (cases "key y = key r") (metis imageI, simp add: set_tbl_put)
  moreover have "f y \<in> f ` set rows" if "y \<in> set (tbl_put key r rows)" for y
    using a(2,4) that by (auto simp: set_tbl_put)
  ultimately show ?thesis by blast
qed

text \<open>A challenge that is not yet valid may be saved with any status.\<close>

lemma inv_save_challenge:
  assumes "acme_inv_but I d" "x \<in> set (db_challenges d)" "ch_id c = ch_id x" "ch_authz c = ch_authz x"
    "ch_status x \<noteq> AcValid"
  shows "update_challenge c d = (Inr (), db_challenges_update (tbl_put ch_id c) d)"
    "acme_inv_but I (db_challenges_update (tbl_put ch_id c) d)"
proof -
  let ?e = "db_challenges_update (tbl_put ch_id c) d"
  show "update_challenge c d = (Inr (), ?e)" by (simp add: update_challenge_def repo_save_def)
  have dist: "distinct (map ch_id (db_challenges d))" using assms(1) by (simp add: acme_inv_but_def acme_keys_def)
  have img: "ch_authz ` set (db_challenges ?e) = ch_authz ` set (db_challenges d)"
    using image_put [OF dist assms(2), of c ch_authz] assms(3,4) by simp
  have "proved ?e z" if pz: "proved d z" for z
  proof -
    obtain y where y: "y \<in> set (db_challenges d)" "ch_authz y = az_id z" "ch_status y = AcValid" "ch_validated y \<noteq> None"
      using pz unfolding proved_def by blast
    have "y = x" if "ch_id y = ch_id x" using dist y(1) assms(2) that by (metis distinct_map inj_on_eq_iff)
    then have "ch_id y \<noteq> ch_id c" using y(3) assms(3,5) by auto
    then show ?thesis using y by (auto simp: proved_def set_tbl_put)
  qed
  then have "acme_proofs ?e" using assms(1) by (simp add: acme_inv_but_def acme_proofs_def)
  moreover have "ch_authz y \<in> az_id ` set (db_authzs d)" if "y \<in> set (db_challenges ?e)" for y
    using assms(1) imageI [OF that, of ch_authz] unfolding img by (auto simp: acme_inv_but_def acme_keys_def)
  then have "acme_keys ?e"
    using assms(1) dist by (simp add: acme_inv_but_def acme_keys_def distinct_tbl_put)
  moreover have "covered ?e q = covered d q" for q
    unfolding covered_def img by simp
  ultimately show "acme_inv_but I ?e" using assms(1) by (simp add: acme_inv_but_def)
qed

text \<open>
  The columns of an authorization that are set when it is created; the keys and the coverage
  depend on the table through them only.
\<close>

definition az_fixed :: "acme_authz \<Rightarrow> string \<times> string \<times> string \<times> string" where
  "az_fixed z = (az_id z, az_order z, az_account z, az_identifier z)"

lemma covered_fixed:
  "covered d q \<longleftrightarrow>
     (\<forall>n \<in> set (ao_identifiers q). \<exists>t \<in> az_fixed ` set (db_authzs d). fst (snd t) = ao_id q \<and> snd (snd (snd t)) = n) \<or>
     (\<exists>t \<in> az_fixed ` set (db_authzs d). fst (snd t) = ao_id q \<and> fst t \<notin> ch_authz ` set (db_challenges d))"
  by (simp add: covered_def az_fixed_def)

lemma owners_fixed:
  "(\<forall>z \<in> set (db_authzs d). (az_order z, az_account z) \<in> S) \<longleftrightarrow>
     (\<forall>t \<in> az_fixed ` set (db_authzs d). (fst (snd t), fst (snd (snd t))) \<in> S)"
  by (simp add: az_fixed_def)

text \<open>An authorization is saved as valid only with a valid challenge, and as anything else only while it is not valid.\<close>

lemma inv_save_authz:
  assumes "acme_inv_but I d" "x \<in> set (db_authzs d)" "az_fixed z = az_fixed x"
    "if az_status z = AcValid then proved d z else az_status x \<noteq> AcValid"
  shows "update_authz z d = (Inr (), db_authzs_update (tbl_put az_id z) d)"
    "acme_inv_but I (db_authzs_update (tbl_put az_id z) d)"
proof -
  let ?e = "db_authzs_update (tbl_put az_id z) d"
  show "update_authz z d = (Inr (), ?e)" by (simp add: update_authz_def repo_save_def)
  have k: "acme_keys d" "acme_proofs d" using assms(1) by (simp_all add: acme_inv_but_def)
  have dist: "distinct (map az_id (db_authzs d))" using k(1) by (simp add: acme_keys_def)
  have eq: "az_id z = az_id x" "az_order z = az_order x" using assms(3) by (simp_all add: az_fixed_def)
  have ids: "az_id ` set (db_authzs ?e) = az_id ` set (db_authzs d)"
    using image_put [OF dist assms(2), of z az_id] eq by simp
  have fixed: "az_fixed ` set (db_authzs ?e) = az_fixed ` set (db_authzs d)"
    using image_put [OF dist assms(2), of z az_fixed] assms(3) eq by simp
  have cov: "covered ?e q = covered d q" for q unfolding covered_fixed fixed by simp
  have pr: "proved ?e y = proved d y" for y by (simp add: proved_def)
  have "acme_keys ?e"
    using k(1) dist ids unfolding acme_keys_def owners_fixed fixed by (simp add: distinct_tbl_put)
  moreover have "acme_proofs ?e"
    using k(2) assms(2,4) eq unfolding acme_proofs_def pr
    by (auto simp: set_tbl_put split: if_splits)
  ultimately show "acme_inv_but I ?e" using assms(1) by (simp add: acme_inv_but_def cov)
qed

text \<open>An order is saved as ready or valid only when all its authorizations are valid.\<close>

definition ao_fixed :: "acme_order \<Rightarrow> string \<times> string \<times> string list" where
  "ao_fixed q = (ao_id q, ao_account q, ao_identifiers q)"

lemma covered_same: "ao_fixed q = ao_fixed r \<Longrightarrow> covered d q = covered d r"
  by (simp add: covered_def ao_fixed_def)

lemma inv_save_order:
  assumes "acme_inv_but I d" "x \<in> set (db_orders d)" "ao_fixed q = ao_fixed x"
    "validated_order q \<Longrightarrow> \<forall>z \<in> set (db_authzs d). az_order z = ao_id q \<longrightarrow> az_status z = AcValid"
  shows "update_order q d = (Inr (), db_orders_update (tbl_put ao_id q) d)"
    "acme_inv_but I (db_orders_update (tbl_put ao_id q) d)"
proof -
  let ?e = "db_orders_update (tbl_put ao_id q) d"
  have k: "acme_keys d" "acme_proofs d" using assms(1) by (simp_all add: acme_inv_but_def)
  have eq: "ao_id q = ao_id x" "ao_account q = ao_account x" using assms(3) by (simp_all add: ao_fixed_def)
  have acct: "ao_account q \<in> aa_id ` set (db_accounts d)" using k(1) assms(2) eq by (simp add: acme_keys_def)
  then show "update_order q d = (Inr (), ?e)"
    by (simp add: update_order_def repo_save_def order_clash_def tbl_has_iff)
  have dist: "distinct (map ao_id (db_orders d))" using k(1) by (simp add: acme_keys_def)
  have pr: "proved ?e y = proved d y" "covered ?e r = covered d r" for y r
    by (simp_all add: proved_def covered_def)
  have owners: "ao_owner ` set (db_orders ?e) = ao_owner ` set (db_orders d)"
    using image_put [OF dist assms(2), of q ao_owner] eq by (simp add: ao_owner_def)
  have "acme_keys ?e"
    using k(1) acct dist unfolding acme_keys_def owners by (auto simp: distinct_tbl_put set_tbl_put)
  moreover have "acme_proofs ?e"
    using k(2) assms(4) unfolding acme_proofs_def pr by (auto simp: set_tbl_put)
  moreover have "\<forall>r \<in> set (db_orders ?e). ao_id r \<notin> I \<longrightarrow> covered d r"
    using assms(1,2) covered_same [OF assms(3)] eq(1) by (auto simp: acme_inv_but_def set_tbl_put)
  ultimately show "acme_inv_but I ?e" by (simp add: acme_inv_but_def pr)
qed

end
