(* ===== verification/AcmeReach.thy ===== *)
theory AcmeReach
  imports AcmeInv
begin

text \<open>
  The methods of the ACME service keep the invariant of \<open>AcmeInv\<close> and that of the PKI tables;
  the program as one state machine whose steps are the methods of both services.
\<close>

section \<open>Opening an order\<close>

text \<open>While \<open>ACMENewOrder\<close> runs, its order is pending and need not be covered yet.\<close>

definition being_opened :: "string \<Rightarrow> string \<Rightarrow> db \<Rightarrow> bool" where
  "being_opened i a d \<longleftrightarrow> acme_inv_but {i} d \<and> (i, a) \<in> ao_owner ` set (db_orders d) \<and>
     (\<forall>q \<in> set (db_orders d). ao_id q = i \<longrightarrow> ao_status q = AcPending)"

lemma open_order:
  assumes "acme_inv d" "ao_account q \<in> aa_id ` set (db_accounts d)" "ao_status q = AcPending"
    "ao_id q \<notin> ao_id ` set (db_orders d)"
  shows "create_order q d = (Inr (), db_orders_update (\<lambda>rs. rs @ [q]) d)"
    "being_opened (ao_id q) (ao_account q) (db_orders_update (\<lambda>rs. rs @ [q]) d)"
proof -
  let ?e = "db_orders_update (\<lambda>rs. rs @ [q]) d"
  show "create_order q d = (Inr (), ?e)"
    using assms(2,4) by (simp add: create_order_def repo_create_def order_clash_def tbl_has_iff)
  have pr: "proved ?e y = proved d y" "covered ?e r = covered d r" for y r by (simp_all add: proved_def covered_def)
  have "acme_keys ?e" using assms by (auto simp: acme_inv_but_def acme_keys_def)
  moreover have "acme_proofs ?e"
    using assms(1,3) unfolding acme_proofs_def pr by (auto simp: acme_inv_but_def acme_proofs_def validated_order_def)
  ultimately have "acme_inv_but {ao_id q} ?e" using assms(1) by (auto simp: acme_inv_but_def pr)
  moreover have "\<forall>r \<in> set (db_orders ?e). ao_id r = ao_id q \<longrightarrow> ao_status r = AcPending"
    using assms(3,4) by (auto simp: image_iff)
  ultimately show "being_opened (ao_id q) (ao_account q) ?e" by (simp add: being_opened_def ao_owner_def)
qed

lemma open_authz:
  assumes "being_opened i a d" "az_id z \<notin> az_id ` set (db_authzs d)" "az_order z = i" "az_account z = a"
    "az_status z = AcPending"
  shows "create_authz z d = (Inr (), db_authzs_update (\<lambda>rs. rs @ [z]) d)"
    "being_opened i a (db_authzs_update (\<lambda>rs. rs @ [z]) d)"
proof -
  let ?e = "db_authzs_update (\<lambda>rs. rs @ [z]) d"
  show "create_authz z d = (Inr (), ?e)" using assms(2) by (simp add: create_authz_def repo_create_def tbl_has_iff)
  have inv: "acme_inv_but {i} d" and own: "(i, a) \<in> ao_owner ` set (db_orders d)"
    and pend: "\<forall>q \<in> set (db_orders d). ao_id q = i \<longrightarrow> ao_status q = AcPending"
    using assms(1) by (auto simp: being_opened_def)
  have pr: "proved ?e y = proved d y" for y by (simp add: proved_def)
  have cov: "covered d r \<Longrightarrow> covered ?e r" for r by (auto simp: covered_def)
  have "acme_keys ?e" using inv own assms(2-4) by (auto simp: acme_inv_but_def acme_keys_def)
  moreover have "acme_proofs ?e"
    using inv pend assms(3,5) unfolding acme_proofs_def pr
    by (auto simp: acme_inv_but_def acme_proofs_def validated_order_def)
  ultimately have "acme_inv_but {i} ?e" using inv cov by (simp add: acme_inv_but_def)
  then show "being_opened i a ?e" using own pend by (simp add: being_opened_def)
qed

lemma open_challenge:
  assumes "being_opened i a d" "ch_id c \<notin> ch_id ` set (db_challenges d)" "z \<in> set (db_authzs d)" "ch_authz c = az_id z"
    "az_order z = i"
  shows "create_challenge c d = (Inr (), db_challenges_update (\<lambda>rs. rs @ [c]) d)"
    "being_opened i a (db_challenges_update (\<lambda>rs. rs @ [c]) d)"
proof -
  let ?e = "db_challenges_update (\<lambda>rs. rs @ [c]) d"
  show "create_challenge c d = (Inr (), ?e)"
    using assms(2) by (simp add: create_challenge_def repo_create_def tbl_has_iff)
  have inv: "acme_inv_but {i} d" using assms(1) by (simp add: being_opened_def)
  have dist: "distinct (map az_id (db_authzs d))" using inv by (simp add: acme_inv_but_def acme_keys_def)
  have pr: "proved d y \<Longrightarrow> proved ?e y" for y by (auto simp: proved_def)
  have other: "az_id y \<noteq> ch_authz c" if "y \<in> set (db_authzs d)" "az_order y \<noteq> i" for y
    using dist assms(3-5) that by (metis distinct_map inj_on_eq_iff)
  have blocked: "\<exists>y \<in> set (db_authzs ?e). az_order y = ao_id r \<and> az_id y \<notin> ch_authz ` set (db_challenges ?e)"
    if "y \<in> set (db_authzs d)" "az_order y = ao_id r" "az_id y \<notin> ch_authz ` set (db_challenges d)" "ao_id r \<noteq> i" for y r
    using that other [of y] by (intro bexI [of _ y]) auto
  have cov: "covered ?e r" if c: "covered d r" and r: "ao_id r \<noteq> i" for r
    using c unfolding covered_def
  proof (elim disjE bexE conjE, goal_cases)
    case (2 y)
    then show ?case using blocked [of y r] r by simp
  qed simp
  have "acme_keys ?e" using inv assms(2-4) by (auto simp: acme_inv_but_def acme_keys_def)
  moreover have "acme_proofs ?e" using inv pr by (simp add: acme_inv_but_def acme_proofs_def)
  ultimately have "acme_inv_but {i} ?e" using inv cov by (simp add: acme_inv_but_def)
  then show "being_opened i a ?e" using assms(1) by (simp add: being_opened_def)
qed

text \<open>Draws that never repeat an identifier of their table: what a random UUID is relied on for.\<close>

definition fresh_from :: "nat \<Rightarrow> order_draws \<Rightarrow> db \<Rightarrow> bool" where
  "fresh_from n R d \<longleftrightarrow> inj (od_authz R) \<and> (\<forall>m. inj (od_challenge R m)) \<and>
     (\<forall>m k j l. od_challenge R m k = od_challenge R j l \<longrightarrow> m = j) \<and>
     (\<forall>m \<ge> n. od_authz R m \<notin> az_id ` set (db_authzs d) \<and> (\<forall>k. od_challenge R m k \<notin> ch_id ` set (db_challenges d)))"

lemma open_challenges:
  assumes "being_opened i a d" "z \<in> set (db_authzs d)" "az_order z = i" "inj ids"
    "\<forall>j \<ge> k. ids j \<notin> ch_id ` set (db_challenges d)"
  shows "\<exists>cs. create_challenges_from E ids toks (az_id z) k tys d = (Inr (), db_challenges_update (\<lambda>x. x @ cs) d) \<and>
    being_opened i a (db_challenges_update (\<lambda>x. x @ cs) d) \<and> ch_id ` set cs \<subseteq> range ids"
  using assms
proof (induction tys arbitrary: k d)
  case Nil
  have "db_challenges_update (\<lambda>x. x) d = d" by (cases d) simp
  then have "being_opened i a (db_challenges_update (\<lambda>x. x @ []) d) \<and>
      create_challenges_from E ids toks (az_id z) k [] d = (Inr (), db_challenges_update (\<lambda>x. x @ []) d)"
    using Nil.prems(1) by (simp only: append_Nil2 create_challenges_from.simps op_simps simp_thms)
  then show ?case by (intro exI [of _ "[]"]) (simp only: list.set image_empty empty_subsetI simp_thms)
next
  case (Cons ty tys)
  let ?c = "new_challenge E (ids k) (az_id z) ty (toks k)"
  let ?d = "db_challenges_update (\<lambda>x. x @ [?c]) d"
  have "ids k \<notin> ch_id ` set (db_challenges d)" using Cons.prems(5) by simp
  then have c: "create_challenge ?c d = (Inr (), ?d)" "being_opened i a ?d"
    using open_challenge [OF Cons.prems(1), of ?c z] Cons.prems(2,3) by (simp_all add: new_challenge_def)
  have "\<forall>j \<ge> Suc k. ids j \<notin> ch_id ` set (db_challenges ?d)"
    using Cons.prems(5) by (auto simp: new_challenge_def dest!: injD [OF Cons.prems(4)])
  then obtain cs where "create_challenges_from E ids toks (az_id z) (Suc k) tys ?d = (Inr (), db_challenges_update (\<lambda>x. x @ cs) ?d)"
    "being_opened i a (db_challenges_update (\<lambda>x. x @ cs) ?d)" "ch_id ` set cs \<subseteq> range ids"
    using Cons.IH [OF c(2), of "Suc k"] Cons.prems(2-4) by auto
  then show ?case
    using c(1) by (intro exI [of _ "?c # cs"])
      (simp add: bindS_def as_problem_def map_errS_def comp_def new_challenge_def)
qed

text \<open>The authorizations of an order: all of them, or one that can never be proved.\<close>

lemma open_authzs:
  assumes "being_opened (od_order R) a d" "fresh_from n R d"
  shows "being_opened (od_order R) a (snd (create_authzs E R a n names d)) \<and>
    db_orders (snd (create_authzs E R a n names d)) = db_orders d \<and>
    set (db_authzs d) \<subseteq> set (db_authzs (snd (create_authzs E R a n names d))) \<and>
    ((\<forall>m \<in> set names. \<exists>z \<in> set (db_authzs (snd (create_authzs E R a n names d))).
        az_order z = od_order R \<and> az_identifier z = m) \<or>
     (\<exists>z \<in> set (db_authzs (snd (create_authzs E R a n names d))). az_order z = od_order R \<and>
        az_id z \<notin> ch_authz ` set (db_challenges (snd (create_authzs E R a n names d)))))"
  using assms
proof (induction names arbitrary: n d)
  case (Cons name names)
  let ?i = "od_order R"
  let ?z = "new_authz E (od_authz R n) ?i a name"
  let ?d = "db_authzs_update (\<lambda>rs. rs @ [?z]) d"
  note fresh = Cons.prems(2) [unfolded fresh_from_def]
  have z_new: "az_id ?z \<notin> az_id ` set (db_authzs d)" using fresh by (simp add: new_authz_def)
  have z: "create_authz ?z d = (Inr (), ?d)" "being_opened ?i a ?d"
    using open_authz [OF Cons.prems(1) z_new] by (simp_all add: new_authz_def)
  show ?case
  proof (cases "challenge_types E (az_wildcard ?z) = []")
    case True
    have "az_id ?z \<notin> ch_authz ` set (db_challenges d)"
      using Cons.prems(1) z_new by (auto simp: being_opened_def acme_inv_but_def acme_keys_def)
    then show ?thesis
      using True z by (auto simp: Let_def bindS_def as_problem_def map_errS_def create_challenges_def failP_def new_authz_def)
  next
    case False
    have pre: "?z \<in> set (db_authzs ?d)" "az_order ?z = ?i" "inj (od_challenge R n)"
      "\<forall>j \<ge> 0. od_challenge R n j \<notin> ch_id ` set (db_challenges ?d)"
      using fresh by (simp_all add: new_authz_def)
    obtain cs where cs: "create_challenges_from E (od_challenge R n) (od_token R n) (az_id ?z) 0 (challenge_types E (az_wildcard ?z)) ?d =
        (Inr (), db_challenges_update (\<lambda>x. x @ cs) ?d)"
      "being_opened ?i a (db_challenges_update (\<lambda>x. x @ cs) ?d)" "ch_id ` set cs \<subseteq> range (od_challenge R n)"
      using open_challenges [OF z(2) pre] by blast
    let ?e = "db_challenges_update (\<lambda>x. x @ cs) ?d"
    have "fresh_from (Suc n) R ?e"
      unfolding fresh_from_def
    proof (intro conjI)
      have a: "od_authz R m \<noteq> od_authz R n" if "Suc n \<le> m" for m
        using injD [OF conjunct1 [OF fresh], of m n] that by auto
      have c: "od_challenge R m k \<notin> ch_id ` set cs" if m: "Suc n \<le> m" for m k
      proof
        assume "od_challenge R m k \<in> ch_id ` set cs"
        then obtain l where "od_challenge R m k = od_challenge R n l" using cs(3) by auto
        then have "m = n" using fresh by blast
        then show False using m by simp
      qed
      have old: "od_authz R m \<notin> az_id ` set (db_authzs d)" "od_challenge R m k \<notin> ch_id ` set (db_challenges d)"
        if "Suc n \<le> m" for m k
        using fresh Suc_leD [OF that] by blast+
      have all: "az_id ` set (db_authzs ?e) = insert (od_authz R n) (az_id ` set (db_authzs d))"
        "ch_id ` set (db_challenges ?e) = ch_id ` set (db_challenges d) \<union> ch_id ` set cs"
        by (simp_all add: new_authz_def image_Un)
      show "\<forall>m \<ge> Suc n. od_authz R m \<notin> az_id ` set (db_authzs ?e) \<and>
          (\<forall>k. od_challenge R m k \<notin> ch_id ` set (db_challenges ?e))"
        unfolding all using a c old by blast
    qed (use fresh in blast)+
    note IH = Cons.IH [OF cs(2) this]
    have run: "snd (create_authzs E R a n (name # names) d) = snd (create_authzs E R a (Suc n) names ?e)"
      using z(1) cs(1) False
      by (auto simp: Let_def bindS_def as_problem_def map_errS_def create_challenges_def split: prod.split sum.split)
    have "?z \<in> set (db_authzs ?e)" "az_order ?z = ?i" "az_identifier ?z = name" by (simp_all add: new_authz_def)
    then show ?thesis using IH unfolding run by auto
  qed
qed simp

lemma snd_bind_return: "snd (bindS m (\<lambda>x. returnS (f x)) d) = snd (m d)"
  by (simp add: bindS_def split: prod.split sum.split)

lemma bind_as_problem: "m d = (Inr x, e) \<Longrightarrow> bindS (as_problem k t m) g d = g x e"
  by (simp add: bindS_def as_problem_def map_errS_def)

lemma inv_new_order:
  assumes "acme_inv d" "a \<in> set (db_accounts d)" "od_order R \<notin> ao_id ` set (db_orders d)" "fresh_from 0 R d"
  shows "acme_inv (snd (acme_new_order E R a req d))"
proof -
  have key: "acme_inv (snd (bindS (as_problem ServerInternal ''could not create the order'' (create_order (new_order_row E R a req names)))
      (\<lambda>_. bindS (create_authzs E R (aa_id a) 0 names) (\<lambda>azs. returnS (new_order_row E R a req names, azs))) d))" for names
  proof -
    let ?q = "new_order_row E R a req names"
    let ?d = "db_orders_update (\<lambda>rs. rs @ [?q]) d"
    let ?e = "snd (create_authzs E R (aa_id a) 0 names ?d)"
    have q: "ao_account ?q = aa_id a" "ao_id ?q = od_order R" "ao_status ?q = AcPending" "ao_identifiers ?q = names"
      by (simp_all add: new_order_row_def)
    have o: "create_order ?q d = (Inr (), ?d)" "being_opened (od_order R) (aa_id a) ?d"
      using open_order [OF assms(1), of ?q] assms(2,3) q by simp_all
    have "fresh_from 0 R ?d" using assms(4) by (simp add: fresh_from_def)
    note run = open_authzs [OF o(2) this, of E names]
    have "covered ?e ?q" using run q by (auto simp: covered_def)
    moreover have "r = ?q" if "r \<in> set (db_orders ?e)" "ao_id r = od_order R" for r
      using run that assms(3) by (auto simp: q image_iff)
    moreover have inv: "acme_inv_but {od_order R} ?e" using run by (simp add: being_opened_def)
    ultimately have "covered ?e r" if "r \<in> set (db_orders ?e)" for r
      using that unfolding acme_inv_but_def by (metis singletonD)
    then have "acme_inv ?e" using inv by (simp add: acme_inv_but_def)
    then show ?thesis using o(1) by (simp add: bind_as_problem snd_bind_return)
  qed
  show ?thesis
    unfolding acme_new_order_def Let_def failP_def
    by (intro inv_intros [where I = acme_inv] key assms(1))
qed

section \<open>Validating a challenge\<close>

lemma acme_rowsD:
  "get_challenge i d = Inr c \<Longrightarrow> c \<in> set (db_challenges d)" "get_authz i d = Inr z \<Longrightarrow> z \<in> set (db_authzs d) \<and> az_id z = i"
  "get_order i d = Inr q \<Longrightarrow> q \<in> set (db_orders d) \<and> ao_id q = i"
  by (auto simp: get_challenge_def get_authz_def get_order_def dest: tbl_get_InrD)

lemma acme_lists:
  "z \<in> set (authzs_by_order i d) \<longleftrightarrow> z \<in> set (db_authzs d) \<and> az_order z = i"
  "c \<in> set (challenges_by_authz i d) \<longleftrightarrow> c \<in> set (db_challenges d) \<and> ch_authz c = i"
  by (auto simp: authzs_by_order_def challenges_by_authz_def)

lemma inv_ready_order:
  "acme_inv d \<Longrightarrow> q \<in> set (db_orders d) \<Longrightarrow> \<not> list_ex (\<lambda>z. az_status z \<noteq> AcValid) (authzs_by_order (ao_id q) d) \<Longrightarrow>
   acme_inv (snd (update_order (q\<lparr>ao_status := AcReady\<rparr>) d))"
  using inv_save_order [of "{}" d q "q\<lparr>ao_status := AcReady\<rparr>"]
  by (auto simp: ao_fixed_def list_ex_iff acme_lists)

lemma inv_refresh_order:
  assumes "acme_inv d"
  shows "acme_inv (snd (refresh_order_status i d))"
  unfolding refresh_order_status_def
  by (intro inv_intros [where I = acme_inv] assms) (auto dest: acme_rowsD intro!: inv_ready_order assms)

lemma inv_spoil_order:
  "acme_inv d \<Longrightarrow> q \<in> set (db_orders d) \<Longrightarrow> acme_inv (snd (update_order (q\<lparr>ao_status := AcInvalid, ao_error := t\<rparr>) d))"
  using inv_save_order [of "{}" d q "q\<lparr>ao_status := AcInvalid, ao_error := t\<rparr>"]
  by (simp add: ao_fixed_def validated_order_def)

lemma inv_fail_order:
  assumes "acme_inv d"
  shows "acme_inv (snd (fail_order z d))"
  unfolding fail_order_def
  by (intro inv_intros [where I = acme_inv] assms) (auto dest: acme_rowsD intro!: inv_spoil_order assms)

lemma inv_fail_authorization:
  assumes "acme_inv d" "z \<in> set (db_authzs d)"
  shows "acme_inv (snd (fail_authorization_if_exhausted z d))"
proof (cases "list_ex (\<lambda>c. ch_status c \<noteq> AcInvalid) (challenges_by_authz (az_id z) d)")
  case False
  then have "\<not> proved d z" by (auto simp: proved_def list_ex_iff acme_lists)
  then have "az_status z \<noteq> AcValid" using assms by (auto simp: acme_inv_but_def acme_proofs_def)
  then have "update_authz (z\<lparr>az_status := AcInvalid\<rparr>) d = (Inr (), db_authzs_update (tbl_put az_id (z\<lparr>az_status := AcInvalid\<rparr>)) d)"
    "acme_inv (db_authzs_update (tbl_put az_id (z\<lparr>az_status := AcInvalid\<rparr>)) d)"
    using inv_save_authz [OF assms, of "z\<lparr>az_status := AcInvalid\<rparr>"] by (simp_all add: az_fixed_def)
  then show ?thesis
    using False by (simp add: fail_authorization_if_exhausted_def bindS_def inv_fail_order)
qed (use assms in \<open>simp add: fail_authorization_if_exhausted_def bindS_def\<close>)

lemma bind_ignore: "bindS (ignoreS m) f d = f () (snd (m d))"
  by (simp add: bindS_def)

text \<open>The three writes of a validation, from the first: the attempt, its outcome, the authorization.\<close>

lemma inv_record_outcome:
  assumes "acme_inv d" "c \<in> set (db_challenges d)" "z \<in> set (db_authzs d)" "az_id z = ch_authz c" "ch_status c \<noteq> AcValid"
    "ch_id x = ch_id c" "ch_authz x = ch_authz c"
  shows "update_challenge x d = (Inr (), db_challenges_update (tbl_put ch_id x) d)"
    "acme_inv (db_challenges_update (tbl_put ch_id x) d)" "x \<in> set (db_challenges (db_challenges_update (tbl_put ch_id x) d))"
    "z \<in> set (db_authzs (db_challenges_update (tbl_put ch_id x) d))"
  using inv_save_challenge [OF assms(1,2,6,7,5)] assms(3) by (simp_all add: set_tbl_put)

lemma inv_record_validation:
  assumes "acme_inv d" "c \<in> set (db_challenges d)" "z \<in> set (db_authzs d)" "az_id z = ch_authz c" "ch_status c = AcValid"
    "ch_validated c \<noteq> None"
  shows "acme_inv (snd (bindS (as_problem k t (update_authz (z\<lparr>az_status := AcValid, az_expires := e\<rparr>)))
    (\<lambda>_. bindS (refresh_order_status (az_order (z\<lparr>az_status := AcValid, az_expires := e\<rparr>))) (\<lambda>_. returnS c)) d))"
proof -
  let ?z = "z\<lparr>az_status := AcValid, az_expires := e\<rparr>"
  have "proved d ?z" using assms(2,4-6) by (auto simp: proved_def)
  then have "update_authz ?z d = (Inr (), db_authzs_update (tbl_put az_id ?z) d)"
    "acme_inv (db_authzs_update (tbl_put az_id ?z) d)"
    using inv_save_authz [OF assms(1,3), of ?z] by (simp_all add: az_fixed_def)
  then show ?thesis by (simp add: bind_as_problem snd_bind_return inv_refresh_order)
qed

lemma inv_validate_challenge:
  assumes "acme_inv d"
  shows "acme_inv (snd (acme_validate_challenge E a i ka outcome d))"
  unfolding acme_validate_challenge_def readP_def failP_def
proof (intro inv_intros [where I = acme_inv] assms)
  fix c z k
  assume "map_err (\<lambda>_. Problem Malformed ''no such challenge'') (get_challenge i d) = Inr c"
    and "map_err (\<lambda>_. Problem ServerInternal ''could not load the authorization'') (get_authz (ch_authz c) d) = Inr z"
    and "\<not> settled c"
  then have c: "c \<in> set (db_challenges d)" "z \<in> set (db_authzs d)" "az_id z = ch_authz c" "ch_status c \<noteq> AcValid"
    by (auto dest: acme_rowsD simp: settled_def)
  let ?c = "c\<lparr>ch_attempts := ch_attempts c + 1, ch_status := AcProcessing\<rparr>"
  let ?d = "db_challenges_update (tbl_put ch_id ?c) d"
  have same: "ch_id ?c = ch_id c" "ch_authz ?c = ch_authz c" by simp_all
  note s1 = inv_record_outcome [OF assms c same]
  have c1: "az_id z = ch_authz ?c" "ch_status ?c \<noteq> AcValid" using c(3) by simp_all
  let ?bad = "?c\<lparr>ch_status := AcInvalid, ch_error := the outcome\<rparr>"
  let ?good = "?c\<lparr>ch_status := AcValid, ch_validated := Some (se_now E), ch_error := []\<rparr>"
  have "ch_id ?bad = ch_id ?c" "ch_authz ?bad = ch_authz ?c" "ch_id ?good = ch_id ?c" "ch_authz ?good = ch_authz ?c"
    by simp_all
  note bad = inv_record_outcome [OF s1(2,3,4) c1 this(1,2)] and good = inv_record_outcome [OF s1(2,3,4) c1 this(3,4)]
  show "acme_inv (snd ((let c = ?c in bindS (ignoreS (update_challenge c)) (\<lambda>_. case outcome of
         Some detail \<Rightarrow>
           let c = c\<lparr>ch_status := AcInvalid, ch_error := detail\<rparr> in
           bindS (ignoreS (update_challenge c)) (\<lambda>_.
           bindS (fail_authorization_if_exhausted z) (\<lambda>_. returnS c))
       | None \<Rightarrow>
           let c = c\<lparr>ch_status := AcValid, ch_validated := Some (se_now E), ch_error := []\<rparr> in
           bindS (as_problem ServerInternal ''could not record the validation'' (update_challenge c)) (\<lambda>_.
           let z = z\<lparr>az_status := AcValid, az_expires := se_now E + authorization_ttl\<rparr> in
           bindS (as_problem ServerInternal ''could not record the authorization'' (update_authz z)) (\<lambda>_.
           bindS (refresh_order_status (az_order z)) (\<lambda>_. returnS c))))) d))"
  proof (cases outcome)
    case None
    have "az_id z = ch_authz ?good" "ch_status ?good = AcValid" "ch_validated ?good \<noteq> None" using c(3) by simp_all
    note validated = inv_record_validation [OF good(2,3,4) this]
    show ?thesis
      by (simp only: None option.case Let_def bind_ignore s1(1) snd_conv bind_as_problem [where m = "update_challenge ?good", OF good(1)])
         (rule validated)
  next
    case (Some detail)
    have "acme_inv (snd (fail_authorization_if_exhausted z (db_challenges_update (tbl_put ch_id ?bad) ?d)))"
      by (rule inv_fail_authorization [OF bad(2,4)])
    then show ?thesis
      by (simp only: Some option.case option.sel Let_def bind_ignore s1(1) snd_conv bad(1) [unfolded Some option.sel] snd_bind_return)
  qed
qed

section \<open>Accounts, finalizing and pruning\<close>

lemma inv_register:
  assumes "acme_inv d"
  shows "acme_inv (snd (acme_register E u key req url d))"
proof -
  have ext: "acme_tables (snd (update_external x e)) = acme_tables e" for x e
    by (simp add: update_external_def repo_save_def acme_tables_def split: option.split)
  have bind: "acme_tables (snd (admit_binding E req key url e)) = acme_tables e" for e
    unfolding admit_binding_def
    by (simp add: bindS_def ext split: sum.split)
  have create: "acme_inv (snd (create_account a e))" if "acme_inv e" for a e
  proof (cases "create_account a e")
    case (Pair r f)
    show ?thesis
    proof (cases r)
      case (Inr x)
      then have "f = db_accounts_update (\<lambda>rs. rs @ [a]) e" "aa_id a \<notin> aa_id ` set (db_accounts e)" "account_clash e a = None"
        using Pair by (auto simp: create_account_def dest!: repo_create_ok)
      moreover from this have "aa_thumbprint a \<notin> aa_thumbprint ` set (db_accounts e)"
        by (auto simp: account_clash_def list_ex_iff split: if_splits) (metis image_eqI)
      moreover have "proved (db_accounts_update g e) y = proved e y" "covered (db_accounts_update g e) q = covered e q" for g y q
        by (simp_all add: proved_def covered_def)
      ultimately have "acme_inv f"
        using that by (auto simp: acme_inv_but_def acme_keys_def acme_proofs_def)
      then show ?thesis using Pair by simp
    qed (use Pair that in \<open>auto simp: create_account_def dest!: repo_fail\<close>)
  qed
  show ?thesis
    unfolding acme_register_def failP_def Let_def
  proof (intro inv_intros [where I = acme_inv] inv_step [where I = acme_inv] assms)
    show "acme_inv (snd (admit_binding E req key url d))" using assms acme_inv_frame [OF bind, of "{}"] by simp
    fix ext d' enc
    assume "acme_inv d'"
    then show "acme_inv (snd (as_problem ServerInternal ''could not register the account'' (create_account a) d'))" for a
      by (simp add: as_problem_def create)
  qed
qed

lemma inv_deactivate:
  assumes "acme_inv d" "a \<in> set (db_accounts d)"
  shows "acme_inv (snd (acme_deactivate a d))"
proof -
  let ?a = "a\<lparr>aa_status := AcDeactivated\<rparr>"
  let ?e = "db_accounts_update (tbl_put aa_id ?a) d"
  have dist: "distinct (map aa_id (db_accounts d))" "distinct (map aa_thumbprint (db_accounts d))"
    using assms(1) by (simp_all add: acme_inv_but_def acme_keys_def)
  have "distinct (map aa_thumbprint (tbl_put aa_id ?a (db_accounts d)))"
  proof (rule distinct_map_put [OF dist])
    show "\<forall>x \<in> set (db_accounts d). aa_id x \<noteq> aa_id ?a \<longrightarrow> aa_thumbprint x \<noteq> aa_thumbprint ?a"
      using dist(2) assms(2) by (auto simp: distinct_map inj_on_def)
  qed
  moreover have "aa_id ` set (db_accounts ?e) = aa_id ` set (db_accounts d)"
    using image_put [OF dist(1) assms(2), of ?a aa_id] by simp
  moreover have "proved ?e y = proved d y" "covered ?e q = covered d q" for y q
    by (simp_all add: proved_def covered_def)
  ultimately have "acme_inv ?e"
    using assms(1) dist(1) by (simp add: acme_inv_but_def acme_keys_def acme_proofs_def distinct_tbl_put)
  then show ?thesis
    using assms(1) by (auto simp: acme_deactivate_def snd_store_op update_account_def repo_save_def split: option.split)
qed

lemma acme_tables_sign_csr: "acme_tables (snd (sign_csr_certificate E R inp d)) = acme_tables d"
  using keepsD [OF acme_frame.keeps_certificate_service(2), of "acme_tables d" d E R inp] by (simp add: acme_are_def)

text \<open>Finalizing signs the request, which leaves the ACME tables alone, and saves the order.\<close>

definition both_inv :: "db \<Rightarrow> bool" where
  "both_inv d \<longleftrightarrow> pki_inv d \<and> acme_inv d"

lemma pki_inv_frame:
  assumes "pki_inv d" "acme_inv e" "db_authorities e = db_authorities d" "db_certificates e = db_certificates d"
    "db_revocations e = db_revocations d"
  shows "pki_inv e"
proof -
  have "\<forall>q \<in> set (db_orders e). ao_account q \<in> aa_id ` set (db_accounts e)"
    using assms(2) by (simp add: acme_inv_but_def acme_keys_def)
  then have "db_ok e" using pki_invD(1) [OF assms(1)] by (simp add: db_ok_def fk_ok_iff assms(3-5))
  then show ?thesis using assms by (simp add: pki_inv_def ordered_def synced_def)
qed

lemma both_update_order:
  assumes "both_inv d" "x \<in> set (db_orders d)" "ao_fixed q = ao_fixed x"
    "validated_order q \<Longrightarrow> \<forall>z \<in> set (db_authzs d). az_order z = ao_id q \<longrightarrow> az_status z = AcValid"
  shows "both_inv (snd (update_order q d))"
  using inv_save_order [of "{}" d x q] assms pki_inv_frame [of d "db_orders_update (tbl_put ao_id q) d"]
  by (simp add: both_inv_def)

lemma both_sign_csr:
  assumes "both_inv d"
  shows "both_inv (snd (sign_csr_certificate E R inp d))"
  using assms acme_inv_frame [OF acme_tables_sign_csr, of "{}"] inv_sign_csr_certificate
  by (simp add: both_inv_def)

lemma bind_catch: "bindS (\<lambda>d. case m d of (r, e) \<Rightarrow> (Inr r, e)) f d = f (fst (m d)) (snd (m d))"
  by (simp add: bindS_def split: prod.split)

lemma both_spoil:
  assumes "both_inv d" "q \<in> set (db_orders d)"
  shows "both_inv (snd (bindS (save_order_error q t) (\<lambda>_. failS p) d))" (is "both_inv ?e")
proof -
  have "?e = snd (update_order (q\<lparr>ao_status := AcInvalid, ao_error := t\<rparr>) d)"
    by (simp add: bindS_def save_order_error_def)
  then show ?thesis
    using both_update_order [OF assms, of "q\<lparr>ao_status := AcInvalid, ao_error := t\<rparr>"]
    by (simp add: ao_fixed_def validated_order_def)
qed

lemma both_finalize:
  assumes "both_inv d"
  shows "both_inv (snd (acme_finalize E R a i csr_der d))"
  unfolding acme_finalize_def readP_def failP_def
proof (intro inv_intros [where I = both_inv] assms)
  fix q r dr p
  assume "map_err (\<lambda>_. Problem Malformed ''no such order'') (get_order i d) = Inr q"
  then have q: "q \<in> set (db_orders d)" by (auto dest: acme_rowsD)
  then show "both_inv (snd (bindS (save_order_error q (problem_detail p)) (\<lambda>_. failS p) d))"
    by (rule both_spoil [OF assms])
  fix ca
  assume "\<not> ao_status q \<noteq> AcReady"
  then have ready: "validated_order q" by (simp add: validated_order_def)
  let ?s = "sign_csr_certificate (base_env E) R (acme_csr_input E ca a dr) d"
  let ?e = "snd ?s"
  have e: "both_inv ?e" "q \<in> set (db_orders ?e)"
    using both_sign_csr [OF assms] q acme_tables_sign_csr by (simp_all add: acme_tables_def)
  have "\<forall>z \<in> set (db_authzs ?e). az_order z = ao_id q \<longrightarrow> az_status z = AcValid"
    using e ready by (simp add: both_inv_def acme_inv_but_def acme_proofs_def)
  then have saved: "both_inv (snd (update_order (q\<lparr>ao_status := AcValid, ao_certificate := cid, ao_error := []\<rparr>) ?e))" for cid
    using both_update_order [OF e] by (simp add: ao_fixed_def)
  show "both_inv (snd (bindS (\<lambda>d. case sign_csr_certificate (base_env E) R (acme_csr_input E ca a dr) d of
                     (res, d') \<Rightarrow> (Inr res, d')) (\<lambda>res.
           case res of
             Inl e \<Rightarrow>
               let p = (if is_validation e then Problem BadCSRProblem ''refused''
                        else Problem ServerInternal ''could not issue the certificate'') in
               bindS (save_order_error q (problem_detail p)) (\<lambda>_. failS p)
           | Inr result \<Rightarrow>
               let q = q\<lparr>ao_status := AcValid, ao_certificate := cr_id (ir_row result), ao_error := []\<rparr> in
               bindS (as_problem ServerInternal ''could not attach the certificate to the order''
                        (update_order q)) (\<lambda>_. returnS q)) d))"
  proof (cases "fst ?s")
    case (Inl x)
    then show ?thesis by (simp add: bind_catch Let_def both_spoil [OF e])
  next
    case (Inr x)
    then show ?thesis
      using saved [of "cr_id (ir_row x)"] by (simp add: bind_catch Let_def snd_bind_return as_problem_def)
  qed
qed

lemma prune_children_challenges:
  "db_challenges (prune_order_children qs d) =
     filter (\<lambda>c. ch_authz c \<notin> az_id ` {z \<in> set (db_authzs d). az_order z \<in> ao_id ` set qs}) (db_challenges d)"
proof (induction qs arbitrary: d)
  case (Cons q qs)
  show ?case
    by (auto simp: Let_def fold_drop_challenges Cons.IH image_iff intro!: filter_cong)
qed simp

lemma inv_prune_orders:
  assumes "acme_inv d"
  shows "acme_inv (snd (prune_orders now d))"
proof -
  let ?stale = "filter (\<lambda>q. ao_expires q < now) (db_orders d)"
  let ?e = "snd (prune_orders now d)"
  have k: "acme_keys d" "acme_proofs d" using assms by (simp_all add: acme_inv_but_def)
  have dist: "distinct (map ao_id (db_orders d))" "distinct (map az_id (db_authzs d))"
    using k(1) by (simp_all add: acme_keys_def)
  have e: "db_orders ?e = filter (\<lambda>q. \<not> ao_expires q < now) (db_orders d)" "db_accounts ?e = db_accounts d"
    "db_authzs ?e = filter (\<lambda>z. az_order z \<notin> ao_id ` set ?stale) (db_authzs d)"
    "db_challenges ?e = filter (\<lambda>c. ch_authz c \<notin> az_id ` {z \<in> set (db_authzs d). az_order z \<in> ao_id ` set ?stale}) (db_challenges d)"
    by (simp_all add: prune_orders_def Let_def prune_children_frame prune_children_authzs prune_children_challenges)
  have live: "ao_id q \<notin> ao_id ` set ?stale" if "q \<in> set (db_orders ?e)" for q
    using dist(1) that by (auto simp: e(1) dest: inj_onD [OF conjunct2 [OF iffD1 [OF distinct_map]]])
  have kept: "c \<in> set (db_challenges ?e)" if "c \<in> set (db_challenges d)" "ch_authz c = az_id z" "z \<in> set (db_authzs ?e)" for c z
  proof -
    have z: "z \<in> set (db_authzs d)" "az_order z \<notin> ao_id ` set ?stale" using that(3) by (simp_all add: e(3))
    have "y = z" if "y \<in> set (db_authzs d)" "az_id y = az_id z" for y
      using dist(2) z(1) that by (metis distinct_map inj_on_eq_iff)
    then have "az_id z \<notin> az_id ` {y \<in> set (db_authzs d). az_order y \<in> ao_id ` set ?stale}" using z(2) by auto
    then show ?thesis using that(1,2) by (simp add: e(4))
  qed
  have proved: "proved ?e z" if "proved d z" "z \<in> set (db_authzs ?e)" for z
    using that kept unfolding proved_def by metis
  have "acme_keys ?e"
    unfolding acme_keys_def
  proof (intro conjI ballI)
    fix c assume "c \<in> set (db_challenges ?e)"
    then have c: "c \<in> set (db_challenges d)" "ch_authz c \<notin> az_id ` {z \<in> set (db_authzs d). az_order z \<in> ao_id ` set ?stale}"
      by (simp_all add: e(4))
    then obtain z where "z \<in> set (db_authzs d)" "ch_authz c = az_id z" using k(1) by (auto simp: acme_keys_def)
    then show "ch_authz c \<in> az_id ` set (db_authzs ?e)" using c(2) by (auto simp: e(3))
  next
    fix z assume "z \<in> set (db_authzs ?e)"
    then have z: "z \<in> set (db_authzs d)" "az_order z \<notin> ao_id ` set ?stale" by (simp_all add: e(3))
    then obtain q where "q \<in> set (db_orders d)" "ao_owner q = (az_order z, az_account z)"
      using k(1) unfolding acme_keys_def by (metis (no_types, lifting) image_iff)
    then show "(az_order z, az_account z) \<in> ao_owner ` set (db_orders ?e)"
      using z(2) unfolding e(1) by (force simp: ao_owner_def)
  qed (use k(1) in \<open>auto simp: acme_keys_def e(1,2) e(3) e(4) distinct_map_filter\<close>)
  moreover have "acme_proofs ?e"
    using k(2) proved unfolding acme_proofs_def by (auto simp: e(1) e(3))
  moreover have "covered ?e q" if q: "q \<in> set (db_orders ?e)" for q
  proof -
    have "covered d q" using assms q by (simp add: acme_inv_but_def e(1))
    moreover have "z \<in> set (db_authzs ?e) \<longleftrightarrow> z \<in> set (db_authzs d)" if "az_order z = ao_id q" for z
      using live [OF q] that by (simp add: e(3))
    moreover have "i \<notin> ch_authz ` set (db_challenges d) \<Longrightarrow> i \<notin> ch_authz ` set (db_challenges ?e)" for i
      by (auto simp: e(4))
    ultimately show ?thesis unfolding covered_def by blast
  qed
  ultimately show ?thesis by (simp add: acme_inv_but_def)
qed

end
