(* ===== verification/CertioReach.thy ===== *)
theory CertioReach
  imports AcmeReach
begin

text \<open>
  The program as one state machine over one database: a step is a method of the PKI service or
  of the ACME service.  Both invariants hold in every reachable database.
\<close>

section \<open>What the ACME service leaves alone\<close>

locale acme_store_frame =
  fixes I :: "db \<Rightarrow> bool"
  assumes account_rows: "keeps I (create_account a)" "keeps I (update_account a)"
    and external_rows: "keeps I (create_external x)" "keeps I (update_external x)" "keeps I (delete_external i)"
    and order_rows: "keeps I (create_order q)" "keeps I (update_order q)"
    and authz_rows: "keeps I (create_authz z)" "keeps I (update_authz z)"
    and challenge_rows: "keeps I (create_challenge c)" "keeps I (update_challenge c)"
    and pruned_rows: "I d \<Longrightarrow> I (snd (prune_orders now d))" "I d \<Longrightarrow> I (snd (prune_nonces now d))"
    and nonce_rows: "I d \<Longrightarrow> I (issue_nonce now v ttl d)" "I d \<Longrightarrow> I (snd (spend_nonce_row now v d))"
begin

lemma keeps_problem: "keeps I m \<Longrightarrow> keeps I (as_problem k t m)"
  by (simp add: as_problem_def keeps_map_errS)

lemma keeps_reads: "keeps I (failP k t)" "keeps I (readP k t f)"
  by (simp_all add: failP_def readP_def)

lemmas frame_rules = keeps_intros keeps_basic keeps_problem keeps_reads account_rows external_rows order_rows
  authz_rows challenge_rows

lemma keeps_challenges: "keeps I (create_challenges_from E ids toks z n tys)"
  by (induction tys arbitrary: n) (simp_all, intro frame_rules)

lemma keeps_authzs: "keeps I (create_authzs E R a n names)"
proof (induction names arbitrary: n)
  case (Cons name names)
  show ?case
    unfolding create_authzs.simps create_challenges_def Let_def by (intro frame_rules keeps_challenges Cons.IH)
qed simp

lemma keeps_acme_orders:
  "keeps I (acme_new_order E R a req)" "keeps I (fail_order z)" "keeps I (refresh_order_status i)"
  unfolding acme_new_order_def fail_order_def refresh_order_status_def Let_def
  by (intro frame_rules keeps_authzs)+

lemma keeps_exhausted: "keeps I (fail_authorization_if_exhausted z)"
proof -
  have "keeps I (\<lambda>d. case update_authz y d of (Inl _, d') \<Rightarrow> (Inr False, d') | (Inr _, d') \<Rightarrow> (Inr True, d'))" for y
    using authz_rows(2) [of y] by (auto simp: keeps_def split: prod.split sum.split) 
  then show ?thesis unfolding fail_authorization_if_exhausted_def by (intro frame_rules keeps_acme_orders)
qed

lemma keeps_acme_accounts:
  "keeps I (acme_register E u key req url)" "keeps I (acme_deactivate b)"
  "keeps I (create_external_account E u kid s actor t ds dur)" "keeps I (delete_external_account i)"
  unfolding acme_register_def admit_binding_def acme_deactivate_def create_external_account_def
    delete_external_account_def Let_def
  by (intro frame_rules)+

lemma keeps_validate: "keeps I (acme_validate_challenge E a i ka out)"
  unfolding acme_validate_challenge_def Let_def
  by (intro frame_rules keeps_exhausted keeps_acme_orders)

lemma keeps_spend: "keeps I (spend_nonce E v)"
  unfolding spend_nonce_def
  by (intro frame_rules) (auto simp: keeps_def split: prod.split dest: nonce_rows(2) [of _ "se_now E" v])

lemma keeps_prune: "I d \<Longrightarrow> I (snd (prune_acme now d))" "I d \<Longrightarrow> I (snd (new_nonce E v d))"
  using pruned_rows nonce_rows(1) by (auto simp: prune_acme_def new_nonce_def split: prod.split) (metis snd_conv)

end

definition pki_tables :: "db \<Rightarrow> authority list \<times> certificate list \<times> revocation list" where
  "pki_tables d = (db_authorities d, db_certificates d, db_revocations d)"

definition pki_are :: "authority list \<times> certificate list \<times> revocation list \<Rightarrow> db \<Rightarrow> bool" where
  "pki_are t d \<longleftrightarrow> pki_tables d = t"

interpretation pki_kept: acme_store_frame "pki_are t"
proof unfold_locales
  note defs = keeps_def pki_are_def pki_tables_def repo_create_def repo_save_def acme_repo_defs delete_external_def
  show "keeps (pki_are t) (create_account a)" "keeps (pki_are t) (update_account a)" for a
    by (auto simp: defs split: option.split)
  show "keeps (pki_are t) (create_external x)" "keeps (pki_are t) (update_external x)" "keeps (pki_are t) (delete_external i)" for x i
    by (auto simp: defs split: option.split)
  show "keeps (pki_are t) (create_order q)" "keeps (pki_are t) (update_order q)" for q
    by (auto simp: defs split: option.split)
  show "keeps (pki_are t) (create_authz z)" "keeps (pki_are t) (update_authz z)" for z
    by (auto simp: defs split: option.split)
  show "keeps (pki_are t) (create_challenge c)" "keeps (pki_are t) (update_challenge c)" for c
    by (auto simp: defs split: option.split)
qed (simp_all add: pki_are_def pki_tables_def prune_orders_def prune_nonces_def issue_nonce_def spend_nonce_row_def
      Let_def prune_children_frame)

section \<open>Steps\<close>

text \<open>
  Identifiers that the store draws are fresh: the identifier of a new order, authorization,
  challenge or revocation occurs nowhere.  The account a handler acts for is one it has read.
\<close>

inductive acme_step :: "acme_env \<Rightarrow> db \<Rightarrow> db \<Rightarrow> bool" for E :: acme_env where
  acme_nonce: "acme_step E d (snd (new_nonce E v d))"
| acme_spend: "acme_step E d (snd (spend_nonce E v d))"
| acme_account: "acme_step E d (snd (acme_register E u key req url d))"
| acme_close: "a \<in> set (db_accounts d) \<Longrightarrow> acme_step E d (snd (acme_deactivate a d))"
| acme_order: "a \<in> set (db_accounts d) \<Longrightarrow> od_order R \<notin> ao_id ` set (db_orders d) \<Longrightarrow> fresh_from 0 R d \<Longrightarrow>
    acme_step E d (snd (acme_new_order E R a oreq d))"
| acme_validate: "acme_step E d (snd (acme_validate_challenge E a i ka out d))"
| acme_final: "acme_step E d (snd (acme_finalize E D a i csr d))"
| acme_withdraw: "dr_uuid D \<notin> rv_id ` set (db_revocations d) \<Longrightarrow>
    acme_step E d (snd (acme_revoke E D who cert reason own d))"
| acme_bind: "acme_step E d (snd (create_external_account E u kid secret actor desc domains dur d))"
| acme_unbind: "acme_step E d (snd (delete_external_account i d))"
| acme_prune: "acme_step E d (snd (prune_acme now d))"

inductive certio :: "db \<Rightarrow> bool" where
  certio_start: "certio empty_db"
| certio_pki: "certio d \<Longrightarrow> pki_step E d d' \<Longrightarrow> certio d'"
| certio_acme: "certio d \<Longrightarrow> acme_step F d d' \<Longrightarrow> certio d'"

inductive_cases acme_stepE: "acme_step E d d'"

lemma pki_are_pki_inv:
  "both_inv d \<Longrightarrow> acme_inv e \<Longrightarrow> pki_are (pki_tables d) e \<Longrightarrow> both_inv e"
  using pki_inv_frame [of d e] by (simp add: both_inv_def pki_are_def pki_tables_def)

lemma acme_same: "(\<And>t. keeps (acme_are t) m) \<Longrightarrow> acme_tables (snd (m d)) = acme_tables d"
  by (simp add: keeps_def acme_are_def)

lemma pki_same: "(\<And>t. keeps (pki_are t) m) \<Longrightarrow> pki_are (pki_tables d) (snd (m d))"
  by (simp add: keeps_def pki_are_def)

lemma same_acme:
  "both_inv d \<Longrightarrow> acme_tables e = acme_tables d \<Longrightarrow> pki_are (pki_tables d) e \<Longrightarrow> both_inv e"
  using acme_inv_frame [of e d "{}"] pki_are_pki_inv [of d e] by (simp add: both_inv_def)

lemma both_revoke:
  assumes "both_inv d" "dr_uuid D \<notin> rv_id ` set (db_revocations d)"
  shows "both_inv (snd (acme_revoke E D who cert reason own d))"
proof -
  have rev: "both_inv (snd (revoke_certificate (base_env E) D actor i kin d))" for actor i kin
  proof -
    have "acme_tables (snd (revoke_certificate (base_env E) D actor i kin d)) = acme_tables d"
      by (rule acme_same [OF acme_frame.keeps_revocation_service(1)])
    from acme_inv_frame [OF this, of "{}"] show ?thesis
      using assms inv_revoke_certificate [of d D "base_env E" actor i kin] by (simp add: both_inv_def)
  qed
  have revoke: "both_inv (snd (bindS (as_problem k t (revoke_certificate (base_env E) D actor i kin)) (\<lambda>_. returnS ()) d))"
    for k t actor i kin
    by (simp add: snd_bind_return as_problem_def rev)
  have may: "reads (if own then returnS () else (case who of None \<Rightarrow> failS p
      | Some b \<Rightarrow> if map_of (cr_labels row) k = Some (aa_id b) then returnS () else failS q))" for p q row k
    by (simp split: option.split)
  show ?thesis
    unfolding acme_revoke_def readP_def failP_def
    by (intro inv_bind_read [where I = both_inv] inv_if [where I = both_inv] inv_return [where I = both_inv] assms(1))
       (rule inv_bind_reads [where I = both_inv, OF may], rule assms(1), intro inv_bind_read(2) [where I = both_inv] assms(1) revoke)
qed

lemma external_account_tables:
  "acme_tables (snd (create_external_account E u kid s actor t ds dur d)) = acme_tables d"
  "acme_tables (snd (delete_external_account i d)) = acme_tables d"
proof -
  have "acme_tables (snd (create_external x d)) = acme_tables d" for x
    by (simp add: create_external_def repo_create_def acme_tables_def split: option.split)
  then show "acme_tables (snd (create_external_account E u kid s actor t ds dur d)) = acme_tables d"
    unfolding create_external_account_def Let_def by (simp add: snd_bind_return snd_store_op)
  have "acme_tables (snd (delete_external i d)) = acme_tables d"
    by (simp add: delete_external_def acme_tables_def)
  then show "acme_tables (snd (delete_external_account i d)) = acme_tables d"
    unfolding delete_external_account_def
    by (intro inv_bind_store_read [where I = "\<lambda>e. acme_tables e = acme_tables d"]) (simp_all add: snd_store_op)
qed

text \<open>Every step keeps both invariants.\<close>

lemma acme_step_both: "acme_step E d d' \<Longrightarrow> both_inv d \<Longrightarrow> both_inv d'"
proof (induction rule: acme_step.induct)
  case (acme_nonce d v)
  then show ?case
    by (rule same_acme) (simp_all add: new_nonce_def issue_nonce_def acme_tables_def pki_are_def pki_tables_def)
next
  case (acme_spend d v)
  then show ?case
    by (rule same_acme)
       (simp_all add: spend_nonce_def spend_nonce_row_def failP_def acme_tables_def pki_are_def pki_tables_def)
next
  case (acme_bind d u kid secret actor desc domains dur)
  then show ?case
    by (rule same_acme) (rule external_account_tables, rule pki_same [OF pki_kept.keeps_acme_accounts(3)])
next
  case (acme_unbind d i)
  then show ?case
    by (rule same_acme) (rule external_account_tables, rule pki_same [OF pki_kept.keeps_acme_accounts(4)])
next
  case (acme_account d u key req url)
  then have "acme_inv (snd (acme_register E u key req url d))" by (simp add: both_inv_def inv_register)
  then show ?case by (rule pki_are_pki_inv [OF acme_account _ pki_same [OF pki_kept.keeps_acme_accounts(1)]])
next
  case (acme_close a d)
  then have "acme_inv (snd (acme_deactivate a d))" by (simp add: both_inv_def inv_deactivate)
  then show ?case by (rule pki_are_pki_inv [OF acme_close(2) _ pki_same [OF pki_kept.keeps_acme_accounts(2)]])
next
  case (acme_order a d R oreq)
  then have "acme_inv (snd (acme_new_order E R a oreq d))" by (simp add: both_inv_def inv_new_order)
  then show ?case by (rule pki_are_pki_inv [OF acme_order(4) _ pki_same [OF pki_kept.keeps_acme_orders(1)]])
next
  case (acme_validate d a i ka out)
  then have "acme_inv (snd (acme_validate_challenge E a i ka out d))" by (simp add: both_inv_def inv_validate_challenge)
  then show ?case by (rule pki_are_pki_inv [OF acme_validate _ pki_same [OF pki_kept.keeps_validate]])
next
  case (acme_prune d now)
  let ?e = "snd (prune_nonces now d)"
  have run: "snd (prune_acme now d) = snd (prune_orders now ?e)" by (simp add: prune_acme_def split: prod.split)
  have "acme_tables ?e = acme_tables d" by (simp add: prune_nonces_def acme_tables_def)
  from acme_inv_frame [OF this, of "{}"] have "acme_inv ?e" using acme_prune by (simp add: both_inv_def)
  then have "acme_inv (snd (prune_acme now d))" unfolding run by (rule inv_prune_orders)
  moreover have "pki_are (pki_tables d) (snd (prune_acme now d))"
    by (rule pki_kept.keeps_prune(1)) (simp add: pki_are_def)
  ultimately show ?case by (rule pki_are_pki_inv [OF acme_prune])
qed (simp_all add: both_finalize both_revoke)

lemma pki_step_both: "pki_step E d d' \<Longrightarrow> both_inv d \<Longrightarrow> both_inv d'"
  using acme_frame.step_keeps [of E d d' "acme_tables d"] acme_inv_frame [of d' d "{}"]
  by (auto simp: both_inv_def acme_are_def pki_step_inv)

lemma certio_both: "certio d \<Longrightarrow> both_inv d"
proof (induction rule: certio.induct)
  case certio_start
  show ?case by (simp add: both_inv_def pki_inv_empty acme_inv_empty)
qed (simp_all add: pki_step_both acme_step_both)

lemma certio_reachable: "reachable d \<Longrightarrow> certio d"
  by (induction rule: reachable.induct) (auto intro: certio.intros)

end
