(* ===== verification/AcmeOrders.thy ===== *)
theory AcmeOrders
  imports CertioReach
begin

text \<open>
  The life of an order (RFC 8555, section 7.1.6) as an abstract machine, and the refinement:
  every step of the program moves every order along an edge of the machine, or not at all.
  The owner and the names of an order never change, a valid order is final, and a certificate
  is attached only on the edge from ready to valid.
\<close>

section \<open>The abstract machine\<close>

type_synonym order_state = "((string \<times> string list) \<times> acme_status \<times> string) option"

inductive order_machine :: "order_state \<Rightarrow> order_state \<Rightarrow> bool" where
  stays: "order_machine v v"
| opened: "order_machine None (Some (w, AcPending, []))"
| made_ready: "order_machine (Some (w, AcPending, c)) (Some (w, AcReady, c))"
| given_up: "st \<noteq> AcValid \<Longrightarrow> order_machine (Some (w, st, c)) (Some (w, AcInvalid, c))"
| issued: "order_machine (Some (w, AcReady, c)) (Some (w, AcValid, c'))"
| pruned: "order_machine (Some s) None"

inductive_simps order_machine_from_valid: "order_machine (Some (w, AcValid, c)) v"

definition order_abs :: "acme_order \<Rightarrow> (string \<times> string list) \<times> acme_status \<times> string" where
  "order_abs q = ((ao_account q, ao_identifiers q), ao_status q, ao_certificate q)"

definition order_view :: "string \<Rightarrow> db \<Rightarrow> order_state" where
  "order_view i d = (case get_order i d of Inl _ \<Rightarrow> None | Inr q \<Rightarrow> Some (order_abs q))"

definition moves :: "db \<Rightarrow> db \<Rightarrow> bool" where
  "moves d e \<longleftrightarrow> (\<forall>i. order_machine (order_view i d) (order_view i e))"

section \<open>Writing an order\<close>

definition order_keys :: "db \<Rightarrow> bool" where
  "order_keys d \<longleftrightarrow> distinct (map ao_id (db_orders d))"

lemma acme_inv_keys: "acme_inv_but I d \<Longrightarrow> order_keys d"
  by (simp add: acme_inv_but_def acme_keys_def order_keys_def)

lemma moves_same: "db_orders e = db_orders d \<Longrightarrow> moves d e"
  by (simp add: moves_def order_view_def get_order_def stays)

lemma moves_from: "db_orders e = db_orders d \<Longrightarrow> moves e f \<Longrightarrow> moves d f"
  by (simp add: moves_def order_view_def get_order_def)

lemma order_view_iff: "order_keys d \<Longrightarrow> q \<in> set (db_orders d) \<Longrightarrow> order_view (ao_id q) d = Some (order_abs q)"
  by (simp add: order_view_def get_order_def order_keys_def tbl_get_def find_key_unique)

lemma order_view_none: "i \<notin> ao_id ` set (db_orders d) \<Longrightarrow> order_view i d = None"
  by (auto simp: order_view_def get_order_def tbl_get_cases)

lemma order_view_eqI:
  assumes "\<And>r. get_order i e = Inr r \<longleftrightarrow> get_order i d = Inr r"
  shows "order_view i e = order_view i d"
proof (cases "get_order i d")
  case (Inl x)
  then have "get_order i e \<noteq> Inr r" for r by (simp add: assms)
  then obtain y where "get_order i e = Inl y" by (cases "get_order i e") auto
  then show ?thesis using Inl by (simp add: order_view_def)
next
  case (Inr q)
  then show ?thesis using iffD2 [OF assms Inr] by (simp add: order_view_def)
qed

lemma moves_update:
  assumes "order_keys d" "x \<in> set (db_orders d)" "ao_id q = ao_id x"
    "order_machine (Some (order_abs x)) (Some (order_abs q))"
  shows "moves d (snd (update_order q d))"
proof (cases "order_clash d q")
  case None
  let ?e = "db_orders_update (tbl_put ao_id q) d"
  have e: "order_keys ?e" "q \<in> set (db_orders ?e)"
    using assms(1) by (simp_all add: order_keys_def distinct_tbl_put set_tbl_put)
  have "order_machine (order_view i d) (order_view i ?e)" for i
  proof (cases "i = ao_id q")
    case True
    then show ?thesis
      using order_view_iff [OF assms(1,2)] order_view_iff [OF e] assms(3,4) by simp
  next
    case False
    have "get_order i ?e = Inr r \<longleftrightarrow> get_order i d = Inr r" for r
      using assms(1) e(1) False by (auto simp: get_order_def order_keys_def tbl_get_iff set_tbl_put)
    then have "order_view i ?e = order_view i d" by (rule order_view_eqI)
    then show ?thesis by (simp add: stays)
  qed
  then show ?thesis using None by (simp add: update_order_def repo_save_def moves_def)
qed (simp add: update_order_def repo_save_def moves_same)

lemma moves_create:
  assumes "db_orders e = db_orders d @ [q]" "ao_id q \<notin> ao_id ` set (db_orders d)" "ao_status q = AcPending" "ao_certificate q = []"
  shows "moves d e"
proof -
  have "order_machine (order_view i d) (order_view i e)" for i
  proof (cases "i = ao_id q")
    case True
    then have "order_view i e = Some (order_abs q)" "order_view i d = None"
      using assms(1,2) by (simp_all add: order_view_none) (simp add: order_view_def get_order_def tbl_get_append)
    then show ?thesis by (simp add: order_abs_def assms(3,4) opened)
  next
    case False
    then show ?thesis using assms(1) by (simp add: order_view_def get_order_def tbl_get_append_other stays)
  qed
  then show ?thesis by (simp add: moves_def)
qed

lemma moves_filter:
  assumes "order_keys d" "db_orders e = filter P (db_orders d)"
  shows "moves d e"
proof -
  have e: "order_keys e" using assms by (simp add: order_keys_def distinct_map_filter_key)
  have "order_machine (order_view i d) (order_view i e)" for i
  proof (cases "order_view i e")
    case None
    then show ?thesis by (cases "order_view i d") (auto intro: order_machine.intros)
  next
    case (Some v)
    then obtain q where q: "get_order i e = Inr q" by (auto simp: order_view_def split: sum.splits)
    then have "q \<in> set (db_orders e)" "ao_id q = i" by (auto dest: acme_rowsD)
    then have "order_view i d = order_view i e"
      using order_view_iff [OF assms(1)] order_view_iff [OF e] assms(2) by auto
    then show ?thesis by (simp add: stays)
  qed
  then show ?thesis by (simp add: moves_def)
qed

section \<open>Operations that write no order\<close>

definition orders_are :: "acme_order list \<Rightarrow> db \<Rightarrow> bool" where
  "orders_are t d \<longleftrightarrow> db_orders d = t"

lemma keeps_orders:
  "keeps (orders_are t) (create_authz z)" "keeps (orders_are t) (create_challenge c)"
  "keeps (orders_are t) (update_challenge c)" "keeps (orders_are t) (update_authz z)"
  "keeps (orders_are t) (create_account a)" "keeps (orders_are t) (update_account a)"
  "keeps (orders_are t) (create_external x)" "keeps (orders_are t) (update_external x)"
  "keeps (orders_are t) (delete_external i)"
  by (auto simp: keeps_def orders_are_def repo_create_def repo_save_def acme_repo_defs delete_external_def split: option.split)

lemma keeps_orders_problem: "keeps (orders_are t) m \<Longrightarrow> keeps (orders_are t) (as_problem k s m)"
  by (simp add: as_problem_def keeps_map_errS)

lemma keeps_orders_challenges: "keeps (orders_are t) (create_challenges_from E ids toks z n tys)"
  by (induction tys arbitrary: n) (simp_all, intro keeps_intros keeps_basic keeps_orders keeps_orders_problem)

lemma keeps_orders_authzs: "keeps (orders_are t) (create_authzs E R a n names)"
proof (induction names arbitrary: n)
  case (Cons name names)
  show ?case
    unfolding create_authzs.simps create_challenges_def failP_def Let_def
    by (intro keeps_intros keeps_basic keeps_orders keeps_orders_problem keeps_orders_challenges Cons.IH)
qed simp

lemma keeps_orders_accounts:
  "keeps (orders_are t) (acme_register E u key req url)" "keeps (orders_are t) (acme_deactivate b)"
  "keeps (orders_are t) (create_external_account E u kid s actor txt ds dur)" "keeps (orders_are t) (delete_external_account i)"
  unfolding acme_register_def admit_binding_def acme_deactivate_def create_external_account_def
    delete_external_account_def store_op_def store_read_def failP_def Let_def
  by (intro keeps_intros keeps_basic keeps_orders keeps_orders_problem)+

lemma orders_kept: "(\<And>t. keeps (orders_are t) m) \<Longrightarrow> db_orders (snd (m d)) = db_orders d"
  by (simp add: keeps_def orders_are_def)

section \<open>Every operation moves the orders along the machine\<close>

lemma moves_new_order:
  assumes "od_order R \<notin> ao_id ` set (db_orders d)"
  shows "moves d (snd (acme_new_order E R a req d))"
proof -
  have same: "moves d d" by (rule moves_same) simp
  have key: "moves d (snd (bindS (as_problem ServerInternal ''could not create the order'' (create_order (new_order_row E R a req names)))
      (\<lambda>_. bindS (create_authzs E R (aa_id a) 0 names) (\<lambda>azs. returnS (new_order_row E R a req names, azs))) d))" for names
  proof -
    let ?q = "new_order_row E R a req names"
    have q: "ao_id ?q = od_order R" "ao_status ?q = AcPending" "ao_certificate ?q = []" by (simp_all add: new_order_row_def)
    show ?thesis
    proof (cases "create_order ?q d")
      case (Pair r e)
      show ?thesis
      proof (cases r)
        case (Inl x)
        then have "e = d" using Pair by (auto simp: create_order_def dest: repo_fail)
        then show ?thesis using Pair Inl same by (simp add: bindS_def as_problem_def map_errS_def)
      next
        case (Inr u)
        then have "db_orders e = db_orders d @ [?q]" using Pair by (auto simp: create_order_def dest!: repo_create_ok)
        moreover have "db_orders (snd (create_authzs E R (aa_id a) 0 names e)) = db_orders e"
          by (rule orders_kept [OF keeps_orders_authzs])
        ultimately have "moves d (snd (create_authzs E R (aa_id a) 0 names e))"
          using moves_create [of _ d ?q] assms q by simp
        then show ?thesis using Pair Inr by (simp add: bind_as_problem snd_bind_return)
      qed
    qed
  qed
  show ?thesis
    unfolding acme_new_order_def Let_def failP_def by (intro inv_intros [where I = "moves d"] key same)
qed

lemma moves_refresh: "order_keys d \<Longrightarrow> moves d (snd (refresh_order_status i d))"
  unfolding refresh_order_status_def
proof (intro inv_intros [where I = "moves d"])
  fix q found assume k: "order_keys d" and q: "Inr (get_order i d) = Inr found" "found = Inr q" and st: "\<not> ao_status q \<noteq> AcPending"
  then have "q \<in> set (db_orders d)" by (auto dest: acme_rowsD)
  then show "moves d (snd (ignoreS (update_order (q\<lparr>ao_status := AcReady\<rparr>)) d))"
    using st moves_update [OF k, of q "q\<lparr>ao_status := AcReady\<rparr>"] by (simp add: order_abs_def made_ready)
qed (simp_all add: moves_same)

lemma moves_spoil:
  "order_keys d \<Longrightarrow> q \<in> set (db_orders d) \<Longrightarrow> ao_status q \<noteq> AcValid \<Longrightarrow>
   moves d (snd (update_order (q\<lparr>ao_status := AcInvalid, ao_error := t\<rparr>) d))"
  by (rule moves_update) (auto simp: order_abs_def intro: order_machine.given_up)

text \<open>Only an authorization that was never proved fails its order, and that order is not valid.\<close>

lemma moves_fail_authorization:
  assumes "acme_inv d" "z \<in> set (db_authzs d)"
  shows "moves d (snd (fail_authorization_if_exhausted z d))"
proof (cases "list_ex (\<lambda>c. ch_status c \<noteq> AcInvalid) (challenges_by_authz (az_id z) d)")
  case False
  then have "\<not> proved d z" by (auto simp: proved_def list_ex_iff acme_lists)
  then have not_valid: "az_status z \<noteq> AcValid" using assms by (auto simp: acme_inv_but_def acme_proofs_def)
  let ?e = "snd (update_authz (z\<lparr>az_status := AcInvalid\<rparr>) d)"
  have e: "db_orders ?e = db_orders d" by (rule orders_kept [OF keeps_orders(4)])
  have "moves ?e (snd (fail_order z ?e))"
    unfolding fail_order_def
  proof (intro inv_intros [where I = "moves ?e"])
    fix q found assume "Inr (get_order (az_order z) ?e) = Inr found" "found = Inr q"
    then have q: "q \<in> set (db_orders ?e)" "ao_id q = az_order z" by (auto dest: acme_rowsD)
    then have "ao_status q \<noteq> AcValid"
      using assms not_valid by (auto simp: e acme_inv_but_def acme_proofs_def validated_order_def)
    moreover have "order_keys ?e" using acme_inv_keys [OF assms(1)] by (simp add: order_keys_def e)
    ultimately show "moves ?e (snd (ignoreS (update_order (q\<lparr>ao_status := AcInvalid,
         ao_error := ''could not validate '' @ az_identifier z\<rparr>)) ?e))"
      using q moves_spoil by simp
  qed (simp_all add: moves_same)
  then have m: "moves d (snd (fail_order z ?e))" by (rule moves_from [OF e])
  show ?thesis
    using False m moves_same [OF e]
    by (auto simp: fail_authorization_if_exhausted_def bindS_def whenS_def split: prod.split sum.split)
qed (use assms in \<open>simp add: fail_authorization_if_exhausted_def bindS_def moves_same\<close>)

lemma moves_validate:
  assumes "acme_inv d"
  shows "moves d (snd (acme_validate_challenge E a i ka outcome d))"
  unfolding acme_validate_challenge_def readP_def failP_def
proof (intro inv_intros [where I = "moves d"])
  fix c z k
  assume "map_err (\<lambda>_. Problem Malformed ''no such challenge'') (get_challenge i d) = Inr c"
    and "map_err (\<lambda>_. Problem ServerInternal ''could not load the authorization'') (get_authz (ch_authz c) d) = Inr z"
    and "\<not> settled c"
  then have c: "c \<in> set (db_challenges d)" "z \<in> set (db_authzs d)" "az_id z = ch_authz c" "ch_status c \<noteq> AcValid"
    by (auto dest: acme_rowsD simp: settled_def)
  let ?c = "c\<lparr>ch_attempts := ch_attempts c + 1, ch_status := AcProcessing\<rparr>"
  let ?d = "db_challenges_update (tbl_put ch_id ?c) d"
  have same: "ch_id ?c = ch_id c" "ch_authz ?c = ch_authz c" by simp_all
  note s1 = inv_record_outcome [OF assms c same]
  have c1: "az_id z = ch_authz ?c" "ch_status ?c \<noteq> AcValid" using c(3) by simp_all
  let ?bad = "?c\<lparr>ch_status := AcInvalid, ch_error := the outcome\<rparr>"
  let ?good = "?c\<lparr>ch_status := AcValid, ch_validated := Some (se_now E), ch_error := []\<rparr>"
  have "ch_id ?bad = ch_id ?c" "ch_authz ?bad = ch_authz ?c" "ch_id ?good = ch_id ?c" "ch_authz ?good = ch_authz ?c"
    by simp_all
  note bad = inv_record_outcome [OF s1(2,3,4) c1 this(1,2)] and good = inv_record_outcome [OF s1(2,3,4) c1 this(3,4)]
  have keys: "order_keys d" using acme_inv_keys [OF assms] .
  show "moves d (snd ((let c = ?c in bindS (ignoreS (update_challenge c)) (\<lambda>_. case outcome of
         Some detail \<Rightarrow>
           let c = c\<lparr>ch_status := AcInvalid, ch_error := detail\<rparr> in
           bindS (ignoreS (update_challenge c)) (\<lambda>_.
           bindS (fail_authorization_if_exhausted z) (\<lambda>_. returnS c))
       | None \<Rightarrow>
           let c = c\<lparr>ch_status := AcValid, ch_validated := Some (se_now E), ch_error := []\<rparr> in
           bindS (as_problem ServerInternal ''could not record the validation'' (update_challenge c)) (\<lambda>_.
           let z = z\<lparr>az_status := AcValid, az_expires := se_now E + authorization_ttl\<rparr> in
           bindS (as_problem ServerInternal ''could not record the authorization'' (update_authz z)) (\<lambda>_.
           bindS (refresh_order_status (az_order z)) (\<lambda>_. returnS c))))) d))"
  proof (cases outcome)
    case None
    let ?z = "z\<lparr>az_status := AcValid, az_expires := se_now E + authorization_ttl\<rparr>"
    let ?e = "db_authzs_update (tbl_put az_id ?z) (db_challenges_update (tbl_put ch_id ?good) ?d)"
    have "order_keys ?e" using keys by (simp add: order_keys_def)
    then have m: "moves d (snd (refresh_order_status (az_order ?z) ?e))"
      by (rule moves_from [rotated, OF moves_refresh]) simp
    have upd: "update_authz ?z f = (Inr (), db_authzs_update (tbl_put az_id ?z) f)" for f
      by (simp add: update_authz_def repo_save_def)
    show ?thesis
      by (simp only: None option.case Let_def bind_ignore s1(1) snd_conv bind_as_problem [where m = "update_challenge ?good", OF good(1)]
            bind_as_problem [where m = "update_authz ?z", OF upd] snd_bind_return)
         (rule m)
  next
    case (Some detail)
    have "moves d (snd (fail_authorization_if_exhausted z (db_challenges_update (tbl_put ch_id ?bad) ?d)))"
      by (rule moves_from [OF _ moves_fail_authorization [OF bad(2,4)]]) simp
    then show ?thesis
      by (simp only: Some option.case option.sel Let_def bind_ignore s1(1) snd_conv bad(1) [unfolded Some option.sel] snd_bind_return)
  qed
qed (simp_all add: moves_same)

lemma moves_spoiled:
  assumes "order_keys d" "q \<in> set (db_orders d)" "ao_status q = AcReady"
  shows "moves d (snd (bindS (save_order_error q t) (\<lambda>_. failS p) d))"
  using moves_spoil [OF assms(1,2), of t] assms(3) by (simp add: bindS_def save_order_error_def)

lemma moves_finalize:
  assumes "order_keys d"
  shows "moves d (snd (acme_finalize E R a i csr_der d))"
  unfolding acme_finalize_def readP_def failP_def
proof (intro inv_intros [where I = "moves d"])
  fix q r dr p
  assume "map_err (\<lambda>_. Problem Malformed ''no such order'') (get_order i d) = Inr q"
    and "\<not> ao_status q \<noteq> AcReady"
  then have q: "q \<in> set (db_orders d)" "ao_status q = AcReady" by (auto dest: acme_rowsD)
  then show "moves d (snd (bindS (save_order_error q (problem_detail p)) (\<lambda>_. failS p) d))"
    by (rule moves_spoiled [OF assms])
  fix ca
  let ?s = "sign_csr_certificate (base_env E) R (acme_csr_input E ca a dr) d"
  let ?e = "snd ?s"
  have e: "db_orders ?e = db_orders d" using acme_tables_sign_csr by (simp add: acme_tables_def)
  then have ek: "order_keys ?e" "q \<in> set (db_orders ?e)" using assms q(1) by (simp_all add: order_keys_def)
  have spoiled: "moves d (snd (bindS (save_order_error q t) (\<lambda>_. failS p) ?e))" for t p
    by (rule moves_from [OF e moves_spoiled [OF ek q(2)]])
  have saved: "moves d (snd (update_order (q\<lparr>ao_status := AcValid, ao_certificate := cid, ao_error := []\<rparr>) ?e))" for cid
    by (rule moves_from [OF e], rule moves_update [OF ek]) (auto simp: order_abs_def q(2) intro: order_machine.issued)
  show "moves d (snd (bindS (\<lambda>d. case sign_csr_certificate (base_env E) R (acme_csr_input E ca a dr) d of
                     (res, d') \<Rightarrow> (Inr res, d')) (\<lambda>res.
           case res of
             Inl e \<Rightarrow>
               let p = (if is_validation e then Problem BadCSRProblem ''refused''
                        else Problem ServerInternal ''could not issue the certificate'') in
               bindS (save_order_error q (problem_detail p)) (\<lambda>_. failS p)
           | Inr result \<Rightarrow>
               let q = q\<lparr>ao_status := AcValid, ao_certificate := cr_id (ir_row result), ao_error := []\<rparr> in
               bindS (as_problem ServerInternal ''could not attach the certificate to the order''
                        (update_order q)) (\<lambda>_. returnS q)) d))"
  proof (cases "fst ?s")
    case (Inl x)
    then show ?thesis by (simp add: bind_catch Let_def spoiled)
  next
    case (Inr x)
    then show ?thesis
      using saved [of "cr_id (ir_row x)"] by (simp add: bind_catch Let_def snd_bind_return as_problem_def)
  qed
qed (simp_all add: moves_same)

lemma moves_revoke: "moves d (snd (acme_revoke E D who cert reason own d))"
proof -
  have rev: "moves d (snd (revoke_certificate (base_env E) D actor i kin d))" for actor i kin
    using acme_same [OF acme_frame.keeps_revocation_service(1)] by (intro moves_same) (simp add: acme_tables_def)
  have revoke: "moves d (snd (bindS (as_problem k t (revoke_certificate (base_env E) D actor i kin)) (\<lambda>_. returnS ()) d))"
    for k t actor i kin
    by (simp add: snd_bind_return as_problem_def rev)
  have may: "reads (if own then returnS () else (case who of None \<Rightarrow> failS p
      | Some b \<Rightarrow> if map_of (cr_labels row) k = Some (aa_id b) then returnS () else failS q))" for p q row k
    by (simp split: option.split)
  have same: "moves d d" by (rule moves_same) simp
  show ?thesis
    unfolding acme_revoke_def readP_def failP_def
    by (intro inv_bind_read [where I = "moves d"] inv_if [where I = "moves d"] inv_return [where I = "moves d"] same)
       (rule inv_bind_reads [where I = "moves d", OF may], rule same, intro inv_bind_read(2) [where I = "moves d"] same revoke)
qed

lemma acme_step_moves: "acme_step E d d' \<Longrightarrow> acme_inv d \<Longrightarrow> moves d d'"
proof (induction rule: acme_step.induct)
  case (acme_prune d now)
  have run: "snd (prune_acme now d) = snd (prune_orders now (snd (prune_nonces now d)))"
    by (simp add: prune_acme_def split: prod.split)
  show ?case
    unfolding run
    by (rule moves_filter [OF acme_inv_keys [OF acme_prune], where P = "\<lambda>q. \<not> ao_expires q < now"])
       (simp add: prune_orders_def prune_nonces_def prune_children_frame Let_def)
next
  case (acme_bind d u kid secret actor desc domains dur)
  show ?case by (rule moves_same [OF orders_kept [OF keeps_orders_accounts(3)]])
next
  case (acme_unbind d i)
  show ?case by (rule moves_same [OF orders_kept [OF keeps_orders_accounts(4)]])
next
  case (acme_account d u key req url)
  show ?case by (rule moves_same [OF orders_kept [OF keeps_orders_accounts(1)]])
next
  case (acme_close a d)
  show ?case by (rule moves_same [OF orders_kept [OF keeps_orders_accounts(2)]])
next
  case (acme_nonce d v)
  show ?case by (rule moves_same) (simp add: new_nonce_def issue_nonce_def)
next
  case (acme_spend d v)
  show ?case by (rule moves_same) (simp add: spend_nonce_def spend_nonce_row_def failP_def)
qed (simp_all add: moves_new_order moves_validate moves_finalize moves_revoke acme_inv_keys)

lemma pki_step_moves: "pki_step E d d' \<Longrightarrow> moves d d'"
  using acme_frame.step_keeps [of E d d' "acme_tables d"]
  by (intro moves_same) (simp add: acme_are_def acme_tables_def)

end
