(* ===== verification/AcmeSamples.thy ===== *)
theory AcmeSamples
  imports IssuanceGuarantees AcmeOrders
begin

text \<open>
  A concrete ACME run over the database with the sample root: an account is registered, an
  order for \<open>www.lan\<close> is placed, its challenge is validated, and the order is finalized.
\<close>

definition acme_sample :: acme_env where
  "acme_sample = svc_env.extend sample_env (acme_env.fields ''root'' 0 False True False [] (\<lambda>_. None))"

lemma acme_sample_simps [simp]:
  "base_env acme_sample = sample_env" "ac_authority acme_sample = ''root''" "ac_validity_days acme_sample = 0"
  "ac_require_eab acme_sample = False" "ac_http01 acme_sample = True" "ac_dns01 acme_sample = False"
  "ac_terms_url acme_sample = []" "se_now acme_sample = se_now sample_env"
  by (simp_all add: acme_sample_def base_env_def svc_env.extend_def svc_env.truncate_def acme_env.fields_def)

definition sample_jwk :: jwk where
  "sample_jwk = \<lparr>jwk_thumbprint = Some ''tp'', jwk_encoded = Some ''jwk''\<rparr>"

definition sample_registration :: new_account_request where
  "sample_registration = \<lparr>nr_contact = [], nr_terms_agreed = True, nr_only_existing = False, nr_binding = None\<rparr>"

definition sample_account :: acme_account where
  "sample_account = \<lparr>aa_id = ''acct-1'', aa_thumbprint = ''tp'', aa_jwk = ''jwk'', aa_contact = [],
     aa_status = AcValid, aa_terms = True, aa_external = [], aa_last_used = None\<rparr>"

definition adb1 :: db where
  "adb1 = db1\<lparr>db_accounts := [sample_account]\<rparr>"

lemma acme_runs:
  "as_problem k t m d = (map_err (\<lambda>_. Problem k t) (fst (m d)), snd (m d))"
  "readP k t f d = (map_err (\<lambda>_. Problem k t) (f d), d)"
  by (simp_all add: as_problem_def map_errS_def readP_def)

lemma account_facts:
  "account_by_thumbprint ''tp'' db1 = Inl RecordNotFound" "create_account sample_account db1 = (Inr (), adb1)"
  by (simp_all add: account_by_thumbprint_def tbl_get_def tbl_has_def create_account_def repo_create_def account_clash_def
      db1_def empty_db_def adb1_def)

lemma run_register:
  "acme_register acme_sample ''acct-1'' sample_jwk sample_registration ''url'' db1 = (Inr (sample_account, True), adb1)"
  by (simp add: acme_register_def sample_jwk_def sample_registration_def admit_binding_def account_facts
      sample_account_def [symmetric] acme_runs run cong: bindS_lazy let_weak_cong)

section \<open>An order\<close>

definition sample_order_draws :: order_draws where
  "sample_order_draws = \<lparr>od_order = ''o-1'', od_authz = (\<lambda>n. ''az-1'' @ replicate n CHR ''z''),
     od_challenge = (\<lambda>n m. ''ch-1'' @ replicate n CHR ''y'' @ replicate m CHR ''z''), od_token = (\<lambda>_ _. ''token'')\<rparr>"

definition sample_order_request :: new_order_request where
  "sample_order_request = \<lparr>or_identifiers = [\<lparr>idn_type = ''dns'', idn_value = ''www.lan''\<rparr>], or_not_before = [],
     or_not_after = []\<rparr>"

definition sample_order :: acme_order where
  "sample_order = new_order_row acme_sample sample_order_draws sample_account sample_order_request [''www.lan'']"

definition sample_authz :: acme_authz where
  "sample_authz = new_authz acme_sample ''az-1'' ''o-1'' ''acct-1'' ''www.lan''"

definition sample_challenge :: acme_challenge where
  "sample_challenge = new_challenge acme_sample ''ch-1'' ''az-1'' challenge_http01 ''token''"

definition adb2 :: db where
  "adb2 = adb1\<lparr>db_orders := [sample_order], db_authzs := [sample_authz], db_challenges := [sample_challenge]\<rparr>"

lemma sample_name: "order_name acme_sample sample_account adb1 \<lparr>idn_type = ''dns'', idn_value = ''www.lan''\<rparr> = Inr ''www.lan''"
proof -
  have "resolve_authority ''root'' adb1 = Inr root_row"
    by (simp add: resolve_authority_def get_authority_def get_authority_by_slug_def tbl_get_def adb1_def)
  then have ca: "acme_authority acme_sample adb1 = Inr root_row" by (simp add: acme_authority_def)
  have facts: "to_lower (trim_space ''www.lan'') = ''www.lan''" "parse_ip (trim_prefix ''*.'' ''www.lan'') = None"
    "count_char CHR ''*'' ''www.lan'' = 0" "prefix ''*.'' ''www.lan'' = False"
    "permits_dns (no_constraints\<lparr>permitted_dns := [''lan'']\<rparr>) ''www.lan'' = True"
    by code_simp+
  show ?thesis
    by (simp add: order_name_def check_acme_identifier_def facts ca binding_allows_def sample_account_def)
qed

lemma order_facts:
  "create_order sample_order adb1 = (Inr (), adb1\<lparr>db_orders := [sample_order]\<rparr>)"
  "create_authz sample_authz (adb1\<lparr>db_orders := [sample_order]\<rparr>) =
     (Inr (), adb1\<lparr>db_orders := [sample_order], db_authzs := [sample_authz]\<rparr>)"
  "create_challenge sample_challenge (adb1\<lparr>db_orders := [sample_order], db_authzs := [sample_authz]\<rparr>) = (Inr (), adb2)"
  "challenge_types acme_sample (az_wildcard sample_authz) = [challenge_http01]" "az_id sample_authz = ''az-1''"
  by (simp_all add: create_order_def create_authz_def create_challenge_def repo_create_def tbl_has_def order_clash_def
      adb1_def adb2_def db1_def empty_db_def sample_order_def new_order_row_def sample_account_def sample_authz_def
      new_authz_def challenge_types_def)

lemma sample_order_draws_simps [simp]:
  "od_order sample_order_draws = ''o-1''" "od_authz sample_order_draws 0 = ''az-1''"
  "od_challenge sample_order_draws 0 0 = ''ch-1''" "od_token sample_order_draws n m = ''token''"
  "or_identifiers sample_order_request = [\<lparr>idn_type = ''dns'', idn_value = ''www.lan''\<rparr>]" "aa_id sample_account = ''acct-1''"
  by (simp_all add: sample_order_draws_def sample_order_request_def sample_account_def)

lemma run_order:
  "acme_new_order acme_sample sample_order_draws sample_account sample_order_request adb1 =
     (Inr (sample_order, [sample_authz]), adb2)"
  by (simp add: acme_new_order_def max_order_identifiers_def sample_name order_facts create_challenges_def
      sample_order_def [symmetric] sample_authz_def [symmetric] sample_challenge_def [symmetric]
      acme_runs run cong: bindS_lazy let_weak_cong)

section \<open>The challenge is met\<close>

definition proved_challenge :: acme_challenge where
  "proved_challenge = sample_challenge\<lparr>ch_attempts := 1, ch_status := AcValid, ch_validated := Some (se_now sample_env), ch_error := []\<rparr>"

definition proved_authz :: acme_authz where
  "proved_authz = sample_authz\<lparr>az_status := AcValid, az_expires := se_now sample_env + authorization_ttl\<rparr>"

definition ready_order :: acme_order where
  "ready_order = sample_order\<lparr>ao_status := AcReady\<rparr>"

definition adb3 :: db where
  "adb3 = adb2\<lparr>db_orders := [ready_order], db_authzs := [proved_authz], db_challenges := [proved_challenge]\<rparr>"

lemma adb2_simps [simp]:
  "db_authorities adb2 = [root_row]" "db_certificates adb2 = []" "db_orders adb2 = [sample_order]" "db_authzs adb2 = [sample_authz]"
  "db_challenges adb2 = [sample_challenge]" "db_accounts adb2 = [sample_account]"
  by (simp_all add: adb2_def adb1_def)

lemma sample_rows [simp]:
  "ch_id sample_challenge = ''ch-1''" "ch_authz sample_challenge = ''az-1''" "ch_status sample_challenge = AcPending"
  "ch_attempts sample_challenge = 0" "az_id sample_authz = ''az-1''" "az_account sample_authz = ''acct-1''"
  "az_order sample_authz = ''o-1''" "az_identifier sample_authz = ''www.lan''" "ao_id sample_order = ''o-1''"
  "ao_status sample_order = AcPending" "ao_account sample_order = ''acct-1''" "ao_identifiers sample_order = [''www.lan'']"
  "ao_certificate sample_order = []"
  by (simp_all add: sample_challenge_def new_challenge_def sample_authz_def new_authz_def sample_order_def new_order_row_def)

lemma run_validate:
  "acme_validate_challenge acme_sample sample_account ''ch-1'' (Some ''ka'') None adb2 = (Inr proved_challenge, adb3)"
proof -
  let ?tried = "sample_challenge\<lparr>ch_attempts := 1, ch_status := AcProcessing\<rparr>"
  let ?d1 = "adb2\<lparr>db_challenges := [?tried]\<rparr>"
  let ?d2 = "adb2\<lparr>db_challenges := [proved_challenge]\<rparr>"
  let ?d3 = "?d2\<lparr>db_authzs := [proved_authz]\<rparr>"
  have "update_challenge ?tried adb2 = (Inr (), ?d1)" "update_challenge proved_challenge ?d1 = (Inr (), ?d2)"
    "update_authz proved_authz ?d2 = (Inr (), ?d3)" "update_order ready_order ?d3 = (Inr (), adb3)"
    by (simp_all add: update_challenge_def update_authz_def update_order_def repo_save_def tbl_put_def tbl_has_def
      order_clash_def proved_challenge_def proved_authz_def ready_order_def adb3_def)
  moreover have "get_challenge ''ch-1'' adb2 = Inr sample_challenge" "get_authz ''az-1'' adb2 = Inr sample_authz"
    "get_order ''o-1'' ?d3 = Inr sample_order" "authzs_by_order ''o-1'' ?d3 = [proved_authz]"
    by (simp_all add: get_challenge_def get_authz_def get_order_def authzs_by_order_def tbl_get_def proved_authz_def)
  moreover have "?tried\<lparr>ch_status := AcValid, ch_validated := Some (se_now sample_env), ch_error := []\<rparr> = proved_challenge"
    "sample_authz\<lparr>az_status := AcValid, az_expires := se_now sample_env + authorization_ttl\<rparr> = proved_authz"
    "sample_order\<lparr>ao_status := AcReady\<rparr> = ready_order" "az_status proved_authz = AcValid" "az_order proved_authz = ''o-1''"
    by (simp_all add: proved_challenge_def proved_authz_def ready_order_def)
  ultimately show ?thesis
    by (simp add: acme_validate_challenge_def refresh_order_status_def settled_def max_challenge_attempts_def
        acme_runs run cong: bindS_lazy let_weak_cong)
qed

section \<open>The order is finalized\<close>

text \<open>The request names \<open>www.lan\<close> and has the common name \<open>intranet\<close>.\<close>

definition order_csr :: csr where
  "order_csr = \<lparr>csr_subject = reparse_name (to_pkix (sample_subject ''intranet'')),
     csr_sans = no_sans\<lparr>sp_dns := [''www.lan'']\<rparr>, csr_public_key = Ed25519Pub 9, csr_sig_alg = PureEd25519,
     csr_signed_by = Ed25519Pub 9\<rparr>"

definition order_csr_request :: issue_request where
  "order_csr_request = sign_csr_request (acme_csr_input acme_sample root_row sample_account (DerCSR order_csr)) ''server'' root_row"

definition order_cert :: x509 where
  "order_cert = ok_of (sign_csr sample_parsers (se_now sample_env) [69] loaded_root (Some order_csr) order_csr_request)"

lemma csr_facts:
  "parse_csr_der (DerCSR order_csr) = Inr order_csr"
  "check_csr_against_order order_csr [''www.lan''] = Inr ()"
  "sign_csr sample_parsers (se_now sample_env) [69] loaded_root (Some order_csr) order_csr_request = Inr order_cert"
  "sp_dns (x_sans order_cert) = [''www.lan'', ''intranet'']"
  by code_simp+

definition order_csr_input :: sign_csr_input where
  "order_csr_input = acme_csr_input acme_sample root_row sample_account (DerCSR order_csr)"

definition order_cert_row :: certificate where
  "order_cert_row = certificate_row sample_env ''cert-9'' root_row order_cert ed25519_spec NoSealedKey
     (Some (gi_csr order_csr_input))
     (blank_input ''ca-1'' ''server'' (gi_validity_days order_csr_input) (gi_labels order_csr_input) (gi_notes order_csr_input)) None"

definition adb4 :: db where
  "adb4 = adb3\<lparr>db_certificates := [certificate_defaults order_cert_row]\<rparr>"

definition final_order :: acme_order where
  "final_order = ready_order\<lparr>ao_status := AcValid, ao_certificate := ''cert-9''\<rparr>"

definition adb5 :: db where
  "adb5 = adb4\<lparr>db_orders := [final_order]\<rparr>"

lemma order_csr_input_simps:
  "gi_authority order_csr_input = ''ca-1''" "gi_passphrase order_csr_input = []" "gi_profile order_csr_input = ''server''"
  "gi_sans order_csr_input = []" "gi_csr order_csr_input = \<lparr>doc_blocks = [plain_block block_certificate_req (DerCSR order_csr)], doc_raw = DerJunk []\<rparr>"
  by (simp_all add: order_csr_input_def acme_csr_input_def profile_server_def)

lemma adb3_simps [simp]:
  "db_authorities adb3 = [root_row]" "db_certificates adb3 = []" "db_orders adb3 = [ready_order]" "db_authzs adb3 = [proved_authz]"
  "db_challenges adb3 = [proved_challenge]" "db_accounts adb3 = [sample_account]"
  by (simp_all add: adb3_def)

lemma ready_order_simps [simp]:
  "ao_id ready_order = ''o-1''" "ao_status ready_order = AcReady" "ao_account ready_order = ''acct-1''"
  "ao_identifiers ready_order = [''www.lan'']" "ao_error ready_order = []"
  by (simp_all add: ready_order_def) (simp add: sample_order_def new_order_row_def)

lemma csr_run_facts:
  "parse_csr \<lparr>doc_blocks = [plain_block block_certificate_req (DerCSR order_csr)], doc_raw = DerJunk []\<rparr> = Inr order_csr"
  "check_name_constraints root_row (pn_common_name (csr_subject order_csr)) (sans_from_certificate_like (csr_sans order_csr)) = Inr ()"
  "spec_of (x_public_key order_cert) = Inr ed25519_spec"
  by code_simp+

lemma run_sign_csr:
  "\<exists>b. sign_csr_certificate sample_env (sample_draws 5 ''cert-9'') order_csr_input adb3 =
    (Inr \<lparr>ir_row = order_cert_row, ir_key_pem = [], ir_bundle = b\<rparr>, adb4)"
proof -
  have resolve: "resolve_authority ''ca-1'' adb3 = Inr root_row"
    by (simp add: resolve_authority_def get_authority_def get_authority_by_slug_def tbl_get_def)
  obtain p where p: "lookup_profile ''server'' = Inr p" using www_facts(2) by (cases "lookup_profile ''server''") auto
  have persisted: "create_certificate_row order_cert_row adb3 = (Inr (), adb4)"
    by (simp add: create_certificate_row_def repo_create_def certificate_clash_def tbl_has_def order_cert_row_def adb4_def)
  obtain cs where chain: "chain_for root_row adb4 = Inr cs"
    by (simp add: chain_for_def chain_certificates_def authority_chain_def eval_nat_numeral)
  have sign: "sign_csr sample_parsers (se_now sample_env) [69] loaded_root (Some order_csr)
      (sign_csr_request order_csr_input ''server'' root_row) = Inr order_cert"
    using csr_facts(3) by (simp add: order_csr_request_def order_csr_input_def)
  show ?thesis
    by (simp add: sign_csr_certificate_def persist_certificate_def order_csr_input_simps resolve load_root csr_run_facts p
        sign order_cert_row_def [symmetric, unfolded order_csr_input_simps] persisted chain
        run cong: bindS_lazy let_weak_cong del: One_nat_def)
qed

lemma run_finalize:
  "acme_finalize acme_sample (sample_draws 5 ''cert-9'') sample_account ''o-1'' (Some (DerCSR order_csr)) adb3 =
     (Inr final_order, adb5)"
proof -
  obtain b where s: "sign_csr_certificate sample_env (sample_draws 5 ''cert-9'')
      (acme_csr_input acme_sample root_row sample_account (DerCSR order_csr)) adb3 =
    (Inr \<lparr>ir_row = order_cert_row, ir_key_pem = [], ir_bundle = b\<rparr>, adb4)"
    using run_sign_csr by (auto simp: order_csr_input_def)
  have "get_order ''o-1'' adb3 = Inr ready_order" by (simp add: get_order_def tbl_get_def)
  moreover have "acme_authority acme_sample adb3 = Inr root_row"
    by (simp add: acme_authority_def resolve_authority_def get_authority_def get_authority_by_slug_def tbl_get_def)
  moreover have "update_order final_order adb4 = (Inr (), adb5)"
    by (simp add: update_order_def repo_save_def tbl_put_def tbl_has_def order_clash_def final_order_def adb5_def adb4_def)
  moreover have "ready_order\<lparr>ao_status := AcValid, ao_certificate := cr_id order_cert_row, ao_error := []\<rparr> = final_order"
    by (simp add: final_order_def order_cert_row_def ready_order_def sample_order_def new_order_row_def)
  ultimately show ?thesis
    by (simp add: acme_finalize_def csr_facts s acme_runs run cong: bindS_lazy let_weak_cong)
qed

section \<open>The run is a run of the program\<close>

lemma certio_adb1: "certio adb1"
proof -
  have "certio db1" by (rule certio_reachable [OF reachable_db1])
  from certio_acme [OF this acme_account, of acme_sample "''acct-1''" sample_jwk sample_registration "''url''"]
  show ?thesis by (simp add: run_register)
qed

lemma sample_draws_fresh: "fresh_from 0 sample_order_draws adb1"
proof -
  define f where "f n m = replicate n CHR ''y'' @ replicate m CHR ''z''" for n m
  have "count_list (f n m) CHR ''y'' = n" "length (f n m) = n + m" for n m
  proof -
    have "count_list (replicate m CHR ''z'') CHR ''y'' = 0" by (induction m) auto
    then show "count_list (f n m) CHR ''y'' = n" unfolding f_def by (induction n) auto
  qed (simp add: f_def)
  then have f: "n = k \<and> m = l" if "f n m = f k l" for n m k l using that by (metis add_left_cancel)
  have z: "n = k" if "replicate n CHR ''z'' = replicate k CHR ''z''" for n k using arg_cong [OF that, of length] by simp
  have draws: "od_authz sample_order_draws n = ''az-1'' @ replicate n CHR ''z''" "od_challenge sample_order_draws n m = ''ch-1'' @ f n m" for n m
    by (simp_all add: sample_order_draws_def f_def)
  have "db_authzs adb1 = []" "db_challenges adb1 = []" by (simp_all add: adb1_def db1_def empty_db_def)
  then show ?thesis
    unfolding fresh_from_def inj_def draws by (auto dest: f z)
qed

lemma certio_adb2: "certio adb2"
proof -
  have "sample_account \<in> set (db_accounts adb1)" "od_order sample_order_draws \<notin> ao_id ` set (db_orders adb1)"
    by (simp_all add: adb1_def db1_def empty_db_def)
  from certio_acme [OF certio_adb1 acme_order [OF this sample_draws_fresh], of acme_sample sample_order_request]
  show ?thesis by (simp add: run_order)
qed

lemma certio_adb3: "certio adb3"
  using certio_acme [OF certio_adb2 acme_validate, of acme_sample sample_account "''ch-1''" "Some ''ka''" None]
  by (simp add: run_validate)

end
