(* ===== verification/AcmeGuarantees.thy ===== *)
theory AcmeGuarantees
  imports AcmeSamples
begin

text \<open>The guarantees of the ACME server.\<close>

section \<open>Names of an order\<close>

text \<open>C8: in every reachable database, each name of an order that is ready or valid was proved: it has a valid
  authorization of the same account, with a challenge that was validated.\<close>

theorem ready_names_are_proved:
  assumes "certio d" "q \<in> set (db_orders d)" "ao_status q = AcReady \<or> ao_status q = AcValid" "n \<in> set (ao_identifiers q)"
  shows "\<exists>z c. z \<in> set (db_authzs d) \<and> az_order z = ao_id q \<and> az_identifier z = n \<and> az_account z = ao_account q \<and>
    az_status z = AcValid \<and> c \<in> set (db_challenges d) \<and> ch_authz c = az_id z \<and> ch_status c = AcValid \<and> ch_validated c \<noteq> None"
proof -
  have "acme_inv d" using certio_both [OF assms(1)] by (simp add: both_inv_def)
  from validated_names_proved [OF this assms(2) _ assms(4)] assms(3) show ?thesis
    by (auto simp: validated_order_def proved_def)
qed

theorem ready_names_are_proved_witness:
  "\<exists>z c. z \<in> set (db_authzs adb3) \<and> az_order z = ''o-1'' \<and> az_identifier z = ''www.lan'' \<and> az_account z = ''acct-1'' \<and>
    az_status z = AcValid \<and> c \<in> set (db_challenges adb3) \<and> ch_authz c = az_id z \<and> ch_status c = AcValid \<and> ch_validated c \<noteq> None"
  using ready_names_are_proved [OF certio_adb3, of ready_order "''www.lan''"] by simp

text \<open>C13: the stored orders refine the order machine of the protocol: a step of either service leaves an order
  where it is or moves it along one edge.\<close>

theorem orders_follow_the_machine:
  assumes "certio d" "pki_step E d d' \<or> acme_step F d d'"
  shows "order_machine (order_view i d) (order_view i d')"
  using acme_step_moves pki_step_moves certio_both [OF assms(1)] assms(2)
  by (auto simp: both_inv_def moves_def)

theorem orders_follow_the_machine_witness:
  "order_machine (Some ((''acct-1'', [''www.lan'']), AcReady, [])) (Some ((''acct-1'', [''www.lan'']), AcValid, ''cert-9''))"
proof -
  have "acme_step acme_sample adb3 adb5"
    using acme_final [of acme_sample adb3 "sample_draws 5 ''cert-9''" sample_account "''o-1''" "Some (DerCSR order_csr)"]
    by (simp add: run_finalize)
  from orders_follow_the_machine [OF certio_adb3 disjI2 [OF this], of "''o-1''"] show ?thesis
    by (simp add: order_view_def get_order_def tbl_get_def order_abs_def adb5_def final_order_def ready_order_def)
qed

section \<open>What finalizing issues\<close>

lemma set_fold_san_add: "set (foldl san_add s es) \<subseteq> set s \<union> set es"
proof (induction es arbitrary: s)
  case (Cons e es)
  have "set (san_add s e) \<subseteq> insert e (set s)" by (auto simp: san_add_def)
  then show ?case using Cons.IH [of "san_add s e"] by auto
qed simp

lemma set_san_add_dns: "set (san_add_dns s n) \<subseteq> insert (mk_san san_dns n) (set s)"
  by (auto simp: san_add_dns_def san_add_def)

lemma split_dns_only:
  assumes "san_split_from P a es = Inr b" "\<forall>e \<in> set es. san_type e = san_dns"
  shows "sp_ips b = sp_ips a \<and> sp_emails b = sp_emails a \<and> sp_uris b = sp_uris a"
  using assms by (induction P a es rule: san_split_from.induct) auto

text \<open>A request without names of other types only asks for DNS names.\<close>

lemma csr_sans_dns:
  assumes "sp_ips s = []" "sp_emails s = []" "sp_uris s = []" "e \<in> set (sans_from_certificate_like s)"
  shows "san_type e = san_dns \<and> san_value e \<in> set (sp_dns s)"
  using assms set_fold_san_add [of "[]" "map (mk_san san_dns) (sp_dns s)"]
  by (auto simp: sans_from_certificate_like_def mk_san_def)

lemma primary_name_in: "primary_name s \<noteq> [] \<Longrightarrow> \<exists>e \<in> set s. primary_name s = san_value e"
proof (cases "List.find (\<lambda>e. san_type e = san_dns) s")
  case None
  moreover assume "primary_name s \<noteq> []"
  ultimately show ?thesis by (cases s) (simp_all only: primary_name_def option.case list.case, simp_all)
qed (auto simp: primary_name_def dest: find_SomeD)

lemma requested_dns:
  assumes "check_csr_against_order r ids = Inr ()" "n \<in> set (sp_dns (csr_sans r))"
  shows "to_lower n \<in> to_lower ` set ids"
  using assms by (auto simp: check_csr_against_order_def requested_names_def split: if_splits)

lemma requested_common_name:
  assumes "check_csr_against_order r ids = Inr ()" "CHR ''.'' \<in> set (trim_space (pn_common_name (csr_subject r)))"
  shows "to_lower (trim_space (pn_common_name (csr_subject r))) \<in> to_lower ` set ids"
proof -
  let ?cn = "to_lower (trim_space (pn_common_name (csr_subject r)))"
  have "lower_char CHR ''.'' = CHR ''.''" by code_simp
  then have "CHR ''.'' \<in> set ?cn" using assms(2) unfolding to_lower_def by (metis image_eqI set_map)
  then have "?cn \<in> set (requested_names r)" by (auto simp: requested_names_def Let_def)
  then show ?thesis using assms(1) by (auto simp: check_csr_against_order_def split: if_splits)
qed

lemma sign_csr_certificateE:
  assumes "sign_csr_certificate E R inp d = (Inr res, d')"
  obtains a ca r cert where
    "resolve_authority (gi_authority inp) d = Inr a" "load_ca E a (gi_passphrase inp) d = Inr ca" "parse_csr (gi_csr inp) = Inr r"
    "sign_csr (se_parsers E) (se_now E) (dr_serials R) ca (Some r)
       (sign_csr_request inp (default_string (gi_profile inp) profile_server) a) = Inr cert"
    "parse_certificate_pem (cr_cert_pem (ir_row res)) = Inr cert"
    "db_certificates d' = db_certificates d @ [certificate_defaults (ir_row res)]"
proof -
  obtain a ca r cert row d1 where
    a: "resolve_authority (gi_authority inp) d = Inr a" "load_ca E a (gi_passphrase inp) d = Inr ca" "parse_csr (gi_csr inp) = Inr r"
      "sign_csr (se_parsers E) (se_now E) (dr_serials R) ca (Some r)
         (sign_csr_request inp (default_string (gi_profile inp) profile_server) a) = Inr cert" and
    p: "persist_certificate E (dr_uuid R) a cert None (Some (gi_csr inp))
         (blank_input (au_id a) (default_string (gi_profile inp) profile_server) (gi_validity_days inp) (gi_labels inp) (gi_notes inp))
         None d = (Inr row, d1)" and
    res: "ir_row res = row" "d' = d1"
    using assms unfolding sign_csr_certificate_def Let_def by (auto simp: bindS_Inr_iff)
  from p obtain spec sealed where
    "row = certificate_row E (dr_uuid R) a cert spec sealed (Some (gi_csr inp))
         (blank_input (au_id a) (default_string (gi_profile inp) profile_server) (gi_validity_days inp) (gi_labels inp) (gi_notes inp)) None"
    "d1 = db_certificates_update (\<lambda>rs. rs @ [certificate_defaults row]) d"
    by (rule persistE)
  then show thesis by (intro that [OF a]) (simp_all add: res)
qed

lemma split_on_covers: "x \<in> set s \<Longrightarrow> x = c \<or> (\<exists>l \<in> set (split_on c s). x \<in> set l)"
  by (induction c s rule: split_on.induct) (auto split: list.splits if_splits)

lemma dns_name_trimmed: "dns_name_ok n \<Longrightarrow> trim_space n = n"
proof -
  assume n: "dns_name_ok n"
  have star: "\<not> is_space CHR ''*''" "\<not> is_space CHR ''.''" by code_simp+
  have ldh: "\<not> is_space c" if "is_ldh c" for c
    using that by (auto simp: is_ldh_def is_space_def is_lower_def is_upper_def is_digit_def)
  have "\<not> is_space c" if "c \<in> set n" for c
  proof -
    have "c = CHR ''.'' \<or> (\<exists>l \<in> set (split_on CHR ''.'' n). c \<in> set l)" by (rule split_on_covers [OF that])
    moreover have "\<not> is_space c" if "l \<in> set (split_on CHR ''.'' n)" "c \<in> set l" for l
      using n that star ldh by (cases "split_on CHR ''.'' n") (auto simp: dns_name_ok_def dns_label_ok_def Let_def)
    ultimately show ?thesis using star by blast
  qed
  then show ?thesis unfolding trim_space_def by (cases n) (auto intro!: trim_chars_id)
qed

text \<open>The names of a certificate that was signed for a request with DNS names only.\<close>

lemma signed_names:
  assumes "sign_csr P now draws ca (Some r) (sign_csr_request inp profile_server a) = Inr cert" "gi_sans inp = []"
    "sp_ips (csr_sans r) = []" "sp_emails (csr_sans r) = []" "sp_uris (csr_sans r) = []"
  shows "sp_ips (x_sans cert) = [] \<and> sp_emails (x_sans cert) = [] \<and> sp_uris (x_sans cert) = []"
    "v \<in> set (sp_dns (x_sans cert)) \<Longrightarrow>
       v \<in> set (sp_dns (csr_sans r)) \<or> v = trim_space (pn_common_name (csr_subject r))"
    "x_public_key cert = csr_public_key r"
proof -
  let ?req = "fill_from_csr r (sign_csr_request inp profile_server a)"
  let ?base = "sans_from_certificate_like (csr_sans r)"
  have s: "sign_public_key P now draws ca (csr_public_key r) ?req = Inr cert"
    using assms(1) by (auto elim: sign_csrE)
  have req: "iq_sans ?req = ?base" "iq_profile ?req = profile_server"
    "common_name (iq_subject ?req) = (if pn_common_name (csr_subject r) = [] then primary_name ?base else pn_common_name (csr_subject r))"
    using assms(2) by (auto simp: fill_from_csr_def sign_csr_request_def Let_def no_subject_def subject_from_pkix_def)
  obtain p sans where p: "lookup_profile profile_server = Inr p" "x_is_ca cert = profile_is_ca p" "x_public_key cert = csr_public_key r"
    and sans: "sign_sans P p (subject_normalize (iq_subject ?req)) ?base = Inr sans" "san_split P sans = Inr (x_sans cert)"
    using s by (rule sign_public_keyE) (use req in auto)
  show "x_public_key cert = csr_public_key r" by (rule p(3))
  have "case lookup_profile profile_server of Inl _ \<Rightarrow> True | Inr p \<Rightarrow> \<not> profile_is_ca p" by code_simp
  then have leaf: "\<not> profile_is_ca p" using p(1) by simp
  have out: "sans = san_add_dns ?base (trim_space (common_name (iq_subject ?req)))"
    using sign_sans_leaf(1) [OF sans(1) leaf] by (simp add: subject_normalize_def)
  have base: "san_type e = san_dns \<and> san_value e \<in> set (sp_dns (csr_sans r))" if "e \<in> set ?base" for e
    using csr_sans_dns [OF assms(3-5) that] .
  have all_dns: "\<forall>e \<in> set sans. san_type e = san_dns"
    using base set_san_add_dns [of ?base "trim_space (common_name (iq_subject ?req))"] by (auto simp: out mk_san_def)
  show "sp_ips (x_sans cert) = [] \<and> sp_emails (x_sans cert) = [] \<and> sp_uris (x_sans cert) = []"
    using split_dns_only [OF sans(2) [unfolded san_split_def] all_dns] by (simp add: no_sans_def)
  assume v: "v \<in> set (sp_dns (x_sans cert))"
  have "v \<in> san_value ` set sans" using v san_split_dns [OF sans(2)] by auto
  then have "v = trim_space (common_name (iq_subject ?req)) \<or> v \<in> set (sp_dns (csr_sans r))"
    using base set_san_add_dns [of ?base "trim_space (common_name (iq_subject ?req))"] by (fastforce simp: out mk_san_def)
  moreover have "trim_space (primary_name ?base) \<in> set (sp_dns (csr_sans r))" if pn: "primary_name ?base \<noteq> []"
  proof -
    obtain e where e: "e \<in> set ?base" "primary_name ?base = san_value e" using primary_name_in [OF pn] by blast
    have "validate_csr_for_signing P (Some r) = Inr ()" using assms(1) by (auto elim: sign_csrE)
    then have "san_validate P e = Inr ()" using e(1) by (auto simp: validate_csr_for_signing_def Let_def split: if_splits)
    then show ?thesis using base [OF e(1)] e(2) by (simp add: san_validate_dns_value dns_name_trimmed)
  qed
  moreover have "trim_space [] = []" by code_simp
  ultimately show "v \<in> set (sp_dns (csr_sans r)) \<or> v = trim_space (pn_common_name (csr_subject r))"
    unfolding req(3) by (cases "primary_name ?base = []") (auto split: if_splits)
qed

lemma finalizeE:
  assumes "acme_finalize E R a i c d = (Inr q', d')" "get_order i d = Inr q" "ao_status q = AcReady"
  obtains dr r ca res e where "c = Some dr" "parse_csr_der dr = Inr r" "check_csr_against_order r (ao_identifiers q) = Inr ()"
    "acme_authority E d = Inr ca" "sign_csr_certificate (base_env E) R (acme_csr_input E ca a dr) d = (Inr res, e)"
    "q' = q\<lparr>ao_status := AcValid, ao_certificate := cr_id (ir_row res), ao_error := []\<rparr>" "db_certificates d' = db_certificates e"
    "ao_account q = aa_id a"
proof -
  have upd: "db_certificates f = db_certificates e" if "update_order x e = (Inr u, f)" for x e f u
    using that by (auto simp: update_order_def repo_save_def split: option.splits)
  obtain dr where dr: "c = Some dr" "ao_account q = aa_id a"
    using assms by (cases c) (auto simp: acme_finalize_def bindS_Inr_iff readP_def failP_def split: if_splits)
  then obtain r where r: "parse_csr_der dr = Inr r"
    using assms by (auto simp: acme_finalize_def bindS_Inr_iff readP_def failP_def split: if_splits)
  have ok: "check_csr_against_order r (ao_identifiers q) = Inr ()"
    using assms dr r
    by (cases "check_csr_against_order r (ao_identifiers q)")
       (auto simp: acme_finalize_def bindS_Inr_iff readP_def failP_def split: if_splits)
  then obtain ca where ca: "acme_authority E d = Inr ca"
    using assms dr r
    by (auto simp: acme_finalize_def bindS_Inr_iff readP_def failP_def split: if_splits)
  obtain x e where x: "sign_csr_certificate (base_env E) R (acme_csr_input E ca a dr) d = (x, e)" by fastforce
  show thesis
  proof (cases x)
    case (Inl w)
    then show ?thesis
      using assms dr r ok ca x by (auto simp: acme_finalize_def bindS_Inr_iff readP_def failP_def Let_def split: if_splits)
  next
    case (Inr res)
    then show ?thesis
      using assms dr r ok ca x that [OF dr(1) r ok ca]
      by (auto simp: acme_finalize_def bindS_Inr_iff readP_def failP_def Let_def as_problem_def dest: upd split: if_splits)
  qed
qed



text \<open>The exception is real: an account whose one order is for \<open>www.lan\<close> gets a certificate for \<open>intranet\<close>,
  a name for which the database has no authorization.\<close>

theorem dotless_name_is_never_proved:
  "\<exists>q d' row cert. acme_finalize acme_sample (sample_draws 5 ''cert-9'') sample_account ''o-1'' (Some (DerCSR order_csr)) adb3 = (Inr q, d') \<and>
     certio adb3 \<and> db_certificates d' = [row] \<and> parse_certificate_pem (cr_cert_pem row) = Inr cert \<and>
     ''intranet'' \<in> set (sp_dns (x_sans cert)) \<and> ao_identifiers q = [''www.lan''] \<and>
     ''intranet'' \<notin> az_identifier ` set (db_authzs d')"
proof (intro exI conjI)
  show "db_certificates adb5 = [certificate_defaults order_cert_row]" by (simp add: adb5_def adb4_def)
  show "parse_certificate_pem (cr_cert_pem (certificate_defaults order_cert_row)) = Inr order_cert"
    by (simp add: order_cert_row_def del: parse_encoded_cert) (simp add: parse_encoded)
  show "''intranet'' \<in> set (sp_dns (x_sans order_cert))" by (simp add: csr_facts)
  show "ao_identifiers final_order = [''www.lan'']" by (simp add: final_order_def)
  show "''intranet'' \<notin> az_identifier ` set (db_authzs adb5)"
    by (simp add: adb5_def adb4_def proved_authz_def)
qed (rule run_finalize, rule certio_adb3)

section \<open>External account binding\<close>

lemma verify_external_bindingE:
  assumes "verify_external_binding E binding key url d = Inr row"
  obtains b h secret bound where "binding = Some b" "eb_parsed b = Some h" "eb_url h = url" "external_by_kid (eb_kid h) d = Inr row"
    "external_usable (se_now E) row" "open_external_hmac E row = Some secret" "eb_hmac_ok b (eb_alg h) secret"
    "eb_payload h = Some bound" "jwk_thumbprint bound = jwk_thumbprint key"
  using assms by (auto simp: verify_external_binding_def split: option.splits if_splits sum.splits)


definition sample_external :: acme_external where
  "sample_external = \<lparr>ax_id = ''ext-1'', ax_kid = ''kid'', ax_description = [], ax_hmac = Some (1, ''secret''),
     ax_allowed_domains = [], ax_enabled = True, ax_expires = None, ax_last_used = None, ax_created_by = []\<rparr>"

definition sample_binding :: eab where
  "sample_binding = \<lparr>eb_parsed = Some \<lparr>eb_kid = ''kid'', eb_url = ''url'', eb_alg = ''HS256'', eb_payload = Some sample_jwk\<rparr>,
     eb_hmac_ok = (\<lambda>alg secret. alg = ''HS256'' \<and> secret = ''secret'')\<rparr>"


end
