(* ===== verification/StoreAuth.thy ===== *)
theory StoreAuth
  imports StorePki
begin

text \<open>
  The rows of accounts, API tokens, signed-out sessions and the identity provider
  (\<open>internal/store/models.go\<close>) and their repositories (\<open>internal/store/repo_auth.go\<close>).
  PostgreSQL refuses a text that is longer than its column, SQLite does not: the dialect is an
  argument of the writes.
\<close>

type_synonym sealed_text = "(nat \<times> string) option"

datatype dialect = Sqlite | Postgres

definition fits :: "dialect \<Rightarrow> (nat \<times> string) list \<Rightarrow> bool" where
  "fits D cols = (case D of Sqlite \<Rightarrow> True | Postgres \<Rightarrow> list_all (\<lambda>(n, s). length s \<le> n) cols)"

section \<open>Rows\<close>

definition role_admin :: string where "role_admin = ''admin''"
definition role_operator :: string where "role_operator = ''operator''"
definition role_viewer :: string where "role_viewer = ''viewer''"
definition status_active :: string where "status_active = ''active''"

record user =
  us_id :: string
  us_created_at :: instant
  us_email :: string
  us_name :: string
  us_password :: string
  us_role :: string
  us_status :: string
  us_last_login :: "instant option"
  us_provider :: string
  us_subject :: string
  us_totp_enabled :: bool
  us_totp_secret :: sealed_text
  us_totp_enabled_at :: "instant option"
  us_totp_last_step :: int
  us_recovery :: "string list"

definition is_active :: "user \<Rightarrow> bool" where "is_active u = (us_status u = status_active)"
definition is_federated :: "user \<Rightarrow> bool" where "is_federated u = (us_provider u \<noteq> [])"
definition has_password :: "user \<Rightarrow> bool" where "has_password u = (us_password u \<noteq> [])"
definition has_two_factor :: "user \<Rightarrow> bool" where "has_two_factor u = (us_totp_enabled u \<and> us_totp_secret u \<noteq> None)"
definition enrollment_pending :: "user \<Rightarrow> bool" where "enrollment_pending u = (\<not> us_totp_enabled u \<and> us_totp_secret u \<noteq> None)"
definition recovery_remaining :: "user \<Rightarrow> nat" where "recovery_remaining u = length (us_recovery u)"

record api_token =
  tk_id :: string
  tk_created_at :: instant
  tk_user :: string
  tk_name :: string
  tk_hash :: string
  tk_prefix :: string
  tk_scopes :: "string list"
  tk_expires :: "instant option"
  tk_last_used :: "instant option"
  tk_revoked :: "instant option"

definition token_usable :: "instant \<Rightarrow> api_token \<Rightarrow> bool" where
  "token_usable now t = (if tk_revoked t \<noteq> None then False else case tk_expires t of None \<Rightarrow> True | Some e \<Rightarrow> now < e)"

record revoked_session =
  rs_session :: string
  rs_user :: string
  rs_reason :: string
  rs_expires :: instant
  rs_revoked :: instant

record oauth_provider =
  op_id :: string
  op_created_at :: instant
  op_name :: string
  op_display :: string
  op_client :: string
  op_secret :: sealed_text
  op_auth_url :: string
  op_token_url :: string
  op_info_url :: string
  op_scopes :: "string list"
  op_subject_field :: string
  op_email_field :: string
  op_name_field :: string
  op_domains :: "string list"
  op_signup :: bool
  op_unverified :: bool
  op_default_role :: string
  op_enabled :: bool

definition provider_label :: "oauth_provider \<Rightarrow> string" where
  "provider_label p = (if op_display p \<noteq> [] then op_display p else op_name p)"

definition or_else :: "string \<Rightarrow> string \<Rightarrow> string" where
  "or_else v fallback = (if v = [] then fallback else v)"

definition provider_defaults :: "oauth_provider \<Rightarrow> oauth_provider" where
  "provider_defaults p = p\<lparr>
     op_subject_field := or_else (op_subject_field p) ''sub'',
     op_email_field := or_else (op_email_field p) ''email'',
     op_name_field := or_else (op_name_field p) ''name'',
     op_default_role := or_else (op_default_role p) role_viewer,
     op_scopes := (if op_scopes p = [] then [''openid'', ''email'', ''profile''] else op_scopes p)\<rparr>"

record auth_db =
  ad_users :: "user list"
  ad_tokens :: "api_token list"
  ad_sessions :: "revoked_session list"
  ad_providers :: "oauth_provider list"

definition empty_auth :: auth_db where
  "empty_auth = \<lparr>ad_users = [], ad_tokens = [], ad_sessions = [], ad_providers = []\<rparr>"

section \<open>Users\<close>

definition user_clash :: "dialect \<Rightarrow> auth_db \<Rightarrow> user \<Rightarrow> store_error option" where
  "user_clash D d u =
     (if \<not> fits D [(36, us_id u), (191, us_email u), (191, us_name u), (255, us_password u), (20, us_role u), (20, us_status u),
          (64, us_provider u), (255, us_subject u)] then Some ValueTooLong
      else if list_ex (\<lambda>x. us_id x \<noteq> us_id u \<and> us_email x = us_email u) (ad_users d) then Some RecordConflict
      else None)"

text \<open>What the hook, the column defaults and \<open>Create\<close> make of a new row.\<close>

definition user_defaults :: "user \<Rightarrow> user" where
  "user_defaults u = u\<lparr>us_email := to_lower (trim_space (us_email u)), us_role := or_else (us_role u) role_viewer,
     us_status := or_else (us_status u) status_active\<rparr>"

definition create_user_row :: "dialect \<Rightarrow> user \<Rightarrow> (auth_db, store_error, unit) op" where
  "create_user_row D u = repo_create ad_users ad_users_update us_id (user_clash D) (user_defaults u)"

definition update_user_row :: "dialect \<Rightarrow> user \<Rightarrow> (auth_db, store_error, unit) op" where
  "update_user_row D = repo_save ad_users_update us_id (user_clash D)"

definition get_user :: "string \<Rightarrow> auth_db \<Rightarrow> store_error + user" where
  "get_user i d = tbl_get us_id i (ad_users d)"

definition user_by_email :: "string \<Rightarrow> auth_db \<Rightarrow> store_error + user" where
  "user_by_email e d = tbl_get us_email (to_lower (trim_space e)) (ad_users d)"

definition user_by_oauth :: "string \<Rightarrow> string \<Rightarrow> auth_db \<Rightarrow> store_error + user" where
  "user_by_oauth provider subject d =
     (if provider = [] \<or> subject = [] then Inl RecordNotFound
      else tbl_get (\<lambda>u. (us_provider u, us_subject u)) (provider, subject) (ad_users d))"

definition list_users :: "pagination \<Rightarrow> auth_db \<Rightarrow> user page" where
  "list_users p d = paginate p (sort_key us_created_at (ad_users d))"

definition delete_user_row :: "string \<Rightarrow> (auth_db, store_error, unit) op" where
  "delete_user_row i = transaction (\<lambda>d.
     let d' = ad_tokens_update (filter (\<lambda>t. tk_user t \<noteq> i)) d in
     if tbl_has us_id i (ad_users d') then (Inr (), ad_users_update (filter (\<lambda>u. us_id u \<noteq> i)) d')
     else (Inl RecordNotFound, d'))"

definition count_users :: "auth_db \<Rightarrow> nat" where
  "count_users d = length (ad_users d)"

definition admin_user :: "user \<Rightarrow> bool" where
  "admin_user u = (us_role u = role_admin \<and> us_status u = status_active)"

definition count_admins :: "auth_db \<Rightarrow> nat" where
  "count_admins d = length (filter admin_user (ad_users d))"

definition touch_login :: "instant \<Rightarrow> string \<Rightarrow> auth_db \<Rightarrow> auth_db" where
  "touch_login now i = ad_users_update (tbl_set (\<lambda>u. us_id u = i) (us_last_login_update (\<lambda>_. Some now)))"

section \<open>The identity provider\<close>

definition get_provider :: "auth_db \<Rightarrow> store_error + oauth_provider" where
  "get_provider d = (case sort_key op_created_at (ad_providers d) of [] \<Rightarrow> Inl RecordNotFound | p # _ \<Rightarrow> Inr p)"

definition provider_fits :: "dialect \<Rightarrow> oauth_provider \<Rightarrow> bool" where
  "provider_fits D p = fits D [(36, op_id p), (64, op_name p), (191, op_display p), (255, op_client p), (512, op_auth_url p), (512, op_token_url p),
     (512, op_info_url p), (64, op_subject_field p), (64, op_email_field p), (64, op_name_field p), (20, op_default_role p)]"

definition provider_clash :: "dialect \<Rightarrow> auth_db \<Rightarrow> oauth_provider \<Rightarrow> store_error option" where
  "provider_clash D d p = (if provider_fits D p then None else Some ValueTooLong)"

definition save_provider_row :: "dialect \<Rightarrow> oauth_provider \<Rightarrow> (auth_db, store_error, oauth_provider) op" where
  "save_provider_row D p = bindS (readS (\<lambda>d. Inr (get_provider d))) (\<lambda>found. case found of
       Inl e \<Rightarrow> if e = RecordNotFound
         then (let p = p\<lparr>op_default_role := or_else (op_default_role p) role_viewer\<rparr> in
               bindS (repo_create ad_providers ad_providers_update op_id (provider_clash D) p) (\<lambda>_. returnS p))
         else failS e
     | Inr old \<Rightarrow>
         let p = p\<lparr>op_id := op_id old, op_created_at := op_created_at old\<rparr> in
         bindS (repo_save ad_providers_update op_id (provider_clash D) p) (\<lambda>_. returnS p))"

definition delete_provider_rows :: "auth_db \<Rightarrow> auth_db" where
  "delete_provider_rows = ad_providers_update (\<lambda>_. [])"

section \<open>API tokens\<close>

definition token_clash :: "dialect \<Rightarrow> auth_db \<Rightarrow> api_token \<Rightarrow> store_error option" where
  "token_clash D d t =
     (if \<not> fits D [(36, tk_id t), (36, tk_user t), (191, tk_name t), (64, tk_hash t), (16, tk_prefix t)] then Some ValueTooLong
      else if list_ex (\<lambda>x. tk_id x \<noteq> tk_id t \<and> tk_hash x = tk_hash t) (ad_tokens d) then Some RecordConflict
      else if tbl_has us_id (tk_user t) (ad_users d) then None else Some ForeignKeyViolation)"

definition create_token_row :: "dialect \<Rightarrow> api_token \<Rightarrow> (auth_db, store_error, unit) op" where
  "create_token_row D = repo_create ad_tokens ad_tokens_update tk_id (token_clash D)"

definition get_token :: "string \<Rightarrow> auth_db \<Rightarrow> store_error + api_token" where
  "get_token i d = tbl_get tk_id i (ad_tokens d)"

definition token_by_hash :: "string \<Rightarrow> auth_db \<Rightarrow> store_error + api_token" where
  "token_by_hash h d = tbl_get tk_hash h (ad_tokens d)"

definition newest_first :: "api_token list \<Rightarrow> api_token list" where
  "newest_first = sort_key (\<lambda>t. - tk_created_at t)"

definition tokens_by_user :: "string \<Rightarrow> auth_db \<Rightarrow> api_token list" where
  "tokens_by_user i d = newest_first (filter (\<lambda>t. tk_user t = i) (ad_tokens d))"

definition all_tokens :: "auth_db \<Rightarrow> api_token list" where
  "all_tokens d = newest_first (ad_tokens d)"

definition touch_used :: "instant \<Rightarrow> string \<Rightarrow> auth_db \<Rightarrow> auth_db" where
  "touch_used now i = ad_tokens_update (tbl_set (\<lambda>t. tk_id t = i) (tk_last_used_update (\<lambda>_. Some now)))"

definition revoke_token_row :: "instant \<Rightarrow> string \<Rightarrow> (auth_db, store_error, unit) op" where
  "revoke_token_row now i = (\<lambda>d. if tbl_has tk_id i (ad_tokens d)
     then (Inr (), ad_tokens_update (tbl_set (\<lambda>t. tk_id t = i) (tk_revoked_update (\<lambda>_. Some now))) d)
     else (Inl RecordNotFound, d))"

definition delete_token_row :: "string \<Rightarrow> (auth_db, store_error, unit) op" where
  "delete_token_row i = (\<lambda>d. if tbl_has tk_id i (ad_tokens d)
     then (Inr (), ad_tokens_update (filter (\<lambda>t. tk_id t \<noteq> i)) d) else (Inl RecordNotFound, d))"

section \<open>Signed-out sessions\<close>

text \<open>\<open>OnConflict\{DoNothing\}\<close>: a session that is already denied keeps its row.\<close>

definition revoke_session_row :: "dialect \<Rightarrow> instant \<Rightarrow> string \<Rightarrow> string \<Rightarrow> string \<Rightarrow> instant \<Rightarrow> (auth_db, store_error, unit) op" where
  "revoke_session_row D now sid uid reason until = (\<lambda>d.
     if \<not> fits D [(36, sid), (36, uid), (64, reason)] then (Inl ValueTooLong, d)
     else if tbl_has rs_session sid (ad_sessions d) then (Inr (), d)
     else (Inr (), ad_sessions_update (\<lambda>rs. rs @ [\<lparr>rs_session = sid, rs_user = uid, rs_reason = reason, rs_expires = until,
        rs_revoked = now\<rparr>]) d))"

definition all_sessions_key :: "string \<Rightarrow> string" where
  "all_sessions_key uid = ''user:'' @ uid"

definition revoke_all_rows :: "dialect \<Rightarrow> instant \<Rightarrow> string \<Rightarrow> string \<Rightarrow> instant \<Rightarrow> (auth_db, store_error, unit) op" where
  "revoke_all_rows D now uid reason until = revoke_session_row D now (all_sessions_key uid) uid reason until"

definition is_revoked :: "instant \<Rightarrow> string \<Rightarrow> string \<Rightarrow> auth_db \<Rightarrow> bool" where
  "is_revoked now sid uid d =
     (let keys = sid # (if uid \<noteq> [] then [all_sessions_key uid] else [])
      in 0 < length (filter (\<lambda>r. rs_session r \<in> set keys \<and> now < rs_expires r) (ad_sessions d)))"

definition prune_sessions :: "instant \<Rightarrow> auth_db \<Rightarrow> nat \<times> auth_db" where
  "prune_sessions before d = (length (filter (\<lambda>r. rs_expires r < before) (ad_sessions d)),
     ad_sessions_update (filter (\<lambda>r. \<not> rs_expires r < before)) d)"

section \<open>The repositories\<close>

lemmas auth_repo_defs = get_user_def create_user_row_def update_user_row_def get_token_def create_token_row_def

interpretation users: repository ad_users us_id user_defaults get_user "create_user_row D" "update_user_row D"
  by unfold_locales (auto simp: auth_repo_defs user_defaults_def dest!: repo_create_ok repo_save_ok repo_fail)

interpretation tokens: keyed_repo ad_tokens tk_id id get_token "create_token_row D"
  by unfold_locales (auto simp: auth_repo_defs dest!: repo_create_ok repo_fail)

section \<open>Laws\<close>

lemma is_revoked_iff:
  "is_revoked now sid uid d \<longleftrightarrow>
     (\<exists>r \<in> set (ad_sessions d). (rs_session r = sid \<or> uid \<noteq> [] \<and> rs_session r = all_sessions_key uid) \<and> now < rs_expires r)"
  by (auto simp: is_revoked_def filter_empty_conv)

text \<open>Pruning never lets a denied session back in.\<close>

lemma prune_keeps_denied: "before \<le> now \<Longrightarrow> is_revoked now sid uid (snd (prune_sessions before d)) = is_revoked now sid uid d"
  by (auto simp: is_revoked_iff prune_sessions_def)

lemma revoked_is_denied:
  assumes "revoke_session_row D now sid uid reason until d = (Inr u, d')" "sid \<notin> rs_session ` set (ad_sessions d)" "t < until"
  shows "is_revoked t sid uid' d'"
  using assms by (auto simp: revoke_session_row_def is_revoked_iff tbl_has_iff split: if_splits)

lemma revoke_session_frame:
  "ad_users (snd (revoke_session_row D now sid uid reason until d)) = ad_users d"
  by (simp add: revoke_session_row_def)

lemma count_admins_pos: "0 < count_admins d \<longleftrightarrow> (\<exists>u \<in> set (ad_users d). admin_user u)"
  by (auto simp: count_admins_def filter_empty_conv)

end
