(* ===== verification/SvcScope.thy ===== *)
theory SvcScope
  imports StoreAuth "HOL-Library.List_Lexorder" "HOL-Library.Char_ord"
begin

text \<open>\<open>internal/service/scope.go\<close>: the scopes that narrow an API token, and the principal they narrow.\<close>

record principal =
  pr_user :: string
  pr_email :: string
  pr_name :: string
  pr_role :: string
  pr_token :: string
  pr_scopes :: "string list"
  pr_session :: string
  pr_session_expiry :: instant

definition is_admin :: "principal option \<Rightarrow> bool" where
  "is_admin p = (case p of None \<Rightarrow> False | Some p \<Rightarrow> pr_role p = role_admin)"

definition can_write :: "principal option \<Rightarrow> bool" where
  "can_write p = (case p of None \<Rightarrow> False | Some p \<Rightarrow> pr_role p = role_admin \<or> pr_role p = role_operator)"

definition scope_all :: string where "scope_all = ''*''"

definition scope_catalog :: "string list" where
  "scope_catalog = [scope_all, ''authorities:read'', ''authorities:write'', ''certificates:read'', ''certificates:write'',
     ''deployments:read'', ''deployments:write'', ''notifications:read'', ''notifications:write'', ''users:read'', ''users:write'',
     ''tokens:read'', ''tokens:write'', ''audit:read'', ''settings:read'', ''settings:write'']"

definition scope_names :: "string list" where
  "scope_names = concat (map (\<lambda>s. case cut CHR '':'' s of (r, _, ok) \<Rightarrow> if ok then [s, r @ '':*''] else [s]) scope_catalog)"

definition clean_scope :: "string \<Rightarrow> string" where
  "clean_scope raw = to_lower (trim_space raw)"

datatype scope_error = UnknownScope string

definition validate_scopes :: "string list \<Rightarrow> scope_error + unit" where
  "validate_scopes scopes = forE (\<lambda>raw. let scope = clean_scope raw in
     if scope = [] then Inr () else guardE (scope \<in> set scope_names) (UnknownScope raw)) scopes"

fun collect_scopes :: "string list \<Rightarrow> string list \<Rightarrow> string list" where
  "collect_scopes out [] = out"
| "collect_scopes out (raw # rs) =
     (let scope = clean_scope raw
      in collect_scopes (if scope = [] \<or> scope \<in> set out then out else out @ [scope]) rs)"

definition normalize_scopes :: "string list \<Rightarrow> string list" where
  "normalize_scopes scopes =
     (let out = collect_scopes [] scopes in if scope_all \<in> set out then [scope_all] else sort out)"

definition grants :: "string \<Rightarrow> string \<Rightarrow> bool" where
  "grants required granted = (case cut CHR '':'' required of (resource, action, _) \<Rightarrow>
     let g = clean_scope granted in
     if g = scope_all \<or> g = required \<or> g = resource @ '':*'' then True
     else if g = resource @ '':write'' then action = ''read'' else False)"

definition has_scope :: "principal option \<Rightarrow> string \<Rightarrow> bool" where
  "has_scope p required = (case p of
       None \<Rightarrow> False
     | Some p \<Rightarrow> if pr_token p = [] \<or> pr_scopes p = [] then True else list_ex (grants required) (pr_scopes p))"

section \<open>Laws\<close>

lemma set_collect_scopes: "set (collect_scopes out rs) = set out \<union> (clean_scope ` set rs - {[]})"
  by (induction out rs rule: collect_scopes.induct) (auto simp: Let_def)

lemma distinct_collect_scopes: "distinct out \<Longrightarrow> distinct (collect_scopes out rs)"
  by (induction out rs rule: collect_scopes.induct) (auto simp: Let_def)

lemma clean_scope_idem [simp]: "clean_scope (clean_scope s) = clean_scope s"
proof -
  have "trim_space (to_lower t) = to_lower (trim_space t)" for t
    by (simp add: trim_space_def trim_chars_def trim_left_def trim_right_def to_lower_def dropWhile_map rev_map comp_def)
  then show ?thesis by (simp add: clean_scope_def)
qed

text \<open>Normalizing grants the same: a list of known scopes before and after admits the same requests.\<close>

lemma grants_clean: "grants r (clean_scope s) = grants r s"
  by (simp add: grants_def)

end
