(* ===== verification/Totp.thy ===== *)
theory Totp
  imports GoText "HOL-Library.Word"
begin

text \<open>
  \<open>internal/crypto/totp.go\<close>: time-based one-time passwords, their shared secrets in base32, and
  recovery codes.  The keyed hash (HMAC-SHA1) and the digest of a recovery code (SHA-256, in
  hexadecimal) are arguments.
\<close>

unbundle bit_operations_syntax

type_synonym octet = "8 word"

definition totp_period :: int where "totp_period = 30"
definition totp_digits :: nat where "totp_digits = 6"
definition totp_skew :: int where "totp_skew = 1"
definition totp_secret_size :: nat where "totp_secret_size = 20"
definition recovery_code_count :: nat where "recovery_code_count = 10"
definition recovery_code_bytes :: nat where "recovery_code_bytes = 8"

section \<open>Base32\<close>

text \<open>
  \<open>encoding/base32\<close> without padding.  Five octets are one number of 40 bits, written as eight
  digits; a shorter last group is padded with zero bits and cut to the digits it needs.  The
  decoder takes from a last group of 2, 4, 5 or 7 digits the octets they cover, and nothing
  from one of 1, 3 or 6.
\<close>

definition b32_char :: "nat \<Rightarrow> char" where
  "b32_char d = char_of (if d < 26 then 65 + d else 24 + d)"

definition b32_val :: "char \<Rightarrow> nat option" where
  "b32_val c = (if is_upper c then Some (ord c - 65)
     else if 50 \<le> ord c \<and> ord c \<le> 55 then Some (ord c - 24) else None)"

definition number_of_octets :: "octet list \<Rightarrow> nat" where
  "number_of_octets bs = foldl (\<lambda>n b. n * 256 + unat b) 0 bs"

definition b32_group :: "octet list \<Rightarrow> string" where
  "b32_group bs =
     (let n = number_of_octets (bs @ replicate (5 - length bs) 0);
          size = (case length bs of 0 \<Rightarrow> 0 | Suc 0 \<Rightarrow> 2 | Suc (Suc 0) \<Rightarrow> 4 | Suc (Suc (Suc 0)) \<Rightarrow> 5
                  | Suc (Suc (Suc (Suc 0))) \<Rightarrow> 7 | _ \<Rightarrow> 8)
      in take size (map (\<lambda>i. b32_char (n div 32 ^ (7 - i) mod 32)) [0..<8]))"

function b32_encode :: "octet list \<Rightarrow> string" where
  "b32_encode bs = (if bs = [] then [] else b32_group (take 5 bs) @ b32_encode (drop 5 bs))"
  by pat_completeness auto
termination by (relation "measure length") auto

declare b32_encode.simps [simp del]

definition b32_octets :: "nat \<Rightarrow> nat" where
  "b32_octets n = (if n = 8 then 5 else if n = 7 then 4 else if n = 5 then 3 else if n = 4 then 2 else if n = 2 then 1 else 0)"

definition b32_ungroup :: "nat list \<Rightarrow> octet list" where
  "b32_ungroup vs =
     (let n = foldl (\<lambda>n v. n * 32 + v) 0 (vs @ replicate (8 - length vs) 0)
      in take (b32_octets (length vs)) (map (\<lambda>i. of_nat (n div 256 ^ (4 - i) mod 256)) [0..<5]))"

function b32_decode_values :: "nat list \<Rightarrow> octet list" where
  "b32_decode_values vs = (if vs = [] then [] else b32_ungroup (take 8 vs) @ b32_decode_values (drop 8 vs))"
  by pat_completeness auto
termination by (relation "measure length") auto

declare b32_decode_values.simps [simp del]

text \<open>The decoder drops line breaks and refuses any other character outside the alphabet.\<close>

fun b32_values :: "string \<Rightarrow> nat list option" where
  "b32_values [] = Some []"
| "b32_values (c # s) = (case b32_val c of None \<Rightarrow> None
     | Some v \<Rightarrow> (case b32_values s of None \<Rightarrow> None | Some vs \<Rightarrow> Some (v # vs)))"

definition b32_decode :: "string \<Rightarrow> octet list option" where
  "b32_decode s = map_option b32_decode_values (b32_values (filter (\<lambda>c. ord c \<noteq> 10 \<and> ord c \<noteq> 13) s))"

section \<open>Secrets\<close>

text \<open>\<open>GenerateTOTPSecret\<close>, of the octets it draws.\<close>

definition generate_totp_secret :: "octet list \<Rightarrow> string" where
  "generate_totp_secret raw = b32_encode raw"

fun format_totp_from :: "nat \<Rightarrow> string \<Rightarrow> string" where
  "format_totp_from i [] = []"
| "format_totp_from i (c # s) = (if 0 < i \<and> i mod 4 = 0 then [CHR '' '', c] else [c]) @ format_totp_from (Suc i) s"

definition format_totp_secret :: "string \<Rightarrow> string" where
  "format_totp_secret = format_totp_from 0"

datatype totp_error = InvalidTotpSecret

definition decode_totp_secret :: "string \<Rightarrow> totp_error + octet list" where
  "decode_totp_secret secret =
     (let cleaned = to_upper (remove_chars '' -='' secret)
      in if cleaned = [] then Inl InvalidTotpSecret
         else of_opt InvalidTotpSecret (b32_decode cleaned))"

section \<open>One-time passwords\<close>

type_synonym mac = "octet list \<Rightarrow> octet list \<Rightarrow> octet list"

definition counter_octets :: "64 word \<Rightarrow> octet list" where
  "counter_octets c = map (\<lambda>i. ucast (drop_bit (8 * (7 - i)) c)) [0..<8]"

definition word_of_octets :: "octet list \<Rightarrow> 32 word" where
  "word_of_octets bs = foldl (\<lambda>n b. push_bit 8 n OR ucast b) 0 bs"

text \<open>\<open>fmt.Sprintf("%0*d", n, v)\<close>.\<close>

definition pad_zeros :: "nat \<Rightarrow> string \<Rightarrow> string" where
  "pad_zeros n s = replicate (n - length s) CHR ''0'' @ s"

definition pow10 :: "nat \<Rightarrow> 32 word" where
  "pow10 n = (((*) 10) ^^ n) 1"

definition hotp :: "mac \<Rightarrow> octet list \<Rightarrow> 64 word \<Rightarrow> string" where
  "hotp mac key counter =
     (let sum = mac key (counter_octets counter);
          offset = unat (last sum AND 0x0f);
          v = word_of_octets (take 4 (drop offset sum)) AND 0x7fffffff
      in pad_zeros totp_digits (dec_nat (unat (v mod pow10 totp_digits))))"

text \<open>\<open>at.UTC().Unix() / TOTPPeriod\<close>: the division truncates.\<close>

definition unix :: "instant \<Rightarrow> int" where
  "unix t = t div second"

definition totp_counter :: "instant \<Rightarrow> int" where
  "totp_counter at = trunc_div (unix at) totp_period"

definition totp_code :: "mac \<Rightarrow> string \<Rightarrow> instant \<Rightarrow> totp_error + string" where
  "totp_code mac secret at =
     bindE (decode_totp_secret secret) (\<lambda>key.
       if totp_counter at < 0 then Inl InvalidTotpSecret
       else Inr (hotp mac key (of_int (totp_counter at))))"

definition normalize_totp_code :: "string \<Rightarrow> string" where
  "normalize_totp_code code = filter is_digit code"

text \<open>Every candidate is compared, and the last one that matches is reported.\<close>

fun match_steps :: "mac \<Rightarrow> octet list \<Rightarrow> string \<Rightarrow> int list \<Rightarrow> int option \<Rightarrow> int option" where
  "match_steps mac key code [] found = found"
| "match_steps mac key code (c # cs) found =
     match_steps mac key code cs
       (if 0 \<le> c \<and> hotp mac key (of_int c) = code then Some c else found)"

definition verify_totp_step :: "mac \<Rightarrow> string \<Rightarrow> string \<Rightarrow> instant \<Rightarrow> int option" where
  "verify_totp_step mac secret code at =
     (case decode_totp_secret secret of
        Inl _ \<Rightarrow> None
      | Inr key \<Rightarrow>
          let code = normalize_totp_code code in
          if length code \<noteq> totp_digits then None
          else match_steps mac key code (map ((+) (totp_counter at)) [- totp_skew .. totp_skew]) None)"

definition verify_totp :: "mac \<Rightarrow> string \<Rightarrow> string \<Rightarrow> instant \<Rightarrow> bool" where
  "verify_totp mac secret code at = (verify_totp_step mac secret code at \<noteq> None)"

section \<open>Recovery codes\<close>

definition normalize_recovery_code :: "string \<Rightarrow> string" where
  "normalize_recovery_code code = to_lower (remove_chars '' -'' (trim_space code))"

definition hash_recovery_code :: "(string \<Rightarrow> string) \<Rightarrow> string \<Rightarrow> string" where
  "hash_recovery_code sha256_hex code = sha256_hex (''certio/recovery/v1:'' @ normalize_recovery_code code)"

definition recovery_code_of :: "octet list \<Rightarrow> string" where
  "recovery_code_of raw =
     (let encoded = to_lower (b32_encode raw) in take 6 encoded @ ''-'' @ take 6 (drop 6 encoded))"

definition generate_recovery_codes :: "(string \<Rightarrow> string) \<Rightarrow> octet list list \<Rightarrow> string list \<times> string list" where
  "generate_recovery_codes sha256_hex raws =
     (let codes = map recovery_code_of (take recovery_code_count raws)
      in (codes, map (hash_recovery_code sha256_hex) codes))"

section \<open>Laws\<close>

lemma match_steps_found:
  "match_steps mac key code cs found = (case rev (filter (\<lambda>c. 0 \<le> c \<and> hotp mac key (of_int c) = code) cs) of
     [] \<Rightarrow> found | c # _ \<Rightarrow> Some c)"
  by (induction cs arbitrary: found) (auto split: list.split)

end
