(* ===== verification/Password.thy ===== *)
theory Password
  imports Totp
begin

text \<open>
  \<open>internal/crypto/password.go\<close>: password hashes in PHC form and API tokens.  Argon2id is a
  library outside the repository and an argument: password, salt, rounds, memory, threads and
  length of the digest give the digest.  So is SHA-256 in hexadecimal.  Base64 and the scanner
  of \<open>fmt\<close> belong to Go and are modelled.
\<close>

type_synonym kdf = "octet list \<Rightarrow> octet list \<Rightarrow> nat \<Rightarrow> nat \<Rightarrow> nat \<Rightarrow> nat \<Rightarrow> octet list"

datatype password_error = InvalidHash | UnsupportedArgon int | MismatchedPassword | EmptyPassword | KdfPanics

section \<open>Base64 without padding\<close>

text \<open>The two last characters of the alphabet are \<open>+/\<close> in the standard encoding and \<open>-_\<close> in the URL one.\<close>

definition b64_char :: "char \<times> char \<Rightarrow> nat \<Rightarrow> char" where
  "b64_char ab v = (if v < 26 then char_of (65 + v) else if v < 52 then char_of (71 + v)
     else if v < 62 then char_of (v - 4) else if v = 62 then fst ab else snd ab)"

definition b64_val :: "char \<times> char \<Rightarrow> char \<Rightarrow> nat option" where
  "b64_val ab c = (if is_upper c then Some (ord c - 65) else if is_lower c then Some (ord c - 71)
     else if is_digit c then Some (ord c + 4) else if c = fst ab then Some 62 else if c = snd ab then Some 63 else None)"

definition b64_std :: "char \<times> char" where "b64_std = (CHR ''+'', CHR ''/'')"
definition b64_url :: "char \<times> char" where "b64_url = (CHR ''-'', CHR ''_'')"

fun b64_digits :: "nat list \<Rightarrow> nat list" where
  "b64_digits [] = []"
| "b64_digits [a] = [a div 4, a mod 4 * 16]"
| "b64_digits [a, b] = [a div 4, a mod 4 * 16 + b div 16, b mod 16 * 4]"
| "b64_digits (a # b # c # r) = a div 4 # (a mod 4 * 16 + b div 16) # (b mod 16 * 4 + c div 64) # c mod 64 # b64_digits r"

definition b64_encode :: "char \<times> char \<Rightarrow> octet list \<Rightarrow> string" where
  "b64_encode ab bs = map (b64_char ab) (b64_digits (map unat bs))"

text \<open>Strict decoding: the bits left over in the last digit have to be zero.\<close>

fun b64_undigits :: "nat list \<Rightarrow> nat list option" where
  "b64_undigits [] = Some []"
| "b64_undigits [d] = None"
| "b64_undigits [d, e] = (if e mod 16 = 0 then Some [d * 4 + e div 16] else None)"
| "b64_undigits [d, e, f] = (if f mod 4 = 0 then Some [d * 4 + e div 16, e mod 16 * 16 + f div 4] else None)"
| "b64_undigits (d # e # f # g # r) = (case b64_undigits r of None \<Rightarrow> None
     | Some bs \<Rightarrow> Some ((d * 4 + e div 16) # (e mod 16 * 16 + f div 4) # (f mod 4 * 64 + g) # bs))"

definition b64_decode_strict :: "char \<times> char \<Rightarrow> string \<Rightarrow> octet list option" where
  "b64_decode_strict ab s =
     (case those (map (b64_val ab) (filter (\<lambda>c. ord c \<noteq> 10 \<and> ord c \<noteq> 13) s)) of
        None \<Rightarrow> None
      | Some ds \<Rightarrow> map_option (map of_nat) (b64_undigits ds))"

section \<open>The scanner\<close>

text \<open>\<open>%d\<close>: spaces are skipped, a newline is an error, then the digits are read; what follows them is left.\<close>

fun skip_space :: "string \<Rightarrow> string option" where
  "skip_space [] = Some []"
| "skip_space (c # s) = (if ord c = 10 then None else if is_space c then skip_space s else Some (c # s))"

definition scan_digits :: "string \<Rightarrow> (nat \<times> string) option" where
  "scan_digits s = (case takeWhile is_digit s of [] \<Rightarrow> None
     | ds \<Rightarrow> map_option (\<lambda>n. (n, dropWhile is_digit s)) (parse_digits 10 0 ds))"

definition scan_uint :: "nat \<Rightarrow> string \<Rightarrow> (nat \<times> string) option" where
  "scan_uint bits s = (case skip_space s of None \<Rightarrow> None | Some s \<Rightarrow> (case scan_digits s of
     None \<Rightarrow> None | Some (n, r) \<Rightarrow> if n < 2 ^ bits then Some (n, r) else None))"

definition scan_int :: "string \<Rightarrow> (int \<times> string) option" where
  "scan_int s = (case skip_space s of
      None \<Rightarrow> None
    | Some s \<Rightarrow>
        let negative = (s \<noteq> [] \<and> hd s = CHR ''-'');
            s = (if s \<noteq> [] \<and> (hd s = CHR ''-'' \<or> hd s = CHR ''+'') then tl s else s)
        in (case scan_digits s of
              None \<Rightarrow> None
            | Some (n, r) \<Rightarrow>
                let v = (if negative then - int n else int n)
                in if - (2 ^ 63) \<le> v \<and> v < 2 ^ 63 then Some (v, r) else None))"

definition scan_text :: "string \<Rightarrow> string \<Rightarrow> string option" where
  "scan_text t s = (if prefix t s then Some (drop (length t) s) else None)"

definition scan_version :: "string \<Rightarrow> int option" where
  "scan_version s = Option.bind (scan_text ''v='' s) (\<lambda>s. map_option fst (scan_int s))"

definition scan_costs :: "string \<Rightarrow> (nat \<times> nat \<times> nat) option" where
  "scan_costs s =
     Option.bind (scan_text ''m='' s) (\<lambda>s. Option.bind (scan_uint 32 s) (\<lambda>(m, s).
     Option.bind (scan_text '',t='' s) (\<lambda>s. Option.bind (scan_uint 32 s) (\<lambda>(t, s).
     Option.bind (scan_text '',p='' s) (\<lambda>s. map_option (\<lambda>(p, s). (m, t, p)) (scan_uint 8 s))))))"

section \<open>Passwords\<close>

definition argon2_version :: int where "argon2_version = 19"
definition cost_time :: nat where "cost_time = 3"
definition cost_memory :: nat where "cost_memory = 65536"
definition cost_threads :: nat where "cost_threads = 4"
definition digest_len :: nat where "digest_len = 32"
definition salt_len :: nat where "salt_len = 16"
definition max_digest_len :: nat where "max_digest_len = 1024"

definition text_octets :: "string \<Rightarrow> octet list" where
  "text_octets s = map (\<lambda>c. of_nat (ord c)) s"

definition phc_text :: "octet list \<Rightarrow> octet list \<Rightarrow> string" where
  "phc_text salt digest = ''$argon2id$v='' @ dec_int argon2_version @ ''$m='' @ dec_nat cost_memory @ '',t='' @ dec_nat cost_time @
     '',p='' @ dec_nat cost_threads @ ''$'' @ b64_encode b64_std salt @ ''$'' @ b64_encode b64_std digest"

definition hash_password :: "kdf \<Rightarrow> octet list \<Rightarrow> string \<Rightarrow> password_error + string" where
  "hash_password kdf salt password =
     (if password = [] then Inl EmptyPassword
      else Inr (phc_text salt (kdf (text_octets password) salt cost_time cost_memory cost_threads digest_len)))"

definition verify_password :: "kdf \<Rightarrow> string \<Rightarrow> string \<Rightarrow> password_error + unit" where
  "verify_password kdf password encoded =
     (case split_on CHR ''$'' encoded of
        [_, algorithm, v, costs, salt, digest] \<Rightarrow>
          if algorithm \<noteq> ''argon2id'' then Inl InvalidHash
          else
            bindE (of_opt InvalidHash (scan_version v)) (\<lambda>version.
            if version \<noteq> argon2_version then Inl (UnsupportedArgon version)
            else
              bindE (of_opt InvalidHash (scan_costs costs)) (\<lambda>(memory, time, threads).
              bindE (of_opt InvalidHash (b64_decode_strict b64_std salt)) (\<lambda>salt.
              bindE (of_opt InvalidHash (b64_decode_strict b64_std digest)) (\<lambda>want.
              if want = [] \<or> max_digest_len < length want then Inl InvalidHash
              else if time < 1 \<or> threads < 1 then Inl KdfPanics
              else if kdf (text_octets password) salt time memory threads (length want) = want then Inr ()
              else Inl MismatchedPassword))))
      | _ \<Rightarrow> Inl InvalidHash)"

section \<open>Tokens\<close>

definition api_token_of :: "octet list \<Rightarrow> string" where
  "api_token_of raw = ''certio_'' @ b64_encode b64_url raw"

definition hash_api_token :: "(string \<Rightarrow> string) \<Rightarrow> string \<Rightarrow> string" where
  "hash_api_token sha256_hex token = sha256_hex token"

definition generate_api_token :: "(string \<Rightarrow> string) \<Rightarrow> octet list \<Rightarrow> string \<times> string" where
  "generate_api_token sha256_hex raw = (api_token_of raw, hash_api_token sha256_hex (api_token_of raw))"

definition random_string :: "octet list \<Rightarrow> string" where
  "random_string raw = b64_encode b64_url raw"

section \<open>Laws\<close>

lemma b64_undigits_digits: "\<forall>x \<in> set bs. x < 256 \<Longrightarrow> b64_undigits (b64_digits bs) = Some bs"
proof (induction bs rule: b64_digits.induct)
  case (4 a b c r)
  then show ?case by (cases "b64_digits r") auto
qed auto

lemma b64_digits_less: "\<forall>x \<in> set bs. x < 256 \<Longrightarrow> d \<in> set (b64_digits bs) \<Longrightarrow> d < 64"
proof (induction bs rule: b64_digits.induct)
  case (4 a b c r)
  have "a div 4 < 64" "b div 16 < 16" "c div 64 < 4" using 4(2) by auto
  moreover have "a mod 4 < 4" "b mod 16 < 16" "c mod 64 < 64" by simp_all
  ultimately have "a mod 4 * 16 + b div 16 < 64" "b mod 16 * 4 + c div 64 < 64" by linarith+
  then show ?case using 4 by auto
qed auto

lemma char_of_neq: "n < 256 \<Longrightarrow> n \<noteq> (36 :: nat) \<Longrightarrow> char_of n \<noteq> CHR ''$''"
proof
  assume n: "n < 256" "n \<noteq> 36" and c: "char_of n = CHR ''$''"
  have "n mod 256 = 36" using arg_cong [OF c, of "of_char :: char \<Rightarrow> nat"] by simp
  then show False using n by simp
qed

text \<open>The two alphabets: 64 characters, none of them a separator.\<close>

definition alphabet_ok :: "char \<times> char \<Rightarrow> bool" where
  "alphabet_ok ab \<longleftrightarrow> (\<forall>v < 64. b64_val ab (b64_char ab v) = Some v \<and>
     ord (b64_char ab v) \<noteq> 10 \<and> ord (b64_char ab v) \<noteq> 13 \<and> b64_char ab v \<noteq> CHR ''$'')"

lemma alphabets: "alphabet_ok b64_std" "alphabet_ok b64_url"
proof -
  have key: "alphabet_ok (x, y)" if "x \<noteq> y" "x \<noteq> CHR ''$''" "y \<noteq> CHR ''$''"
    "\<not> is_upper x \<and> \<not> is_lower x \<and> \<not> is_digit x \<and> ord x \<noteq> 10 \<and> ord x \<noteq> 13"
    "\<not> is_upper y \<and> \<not> is_lower y \<and> \<not> is_digit y \<and> ord y \<noteq> 10 \<and> ord y \<noteq> 13" for x y
    unfolding alphabet_ok_def
  proof (intro allI impI)
    fix v :: nat assume v: "v < 64"
    consider "v < 26" | "26 \<le> v" "v < 52" | "52 \<le> v" "v < 62" | "v = 62" | "v = 63" using v by linarith
    then show "b64_val (x, y) (b64_char (x, y) v) = Some v \<and> ord (b64_char (x, y) v) \<noteq> 10 \<and>
        ord (b64_char (x, y) v) \<noteq> 13 \<and> b64_char (x, y) v \<noteq> CHR ''$''"
    proof cases
      case 1 then show ?thesis by (auto simp: b64_val_def b64_char_def is_upper_def char_of_neq)
    next
      case 2 then show ?thesis by (auto simp: b64_val_def b64_char_def is_upper_def is_lower_def char_of_neq)
    next
      case 3 then show ?thesis by (auto simp: b64_val_def b64_char_def is_upper_def is_lower_def is_digit_def char_of_neq)
    qed (use that in \<open>auto simp: b64_val_def b64_char_def\<close>)
  qed
  show "alphabet_ok b64_std" "alphabet_ok b64_url"
    unfolding b64_std_def b64_url_def by (rule key; code_simp)+
qed

lemma b64_roundtrip: "alphabet_ok ab \<Longrightarrow> b64_decode_strict ab (b64_encode ab bs) = Some bs"
proof -
  assume ab: "alphabet_ok ab"
  let ?ds = "b64_digits (map unat bs)"
  have small: "\<forall>x \<in> set (map unat bs). x < 256" using unsigned_less [where 'a = nat and 'b = 8] by auto
  have d: "d < 64" if "d \<in> set ?ds" for d using b64_digits_less [OF small that] .
  have char: "b64_val ab (b64_char ab d) = Some d \<and> ord (b64_char ab d) \<noteq> 10 \<and> ord (b64_char ab d) \<noteq> 13" if "d \<in> set ?ds" for d
    using ab d [OF that] by (auto simp: alphabet_ok_def)
  have "filter (\<lambda>c. ord c \<noteq> 10 \<and> ord c \<noteq> 13) (b64_encode ab bs) = b64_encode ab bs"
    using char by (simp add: b64_encode_def filter_id_conv)
  moreover have "map (b64_val ab) (b64_encode ab bs) = map Some ?ds"
    using char by (simp add: b64_encode_def)
  moreover have "those (map Some xs) = Some xs" for xs :: "nat list" by (induction xs) simp_all
  moreover have "map (of_nat \<circ> unat) bs = bs" by (simp add: map_idI)
  ultimately show ?thesis
    using b64_undigits_digits [OF small] by (simp add: b64_decode_strict_def)
qed

lemma b64_no_dollar: "alphabet_ok ab \<Longrightarrow> CHR ''$'' \<notin> set (b64_encode ab bs)"
proof -
  assume ab: "alphabet_ok ab"
  have small: "\<forall>x \<in> set (map unat bs). x < 256" using unsigned_less [where 'a = nat and 'b = 8] by auto
  show ?thesis using ab b64_digits_less [OF small] by (fastforce simp: b64_encode_def alphabet_ok_def)
qed

text \<open>The hash of a password is split into its parts.\<close>

lemma phc_parts:
  "split_on CHR ''$'' (phc_text salt digest) =
     [[], ''argon2id'', ''v=19'', ''m=65536,t=3,p=4'', b64_encode b64_std salt, b64_encode b64_std digest]"
proof -
  have joined: "phc_text salt digest = [] @ CHR ''$'' # ''argon2id'' @ CHR ''$'' # ''v=19'' @ CHR ''$'' # ''m=65536,t=3,p=4'' @
     CHR ''$'' # b64_encode b64_std salt @ CHR ''$'' # b64_encode b64_std digest"
  proof -
    have "dec_int argon2_version = ''19''" "dec_nat cost_memory = ''65536''" "dec_nat cost_time = ''3''" "dec_nat cost_threads = ''4''"
      by (simp_all add: dec_int_def dec_nat_def digits_of.simps digit_char_def char_of_eval argon2_version_def cost_memory_def
          cost_time_def cost_threads_def)
    then show ?thesis by (simp add: phc_text_def)
  qed
  have "CHR ''$'' \<notin> set ''argon2id''" "CHR ''$'' \<notin> set ''v=19''" "CHR ''$'' \<notin> set ''m=65536,t=3,p=4''" by simp_all
  then show ?thesis
    unfolding joined using b64_no_dollar [OF alphabets(1)]
    by (simp only: split_on_append split_on_id list.set(1) empty_iff not_False_eq_True)
qed

lemma scanned_header: "scan_version ''v=19'' = Some argon2_version" "scan_costs ''m=65536,t=3,p=4'' = Some (cost_memory, cost_time, cost_threads)"
  by (simp_all add: scan_version_def scan_costs_def scan_text_def scan_int_def scan_uint_def scan_digits_def is_digit_def is_space_def
      digit_val_def argon2_version_def cost_memory_def cost_time_def cost_threads_def)

lemma verify_hashed:
  assumes "digest \<noteq> []" "length digest \<le> max_digest_len"
  shows "verify_password kdf q (phc_text salt digest) =
    (if kdf (text_octets q) salt cost_time cost_memory cost_threads (length digest) = digest then Inr () else Inl MismatchedPassword)"
  using assms
  by (simp add: verify_password_def phc_parts scanned_header b64_roundtrip alphabets cost_time_def cost_threads_def not_less)

end
