(* ===== verification/SvcTwoFactor.thy ===== *)
theory SvcTwoFactor
  imports SvcScope Password
begin

text \<open>
  \<open>internal/service/twofactor.go\<close>: enrolling, confirming, using and clearing a second factor.

  \<open>auth_env\<close> is what the account services read: the clock, the database dialect, the master
  key, the configuration, and the cryptographic functions and the QR code renderer that are
  arguments of the model; \<open>ae_url\<close> is \<open>url.Parse\<close>, which gives scheme, host and host name.  The
  identifiers, salts and secrets a call draws are its arguments.
  A secret is sealed under the master key and opens only under it.
\<close>

record auth_env =
  ae_now :: instant
  ae_dialect :: dialect
  ae_master :: nat
  ae_kdf :: kdf
  ae_digest :: "string \<Rightarrow> octet list"
  ae_mac :: mac
  ae_qr :: "string \<Rightarrow> octet list option"
  ae_url :: "string \<Rightarrow> (string \<times> string \<times> string) option"
  ae_base_url :: string
  ae_refresh_ttl :: duration

text \<open>\<open>hex.EncodeToString\<close> of a SHA-256 digest.\<close>

definition hex_octets :: "octet list \<Rightarrow> string" where
  "hex_octets bs = concat (map (\<lambda>b. [digit_char (unat b div 16), digit_char (unat b mod 16)]) bs)"

definition ae_sha256 :: "auth_env \<Rightarrow> string \<Rightarrow> string" where
  "ae_sha256 E s = hex_octets (ae_digest E s)"

datatype auth_error =
    ECredentials string | EDisabled | ETwoFactorCode | ETwoFactorOff | EValidation string | EAuthStore store_error
  | EPassword password_error | ESealed | ERender | ESign | EScope scope_error | EOAuth string | ENoProvider | EStateUnknown

type_synonym 'a auth = "(auth_db, auth_error, 'a) op"

definition auth_op :: "(auth_db, store_error, 'a) op \<Rightarrow> 'a auth" where
  "auth_op = map_errS EAuthStore"

definition auth_read :: "(auth_db \<Rightarrow> store_error + 'a) \<Rightarrow> 'a auth" where
  "auth_read f = readS (\<lambda>d. map_err EAuthStore (f d))"

section \<open>Status and secrets\<close>

record two_factor_status =
  tf_enabled :: bool
  tf_pending :: bool
  tf_enabled_at :: "instant option"
  tf_remaining :: nat

definition status_of :: "user \<Rightarrow> two_factor_status" where
  "status_of u = \<lparr>tf_enabled = has_two_factor u, tf_pending = enrollment_pending u, tf_enabled_at = us_totp_enabled_at u,
     tf_remaining = recovery_remaining u\<rparr>"

definition two_factor_status_of :: "string \<Rightarrow> two_factor_status auth" where
  "two_factor_status_of i = bindS (auth_read (get_user i)) (\<lambda>u. returnS (status_of u))"

definition open_totp_secret :: "auth_env \<Rightarrow> user \<Rightarrow> auth_error + string" where
  "open_totp_secret E u = (case us_totp_secret u of
       None \<Rightarrow> Inl ETwoFactorOff
     | Some (m, secret) \<Rightarrow> if m = ae_master E then Inr secret else Inl ESealed)"

definition clear_two_factor :: "user \<Rightarrow> user" where
  "clear_two_factor u = u\<lparr>us_totp_enabled := False, us_totp_secret := None, us_totp_enabled_at := None,
     us_totp_last_step := 0, us_recovery := []\<rparr>"

definition remove_colons :: "string \<Rightarrow> string" where
  "remove_colons s = filter (\<lambda>c. c \<noteq> CHR '':'') s"

definition totp_issuer :: "auth_env \<Rightarrow> string" where
  "totp_issuer E = (if ae_base_url E = [] then ''Certio''
     else (case ae_url E (ae_base_url E) of
         None \<Rightarrow> ''Certio''
       | Some (_, _, h) \<Rightarrow> if h = [] then ''Certio'' else ''Certio ('' @ remove_colons h @ '')''))"

section \<open>Verifying a second factor\<close>

definition consume_recovery_code :: "auth_env \<Rightarrow> user \<Rightarrow> string \<Rightarrow> user option" where
  "consume_recovery_code E u code =
     (let want = hash_recovery_code (ae_sha256 E) code
      in if us_recovery u = [] \<or> want \<notin> set (us_recovery u) then None
         else Some (u\<lparr>us_recovery := filter (\<lambda>h. h \<noteq> want) (us_recovery u)\<rparr>))"

text \<open>The result tells whether a recovery code was used, and the user as it was saved.\<close>

definition verify_second_factor :: "auth_env \<Rightarrow> user \<Rightarrow> string \<Rightarrow> (bool \<times> user) auth" where
  "verify_second_factor E u raw =
     (let code = trim_space raw in
      if code = [] then failS ETwoFactorCode
      else
        bindS (liftE (open_totp_secret E u)) (\<lambda>secret.
        case verify_totp_step (ae_mac E) secret code (ae_now E) of
          Some step \<Rightarrow>
            if step \<le> us_totp_last_step u then failS ETwoFactorCode
            else let u = u\<lparr>us_totp_last_step := step\<rparr> in
              bindS (auth_op (update_user_row (ae_dialect E) u)) (\<lambda>_. returnS (False, u))
        | None \<Rightarrow> (case consume_recovery_code E u code of
              Some u \<Rightarrow> bindS (auth_op (update_user_row (ae_dialect E) u)) (\<lambda>_. returnS (True, u))
            | None \<Rightarrow> failS ETwoFactorCode)))"

section \<open>Enrolment\<close>

record totp_enrollment =
  te_secret :: string
  te_uri :: string
  te_qr :: string
  te_issuer :: string
  te_account :: string

text \<open>\<open>url.PathEscape\<close> and \<open>url.QueryEscape\<close>.\<close>

definition unreserved :: "char \<Rightarrow> bool" where
  "unreserved c = (is_upper c \<or> is_lower c \<or> is_digit c \<or> c \<in> set ''-_.~'')"

definition percent :: "char \<Rightarrow> string" where
  "percent c = CHR ''%'' # map (\<lambda>d. char_of (if d < 10 then 48 + d else 55 + d)) [ord c div 16, ord c mod 16]"

definition path_escape :: "string \<Rightarrow> string" where
  "path_escape s = concat (map (\<lambda>c. if unreserved c \<or> c \<in> set ''$&+:=@'' then [c] else percent c) s)"

definition query_escape :: "string \<Rightarrow> string" where
  "query_escape s = concat (map (\<lambda>c. if unreserved c then [c] else if c = CHR '' '' then ''+'' else percent c) s)"

text \<open>\<open>Values.Encode\<close> sorts the parameters by name.\<close>

definition provisioning_uri :: "string \<Rightarrow> string \<Rightarrow> string \<Rightarrow> string" where
  "provisioning_uri issuer account secret =
     (let issuer = or_else issuer ''Certio''
      in ''otpauth://totp/'' @ path_escape (issuer @ '':'' @ account) @ ''?algorithm=SHA1&digits='' @ dec_nat totp_digits @
         ''&issuer='' @ query_escape issuer @ ''&period='' @ dec_int totp_period @ ''&secret='' @ query_escape secret)"

text \<open>\<open>base64.StdEncoding\<close>, which pads the last group.\<close>

definition b64_padded :: "octet list \<Rightarrow> string" where
  "b64_padded bs = (let s = b64_encode b64_std bs in s @ replicate ((4 - length s mod 4) mod 4) CHR ''='')"

definition data_uri :: "string \<Rightarrow> octet list \<Rightarrow> string" where
  "data_uri media payload = ''data:'' @ media @ '';base64,'' @ b64_padded payload"

definition begin_totp_enrollment :: "auth_env \<Rightarrow> octet list \<Rightarrow> string \<Rightarrow> totp_enrollment auth" where
  "begin_totp_enrollment E raw i =
     bindS (auth_read (get_user i)) (\<lambda>u.
     if has_two_factor u then failS (EValidation ''two-factor authentication is already enabled'')
     else let secret = generate_totp_secret raw;
              u = u\<lparr>us_totp_secret := Some (ae_master E, secret), us_totp_enabled := False, us_totp_enabled_at := None,
                us_totp_last_step := 0, us_recovery := []\<rparr> in
       bindS (auth_op (update_user_row (ae_dialect E) u)) (\<lambda>_.
       let uri = provisioning_uri (totp_issuer E) (us_email u) secret in
       bindS (liftE (of_opt ERender (ae_qr E uri))) (\<lambda>png.
       returnS \<lparr>te_secret = format_totp_secret secret, te_uri = uri, te_qr = data_uri ''image/png'' png,
         te_issuer = totp_issuer E, te_account = us_email u\<rparr>)))"

definition confirm_totp_enrollment :: "auth_env \<Rightarrow> octet list list \<Rightarrow> string \<Rightarrow> string \<Rightarrow> string list auth" where
  "confirm_totp_enrollment E raws i code =
     bindS (auth_read (get_user i)) (\<lambda>u.
     if has_two_factor u then failS (EValidation ''two-factor authentication is already enabled on this account'')
     else if \<not> enrollment_pending u then failS (EValidation ''start the enrolment before confirming it'')
     else
       bindS (liftE (open_totp_secret E u)) (\<lambda>secret.
       case verify_totp_step (ae_mac E) secret code (ae_now E) of
         None \<Rightarrow> failS ETwoFactorCode
       | Some step \<Rightarrow>
           (case generate_recovery_codes (ae_sha256 E) raws of (codes, hashes) \<Rightarrow>
            let u = u\<lparr>us_totp_enabled := True, us_totp_enabled_at := Some (ae_now E), us_totp_last_step := step,
                  us_recovery := hashes\<rparr> in
            bindS (auth_op (update_user_row (ae_dialect E) u)) (\<lambda>_. returnS codes))))"

section \<open>Clearing it\<close>

definition disable_two_factor :: "auth_env \<Rightarrow> string \<Rightarrow> string \<Rightarrow> string \<Rightarrow> unit auth" where
  "disable_two_factor E i password code =
     bindS (auth_read (get_user i)) (\<lambda>u.
     if \<not> has_two_factor u \<and> \<not> enrollment_pending u then failS (EValidation ''two-factor authentication is not enabled on this account'')
     else if verify_password (ae_kdf E) password (us_password u) \<noteq> Inr () then failS (ECredentials ''invalid email or password'')
     else
       bindS (if has_two_factor u then bindS (verify_second_factor E u code) (\<lambda>(_, u). returnS u) else returnS u) (\<lambda>u.
       auth_op (update_user_row (ae_dialect E) (clear_two_factor u))))"

definition reset_two_factor :: "auth_env \<Rightarrow> string \<Rightarrow> unit auth" where
  "reset_two_factor E i =
     bindS (auth_read (get_user i)) (\<lambda>u.
     if \<not> has_two_factor u \<and> \<not> enrollment_pending u then failS (EValidation ''two-factor authentication is not enabled on this account'')
     else auth_op (update_user_row (ae_dialect E) (clear_two_factor u)))"

definition regenerate_recovery_codes :: "auth_env \<Rightarrow> octet list list \<Rightarrow> string \<Rightarrow> string \<Rightarrow> string list auth" where
  "regenerate_recovery_codes E raws i code =
     bindS (auth_read (get_user i)) (\<lambda>u.
     if \<not> has_two_factor u then failS ETwoFactorOff
     else
       bindS (verify_second_factor E u code) (\<lambda>(_, u).
       case generate_recovery_codes (ae_sha256 E) raws of (codes, hashes) \<Rightarrow>
         bindS (auth_op (update_user_row (ae_dialect E) (u\<lparr>us_recovery := hashes\<rparr>))) (\<lambda>_. returnS codes)))"

end
