(* ===== verification/SvcAuth.thy ===== *)
theory SvcAuth
  imports SvcTwoFactor
begin

text \<open>
  \<open>internal/service/auth.go\<close>: JWT sessions, sign-in, accounts, API tokens and signing out.

  The JWT library is outside the repository: \<open>jwt_lib\<close> holds its two operations, signing
  claims under a secret, and parsing a text under a secret, an expected issuer and the clock.
  A claim that is absent is the empty text, as the code reads it.  \<open>jwt_ok\<close> states what the
  library documents and the code relies on: a parsed token has the issuer and is within its
  times, a signed text parses to the claims it was signed with, and it starts with the encoding of
  a JSON object.
\<close>

record claims =
  cl_sub :: string
  cl_email :: string
  cl_name :: string
  cl_role :: string
  cl_typ :: string
  cl_iss :: string
  cl_iat :: "int option"
  cl_nbf :: "int option"
  cl_exp :: "int option"
  cl_sid :: string

record jwt_lib =
  jl_sign :: "string \<Rightarrow> claims \<Rightarrow> string option"
  jl_parse :: "string \<Rightarrow> string \<Rightarrow> instant \<Rightarrow> string \<Rightarrow> claims option"

definition jwt_ok :: "jwt_lib \<Rightarrow> bool" where
  "jwt_ok L \<longleftrightarrow>
     (\<forall>s iss now t c. jl_parse L s iss now t = Some c \<longrightarrow> cl_iss c = iss \<and>
        (\<forall>e. cl_exp c = Some e \<longrightarrow> now < e * second) \<and> (\<forall>n. cl_nbf c = Some n \<longrightarrow> n * second \<le> now)) \<and>
     (\<forall>s iss now t c c'. jl_sign L s c = Some t \<longrightarrow> jl_parse L s iss now t = Some c' \<longrightarrow> c' = c) \<and>
     (\<forall>s c t. jl_sign L s c = Some t \<longrightarrow> prefix ''eyJ'' t)"

record authenticator =
  at_secret :: string
  at_issuer :: string
  at_access :: duration
  at_refresh :: duration

definition new_authenticator :: "string \<Rightarrow> string \<Rightarrow> duration \<Rightarrow> duration \<Rightarrow> authenticator" where
  "new_authenticator secret issuer access refresh = \<lparr>at_secret = secret,
     at_issuer = (if issuer = [] then ''certio'' else issuer),
     at_access = (if access \<le> 0 then 15 * minute else access),
     at_refresh = (if refresh \<le> 0 then 7 * 24 * hour else refresh)\<rparr>"

definition type_access :: string where "type_access = ''access''"
definition type_refresh :: string where "type_refresh = ''refresh''"
definition type_challenge :: string where "type_challenge = ''2fa''"
definition challenge_ttl :: duration where "challenge_ttl = 5 * minute"

section \<open>Tokens\<close>

definition claims_of :: "authenticator \<Rightarrow> user \<Rightarrow> string \<Rightarrow> instant \<Rightarrow> instant \<Rightarrow> string \<Rightarrow> claims" where
  "claims_of A u typ expiry now sid = \<lparr>cl_sub = us_id u, cl_email = us_email u, cl_name = us_name u, cl_role = us_role u,
     cl_typ = typ, cl_iss = at_issuer A, cl_iat = Some (unix now), cl_nbf = Some (unix now), cl_exp = Some (unix expiry),
     cl_sid = sid\<rparr>"

definition sign_token :: "jwt_lib \<Rightarrow> authenticator \<Rightarrow> user \<Rightarrow> string \<Rightarrow> instant \<Rightarrow> instant \<Rightarrow> string \<Rightarrow> auth_error + string" where
  "sign_token L A u typ expiry now sid = of_opt ESign (jl_sign L (at_secret A) (claims_of A u typ expiry now sid))"

definition parse_token :: "jwt_lib \<Rightarrow> authenticator \<Rightarrow> instant \<Rightarrow> string \<Rightarrow> claims option" where
  "parse_token L A now t = jl_parse L (at_secret A) (at_issuer A) now t"

record token_pair =
  tp_access :: string
  tp_refresh :: string
  tp_expires_in :: int
  tp_expires_at :: instant
  tp_session :: string
  tp_session_expiry :: instant

definition issue_for_session :: "jwt_lib \<Rightarrow> authenticator \<Rightarrow> instant \<Rightarrow> user \<Rightarrow> string \<Rightarrow> auth_error + token_pair" where
  "issue_for_session L A now u sid =
     (let access_expiry = now + at_access A; refresh_expiry = now + at_refresh A in
      bindE (sign_token L A u type_access access_expiry now sid) (\<lambda>access.
      bindE (sign_token L A u type_refresh refresh_expiry now sid) (\<lambda>refresh.
        Inr \<lparr>tp_access = access, tp_refresh = refresh, tp_expires_in = trunc_div (at_access A) second,
          tp_expires_at = access_expiry, tp_session = sid, tp_session_expiry = refresh_expiry\<rparr>)))"

definition issue_challenge :: "jwt_lib \<Rightarrow> authenticator \<Rightarrow> instant \<Rightarrow> user \<Rightarrow> auth_error + (string \<times> duration)" where
  "issue_challenge L A now u =
     bindE (sign_token L A u type_challenge (now + challenge_ttl) now []) (\<lambda>t. Inr (t, challenge_ttl))"

text \<open>Without an expiry claim the expiry of the principal is Go's zero time.\<close>

definition zero_time :: instant where "zero_time = - 62135596800 * second"

definition principal_from_claims :: "claims \<Rightarrow> auth_error + principal" where
  "principal_from_claims c =
     (if cl_typ c \<noteq> type_access then Inl (ECredentials ''a refresh token cannot authorise a request'')
      else if cl_sub c = [] then Inl (ECredentials ''token has no subject'')
      else Inr \<lparr>pr_user = cl_sub c, pr_email = cl_email c, pr_name = cl_name c, pr_role = cl_role c, pr_token = [],
        pr_scopes = [], pr_session = cl_sid c,
        pr_session_expiry = (case cl_exp c of None \<Rightarrow> zero_time | Some e \<Rightarrow> e * second)\<rparr>)"

section \<open>Signing in\<close>

definition bad_login :: auth_error where "bad_login = ECredentials ''invalid email or password''"

definition dummy_hash :: string where
  "dummy_hash = ''$argon2id$v=19$m=65536,t=3,p=4$Y2VydGlzLWR1bW15LXNhbHQ$'' @ ''3Xh1QW5vdGhlckR1bW15VmFsdWVGb3JUaW1pbmdTYWZldHk''"

record login_result =
  lr_tokens :: "token_pair option"
  lr_user :: user
  lr_two_factor :: bool
  lr_challenge :: string
  lr_challenge_expires :: int
  lr_used_recovery :: bool
  lr_remaining :: nat

definition issue_session :: "jwt_lib \<Rightarrow> auth_env \<Rightarrow> authenticator \<Rightarrow> string \<Rightarrow> user \<Rightarrow> login_result auth" where
  "issue_session L E A sid u =
     bindS (liftE (issue_for_session L A (ae_now E) u sid)) (\<lambda>pair.
     bindS (modifyS (touch_login (ae_now E) (us_id u))) (\<lambda>_.
       returnS \<lparr>lr_tokens = Some pair, lr_user = u, lr_two_factor = False, lr_challenge = [], lr_challenge_expires = 0,
         lr_used_recovery = False, lr_remaining = 0\<rparr>))"

definition complete_login :: "jwt_lib \<Rightarrow> auth_env \<Rightarrow> authenticator \<Rightarrow> string \<Rightarrow> user \<Rightarrow> string \<Rightarrow> login_result auth" where
  "complete_login L E A sid u code =
     bindS (if has_two_factor u then verify_second_factor E u code else returnS (False, u)) (\<lambda>(used, u).
     bindS (issue_session L E A sid u) (\<lambda>r.
       returnS (r\<lparr>lr_used_recovery := used, lr_remaining := recovery_remaining u\<rparr>)))"

record login_input =
  li_email :: string
  li_password :: string
  li_code :: string

definition login :: "jwt_lib \<Rightarrow> auth_env \<Rightarrow> authenticator \<Rightarrow> string \<Rightarrow> login_input \<Rightarrow> login_result auth" where
  "login L E A sid inp =
     bindS (readS (\<lambda>d. Inr (user_by_email (li_email inp) d))) (\<lambda>found. case found of
       Inl _ \<Rightarrow> failS bad_login
     | Inr u \<Rightarrow>
         let hash = (if us_password u = [] then dummy_hash else us_password u) in
         if verify_password (ae_kdf E) (li_password inp) hash \<noteq> Inr () \<or> us_password u = [] then failS bad_login
         else if \<not> is_active u then failS EDisabled
         else if has_two_factor u then
           (if li_code inp = [] then
              bindS (liftE (issue_challenge L A (ae_now E) u)) (\<lambda>(t, ttl).
                returnS \<lparr>lr_tokens = None, lr_user = u, lr_two_factor = True, lr_challenge = t,
                  lr_challenge_expires = trunc_div ttl second, lr_used_recovery = False, lr_remaining = 0\<rparr>)
            else complete_login L E A sid u (li_code inp))
         else complete_login L E A sid u [])"

definition complete_two_factor_login :: "jwt_lib \<Rightarrow> auth_env \<Rightarrow> authenticator \<Rightarrow> string \<Rightarrow> string \<Rightarrow> string \<Rightarrow> login_result auth" where
  "complete_two_factor_login L E A sid challenge code = (case parse_token L A (ae_now E) challenge of
       None \<Rightarrow> failS bad_login
     | Some c \<Rightarrow>
         if cl_typ c \<noteq> type_challenge then failS (ECredentials ''not a two-factor challenge'')
         else bindS (readS (\<lambda>d. Inr (get_user (cl_sub c) d))) (\<lambda>found. case found of
             Inl _ \<Rightarrow> failS bad_login
           | Inr u \<Rightarrow>
               if \<not> is_active u then failS EDisabled
               else if \<not> has_two_factor u then complete_login L E A sid u []
               else complete_login L E A sid u code))"

definition refresh_session :: "jwt_lib \<Rightarrow> auth_env \<Rightarrow> authenticator \<Rightarrow> string \<Rightarrow> string \<Rightarrow> (token_pair \<times> user) auth" where
  "refresh_session L E A fresh_sid t = (case parse_token L A (ae_now E) t of
       None \<Rightarrow> failS bad_login
     | Some c \<Rightarrow>
         if cl_typ c \<noteq> type_refresh then failS (ECredentials ''not a refresh token'')
         else bindS (readS (\<lambda>d. Inr (is_revoked (ae_now E) (cl_sid c) (cl_sub c) d))) (\<lambda>revoked.
           if revoked then failS (ECredentials ''this session has been signed out'')
           else bindS (readS (\<lambda>d. Inr (get_user (cl_sub c) d))) (\<lambda>found. case found of
               Inl _ \<Rightarrow> failS bad_login
             | Inr u \<Rightarrow>
                 if \<not> is_active u then failS EDisabled
                 else let sid = (if cl_sid c = [] then fresh_sid else cl_sid c) in
                   bindS (liftE (issue_for_session L A (ae_now E) u sid)) (\<lambda>pair. returnS (pair, u)))))"

definition authenticate_api_token :: "auth_env \<Rightarrow> string \<Rightarrow> principal auth" where
  "authenticate_api_token E raw =
     bindS (readS (\<lambda>d. Inr (token_by_hash (hash_api_token (ae_sha256 E) raw) d))) (\<lambda>found. case found of
       Inl _ \<Rightarrow> failS bad_login
     | Inr t \<Rightarrow>
         if \<not> token_usable (ae_now E) t then failS (ECredentials ''this API token has expired or been revoked'')
         else bindS (readS (\<lambda>d. Inr (get_user (tk_user t) d))) (\<lambda>found. case found of
             Inl _ \<Rightarrow> failS bad_login
           | Inr u \<Rightarrow>
               if \<not> is_active u then failS EDisabled
               else bindS (modifyS (touch_used (ae_now E) (tk_id t))) (\<lambda>_.
                 returnS \<lparr>pr_user = us_id u, pr_email = us_email u, pr_name = us_name u, pr_role = us_role u,
                   pr_token = tk_id t, pr_scopes = tk_scopes t, pr_session = [], pr_session_expiry = zero_time\<rparr>)))"

section \<open>Accounts\<close>

definition validate_role :: "string \<Rightarrow> auth_error + unit" where
  "validate_role r = guardE (r \<in> set [role_admin, role_operator, role_viewer])
     (EValidation ''role must be one of admin, operator or viewer'')"

definition check_password_length :: "string \<Rightarrow> auth_error + unit" where
  "check_password_length p =
     (if length p < 12 then Inl (EValidation ''password must be at least 12 characters'')
      else if 256 < length p then Inl (EValidation ''password must be at most 256 characters'')
      else Inr ())"

record create_user_input =
  cu_email :: string
  cu_name :: string
  cu_password :: string
  cu_role :: string

definition blank_user :: "string \<Rightarrow> instant \<Rightarrow> user" where
  "blank_user i now = \<lparr>us_id = i, us_created_at = now, us_email = [], us_name = [], us_password = [], us_role = [], us_status = [],
     us_last_login = None, us_provider = [], us_subject = [], us_totp_enabled = False, us_totp_secret = None,
     us_totp_enabled_at = None, us_totp_last_step = 0, us_recovery = []\<rparr>"

definition create_user :: "auth_env \<Rightarrow> string \<Rightarrow> octet list \<Rightarrow> create_user_input \<Rightarrow> user auth" where
  "create_user E i salt inp =
     (let email = to_lower (trim_space (cu_email inp)) in
      if email = [] \<or> CHR ''@'' \<notin> set email then failS (EValidation ''a valid email address is required'')
      else
        bindS (liftE (check_password_length (cu_password inp))) (\<lambda>_.
        let role = or_else (cu_role inp) role_viewer in
        bindS (liftE (validate_role role)) (\<lambda>_.
        bindS (liftE (map_err EPassword (hash_password (ae_kdf E) salt (cu_password inp)))) (\<lambda>hash.
        let u = (blank_user i (ae_now E))\<lparr>us_email := email, us_name := or_else (cu_name inp) email, us_password := hash,
              us_role := role, us_status := status_active\<rparr> in
        bindS (auth_op (create_user_row (ae_dialect E) u)) (\<lambda>_. returnS (user_defaults u))))))"

section \<open>Signing out\<close>

definition revoke_session :: "auth_env \<Rightarrow> principal option \<Rightarrow> string \<Rightarrow> unit auth" where
  "revoke_session E p reason = (case p of
       None \<Rightarrow> returnS ()
     | Some p \<Rightarrow>
         if pr_session p = [] then returnS ()
         else auth_op (revoke_session_row (ae_dialect E) (ae_now E) (pr_session p) (pr_user p) reason
                (pr_session_expiry p + ae_refresh_ttl E)))"

definition revoke_all_sessions :: "auth_env \<Rightarrow> string \<Rightarrow> string \<Rightarrow> unit auth" where
  "revoke_all_sessions E uid reason =
     auth_op (revoke_all_rows (ae_dialect E) (ae_now E) uid reason (ae_now E + ae_refresh_ttl E * 2))"

definition session_revoked :: "auth_env \<Rightarrow> principal option \<Rightarrow> auth_db \<Rightarrow> bool" where
  "session_revoked E p d = (case p of
       None \<Rightarrow> False
     | Some p \<Rightarrow> if pr_session p = [] then False else is_revoked (ae_now E) (pr_session p) (pr_user p) d)"

section \<open>Changing and deleting accounts\<close>

record update_user_input =
  uu_name :: "string option"
  uu_role :: "string option"
  uu_status :: "string option"
  uu_password :: "string option"

definition gives_up :: "string \<Rightarrow> string option \<Rightarrow> bool" where
  "gives_up v new = (case new of None \<Rightarrow> False | Some x \<Rightarrow> x \<noteq> v)"

definition losing_admin :: "user \<Rightarrow> update_user_input \<Rightarrow> bool" where
  "losing_admin u inp = (us_role u = role_admin \<and> (gives_up role_admin (uu_role inp) \<or> gives_up status_active (uu_status inp)))"

definition ends_sessions :: "update_user_input \<Rightarrow> bool" where
  "ends_sessions inp = (uu_password inp \<noteq> None \<or> gives_up role_admin (uu_role inp) \<or> gives_up status_active (uu_status inp))"

definition apply_update :: "auth_env \<Rightarrow> octet list \<Rightarrow> update_user_input \<Rightarrow> user \<Rightarrow> auth_error + user" where
  "apply_update E salt inp u =
     (let u = (case uu_name inp of None \<Rightarrow> u | Some n \<Rightarrow> u\<lparr>us_name := n\<rparr>) in
      bindE (case uu_role inp of None \<Rightarrow> Inr u | Some r \<Rightarrow> bindE (validate_role r) (\<lambda>_. Inr (u\<lparr>us_role := r\<rparr>))) (\<lambda>u.
      let u = (case uu_status inp of None \<Rightarrow> u | Some s \<Rightarrow> u\<lparr>us_status := s\<rparr>) in
      (case uu_password inp of
         None \<Rightarrow> Inr u
       | Some p \<Rightarrow> bindE (check_password_length p) (\<lambda>_.
           bindE (map_err EPassword (hash_password (ae_kdf E) salt p)) (\<lambda>h. Inr (u\<lparr>us_password := h\<rparr>))))))"

definition update_user :: "auth_env \<Rightarrow> octet list \<Rightarrow> string \<Rightarrow> update_user_input \<Rightarrow> user auth" where
  "update_user E salt i inp =
     bindS (auth_read (get_user i)) (\<lambda>u.
     bindS (readS (\<lambda>d. guardE (\<not> (losing_admin u inp \<and> count_admins d \<le> 1))
        (EValidation ''this is the last active administrator; promote another account first''))) (\<lambda>_.
     bindS (liftE (apply_update E salt inp u)) (\<lambda>u.
     bindS (auth_op (update_user_row (ae_dialect E) u)) (\<lambda>_.
     bindS (whenS (ends_sessions inp) (ignoreS (revoke_all_sessions E (us_id u) ''account changed''))) (\<lambda>_.
       returnS u)))))"

definition delete_user :: "string \<Rightarrow> unit auth" where
  "delete_user i =
     bindS (auth_read (get_user i)) (\<lambda>u.
     bindS (readS (\<lambda>d. guardE (\<not> (us_role u = role_admin \<and> count_admins d \<le> 1))
        (EValidation ''this is the last active administrator and cannot be deleted''))) (\<lambda>_.
       auth_op (delete_user_row i)))"

section \<open>API tokens\<close>

record create_token_input =
  ct_user :: string
  ct_name :: string
  ct_scopes :: "string list"
  ct_expires_in :: duration

definition create_api_token :: "auth_env \<Rightarrow> string \<Rightarrow> octet list \<Rightarrow> create_token_input \<Rightarrow> (api_token \<times> string) auth" where
  "create_api_token E i raw inp =
     (if ct_name inp = [] then failS (EValidation ''a token name is required'')
      else
        bindS (auth_read (get_user (ct_user inp))) (\<lambda>_.
        bindS (liftE (map_err EScope (validate_scopes (ct_scopes inp)))) (\<lambda>_.
        case generate_api_token (ae_sha256 E) raw of (plain, hash) \<Rightarrow>
          let t = \<lparr>tk_id = i, tk_created_at = ae_now E, tk_user = ct_user inp, tk_name = ct_name inp, tk_hash = hash,
                tk_prefix = take 14 plain, tk_scopes = normalize_scopes (ct_scopes inp),
                tk_expires = (if 0 < ct_expires_in inp then Some (ae_now E + ct_expires_in inp) else None),
                tk_last_used = None, tk_revoked = None\<rparr> in
          bindS (auth_op (create_token_row (ae_dialect E) t)) (\<lambda>_. returnS (t, plain)))))"

definition revoke_api_token :: "auth_env \<Rightarrow> string \<Rightarrow> unit auth" where
  "revoke_api_token E i =
     bindS (auth_read (get_token i)) (\<lambda>_. auth_op (revoke_token_row (ae_now E) i))"

section \<open>The first administrator\<close>

definition needs_bootstrap :: "auth_db \<Rightarrow> bool" where
  "needs_bootstrap d = (count_users d = 0)"

definition bootstrap :: "auth_env \<Rightarrow> string \<Rightarrow> octet list \<Rightarrow> string \<Rightarrow> string \<Rightarrow> string \<Rightarrow> user option auth" where
  "bootstrap E i salt addr password name =
     bindS (readS (\<lambda>d. Inr (count_users d))) (\<lambda>n.
     if 0 < n then returnS None
     else if addr = [] \<or> password = [] then returnS None
     else bindS (create_user E i salt \<lparr>cu_email = addr, cu_name = name, cu_password = password, cu_role = role_admin\<rparr>) (\<lambda>u.
       returnS (Some u)))"

end
