(* ===== verification/SvcOAuth.thy ===== *)
theory SvcOAuth
  imports SvcAuth
begin

text \<open>
  \<open>internal/service/oauth.go\<close>: sign-in through an external identity provider.  The provider is
  outside the repository: \<open>http_world\<close> answers the two requests the code makes of it, a form
  posted to the token endpoint and a read of the userinfo endpoint, each with a transport
  error (and the status that had arrived, or 0) or with a status and the decoded body, if it is
  JSON.
\<close>

section \<open>JSON\<close>

text \<open>
  A number decodes to a float: \<open>JInt\<close> is one whose value is an integer of 64 bits, \<open>JFloat\<close>
  another one, known by its shortest decimal text.
\<close>

datatype json = JNull | JBool bool | JInt int | JFloat string | JStr string | JArr "json list" | JObj "(string \<times> json) list"

fun json_walk :: "string list \<Rightarrow> json \<Rightarrow> json option" where
  "json_walk [] v = Some v"
| "json_walk (k # ks) v = (case v of
     JObj fs \<Rightarrow> (case map_of fs k of None \<Rightarrow> None | Some w \<Rightarrow> json_walk ks w)
   | _ \<Rightarrow> None)"

definition oauth_lookup :: "(string \<times> json) list \<Rightarrow> string \<Rightarrow> json option" where
  "oauth_lookup doc path =
     (if path = [] then None
      else (case json_walk (split_on CHR ''.'' path) (JObj doc) of
          None \<Rightarrow> None | Some v \<Rightarrow> if v = JNull then None else Some v))"

definition oauth_string :: "(string \<times> json) list \<Rightarrow> string \<Rightarrow> string" where
  "oauth_string doc path = (case oauth_lookup doc path of
       Some (JStr s) \<Rightarrow> trim_space s
     | Some (JInt i) \<Rightarrow> dec_int i
     | Some (JFloat t) \<Rightarrow> t
     | Some (JBool b) \<Rightarrow> if b then ''true'' else ''false''
     | _ \<Rightarrow> [])"

text \<open>The texts \<open>strconv.ParseBool\<close> reads as true.\<close>

definition oauth_bool :: "json \<Rightarrow> bool" where
  "oauth_bool v = (case v of
       JBool b \<Rightarrow> b
     | JStr s \<Rightarrow> s \<in> set [''1'', ''t'', ''T'', ''true'', ''TRUE'', ''True'']
     | _ \<Rightarrow> False)"

section \<open>Pending authorization requests\<close>

record oauth_pending =
  pd_verifier :: string
  pd_expires :: instant

record state_store =
  ss_entries :: "string \<Rightarrow> oauth_pending option"
  ss_last_gc :: instant

definition oauth_state_ttl :: duration where "oauth_state_ttl = 10 * minute"

definition new_state_store :: "instant \<Rightarrow> state_store" where
  "new_state_store now = \<lparr>ss_entries = (\<lambda>_. None), ss_last_gc = now\<rparr>"

definition collect_states :: "instant \<Rightarrow> state_store \<Rightarrow> state_store" where
  "collect_states now s =
     (if now - ss_last_gc s < oauth_state_ttl then s
      else s\<lparr>ss_entries := (\<lambda>k. case ss_entries s k of None \<Rightarrow> None | Some p \<Rightarrow> if pd_expires p < now then None else Some p),
             ss_last_gc := now\<rparr>)"

definition random_url_safe :: "octet list \<Rightarrow> string" where
  "random_url_safe raw = b64_encode b64_url raw"

definition issue_state :: "instant \<Rightarrow> octet list \<Rightarrow> octet list \<Rightarrow> state_store \<Rightarrow> (string \<times> string) \<times> state_store" where
  "issue_state now raw1 raw2 s =
     (let state = random_url_safe raw1; verifier = random_url_safe raw2; s = collect_states now s
      in ((state, verifier), s\<lparr>ss_entries := (ss_entries s)(state \<mapsto> \<lparr>pd_verifier = verifier, pd_expires = now + oauth_state_ttl\<rparr>)\<rparr>))"

definition redeem_state :: "instant \<Rightarrow> string \<Rightarrow> state_store \<Rightarrow> string option \<times> state_store" where
  "redeem_state now state s =
     (if state = [] then (None, s)
      else (case ss_entries s state of
          None \<Rightarrow> (None, s)
        | Some p \<Rightarrow>
            let s = s\<lparr>ss_entries := (ss_entries s)(state := None)\<rparr>
            in (if pd_expires p < now then None else Some (pd_verifier p), s)))"

section \<open>Configuration\<close>

definition enabled_provider :: "auth_db \<Rightarrow> auth_error + oauth_provider" where
  "enabled_provider d = (case get_provider d of
       Inl e \<Rightarrow> if e = RecordNotFound then Inl ENoProvider else Inl (EAuthStore e)
     | Inr p \<Rightarrow> if op_enabled p then Inr p else Inl ENoProvider)"

fun collect_values :: "string list \<Rightarrow> string list \<Rightarrow> string list" where
  "collect_values out [] = out"
| "collect_values out (raw # rs) =
     (let v = trim_space raw in collect_values (if v = [] \<or> v \<in> set out then out else out @ [v]) rs)"

definition normalize_list :: "string list \<Rightarrow> string list" where
  "normalize_list rs = collect_values [] rs"

definition normalize_domains :: "string list \<Rightarrow> string list" where
  "normalize_domains rs = map (\<lambda>r. to_lower (trim_prefix ''@'' r)) (normalize_list rs)"

definition validate_endpoint :: "auth_env \<Rightarrow> string \<Rightarrow> auth_error + unit" where
  "validate_endpoint E raw0 =
     (let raw = trim_space raw0 in
      if raw = [] then Inl (EValidation ''an endpoint is required'')
      else (case ae_url E raw of
          None \<Rightarrow> Inl (EValidation ''an endpoint must be an absolute URL'')
        | Some (scheme, host, _) \<Rightarrow>
            if host = [] then Inl (EValidation ''an endpoint must be an absolute URL'')
            else guardE (scheme = ''https'' \<or> scheme = ''http'') (EValidation ''an endpoint must be an http or https URL'')))"

record provider_input =
  pi_name :: string
  pi_display :: string
  pi_client :: string
  pi_secret :: string
  pi_auth_url :: string
  pi_token_url :: string
  pi_info_url :: string
  pi_scopes :: "string list"
  pi_subject_field :: string
  pi_email_field :: string
  pi_name_field :: string
  pi_domains :: "string list"
  pi_signup :: bool
  pi_unverified :: bool
  pi_default_role :: string
  pi_enabled :: bool

definition provider_of_input :: "string \<Rightarrow> instant \<Rightarrow> provider_input \<Rightarrow> oauth_provider" where
  "provider_of_input i now inp = provider_defaults \<lparr>
     op_id = i, op_created_at = now, op_name = to_lower (trim_space (pi_name inp)), op_display = trim_space (pi_display inp),
     op_client = trim_space (pi_client inp), op_secret = None, op_auth_url = trim_space (pi_auth_url inp),
     op_token_url = trim_space (pi_token_url inp), op_info_url = trim_space (pi_info_url inp),
     op_scopes = normalize_list (pi_scopes inp), op_subject_field = trim_space (pi_subject_field inp),
     op_email_field = trim_space (pi_email_field inp), op_name_field = trim_space (pi_name_field inp),
     op_domains = normalize_domains (pi_domains inp), op_signup = pi_signup inp, op_unverified = pi_unverified inp,
     op_default_role = or_else (pi_default_role inp) role_viewer, op_enabled = pi_enabled inp\<rparr>"

text \<open>The three endpoints are checked in the order of a Go map, which is unspecified; any bad one is an error.\<close>

definition save_oauth_provider :: "auth_env \<Rightarrow> string \<Rightarrow> provider_input \<Rightarrow> oauth_provider auth" where
  "save_oauth_provider E i inp =
     (if to_lower (trim_space (pi_name inp)) = [] then failS (EValidation ''a provider name is required'')
      else if trim_space (pi_client inp) = [] then failS (EValidation ''a client ID is required'')
      else
        bindS (liftE (forE (validate_endpoint E) [pi_auth_url inp, pi_token_url inp, pi_info_url inp])) (\<lambda>_.
        bindS (liftE (validate_role (or_else (pi_default_role inp) role_viewer))) (\<lambda>_.
        bindS (readS (\<lambda>d. case get_provider d of
            Inl e \<Rightarrow> if e = RecordNotFound then Inr None else Inl (EAuthStore e)
          | Inr p \<Rightarrow> Inr (Some p))) (\<lambda>existing.
        let p = provider_of_input i (ae_now E) inp in
        bindS (liftE (if pi_secret inp \<noteq> [] then Inr (p\<lparr>op_secret := Some (ae_master E, pi_secret inp)\<rparr>)
             else (case existing of
                 Some old \<Rightarrow> if op_secret old \<noteq> None then Inr (p\<lparr>op_secret := op_secret old\<rparr>)
                             else Inl (EValidation ''a client secret is required'')
               | None \<Rightarrow> Inl (EValidation ''a client secret is required'')))) (\<lambda>p.
          auth_op (save_provider_row (ae_dialect E) p))))))"

definition delete_oauth_provider :: "unit auth" where
  "delete_oauth_provider = bindS (auth_read get_provider) (\<lambda>_. modifyS delete_provider_rows)"

definition oauth_redirect_uri :: "auth_env \<Rightarrow> string" where
  "oauth_redirect_uri E = trim_right (\<lambda>c. c = CHR ''/'') (ae_base_url E) @ ''/oauth/callback''"

section \<open>Starting a sign-in\<close>

definition encode_query :: "(string \<times> string) list \<Rightarrow> string" where
  "encode_query kvs = join_with ''&'' (map (\<lambda>(k, v). query_escape k @ ''='' @ query_escape v) kvs)"

text \<open>The parameters in the order \<open>Values.Encode\<close> sorts them.\<close>

definition authorization_url :: "auth_env \<Rightarrow> oauth_provider \<Rightarrow> string \<Rightarrow> string \<Rightarrow> string" where
  "authorization_url E p state verifier =
     op_auth_url p @ (if CHR ''?'' \<in> set (op_auth_url p) then ''&'' else ''?'') @
     encode_query ([(''client_id'', op_client p), (''code_challenge'', b64_encode b64_url (ae_digest E verifier)),
        (''code_challenge_method'', ''S256''), (''redirect_uri'', oauth_redirect_uri E), (''response_type'', ''code'')] @
       (if op_scopes p \<noteq> [] then [(''scope'', join_with '' '' (op_scopes p))] else []) @ [(''state'', state)])"

record sso_state =
  so_db :: auth_db
  so_states :: state_store

type_synonym 'a sso = "(sso_state, auth_error, 'a) op"

definition on_db :: "'a auth \<Rightarrow> 'a sso" where
  "on_db m = (\<lambda>s. case m (so_db s) of (r, d) \<Rightarrow> (r, s\<lparr>so_db := d\<rparr>))"

definition on_states :: "(state_store \<Rightarrow> 'a \<times> state_store) \<Rightarrow> 'a sso" where
  "on_states f = (\<lambda>s. case f (so_states s) of (x, t) \<Rightarrow> (Inr x, s\<lparr>so_states := t\<rparr>))"

definition start_oauth :: "auth_env \<Rightarrow> octet list \<Rightarrow> octet list \<Rightarrow> string sso" where
  "start_oauth E raw1 raw2 =
     bindS (on_db (readS enabled_provider)) (\<lambda>p.
     bindS (on_states (issue_state (ae_now E) raw1 raw2)) (\<lambda>(state, verifier).
       returnS (authorization_url E p state verifier)))"

section \<open>Asking the provider\<close>

record token_body =
  tb_access :: string
  tb_error :: string
  tb_description :: string

record http_world =
  hw_post :: "string \<Rightarrow> (string \<times> string) list \<Rightarrow> (string \<times> string) option \<Rightarrow> (string \<times> int) + (int \<times> token_body option)"
  hw_get :: "string \<Rightarrow> string \<Rightarrow> string + (int \<times> (string \<times> json) list option)"

definition post_oauth_token ::
    "http_world \<Rightarrow> string \<Rightarrow> (string \<times> string) list \<Rightarrow> (string \<times> string) option \<Rightarrow> (auth_error \<times> int) + string" where
  "post_oauth_token W token_url form basic =
     (case hw_post W token_url form (map_option (\<lambda>(u, p). (query_escape u, query_escape p)) basic) of
        Inl (t, st) \<Rightarrow> Inl (EOAuth t, st)
      | Inr (st, body) \<Rightarrow> (case body of
            None \<Rightarrow> Inl (EOAuth ''the token endpoint did not return JSON'', st)
          | Some b \<Rightarrow>
              if tb_error b \<noteq> [] then Inl (EOAuth (or_else (tb_description b) (tb_error b)), st)
              else if st \<noteq> 200 then Inl (EOAuth ''the token endpoint returned an error status'', st)
              else if tb_access b = [] then Inl (EOAuth ''the token endpoint returned no access token'', st)
              else Inr (tb_access b)))"

definition exchange_oauth_code :: "http_world \<Rightarrow> auth_env \<Rightarrow> oauth_provider \<Rightarrow> string \<Rightarrow> string \<Rightarrow> string \<Rightarrow> auth_error + string" where
  "exchange_oauth_code W E p secret code verifier =
     (let form = [(''grant_type'', ''authorization_code''), (''code'', code), (''redirect_uri'', oauth_redirect_uri E),
            (''client_id'', op_client p), (''code_verifier'', verifier)]
      in case post_oauth_token W (op_token_url p) (form @ [(''client_secret'', secret)]) None of
           Inr t \<Rightarrow> Inr t
         | Inl (e, st) \<Rightarrow>
             if st \<noteq> 401 then Inl e
             else (case post_oauth_token W (op_token_url p) form
                     (if op_client p \<noteq> [] then Some (op_client p, secret) else None) of
                 Inr t \<Rightarrow> Inr t | Inl _ \<Rightarrow> Inl e))"

record oauth_profile =
  of_subject :: string
  of_email :: string
  of_name :: string
  of_verified :: bool

definition denied :: "string \<Rightarrow> auth_error" where "denied t = EOAuth t"

definition profile_of :: "oauth_provider \<Rightarrow> (string \<times> json) list \<Rightarrow> oauth_profile" where
  "profile_of p doc = \<lparr>of_subject = oauth_string doc (op_subject_field p), of_email = to_lower (oauth_string doc (op_email_field p)),
     of_name = oauth_string doc (op_name_field p),
     of_verified = (case oauth_lookup doc ''email_verified'' of None \<Rightarrow> True | Some v \<Rightarrow> oauth_bool v)\<rparr>"

definition fetch_oauth_profile :: "http_world \<Rightarrow> oauth_provider \<Rightarrow> string \<Rightarrow> auth_error + oauth_profile" where
  "fetch_oauth_profile W p token = (case hw_get W (op_info_url p) (''Bearer '' @ token) of
       Inl t \<Rightarrow> Inl (EOAuth t)
     | Inr (st, body) \<Rightarrow>
         if st \<noteq> 200 then Inl (EOAuth ''the userinfo endpoint returned an error status'')
         else (case body of
             None \<Rightarrow> Inl (EOAuth ''the userinfo endpoint did not return a JSON object'')
           | Some doc \<Rightarrow>
               let f = profile_of p doc in
               if of_subject f = [] then Inl (denied ''the provider returned no field to identify the account by'')
               else if of_email f = [] then Inl (denied ''sign-in needs an email address'')
               else Inr f))"

section \<open>From a profile to an account\<close>

definition check_oauth_domain :: "string list \<Rightarrow> string \<Rightarrow> auth_error + unit" where
  "check_oauth_domain allowed addr =
     (if allowed = [] then Inr ()
      else (case cut CHR ''@'' addr of (_, domain, found) \<Rightarrow>
        if \<not> found then Inl (denied addr)
        else guardE (to_lower domain \<in> set allowed) (denied ''sign-in is restricted'')))"

definition link_oauth_user :: "auth_env \<Rightarrow> oauth_provider \<Rightarrow> user \<Rightarrow> oauth_profile \<Rightarrow> user auth" where
  "link_oauth_user E p u f =
     (if us_subject u \<noteq> [] \<and> us_subject u \<noteq> of_subject f then failS (denied (us_email u))
      else let u = u\<lparr>us_provider := op_name p, us_subject := of_subject f,
             us_name := (if us_name u = [] \<and> of_name f \<noteq> [] then of_name f else us_name u)\<rparr>
        in bindS (auth_op (update_user_row (ae_dialect E) u)) (\<lambda>_. returnS u))"

definition provision_oauth_user :: "auth_env \<Rightarrow> string \<Rightarrow> oauth_provider \<Rightarrow> oauth_profile \<Rightarrow> user auth" where
  "provision_oauth_user E i p f =
     (let u = (blank_user i (ae_now E))\<lparr>us_email := of_email f, us_name := or_else (of_name f) (of_email f),
            us_role := or_else (op_default_role p) role_viewer, us_status := status_active, us_provider := op_name p,
            us_subject := of_subject f\<rparr>
      in bindS (auth_op (create_user_row (ae_dialect E) u)) (\<lambda>_. returnS (user_defaults u)))"

definition follow_profile :: "oauth_profile \<Rightarrow> user \<Rightarrow> user" where
  "follow_profile f u = u\<lparr>us_email := of_email f, us_name := (if of_name f \<noteq> [] then of_name f else us_name u)\<rparr>"

definition resolve_oauth_user :: "auth_env \<Rightarrow> string \<Rightarrow> oauth_provider \<Rightarrow> oauth_profile \<Rightarrow> user auth" where
  "resolve_oauth_user E i p f =
     bindS (liftE (check_oauth_domain (op_domains p) (of_email f))) (\<lambda>_.
     bindS (readS (\<lambda>d. Inr (user_by_oauth (op_name p) (of_subject f) d))) (\<lambda>found. case found of
       Inr u \<Rightarrow>
         if \<not> equal_fold (us_email u) (of_email f) \<or> (of_name f \<noteq> [] \<and> us_name u \<noteq> of_name f) then
           bindS (auth_op (update_user_row (ae_dialect E) (follow_profile f u))) (\<lambda>_. returnS (follow_profile f u))
         else returnS u
     | Inl e \<Rightarrow>
         if e \<noteq> RecordNotFound then failS (EAuthStore e)
         else if \<not> of_verified f \<and> \<not> op_unverified p then failS (denied (provider_label p))
         else bindS (readS (\<lambda>d. Inr (user_by_email (of_email f) d))) (\<lambda>by_email. case by_email of
             Inr u \<Rightarrow> link_oauth_user E p u f
           | Inl e \<Rightarrow>
               if e \<noteq> RecordNotFound then failS (EAuthStore e)
               else if \<not> op_signup p then failS (denied (of_email f))
               else provision_oauth_user E i p f)))"

section \<open>Finishing a sign-in\<close>

definition open_client_secret :: "auth_env \<Rightarrow> oauth_provider \<Rightarrow> auth_error + string" where
  "open_client_secret E p = (case op_secret p of
       None \<Rightarrow> Inl ESealed | Some (m, s) \<Rightarrow> if m = ae_master E then Inr s else Inl ESealed)"

definition login_with_oauth ::
    "jwt_lib \<Rightarrow> http_world \<Rightarrow> auth_env \<Rightarrow> authenticator \<Rightarrow> string \<Rightarrow> string \<Rightarrow> string \<Rightarrow> string \<Rightarrow> login_result sso" where
  "login_with_oauth L W E A i sid code state =
     bindS (on_db (readS enabled_provider)) (\<lambda>p.
     bindS (on_states (redeem_state (ae_now E) state)) (\<lambda>redeemed. case redeemed of
       None \<Rightarrow> failS EStateUnknown
     | Some verifier \<Rightarrow>
         if code = [] then failS (EValidation ''the provider returned no authorization code'')
         else
           bindS (liftE (open_client_secret E p)) (\<lambda>secret.
           bindS (liftE (exchange_oauth_code W E p secret code verifier)) (\<lambda>token.
           bindS (liftE (fetch_oauth_profile W p token)) (\<lambda>f.
           bindS (on_db (resolve_oauth_user E i p f)) (\<lambda>u.
           if \<not> is_active u then failS EDisabled
           else if has_two_factor u then
             bindS (liftE (issue_challenge L A (ae_now E) u)) (\<lambda>(t, ttl).
               returnS \<lparr>lr_tokens = None, lr_user = u, lr_two_factor = True, lr_challenge = t,
                 lr_challenge_expires = trunc_div ttl second, lr_used_recovery = False, lr_remaining = 0\<rparr>)
           else on_db (issue_session L E A sid u)))))))"

end
