(* ===== verification/AuthReach.thy ===== *)
theory AuthReach
  imports SvcOAuth
begin

text \<open>
  The accounts as a state machine: a step is a method of the account, two-factor or OAuth
  services.  Two things hold along every run: the tables stay consistent, and an instance that
  has an active administrator keeps one.
\<close>

section \<open>Consistent tables\<close>

definition accounts_ok :: "auth_db \<Rightarrow> bool" where
  "accounts_ok d \<longleftrightarrow> distinct (map us_id (ad_users d)) \<and> distinct (map us_email (ad_users d)) \<and>
     distinct (map tk_id (ad_tokens d)) \<and> distinct (map tk_hash (ad_tokens d)) \<and> distinct (map rs_session (ad_sessions d)) \<and>
     (\<forall>t \<in> set (ad_tokens d). tk_user t \<in> us_id ` set (ad_users d))"

lemma accounts_ok_empty: "accounts_ok empty_auth"
  by (simp add: accounts_ok_def empty_auth_def)

lemma fresh_image: "k \<notin> g ` set rows \<Longrightarrow> \<forall>x \<in> set rows. g x \<noteq> k \<longrightarrow> f x \<noteq> v \<Longrightarrow> v \<notin> f ` set rows"
  by (auto simp: image_iff)

lemma distinct_put_clash:
  assumes "distinct (map f rows)" "distinct (map key rows)" "\<forall>x \<in> set rows. key x \<noteq> key r \<longrightarrow> f x \<noteq> f r"
  shows "distinct (map f (tbl_put key r rows))"
proof -
  let ?g = "\<lambda>x. if key x = key r then r else x"
  have d: "distinct rows" using assms(1) by (simp add: distinct_map)
  have "inj_on (f \<circ> ?g) (set rows)"
  proof (rule inj_onI)
    fix x y
    assume xy: "x \<in> set rows" "y \<in> set rows" "(f \<circ> ?g) x = (f \<circ> ?g) y"
    have f: "inj_on f (set rows)" and k: "inj_on key (set rows)" using assms(1,2) by (simp_all add: distinct_map)
    show "x = y"
      using xy assms(3) inj_onD [OF f _ xy(1,2)] inj_onD [OF k _ xy(1,2)] by (auto split: if_splits)
  qed
  then have "distinct (map f (map ?g rows))" using d by (simp add: distinct_map)
  moreover have "f r \<notin> f ` set rows" if "key r \<notin> key ` set rows" using fresh_image [OF that assms(3)] .
  ultimately show ?thesis using assms(1) by (auto simp: tbl_put_def tbl_has_iff simp del: map_map map_eq_conv)
qed

lemma accounts_create_user:
  assumes "accounts_ok d"
  shows "accounts_ok (snd (create_user_row D u d))"
proof (cases "create_user_row D u d")
  case (Pair r e)
  show ?thesis
  proof (cases r)
    case (Inr x)
    then have e: "e = ad_users_update (\<lambda>rs. rs @ [user_defaults u]) d" "us_id u \<notin> us_id ` set (ad_users d)"
      "user_clash D d (user_defaults u) = None"
      using Pair by (auto simp: create_user_row_def user_defaults_def dest!: repo_create_ok)
    have "\<forall>x \<in> set (ad_users d). us_id x \<noteq> us_id u \<longrightarrow> us_email x \<noteq> us_email (user_defaults u)"
      using e(3) by (auto simp: user_clash_def list_ex_iff user_defaults_def split: if_splits)
    then have "us_email (user_defaults u) \<notin> us_email ` set (ad_users d)" by (rule fresh_image [OF e(2)])
    then show ?thesis using Pair assms e by (auto simp: accounts_ok_def user_defaults_def)
  qed (use Pair assms in \<open>auto simp: create_user_row_def dest!: repo_fail\<close>)
qed

lemma accounts_update_user:
  assumes "accounts_ok d"
  shows "accounts_ok (snd (update_user_row D u d))"
proof (cases "update_user_row D u d")
  case (Pair r e)
  show ?thesis
  proof (cases r)
    case (Inr x)
    then have e: "e = ad_users_update (tbl_put us_id u) d" "user_clash D d u = None"
      using Pair by (auto simp: update_user_row_def dest!: repo_save_ok)
    then have "\<forall>x \<in> set (ad_users d). us_id x \<noteq> us_id u \<longrightarrow> us_email x \<noteq> us_email u"
      by (auto simp: user_clash_def list_ex_iff split: if_splits)
    then have "distinct (map us_email (tbl_put us_id u (ad_users d)))"
      using assms by (intro distinct_put_clash) (simp_all add: accounts_ok_def)
    moreover have "us_id ` set (ad_users d) \<subseteq> us_id ` set (tbl_put us_id u (ad_users d))" by (auto simp: keys_tbl_put)
    ultimately show ?thesis using Pair assms e by (auto simp: accounts_ok_def distinct_tbl_put)
  qed (use Pair assms in \<open>auto simp: update_user_row_def dest!: repo_fail\<close>)
qed

lemma distinct_filter_map: "distinct (map f xs) \<Longrightarrow> distinct (map f (filter P xs))"
  by (induction xs) auto

lemma accounts_delete_user: "accounts_ok d \<Longrightarrow> accounts_ok (snd (delete_user_row i d))"
  by (auto simp: delete_user_row_def transaction_def accounts_ok_def distinct_filter_map Let_def split: prod.split sum.split)

lemma accounts_create_token:
  assumes "accounts_ok d"
  shows "accounts_ok (snd (create_token_row D t d))"
proof (cases "create_token_row D t d")
  case (Pair r e)
  show ?thesis
  proof (cases r)
    case (Inr x)
    then have e: "e = ad_tokens_update (\<lambda>rs. rs @ [t]) d" "tk_id t \<notin> tk_id ` set (ad_tokens d)" "token_clash D d t = None"
      using Pair by (auto simp: create_token_row_def dest!: repo_create_ok)
    then have "\<forall>x \<in> set (ad_tokens d). tk_id x \<noteq> tk_id t \<longrightarrow> tk_hash x \<noteq> tk_hash t" "tk_user t \<in> us_id ` set (ad_users d)"
      by (auto simp: token_clash_def list_ex_iff tbl_has_iff split: if_splits)
    moreover from this have "tk_hash t \<notin> tk_hash ` set (ad_tokens d)" by (intro fresh_image [OF e(2)])
    ultimately show ?thesis using Pair assms e by (auto simp: accounts_ok_def)
  qed (use Pair assms in \<open>auto simp: create_token_row_def dest!: repo_fail\<close>)
qed

lemma accounts_touch: "accounts_ok d \<Longrightarrow> accounts_ok (touch_login now i d)" "accounts_ok d \<Longrightarrow> accounts_ok (touch_used now i d)"
proof -
  have "us_id ` set (tbl_set p (us_last_login_update h) xs) = us_id ` set xs" for p h and xs :: "user list"
    by (rule image_tbl_set) simp
  then show "accounts_ok d \<Longrightarrow> accounts_ok (touch_login now i d)"
    by (simp add: accounts_ok_def touch_login_def map_tbl_set [of us_id] map_tbl_set [of us_email])
  show "accounts_ok d \<Longrightarrow> accounts_ok (touch_used now i d)"
    by (auto simp: accounts_ok_def touch_used_def map_tbl_set set_tbl_set)
qed

lemma accounts_revoke_token: "accounts_ok d \<Longrightarrow> accounts_ok (snd (revoke_token_row now i d))"
  by (auto simp: accounts_ok_def revoke_token_row_def map_tbl_set set_tbl_set)

lemma accounts_sessions:
  "accounts_ok d \<Longrightarrow> accounts_ok (snd (revoke_session_row D now sid uid reason until d))"
  "accounts_ok d \<Longrightarrow> accounts_ok (snd (prune_sessions before d))"
  by (auto simp: accounts_ok_def revoke_session_row_def prune_sessions_def tbl_has_iff distinct_filter_map)

lemma accounts_providers:
  "accounts_ok (ad_providers_update f d) = accounts_ok d" "ad_users (ad_providers_update f d) = ad_users d"
  by (simp_all add: accounts_ok_def)

section \<open>An administrator remains\<close>

definition has_admin :: "auth_db \<Rightarrow> bool" where
  "has_admin d \<longleftrightarrow> (\<exists>u \<in> set (ad_users d). admin_user u)"

text \<open>What every step keeps, from the state \<open>d0\<close> it starts in.\<close>

definition kept :: "auth_db \<Rightarrow> auth_db \<Rightarrow> bool" where
  "kept d0 d \<longleftrightarrow> accounts_ok d \<and> (has_admin d0 \<longrightarrow> has_admin d)"

definition user_power :: "user \<Rightarrow> string \<times> string \<times> string" where
  "user_power u = (us_id u, us_role u, us_status u)"

lemma keptD: "kept d0 d \<Longrightarrow> accounts_ok d"
  by (simp add: kept_def)

lemma has_admin_put:
  assumes "accounts_ok d" "x \<in> set (ad_users d)" "us_id u = us_id x" "has_admin d" "admin_user x \<Longrightarrow> admin_user u"
  shows "has_admin (ad_users_update (tbl_put us_id u) d)"
proof -
  obtain y where y: "y \<in> set (ad_users d)" "admin_user y" using assms(4) by (auto simp: has_admin_def)
  show ?thesis
  proof (cases "us_id y = us_id x")
    case True
    then have "y = x" using assms(1,2) y(1) by (metis accounts_ok_def distinct_map inj_on_eq_iff)
    then show ?thesis using assms(5) y by (auto simp: has_admin_def set_tbl_put)
  next
    case False
    then show ?thesis using assms(3) y by (auto simp: has_admin_def set_tbl_put)
  qed
qed

lemma two_admins:
  assumes "accounts_ok d" "1 < count_admins d"
  obtains y where "y \<in> set (ad_users d)" "admin_user y" "y \<noteq> x"
proof -
  have "distinct (filter admin_user (ad_users d))" using assms(1) by (simp add: accounts_ok_def distinct_map)
  then have "1 < card (set (filter admin_user (ad_users d)))"
    using assms(2) by (simp add: count_admins_def distinct_card del: set_filter)
  then have "\<exists>y \<in> set (filter admin_user (ad_users d)). y \<noteq> x"
    by (metis One_nat_def card_le_Suc0_iff_eq finite_set not_less)
  then show ?thesis using that by auto
qed

lemma kept_update:
  assumes "kept d0 d" "x \<in> set (ad_users d)" "us_id u = us_id x" "has_admin d \<Longrightarrow> admin_user x \<Longrightarrow> \<not> admin_user u \<Longrightarrow> 1 < count_admins d"
  shows "kept d0 (snd (update_user_row D u d))"
proof (cases "user_clash D d u")
  case None
  let ?e = "ad_users_update (tbl_put us_id u) d"
  have ok: "accounts_ok d" using assms(1) by (rule keptD)
  have "has_admin ?e" if "has_admin d"
  proof (cases "admin_user x \<and> \<not> admin_user u")
    case True
    then have "1 < count_admins d" using assms(4) that by blast
    then obtain y where y: "y \<in> set (ad_users d)" "admin_user y" "y \<noteq> x" by (rule two_admins [OF ok])
    then have "us_id y \<noteq> us_id x" using ok assms(2) by (metis accounts_ok_def distinct_map inj_on_eq_iff)
    then show ?thesis using y assms(3) by (auto simp: has_admin_def set_tbl_put)
  qed (use has_admin_put [OF ok assms(2,3) that] in blast)
  then show ?thesis
    using assms(1) None accounts_update_user [OF ok, of D u] by (simp add: kept_def update_user_row_def repo_save_def)
qed (use assms(1) in \<open>simp add: update_user_row_def repo_save_def\<close>)

lemma kept_power:
  assumes "kept d0 d" "x \<in> set (ad_users d)" "user_power u = user_power x"
  shows "kept d0 (snd (update_user_row D u d))"
  by (rule kept_update [OF assms(1,2)]) (use assms(3) in \<open>auto simp: user_power_def admin_user_def\<close>)

lemma kept_same_users: "kept d0 d \<Longrightarrow> ad_users e = ad_users d \<Longrightarrow> accounts_ok e \<Longrightarrow> kept d0 e"
  by (simp add: kept_def has_admin_def)

lemma kept_create: "kept d0 d \<Longrightarrow> kept d0 (snd (create_user_row D u d))"
proof -
  assume k: "kept d0 d"
  have "has_admin d \<Longrightarrow> has_admin (snd (create_user_row D u d))"
    by (auto simp: has_admin_def create_user_row_def repo_create_def split: option.split)
  then show ?thesis using k accounts_create_user [OF keptD [OF k], of D u] by (simp add: kept_def)
qed


lemma kept_delete:
  assumes "kept d0 d" "get_user i d = Inr u" "\<not> (us_role u = role_admin \<and> count_admins d \<le> 1)"
  shows "kept d0 (snd (delete_user_row i d))"
proof -
  have ok: "accounts_ok d" using assms(1) by (rule keptD)
  have u: "u \<in> set (ad_users d)" "us_id u = i" using assms(2) by (auto simp: get_user_def dest: tbl_get_InrD)
  have "has_admin (snd (delete_user_row i d))" if "has_admin d"
  proof -
    obtain y where y: "y \<in> set (ad_users d)" "admin_user y" "y \<noteq> u"
    proof (cases "us_role u = role_admin")
      case True
      then have "1 < count_admins d" using assms(3) by simp
      then show ?thesis by (rule two_admins [OF ok]) (rule that)
    next
      case False
      then show ?thesis using \<open>has_admin d\<close> that by (auto simp: has_admin_def admin_user_def)
    qed
    then have "us_id y \<noteq> i" using ok u by (metis accounts_ok_def distinct_map inj_on_eq_iff)
    then show ?thesis using y u
      by (auto simp: has_admin_def delete_user_row_def transaction_def tbl_has_iff Let_def image_iff)
  qed
  then show ?thesis using assms(1) accounts_delete_user [OF ok] by (simp add: kept_def)
qed

lemma kept_touch: "kept d0 d \<Longrightarrow> kept d0 (touch_login now i d)" "kept d0 d \<Longrightarrow> kept d0 (touch_used now i d)"
proof -
  have "list_ex admin_user (tbl_set p (us_last_login_update h) xs) = list_ex admin_user xs" for p h and xs :: "user list"
    by (induction xs) (auto simp: admin_user_def)
  then have "has_admin d \<Longrightarrow> has_admin (touch_login now i d)"
    by (simp add: has_admin_def touch_login_def flip: list_ex_iff)
  then show "kept d0 d \<Longrightarrow> kept d0 (touch_login now i d)" by (simp add: kept_def accounts_touch)
  show "kept d0 d \<Longrightarrow> kept d0 (touch_used now i d)"
    by (rule kept_same_users) (auto simp: touch_used_def intro!: accounts_touch(2) [unfolded touch_used_def] dest: keptD)
qed

section \<open>The methods\<close>

text \<open>What is read is a row of the table.\<close>

lemma read_user:
  "get_user i d = Inr u \<Longrightarrow> u \<in> set (ad_users d) \<and> us_id u = i"
  "user_by_email e d = Inr u \<Longrightarrow> u \<in> set (ad_users d)"
  "user_by_oauth p s d = Inr u \<Longrightarrow> u \<in> set (ad_users d)"
  by (auto simp: get_user_def user_by_email_def user_by_oauth_def split: if_splits dest: tbl_get_InrD)

lemma kept_auth_read:
  "kept d0 d \<Longrightarrow> (\<And>x. f d = Inr x \<Longrightarrow> kept d0 (snd (g x d))) \<Longrightarrow> kept d0 (snd (bindS (auth_read f) g d))"
  by (auto simp: auth_read_def bindS_def split: sum.split)

lemma kept_bind_op:
  "kept d0 (snd (m d)) \<Longrightarrow> (\<And>x e. m d = (Inr x, e) \<Longrightarrow> kept d0 e \<Longrightarrow> kept d0 (snd (f x e))) \<Longrightarrow> kept d0 (snd (bindS (auth_op m) f d))"
  unfolding auth_op_def by (rule inv_step) auto

lemma kept_op: "kept d0 (snd (m d)) \<Longrightarrow> kept d0 (snd (auth_op m d))"
  by (simp add: auth_op_def)

lemmas kept_intros = inv_bind_read [where I = "kept d0" for d0] inv_return [where I = "kept d0" for d0] inv_if [where I = "kept d0" for d0]
  inv_cases [where I = "kept d0" for d0] kept_auth_read kept_bind_op kept_op

text \<open>A saved second factor leaves the powers of the account alone, and returns the saved row.\<close>

definition same_power :: "auth_db \<Rightarrow> user \<Rightarrow> bool" where
  "same_power d u \<longleftrightarrow> (\<exists>x \<in> set (ad_users d). user_power u = user_power x)"

lemma same_power_row: "u \<in> set (ad_users d) \<Longrightarrow> same_power d u"
  by (auto simp: same_power_def)

lemma kept_power_row: "kept d0 d \<Longrightarrow> same_power d u \<Longrightarrow> kept d0 (snd (update_user_row D u d))"
  by (auto simp: same_power_def intro: kept_power)

lemma second_factor_ok:
  assumes "verify_second_factor E u raw d = (Inr (used, v), e)"
  shows "user_power v = user_power u \<and> update_user_row (ae_dialect E) v d = (Inr (), e)"
  using assms
  by (auto simp: verify_second_factor_def Let_def bindS_Inr_iff auth_op_def consume_recovery_code_def user_power_def
      split: if_splits option.splits)

lemma saved_row: "update_user_row D v d = (Inr (), e) \<Longrightarrow> v \<in> set (ad_users e)"
  by (auto simp: update_user_row_def set_tbl_put dest!: repo_save_ok)

lemma kept_second_factor:
  assumes "kept d0 d" "same_power d u"
  shows "kept d0 (snd (verify_second_factor E u raw d))"
  unfolding verify_second_factor_def Let_def
  by (intro kept_intros assms kept_power_row)
    (use assms(2) in \<open>auto simp: same_power_def user_power_def consume_recovery_code_def Let_def split: if_splits\<close>)

lemma kept_bind_second_factor:
  assumes "kept d0 d" "same_power d u"
    "\<And>used v e. verify_second_factor E u raw d = (Inr (used, v), e) \<Longrightarrow> kept d0 e \<Longrightarrow> v \<in> set (ad_users e) \<Longrightarrow> kept d0 (snd (f (used, v) e))"
  shows "kept d0 (snd (bindS (verify_second_factor E u raw) f d))"
proof (rule inv_step [of "kept d0"])
  show "kept d0 (snd (verify_second_factor E u raw d))" by (rule kept_second_factor [OF assms(1,2)])
  show "kept d0 (snd (f x e))" if h: "verify_second_factor E u raw d = (Inr x, e)" "kept d0 e" for x e
    using assms(3) [of "fst x" "snd x" e] h second_factor_ok [of E u raw d "fst x" "snd x" e] saved_row by auto
qed

lemma kept_modify: "kept d0 (f d) \<Longrightarrow> (kept d0 (f d) \<Longrightarrow> kept d0 (snd (g () (f d)))) \<Longrightarrow> kept d0 (snd (bindS (modifyS f) g d))"
  by (simp add: bindS_def)

lemma kept_issue_session: "kept d0 d \<Longrightarrow> kept d0 (snd (issue_session L E A sid u d))"
  unfolding issue_session_def by (intro kept_intros kept_modify kept_touch)

lemma kept_complete_login: "kept d0 d \<Longrightarrow> same_power d u \<Longrightarrow> kept d0 (snd (complete_login L E A sid u code d))"
proof -
  assume k: "kept d0 d" and u: "same_power d u"
  have s: "kept d0 (snd (bindS (issue_session L E A sid v) (\<lambda>r. returnS (f r)) e))" if "kept d0 e" for v e f
    by (rule inv_step [of "kept d0"]) (simp_all add: kept_issue_session that)
  show ?thesis
    unfolding complete_login_def
    by (cases "has_two_factor u") (use k u s in \<open>auto intro!: kept_bind_second_factor simp: bindS_eval(1)\<close>)
qed

lemma kept_login: "kept d0 d \<Longrightarrow> kept d0 (snd (login L E A sid inp d))"
  unfolding login_def Let_def
  by (intro kept_intros kept_complete_login same_power_row) (simp_all add: read_user)

lemma kept_complete_two_factor_login: "kept d0 d \<Longrightarrow> kept d0 (snd (complete_two_factor_login L E A sid ch code d))"
  unfolding complete_two_factor_login_def
  by (intro kept_intros kept_complete_login same_power_row) (auto dest: read_user)

lemma kept_authenticate: "kept d0 d \<Longrightarrow> kept d0 (snd (authenticate_api_token E raw d))"
  unfolding authenticate_api_token_def by (intro kept_intros kept_modify kept_touch)

lemma kept_enrolment:
  "kept d0 d \<Longrightarrow> kept d0 (snd (begin_totp_enrollment E raw i d))"
  "kept d0 d \<Longrightarrow> kept d0 (snd (confirm_totp_enrollment E raws i code d))"
  unfolding begin_totp_enrollment_def confirm_totp_enrollment_def Let_def
  by (intro kept_intros kept_power_row; auto simp: same_power_def user_power_def dest: read_user)+

lemma kept_two_factor:
  "kept d0 d \<Longrightarrow> kept d0 (snd (disable_two_factor E i pw code d))"
  "kept d0 d \<Longrightarrow> kept d0 (snd (reset_two_factor E i d))"
  "kept d0 d \<Longrightarrow> kept d0 (snd (regenerate_recovery_codes E raws i code d))"
proof -
  have clear: "kept d0 (snd (auth_op (update_user_row D (clear_two_factor u)) d))" if "kept d0 d" "u \<in> set (ad_users d)" for D u d
    using that by (intro kept_op kept_power_row) (auto simp: same_power_def user_power_def clear_two_factor_def)
  show "kept d0 d \<Longrightarrow> kept d0 (snd (reset_two_factor E i d))"
    unfolding reset_two_factor_def by (intro kept_intros clear) (auto dest: read_user)
  show "kept d0 (snd (disable_two_factor E i pw code d))" if k: "kept d0 d"
  proof -
    have tail: "kept d0 (snd (bindS (if has_two_factor u then bindS (verify_second_factor E u code) (\<lambda>(_, u). returnS u) else returnS u)
        (\<lambda>u. auth_op (update_user_row (ae_dialect E) (clear_two_factor u))) d))" if u: "u \<in> set (ad_users d)" for u
    proof (rule inv_step [of "kept d0"])
      show "kept d0 (snd ((if has_two_factor u then bindS (verify_second_factor E u code) (\<lambda>(_, u). returnS u) else returnS u) d))"
        using k u by (auto intro!: kept_bind_second_factor same_power_row)
      show "kept d0 (snd (auth_op (update_user_row (ae_dialect E) (clear_two_factor v)) e))"
        if "(if has_two_factor u then bindS (verify_second_factor E u code) (\<lambda>(_, u). returnS u) else returnS u) d = (Inr v, e)"
          "kept d0 e" for v e
      proof -
        have "v \<in> set (ad_users e)"
          using that(1) u by (auto simp: bindS_Inr_iff split: if_splits dest!: second_factor_ok saved_row)
        then show ?thesis by (rule clear [OF that(2)])
      qed
    qed
    show ?thesis unfolding disable_two_factor_def by (intro kept_intros tail k) (auto dest: read_user)
  qed
  show "kept d0 d \<Longrightarrow> kept d0 (snd (regenerate_recovery_codes E raws i code d))"
    unfolding regenerate_recovery_codes_def
    by (intro kept_intros kept_bind_second_factor same_power_row)
      (auto simp: same_power_def user_power_def dest: read_user intro!: kept_intros kept_power_row split: prod.split)
qed

lemma kept_create_user: "kept d0 d \<Longrightarrow> kept d0 (snd (create_user E i salt inp d))"
  unfolding create_user_def Let_def by (intro kept_intros kept_create)

lemma apply_update_power:
  assumes "apply_update E salt inp u = Inr v"
  shows "us_id v = us_id u \<and> (admin_user u \<longrightarrow> \<not> losing_admin u inp \<longrightarrow> admin_user v)"
  using assms
  by (auto simp: apply_update_def Let_def admin_user_def losing_admin_def gives_up_def bindE_Inr_iff split: option.splits)

lemma kept_revoke: "kept d0 d \<Longrightarrow> kept d0 (snd (revoke_session_row D now sid uid reason until d))"
  by (rule kept_same_users) (simp_all add: revoke_session_frame accounts_sessions keptD)

lemma kept_update_user: "kept d0 d \<Longrightarrow> kept d0 (snd (update_user E salt i inp d))"
  unfolding update_user_def revoke_all_sessions_def revoke_all_rows_def
proof (intro kept_intros)
  fix u g v
  assume k: "kept d0 d" and u: "get_user i d = Inr u" and v: "apply_update E salt inp u = Inr v"
    and g: "guardE (\<not> (losing_admin u inp \<and> count_admins d \<le> 1))
        (EValidation ''this is the last active administrator; promote another account first'') = Inr g"
  show "kept d0 (snd (update_user_row (ae_dialect E) v d))"
    using read_user(1) [OF u] apply_update_power [OF v] g
    by (intro kept_update [OF k, of u]) (auto simp: guardE_def split: if_splits)
next
  fix u g v w e
  assume "kept d0 e"
  then show "kept d0 (snd (bindS (whenS (ends_sessions inp) (ignoreS (auth_op (revoke_session_row (ae_dialect E) (ae_now E)
      (all_sessions_key (us_id v)) (us_id v) ''account changed'' (ae_now E + ae_refresh_ttl E * 2))))) (\<lambda>_. returnS v) e))"
    by (intro inv_step [of "kept d0"] inv_when [of "kept d0"]) (auto simp: auth_op_def intro: kept_revoke)
qed

lemma kept_delete_user: "kept d0 d \<Longrightarrow> kept d0 (snd (delete_user i d))"
  unfolding delete_user_def by (intro kept_intros kept_delete) (auto simp: guardE_def split: if_splits)

lemma kept_sessions:
  "kept d0 d \<Longrightarrow> kept d0 (snd (revoke_session E p reason d))"
  "kept d0 d \<Longrightarrow> kept d0 (snd (revoke_all_sessions E uid reason d))"
  unfolding revoke_session_def revoke_all_sessions_def revoke_all_rows_def by (intro kept_intros kept_revoke | assumption)+

lemma kept_tokens:
  "kept d0 d \<Longrightarrow> kept d0 (snd (create_api_token E i raw inp d))"
  "kept d0 d \<Longrightarrow> kept d0 (snd (revoke_api_token E i d))"
proof -
  have c: "kept d0 d \<Longrightarrow> kept d0 (snd (create_token_row D t d))" for D t d
    using accounts_create_token [of d D t]
    by (auto intro!: kept_same_users [of d0 d] dest: keptD simp: create_token_row_def repo_create_def split: option.split)
  have r: "kept d0 d \<Longrightarrow> kept d0 (snd (revoke_token_row now j d))" for now j d
    using accounts_revoke_token [of d now j]
    by (auto intro!: kept_same_users [of d0 d] dest: keptD simp: revoke_token_row_def)
  show "kept d0 d \<Longrightarrow> kept d0 (snd (create_api_token E i raw inp d))"
    unfolding create_api_token_def Let_def by (intro kept_intros c)
  show "kept d0 d \<Longrightarrow> kept d0 (snd (revoke_api_token E i d))"
    unfolding revoke_api_token_def by (intro kept_intros r)
qed

lemma kept_bootstrap: "kept d0 d \<Longrightarrow> kept d0 (snd (bootstrap E i salt addr pw name d))"
  unfolding bootstrap_def
  by (intro kept_intros inv_step [of "kept d0" "create_user E i salt inp" for inp] kept_create_user) simp_all

lemma kept_oauth:
  "kept d0 d \<Longrightarrow> kept d0 (snd (resolve_oauth_user E i p f d))"
  "kept d0 d \<Longrightarrow> kept d0 (snd (save_oauth_provider E i inp d))"
  "kept d0 d \<Longrightarrow> kept d0 (snd (delete_oauth_provider d))"
proof -
  have link: "kept d0 (snd (link_oauth_user E p u f d))" if "kept d0 d" "u \<in> set (ad_users d)" for u d
    unfolding link_oauth_user_def Let_def using that
    by (intro kept_intros kept_power_row) (auto simp: same_power_def user_power_def)
  have prov: "kept d0 d \<Longrightarrow> kept d0 (snd (provision_oauth_user E i p f d))" for d
    unfolding provision_oauth_user_def Let_def by (intro kept_intros kept_create)
  show "kept d0 d \<Longrightarrow> kept d0 (snd (resolve_oauth_user E i p f d))"
    unfolding resolve_oauth_user_def
    by (intro kept_intros link prov kept_power_row)
      (auto simp: same_power_def user_power_def follow_profile_def dest: read_user)
  have save: "kept d0 d \<Longrightarrow> kept d0 (snd (save_provider_row D q d))" for D q d
    by (auto simp: save_provider_row_def bindS_def repo_create_def repo_save_def kept_def has_admin_def accounts_providers Let_def
        split: sum.split option.split)
  show "kept d0 d \<Longrightarrow> kept d0 (snd (save_oauth_provider E i inp d))"
    unfolding save_oauth_provider_def Let_def by (intro kept_intros save)
  show "kept d0 d \<Longrightarrow> kept d0 (snd (delete_oauth_provider d))"
    unfolding delete_oauth_provider_def
    by (intro kept_intros) (auto simp: kept_def has_admin_def delete_provider_rows_def accounts_providers)
qed

section \<open>Signing in through the provider\<close>

definition kept_sso :: "auth_db \<Rightarrow> sso_state \<Rightarrow> bool" where
  "kept_sso d0 s = kept d0 (so_db s)"

lemma kept_on_db: "(\<And>d. kept d0 d \<Longrightarrow> kept d0 (snd (m d))) \<Longrightarrow> keeps (kept_sso d0) (on_db m)"
  by (auto simp: keeps_def kept_sso_def on_db_def split: prod.split) (metis snd_conv)

lemma kept_on_states: "keeps (kept_sso d0) (on_states f)"
  by (auto simp: keeps_def kept_sso_def on_states_def split: prod.split)

lemma keeps_sso_cases:
  "(\<And>a b. keeps I (k a b)) \<Longrightarrow> keeps I (case p of (a, b) \<Rightarrow> k a b)"
  by (cases p) simp

lemma kept_start: "keeps (kept_sso d0) (start_oauth E r1 r2)"
  unfolding start_oauth_def by (intro keeps_intros kept_on_db kept_on_states keeps_sso_cases) simp_all

lemma kept_login_oauth: "keeps (kept_sso d0) (login_with_oauth L W E A i sid code state)"
  unfolding login_with_oauth_def
  by (intro keeps_intros kept_on_db kept_on_states keeps_sso_cases kept_oauth kept_issue_session) simp_all

section \<open>Runs\<close>

inductive account_step :: "jwt_lib \<Rightarrow> auth_db \<Rightarrow> auth_db \<Rightarrow> bool" for L where
  Login: "account_step L d (snd (login L E A sid inp d))"
| Login_Two_Factor: "account_step L d (snd (complete_two_factor_login L E A sid ch code d))"
| Refresh: "account_step L d (snd (refresh_session L E A sid t d))"
| Use_Token: "account_step L d (snd (authenticate_api_token E raw d))"
| Begin_Enrolment: "account_step L d (snd (begin_totp_enrollment E raw i d))"
| Confirm_Enrolment: "account_step L d (snd (confirm_totp_enrollment E raws i code d))"
| Disable_Two_Factor: "account_step L d (snd (disable_two_factor E i pw code d))"
| Reset_Two_Factor: "account_step L d (snd (reset_two_factor E i d))"
| Regenerate_Codes: "account_step L d (snd (regenerate_recovery_codes E raws i code d))"
| Create_User: "account_step L d (snd (create_user E i salt cu d))"
| Update_User: "account_step L d (snd (update_user E salt i uu d))"
| Delete_User: "account_step L d (snd (delete_user i d))"
| Sign_Out: "account_step L d (snd (revoke_session E p reason d))"
| Sign_Out_All: "account_step L d (snd (revoke_all_sessions E uid reason d))"
| Prune: "account_step L d (snd (prune_sessions before d))"
| Create_Token: "account_step L d (snd (create_api_token E i raw ct d))"
| Revoke_Token: "account_step L d (snd (revoke_api_token E i d))"
| Bootstrap: "account_step L d (snd (bootstrap E i salt addr pw name d))"
| Save_Provider: "account_step L d (snd (save_oauth_provider E i inp d))"
| Delete_Provider: "account_step L d (snd (delete_oauth_provider d))"

inductive auth_run :: "jwt_lib \<Rightarrow> http_world \<Rightarrow> sso_state \<Rightarrow> sso_state \<Rightarrow> bool" for L W where
  Done: "auth_run L W s s"
| Account: "auth_run L W s t \<Longrightarrow> account_step L (so_db t) d \<Longrightarrow> auth_run L W s (t\<lparr>so_db := d\<rparr>)"
| Start_OAuth: "auth_run L W s t \<Longrightarrow> auth_run L W s (snd (start_oauth E r1 r2 t))"
| Login_OAuth: "auth_run L W s t \<Longrightarrow> auth_run L W s (snd (login_with_oauth L W E A i sid code state t))"

inductive_cases account_stepE: "account_step L d e"

lemma kept_refl: "accounts_ok d \<Longrightarrow> kept d d"
  by (simp add: kept_def)

lemma refresh_reads: "reads (refresh_session L E A sid t)"
  unfolding refresh_session_def Let_def
  by (auto intro!: reads_intros split: option.split sum.split)

lemma kept_account_step: "account_step L d e \<Longrightarrow> kept d0 d \<Longrightarrow> kept d0 e"
proof (induction rule: account_step.induct)
  case (Refresh d E A sid t)
  then show ?case using refresh_reads by (simp add: reads_def)
next
  case (Prune d before)
  have "accounts_ok (snd (prune_sessions before d))" by (rule accounts_sessions(2) [OF keptD [OF Prune]])
  then show ?case by (rule kept_same_users [OF Prune, rotated]) (simp add: prune_sessions_def)
qed (simp_all add: kept_login kept_complete_two_factor_login kept_authenticate kept_enrolment kept_two_factor kept_create_user
    kept_update_user kept_delete_user kept_sessions kept_tokens kept_bootstrap kept_oauth)

lemma kept_run: "auth_run L W s t \<Longrightarrow> accounts_ok (so_db s) \<Longrightarrow> kept (so_db s) (so_db t)"
proof (induction rule: auth_run.induct)
  case (Account s t d)
  then show ?case by (simp add: kept_account_step)
next
  case (Start_OAuth s t E r1 r2)
  then show ?case using keepsD [OF kept_start, of "so_db s" t] by (simp add: kept_sso_def)
next
  case (Login_OAuth s t E A i sid code state)
  then show ?case using keepsD [OF kept_login_oauth, of "so_db s" t] by (simp add: kept_sso_def)
qed (simp add: kept_refl)

definition fresh_sso :: "instant \<Rightarrow> sso_state" where
  "fresh_sso now = \<lparr>so_db = empty_auth, so_states = new_state_store now\<rparr>"

lemma run_accounts_ok: "auth_run L W (fresh_sso now) t \<Longrightarrow> accounts_ok (so_db t)"
  by (drule kept_run) (simp_all add: fresh_sso_def accounts_ok_empty kept_def)

end
