(* ===== verification/SrvMiddleware.thy ===== *)
theory SrvMiddleware
  imports SvcAuth
begin

text \<open>
  \<open>internal/server/middleware/middleware.go\<close>: authentication of a request, the role and scope
  checks of a route, and the rate limiter.  A request is its \<open>Authorization\<close> header and its
  session cookie; what comes out is the refusal or the principal the handlers see.
\<close>

datatype refusal =
    Refused_401 string | Refused_403_role string "string list" | Refused_403_scope string | Refused_503 | Refused_429 string

record request =
  rq_header :: string
  rq_cookie :: "string option"

section \<open>Authentication\<close>

definition bearer_token :: "request \<Rightarrow> string" where
  "bearer_token r =
     (if rq_header r \<noteq> [] then
        (if prefix ''Bearer '' (rq_header r) then trim_space (drop 7 (rq_header r)) else trim_space (rq_header r))
      else (case rq_cookie r of Some c \<Rightarrow> c | None \<Rightarrow> []))"

definition resolve_bearer :: "jwt_lib \<Rightarrow> auth_env \<Rightarrow> authenticator \<Rightarrow> string \<Rightarrow> principal auth" where
  "resolve_bearer L E A raw =
     (if prefix ''certio_'' raw then authenticate_api_token E raw
      else (case parse_token L A (ae_now E) raw of
          None \<Rightarrow> failS bad_login
        | Some c \<Rightarrow> liftE (principal_from_claims c)))"

definition error_text :: "auth_error \<Rightarrow> string" where
  "error_text e = (case e of ECredentials t \<Rightarrow> t | EDisabled \<Rightarrow> ''this account is disabled'' | EValidation t \<Rightarrow> t | _ \<Rightarrow> ''error'')"

definition auth_middleware :: "jwt_lib \<Rightarrow> auth_env \<Rightarrow> authenticator \<Rightarrow> request \<Rightarrow> (auth_db, refusal, principal) op" where
  "auth_middleware L E A r =
     (let raw = bearer_token r in
      if raw = [] then failS (Refused_401 ''authentication required'')
      else
        bindS (map_errS (\<lambda>e. Refused_401 (error_text e)) (resolve_bearer L E A raw)) (\<lambda>p.
        bindS (readS (\<lambda>d. Inr (session_revoked E (Some p) d))) (\<lambda>revoked.
        if revoked then failS (Refused_401 ''this session has been signed out'') else returnS p)))"

section \<open>Roles and scopes\<close>

definition require_role :: "string list \<Rightarrow> principal option \<Rightarrow> refusal + unit" where
  "require_role roles p = (case p of
       None \<Rightarrow> Inl (Refused_401 ''authentication required'')
     | Some q \<Rightarrow> if pr_role q \<in> set roles then Inr () else Inl (Refused_403_role (pr_role q) roles))"

definition require_write :: "principal option \<Rightarrow> refusal + unit" where
  "require_write = require_role [role_admin, role_operator]"

definition require_admin :: "principal option \<Rightarrow> refusal + unit" where
  "require_admin = require_role [role_admin]"

definition require_scope :: "string \<Rightarrow> principal option \<Rightarrow> refusal + unit" where
  "require_scope scope p = (case p of
       None \<Rightarrow> Inl (Refused_401 ''authentication required'')
     | Some q \<Rightarrow> if has_scope (Some q) scope then Inr () else Inl (Refused_403_scope scope))"

definition guard_route :: "(principal option \<Rightarrow> refusal + unit) option \<Rightarrow> string \<Rightarrow> principal option \<Rightarrow> refusal + unit" where
  "guard_route role scope p = (case role of
       None \<Rightarrow> require_scope scope p
     | Some f \<Rightarrow> bindE (f p) (\<lambda>_. require_scope scope p))"

definition read_guard :: "string \<Rightarrow> principal option \<Rightarrow> refusal + unit" where
  "read_guard = guard_route None"

definition write_guard :: "string \<Rightarrow> principal option \<Rightarrow> refusal + unit" where
  "write_guard = guard_route (Some require_write)"

definition admin_guard :: "string \<Rightarrow> principal option \<Rightarrow> refusal + unit" where
  "admin_guard = guard_route (Some require_admin)"

section \<open>Rate limiting\<close>

record window =
  wn_count :: int
  wn_reset :: instant

record limiter =
  rl_hits :: "string \<Rightarrow> window option"
  rl_limit :: int
  rl_window :: duration
  rl_last_gc :: instant

definition new_limiter :: "int \<Rightarrow> duration \<Rightarrow> instant \<Rightarrow> limiter" where
  "new_limiter limit per now = \<lparr>rl_hits = (\<lambda>_. None), rl_limit = (if limit \<le> 0 then 10 else limit),
     rl_window = (if per \<le> 0 then minute else per), rl_last_gc = now\<rparr>"

definition collect_windows :: "instant \<Rightarrow> limiter \<Rightarrow> limiter" where
  "collect_windows now r =
     (if now - rl_last_gc r < rl_window r then r
      else r\<lparr>rl_hits := (\<lambda>k. case rl_hits r k of None \<Rightarrow> None | Some w \<Rightarrow> if wn_reset w < now then None else Some w),
             rl_last_gc := now\<rparr>)"

definition allow :: "string \<Rightarrow> instant \<Rightarrow> limiter \<Rightarrow> (bool \<times> duration) \<times> limiter" where
  "allow key now r =
     (let r = collect_windows now r;
          fresh = ((True, 0), r\<lparr>rl_hits := (rl_hits r)(key \<mapsto> \<lparr>wn_count = 1, wn_reset = now + rl_window r\<rparr>)\<rparr>)
      in case rl_hits r key of
           None \<Rightarrow> fresh
         | Some w \<Rightarrow>
             if wn_reset w < now then fresh
             else let w = w\<lparr>wn_count := wn_count w + 1\<rparr>; r = r\<lparr>rl_hits := (rl_hits r)(key \<mapsto> w)\<rparr>
                  in if rl_limit r < wn_count w then ((False, wn_reset w - now), r) else ((True, 0), r))"

definition principal_key :: "string \<Rightarrow> principal option \<Rightarrow> string" where
  "principal_key ip p = (case p of
       None \<Rightarrow> ip
     | Some q \<Rightarrow> if pr_token q \<noteq> [] then ''token:'' @ pr_token q else ''user:'' @ pr_user q)"

text \<open>The buffer of \<open>itoa\<close> has room for 20 digits, enough for 64 bits.\<close>

fun itoa_loop :: "nat \<Rightarrow> string \<Rightarrow> string" where
  "itoa_loop n buf = (if n = 0 then buf else itoa_loop (n div 10) (char_of (48 + n mod 10) # buf))"

declare itoa_loop.simps [simp del]

definition itoa :: "int \<Rightarrow> string" where
  "itoa n = (if n = 0 then ''0'' else itoa_loop (nat n) [])"

definition format_seconds :: "duration \<Rightarrow> string" where
  "format_seconds d = (let s = trunc_div d second in itoa (if s < 1 then 1 else s))"

definition limit_requests :: "string \<Rightarrow> instant \<Rightarrow> limiter \<Rightarrow> (refusal + unit) \<times> limiter" where
  "limit_requests key now r = (case allow key now r of
       ((True, _), r) \<Rightarrow> (Inr (), r)
     | ((False, after), r) \<Rightarrow> (Inl (Refused_429 (format_seconds after)), r))"

section \<open>Laws\<close>

lemma itoa_loop_digits: "0 < n \<Longrightarrow> itoa_loop n buf = digits_of 10 n @ buf"
proof (induction n buf rule: itoa_loop.induct)
  case (1 n buf)
  have d: "char_of (48 + m) = digit_char m" if "m < 10" for m :: nat using that by (simp add: digit_char_def)
  show ?case
  proof (cases "n < 10")
    case True
    then show ?thesis using 1(2) d by (simp add: itoa_loop.simps [of n] itoa_loop.simps [of 0] digits_of.simps [of 10 n])
  next
    case False
    then have "itoa_loop n buf = itoa_loop (n div 10) (digit_char (n mod 10) # buf)"
      using d by (simp add: itoa_loop.simps [of n])
    also have "\<dots> = digits_of 10 (n div 10) @ digit_char (n mod 10) # buf"
      using 1 False d [of "n mod 10"] by simp
    also have "\<dots> = digits_of 10 n @ buf" using False by (simp add: digits_of.simps [of 10 n])
    finally show ?thesis .
  qed
qed

lemma itoa_dec: "0 \<le> n \<Longrightarrow> itoa n = dec_int n"
proof -
  assume n: "0 \<le> n"
  have "digits_of 10 0 = ''0''" by (simp add: digits_of.simps digit_char_def char_of_eval)
  then show ?thesis using n by (auto simp: itoa_def dec_int_def dec_nat_def itoa_loop_digits)
qed

end
