(* ===== verification/AuthSamples.thy ===== *)
theory AuthSamples
  imports AuthReach SrvMiddleware
begin

text \<open>
  Concrete inputs for the guarantees of signing in: a JWT library with a table of the tokens it has
  signed, simple cryptographic functions, and the states of one small instance.
\<close>

section \<open>A table of signed tokens\<close>

definition within :: "instant \<Rightarrow> claims \<Rightarrow> bool" where
  "within now c = ((case cl_exp c of None \<Rightarrow> True | Some e \<Rightarrow> now < e * second) \<and>
     (case cl_nbf c of None \<Rightarrow> True | Some n \<Rightarrow> n * second \<le> now))"

definition table_jwt :: "(string \<times> claims) list \<Rightarrow> jwt_lib" where
  "table_jwt tb = \<lparr>jl_sign = (\<lambda>_ c. map_option fst (List.find (\<lambda>(t, c'). c' = c) tb)),
     jl_parse = (\<lambda>_ iss now t. case map_of tb t of
        Some c \<Rightarrow> if cl_iss c = iss \<and> within now c then Some c else None | None \<Rightarrow> None)\<rparr>"

lemma table_jwt_ok:
  assumes "distinct (map fst tb)" "list_all (prefix ''eyJ'') (map fst tb)"
  shows "jwt_ok (table_jwt tb)"
proof -
  have "map_of tb t = Some c" if "List.find (\<lambda>(t, c'). c' = c) tb = Some (t, c')" for t c c'
    using assms(1) find_SomeD [OF that] by auto
  moreover have "prefix ''eyJ'' t" if "List.find (\<lambda>(t, c'). c' = c) tb = Some (t, c')" for t c c'
    using assms(2) find_SomeD [OF that] by (auto simp: list_all_iff)
  ultimately show ?thesis
    by (auto simp: jwt_ok_def table_jwt_def within_def split: option.splits if_splits)
qed

section \<open>The instance\<close>

definition demo_kdf :: kdf where
  "demo_kdf p s t m th n = take n (p @ s @ replicate n 0)"

definition demo_mac :: mac where
  "demo_mac key c = replicate 20 0"

definition week :: duration where "week = 7 * 24 * hour"

definition desk :: "instant \<Rightarrow> dialect \<Rightarrow> auth_env" where
  "desk now D = \<lparr>ae_now = now, ae_dialect = D, ae_master = 7, ae_kdf = demo_kdf, ae_digest = (\<lambda>_. []), ae_mac = demo_mac,
     ae_qr = (\<lambda>_. Some []), ae_url = (\<lambda>_. None), ae_base_url = [], ae_refresh_ttl = week\<rparr>"

lemma desk_simps [simp]:
  "ae_now (desk now D) = now" "ae_dialect (desk now D) = D" "ae_master (desk now D) = 7" "ae_kdf (desk now D) = demo_kdf"
  "ae_mac (desk now D) = demo_mac" "ae_refresh_ttl (desk now D) = week"
  by (simp_all add: desk_def)

definition desk_auth :: authenticator where
  "desk_auth = \<lparr>at_secret = ''k'', at_issuer = ''certio'', at_access = hour, at_refresh = week\<rparr>"

definition root_hash :: "string \<Rightarrow> string" where
  "root_hash pw = phc_text [] (demo_kdf (text_octets pw) [] cost_time cost_memory cost_threads digest_len)"

definition root :: "string \<Rightarrow> user" where
  "root pw = (blank_user ''a'' 0)\<lparr>us_email := ''r@x'', us_name := ''Root'', us_password := root_hash pw, us_role := role_admin,
     us_status := status_active\<rparr>"

definition old_pw :: string where "old_pw = ''correct horse''"
definition new_pw :: string where "new_pw = ''battery staple''"

definition with_users :: "user list \<Rightarrow> auth_db" where
  "with_users us = \<lparr>ad_users = us, ad_tokens = [], ad_sessions = [], ad_providers = []\<rparr>"

lemma root_simps [simp]:
  "us_id (root pw) = ''a''" "us_email (root pw) = ''r@x''" "us_name (root pw) = ''Root''" "us_password (root pw) = root_hash pw"
  "us_role (root pw) = role_admin" "us_status (root pw) = status_active" "us_totp_secret (root pw) = None"
  "us_totp_enabled (root pw) = False"
  by (simp_all add: root_def blank_user_def)

lemma demo_digest: "length (demo_kdf p s t m th n) = n"
  by (simp add: demo_kdf_def del: take_append)

lemma root_hash_opens: "verify_password demo_kdf pw (root_hash pw) = Inr ()"
proof -
  let ?d = "demo_kdf (text_octets pw) [] cost_time cost_memory cost_threads digest_len"
  have "length ?d = digest_len" by (rule demo_digest)
  moreover from this have "?d \<noteq> []" by (auto simp: digest_len_def)
  ultimately show ?thesis
    unfolding root_hash_def using verify_hashed [of ?d demo_kdf pw "[]"] by (simp add: digest_len_def max_digest_len_def)
qed

lemma root_hash_nonempty [simp]: "root_hash pw \<noteq> []"
  by (simp add: root_hash_def phc_text_def)

lemma email_text: "to_lower (trim_space ''r@x'') = ''r@x''"
  by (simp add: to_lower_def trim_space_def trim_chars_def trim_left_def trim_right_def is_space_def is_upper_def lower_char_def)

lemma first_admin:
  "bootstrap (desk 0 Sqlite) ''a'' [] ''r@x'' old_pw ''Root'' empty_auth = (Inr (Some (root old_pw)), with_users [root old_pw])"
proof -
  have "hash_password demo_kdf [] old_pw = Inr (root_hash old_pw)" by (simp add: hash_password_def root_hash_def old_pw_def)
  then show ?thesis
    by (simp add: bootstrap_def create_user_def count_users_def empty_auth_def with_users_def bindS_def Let_def email_text
        check_password_length_def old_pw_def or_else_def validate_role_def guardE_def role_admin_def auth_op_def map_errS_def
        create_user_row_def repo_create_def tbl_has_def user_clash_def fits_def user_defaults_def root_def)
qed

definition no_network :: http_world where
  "no_network = \<lparr>hw_post = (\<lambda>_ _ _. Inl ([], 0)), hw_get = (\<lambda>_ _. Inl [])\<rparr>"

section \<open>A session\<close>

definition desk_jwt :: "instant \<Rightarrow> jwt_lib" where
  "desk_jwt t = table_jwt
     [(''eyJ1'', claims_of desk_auth (root old_pw) type_access (t + hour) t ''s1''),
      (''eyJ2'', claims_of desk_auth (root old_pw) type_refresh (t + week) t ''s1'')]"

definition desk_pair :: "instant \<Rightarrow> token_pair" where
  "desk_pair t = \<lparr>tp_access = ''eyJ1'', tp_refresh = ''eyJ2'', tp_expires_in = trunc_div hour second, tp_expires_at = t + hour,
     tp_session = ''s1'', tp_session_expiry = t + week\<rparr>"

lemma desk_jwt_ok: "jwt_ok (desk_jwt t)"
  unfolding desk_jwt_def by (rule table_jwt_ok) simp_all

lemma desk_issued: "issue_for_session (desk_jwt t) desk_auth t (root pw) ''s1'' = Inr (desk_pair t)"
  by (simp add: issue_for_session_def Let_def sign_token_def desk_jwt_def table_jwt_def claims_of_def desk_auth_def type_access_def
      type_refresh_def desk_pair_def)

definition cookie :: "string \<Rightarrow> request" where
  "cookie t = \<lparr>rq_header = [], rq_cookie = Some t\<rparr>"

lemma cookie_bearer [simp]: "bearer_token (cookie t) = t"
  by (simp add: cookie_def bearer_token_def)

definition root_principal :: principal where
  "root_principal = \<lparr>pr_user = ''a'', pr_email = ''r@x'', pr_name = ''Root'', pr_role = role_admin, pr_token = [], pr_scopes = [],
     pr_session = ''s1'', pr_session_expiry = hour\<rparr>"

lemma times: "second = 1000000000" "minute = 60000000000" "hour = 3600000000000" "week = 604800000000000"
  by (simp_all add: second_def minute_def hour_def week_def)

lemma admitted_root: "auth_middleware (desk_jwt 0) (desk minute D) desk_auth (cookie ''eyJ1'') (with_users us) = (Inr root_principal, with_users us)"
  by (simp add: auth_middleware_def Let_def bindS_def map_errS_def resolve_bearer_def parse_token_def desk_jwt_def table_jwt_def
      within_def claims_of_def desk_auth_def unix_def times principal_from_claims_def root_principal_def session_revoked_def
      is_revoked_def with_users_def)

definition out_db :: auth_db where
  "out_db = (with_users [root old_pw])\<lparr>ad_sessions := [\<lparr>rs_session = ''s1'', rs_user = ''a'', rs_reason = ''bye'',
     rs_expires = hour + week, rs_revoked = minute\<rparr>]\<rparr>"

lemma signed_out: "revoke_session (desk minute Sqlite) (Some root_principal) ''bye'' (with_users [root old_pw]) = (Inr (), out_db)"
  by (simp add: revoke_session_def auth_op_def map_errS_def revoke_session_row_def fits_def root_principal_def with_users_def tbl_has_def
      out_db_def)

section \<open>A change of password\<close>

definition change_pw :: update_user_input where
  "change_pw = \<lparr>uu_name = None, uu_role = None, uu_status = None, uu_password = Some new_pw\<rparr>"

definition changed_db :: auth_db where
  "changed_db = (with_users [root new_pw])\<lparr>ad_sessions := [\<lparr>rs_session = ''user:a'', rs_user = ''a'', rs_reason = ''account changed'',
     rs_expires = 2 * week, rs_revoked = 0\<rparr>]\<rparr>"

lemma changed: "update_user (desk 0 Sqlite) [] ''a'' change_pw (with_users [root old_pw]) = (Inr (root new_pw), changed_db)"
proof -
  have h: "hash_password demo_kdf [] new_pw = Inr (root_hash new_pw)" by (simp add: hash_password_def root_hash_def new_pw_def)
  have c: "check_password_length new_pw = Inr ()" by (simp add: check_password_length_def new_pw_def)
  have u: "root old_pw\<lparr>us_password := root_hash new_pw\<rparr> = root new_pw" by (simp add: root_def blank_user_def)
  have "apply_update (desk 0 Sqlite) [] change_pw (root old_pw) = Inr (root new_pw)"
    by (simp add: apply_update_def change_pw_def h c u bindE_def)
  then show ?thesis
    by (simp add: update_user_def auth_read_def bindS_def get_user_def tbl_get_def with_users_def losing_admin_def gives_up_def
        change_pw_def guardE_def auth_op_def map_errS_def update_user_row_def repo_save_def user_clash_def fits_def tbl_put_def tbl_has_def
        ends_sessions_def revoke_all_sessions_def revoke_all_rows_def revoke_session_row_def all_sessions_key_def changed_db_def)
qed

definition new_login :: login_input where
  "new_login = \<lparr>li_email = ''r@x'', li_password = new_pw, li_code = []\<rparr>"

definition new_result :: login_result where
  "new_result = \<lparr>lr_tokens = Some (desk_pair minute), lr_user = root new_pw, lr_two_factor = False, lr_challenge = [],
     lr_challenge_expires = 0, lr_used_recovery = False, lr_remaining = 0\<rparr>"

definition relogin_db :: auth_db where
  "relogin_db = touch_login minute ''a'' changed_db"

lemma root_no_second [simp]: "has_two_factor (root pw) = False" "is_active (root pw) = True" "recovery_remaining (root pw) = 0"
  by (simp_all add: has_two_factor_def is_active_def recovery_remaining_def root_def blank_user_def)

lemma relogin: "login (desk_jwt minute) (desk minute Sqlite) desk_auth ''s1'' new_login changed_db = (Inr new_result, relogin_db)"
  by (simp add: login_def bindS_def user_by_email_def new_login_def email_text tbl_get_def changed_db_def with_users_def Let_def
      root_hash_opens complete_login_def issue_session_def desk_issued new_result_def relogin_db_def)

section \<open>An account on PostgreSQL\<close>

definition long_id :: string where "long_id = replicate 36 CHR ''b''"

definition clerk :: "string \<Rightarrow> user" where
  "clerk st = (blank_user long_id 0)\<lparr>us_email := ''c@x'', us_role := role_viewer, us_status := st\<rparr>"

definition suspend :: update_user_input where
  "suspend = \<lparr>uu_name = None, uu_role = None, uu_status = Some ''disabled'', uu_password = None\<rparr>"

lemma suspended:
  "update_user (desk 0 Postgres) [] long_id suspend (with_users [clerk status_active]) = (Inr (clerk ''disabled''), with_users [clerk ''disabled''])"
  by (simp add: update_user_def auth_read_def bindS_def get_user_def tbl_get_def with_users_def losing_admin_def gives_up_def clerk_def
      suspend_def guardE_def auth_op_def map_errS_def update_user_row_def repo_save_def user_clash_def fits_def tbl_put_def tbl_has_def
      ends_sessions_def revoke_all_sessions_def revoke_all_rows_def revoke_session_row_def all_sessions_key_def apply_update_def
      blank_user_def long_id_def role_viewer_def role_admin_def status_active_def bindE_def)

section \<open>An account with a second factor\<close>

definition wary :: user where
  "wary = (root old_pw)\<lparr>us_totp_enabled := True, us_totp_secret := Some (7, ''AAAA'')\<rparr>"

definition code_login :: login_input where
  "code_login = \<lparr>li_email = ''r@x'', li_password = old_pw, li_code = ''000000''\<rparr>"

lemma zero_code: "hotp demo_mac key c = ''000000''"
proof -
  have "digits_of 10 0 = ''0''" by (simp add: digits_of.simps [of 10 0] digit_char_def char_of_eval)
  then show ?thesis
    by (simp add: hotp_def demo_mac_def word_of_octets_def pad_zeros_def totp_digits_def dec_nat_def numeral_eq_Suc)
qed

lemma zero_step: "verify_totp_step demo_mac ''AAAA'' ''000000'' minute = Some 3"
proof -
  have "b32_values (filter (\<lambda>c. ord c \<noteq> 10 \<and> ord c \<noteq> 13) ''AAAA'') = Some [0, 0, 0, 0]"
    by (simp add: b32_val_def is_upper_def)
  then obtain key where d: "decode_totp_secret ''AAAA'' = Inr key"
    by (simp add: decode_totp_secret_def b32_decode_def remove_chars_def to_upper_def upper_char_def is_lower_def of_opt_def)
  have n: "normalize_totp_code ''000000'' = ''000000''" by (simp add: normalize_totp_code_def is_digit_def)
  have "totp_counter minute = 2" by (simp add: totp_counter_def unix_def times totp_period_def trunc_div_def)
  then have steps: "map ((+) (totp_counter minute)) [- totp_skew .. totp_skew] = [1, 2, 3]"
    by (simp add: totp_skew_def upto_rec1)
  show ?thesis
    unfolding verify_totp_step_def d n steps by (simp add: totp_digits_def zero_code)
qed

definition used_db :: auth_db where
  "used_db = touch_login minute ''a'' (with_users [wary\<lparr>us_totp_last_step := 3\<rparr>])"

definition code_result :: login_result where
  "code_result = \<lparr>lr_tokens = Some (desk_pair minute), lr_user = wary\<lparr>us_totp_last_step := 3\<rparr>, lr_two_factor = False, lr_challenge = [],
     lr_challenge_expires = 0, lr_used_recovery = False, lr_remaining = 0\<rparr>"

lemma wary_simps [simp]:
  "us_id wary = ''a''" "us_email wary = ''r@x''" "us_password wary = root_hash old_pw" "us_totp_secret wary = Some (7, ''AAAA'')"
  "us_totp_enabled wary = True" "us_totp_last_step wary = 0" "us_status wary = status_active" "us_recovery wary = []"
  by (simp_all add: wary_def root_def blank_user_def)

lemma wary_issued: "issue_for_session (desk_jwt t) desk_auth t (wary\<lparr>us_totp_last_step := n\<rparr>) ''s1'' = Inr (desk_pair t)"
proof -
  have "claims_of A (wary\<lparr>us_totp_last_step := n\<rparr>) ty e now sid = claims_of A (root old_pw) ty e now sid" for A ty e now sid
    by (simp add: claims_of_def wary_def)
  then show ?thesis using desk_issued [of t old_pw] by (simp add: issue_for_session_def sign_token_def)
qed

lemma code_trim: "trim_space ''000000'' = ''000000''"
  by (simp add: trim_space_def trim_chars_def trim_left_def trim_right_def is_space_def)

lemma code_accepted:
  "login (desk_jwt minute) (desk minute Sqlite) desk_auth ''s1'' code_login (with_users [wary]) = (Inr code_result, used_db)"
proof -
  have "verify_second_factor (desk minute Sqlite) wary ''000000'' (with_users [wary]) =
      (Inr (False, wary\<lparr>us_totp_last_step := 3\<rparr>), with_users [wary\<lparr>us_totp_last_step := 3\<rparr>])"
    by (simp add: verify_second_factor_def Let_def code_trim open_totp_secret_def bindS_def zero_step auth_op_def map_errS_def
        update_user_row_def repo_save_def user_clash_def fits_def tbl_put_def tbl_has_def with_users_def)
  moreover have "has_two_factor wary" "is_active wary" by (simp_all add: has_two_factor_def is_active_def)
  moreover have "user_by_email ''r@x'' (with_users [wary]) = Inr wary"
    by (simp add: user_by_email_def email_text tbl_get_def with_users_def)
  ultimately show ?thesis
    by (simp add: login_def bindS_def code_login_def Let_def root_hash_opens complete_login_def issue_session_def wary_issued
        recovery_remaining_def code_result_def used_db_def)
qed

end
