(* ===== verification/AuthGuarantees.thy ===== *)
theory AuthGuarantees
  imports AuthSamples
begin

text \<open>
  What the sign-in services and the authentication middleware guarantee: administrators, sessions
  that end, the credentials behind every admitted request, and second factors that work once.
\<close>

section \<open>Tokens\<close>

lemma unix_le: "unix t * second \<le> t"
  by (simp add: unix_def second_def)

lemma signed_parses:
  assumes "jwt_ok L" "jl_sign L s c = Some t" "jl_parse L s iss now t = Some c'"
  shows "c' = c" "\<And>e. cl_exp c = Some e \<Longrightarrow> now < e * second"
  using assms unfolding jwt_ok_def by blast+

lemma signed_bearer:
  assumes "jwt_ok L" "jl_sign L s c = Some t"
  shows "t \<noteq> []" "\<not> prefix ''certio_'' t"
proof -
  have "prefix ''eyJ'' t" using assms unfolding jwt_ok_def by blast
  then show "t \<noteq> []" "\<not> prefix ''certio_'' t" by (auto simp: prefix_def)
qed

lemma issued_pair:
  assumes "issue_for_session L A t u sid = Inr pair"
  shows "jl_sign L (at_secret A) (claims_of A u type_access (t + at_access A) t sid) = Some (tp_access pair)"
    "jl_sign L (at_secret A) (claims_of A u type_refresh (t + at_refresh A) t sid) = Some (tp_refresh pair)"
  using assms by (auto simp: issue_for_session_def sign_token_def Let_def bindE_Inr_iff of_opt_def split: option.splits)

lemmas token_types = type_access_def type_refresh_def type_challenge_def

section \<open>Requests\<close>

lemma session_revoked_is:
  "session_revoked E (Some p) d = (pr_session p \<noteq> [] \<and> is_revoked (ae_now E) (pr_session p) (pr_user p) d)"
  by (simp add: session_revoked_def)

text \<open>A bearer that is not an API token is a JWT, and reading it changes nothing.\<close>

lemma resolve_jwt:
  assumes "\<not> prefix ''certio_'' raw"
  shows "resolve_bearer L E A raw d = (case parse_token L A (ae_now E) raw of
       None \<Rightarrow> Inl bad_login | Some c \<Rightarrow> principal_from_claims c, d)"
  using assms by (simp add: resolve_bearer_def split: option.split)

text \<open>A request with a JWT is admitted exactly when the token parses, is an access token and its session is not denied.\<close>

lemma admitted_jwt:
  assumes "bearer_token r = raw" "raw \<noteq> []" "\<not> prefix ''certio_'' raw"
  shows "auth_middleware L E A r d = (Inr p, d') \<longleftrightarrow>
     d' = d \<and> (\<exists>c. parse_token L A (ae_now E) raw = Some c \<and> principal_from_claims c = Inr p) \<and> \<not> session_revoked E (Some p) d"
  using assms
  by (auto simp: auth_middleware_def bindS_Inr_iff resolve_jwt map_errS_def split: option.splits if_splits)

lemma middleware_refuses:
  assumes "bearer_token r = raw" "raw \<noteq> []" "\<not> prefix ''certio_'' raw"
    "\<And>c p. parse_token L A (ae_now E) raw = Some c \<Longrightarrow> principal_from_claims c = Inr p \<Longrightarrow> session_revoked E (Some p) d"
  shows "\<exists>e. auth_middleware L E A r d = (Inl e, d)"
proof -
  have "\<exists>e. resolve_bearer L E A raw d = (Inl e, d) \<or> (\<exists>p. resolve_bearer L E A raw d = (Inr p, d) \<and> session_revoked E (Some p) d)"
    using assms(3,4) by (cases "parse_token L A (ae_now E) raw"; cases "principal_from_claims (the (parse_token L A (ae_now E) raw))")
      (auto simp: resolve_jwt)
  then show ?thesis
    using assms(1,2) by (auto simp: auth_middleware_def Let_def bindS_def map_errS_def)
qed

lemma principal_claims:
  "principal_from_claims c = Inr p \<Longrightarrow> cl_typ c = type_access \<and> cl_sub c \<noteq> [] \<and> pr_user p = cl_sub c \<and> pr_session p = cl_sid c \<and>
     pr_role p = cl_role c \<and> pr_token p = [] \<and> pr_session_expiry p = (case cl_exp c of None \<Rightarrow> zero_time | Some e \<Rightarrow> e * second)"
  by (auto simp: principal_from_claims_def split: if_splits)

section \<open>Denied sessions\<close>

text \<open>While a row of the denylist covers the session, neither token of any pair works.\<close>

lemma denied_pair:
  assumes "jwt_ok L" "issue_for_session L A t u sid = Inr pair" "sid \<noteq> []"
    "ae_now E < t + at_access A \<or> ae_now E < t + at_refresh A \<Longrightarrow> is_revoked (ae_now E) sid (us_id u) d"
  shows "\<exists>e. refresh_session L E A fresh (tp_refresh pair) d = (Inl e, d)"
    and "bearer_token r = tp_access pair \<Longrightarrow> \<exists>e. auth_middleware L E A r d = (Inl e, d)"
proof -
  note signed = issued_pair [OF assms(2)]
  have denied: "is_revoked (ae_now E) sid (us_id u) d"
    if "parse_token L A (ae_now E) x = Some c" "jl_sign L (at_secret A) (claims_of A u ty (t + ttl) t sid) = Some x"
      "ttl = at_access A \<or> ttl = at_refresh A" for x c ty ttl
  proof -
    have "ae_now E < unix (t + ttl) * second"
      using signed_parses(2) [OF assms(1) that(2) that(1) [unfolded parse_token_def]] by (simp add: claims_of_def)
    then have "ae_now E < t + ttl" using unix_le by (rule less_le_trans)
    then show ?thesis using assms(4) that(3) by blast
  qed
  show "\<exists>e. refresh_session L E A fresh (tp_refresh pair) d = (Inl e, d)"
  proof (cases "parse_token L A (ae_now E) (tp_refresh pair)")
    case (Some c)
    then have c: "c = claims_of A u type_refresh (t + at_refresh A) t sid"
      using signed_parses(1) [OF assms(1) signed(2)] by (simp add: parse_token_def)
    have "is_revoked (ae_now E) sid (us_id u) d" using denied [OF Some signed(2)] by blast
    then show ?thesis using Some c by (simp add: refresh_session_def claims_of_def bindS_def)
  qed (simp add: refresh_session_def)
  show "\<exists>e. auth_middleware L E A r d = (Inl e, d)" if "bearer_token r = tp_access pair"
  proof (rule middleware_refuses [OF that signed_bearer [OF assms(1) signed(1)]])
    fix c p
    assume c: "parse_token L A (ae_now E) (tp_access pair) = Some c" "principal_from_claims c = Inr p"
    then have "c = claims_of A u type_access (t + at_access A) t sid"
      using signed_parses(1) [OF assms(1) signed(1)] by (simp add: parse_token_def)
    then show "session_revoked E (Some p) d"
      using denied [OF c(1) signed(1)] principal_claims [OF c(2)] assms(3) by (simp add: session_revoked_is claims_of_def)
  qed
qed

section \<open>Rows of the denylist\<close>

lemma revoke_row_denies:
  assumes "revoke_session_row D now key uid reason until d = (Inr x, d')" "key \<notin> rs_session ` set (ad_sessions d)" "at < until"
    "key = sid \<or> uid' \<noteq> [] \<and> key = all_sessions_key uid'"
  shows "is_revoked at sid uid' d'"
  using assms by (auto simp: revoke_session_row_def is_revoked_iff tbl_has_iff split: if_splits)

lemma same_sessions: "ad_sessions e = ad_sessions d \<Longrightarrow> is_revoked now sid uid e = is_revoked now sid uid d"
  by (simp add: is_revoked_def)

lemma update_user_sessions:
  assumes "update_user E salt i inp d = (Inr u, d')"
  obtains e where "us_id u = i" "ad_sessions e = ad_sessions d"
    "d' = (if ends_sessions inp then snd (revoke_all_sessions E i ''account changed'' e) else e)"
proof -
  have "\<exists>v w. get_user i d = Inr w \<and> apply_update E salt inp w = Inr u \<and> update_user_row (ae_dialect E) u d = (Inr (), v) \<and>
      d' = (if ends_sessions inp then snd (revoke_all_sessions E (us_id u) ''account changed'' v) else v)"
    using assms
    by (cases "ends_sessions inp") (auto simp: update_user_def bindS_Inr_iff auth_read_def auth_op_def whenS_def)
  then obtain v w where vw: "get_user i d = Inr w" "apply_update E salt inp w = Inr u"
      "update_user_row (ae_dialect E) u d = (Inr (), v)"
      "d' = (if ends_sessions inp then snd (revoke_all_sessions E (us_id u) ''account changed'' v) else v)" by blast
  have "us_id u = i" using apply_update_power [OF vw(2)] read_user(1) [OF vw(1)] by simp
  moreover have "ad_sessions v = ad_sessions d" using vw(3) by (auto simp: update_user_row_def dest!: repo_save_ok)
  ultimately show ?thesis using vw(4) that by metis
qed

text \<open>What a sign-in writes leaves the denylist alone.\<close>

lemma complete_login_sessions:
  assumes "complete_login L E A sid u code d = (Inr r, d')"
  obtains v pair where "us_id v = us_id u" "lr_user r = v" "lr_tokens r = Some pair"
    "issue_for_session L A (ae_now E) v sid = Inr pair" "ad_sessions d' = ad_sessions d"
proof -
  obtain x e where x: "(if has_two_factor u then verify_second_factor E u code else returnS (False, u)) d = (Inr x, e)"
      "(case x of (used, v) \<Rightarrow> bindS (issue_session L E A sid v)
        (\<lambda>r. returnS (r\<lparr>lr_used_recovery := used, lr_remaining := recovery_remaining v\<rparr>))) e = (Inr r, d')"
    by (rule bindS_InrE [OF assms [unfolded complete_login_def]])
  obtain used v where uv: "x = (used, v)" by (cases x)
  note v = x(1) [unfolded uv] and s = x(2) [unfolded uv prod.case]
  have "user_power v = user_power u \<and> ad_sessions e = ad_sessions d"
    using v by (auto simp: update_user_row_def split: if_splits dest!: second_factor_ok repo_save_ok)
  moreover obtain pair where "issue_for_session L A (ae_now E) v sid = Inr pair" "lr_user r = v" "lr_tokens r = Some pair"
      "ad_sessions d' = ad_sessions e"
    using s by (auto simp: issue_session_def bindS_Inr_iff touch_login_def)
  ultimately show ?thesis by (intro that [of v pair]) (simp_all add: user_power_def)
qed

lemma login_steps:
  assumes "login L E A sid inp d = (Inr r, d')" "lr_tokens r \<noteq> None"
  shows "\<exists>u. user_by_email (li_email inp) d = Inr u \<and> verify_password (ae_kdf E) (li_password inp) (us_password u) = Inr () \<and>
    us_password u \<noteq> [] \<and> is_active u \<and> (has_two_factor u \<longrightarrow> li_code inp \<noteq> []) \<and>
    complete_login L E A sid u (if has_two_factor u then li_code inp else []) d = (Inr r, d')"
proof (cases "user_by_email (li_email inp) d")
  case (Inr u)
  then show ?thesis
    using assms by (cases "us_password u = []"; cases "has_two_factor u")
      (auto simp: login_def bindS_Inr_iff Let_def split: if_splits)
qed (use assms in \<open>simp add: login_def bindS_def\<close>)

lemma login_pair:
  assumes "login L E A sid inp d = (Inr r, d')" "lr_tokens r = Some pair"
  shows "issue_for_session L A (ae_now E) (lr_user r) sid = Inr pair \<and> ad_sessions d' = ad_sessions d"
proof -
  obtain u code where "complete_login L E A sid u code d = (Inr r, d')"
    using login_steps [OF assms(1)] assms(2) by auto
  then show ?thesis using assms(2) by (elim complete_login_sessions) auto
qed

section \<open>A second factor that was used\<close>

lemma second_factor_spent:
  assumes "verify_second_factor E u raw d = (Inr (used, v), e)"
    and "us_totp_secret w = us_totp_secret v" "us_totp_last_step w = us_totp_last_step v" "us_recovery w = us_recovery v"
  shows "verify_second_factor E w raw d' = (Inl ETwoFactorCode, d')"
proof -
  obtain secret where s: "trim_space raw \<noteq> []" "open_totp_secret E u = Inr secret"
    using assms(1) by (auto simp: verify_second_factor_def Let_def bindS_Inr_iff split: if_splits)
  have w: "open_totp_secret E w = Inr secret"
    using assms s(2)
    by (auto simp: verify_second_factor_def Let_def bindS_Inr_iff auth_op_def open_totp_secret_def consume_recovery_code_def
        split: if_splits option.splits)
  show ?thesis
  proof (cases "verify_totp_step (ae_mac E) secret (trim_space raw) (ae_now E)")
    case (Some step)
    then have "us_totp_last_step v = step"
      using assms(1) s by (auto simp: verify_second_factor_def Let_def bindS_Inr_iff auth_op_def split: if_splits)
    then show ?thesis using Some s(1) w assms(3) by (simp add: verify_second_factor_def Let_def bindS_def)
  next
    case None
    then have "consume_recovery_code E u (trim_space raw) = Some v"
      using assms(1) s
      by (auto simp: verify_second_factor_def Let_def bindS_Inr_iff auth_op_def split: if_splits option.splits)
    then have "consume_recovery_code E w (trim_space raw) = None"
      using assms(4) by (auto simp: consume_recovery_code_def Let_def split: if_splits)
    then show ?thesis using None s(1) w by (simp add: verify_second_factor_def Let_def bindS_def)
  qed
qed

text \<open>The second factor a verification leaves on the row is the one it read, but for the step and the recovery codes.\<close>

lemma second_factor_row:
  assumes "verify_second_factor E u raw d = (Inr (used, v), e)"
  shows "us_email v = us_email u \<and> us_password v = us_password u \<and> us_status v = us_status u \<and> has_two_factor v = has_two_factor u"
  using assms
  by (auto simp: verify_second_factor_def Let_def bindS_Inr_iff auth_op_def consume_recovery_code_def has_two_factor_def
      split: if_splits option.splits)

lemma touched_email:
  assumes "accounts_ok d" "v \<in> set (ad_users d)" "to_lower (trim_space e) = us_email v"
  shows "user_by_email e (touch_login now (us_id v) d) = Inr (v\<lparr>us_last_login := Some now\<rparr>)"
proof -
  let ?d = "touch_login now (us_id v) d"
  have "distinct (map us_email (ad_users ?d))" using accounts_touch(1) [OF assms(1)] by (simp add: accounts_ok_def)
  moreover have "v\<lparr>us_last_login := Some now\<rparr> \<in> set (ad_users ?d)"
    using assms(2) by (auto simp: touch_login_def set_tbl_set)
  ultimately show ?thesis using assms(3) by (simp add: user_by_email_def tbl_get_iff)
qed

section \<open>Guarantees\<close>

text \<open>C18: along every run of the account, two-factor and single sign-on services from an empty instance, an instance that has
  an active administrator keeps one.\<close>

theorem administrators_remain:
  assumes "auth_run L W (fresh_sso now) s" "auth_run L W s t"
    and "u \<in> set (ad_users (so_db s))" "us_role u = role_admin" "us_status u = status_active"
  shows "\<exists>v \<in> set (ad_users (so_db t)). us_role v = role_admin \<and> us_status v = status_active"
  using kept_run [OF assms(2) run_accounts_ok [OF assms(1)]] assms(3-5)
  by (auto simp: kept_def has_admin_def admin_user_def)

theorem administrators_remain_witness:
  "auth_run (desk_jwt 0) no_network (fresh_sso 0) (fresh_sso 0\<lparr>so_db := with_users [root old_pw]\<rparr>) \<and>
   (\<exists>v \<in> set (ad_users (so_db (fresh_sso 0\<lparr>so_db := snd (delete_user ''a'' (with_users [root old_pw]))\<rparr>))).
      us_role v = role_admin \<and> us_status v = status_active)"
proof -
  let ?s = "fresh_sso 0\<lparr>so_db := with_users [root old_pw]\<rparr>"
  have "account_step (desk_jwt 0) empty_auth (with_users [root old_pw])"
    using Bootstrap [of "desk_jwt 0" empty_auth "desk 0 Sqlite" "''a''" "[]" "''r@x''" old_pw "''Root''"] by (simp add: first_admin)
  then have s: "auth_run (desk_jwt 0) no_network (fresh_sso 0) ?s"
    using Account [OF Done, of "desk_jwt 0" "fresh_sso 0"] by (simp add: fresh_sso_def)
  have t: "auth_run (desk_jwt 0) no_network ?s (fresh_sso 0\<lparr>so_db := snd (delete_user ''a'' (with_users [root old_pw]))\<rparr>)"
    using Account [OF Done [of "desk_jwt 0" no_network ?s] Delete_User, of "''a''"] by simp
  show ?thesis
    using s administrators_remain [OF s t, of "root old_pw"] by (simp add: with_users_def)
qed

text \<open>C6: once a session is signed out with an access token of the session, no pair of tokens issued for the session up to
  then works again: no refresh succeeds and no request is admitted, whenever they come and whatever has been pruned.\<close>

theorem signed_out_session_is_dead:
  assumes "jwt_ok L" "ae_refresh_ttl E = at_refresh A" "at_access A \<le> at_refresh A" "sid \<noteq> []"
    and "issue_for_session L A t0 u0 sid = Inr pair0" "bearer_token r = tp_access pair0" "auth_middleware L E A r d = (Inr p, d1)"
    and "sid \<notin> rs_session ` set (ad_sessions d)" "revoke_session E (Some p) reason d1 = (Inr (), d2)"
    and "issue_for_session L A t u sid = Inr pair" "t \<le> ae_now E"
    and "before \<le> ae_now E'" "d3 = snd (prune_sessions before d2)"
  shows "(\<exists>e. refresh_session L E' A fresh (tp_refresh pair) d3 = (Inl e, d3)) \<and>
    (\<forall>r'. bearer_token r' = tp_access pair \<longrightarrow> (\<exists>e. auth_middleware L E' A r' d3 = (Inl e, d3)))"
proof -
  note signed = issued_pair(1) [OF assms(5)]
  have m: "d1 = d \<and> (\<exists>c. parse_token L A (ae_now E) (tp_access pair0) = Some c \<and> principal_from_claims c = Inr p)"
    using assms(7) admitted_jwt [OF assms(6) signed_bearer [OF assms(1) signed]] by blast
  then obtain c where c: "jl_parse L (at_secret A) (at_issuer A) (ae_now E) (tp_access pair0) = Some c" "principal_from_claims c = Inr p"
    by (auto simp: parse_token_def)
  have cl: "c = claims_of A u0 type_access (t0 + at_access A) t0 sid" by (rule signed_parses(1) [OF assms(1) signed c(1)])
  have p: "pr_session p = sid" "pr_session_expiry p = unix (t0 + at_access A) * second"
    using principal_claims [OF c(2)] by (simp_all add: cl claims_of_def)
  have later: "ae_now E < pr_session_expiry p"
    using signed_parses(2) [OF assms(1) signed c(1)] p by (simp add: claims_of_def)
  have revoked: "revoke_session_row (ae_dialect E) (ae_now E) sid (pr_user p) reason (pr_session_expiry p + ae_refresh_ttl E) d = (Inr (), d2)"
    using assms(4,9) p m by (simp add: revoke_session_def auth_op_def)
  have denied: "is_revoked (ae_now E') sid (us_id u) d3" if "ae_now E' < t + at_access A \<or> ae_now E' < t + at_refresh A"
  proof -
    have "ae_now E' < pr_session_expiry p + ae_refresh_ttl E" using that later assms(2,3,11) by linarith
    then have "is_revoked (ae_now E') sid (us_id u) d2" by (rule revoke_row_denies [OF revoked assms(8)]) simp
    then show ?thesis using assms(12,13) by (simp add: prune_keeps_denied)
  qed
  show ?thesis
    using denied_pair [OF assms(1,10,4), of E' d3] denied by blast
qed

theorem signed_out_session_is_dead_witness:
  "(\<exists>e. refresh_session (desk_jwt 0) (desk (2 * minute) Sqlite) desk_auth [] ''eyJ2'' out_db = (Inl e, out_db)) \<and>
   (\<exists>e. auth_middleware (desk_jwt 0) (desk (2 * minute) Sqlite) desk_auth (cookie ''eyJ1'') out_db = (Inl e, out_db))"
proof -
  have prune: "out_db = snd (prune_sessions minute out_db)"
    by (simp add: prune_sessions_def out_db_def times with_users_def)
  have h: "(\<exists>e. refresh_session (desk_jwt 0) (desk (2 * minute) Sqlite) desk_auth [] (tp_refresh (desk_pair 0)) out_db = (Inl e, out_db)) \<and>
    (\<forall>r. bearer_token r = tp_access (desk_pair 0) \<longrightarrow>
      (\<exists>e. auth_middleware (desk_jwt 0) (desk (2 * minute) Sqlite) desk_auth r out_db = (Inl e, out_db)))"
    by (rule signed_out_session_is_dead [OF desk_jwt_ok _ _ _ desk_issued _ admitted_root _ signed_out desk_issued _ _ prune])
      (simp_all add: desk_auth_def times desk_pair_def with_users_def)
  then show ?thesis by (simp add: desk_pair_def)
qed

text \<open>On SQLite a change of password does end the sessions of the account, but it also denies those opened afterwards: whoever
  signs in with the new password within twice the refresh lifetime gets a pair whose tokens are all refused.\<close>

theorem password_change_locks_out:
  assumes "jwt_ok L" "update_user E salt i inp d = (Inr v, d1)" "uu_password inp \<noteq> None" "ae_dialect E = Sqlite"
    and "i \<noteq> []" "all_sessions_key i \<notin> rs_session ` set (ad_sessions d)"
    and "login L E' A sid linp d1 = (Inr lr, d2)" "us_id (lr_user lr) = i" "lr_tokens lr = Some pair" "sid \<noteq> []"
    and "ae_now E'' < ae_now E + 2 * ae_refresh_ttl E"
  shows "(\<exists>e. refresh_session L E'' A fresh (tp_refresh pair) d2 = (Inl e, d2)) \<and>
    (\<forall>r. bearer_token r = tp_access pair \<longrightarrow> (\<exists>e. auth_middleware L E'' A r d2 = (Inl e, d2)))"
proof -
  obtain e where e: "ad_sessions e = ad_sessions d" "d1 = snd (revoke_all_sessions E i ''account changed'' e)"
    using assms(2,3) by (elim update_user_sessions) (auto simp: ends_sessions_def split: if_splits)
  have "revoke_session_row (ae_dialect E) (ae_now E) (all_sessions_key i) i ''account changed'' (ae_now E + ae_refresh_ttl E * 2) e = (Inr (), d1)"
    using e assms(4) by (simp add: revoke_all_sessions_def revoke_all_rows_def auth_op_def revoke_session_row_def fits_def)
  then have "is_revoked (ae_now E'') sid i d1"
    by (rule revoke_row_denies) (use e assms(5,6,11) in auto)
  moreover note pair = login_pair [OF assms(7,9)]
  ultimately have "is_revoked (ae_now E'') sid (us_id (lr_user lr)) d2"
    using same_sessions [of d2 d1] assms(8) by simp
  then show ?thesis using denied_pair [OF assms(1) conjunct1 [OF pair] assms(10), of E'' d2] by blast
qed

theorem password_change_locks_out_witness:
  "(\<exists>e. refresh_session (desk_jwt minute) (desk hour Sqlite) desk_auth [] ''eyJ2'' relogin_db = (Inl e, relogin_db)) \<and>
   (\<exists>e. auth_middleware (desk_jwt minute) (desk hour Sqlite) desk_auth (cookie ''eyJ1'') relogin_db = (Inl e, relogin_db))"
proof -
  have "(\<exists>e. refresh_session (desk_jwt minute) (desk hour Sqlite) desk_auth [] (tp_refresh (desk_pair minute)) relogin_db = (Inl e, relogin_db)) \<and>
    (\<forall>r. bearer_token r = tp_access (desk_pair minute) \<longrightarrow>
      (\<exists>e. auth_middleware (desk_jwt minute) (desk hour Sqlite) desk_auth r relogin_db = (Inl e, relogin_db)))"
    by (rule password_change_locks_out [OF desk_jwt_ok changed _ _ _ _ relogin])
      (simp_all add: change_pw_def with_users_def new_result_def times)
  then show ?thesis by (simp add: desk_pair_def)
qed

text \<open>On PostgreSQL a change of password, of role or of status ends no session: the key of the row that should do it is longer
  than its column, the write is refused, and every session is as valid as before.\<close>

theorem postgres_ends_no_session:
  assumes "update_user E salt i inp d = (Inr v, d1)" "ae_dialect E = Postgres" "length i = 36"
  shows "ad_sessions d1 = ad_sessions d \<and> (\<forall>at sid uid. is_revoked at sid uid d1 = is_revoked at sid uid d)"
proof -
  obtain e where e: "ad_sessions e = ad_sessions d"
      "d1 = (if ends_sessions inp then snd (revoke_all_sessions E i ''account changed'' e) else e)"
    using assms(1) by (elim update_user_sessions) auto
  have "revoke_all_sessions E i reason e = (Inl (EAuthStore ValueTooLong), e)" for reason
    using assms(2,3)
    by (simp add: revoke_all_sessions_def revoke_all_rows_def auth_op_def revoke_session_row_def fits_def all_sessions_key_def map_errS_def)
  then have "ad_sessions d1 = ad_sessions d" using e by simp
  then show ?thesis using same_sessions [of d1 d] by simp
qed

theorem postgres_ends_no_session_witness:
  "ad_sessions (with_users [clerk ''disabled'']) = [] \<and>
   \<not> is_revoked hour ''s1'' long_id (with_users [clerk ''disabled''])"
  using postgres_ends_no_session [OF suspended]
  by (simp add: long_id_def with_users_def is_revoked_def)

text \<open>C5: what the authentication middleware admits: with an API token, a row of that token that is neither revoked nor expired,
  of an active account, whose role and scopes the principal gets; otherwise a JWT that parses now, of an access token, whose session is
  not denied.  A refresh token or a two-factor challenge of the program is never admitted.\<close>

theorem admitted_requests_have_credentials:
  assumes "jwt_ok L" "auth_middleware L E A r d = (Inr p, d')"
  shows "(if prefix ''certio_'' (bearer_token r)
      then \<exists>t \<in> set (ad_tokens d). \<exists>u \<in> set (ad_users d). tk_hash t = hash_api_token (ae_sha256 E) (bearer_token r) \<and>
        token_usable (ae_now E) t \<and> us_id u = tk_user t \<and> is_active u \<and> pr_user p = us_id u \<and> pr_role p = us_role u \<and>
        pr_token p = tk_id t \<and> pr_scopes p = tk_scopes t
      else \<exists>c. parse_token L A (ae_now E) (bearer_token r) = Some c \<and> cl_typ c = type_access \<and> pr_user p = cl_sub c \<and>
        pr_role p = cl_role c \<and> (cl_sid c \<noteq> [] \<longrightarrow> \<not> is_revoked (ae_now E) (cl_sid c) (cl_sub c) d)) \<and>
    (\<forall>u t sid pair. issue_for_session L A t u sid = Inr pair \<longrightarrow> bearer_token r \<noteq> tp_refresh pair) \<and>
    (\<forall>u t ch ttl. issue_challenge L A t u = Inr (ch, ttl) \<longrightarrow> bearer_token r \<noteq> ch)"
proof -
  have raw: "bearer_token r \<noteq> []" using assms(2) by (auto simp: auth_middleware_def)
  have foreign: "bearer_token r \<noteq> x" if x: "jl_sign L (at_secret A) (claims_of A u ty expiry t sid) = Some x" "ty \<noteq> type_access"
    for u ty expiry t sid x
  proof
    assume r: "bearer_token r = x"
    obtain c where c: "parse_token L A (ae_now E) x = Some c" "principal_from_claims c = Inr p"
      using assms(2) admitted_jwt [OF r signed_bearer [OF assms(1) x(1)]] by blast
    then have "c = claims_of A u ty expiry t sid"
      using signed_parses(1) [OF assms(1) x(1)] by (simp add: parse_token_def)
    then show False using principal_claims [OF c(2)] x(2) by (simp add: claims_of_def)
  qed
  have "\<forall>u t sid pair. issue_for_session L A t u sid = Inr pair \<longrightarrow> bearer_token r \<noteq> tp_refresh pair"
    using foreign [OF issued_pair(2)] by (auto simp: token_types)
  moreover have "\<forall>u t ch ttl. issue_challenge L A t u = Inr (ch, ttl) \<longrightarrow> bearer_token r \<noteq> ch"
    using foreign [of _ type_challenge]
    by (auto simp: issue_challenge_def sign_token_def of_opt_def bindE_Inr_iff token_types split: option.splits)
  moreover have "\<exists>t \<in> set (ad_tokens d). \<exists>u \<in> set (ad_users d). tk_hash t = hash_api_token (ae_sha256 E) (bearer_token r) \<and>
        token_usable (ae_now E) t \<and> us_id u = tk_user t \<and> is_active u \<and> pr_user p = us_id u \<and> pr_role p = us_role u \<and>
        pr_token p = tk_id t \<and> pr_scopes p = tk_scopes t" if h: "prefix ''certio_'' (bearer_token r)"
  proof -
    have "\<exists>e. authenticate_api_token E (bearer_token r) d = (Inr p, e)"
      using assms(2) h
      by (auto simp: auth_middleware_def Let_def bindS_Inr_iff resolve_bearer_def split: if_splits)
    then show ?thesis
      by (auto simp: authenticate_api_token_def bindS_Inr_iff token_by_hash_def get_user_def split: sum.splits if_splits
          dest!: tbl_get_InrD intro!: bexI)
  qed
  moreover have "\<exists>c. parse_token L A (ae_now E) (bearer_token r) = Some c \<and> cl_typ c = type_access \<and> pr_user p = cl_sub c \<and>
        pr_role p = cl_role c \<and> (cl_sid c \<noteq> [] \<longrightarrow> \<not> is_revoked (ae_now E) (cl_sid c) (cl_sub c) d)"
    if h: "\<not> prefix ''certio_'' (bearer_token r)"
  proof -
    obtain c where c: "parse_token L A (ae_now E) (bearer_token r) = Some c" "principal_from_claims c = Inr p" "\<not> session_revoked E (Some p) d"
      using assms(2) admitted_jwt [OF refl raw h] by blast
    then show ?thesis using principal_claims [OF c(2)] by (auto simp: session_revoked_is)
  qed
  ultimately show ?thesis by presburger
qed

theorem admitted_requests_have_credentials_witness:
  "\<exists>c. parse_token (desk_jwt 0) desk_auth minute ''eyJ1'' = Some c \<and> cl_typ c = type_access \<and> cl_role c = role_admin"
  using admitted_requests_have_credentials [OF desk_jwt_ok admitted_root [of Sqlite "[]"]]
  by (auto simp: root_principal_def)



end
