(* ===== verification/RateLimit.thy ===== *)
theory RateLimit
  imports SrvMiddleware
begin

text \<open>
  What the rate limiter of \<open>internal/server/middleware/middleware.go\<close> promises of a sequence of
  calls: the windows of one key follow each other with a gap, each admits at most its limit, so no
  stretch of time as long as a window admits more than twice the limit.
\<close>

section \<open>Runs\<close>

text \<open>A run of calls, each a key and a time; the times at which a key was admitted are kept, newest first.\<close>

fun admit_run :: "string \<Rightarrow> (string \<times> instant) list \<Rightarrow> limiter \<Rightarrow> instant list \<Rightarrow> instant list \<times> limiter" where
  "admit_run k [] r log = (log, r)"
| "admit_run k ((key, now) # calls) r log = (case allow key now r of
     ((ok, _), r) \<Rightarrow> admit_run k calls r (if ok \<and> key = k then now # log else log))"

section \<open>Windows\<close>

text \<open>Windows, newest first: a start and the admitted times, at most \<open>l\<close>, within \<open>d\<close> of the start; the one before has closed.\<close>

fun windows :: "nat \<Rightarrow> duration \<Rightarrow> (instant \<times> instant list) list \<Rightarrow> bool" where
  "windows l d [] = True"
| "windows l d ((s, ts) # ws) \<longleftrightarrow> length ts \<le> l \<and> (\<forall>a \<in> set ts. s \<le> a \<and> a \<le> s + d) \<and>
     (case ws of [] \<Rightarrow> True | (s', _) # _ \<Rightarrow> s' + d < s) \<and> windows l d ws"

definition between :: "instant \<Rightarrow> duration \<Rightarrow> instant list \<Rightarrow> nat" where
  "between t d ts = length (filter (\<lambda>a. t \<le> a \<and> a \<le> t + d) ts)"

lemma between_le: "between t d ts \<le> length ts"
  by (simp add: between_def)

lemma between_append [simp]: "between t d (xs @ ys) = between t d xs + between t d ys"
  by (simp add: between_def)

lemma windows_before:
  "windows l d ((s, ts) # ws) \<Longrightarrow> a \<in> set (concat (map snd ws)) \<Longrightarrow> 0 < d \<Longrightarrow> a < s"
proof (induction ws arbitrary: s ts)
  case (Cons w ws)
  obtain s' ts' where w: "w = (s', ts')" by (cases w)
  have d: "s' + d < s" "windows l d ((s', ts') # ws)" using Cons.prems(1) by (simp_all add: w)
  show ?case
  proof (cases "a \<in> set ts'")
    case True
    then have "a \<le> s' + d" using d(2) by auto
    then show ?thesis using d by linarith
  next
    case False
    then have "a < s'" using Cons.IH [OF d(2)] Cons.prems(2,3) by (auto simp: w)
    then show ?thesis using d Cons.prems(3) by linarith
  qed
qed simp

lemma between_windows:
  "windows l d ws \<Longrightarrow> 0 < d \<Longrightarrow> between t d (concat (map snd ws)) \<le> 2 * l"
proof (induction ws)
  case Nil
  then show ?case by (simp add: between_def)
next
  case (Cons w ws)
  obtain s ts where w: "w = (s, ts)" by (cases w)
  have ok: "length ts \<le> l" "\<forall>a \<in> set ts. s \<le> a \<and> a \<le> s + d" "windows l d ws" using Cons.prems(1) by (simp_all add: w)
  show ?case
  proof (cases "between t d ts = 0")
    case True
    then show ?thesis using Cons.IH [OF ok(3) Cons.prems(2)] by (simp add: w)
  next
    case False
    then obtain a where a: "a \<in> set ts" "a \<le> t + d" by (auto simp: between_def filter_empty_conv)
    then have t: "s \<le> t + d" using ok(2) by auto
    have "between t d (concat (map snd ws)) \<le> l"
    proof (cases ws)
      case Nil
      then show ?thesis by (simp add: between_def)
    next
      case (Cons v vs)
      obtain s' ts' where v: "v = (s', ts')" by (cases v)
      have s': "s' + d < s" "windows l d ((s', ts') # vs)" using \<open>windows l d (w # ws)\<close> by (simp_all add: w v Cons)
      have "between t d (concat (map snd vs)) = 0"
        using windows_before [OF s'(2)] Cons.prems(2) s'(1) t by (fastforce simp: between_def filter_empty_conv)
      moreover have "between t d ts' \<le> l" using s'(2) between_le [of t d ts'] by simp
      ultimately show ?thesis by (simp add: Cons v)
    qed
    then show ?thesis using between_le [of t d ts] ok(1) by (simp add: w)
  qed
qed

section \<open>The limiter keeps windows\<close>

text \<open>The state of the limiter agrees with the windows of \<open>k\<close>, all of whose calls came by \<open>now\<close>.\<close>

definition agrees :: "nat \<Rightarrow> duration \<Rightarrow> string \<Rightarrow> instant \<Rightarrow> (instant \<times> instant list) list \<Rightarrow> limiter \<Rightarrow> bool" where
  "agrees l d k now ws r \<longleftrightarrow> rl_limit r = int l \<and> rl_window r = d \<and> windows l d ws \<and>
     (case rl_hits r k of
        None \<Rightarrow> (case ws of [] \<Rightarrow> True | (s, _) # _ \<Rightarrow> s + d < now)
      | Some w \<Rightarrow> (case ws of [] \<Rightarrow> False
          | (s, ts) # _ \<Rightarrow> wn_reset w = s + d \<and> s \<le> now \<and> int (length ts) \<le> wn_count w))"

lemma agrees_later: "agrees l d k now ws r \<Longrightarrow> now \<le> now' \<Longrightarrow> agrees l d k now' ws r"
  by (auto simp: agrees_def split: option.splits list.splits)

lemma agrees_collect: "agrees l d k now ws r \<Longrightarrow> agrees l d k now ws (collect_windows now r)"
  by (auto simp: agrees_def collect_windows_def split: option.splits list.splits)

lemma collect_same: "rl_limit (collect_windows now r) = rl_limit r" "rl_window (collect_windows now r) = rl_window r"
  by (simp_all add: collect_windows_def)

text \<open>A call adds its time to the current window or opens one, or is refused.\<close>

lemma agrees_allow:
  assumes "agrees l d k now ws r" "allow key now r = ((ok, after), r')" "0 < l" "0 < d"
  shows "\<exists>ws'. agrees l d k now ws' r' \<and> concat (map snd ws') = (if ok \<and> key = k then now # concat (map snd ws) else concat (map snd ws))"
proof -
  let ?c = "collect_windows now r"
  note c = agrees_collect [OF assms(1)]
  have same: "rl_limit ?c = int l" "rl_window ?c = d" using assms(1) by (simp_all add: agrees_def collect_same)
  show ?thesis
  proof (cases "key = k")
    case False
    have "rl_hits r' k = rl_hits ?c k" "rl_limit r' = int l" "rl_window r' = d"
      using assms(2) False same by (auto simp: allow_def Let_def split: option.splits if_splits)
    then have "agrees l d k now ws r'" using c by (simp add: agrees_def)
    then show ?thesis using False by auto
  next
    case True
    show ?thesis
    proof (cases "\<exists>w. rl_hits ?c k = Some w \<and> now \<le> wn_reset w")
      case False
      have fresh: "ok" "r' = ?c\<lparr>rl_hits := (rl_hits ?c)(k \<mapsto> \<lparr>wn_count = 1, wn_reset = now + d\<rparr>)\<rparr>"
        using assms(2) False True same by (auto simp: allow_def Let_def split: option.splits if_splits)
      have "case ws of [] \<Rightarrow> True | (s, _) # _ \<Rightarrow> s + d < now"
        using c False by (auto simp: agrees_def split: option.splits list.splits)
      then have "agrees l d k now ((now, [now]) # ws) r'"
        using c fresh assms(3,4) same by (auto simp: agrees_def split: list.splits)
      then show ?thesis using fresh(1) True by (intro exI [of _ "(now, [now]) # ws"]) simp
    next
      case h: True
      then obtain w where w: "rl_hits ?c k = Some w" "now \<le> wn_reset w" by blast
      obtain s ts vs where ws: "ws = (s, ts) # vs" "wn_reset w = s + d" "s \<le> now" "int (length ts) \<le> wn_count w"
        using c w(1) by (auto simp: agrees_def split: list.splits)
      have res: "ok = (wn_count w + 1 \<le> int l)" "r' = ?c\<lparr>rl_hits := (rl_hits ?c)(k \<mapsto> w\<lparr>wn_count := wn_count w + 1\<rparr>)\<rparr>"
        using assms(2) w True same by (auto simp: allow_def Let_def split: if_splits)
      show ?thesis
      proof (cases ok)
        case True
        then have "agrees l d k now ((s, now # ts) # vs) r'"
          using c w ws res same by (auto simp: agrees_def split: list.splits)
        then show ?thesis using True \<open>key = k\<close> ws(1) by (intro exI [of _ "(s, now # ts) # vs"]) simp
      next
        case False
        then have "agrees l d k now ws r'"
          using c w ws res same by (auto simp: agrees_def split: list.splits)
        then show ?thesis using False by auto
      qed
    qed
  qed
qed

lemma admit_run_windows:
  assumes "agrees l d k now ws r" "sorted (now # map snd calls)" "0 < l" "0 < d"
    "admit_run k calls r (concat (map snd ws)) = (log, r')"
  shows "\<exists>ws' now'. agrees l d k now' ws' r' \<and> log = concat (map snd ws')"
  using assms
proof (induction calls arbitrary: now ws r)
  case Nil
  then show ?case by auto
next
  case (Cons c calls)
  obtain key at where c: "c = (key, at)" by (cases c)
  obtain ok after r1 where a: "allow key at r = ((ok, after), r1)" by (metis prod.collapse)
  have at: "agrees l d k at ws r" using Cons.prems(1,2) agrees_later by (simp add: c)
  obtain ws1 where ws1: "agrees l d k at ws1 r1"
      "concat (map snd ws1) = (if ok \<and> key = k then at # concat (map snd ws) else concat (map snd ws))"
    using agrees_allow [OF at a Cons.prems(3,4)] by blast
  have "admit_run k calls r1 (concat (map snd ws1)) = (log, r')" using Cons.prems(5) ws1(2) by (simp add: c a)
  then show ?case using Cons.IH [OF ws1(1)] Cons.prems(2-4) by (simp add: c)
qed

section \<open>Calls within the limit\<close>

text \<open>A key that has been counted fewer than \<open>l\<close> times is admitted, and counted once.\<close>

definition counted :: "string \<Rightarrow> limiter \<Rightarrow> int" where
  "counted k r = (case rl_hits r k of None \<Rightarrow> 0 | Some w \<Rightarrow> wn_count w)"

lemma allow_counts:
  assumes "allow key now r = ((ok, after), r')" "0 \<le> counted k r"
  shows "rl_limit r' = rl_limit r" "0 \<le> counted k r' \<and> counted k r' \<le> counted k r + (if key = k then 1 else 0)"
    "key = k \<Longrightarrow> counted k r < rl_limit r \<Longrightarrow> ok"
  using assms
  by (auto simp: allow_def Let_def collect_windows_def counted_def split: option.splits if_splits)

lemma admit_run_all:
  assumes "admit_run k calls r log = (log', r')" "0 \<le> counted k r"
    "counted k r + int (length (filter (\<lambda>c. fst c = k) calls)) \<le> rl_limit r"
  shows "length log' = length log + length (filter (\<lambda>c. fst c = k) calls)"
  using assms
proof (induction calls arbitrary: r log)
  case (Cons c calls)
  obtain key at where c: "c = (key, at)" by (cases c)
  obtain ok after r1 where a: "allow key at r = ((ok, after), r1)" by (metis prod.collapse)
  note n = allow_counts [OF a Cons.prems(2)]
  have "admit_run k calls r1 (if ok \<and> key = k then at # log else log) = (log', r')" using Cons.prems(1) by (simp add: c a)
  then have "length log' = length (if ok \<and> key = k then at # log else log) + length (filter (\<lambda>c. fst c = k) calls)"
    by (rule Cons.IH) (use n Cons.prems(3) in \<open>auto simp: c split: if_splits\<close>)
  then show ?case using n(3) Cons.prems(3) by (auto simp: c split: if_splits)
qed simp

text \<open>C34: the rate limiter admits no key more than twice its limit in any stretch of time as long as its window, and refuses
  nothing to a key that makes no more calls than the limit.\<close>

theorem rate_limit_holds:
  assumes "sorted (map snd calls)" "admit_run k calls (new_limiter limit per start) [] = (log, r)"
  shows "length (filter (\<lambda>a. t \<le> a \<and> a \<le> t + rl_window r) log) \<le> 2 * nat (rl_limit r) \<and>
    (length (filter (\<lambda>c. fst c = k) calls) \<le> nat (rl_limit r) \<longrightarrow> length log = length (filter (\<lambda>c. fst c = k) calls))"
proof -
  let ?r = "new_limiter limit per start"
  let ?l = "nat (rl_limit ?r)" and ?d = "rl_window ?r"
  let ?now = "case calls of [] \<Rightarrow> 0 | c # _ \<Rightarrow> snd c"
  have pos: "0 < ?l" "0 < ?d" by (simp_all add: new_limiter_def minute_def second_def)
  have "agrees ?l ?d k ?now [] ?r" using pos by (simp add: agrees_def new_limiter_def)
  moreover have "sorted (?now # map snd calls)" using assms(1) by (force split: list.splits)
  ultimately obtain ws now' where ws: "agrees ?l ?d k now' ws r" "log = concat (map snd ws)"
    using admit_run_windows [OF _ _ pos, of k ?now "[]" ?r calls log r] assms(2) by auto
  have r: "rl_limit r = rl_limit ?r" "rl_window r = ?d" using ws(1) pos by (auto simp: agrees_def)
  have "between t ?d log \<le> 2 * ?l"
    using between_windows [of ?l ?d ws t] ws pos by (simp add: agrees_def)
  moreover have "length log = length (filter (\<lambda>c. fst c = k) calls)" if "length (filter (\<lambda>c. fst c = k) calls) \<le> ?l"
    using admit_run_all [OF assms(2)] that pos by (simp add: counted_def new_limiter_def split: if_splits)
  ultimately show ?thesis using r by (simp add: between_def)
qed

text \<open>Three calls within a minute under a limit of two: the third is refused, and a call after the window is admitted.\<close>

theorem rate_limit_holds_witness:
  "\<exists>r. admit_run ''k'' [(''k'', 0), (''k'', 1), (''k'', 2), (''k'', 15)] (new_limiter 2 10 0) [] = ([15, 1, 0], r) \<and>
     length (filter (\<lambda>a. 0 \<le> a \<and> a \<le> 0 + rl_window r) [15, 1, 0]) \<le> 2 * nat (rl_limit r)"
proof -
  obtain r where r: "admit_run ''k'' [(''k'', 0), (''k'', 1), (''k'', 2), (''k'', 15)] (new_limiter 2 10 0) [] = ([15, 1, 0], r)"
    by (simp add: allow_def new_limiter_def collect_windows_def Let_def)
  then show ?thesis using rate_limit_holds [OF _ r, of 0] by auto
qed

end
