(* ===== verification/StoreOps.thy ===== *)
theory StoreOps
  imports SvcOAuth SvcCertificate
begin

text \<open>
  The rows the operation of an instance keeps beside its PKI and its accounts
  (\<open>internal/store/models.go\<close>): notification channels and their deliveries, deployment targets,
  jobs, settings and the audit log; their repositories (\<open>internal/store/repo_auth.go\<close>); and the
  filtered listings and counters of \<open>internal/store/repo_pki.go\<close>.

  Rows that compare equal under an \<open>ORDER BY\<close> come in the order they were written.  The audit log
  and the settings are kept apart: no decision of the services reads them.
\<close>

section \<open>Text in SQL and JSON\<close>

text \<open>
  \<open>LIKE\<close>: \<open>%\<close> stands for any text and \<open>_\<close> for any character.  SQLite ignores the case of ASCII
  letters; PostgreSQL takes a backslash as an escape.
\<close>

fun like_match :: "dialect \<Rightarrow> string \<Rightarrow> string \<Rightarrow> bool" where
  "like_match D [] s = (s = [])"
| "like_match D (p # ps) s =
     (if p = CHR ''%'' then like_match D ps s \<or> (case s of [] \<Rightarrow> False | _ # t \<Rightarrow> like_match D (p # ps) t)
      else case s of
        [] \<Rightarrow> False
      | c # t \<Rightarrow>
          if D = Postgres \<and> p = CHR 0x5C then (case ps of [] \<Rightarrow> False | q # qs \<Rightarrow> c = q \<and> like_match D qs t)
          else (p = CHR ''_'' \<or> (if D = Sqlite then lower_char c = lower_char p else c = p)) \<and> like_match D ps t)"

definition contains_pattern :: "string \<Rightarrow> string" where
  "contains_pattern s = ''%'' @ s @ ''%''"

definition hex4 :: "nat \<Rightarrow> string" where
  "hex4 n = map digit_char [n div 4096 mod 16, n div 256 mod 16, n div 16 mod 16, n mod 16]"

text \<open>\<open>encoding/json\<close> of a text: quotes, backslashes and control characters are escaped, and so are \<open><\<close>, \<open>>\<close> and \<open>&\<close>.\<close>

definition json_char :: "char \<Rightarrow> string" where
  "json_char c =
     (if c = CHR 0x22 \<or> c = CHR 0x5C then [CHR 0x5C, c]
      else if c = CHR 0x0A then [CHR 0x5C, CHR ''n'']
      else if c = CHR 0x0D then [CHR 0x5C, CHR ''r'']
      else if c = CHR 0x09 then [CHR 0x5C, CHR ''t'']
      else if c = CHR 0x08 then [CHR 0x5C, CHR ''b'']
      else if c = CHR 0x0C then [CHR 0x5C, CHR ''f'']
      else if ord c < 32 \<or> c \<in> set ''<>&'' then [CHR 0x5C, CHR ''u''] @ hex4 (ord c)
      else [c])"

definition json_quote :: "string \<Rightarrow> string" where
  "json_quote s = [CHR 0x22] @ concat (map json_char s) @ [CHR 0x22]"

definition json_member :: "string \<times> string \<Rightarrow> string" where
  "json_member kv = json_quote (fst kv) @ '':'' @ json_quote (snd kv)"

text \<open>The object of a map has its keys in order.\<close>

definition labels_json :: "labels \<Rightarrow> string" where
  "labels_json ls = ''{'' @ join_with '','' (map (\<lambda>k. json_member (k, the (map_of ls k))) (sort (remdups (map fst ls)))) @ ''}''"

definition json_pair :: "string \<Rightarrow> string \<Rightarrow> string" where
  "json_pair k v = trim_chars (\<lambda>c. c \<in> set ''{}'') (''{'' @ json_member (k, v) @ ''}'')"

definition sans_json :: "san_set \<Rightarrow> string" where
  "sans_json s = ''['' @ join_with '','' (map (\<lambda>x. ''{'' @ json_member (''type'', san_type x) @ '','' @ json_member (''value'', san_value x) @ ''}'') s) @ '']''"

definition order_by :: "bool \<Rightarrow> ('r \<Rightarrow> 'k :: linorder) \<Rightarrow> 'r list \<Rightarrow> 'r list" where
  "order_by desc f rows = (if desc then rev (sort_key f (rev rows)) else sort_key f rows)"

section \<open>Listings of the PKI tables\<close>

record authority_filter =
  af_type :: string
  af_status :: string
  af_query :: string

definition status_name :: "status \<Rightarrow> string" where
  "status_name s = (case s of StActive \<Rightarrow> ''active'' | StExpiring \<Rightarrow> ''expiring'' | StExpired \<Rightarrow> ''expired'' | StRevoked \<Rightarrow> ''revoked''
     | StHeld \<Rightarrow> ''held'')"

definition searched :: "dialect \<Rightarrow> string \<Rightarrow> string list \<Rightarrow> bool" where
  "searched D q columns = list_ex (\<lambda>c. like_match D (contains_pattern (to_lower q)) (to_lower c)) columns"

definition authority_selected :: "dialect \<Rightarrow> authority_filter \<Rightarrow> authority \<Rightarrow> bool" where
  "authority_selected D f a \<longleftrightarrow>
     (af_type f \<noteq> [] \<longrightarrow> (case au_type a of TypeRoot \<Rightarrow> ''root'' | TypeIntermediate \<Rightarrow> ''intermediate'') = af_type f) \<and>
     (af_status f \<noteq> [] \<longrightarrow> status_name (au_status a) = af_status f) \<and>
     (af_query f \<noteq> [] \<longrightarrow> searched D (af_query f) [au_name a, au_slug a, au_serial a])"

definition list_authorities :: "dialect \<Rightarrow> authority_filter \<Rightarrow> pagination \<Rightarrow> db \<Rightarrow> authority page" where
  "list_authorities D f p d = paginate p (order_by True au_created_at (filter (authority_selected D f) (db_authorities d)))"

record certificate_filter =
  cf_authority :: string
  cf_status :: string
  cf_profile :: string
  cf_query :: string
  cf_expiring_days :: "int option"
  cf_auto_renew :: "bool option"
  cf_include_revoked :: bool
  cf_labels :: labels
  cf_sort_by :: string
  cf_sort_desc :: bool

definition any_certificate :: certificate_filter where
  "any_certificate = \<lparr>cf_authority = [], cf_status = [], cf_profile = [], cf_query = [], cf_expiring_days = None, cf_auto_renew = None,
     cf_include_revoked = False, cf_labels = [], cf_sort_by = [], cf_sort_desc = False\<rparr>"

definition certificate_selected :: "dialect \<Rightarrow> instant \<Rightarrow> certificate_filter \<Rightarrow> certificate \<Rightarrow> bool" where
  "certificate_selected D now f c \<longleftrightarrow>
     (cf_authority f \<noteq> [] \<longrightarrow> cr_authority c = cf_authority f) \<and>
     (cf_status f \<noteq> [] \<longrightarrow> status_name (cr_status c) = cf_status f) \<and>
     (cf_profile f \<noteq> [] \<longrightarrow> cr_profile c = cf_profile f) \<and>
     (case cf_auto_renew f of None \<Rightarrow> True | Some b \<Rightarrow> cr_auto_renew c = b) \<and>
     (\<not> cf_include_revoked f \<longrightarrow> cr_status c \<noteq> StRevoked) \<and>
     (case cf_expiring_days f of None \<Rightarrow> True | Some n \<Rightarrow> cr_not_after c \<le> add_days now n) \<and>
     list_all (\<lambda>(k, v). like_match D (contains_pattern (json_pair k v)) (labels_json (cr_labels c))) (cf_labels f) \<and>
     (cf_query f \<noteq> [] \<longrightarrow> searched D (cf_query f) [cr_common_name c, cr_serial c, sans_json (cr_sans c), cr_fingerprint c])"

definition certificate_order :: "certificate_filter \<Rightarrow> certificate list \<Rightarrow> certificate list" where
  "certificate_order f =
     (let by = cf_sort_by f; desc = cf_sort_desc f in
      if by = ''common_name'' then order_by desc cr_common_name
      else if by = ''not_after'' \<or> by = ''expiry'' then order_by desc cr_not_after
      else if by = ''not_before'' then order_by desc cr_not_before
      else if by = ''status'' then order_by desc (\<lambda>c. status_name (cr_status c))
      else if by = ''profile'' then order_by desc cr_profile
      else order_by desc cr_created_at)"

definition list_certificates :: "dialect \<Rightarrow> instant \<Rightarrow> certificate_filter \<Rightarrow> pagination \<Rightarrow> db \<Rightarrow> certificate page" where
  "list_certificates D now f p d = paginate p (certificate_order f (filter (certificate_selected D now f) (db_certificates d)))"

text \<open>\<open>GROUP BY\<close>: the distinct values with their counts.\<close>

definition count_by :: "('r \<Rightarrow> string) \<Rightarrow> 'r list \<Rightarrow> (string \<times> nat) list" where
  "count_by f rows = map (\<lambda>v. (v, length (filter (\<lambda>r. f r = v) rows))) (remdups (map f rows))"

definition count_certificates_by_status :: "db \<Rightarrow> (string \<times> nat) list" where
  "count_certificates_by_status d = count_by (\<lambda>c. status_name (cr_status c)) (db_certificates d)"

definition count_certificates_by_profile :: "db \<Rightarrow> (string \<times> nat) list" where
  "count_certificates_by_profile d = count_by cr_profile (db_certificates d)"

definition count_certificates :: "db \<Rightarrow> nat" where
  "count_certificates d = length (db_certificates d)"

definition count_revocations :: "db \<Rightarrow> nat" where
  "count_revocations d = length (db_revocations d)"

record certificate_summary =
  sm_id :: string
  sm_common_name :: string
  sm_authority :: string
  sm_serial :: string
  sm_profile :: string
  sm_status :: status
  sm_not_after :: instant
  sm_auto_renew :: bool

definition certificate_summaries :: "db \<Rightarrow> certificate_summary list" where
  "certificate_summaries d = map (\<lambda>c. \<lparr>sm_id = cr_id c, sm_common_name = cr_common_name c, sm_authority = cr_authority c,
     sm_serial = cr_serial c, sm_profile = cr_profile c, sm_status = cr_status c, sm_not_after = cr_not_after c,
     sm_auto_renew = cr_auto_renew c\<rparr>) (sort_key cr_not_after (db_certificates d))"

definition count_authorities_by_status :: "db \<Rightarrow> (string \<times> nat) list" where
  "count_authorities_by_status d = count_by (\<lambda>a. status_name (au_status a)) (db_authorities d)"

section \<open>Rows of an instance\<close>

text \<open>Settings of a channel or a target, sealed under a master key; no ciphertext reads as no settings.\<close>

type_synonym sealed_map = "(nat \<times> (string \<times> string) list) option"

record notify_event =
  ev_type :: string
  ev_title :: string
  ev_message :: string
  ev_severity :: string
  ev_timestamp :: instant
  ev_data :: "(string \<times> json) list"

record channel =
  nf_id :: string
  nf_created_at :: instant
  nf_name :: string
  nf_channel :: string
  nf_config :: sealed_map
  nf_events :: "string list"
  nf_enabled :: bool
  nf_last_sent :: "instant option"
  nf_last_error :: string

datatype delivery_status = DeliveryPending | DeliveryDelivered | DeliveryFailed

text \<open>A delivery carries its event: what is stored is the JSON of the event, which reads back to the same event.\<close>

record delivery =
  dl_id :: string
  dl_created_at :: instant
  dl_channel :: string
  dl_event :: string
  dl_payload :: notify_event
  dl_status :: delivery_status
  dl_attempts :: int
  dl_last_error :: string
  dl_next :: instant
  dl_delivered :: "instant option"

record deployment_target =
  dt_id :: string
  dt_created_at :: instant
  dt_name :: string
  dt_kind :: string
  dt_config :: sealed_map
  dt_selector :: labels
  dt_common_name :: string
  dt_enabled :: bool
  dt_last_run :: "instant option"
  dt_last_success :: "instant option"
  dt_last_error :: string
  dt_last_serial :: string

datatype job_status = JobPending | JobRunning | JobSucceeded | JobFailed

record job =
  jb_id :: string
  jb_created_at :: instant
  jb_kind :: string
  jb_status :: job_status
  jb_result :: "(string \<times> int) list"
  jb_error :: string
  jb_started :: "instant option"
  jb_finished :: "instant option"

definition job_duration :: "job \<Rightarrow> duration" where
  "job_duration j = (case (jb_started j, jb_finished j) of (Some s, Some f) \<Rightarrow> f - s | _ \<Rightarrow> 0)"

record instance_db =
  in_pki :: db
  in_auth :: auth_db
  in_channels :: "channel list"
  in_deliveries :: "delivery list"
  in_targets :: "deployment_target list"
  in_jobs :: "job list"

definition label_value :: "labels \<Rightarrow> string \<Rightarrow> string" where
  "label_value ls k = (case map_of ls k of None \<Rightarrow> [] | Some v \<Rightarrow> v)"

text \<open>The value of a key missing among the labels of a certificate is the empty text.\<close>

definition target_matches :: "deployment_target \<Rightarrow> certificate \<Rightarrow> bool" where
  "target_matches t c =
     (if dt_common_name t \<noteq> [] \<and> \<not> equal_fold (dt_common_name t) (cr_common_name c) then False
      else if dt_selector t = [] then dt_common_name t \<noteq> []
      else list_all (\<lambda>(k, want). label_value (cr_labels c) k = want) (dt_selector t))"

section \<open>Channels and deliveries\<close>

definition channel_clash :: "dialect \<Rightarrow> instance_db \<Rightarrow> channel \<Rightarrow> store_error option" where
  "channel_clash D d n = (if fits D [(36, nf_id n), (191, nf_name n), (20, nf_channel n)] then None else Some ValueTooLong)"

definition create_channel :: "dialect \<Rightarrow> channel \<Rightarrow> (instance_db, store_error, unit) op" where
  "create_channel D = repo_create in_channels in_channels_update nf_id (channel_clash D)"

definition update_channel :: "dialect \<Rightarrow> channel \<Rightarrow> (instance_db, store_error, unit) op" where
  "update_channel D = repo_save in_channels_update nf_id (channel_clash D)"

definition get_channel :: "string \<Rightarrow> instance_db \<Rightarrow> store_error + channel" where
  "get_channel i d = tbl_get nf_id i (in_channels d)"

definition all_channels :: "instance_db \<Rightarrow> channel list" where
  "all_channels d = sort_key nf_created_at (in_channels d)"

definition enabled_channels :: "string \<Rightarrow> instance_db \<Rightarrow> channel list" where
  "enabled_channels event d =
     (let items = filter nf_enabled (in_channels d) in
      if event = [] then items else filter (\<lambda>n. list_ex (\<lambda>e. e = event \<or> e = ''*'') (nf_events n)) items)"

text \<open>A delivery refers to its channel, and the database refuses to drop a row that is referred to.\<close>

definition delete_channel :: "string \<Rightarrow> (instance_db, store_error, unit) op" where
  "delete_channel i = (\<lambda>d.
     if list_ex (\<lambda>l. dl_channel l = i) (in_deliveries d) \<and> tbl_has nf_id i (in_channels d) then (Inl ForeignKeyViolation, d)
     else if tbl_has nf_id i (in_channels d) then (Inr (), in_channels_update (filter (\<lambda>n. nf_id n \<noteq> i)) d)
     else (Inl RecordNotFound, d))"

definition delivery_clash :: "dialect \<Rightarrow> instance_db \<Rightarrow> delivery \<Rightarrow> store_error option" where
  "delivery_clash D d l =
     (if \<not> fits D [(36, dl_id l), (36, dl_channel l), (64, dl_event l)] then Some ValueTooLong
      else if tbl_has nf_id (dl_channel l) (in_channels d) then None else Some ForeignKeyViolation)"

definition create_delivery :: "dialect \<Rightarrow> delivery \<Rightarrow> (instance_db, store_error, unit) op" where
  "create_delivery D = repo_create in_deliveries in_deliveries_update dl_id (delivery_clash D)"

definition update_delivery :: "dialect \<Rightarrow> delivery \<Rightarrow> (instance_db, store_error, unit) op" where
  "update_delivery D = repo_save in_deliveries_update dl_id (delivery_clash D)"

definition due_deliveries :: "instant \<Rightarrow> int \<Rightarrow> instance_db \<Rightarrow> (delivery \<times> channel option) list" where
  "due_deliveries now limit d =
     map (\<lambda>l. (l, List.find (\<lambda>n. nf_id n = dl_channel l) (in_channels d)))
       (take (nat (if limit \<le> 0 then 100 else limit))
         (sort_key dl_created_at (filter (\<lambda>l. dl_status l = DeliveryPending \<and> dl_next l \<le> now) (in_deliveries d))))"

definition deliveries_of :: "string \<Rightarrow> int \<Rightarrow> instance_db \<Rightarrow> delivery list" where
  "deliveries_of i limit d =
     take (nat (if limit \<le> 0 then 20 else limit)) (order_by True dl_created_at (filter (\<lambda>l. dl_channel l = i) (in_deliveries d)))"

definition prune_delivered :: "instant \<Rightarrow> instance_db \<Rightarrow> nat \<times> instance_db" where
  "prune_delivered before d =
     (let old = (\<lambda>l. dl_status l = DeliveryDelivered \<and> dl_created_at l < before)
      in (length (filter old (in_deliveries d)), in_deliveries_update (filter (\<lambda>l. \<not> old l)) d))"

section \<open>Deployment targets\<close>

definition target_clash :: "dialect \<Rightarrow> instance_db \<Rightarrow> deployment_target \<Rightarrow> store_error option" where
  "target_clash D d t =
     (if fits D [(36, dt_id t), (191, dt_name t), (20, dt_kind t), (191, dt_common_name t), (64, dt_last_serial t)] then None
      else Some ValueTooLong)"

definition create_target :: "dialect \<Rightarrow> deployment_target \<Rightarrow> (instance_db, store_error, unit) op" where
  "create_target D = repo_create in_targets in_targets_update dt_id (target_clash D)"

definition update_target :: "dialect \<Rightarrow> deployment_target \<Rightarrow> (instance_db, store_error, unit) op" where
  "update_target D = repo_save in_targets_update dt_id (target_clash D)"

definition get_target :: "string \<Rightarrow> instance_db \<Rightarrow> store_error + deployment_target" where
  "get_target i d = tbl_get dt_id i (in_targets d)"

definition all_targets :: "instance_db \<Rightarrow> deployment_target list" where
  "all_targets d = order_by True dt_created_at (in_targets d)"

definition enabled_targets :: "instance_db \<Rightarrow> deployment_target list" where
  "enabled_targets d = sort_key dt_created_at (filter dt_enabled (in_targets d))"

definition delete_target :: "string \<Rightarrow> (instance_db, store_error, unit) op" where
  "delete_target i = (\<lambda>d. if tbl_has dt_id i (in_targets d)
     then (Inr (), in_targets_update (filter (\<lambda>t. dt_id t \<noteq> i)) d) else (Inl RecordNotFound, d))"

section \<open>Jobs\<close>

definition job_clash :: "dialect \<Rightarrow> instance_db \<Rightarrow> job \<Rightarrow> store_error option" where
  "job_clash D d j = (if fits D [(36, jb_id j), (32, jb_kind j)] then None else Some ValueTooLong)"

definition create_job :: "dialect \<Rightarrow> job \<Rightarrow> (instance_db, store_error, unit) op" where
  "create_job D = repo_create in_jobs in_jobs_update jb_id (job_clash D)"

definition update_job :: "dialect \<Rightarrow> job \<Rightarrow> (instance_db, store_error, unit) op" where
  "update_job D = repo_save in_jobs_update jb_id (job_clash D)"

definition list_jobs :: "string \<Rightarrow> pagination \<Rightarrow> instance_db \<Rightarrow> job page" where
  "list_jobs kind p d = paginate p (order_by True jb_created_at (filter (\<lambda>j. kind \<noteq> [] \<longrightarrow> jb_kind j = kind) (in_jobs d)))"

definition last_run :: "string \<Rightarrow> instance_db \<Rightarrow> store_error + job" where
  "last_run kind d = (case order_by True jb_created_at (filter (\<lambda>j. jb_kind j = kind) (in_jobs d)) of
     [] \<Rightarrow> Inl RecordNotFound | j # _ \<Rightarrow> Inr j)"

definition prune_jobs :: "instant \<Rightarrow> instance_db \<Rightarrow> nat \<times> instance_db" where
  "prune_jobs before d = (length (filter (\<lambda>j. jb_created_at j < before) (in_jobs d)),
     in_jobs_update (filter (\<lambda>j. \<not> jb_created_at j < before)) d)"

section \<open>Settings and the audit log\<close>

record setting =
  sg_key :: string
  sg_value :: string
  sg_sealed :: sealed_text
  sg_secret :: bool
  sg_updated :: instant

definition get_setting :: "string \<Rightarrow> setting list \<Rightarrow> store_error + setting" where
  "get_setting k rows = tbl_get sg_key k rows"

definition setting_string :: "string \<Rightarrow> string \<Rightarrow> setting list \<Rightarrow> string" where
  "setting_string k fallback rows = (case get_setting k rows of
     Inl _ \<Rightarrow> fallback | Inr s \<Rightarrow> if sg_value s = [] then fallback else sg_value s)"

definition set_setting :: "instant \<Rightarrow> string \<Rightarrow> string \<Rightarrow> setting list \<Rightarrow> setting list" where
  "set_setting now k v = tbl_put sg_key \<lparr>sg_key = k, sg_value = v, sg_sealed = None, sg_secret = False, sg_updated = now\<rparr>"

definition set_sealed :: "instant \<Rightarrow> string \<Rightarrow> sealed_text \<Rightarrow> setting list \<Rightarrow> setting list" where
  "set_sealed now k v = tbl_put sg_key \<lparr>sg_key = k, sg_value = [], sg_sealed = v, sg_secret = True, sg_updated = now\<rparr>"

definition all_settings :: "setting list \<Rightarrow> setting list" where
  "all_settings = sort_key sg_key"

definition delete_setting :: "string \<Rightarrow> setting list \<Rightarrow> setting list" where
  "delete_setting k = filter (\<lambda>s. sg_key s \<noteq> k)"

record audit_log =
  al_created_at :: instant
  al_actor_id :: string
  al_actor_name :: string
  al_action :: string
  al_resource_type :: string
  al_resource_id :: string
  al_resource_name :: string

record audit_filter =
  lf_actor :: string
  lf_action :: string
  lf_resource_type :: string
  lf_resource_id :: string
  lf_since :: "instant option"
  lf_until :: "instant option"
  lf_query :: string

definition audit_selected :: "dialect \<Rightarrow> audit_filter \<Rightarrow> audit_log \<Rightarrow> bool" where
  "audit_selected D f a \<longleftrightarrow>
     (lf_actor f \<noteq> [] \<longrightarrow> al_actor_id a = lf_actor f) \<and>
     (lf_action f \<noteq> [] \<longrightarrow> al_action a = lf_action f) \<and>
     (lf_resource_type f \<noteq> [] \<longrightarrow> al_resource_type a = lf_resource_type f) \<and>
     (lf_resource_id f \<noteq> [] \<longrightarrow> al_resource_id a = lf_resource_id f) \<and>
     (case lf_since f of None \<Rightarrow> True | Some s \<Rightarrow> s \<le> al_created_at a) \<and>
     (case lf_until f of None \<Rightarrow> True | Some u \<Rightarrow> al_created_at a \<le> u) \<and>
     (lf_query f \<noteq> [] \<longrightarrow> searched D (lf_query f) [al_action a, al_resource_name a, al_actor_name a])"

definition list_audit :: "dialect \<Rightarrow> audit_filter \<Rightarrow> pagination \<Rightarrow> audit_log list \<Rightarrow> audit_log page" where
  "list_audit D f p rows = paginate p (order_by True al_created_at (filter (audit_selected D f) rows))"

definition recent_audit :: "int \<Rightarrow> audit_log list \<Rightarrow> audit_log list" where
  "recent_audit limit rows = take (nat (if limit \<le> 0 then 10 else limit)) (order_by True al_created_at rows)"

definition prune_audit :: "instant \<Rightarrow> audit_log list \<Rightarrow> nat \<times> audit_log list" where
  "prune_audit before rows = (length (filter (\<lambda>a. al_created_at a < before) rows), filter (\<lambda>a. \<not> al_created_at a < before) rows)"

section \<open>The repositories\<close>

lemmas instance_repo_defs = get_channel_def create_channel_def update_channel_def get_target_def create_target_def update_target_def

interpretation channels: repository in_channels nf_id id get_channel "create_channel D" "update_channel D"
  by unfold_locales (auto simp: instance_repo_defs dest!: repo_create_ok repo_save_ok repo_fail)

interpretation targets: repository in_targets dt_id id get_target "create_target D" "update_target D"
  by unfold_locales (auto simp: instance_repo_defs dest!: repo_create_ok repo_save_ok repo_fail)

end
