(* ===== verification/GoTime.thy ===== *)
theory GoTime
  imports GoText
begin

text \<open>
  The texts Go's \<open>time\<close> package makes of an instant in UTC: the civil date of a day number of the
  proleptic Gregorian calendar, \<open>RFC3339\<close> and the date alone; \<open>strconv.ParseBool\<close> and
  \<open>strconv.Atoi\<close>; and the quoted texts of \<open>fmt\<close>.
\<close>

section \<open>Civil dates\<close>

text \<open>
  Days are counted from 1 March of year 0, so that a leap day ends its year: an era has 146097
  days and 400 years, and the months from March on start at \<open>(153 m + 2) div 5\<close>.
\<close>

definition civil_of_days :: "int \<Rightarrow> int \<times> int \<times> int" where
  "civil_of_days days =
     (let z = days + 719468; era = z div 146097; doe = z mod 146097;
          yoe = (doe - doe div 1460 + doe div 36524 - doe div 146096) div 365;
          doy = doe - (365 * yoe + yoe div 4 - yoe div 100);
          mp = (5 * doy + 2) div 153;
          d = doy - (153 * mp + 2) div 5 + 1;
          m = (if mp < 10 then mp + 3 else mp - 9)
      in (yoe + era * 400 + (if m \<le> 2 then 1 else 0), m, d))"

definition padded :: "nat \<Rightarrow> int \<Rightarrow> string" where
  "padded n i = (let s = dec_int i in replicate (n - length s) CHR ''0'' @ s)"

definition date_text :: "instant \<Rightarrow> string" where
  "date_text t = (case civil_of_days (t div day) of (y, m, d) \<Rightarrow> padded 4 y @ ''-'' @ padded 2 m @ ''-'' @ padded 2 d)"

definition clock_text :: "instant \<Rightarrow> string" where
  "clock_text t = (let s = t mod day div second in
     padded 2 (s div 3600) @ '':'' @ padded 2 (s div 60 mod 60) @ '':'' @ padded 2 (s mod 60))"

definition rfc3339 :: "instant \<Rightarrow> string" where
  "rfc3339 t = date_text t @ ''T'' @ clock_text t @ ''Z''"

section \<open>Flags and numbers\<close>

definition parse_bool :: "string \<Rightarrow> bool option" where
  "parse_bool s =
     (if s \<in> set [''1'', ''t'', ''T'', ''true'', ''TRUE'', ''True''] then Some True
      else if s \<in> set [''0'', ''f'', ''F'', ''false'', ''FALSE'', ''False''] then Some False
      else None)"

text \<open>\<open>v, _ := strconv.Atoi(s)\<close> with the error dropped: 0 for a text that is no number, the nearest bound for one out of range.\<close>

definition atoi_or_zero :: "string \<Rightarrow> int" where
  "atoi_or_zero s =
     (let (neg, ds) = (case s of c # r \<Rightarrow> if c = CHR ''-'' then (True, r) else if c = CHR ''+'' then (False, r) else (False, s) | [] \<Rightarrow> (False, s));
          n = (if ds = [] \<or> \<not> list_all is_digit ds then 0 else foldl (\<lambda>n c. n * 10 + (int (ord c) - 48)) 0 ds)
      in if neg then max (- (2 ^ 63)) (- n) else min (2 ^ 63 - 1) n)"

section \<open>Quoting\<close>

text \<open>\<open>%q\<close> of a text: quotes, backslashes and control characters are escaped, other bytes are kept.\<close>

definition quoted_char :: "char \<Rightarrow> string" where
  "quoted_char c =
     (if c = CHR 0x22 \<or> c = CHR 0x5C then [CHR 0x5C, c]
      else if ord c = 10 then [CHR 0x5C, CHR ''n'']
      else if ord c = 13 then [CHR 0x5C, CHR ''r'']
      else if ord c = 9 then [CHR 0x5C, CHR ''t'']
      else if ord c = 7 then [CHR 0x5C, CHR ''a'']
      else if ord c = 8 then [CHR 0x5C, CHR ''b'']
      else if ord c = 12 then [CHR 0x5C, CHR ''f'']
      else if ord c = 11 then [CHR 0x5C, CHR ''v'']
      else if ord c < 32 \<or> ord c = 127 then [CHR 0x5C, CHR ''x'', digit_char (ord c div 16), digit_char (ord c mod 16)]
      else [c])"

definition go_quote :: "string \<Rightarrow> string" where
  "go_quote s = [CHR 0x22] @ concat (map quoted_char s) @ [CHR 0x22]"

section \<open>Pieces of text\<close>

definition nl :: string where "nl = [CHR 0x0A]"
definition em_dash :: string where "em_dash = [CHR 0xE2, CHR 0x80, CHR 0x94]"
definition right_arrow :: string where "right_arrow = [CHR 0xE2, CHR 0x86, CHR 0x92]"

definition text_lines :: "string list \<Rightarrow> string" where
  "text_lines ls = concat (map (\<lambda>l. l @ nl) ls)"

definition pad_right :: "nat \<Rightarrow> string \<Rightarrow> string" where
  "pad_right n s = s @ replicate (n - length s) CHR '' ''"

text \<open>\<open>net.JoinHostPort\<close> puts a host with a colon in brackets.\<close>

definition join_host_port :: "string \<Rightarrow> string \<Rightarrow> string" where
  "join_host_port host port = (if CHR '':'' \<in> set host then ''['' @ host @ '']:'' @ port else host @ '':'' @ port)"

definition middle_dot :: string where "middle_dot = [CHR 0xC2, CHR 0xB7]"
definition bullet :: string where "bullet = [CHR 0xE2, CHR 0x80, CHR 0xA2]"
definition ellipsis :: string where "ellipsis = [CHR 0xE2, CHR 0x80, CHR 0xA6]"

section \<open>Mail dates\<close>

definition weekday_name :: "int \<Rightarrow> string" where
  "weekday_name days = [''Thu'', ''Fri'', ''Sat'', ''Sun'', ''Mon'', ''Tue'', ''Wed''] ! nat (days mod 7)"

definition month_name :: "int \<Rightarrow> string" where
  "month_name m = [''Jan'', ''Feb'', ''Mar'', ''Apr'', ''May'', ''Jun'', ''Jul'', ''Aug'', ''Sep'', ''Oct'', ''Nov'', ''Dec''] ! nat ((m - 1) mod 12)"

definition rfc1123z :: "instant \<Rightarrow> string" where
  "rfc1123z t = (case civil_of_days (t div day) of (y, m, d) \<Rightarrow>
     weekday_name (t div day) @ '', '' @ padded 2 d @ '' '' @ month_name m @ '' '' @ padded 4 y @ '' '' @ clock_text t @ '' +0000'')"

end
