(* ===== verification/Deploy.thy ===== *)
theory Deploy
  imports StoreOps GoTime
begin

text \<open>
  \<open>internal/deploy\<close>: the three kinds of deployment targets, built from the settings of a target, and
  what each does with a bundle.  The far ends are outside the repository: \<open>transports\<close> answers the
  requests to a Kubernetes API server and to a webhook, dials an SSH server and runs commands
  there, and says which keys and CA bundles the libraries can parse.
\<close>

section \<open>Bundles and settings\<close>

record deploy_bundle =
  db_common_name :: string
  db_serial_number :: string
  db_not_after :: instant
  db_certificate_pem :: pem
  db_chain_pem :: pem
  db_fullchain_pem :: pem
  db_root_pem :: pem
  db_private_key_pem :: pem

definition has_key :: "deploy_bundle \<Rightarrow> bool" where
  "has_key b = (db_private_key_pem b \<noteq> [])"

record kube_target =
  kt_api_url :: string
  kt_token :: string
  kt_namespace :: string
  kt_secret_name :: string
  kt_ca_bundle :: string
  kt_insecure :: bool
  kt_annotations :: labels
  kt_labels :: labels

record ssh_target =
  st_host :: string
  st_port :: int
  st_user :: string
  st_private_key :: string
  st_passphrase :: string
  st_password :: string
  st_host_key :: string
  st_insecure :: bool
  st_cert_path :: string
  st_key_path :: string
  st_chain_path :: string
  st_fullchain_path :: string
  st_root_path :: string
  st_reload :: string
  st_file_mode :: string

record hook_target =
  ht_url :: string
  ht_secret :: string
  ht_headers :: labels
  ht_include_key :: bool

datatype deploy_target = Kubernetes kube_target | Ssh ssh_target | Webhook hook_target

record kube_secret =
  ks_name :: string
  ks_namespace :: string
  ks_annotations :: labels
  ks_labels :: labels
  ks_tls_crt :: pem
  ks_tls_key :: pem
  ks_ca_crt :: pem

record hook_payload =
  hp_common_name :: string
  hp_serial_number :: string
  hp_not_after :: instant
  hp_timestamp :: instant
  hp_certificate_pem :: pem
  hp_chain_pem :: pem
  hp_fullchain_pem :: pem
  hp_root_pem :: pem
  hp_private_key_pem :: pem

text \<open>An HTTP answer is a transport error, or a status code, a status line and a body.\<close>

type_synonym http_answer = "string + (int \<times> string \<times> string)"

record transports =
  tr_ca_pool :: "string \<Rightarrow> bool"
  tr_kube :: "kube_target \<Rightarrow> string \<Rightarrow> string \<Rightarrow> kube_secret \<Rightarrow> http_answer"
  tr_hook :: "hook_target \<Rightarrow> hook_payload \<Rightarrow> http_answer"
  tr_ssh_key :: "string \<Rightarrow> string \<Rightarrow> bool"
  tr_host_key :: "string \<Rightarrow> bool"
  tr_dial :: "ssh_target \<Rightarrow> (bool \<times> string) option"
  tr_session :: "ssh_target \<Rightarrow> string \<Rightarrow> pem \<Rightarrow> (string \<times> string) option"

type_synonym 'a deploying = "string + 'a"

section \<open>Building a target\<close>

definition setting_of :: "(string \<times> string) list \<Rightarrow> string \<Rightarrow> string" where
  "setting_of cfg k = label_value cfg k"

fun first_non_empty :: "string list \<Rightarrow> string" where
  "first_non_empty [] = []"
| "first_non_empty (v # vs) = (if v \<noteq> [] then v else first_non_empty vs)"

definition map_set :: "string \<Rightarrow> string \<Rightarrow> labels \<Rightarrow> labels" where
  "map_set k v ls = tbl_put fst (k, v) ls"

fun collect_pairs :: "string list \<Rightarrow> labels \<Rightarrow> labels" where
  "collect_pairs [] out = out"
| "collect_pairs (entry # rest) out = (case cut CHR ''='' entry of (key, v, ok) \<Rightarrow>
     let key = trim_space key in
     collect_pairs rest (if \<not> ok \<or> key = [] then out else map_set key (trim_space v) out))"

definition parse_pairs :: "string \<Rightarrow> labels" where
  "parse_pairs raw = (if trim_space raw = [] then []
     else collect_pairs (fields_func (\<lambda>c. c \<in> {CHR '','', CHR 0x0A, CHR '';''}) [] raw) [])"

definition deploy_kinds :: "string list" where
  "deploy_kinds = [''kubernetes'', ''ssh'', ''webhook'']"

definition build_kubernetes :: "(string \<times> string) list \<Rightarrow> deploy_target deploying" where
  "build_kubernetes cfg =
     (let t = \<lparr>kt_api_url = first_non_empty [setting_of cfg ''api_url'', setting_of cfg ''server''],
            kt_token = setting_of cfg ''token'', kt_namespace = first_non_empty [setting_of cfg ''namespace'', ''default''],
            kt_secret_name = first_non_empty [setting_of cfg ''secret_name'', setting_of cfg ''secret''],
            kt_ca_bundle = first_non_empty [setting_of cfg ''ca_bundle'', setting_of cfg ''ca_crt''],
            kt_insecure = (parse_bool (setting_of cfg ''insecure_skip_verify'') = Some True),
            kt_annotations = parse_pairs (setting_of cfg ''annotations''), kt_labels = parse_pairs (setting_of cfg ''labels'')\<rparr>
      in if kt_api_url t = [] \<or> kt_token t = [] \<or> kt_secret_name t = []
         then Inl ''deploy: a kubernetes target needs api_url, token and secret_name'' else Inr (Kubernetes t))"

definition ssh_auth_methods :: "transports \<Rightarrow> ssh_target \<Rightarrow> unit deploying" where
  "ssh_auth_methods W t =
     (if st_private_key t \<noteq> [] \<and> \<not> tr_ssh_key W (st_private_key t) (st_passphrase t) then Inl ''deploy: parse the ssh private key''
      else if st_private_key t = [] \<and> st_password t = [] then Inl ''deploy: an ssh target needs private_key or password''
      else Inr ())"

definition ssh_host_key :: "transports \<Rightarrow> ssh_target \<Rightarrow> unit deploying" where
  "ssh_host_key W t =
     (if st_insecure t then Inr ()
      else if st_host_key t = [] then Inl ''deploy: an ssh target needs host_key''
      else if tr_host_key W (st_host_key t) then Inr () else Inl ''deploy: parse host_key'')"

definition build_ssh :: "transports \<Rightarrow> (string \<times> string) list \<Rightarrow> deploy_target deploying" where
  "build_ssh W cfg =
     (let t = \<lparr>st_host = setting_of cfg ''host'', st_port = atoi_or_zero (setting_of cfg ''port''),
            st_user = first_non_empty [setting_of cfg ''user'', setting_of cfg ''username'', ''root''],
            st_private_key = first_non_empty [setting_of cfg ''private_key'', setting_of cfg ''key''],
            st_passphrase = setting_of cfg ''passphrase'', st_password = setting_of cfg ''password'',
            st_host_key = setting_of cfg ''host_key'',
            st_insecure = (parse_bool (setting_of cfg ''insecure_ignore_host_key'') = Some True),
            st_cert_path = setting_of cfg ''cert_path'', st_key_path = setting_of cfg ''key_path'',
            st_chain_path = setting_of cfg ''chain_path'', st_fullchain_path = setting_of cfg ''fullchain_path'',
            st_root_path = setting_of cfg ''root_path'',
            st_reload = first_non_empty [setting_of cfg ''reload_command'', setting_of cfg ''reload''],
            st_file_mode = setting_of cfg ''file_mode''\<rparr>
      in if st_host t = [] then Inl ''deploy: an ssh target needs a host''
         else if st_cert_path t = [] \<and> st_key_path t = [] \<and> st_chain_path t = [] \<and> st_fullchain_path t = [] \<and> st_root_path t = []
         then Inl ''deploy: an ssh target needs at least one path to write''
         else bindE (ssh_auth_methods W t) (\<lambda>_. bindE (ssh_host_key W t) (\<lambda>_. Inr (Ssh t))))"

definition build_webhook :: "(string \<times> string) list \<Rightarrow> deploy_target deploying" where
  "build_webhook cfg =
     (let t = \<lparr>ht_url = setting_of cfg ''url'', ht_secret = setting_of cfg ''secret'',
            ht_headers = parse_pairs (setting_of cfg ''headers''),
            ht_include_key = (case parse_bool (first_non_empty [setting_of cfg ''include_key'', ''true'']) of
               None \<Rightarrow> True | Some b \<Rightarrow> b)\<rparr>
      in if ht_url t = [] then Inl ''deploy: a webhook target needs a url''
         else if ht_include_key t \<and> ht_secret t = [] then Inl ''deploy: a webhook that receives the private key needs a secret''
         else Inr (Webhook t))"

definition build_target :: "transports \<Rightarrow> string \<Rightarrow> (string \<times> string) list \<Rightarrow> deploy_target deploying" where
  "build_target W kind cfg =
     (if kind = ''kubernetes'' then build_kubernetes cfg
      else if kind = ''ssh'' then build_ssh W cfg
      else if kind = ''webhook'' then build_webhook cfg
      else Inl (''deploy: unknown target kind '' @ kind))"

section \<open>Deploying\<close>

definition ok_status :: "int \<Rightarrow> bool" where
  "ok_status st = (200 \<le> st \<and> st < 300)"

definition merged_annotations :: "kube_target \<Rightarrow> deploy_bundle \<Rightarrow> labels" where
  "merged_annotations t b = foldl (\<lambda>out (k, v). map_set k v out)
     [(''certio.jkaninda.dev/common-name'', db_common_name b), (''certio.jkaninda.dev/serial-number'', db_serial_number b),
      (''certio.jkaninda.dev/not-after'', rfc3339 (db_not_after b))] (kt_annotations t)"

definition merged_labels :: "kube_target \<Rightarrow> labels" where
  "merged_labels t = foldl (\<lambda>out (k, v). map_set k v out) [(''app.kubernetes.io/managed-by'', ''certio'')] (kt_labels t)"

definition describe_kubernetes :: "kube_target \<Rightarrow> string" where
  "describe_kubernetes t = ''secret '' @ kt_namespace t @ ''/'' @ kt_secret_name t @ '' on '' @ kt_api_url t"

definition shorten :: "string \<Rightarrow> string" where
  "shorten message = (if 512 < length message then take 512 message @ [CHR 0xE2, CHR 0x80, CHR 0xA6] else message)"

definition api_error :: "string \<Rightarrow> string \<Rightarrow> string" where
  "api_error body status = (let message = trim_space body in
     if message = [] then status else status @ '': '' @ shorten message)"

definition deploy_kubernetes :: "transports \<Rightarrow> kube_target \<Rightarrow> deploy_bundle \<Rightarrow> unit deploying" where
  "deploy_kubernetes W t b =
     (if \<not> has_key b then Inl ''deploy: a kubernetes.io/tls Secret needs the private key''
      else if kt_ca_bundle t \<noteq> [] \<and> \<not> tr_ca_pool W (kt_ca_bundle t) then Inl ''deploy: the kubernetes ca_bundle is not valid PEM''
      else
        let chain = (if db_fullchain_pem b = [] then db_certificate_pem b else db_fullchain_pem b);
            secret = \<lparr>ks_name = kt_secret_name t, ks_namespace = kt_namespace t, ks_annotations = merged_annotations t b,
              ks_labels = merged_labels t, ks_tls_crt = chain, ks_tls_key = db_private_key_pem b, ks_ca_crt = db_root_pem b\<rparr>;
            base = ''/api/v1/namespaces/'' @ kt_namespace t @ ''/secrets''
        in case tr_kube W t ''PUT'' (base @ ''/'' @ kt_secret_name t) secret of
             Inl e \<Rightarrow> Inl (''deploy: update '' @ describe_kubernetes t @ '': '' @ e)
           | Inr (st, status, body) \<Rightarrow>
               if ok_status st then Inr ()
               else if st \<noteq> 404 then Inl (''deploy: update '' @ describe_kubernetes t @ '': '' @ api_error body status)
               else (case tr_kube W t ''POST'' base secret of
                   Inl e \<Rightarrow> Inl (''deploy: create '' @ describe_kubernetes t @ '': '' @ e)
                 | Inr (st, status, body) \<Rightarrow>
                     if ok_status st then Inr () else Inl (''deploy: create '' @ describe_kubernetes t @ '': '' @ api_error body status)))"

definition ssh_port :: "ssh_target \<Rightarrow> int" where
  "ssh_port t = (if 0 < st_port t then st_port t else 22)"

definition describe_ssh :: "ssh_target \<Rightarrow> string" where
  "describe_ssh s = st_user s @ ''@'' @ join_host_port (st_host s) (dec_int (ssh_port s))"

definition shell_quote :: "string \<Rightarrow> string" where
  "shell_quote v = [CHR 0x27] @ concat (map (\<lambda>c. if c = CHR 0x27 then [CHR 0x27, CHR 0x5C, CHR 0x27, CHR 0x27] else [c]) v) @ [CHR 0x27]"

definition write_script :: "string \<Rightarrow> string \<Rightarrow> string" where
  "write_script path mode = (let temp = shell_quote (path @ ''.certio-tmp'') in
     ''umask 077 && cat > '' @ temp @ '' && chmod '' @ shell_quote mode @ '' '' @ temp @ '' && mv -f '' @ temp @ '' '' @ shell_quote path)"

definition ssh_writes :: "ssh_target \<Rightarrow> deploy_bundle \<Rightarrow> (string \<times> pem \<times> string) list" where
  "ssh_writes t b =
     (let mode = (if st_file_mode t \<noteq> [] then st_file_mode t else ''0644'')
      in filter (\<lambda>(path, content, _). path \<noteq> [] \<and> content \<noteq> [])
           [(st_cert_path t, db_certificate_pem b, mode), (st_fullchain_path t, db_fullchain_pem b, mode),
            (st_chain_path t, db_chain_pem b, mode), (st_root_path t, db_root_pem b, mode),
            (st_key_path t, db_private_key_pem b, ''0600'')])"

text \<open>A command that fails gives its error and what it wrote to standard error; a session that cannot be opened is such a failure.\<close>

definition ssh_run :: "transports \<Rightarrow> ssh_target \<Rightarrow> string \<Rightarrow> unit deploying" where
  "ssh_run W t command = (case tr_session W t command [] of None \<Rightarrow> Inr () | Some (e, stderr) \<Rightarrow>
     Inl (if trim_space stderr = [] then e else e @ '': '' @ trim_space stderr))"

definition ssh_write :: "transports \<Rightarrow> ssh_target \<Rightarrow> string \<times> pem \<times> string \<Rightarrow> unit deploying" where
  "ssh_write W t w = (case w of (path, content, mode) \<Rightarrow>
     (case tr_session W t (write_script path mode) content of None \<Rightarrow> Inr () | Some (e, stderr) \<Rightarrow>
       Inl (''deploy: write '' @ path @ '' on '' @ describe_ssh t @ '': '' @ e @
         (if trim_space stderr = [] then [] else '' ('' @ trim_space stderr @ '')''))))"

definition deploy_ssh :: "transports \<Rightarrow> ssh_target \<Rightarrow> deploy_bundle \<Rightarrow> unit deploying" where
  "deploy_ssh W t b =
     bindE (ssh_auth_methods W t) (\<lambda>_.
     bindE (ssh_host_key W t) (\<lambda>_.
     case tr_dial W t of
       Some (False, e) \<Rightarrow> Inl (''deploy: dial '' @ describe_ssh t @ '': '' @ e)
     | Some (True, e) \<Rightarrow> Inl (''deploy: ssh handshake with '' @ describe_ssh t @ '': '' @ e)
     | None \<Rightarrow>
         let writes = ssh_writes t b in
         bindE (forE (ssh_write W t) writes) (\<lambda>_.
         if writes = [] then Inl ''deploy: this ssh target has no paths configured, so there is nothing to write''
         else if st_reload t \<noteq> [] then
           map_err (\<lambda>e. ''deploy: files were written to '' @ describe_ssh t @ '' but the reload failed: '' @ e) (ssh_run W t (st_reload t))
         else Inr ())))"

definition hook_body :: "instant \<Rightarrow> hook_target \<Rightarrow> deploy_bundle \<Rightarrow> hook_payload" where
  "hook_body now t b = \<lparr>hp_common_name = db_common_name b, hp_serial_number = db_serial_number b, hp_not_after = db_not_after b,
     hp_timestamp = now, hp_certificate_pem = db_certificate_pem b, hp_chain_pem = db_chain_pem b, hp_fullchain_pem = db_fullchain_pem b,
     hp_root_pem = db_root_pem b, hp_private_key_pem = (if ht_include_key t then db_private_key_pem b else [])\<rparr>"

definition deploy_webhook :: "transports \<Rightarrow> instant \<Rightarrow> hook_target \<Rightarrow> deploy_bundle \<Rightarrow> unit deploying" where
  "deploy_webhook W now t b =
     (if ht_url t = [] then Inl ''deploy: a webhook target needs a url''
      else (case tr_hook W t (hook_body now t b) of
          Inl e \<Rightarrow> Inl (''deploy: post to '' @ ht_url t @ '': '' @ e)
        | Inr (st, status, body) \<Rightarrow>
            if ok_status st then Inr () else Inl (''deploy: '' @ ht_url t @ '' returned '' @ status @ '': '' @ shorten (trim_space body))))"

definition deploy_to :: "transports \<Rightarrow> instant \<Rightarrow> deploy_target \<Rightarrow> deploy_bundle \<Rightarrow> unit deploying" where
  "deploy_to W now t b = (case t of
       Kubernetes k \<Rightarrow> deploy_kubernetes W k b
     | Ssh s \<Rightarrow> deploy_ssh W s b
     | Webhook h \<Rightarrow> deploy_webhook W now h b)"

definition describe_target :: "deploy_target \<Rightarrow> string" where
  "describe_target t = (case t of
       Kubernetes k \<Rightarrow> describe_kubernetes k
     | Ssh s \<Rightarrow> describe_ssh s
     | Webhook h \<Rightarrow> ht_url h)"

end
