(* ===== verification/SvcDeploy.thy ===== *)
theory SvcDeploy
  imports Deploy
begin

text \<open>
  \<open>internal/service/deployment.go\<close>: the deployment targets of an instance, and pushing certificates
  to them.  \<open>deploy_env\<close> has the environment of the PKI services, the dialect of the database and
  the transports; a run reads the clock once.
\<close>

record deploy_env =
  de_svc :: svc_env
  de_dialect :: dialect
  de_transports :: transports

datatype deploy_error = DInvalid string | DStore store_error | DService svc_error

type_synonym 'a deployment = "(instance_db, deploy_error, 'a) op"

definition instance_op :: "(instance_db, store_error, 'a) op \<Rightarrow> 'a deployment" where
  "instance_op = map_errS DStore"

section \<open>Configuring targets\<close>

record target_input =
  ti_name :: string
  ti_kind :: string
  ti_config :: "(string \<times> string) list"
  ti_selector :: labels
  ti_common_name :: string
  ti_enabled :: bool

definition seal_config :: "svc_env \<Rightarrow> (string \<times> string) list \<Rightarrow> sealed_map" where
  "seal_config E cfg = Some (se_master E, cfg)"

definition open_sealed_config :: "svc_env \<Rightarrow> sealed_map \<Rightarrow> string + (string \<times> string) list" where
  "open_sealed_config E c = (case c of
       None \<Rightarrow> Inr []
     | Some (m, cfg) \<Rightarrow> if m = se_master E then Inr cfg else Inl ''could not open the sealed configuration'')"

definition create_deployment_target :: "deploy_env \<Rightarrow> string \<Rightarrow> target_input \<Rightarrow> deployment_target deployment" where
  "create_deployment_target E i inp =
     (if ti_name inp = [] then failS (DInvalid ''a target name is required'')
      else if ti_selector inp = [] \<and> ti_common_name inp = [] then failS (DInvalid ''a target needs a selector or a common name'')
      else
        bindS (liftE (map_err DInvalid (build_target (de_transports E) (ti_kind inp) (ti_config inp)))) (\<lambda>_.
        let row = \<lparr>dt_id = i, dt_created_at = se_now (de_svc E), dt_name = ti_name inp, dt_kind = ti_kind inp,
              dt_config = seal_config (de_svc E) (ti_config inp), dt_selector = ti_selector inp, dt_common_name = ti_common_name inp,
              dt_enabled = ti_enabled inp, dt_last_run = None, dt_last_success = None, dt_last_error = [], dt_last_serial = []\<rparr> in
        bindS (instance_op (create_target (de_dialect E) row)) (\<lambda>_. returnS row)))"

record target_update =
  tu_name :: "string option"
  tu_config :: "(string \<times> string) list option"
  tu_selector :: "labels option"
  tu_common_name :: "string option"
  tu_enabled :: "bool option"

definition given :: "'a option \<Rightarrow> 'a \<Rightarrow> 'a" where
  "given new old = (case new of None \<Rightarrow> old | Some v \<Rightarrow> v)"

definition update_deployment_target :: "deploy_env \<Rightarrow> string \<Rightarrow> target_update \<Rightarrow> deployment_target deployment" where
  "update_deployment_target E i inp =
     bindS (readS (\<lambda>d. map_err DStore (get_target i d))) (\<lambda>row.
     let row = row\<lparr>dt_name := given (tu_name inp) (dt_name row), dt_selector := given (tu_selector inp) (dt_selector row),
           dt_common_name := given (tu_common_name inp) (dt_common_name row), dt_enabled := given (tu_enabled inp) (dt_enabled row)\<rparr> in
     bindS (liftE (case tu_config inp of
         None \<Rightarrow> Inr row
       | Some cfg \<Rightarrow> bindE (map_err DInvalid (build_target (de_transports E) (dt_kind row) cfg)) (\<lambda>_.
           Inr (row\<lparr>dt_config := seal_config (de_svc E) cfg\<rparr>)))) (\<lambda>row.
     if dt_selector row = [] \<and> dt_common_name row = [] then failS (DInvalid ''a target needs a selector or a common name'')
     else bindS (instance_op (update_target (de_dialect E) row)) (\<lambda>_. returnS row)))"

definition delete_deployment_target :: "string \<Rightarrow> unit deployment" where
  "delete_deployment_target i =
     bindS (readS (\<lambda>d. map_err DStore (get_target i d))) (\<lambda>_. instance_op (delete_target i))"

section \<open>One deployment\<close>

record deploy_result =
  re_target :: string
  re_certificate :: string
  re_destination :: string
  re_skipped :: bool
  re_error :: string

text \<open>
  A certificate whose key the instance does not hold has no bundle: \<open>LoadBundle\<close> returns nothing
  beside \<open>ErrKeyUnavailable\<close>, which the code lets pass before it reads the bundle.  The result says
  \<open>None\<close> then: the program stops there on a nil pointer.
\<close>

definition deploy_bundle_of :: "svc_env \<Rightarrow> certificate \<Rightarrow> db \<Rightarrow> (string + deploy_bundle) option" where
  "deploy_bundle_of E c d = (case load_bundle E (cr_id c) True d of
       Inl e \<Rightarrow> if e = EKeyUnavailable then None else Some (Inl ''could not load the bundle'')
     | Inr (b, row) \<Rightarrow> Some (
         bindE (case b_private_key b of
             None \<Rightarrow> Inr []
           | Some k \<Rightarrow> map_err (\<lambda>_. ''unsupported key'') (marshal_private_key_pem k)) (\<lambda>key.
         Inr \<lparr>db_common_name = cr_common_name row, db_serial_number = cr_serial row, db_not_after = cr_not_after row,
           db_certificate_pem = bundle_cert_pem b, db_chain_pem = bundle_chain_pem b, db_fullchain_pem = bundle_full_chain_pem b,
           db_root_pem = bundle_root_pem b, db_private_key_pem = key\<rparr>)))"

definition record_deployment :: "deploy_env \<Rightarrow> deployment_target \<Rightarrow> certificate \<Rightarrow> string \<Rightarrow> instance_db \<Rightarrow> instance_db" where
  "record_deployment E t c err d =
     (let now = se_now (de_svc E);
          t = t\<lparr>dt_last_run := Some now, dt_last_error := err\<rparr>;
          t = (if err \<noteq> [] then t else t\<lparr>dt_last_success := Some now, dt_last_serial := cr_serial c\<rparr>)
      in snd (update_target (de_dialect E) t d))"

definition up_to_date :: "deployment_target \<Rightarrow> certificate \<Rightarrow> bool" where
  "up_to_date t c = (dt_last_serial t = cr_serial c \<and> dt_last_error t = [])"

definition push_certificate :: "deploy_env \<Rightarrow> deployment_target \<Rightarrow> certificate \<Rightarrow> string + deploy_bundle \<Rightarrow> string deploying" where
  "push_certificate E t c bundle =
     bindE bundle (\<lambda>b.
     bindE (open_sealed_config (de_svc E) (dt_config t)) (\<lambda>cfg.
     bindE (build_target (de_transports E) (dt_kind t) cfg) (\<lambda>built.
     bindE (deploy_to (de_transports E) (se_now (de_svc E)) built b) (\<lambda>_. Inr (describe_target built)))))"

text \<open>\<open>None\<close>: the process has crashed.\<close>

definition run_deployment ::
    "deploy_env \<Rightarrow> deployment_target \<Rightarrow> certificate \<Rightarrow> bool \<Rightarrow> instance_db \<Rightarrow> (deploy_result \<times> instance_db) option" where
  "run_deployment E t c force d =
     (let res = \<lparr>re_target = dt_id t, re_certificate = cr_common_name c, re_destination = [], re_skipped = False, re_error = []\<rparr> in
      if \<not> force \<and> up_to_date t c then Some (res\<lparr>re_skipped := True\<rparr>, d)
      else (case deploy_bundle_of (de_svc E) c (in_pki d) of
          None \<Rightarrow> None
        | Some bundle \<Rightarrow> Some (case push_certificate E t c bundle of
              Inl e \<Rightarrow> (res\<lparr>re_error := e\<rparr>, record_deployment E t c e d)
            | Inr dest \<Rightarrow> (res\<lparr>re_destination := dest\<rparr>, record_deployment E t c [] d))))"

fun run_deployments ::
    "deploy_env \<Rightarrow> bool \<Rightarrow> (deployment_target \<times> certificate) list \<Rightarrow> instance_db \<Rightarrow> (deploy_result list \<times> instance_db) option" where
  "run_deployments E force [] d = Some ([], d)"
| "run_deployments E force ((t, c) # rest) d = (case run_deployment E t c force d of
     None \<Rightarrow> None
   | Some (r, d) \<Rightarrow> map_option (\<lambda>(rs, d). (r # rs, d)) (run_deployments E force rest d))"

definition deploy_certificate :: "deploy_env \<Rightarrow> string \<Rightarrow> bool \<Rightarrow> instance_db \<Rightarrow> (deploy_error + deploy_result list \<times> instance_db) option" where
  "deploy_certificate E i force d = (case get_certificate i (in_pki d) of
       Inl e \<Rightarrow> Some (Inl (DStore e))
     | Inr c \<Rightarrow> map_option Inr
         (run_deployments E force (map (\<lambda>t. (t, c)) (filter (\<lambda>t. target_matches t c) (enabled_targets d))) d))"

section \<open>A pass over the targets\<close>

definition newest_match :: "deployment_target \<Rightarrow> certificate list \<Rightarrow> certificate option" where
  "newest_match t cs = fold (\<lambda>c best.
     if \<not> target_matches t c then best
     else (case best of None \<Rightarrow> Some c | Some b \<Rightarrow> if cr_not_after b < cr_not_after c then Some c else best)) cs None"

text \<open>The pages the two callers ask for: 500 rows, which the repository cuts to 200.\<close>

definition deploy_page :: "deploy_env \<Rightarrow> string \<Rightarrow> db \<Rightarrow> certificate list" where
  "deploy_page E by d = p_items (list_certificates (de_dialect E) (se_now (de_svc E)) (any_certificate\<lparr>cf_sort_by := by\<rparr>)
     \<lparr>pg_page = 1, pg_limit = 500\<rparr> d)"

fun pending_loop :: "deploy_env \<Rightarrow> certificate list \<Rightarrow> deployment_target list \<Rightarrow> nat \<times> nat \<Rightarrow> instance_db \<Rightarrow> ((nat \<times> nat) \<times> instance_db) option" where
  "pending_loop E cs [] n d = Some (n, d)"
| "pending_loop E cs (t # ts) (deployed, failed) d = (case newest_match t cs of
     None \<Rightarrow> pending_loop E cs ts (deployed, failed) d
   | Some c \<Rightarrow> (case run_deployment E t c False d of
         None \<Rightarrow> None
       | Some (r, d) \<Rightarrow> pending_loop E cs ts
           (if re_skipped r then (deployed, failed) else if re_error r \<noteq> [] then (deployed, Suc failed) else (Suc deployed, failed)) d))"

definition deploy_pending :: "deploy_env \<Rightarrow> instance_db \<Rightarrow> ((nat \<times> nat) \<times> instance_db) option" where
  "deploy_pending E d =
     (let ts = enabled_targets d in
      if ts = [] then Some ((0, 0), d) else pending_loop E (deploy_page E ''not_after'' (in_pki d)) ts (0, 0) d)"

definition test_deployment_target :: "deploy_env \<Rightarrow> string \<Rightarrow> instance_db \<Rightarrow> (deploy_error + deploy_result \<times> instance_db) option" where
  "test_deployment_target E i d = (case get_target i d of
       Inl e \<Rightarrow> Some (Inl (DStore e))
     | Inr t \<Rightarrow> (case newest_match t (deploy_page E [] (in_pki d)) of
           None \<Rightarrow> Some (Inl (DInvalid ''no active certificate matches this target's selector''))
         | Some c \<Rightarrow> map_option Inr (run_deployment E t c True d)))"

end
