(* ===== verification/DeployLaws.thy ===== *)
theory DeployLaws
  imports SvcDeploy
begin

text \<open>
  What deploying guarantees: which certificate a target should hold, what a pass leaves on the
  targets, which certificates a pass can see, when it stops the process, and that a path reaches
  the remote shell as one word.
\<close>

section \<open>The certificate a target should hold\<close>

lemma newest_match_fold:
  assumes "fold (\<lambda>c best. if \<not> target_matches t c then best
     else (case best of None \<Rightarrow> Some c | Some b \<Rightarrow> if cr_not_after b < cr_not_after c then Some c else best)) cs b0 = r"
  shows "(r = None \<longleftrightarrow> b0 = None \<and> (\<forall>c \<in> set cs. \<not> target_matches t c)) \<and>
    (\<forall>m. r = Some m \<longrightarrow> (m \<in> set cs \<and> target_matches t m \<or> b0 = Some m) \<and> (\<forall>b. b0 = Some b \<longrightarrow> cr_not_after b \<le> cr_not_after m) \<and>
      (\<forall>c \<in> set cs. target_matches t c \<longrightarrow> cr_not_after c \<le> cr_not_after m))"
  using assms
proof (induction cs arbitrary: b0)
  case (Cons c cs)
  let ?b = "if \<not> target_matches t c then b0
     else (case b0 of None \<Rightarrow> Some c | Some b \<Rightarrow> if cr_not_after b < cr_not_after c then Some c else b0)"
  note IH = Cons.IH [of ?b]
  show ?case
    using IH Cons.prems by (cases b0; cases "target_matches t c") (auto split: if_splits)
qed simp

lemma newest_match_None: "newest_match t cs = None \<longleftrightarrow> (\<forall>c \<in> set cs. \<not> target_matches t c)"
  using newest_match_fold [of t cs None] by (simp add: newest_match_def)

lemma newest_match_Some:
  "newest_match t cs = Some m \<Longrightarrow> m \<in> set cs \<and> target_matches t m \<and> (\<forall>c \<in> set cs. target_matches t c \<longrightarrow> cr_not_after c \<le> cr_not_after m)"
  using newest_match_fold [of t cs None] by (simp add: newest_match_def)

section \<open>The page of a pass\<close>

lemma selected_any: "certificate_selected D now (any_certificate\<lparr>cf_sort_by := by\<rparr>) = (\<lambda>c. cr_status c \<noteq> StRevoked)"
  by (rule ext) (simp add: certificate_selected_def any_certificate_def)

lemma deploy_page_is:
  "deploy_page E by d = take 200 (certificate_order (any_certificate\<lparr>cf_sort_by := by\<rparr>) (filter (\<lambda>c. cr_status c \<noteq> StRevoked) (db_certificates d)))"
  by (simp add: deploy_page_def list_certificates_def paginate_def new_page_def page_rows_def pagination_normalize_def pagination_offset_def
      Let_def selected_any)

lemma order_by_rows [simp]: "set (order_by desc f rows) = set rows" "length (order_by desc f rows) = length rows"
  by (simp_all add: order_by_def)

lemma certificate_order_rows [simp]:
  "set (certificate_order f rows) = set rows" "length (certificate_order f rows) = length rows"
  by (auto simp: certificate_order_def Let_def)

lemma page_not_revoked: "c \<in> set (deploy_page E by d) \<Longrightarrow> c \<in> set (db_certificates d) \<and> cr_status c \<noteq> StRevoked"
  unfolding deploy_page_is by (drule in_set_takeD) simp

lemma page_complete:
  assumes "length (filter (\<lambda>c. cr_status c \<noteq> StRevoked) (db_certificates d)) \<le> 200"
  shows "set (deploy_page E by d) = {c \<in> set (db_certificates d). cr_status c \<noteq> StRevoked}"
  using assms by (auto simp: deploy_page_is)

text \<open>In a sorted list, what comes with the first \<open>n\<close> has fewer than \<open>n\<close> rows strictly before it.\<close>

lemma take_sorted_rank:
  fixes f :: "'r \<Rightarrow> 'k :: linorder"
  assumes "sorted (map f xs)" "c \<in> set (take n xs)"
  shows "length (filter (\<lambda>x. f x < f c) xs) < n"
proof -
  obtain i where i: "i < n" "i < length xs" "xs ! i = c"
    using assms(2) by (auto simp: in_set_conv_nth)
  have "filter (\<lambda>x. f x < f c) (drop i xs) = []"
  proof -
    have d: "drop i xs = c # drop (Suc i) xs" using i Cons_nth_drop_Suc [of i xs] by simp
    have "sorted (map f (drop i xs))" using sorted_wrt_drop [OF assms(1), of i] by (simp add: drop_map)
    then have "\<forall>x \<in> set (drop i xs). f c \<le> f x" by (auto simp: d)
    then show ?thesis by (auto simp: filter_empty_conv not_less)
  qed
  then have "length (filter (\<lambda>x. f x < f c) xs) = length (filter (\<lambda>x. f x < f c) (take i xs))"
    by (metis append.right_neutral append_take_drop_id filter_append)
  also have "\<dots> \<le> i" using length_filter_le [of _ "take i xs"] i by simp
  finally show ?thesis using i by simp
qed

lemma page_rank:
  assumes "c \<in> set (deploy_page E ''not_after'' d)"
  shows "length (filter (\<lambda>x. cr_status x \<noteq> StRevoked \<and> cr_not_after x < cr_not_after c) (db_certificates d)) < 200"
proof -
  let ?rows = "filter (\<lambda>c. cr_status c \<noteq> StRevoked) (db_certificates d)"
  have "c \<in> set (take 200 (sort_key cr_not_after ?rows))"
    using assms by (simp add: deploy_page_is certificate_order_def Let_def any_certificate_def order_by_def)
  then have "length (filter (\<lambda>x. cr_not_after x < cr_not_after c) (sort_key cr_not_after ?rows)) < 200"
    by (intro take_sorted_rank) simp_all
  also have "filter (\<lambda>x. cr_not_after x < cr_not_after c) (sort_key cr_not_after ?rows) =
      sort_key cr_not_after (filter (\<lambda>x. cr_not_after x < cr_not_after c) ?rows)"
    by (simp add: filter_sort)
  finally show ?thesis by (simp add: conj_commute)
qed

section \<open>What one deployment does\<close>

lemma bindE_InlE:
  assumes "bindE r f = Inl e"
  obtains "r = Inl e" | x where "r = Inr x" "f x = Inl e"
  using assms by (cases r) auto

lemma build_target_error: "build_target W kind cfg = Inl e \<Longrightarrow> e \<noteq> []"
  by (auto simp: build_target_def build_kubernetes_def build_ssh_def build_webhook_def ssh_auth_methods_def ssh_host_key_def Let_def
      split: if_splits elim!: bindE_InlE)

lemma ssh_write_error: "ssh_write W t w = Inl e \<Longrightarrow> e \<noteq> []"
  by (cases w) (auto simp: ssh_write_def ssh_run_def split: option.splits)

lemma deploy_to_error: "deploy_to W now t b = Inl e \<Longrightarrow> e \<noteq> []"
proof (cases t)
  case (Kubernetes k)
  then show "deploy_to W now t b = Inl e \<Longrightarrow> e \<noteq> []"
    by (auto simp: deploy_to_def deploy_kubernetes_def Let_def split: bool.splits if_splits sum.splits prod.splits)
next
  case (Ssh s)
  then show "deploy_to W now t b = Inl e \<Longrightarrow> e \<noteq> []"
    by (auto simp: deploy_to_def deploy_ssh_def ssh_auth_methods_def ssh_host_key_def ssh_run_def Let_def
        split: bool.splits if_splits option.splits elim!: bindE_InlE dest!: forE_Inl ssh_write_error)
next
  case (Webhook h)
  then show "deploy_to W now t b = Inl e \<Longrightarrow> e \<noteq> []"
    by (auto simp: deploy_to_def deploy_webhook_def split: if_splits sum.splits prod.splits)
qed

lemma map_err_Inl [simp]: "map_err f r = Inl e \<longleftrightarrow> (\<exists>x. r = Inl x \<and> e = f x)"
  by (cases r) (auto simp: map_err_def)

lemma push_error:
  assumes "push_certificate E t c bundle = Inl e" "\<And>x. bundle = Inl x \<Longrightarrow> x \<noteq> []"
  shows "e \<noteq> []"
  using assms(1) unfolding push_certificate_def
proof (elim bindE_InlE)
  fix b
  assume "open_sealed_config (de_svc E) (dt_config t) = Inl e"
  then show ?thesis by (auto simp: open_sealed_config_def split: option.splits if_splits)
qed (auto dest: assms(2) build_target_error deploy_to_error)

lemma bundle_error: "deploy_bundle_of E c d = Some (Inl e) \<Longrightarrow> e \<noteq> []"
  by (auto simp: deploy_bundle_of_def split: sum.splits if_splits option.splits elim!: bindE_InlE)

definition target_settled :: "certificate \<Rightarrow> deployment_target \<Rightarrow> bool" where
  "target_settled c t \<longleftrightarrow> dt_last_error t \<noteq> [] \<or> dt_last_serial t = cr_serial c"

text \<open>A run that does not skip writes one row of the targets: the attempt, with the serial if it succeeded.\<close>

lemma run_deployment_writes:
  assumes "run_deployment E t c force d = Some (r, d')" "de_dialect E = Sqlite"
  shows "d' = d \<and> up_to_date t c \<and> re_skipped r \<or>
    (\<exists>t'. d' = in_targets_update (tbl_put dt_id t') d \<and> dt_id t' = dt_id t \<and> target_settled c t' \<and>
      (dt_last_serial t' = dt_last_serial t \<or> dt_last_serial t' = cr_serial c))"
proof (cases "\<not> force \<and> up_to_date t c")
  case True
  then show ?thesis using assms(1) by (auto simp: run_deployment_def Let_def)
next
  case False
  have rec: "\<exists>t'. record_deployment E t c e d = in_targets_update (tbl_put dt_id t') d \<and> dt_id t' = dt_id t \<and> target_settled c t' \<and>
      (dt_last_serial t' = dt_last_serial t \<or> dt_last_serial t' = cr_serial c)" for e
    using assms(2)
    by (cases "e = []")
      (force simp: record_deployment_def Let_def update_target_def repo_save_def target_clash_def fits_def target_settled_def)+
  have "\<exists>e. d' = record_deployment E t c e d"
    using assms(1) False by (auto simp: run_deployment_def Let_def split: option.splits sum.splits)
  then show ?thesis using rec by blast
qed

lemma run_deployment_pki: "run_deployment E t c force d = Some (r, d') \<Longrightarrow> in_pki d' = in_pki d"
  by (auto simp: run_deployment_def record_deployment_def update_target_def repo_save_def Let_def split: if_splits option.splits sum.splits)

section \<open>A pass\<close>

lemma pending_pki: "pending_loop E cs ts n d = Some (m, d') \<Longrightarrow> in_pki d' = in_pki d"
  by (induction E cs ts n d rule: pending_loop.induct)
    (auto split: option.splits if_splits dest: run_deployment_pki)

text \<open>Targets that are not in the list keep their rows, and every target of the list is settled with its certificate.\<close>

lemma pending_settles:
  assumes "pending_loop E cs ts n d = Some (m, d')" "de_dialect E = Sqlite" "distinct (map dt_id ts)"
    "distinct (map dt_id (in_targets d))" "set ts \<subseteq> set (in_targets d)"
  shows "(\<forall>x \<in> set (in_targets d). dt_id x \<notin> dt_id ` set ts \<longrightarrow> x \<in> set (in_targets d')) \<and>
    (\<forall>t \<in> set ts. \<forall>c. newest_match t cs = Some c \<longrightarrow> (\<exists>t' \<in> set (in_targets d'). dt_id t' = dt_id t \<and> target_settled c t'))"
  using assms
proof (induction E cs ts n d rule: pending_loop.induct)
  case (2 E cs t ts deployed failed d)
  show ?case
  proof (cases "newest_match t cs")
    case None
    have "t \<in> set (in_targets d')"
      using "2.IH"(1) [OF None] "2.prems" None by (auto split: option.splits)
    then show ?thesis using "2.IH"(1) [OF None] "2.prems" None by (auto split: option.splits)
  next
    case (Some c)
    then obtain r e where r: "run_deployment E t c False d = Some (r, e)"
      and rest: "pending_loop E cs ts (if re_skipped r then (deployed, failed) else if re_error r \<noteq> [] then (deployed, Suc failed)
          else (Suc deployed, failed)) e = Some (m, d')"
      using "2.prems"(1) by (auto split: option.splits)
    have "\<exists>t' \<in> set (in_targets e). dt_id t' = dt_id t \<and> target_settled c t'" and dist: "distinct (map dt_id (in_targets e))"
      and e: "\<And>x. x \<in> set (in_targets d) \<Longrightarrow> dt_id x \<noteq> dt_id t \<Longrightarrow> x \<in> set (in_targets e)"
      using run_deployment_writes [OF r "2.prems"(2)] "2.prems"(4,5)
      by (auto simp: up_to_date_def target_settled_def set_tbl_put distinct_tbl_put)
    then obtain t' where t': "t' \<in> set (in_targets e)" "dt_id t' = dt_id t" "target_settled c t'" by blast
    have ts1: "dt_id t \<notin> dt_id ` set ts"
      using "2.prems"(3) by simp
    have ts2: "set ts \<subseteq> set (in_targets e)"
    proof
      fix x assume x: "x \<in> set ts"
      then have "dt_id x \<noteq> dt_id t" using ts1 by (metis imageI)
      then show "x \<in> set (in_targets e)" using e x "2.prems"(5) by auto
    qed
    note IH = "2.IH"(2) [OF Some r refl rest "2.prems"(2) _ dist ts2]
    show ?thesis using IH "2.prems"(3) ts1 t' e Some by auto
  qed
qed simp

end
