(* ===== verification/DeployGuarantees.thy ===== *)
theory DeployGuarantees
  imports DeployLaws Samples
begin

text \<open>
  The properties of deployments: what a pass of \<open>DeployPending\<close> leaves on the targets while every
  certificate fits a page, what happens beyond a page and with a certificate whose key the
  instance does not hold, and what a remote shell reads of the command that writes a file.
\<close>

section \<open>What a pass changes\<close>

lemma serials_kept:
  assumes "pending_loop E cs ts n d = Some (m, d')" "de_dialect E = Sqlite" "set ts \<subseteq> T"
    "\<forall>x \<in> set (in_targets d). \<exists>t \<in> T. dt_id t = dt_id x \<and> (dt_last_serial x = dt_last_serial t \<or> dt_last_serial x \<in> cr_serial ` set cs)"
    "x \<in> set (in_targets d')"
  shows "\<exists>t \<in> T. dt_id t = dt_id x \<and> (dt_last_serial x = dt_last_serial t \<or> dt_last_serial x \<in> cr_serial ` set cs)"
  using assms
proof (induction E cs ts n d rule: pending_loop.induct)
  case (2 E cs t ts deployed failed d)
  show ?case
  proof (cases "newest_match t cs")
    case None
    then show ?thesis using "2.IH"(1) [OF None] "2.prems" by simp
  next
    case (Some c)
    then obtain r e where r: "run_deployment E t c False d = Some (r, e)"
      and rest: "pending_loop E cs ts (if re_skipped r then (deployed, failed) else if re_error r \<noteq> [] then (deployed, Suc failed)
          else (Suc deployed, failed)) e = Some (m, d')"
      using "2.prems"(1) by (auto split: option.splits)
    have c: "c \<in> set cs" using newest_match_Some [OF Some] by simp
    have "\<exists>t \<in> T. dt_id t = dt_id x \<and> (dt_last_serial x = dt_last_serial t \<or> dt_last_serial x \<in> cr_serial ` set cs)"
      if x: "x \<in> set (in_targets e)" for x
    proof (cases "x \<in> set (in_targets d)")
      case False
      then have "dt_id x = dt_id t \<and> (dt_last_serial x = dt_last_serial t \<or> dt_last_serial x = cr_serial c)"
        using run_deployment_writes [OF r "2.prems"(2)] x by (auto simp: set_tbl_put)
      then show ?thesis using c "2.prems"(3) by (intro bexI [of _ t]) auto
    qed (use "2.prems"(4) in simp)
    then show ?thesis using "2.IH"(2) [OF Some r refl rest] "2.prems"(2,3,5) by auto
  qed
qed auto

lemma enabled_rows: "set (enabled_targets d) = {t \<in> set (in_targets d). dt_enabled t}"
  by (auto simp: enabled_targets_def)

lemma pending_is_loop: "deploy_pending E d = Some (n, d') \<Longrightarrow>
    pending_loop E (deploy_page E ''not_after'' (in_pki d)) (enabled_targets d) (0, 0) d = Some (n, d')"
  by (auto simp: deploy_pending_def Let_def split: if_splits)

lemma pending_stops:
  assumes "t \<in> set ts" "newest_match t cs = Some c" "\<not> up_to_date t c" "deploy_bundle_of (de_svc E) c (in_pki d) = None"
  shows "pending_loop E cs ts n d = None"
  using assms
proof (induction E cs ts n d rule: pending_loop.induct)
  case (2 E cs u ts deployed failed d)
  show ?case
  proof (cases "newest_match u cs")
    case None
    then show ?thesis using "2.IH"(1) [OF None] "2.prems" by auto
  next
    case (Some x)
    show ?thesis
    proof (cases "run_deployment E u x False d")
      case N: None
      then show ?thesis using Some by simp
    next
      case S: (Some re)
      obtain r e where re: "re = (r, e)" by (cases re)
      have "u \<noteq> t" using S "2.prems"(2-4) Some by (auto simp: run_deployment_def Let_def)
      then have "t \<in> set ts" using "2.prems"(1) by auto
      then show ?thesis
        using "2.IH"(2) [OF Some S [unfolded re] refl] "2.prems" run_deployment_pki [OF S [unfolded re]] by (simp add: Some S re)
    qed
  qed
qed simp

section \<open>A webhook behind a load balancer\<close>

definition quiet_net :: transports where
  "quiet_net = \<lparr>tr_ca_pool = (\<lambda>_. True), tr_kube = (\<lambda>_ _ _ _. Inl ''timeout''), tr_hook = (\<lambda>_ _. Inr (200, ''200 OK'', [])),
     tr_ssh_key = (\<lambda>_ _. True), tr_host_key = (\<lambda>_. True), tr_dial = (\<lambda>_. Some (False, ''timeout'')), tr_session = (\<lambda>_ _ _. None)\<rparr>"

definition web_env :: deploy_env where
  "web_env = \<lparr>de_svc = sample_env, de_dialect = Sqlite, de_transports = quiet_net\<rparr>"

definition web_target :: deployment_target where
  "web_target = \<lparr>dt_id = ''t-1'', dt_created_at = 0, dt_name = ''web'', dt_kind = ''webhook'',
     dt_config = seal_config sample_env [(''url'', ''https://lb.lan''), (''secret'', ''s'')], dt_selector = [],
     dt_common_name = ''www.lan'', dt_enabled = True, dt_last_run = None, dt_last_success = None, dt_last_error = [], dt_last_serial = []\<rparr>"

definition web_instance :: "db \<Rightarrow> instance_db" where
  "web_instance d = \<lparr>in_pki = d, in_auth = empty_auth, in_channels = [], in_deliveries = [], in_targets = [web_target], in_jobs = []\<rparr>"

lemma web_simps [simp]:
  "de_svc web_env = sample_env" "de_dialect web_env = Sqlite" "in_pki (web_instance d) = d" "in_targets (web_instance d) = [web_target]"
  "dt_enabled web_target" "dt_id web_target = ''t-1''" "dt_last_serial web_target = []" "dt_last_error web_target = []"
  by (simp_all add: web_env_def web_instance_def web_target_def)

lemma web_matches: "target_matches web_target c \<longleftrightarrow> equal_fold ''www.lan'' (cr_common_name c)"
  by (simp add: target_matches_def web_target_def)

lemma www_cert_names:
  "pn_common_name (x_subject www_cert) = ''www.lan''" "format_serial (Some (x_serial www_cert)) \<noteq> []" "0 < x_not_after www_cert"
  by code_simp+

lemma www_row_names: "cr_common_name www_row = ''www.lan''" "cr_serial www_row \<noteq> []" "0 < cr_not_after www_row"
  by (simp_all add: www_row_def certificate_row_def Let_def www_cert_names)

lemma same_fold [simp]: "equal_fold s s"
  by (simp add: equal_fold_def)

text \<open>A pass gets to its end unless some certificate has no key.\<close>

lemma loads_or_lacks_key:
  assumes "load_bundle (de_svc E) (cr_id c) True (in_pki d) \<noteq> Inl EKeyUnavailable"
  shows "run_deployment E t c force d \<noteq> None"
proof -
  have "deploy_bundle_of (de_svc E) c (in_pki d) \<noteq> None"
    using assms by (auto simp: deploy_bundle_of_def split: sum.splits)
  then show ?thesis by (auto simp: run_deployment_def Let_def)
qed

lemma web_page: "deploy_page web_env ''not_after'' (db2\<lparr>db_certificates := [c]\<rparr>) = (if cr_status c \<noteq> StRevoked then [c] else [])"
  by (simp add: deploy_page_is certificate_order_def Let_def any_certificate_def order_by_def)

lemma web_bundle: "load_bundle sample_env ''cert-1'' True (db2\<lparr>db_certificates := [c]\<rparr>) = Inl EKeyUnavailable \<longleftrightarrow> cr_key c = NoSealedKey"
  if "c = www_row\<lparr>cr_key := k\<rparr>" for c
  using that
  by (cases k) (auto simp: load_bundle_def get_with_authority_def get_certificate_def get_authority_def tbl_get_def chain_for_def parse_encoded
      chain_certificates_def authority_chain_def eval_nat_numeral open_key_def has_private_key_def)

lemma web_enabled: "enabled_targets (web_instance d) = [web_target]"
  by (simp add: enabled_targets_def)

lemma web_newest: "newest_match web_target [www_row\<lparr>cr_key := k\<rparr>] = Some (www_row\<lparr>cr_key := k\<rparr>)"
  by (simp add: newest_match_def web_matches www_row_names)

section \<open>What a pass promises\<close>

text \<open>C29: While no more than 200 certificates are unrevoked, a pass of \<open>DeployPending\<close> on an instance over
  SQLite settles every enabled target that some unrevoked certificate matches: there is a matching unrevoked
  certificate, expiring no earlier than that one, of which the target either holds the serial or
  shows the error of an attempt.\<close>

theorem deployed_targets_are_current:
  assumes "deploy_pending E d = Some (n, d')" "de_dialect E = Sqlite" "distinct (map dt_id (in_targets d))"
    "length (filter (\<lambda>x. cr_status x \<noteq> StRevoked) (db_certificates (in_pki d))) \<le> 200"
    "t \<in> set (in_targets d)" "dt_enabled t"
    "c \<in> set (db_certificates (in_pki d))" "cr_status c \<noteq> StRevoked" "target_matches t c"
  shows "\<exists>m \<in> set (db_certificates (in_pki d)). cr_status m \<noteq> StRevoked \<and> target_matches t m \<and> cr_not_after c \<le> cr_not_after m \<and>
    (\<exists>t' \<in> set (in_targets d'). dt_id t' = dt_id t \<and> (dt_last_error t' \<noteq> [] \<or> dt_last_serial t' = cr_serial m))"
proof -
  let ?page = "deploy_page E ''not_after'' (in_pki d)"
  have page: "c \<in> set ?page" using page_complete [OF assms(4), of E "''not_after''"] assms(7,8) by simp
  then obtain m where m: "newest_match t ?page = Some m"
    using newest_match_None [of t ?page] assms(9) by (cases "newest_match t ?page") auto
  have "distinct (map dt_id (enabled_targets d))"
    using assms(3) by (simp add: enabled_targets_def distinct_map inj_on_def)
  moreover have "set (enabled_targets d) \<subseteq> set (in_targets d)" "t \<in> set (enabled_targets d)"
    using assms(5,6) by (auto simp: enabled_rows)
  ultimately have "\<exists>t' \<in> set (in_targets d'). dt_id t' = dt_id t \<and> target_settled m t'"
    using pending_settles [OF pending_is_loop [OF assms(1)] assms(2) _ assms(3)] m by blast
  moreover have "m \<in> set ?page" "target_matches t m" "cr_not_after c \<le> cr_not_after m"
    using newest_match_Some [OF m] page assms(9) by simp_all
  moreover have "m \<in> set (db_certificates (in_pki d))" "cr_status m \<noteq> StRevoked"
    using page_not_revoked [OF calculation(2)] by simp_all
  ultimately show ?thesis unfolding target_settled_def by blast
qed

lemma deployed_targets_are_current_witness:
  "\<exists>n d'. deploy_pending web_env (web_instance db2) = Some (n, d') \<and>
    (\<exists>t' \<in> set (in_targets d'). dt_id t' = ''t-1'' \<and> (dt_last_error t' \<noteq> [] \<or> dt_last_serial t' = cr_serial www_row))"
proof -
  have db2: "db2\<lparr>db_certificates := [www_row]\<rparr> = db2" "www_row\<lparr>cr_key := Sealed 1 [] www_key\<rparr> = www_row"
    by (simp_all add: db2_def www_row_def certificate_row_def Let_def)
  have key: "load_bundle sample_env ''cert-1'' True db2 \<noteq> Inl EKeyUnavailable"
    using web_bundle [of www_row "Sealed 1 [] www_key"] by (simp add: db2)
  have "run_deployment web_env web_target www_row False (web_instance db2) \<noteq> None"
    using loads_or_lacks_key [of web_env www_row "web_instance db2"] key by simp
  then have "deploy_pending web_env (web_instance db2) \<noteq> None"
    using web_page [of www_row] web_newest [of "Sealed 1 [] www_key", unfolded db2(2)]
    by (auto simp: deploy_pending_def web_enabled Let_def db2(1))
  then obtain n d' where r: "deploy_pending web_env (web_instance db2) = Some (n, d')" by auto
  show ?thesis
    using deployed_targets_are_current [OF r, of web_target www_row] r by (auto simp: web_matches www_row_names)
qed

text \<open>A certificate never reaches a target while 200 or more unrevoked certificates expire before it:
  \<open>DeployPending\<close> asks for 500 rows, ordered by expiry with the earliest first, and the repository
  cuts every page to 200.  After any pass, a target shows the serial of such a certificate only if
  it did before.\<close>

theorem crowded_certificate_is_not_deployed:
  assumes "deploy_pending E d = Some (n, d')" "de_dialect E = Sqlite"
    "200 \<le> length (filter (\<lambda>x. cr_status x \<noteq> StRevoked \<and> cr_not_after x < cr_not_after c) (db_certificates (in_pki d)))"
    "\<forall>x \<in> set (db_certificates (in_pki d)). cr_serial x = cr_serial c \<longrightarrow> x = c"
    "t' \<in> set (in_targets d')" "dt_last_serial t' = cr_serial c"
  shows "\<exists>t \<in> set (in_targets d). dt_id t = dt_id t' \<and> dt_last_serial t = cr_serial c"
proof -
  let ?page = "deploy_page E ''not_after'' (in_pki d)"
  have out: "c \<notin> set ?page" using page_rank [of c E "in_pki d"] assms(3) by auto
  have "cr_serial c \<notin> cr_serial ` set ?page"
  proof
    assume "cr_serial c \<in> cr_serial ` set ?page"
    then obtain x where x: "x \<in> set ?page" "cr_serial x = cr_serial c" by auto
    then have "x = c" using assms(4) page_not_revoked [OF x(1)] by simp
    then show False using x(1) out by simp
  qed
  moreover have "\<exists>t \<in> set (in_targets d). dt_id t = dt_id t' \<and> (dt_last_serial t' = dt_last_serial t \<or> dt_last_serial t' \<in> cr_serial ` set ?page)"
    using serials_kept [OF pending_is_loop [OF assms(1)] assms(2), of "set (in_targets d)" t'] assms(5) by (auto simp: enabled_rows)
  ultimately show ?thesis using assms(6) by auto
qed

definition crowd :: db where
  "crowd = db2\<lparr>db_certificates := map (\<lambda>n. www_row\<lparr>cr_common_name := ''old.lan'', cr_serial := replicate n CHR ''0'', cr_not_after := 0\<rparr>) [0..<200] @
     [www_row\<lparr>cr_serial := ''new''\<rparr>]\<rparr>"

lemma crowd_before: "length (filter (\<lambda>x. cr_status x \<noteq> StRevoked \<and> cr_not_after x < cr_not_after (www_row\<lparr>cr_serial := ''new''\<rparr>)) (db_certificates crowd)) = 200"
  using www_row_names by (simp add: crowd_def filter_map comp_def)

lemma crowd_serials: "\<forall>x \<in> set (db_certificates crowd). cr_serial x = cr_serial (www_row\<lparr>cr_serial := ''new''\<rparr>) \<longrightarrow> x = www_row\<lparr>cr_serial := ''new''\<rparr>"
proof -
  have "replicate n CHR ''0'' \<noteq> ''new''" for n by (cases n) auto
  then show ?thesis by (auto simp: crowd_def)
qed

lemma crowded_certificate_is_not_deployed_witness:
  "\<exists>n d'. deploy_pending web_env (web_instance crowd) = Some (n, d') \<and> target_matches web_target (www_row\<lparr>cr_serial := ''new''\<rparr>) \<and>
    (\<forall>t' \<in> set (in_targets d'). dt_last_serial t' \<noteq> ''new'')"
proof -
  have out: "www_row\<lparr>cr_serial := ''new''\<rparr> \<notin> set (deploy_page web_env ''not_after'' crowd)"
    using page_rank [of "www_row\<lparr>cr_serial := ''new''\<rparr>" web_env crowd] crowd_before by auto
  have old: "\<not> equal_fold ''www.lan'' ''old.lan''" by code_simp
  have "\<not> target_matches web_target c" if "c \<in> set (deploy_page web_env ''not_after'' crowd)" for c
    using that out old page_not_revoked [OF that] by (auto simp: crowd_def web_matches)
  then have "newest_match web_target (deploy_page web_env ''not_after'' crowd) = None"
    by (simp add: newest_match_None)
  then have r: "deploy_pending web_env (web_instance crowd) = Some ((0, 0), web_instance crowd)"
    by (simp add: deploy_pending_def web_enabled Let_def)
  have "dt_last_serial t' \<noteq> ''new''" if "t' \<in> set (in_targets (web_instance crowd))" for t'
    using crowded_certificate_is_not_deployed [OF r, of "www_row\<lparr>cr_serial := ''new''\<rparr>" t'] crowd_before crowd_serials that by auto
  then show ?thesis using r by (auto simp: web_matches www_row_names)
qed

text \<open>C38: A pass over the targets does not survive a certificate whose private key the instance does not
  hold, such as one issued from a certificate request: when it is the certificate an enabled target
  should get next, \<open>deployBundle\<close> lets \<open>ErrKeyUnavailable\<close> pass and reads a bundle that is nil, so the
  process stops and nothing is recorded.\<close>

theorem keyless_certificate_stops_the_process:
  assumes "t \<in> set (in_targets d)" "dt_enabled t"
    "newest_match t (deploy_page E ''not_after'' (in_pki d)) = Some c" "\<not> up_to_date t c"
    "load_bundle (de_svc E) (cr_id c) True (in_pki d) = Inl EKeyUnavailable"
  shows "deploy_pending E d = None"
proof -
  have t: "t \<in> set (enabled_targets d)" using assms(1,2) by (simp add: enabled_rows)
  have "deploy_bundle_of (de_svc E) c (in_pki d) = None" using assms(5) by (simp add: deploy_bundle_of_def)
  then show ?thesis using pending_stops [OF t assms(3,4)] t by (auto simp: deploy_pending_def Let_def)
qed

lemma keyless_certificate_stops_the_process_witness:
  "deploy_pending web_env (web_instance (db2\<lparr>db_certificates := [www_row\<lparr>cr_key := NoSealedKey\<rparr>]\<rparr>)) = None"
  by (rule keyless_certificate_stops_the_process [of web_target _ _ "www_row\<lparr>cr_key := NoSealedKey\<rparr>"])
    (use www_row_names(2) in \<open>auto simp: web_page web_newest up_to_date_def web_bundle\<close>)

section \<open>What the remote shell reads\<close>

text \<open>
  The words of a command line as a POSIX shell splits it: single quotes keep every character,
  a backslash keeps the next one, blanks separate words and \<open>&\<close> and \<open>>\<close> are operators.  A
  character that would make the shell expand or run something else has no reading here.
\<close>

datatype sh_mode = Plain | Quoted | Escaped
datatype sh_token = Word string | Operator char

definition sh_flush :: "string option \<Rightarrow> sh_token list" where
  "sh_flush w = (case w of None \<Rightarrow> [] | Some v \<Rightarrow> [Word v])"

definition sh_text :: "string option \<Rightarrow> string" where
  "sh_text w = (case w of None \<Rightarrow> [] | Some v \<Rightarrow> v)"

fun sh_words :: "sh_mode \<Rightarrow> string option \<Rightarrow> string \<Rightarrow> sh_token list option" where
  "sh_words m w [] = (if m = Plain then Some (sh_flush w) else None)"
| "sh_words Quoted w (c # cs) = (if c = CHR 0x27 then sh_words Plain w cs else sh_words Quoted (Some (sh_text w @ [c])) cs)"
| "sh_words Escaped w (c # cs) = sh_words Plain (Some (sh_text w @ [c])) cs"
| "sh_words Plain w (c # cs) =
     (if c = CHR 0x27 then sh_words Quoted (Some (sh_text w)) cs
      else if c = CHR 0x5C then sh_words Escaped (Some (sh_text w)) cs
      else if c = CHR '' '' then map_option ((@) (sh_flush w)) (sh_words Plain None cs)
      else if c = CHR ''&'' \<or> c = CHR ''>'' then map_option (\<lambda>ts. sh_flush w @ Operator c # ts) (sh_words Plain None cs)
      else if c \<in> set ''$`\"*?[]{}()#~;|<!%'' \<or> ord c < 32 then None
      else sh_words Plain (Some (sh_text w @ [c])) cs)"

lemma sh_inside_quotes:
  "sh_words Quoted w (concat (map (\<lambda>c. if c = CHR 0x27 then [CHR 0x27, CHR 0x5C, CHR 0x27, CHR 0x27] else [c]) v) @ [CHR 0x27] @ rest) =
   sh_words Plain (if v = [] then w else Some (sh_text w @ v)) rest"
  by (induction v arbitrary: w) (auto simp: sh_text_def)

lemma sh_quoted: "sh_words Plain w (shell_quote v @ rest) = sh_words Plain (Some (sh_text w @ v)) rest"
  using sh_inside_quotes [of "Some (sh_text w)" v rest] by (simp add: shell_quote_def sh_text_def)

text \<open>C35: Whatever characters the configured path and mode have (quotes, spaces, \<open>$\<close>, newlines), the shell on
  the server reads the command that writes a file as the same words: it restricts the umask, writes
  its input to \<open>path.certio-tmp\<close>, sets the mode of that file and moves it onto \<open>path\<close>.\<close>

theorem write_command_reads_back:
  "sh_words Plain None (write_script path mode) = Some
     [Word ''umask'', Word ''077'', Operator CHR ''&'', Operator CHR ''&'', Word ''cat'', Operator CHR ''>'', Word (path @ ''.certio-tmp''),
      Operator CHR ''&'', Operator CHR ''&'', Word ''chmod'', Word mode, Word (path @ ''.certio-tmp''),
      Operator CHR ''&'', Operator CHR ''&'', Word ''mv'', Word ''-f'', Word (path @ ''.certio-tmp''), Word path]"
  using sh_quoted [of _ path "[]"] by (simp add: write_script_def Let_def sh_quoted sh_text_def sh_flush_def)

end
