(* ===== verification/SrvRoutes.thy ===== *)
theory SrvRoutes
  imports SrvMiddleware
begin

text \<open>
  \<open>internal/server/routes.go\<close>: the tables of endpoints, each with its method, path, handler, group and
  middlewares, and what a request passes before a handler runs.  A handler is the name of its
  method.  What the tables carry for the OpenAPI document (tags, summaries, request and response
  types) is left out, and \<open>okapi\<close>, which picks the route of a request and runs the middlewares of its
  group and then its own, is not in the repository.
\<close>

section \<open>Routes\<close>

datatype http_method = Get | Post | Put | Patch | Delete | Head
datatype route_group = No_Group | Public_Group | Auth_Group | Api_Group | Acme_Group
datatype limiter_name = Login_Limiter | Issue_Limiter | Acme_Limiter
datatype check = Role_Check "string list" | Scope_Check string | Limit_Address limiter_name | Limit_Principal limiter_name

record route =
  rt_method :: http_method
  rt_path :: string
  rt_handler :: string
  rt_group :: route_group
  rt_checks :: "check list"

definition route :: "http_method \<Rightarrow> string \<Rightarrow> string \<Rightarrow> route_group \<Rightarrow> check list \<Rightarrow> route" where
  "route m path h g cs = \<lparr>rt_method = m, rt_path = path, rt_handler = h, rt_group = g, rt_checks = cs\<rparr>"

definition read_checks :: "string \<Rightarrow> check list" where
  "read_checks scope = [Scope_Check scope]"

definition write_checks :: "string \<Rightarrow> check list" where
  "write_checks scope = [Role_Check [role_admin, role_operator], Scope_Check scope]"

definition admin_checks :: "string \<Rightarrow> check list" where
  "admin_checks scope = [Role_Check [role_admin], Scope_Check scope]"

definition group_prefix :: "route_group \<Rightarrow> string" where
  "group_prefix g = (case g of No_Group \<Rightarrow> [] | Public_Group \<Rightarrow> ''/ca'' | Auth_Group \<Rightarrow> ''/api/v1/auth''
     | Api_Group \<Rightarrow> ''/api/v1'' | Acme_Group \<Rightarrow> ''/acme'')"

section \<open>The tables\<close>

definition system_routes :: "route list" where
  "system_routes = [
     route Get ''/health'' ''Health'' No_Group [],
     route Get ''/about'' ''About'' Api_Group [],
     route Get ''/meta'' ''Meta'' Api_Group [],
     route Get ''/dashboard/stats'' ''Dashboard'' Api_Group (read_checks ''certificates:read'')]"

definition trust_routes :: "route list" where
  "trust_routes = [
     route Get ''/{id}/root.crt'' ''PublicRoot'' Public_Group [],
     route Get ''/{id}/chain.pem'' ''PublicChain'' Public_Group [],
     route Get ''/{id}/crl.pem'' ''PublicCRL'' Public_Group [],
     route Post ''/{id}/ocsp'' ''PublicOCSP'' Public_Group [],
     route Get ''/{id}/ocsp/{encoded}'' ''PublicOCSP'' Public_Group [],
     route Get ''/{id}/crl.der'' ''PublicCRLDER'' Public_Group []]"

definition auth_routes :: "route list" where
  "auth_routes = [
     route Post ''/login'' ''Login'' Auth_Group [],
     route Post ''/2fa/verify'' ''VerifyTwoFactor'' Auth_Group [],
     route Post ''/refresh'' ''Refresh'' Auth_Group [],
     route Post ''/logout'' ''Logout'' Auth_Group [],
     route Get ''/auth/me'' ''Me'' Api_Group []]"

definition two_factor_routes :: "route list" where
  "two_factor_routes = [
     route Get ''/auth/2fa'' ''TwoFactorStatus'' Api_Group [],
     route Post ''/auth/2fa/setup'' ''SetupTwoFactor'' Api_Group [],
     route Post ''/auth/2fa/enable'' ''EnableTwoFactor'' Api_Group [],
     route Post ''/auth/2fa/disable'' ''DisableTwoFactor'' Api_Group [],
     route Post ''/auth/2fa/recovery-codes'' ''RegenerateRecoveryCodes'' Api_Group []]"

definition oauth_routes :: "route list" where
  "oauth_routes = [
     route Get ''/oauth'' ''OAuthStatus'' Auth_Group [],
     route Get ''/oauth/authorize'' ''OAuthAuthorize'' Auth_Group [],
     route Post ''/oauth/callback'' ''OAuthCallback'' Auth_Group [],
     route Get ''/oauth-provider'' ''GetOAuthProvider'' Api_Group (admin_checks ''settings:read''),
     route Put ''/oauth-provider'' ''SaveOAuthProvider'' Api_Group (admin_checks ''settings:write''),
     route Delete ''/oauth-provider'' ''DeleteOAuthProvider'' Api_Group (admin_checks ''settings:write'')]"

definition authority_routes :: "route list" where
  "authority_routes = [
     route Get ''/authorities'' ''ListAuthorities'' Api_Group (read_checks ''authorities:read''),
     route Post ''/authorities'' ''CreateAuthority'' Api_Group (write_checks ''authorities:write''),
     route Post ''/authorities/import'' ''ImportAuthority'' Api_Group (write_checks ''authorities:write''),
     route Get ''/authorities/{id}'' ''GetAuthority'' Api_Group (read_checks ''authorities:read''),
     route Patch ''/authorities/{id}'' ''UpdateAuthority'' Api_Group (write_checks ''authorities:write''),
     route Delete ''/authorities/{id}'' ''DeleteAuthority'' Api_Group (admin_checks ''authorities:write''),
     route Post ''/authorities/{id}/renew'' ''RenewAuthority'' Api_Group (admin_checks ''authorities:write''),
     route Get ''/authorities/{id}/certificates'' ''AuthorityCertificates'' Api_Group (read_checks ''authorities:read''),
     route Post ''/authorities/{id}/crl'' ''RegenerateCRL'' Api_Group (write_checks ''authorities:write''),
     route Get ''/authorities/{id}/trust'' ''TrustGuide'' Api_Group (read_checks ''authorities:read'')]"

definition certificate_routes :: "route list" where
  "certificate_routes = [
     route Get ''/certificates'' ''ListCertificates'' Api_Group (read_checks ''certificates:read''),
     route Post ''/certificates'' ''IssueCertificate'' Api_Group (write_checks ''certificates:write'' @ [Limit_Principal Issue_Limiter]),
     route Post ''/certificates/sign-csr'' ''SignCSR'' Api_Group (write_checks ''certificates:write'' @ [Limit_Principal Issue_Limiter]),
     route Post ''/certificates/inspect'' ''Inspect'' Api_Group (read_checks ''certificates:read''),
     route Post ''/certificates/bulk/renew'' ''BulkRenew'' Api_Group (write_checks ''certificates:write''),
     route Post ''/certificates/bulk/revoke'' ''BulkRevoke'' Api_Group (write_checks ''certificates:write''),
     route Get ''/certificates/{id}'' ''GetCertificate'' Api_Group (read_checks ''certificates:read''),
     route Patch ''/certificates/{id}'' ''UpdateCertificate'' Api_Group (write_checks ''certificates:write''),
     route Delete ''/certificates/{id}'' ''DeleteCertificate'' Api_Group (write_checks ''certificates:write''),
     route Post ''/certificates/{id}/renew'' ''RenewCertificate'' Api_Group (write_checks ''certificates:write'' @ [Limit_Principal Issue_Limiter]),
     route Post ''/certificates/{id}/revoke'' ''RevokeCertificate'' Api_Group (write_checks ''certificates:write''),
     route Get ''/certificates/{id}/download'' ''DownloadCertificate'' Api_Group (read_checks ''certificates:read''),
     route Get ''/certificates/{id}/chain'' ''CertificateChain'' Api_Group (read_checks ''certificates:read''),
     route Get ''/certificates/{id}/history'' ''CertificateHistory'' Api_Group (read_checks ''certificates:read'')]"

definition user_routes :: "route list" where
  "user_routes = [
     route Get ''/users'' ''ListUsers'' Api_Group (admin_checks ''users:read''),
     route Post ''/users'' ''CreateUser'' Api_Group (admin_checks ''users:write''),
     route Get ''/users/{id}'' ''GetUser'' Api_Group (admin_checks ''users:read''),
     route Patch ''/users/{id}'' ''UpdateUser'' Api_Group (admin_checks ''users:write''),
     route Delete ''/users/{id}'' ''DeleteUser'' Api_Group (admin_checks ''users:write''),
     route Delete ''/users/{id}/2fa'' ''ResetUserTwoFactor'' Api_Group (admin_checks ''users:write'')]"

definition token_routes :: "route list" where
  "token_routes = [
     route Get ''/api-tokens'' ''ListTokens'' Api_Group (read_checks ''tokens:read''),
     route Post ''/api-tokens'' ''CreateToken'' Api_Group (read_checks ''tokens:write''),
     route Delete ''/api-tokens/{id}'' ''RevokeToken'' Api_Group (read_checks ''tokens:write'')]"

definition notification_routes :: "route list" where
  "notification_routes = [
     route Get ''/notifications'' ''ListNotifications'' Api_Group (admin_checks ''notifications:read''),
     route Post ''/notifications'' ''CreateNotification'' Api_Group (admin_checks ''notifications:write''),
     route Patch ''/notifications/{id}'' ''UpdateNotification'' Api_Group (admin_checks ''notifications:write''),
     route Delete ''/notifications/{id}'' ''DeleteNotification'' Api_Group (admin_checks ''notifications:write''),
     route Post ''/notifications/{id}/test'' ''TestNotification'' Api_Group (admin_checks ''notifications:write'')]"

definition deployment_routes :: "route list" where
  "deployment_routes = [
     route Get ''/deployments'' ''ListDeployments'' Api_Group (read_checks ''deployments:read''),
     route Post ''/deployments'' ''CreateDeployment'' Api_Group (admin_checks ''deployments:write''),
     route Patch ''/deployments/{id}'' ''UpdateDeployment'' Api_Group (admin_checks ''deployments:write''),
     route Delete ''/deployments/{id}'' ''DeleteDeployment'' Api_Group (admin_checks ''deployments:write''),
     route Post ''/deployments/{id}/test'' ''TestDeployment'' Api_Group (admin_checks ''deployments:write'')]"

definition acme_routes :: "route list" where
  "acme_routes = [
     route Get ''/directory'' ''ACMEDirectory'' Acme_Group [],
     route Get ''/new-nonce'' ''ACMENewNonce'' Acme_Group [],
     route Head ''/new-nonce'' ''ACMENewNonce'' Acme_Group [],
     route Post ''/new-account'' ''ACMENewAccount'' Acme_Group [Limit_Address Acme_Limiter],
     route Post ''/account/{id}'' ''ACMEAccount'' Acme_Group [Limit_Address Acme_Limiter],
     route Post ''/account/{id}/orders'' ''ACMEOrderList'' Acme_Group [Limit_Address Acme_Limiter],
     route Post ''/new-order'' ''ACMENewOrder'' Acme_Group [Limit_Address Acme_Limiter],
     route Post ''/order/{id}'' ''ACMEOrder'' Acme_Group [Limit_Address Acme_Limiter],
     route Post ''/order/{id}/finalize'' ''ACMEFinalize'' Acme_Group [Limit_Address Acme_Limiter],
     route Post ''/authz/{id}'' ''ACMEAuthorization'' Acme_Group [Limit_Address Acme_Limiter],
     route Post ''/challenge/{id}'' ''ACMEChallenge'' Acme_Group [Limit_Address Acme_Limiter],
     route Post ''/cert/{id}'' ''ACMECertificate'' Acme_Group [Limit_Address Acme_Limiter],
     route Post ''/revoke-cert'' ''ACMERevokeCert'' Acme_Group [Limit_Address Acme_Limiter],
     route Post ''/key-change'' ''ACMEKeyChange'' Acme_Group [Limit_Address Acme_Limiter],
     route Get ''/acme/external-accounts'' ''ListExternalAccounts'' Api_Group (admin_checks ''settings:read''),
     route Post ''/acme/external-accounts'' ''CreateExternalAccount'' Api_Group (admin_checks ''settings:write''),
     route Delete ''/acme/external-accounts/{id}'' ''DeleteExternalAccount'' Api_Group (admin_checks ''settings:write''),
     route Get ''/acme/accounts'' ''ListACMEAccounts'' Api_Group (admin_checks ''settings:read'')]"

definition operations_routes :: "route list" where
  "operations_routes = [
     route Get ''/audit-logs'' ''ListAuditLogs'' Api_Group (admin_checks ''audit:read''),
     route Get ''/jobs'' ''ListJobs'' Api_Group (admin_checks ''settings:read''),
     route Get ''/settings'' ''GetSettings'' Api_Group (read_checks ''settings:read''),
     route Patch ''/settings'' ''UpdateSettings'' Api_Group (admin_checks ''settings:write'')]"


definition server_routes :: "route list" where
  "server_routes = system_routes @ trust_routes @ auth_routes @ two_factor_routes @ oauth_routes @ authority_routes @ certificate_routes @
     user_routes @ token_routes @ notification_routes @ deployment_routes @ acme_routes @ operations_routes"

section \<open>What a request passes\<close>

text \<open>The state the middlewares share: the account rows and the three limiters.\<close>

record gate =
  gt_auth :: auth_db
  gt_login :: limiter
  gt_issue :: limiter
  gt_acme :: limiter

definition limited_by :: "limiter_name \<Rightarrow> string \<Rightarrow> instant \<Rightarrow> (gate, refusal, unit) op" where
  "limited_by l key now = (\<lambda>g. case l of
       Login_Limiter \<Rightarrow> (let (r, x) = limit_requests key now (gt_login g) in (r, g\<lparr>gt_login := x\<rparr>))
     | Issue_Limiter \<Rightarrow> (let (r, x) = limit_requests key now (gt_issue g) in (r, g\<lparr>gt_issue := x\<rparr>))
     | Acme_Limiter \<Rightarrow> (let (r, x) = limit_requests key now (gt_acme g) in (r, g\<lparr>gt_acme := x\<rparr>)))"

definition run_check :: "string \<Rightarrow> instant \<Rightarrow> principal option \<Rightarrow> check \<Rightarrow> (gate, refusal, unit) op" where
  "run_check ip now p c = (case c of
       Role_Check roles \<Rightarrow> liftE (require_role roles p)
     | Scope_Check scope \<Rightarrow> liftE (require_scope scope p)
     | Limit_Address l \<Rightarrow> limited_by l ip now
     | Limit_Principal l \<Rightarrow> limited_by l (principal_key ip p) now)"

fun run_checks :: "string \<Rightarrow> instant \<Rightarrow> principal option \<Rightarrow> check list \<Rightarrow> (gate, refusal, unit) op" where
  "run_checks ip now p [] = returnS ()"
| "run_checks ip now p (c # cs) = bindS (run_check ip now p c) (\<lambda>_. run_checks ip now p cs)"

definition on_accounts :: "(auth_db, refusal, 'a) op \<Rightarrow> (gate, refusal, 'a) op" where
  "on_accounts m = (\<lambda>g. case m (gt_auth g) of (r, d) \<Rightarrow> (r, g\<lparr>gt_auth := d\<rparr>))"

definition group_middleware ::
    "jwt_lib \<Rightarrow> auth_env \<Rightarrow> authenticator \<Rightarrow> string \<Rightarrow> request \<Rightarrow> route_group \<Rightarrow> (gate, refusal, principal option) op" where
  "group_middleware L E A ip r g = (case g of
       Auth_Group \<Rightarrow> bindS (limited_by Login_Limiter ip (ae_now E)) (\<lambda>_. returnS None)
     | Api_Group \<Rightarrow> bindS (on_accounts (auth_middleware L E A r)) (\<lambda>q. returnS (Some q))
     | _ \<Rightarrow> returnS None)"

text \<open>What a handler sees: the principal of the request, if its group authenticates.\<close>

definition admit :: "jwt_lib \<Rightarrow> auth_env \<Rightarrow> authenticator \<Rightarrow> string \<Rightarrow> request \<Rightarrow> route \<Rightarrow> (gate, refusal, principal option) op" where
  "admit L E A ip r rt =
     bindS (group_middleware L E A ip r (rt_group rt)) (\<lambda>p.
     bindS (run_checks ip (ae_now E) p (rt_checks rt)) (\<lambda>_. returnS p))"

section \<open>Laws\<close>

lemma limited_by_auth: "limited_by l key now g = (r, g') \<Longrightarrow> gt_auth g' = gt_auth g"
  by (cases l) (auto simp: limited_by_def split: prod.splits)

lemma run_checks_pass:
  "run_checks ip now p cs g = (Inr (), g') \<Longrightarrow> gt_auth g' = gt_auth g \<and>
     (\<forall>roles. Role_Check roles \<in> set cs \<longrightarrow> require_role roles p = Inr ()) \<and>
     (\<forall>scope. Scope_Check scope \<in> set cs \<longrightarrow> require_scope scope p = Inr ())"
proof (induction cs arbitrary: g)
  case (Cons c cs)
  obtain h where h: "run_check ip now p c g = (Inr (), h)" "run_checks ip now p cs h = (Inr (), g')"
    using Cons.prems by (auto simp: bindS_Inr_iff)
  then show ?case using Cons.IH [OF h(2)] by (cases c) (auto simp: run_check_def dest: limited_by_auth)
qed simp

lemma admitted_api:
  assumes "admit L E A ip r rt g = (Inr p, g')" "rt_group rt = Api_Group"
  obtains q d where "p = Some q" "auth_middleware L E A r (gt_auth g) = (Inr q, d)" "gt_auth g' = d"
    "\<And>roles. Role_Check roles \<in> set (rt_checks rt) \<Longrightarrow> pr_role q \<in> set roles"
    "\<And>scope. Scope_Check scope \<in> set (rt_checks rt) \<Longrightarrow> has_scope (Some q) scope"
proof -
  obtain q d where q: "p = Some q" "auth_middleware L E A r (gt_auth g) = (Inr q, d)"
    and c: "run_checks ip (ae_now E) (Some q) (rt_checks rt) (g\<lparr>gt_auth := d\<rparr>) = (Inr (), g')"
    using assms by (auto simp: admit_def group_middleware_def on_accounts_def bindS_Inr_iff split: prod.splits)
  show ?thesis
    using run_checks_pass [OF c] q
    by (intro that [of q d]) (auto simp: require_role_def require_scope_def split: if_splits)
qed

lemmas route_tables = system_routes_def trust_routes_def auth_routes_def two_factor_routes_def oauth_routes_def authority_routes_def
  certificate_routes_def user_routes_def token_routes_def notification_routes_def deployment_routes_def acme_routes_def operations_routes_def

end
