(* ===== verification/SvcExport.thy ===== *)
theory SvcExport
  imports SvcCertificate GoTime
begin

text \<open>
  \<open>internal/service/export.go\<close> and the download handler of \<open>internal/server/handlers/certificate.go\<close>:
  a stored certificate rendered in each of the export formats, and the policy that a download
  with a private key passes first.  A PEM file is its blocks, a PKCS#12 file what it packages, a
  ZIP file its entries; a generated text is its pieces, of which some are PEM blocks in base64.
\<close>

section \<open>Text\<close>

definition quote_list :: "string list \<Rightarrow> string" where
  "quote_list vs = join_with '', '' (map go_quote vs)"

section \<open>Formats and file names\<close>

definition export_formats :: "string list" where
  "export_formats = [''pem'', ''key'', ''fullchain'', ''chain'', ''root'', ''csr'', ''p12'', ''zip'', ''k8s'', ''nginx'', ''traefik'', ''haproxy'',
     ''goma'', ''goma-route'', ''compose'']"

definition format_needs_key :: "string \<Rightarrow> bool" where
  "format_needs_key f = (f \<in> set [''key'', ''p12'', ''zip'', ''k8s'', ''compose''])"

text \<open>\<open>strings.NewReplacer\<close>: at each place the first text that matches is replaced.\<close>

fun replace_unsafe :: "string \<Rightarrow> string" where
  "replace_unsafe [] = []"
| "replace_unsafe (c # s) =
     (if c = CHR ''*'' then ''wildcard'' @ replace_unsafe s
      else if c \<in> {CHR ''/'', CHR 0x5C, CHR '':'', CHR '' ''} then CHR ''-'' # replace_unsafe s
      else if c = CHR ''.'' \<and> s \<noteq> [] \<and> hd s = CHR ''.'' then CHR ''-'' # replace_unsafe (tl s)
      else if c \<in> {CHR ''<'', CHR ''>'', CHR ''|'', CHR ''?'', CHR 0x22} then CHR ''-'' # replace_unsafe s
      else c # replace_unsafe s)"

definition safe_filename :: "string \<Rightarrow> string" where
  "safe_filename name =
     (let out = trim_chars (\<lambda>c. c = CHR ''-'' \<or> c = CHR ''.'') (replace_unsafe (to_lower (trim_space name)));
          out = trim_prefix ''wildcard.'' out
      in if out = [] then ''certificate'' else if 100 < length out then take 100 out else out)"

definition dns_names :: "certificate \<Rightarrow> string list" where
  "dns_names c =
     (let names = map san_value (filter (\<lambda>s. san_type s = san_dns) (cr_sans c))
      in if names = [] \<and> cr_common_name c \<noteq> [] then [cr_common_name c] else names)"

definition serves_clients :: "certificate \<Rightarrow> bool" where
  "serves_clients c = (cr_profile c = ''peer'' \<or> cr_profile c = ''client'')"

section \<open>Generated texts\<close>

definition zip_readme :: "certificate \<Rightarrow> string \<Rightarrow> bool \<Rightarrow> string" where
  "zip_readme c base has_key =
     text_lines [
       ''Certificate bundle for '' @ cr_common_name c,
       ''Issued by Certio on '' @ rfc3339 (cr_created_at c),
       [],
       ''Serial number : '' @ cr_serial c,
       ''SHA-256       : '' @ cr_fingerprint c,
       ''Valid from    : '' @ rfc3339 (cr_not_before c),
       ''Valid until   : '' @ rfc3339 (cr_not_after c),
       ''SANs          : '' @ join_with '', '' (san_strings (cr_sans c)),
       [],
       ''Files'',
       ''-----'',
       ''  '' @ pad_right 28 (base @ ''.crt'') @ '' the certificate on its own'',
       ''  '' @ pad_right 28 (base @ ''-fullchain.pem'') @ '' certificate + issuers, in that order'',
       ''  '' @ pad_right 28 (base @ ''-chain.pem'') @ '' the issuers only'',
       ''  '' @ pad_right 28 ''root.crt'' @ '' the trust anchor to install on clients'']
     @ (if has_key then text_lines [''  '' @ pad_right 28 (base @ ''.key'') @ '' the private key '' @ em_dash @ '' keep it secret''] else [])
     @ text_lines [
       [],
       ''Which file does my server want?'',
       ''  nginx      ssl_certificate -> fullchain.pem, ssl_certificate_key -> .key'',
       ''  Apache     SSLCertificateFile -> .crt, SSLCertificateChainFile -> chain.pem'',
       ''  HAProxy    one file containing the fullchain followed by the key'',
       ''  Traefik    certFile -> fullchain.pem, keyFile -> .key'',
       ''  Goma       cert -> fullchain.pem, key -> .key; or point certsDir at this folder'',
       ''  Go/Java    fullchain.pem plus the key; add root.crt to the trust store'']"

definition secret_head :: "string \<Rightarrow> string \<Rightarrow> certificate \<Rightarrow> string" where
  "secret_head name namespace c =
     text_lines [
       ''apiVersion: v1'',
       ''kind: Secret'',
       ''type: kubernetes.io/tls'',
       ''metadata:'',
       ''  name: '' @ name,
       ''  namespace: '' @ namespace,
       ''  labels:'',
       ''    app.kubernetes.io/managed-by: certio'',
       ''  annotations:'',
       ''    certio.jkaninda.dev/serial-number: '' @ go_quote (cr_serial c),
       ''    certio.jkaninda.dev/not-after: '' @ go_quote (rfc3339 (cr_not_after c)),
       ''    certio.jkaninda.dev/certificate-id: '' @ go_quote (cr_id c),
       ''data:'']"

definition nginx_snippet :: "certificate \<Rightarrow> string \<Rightarrow> string" where
  "nginx_snippet c base =
     text_lines [
       ''# Generated by Certio'',
       ''server {'',
       ''    listen 443 ssl;'',
       ''    http2 on;'',
       ''    server_name '' @ join_with '' '' (dns_names c) @ '';'',
       [],
       ''    ssl_certificate     /etc/nginx/certs/'' @ base @ ''-fullchain.pem;'',
       ''    ssl_certificate_key /etc/nginx/certs/'' @ base @ ''.key;'',
       [],
       ''    ssl_protocols       TLSv1.2 TLSv1.3;'',
       ''    ssl_session_cache   shared:SSL:10m;'',
       ''    ssl_session_timeout 1d;'',
       ''    ssl_prefer_server_ciphers off;'',
       []]
     @ (if serves_clients c then text_lines [
       ''    # Mutual TLS: require a client certificate from the same CA.'',
       ''    ssl_client_certificate /etc/nginx/certs/root.crt;'',
       ''    ssl_verify_client      on;'',
       ''    ssl_verify_depth       2;'',
       []] else [])
     @ text_lines [
       ''    location / {'',
       ''        proxy_pass http://127.0.0.1:8080;'',
       ''    }'',
       ''}'']"

definition traefik_snippet :: "string \<Rightarrow> string" where
  "traefik_snippet base =
     text_lines [
       ''# Generated by Certio '' @ em_dash @ '' a Traefik dynamic configuration file.'',
       ''tls:'',
       ''  certificates:'',
       ''    - certFile: /certs/'' @ base @ ''-fullchain.pem'',
       ''      keyFile:  /certs/'' @ base @ ''.key'',
       ''  stores:'',
       ''    default:'',
       ''      defaultCertificate:'',
       ''        certFile: /certs/'' @ base @ ''-fullchain.pem'',
       ''        keyFile:  /certs/'' @ base @ ''.key'',
       ''  options:'',
       ''    default:'',
       ''      minVersion: VersionTLS12'']"

definition haproxy_snippet :: "string \<Rightarrow> string" where
  "haproxy_snippet base =
     text_lines [
       ''# Generated by Certio'',
       ''# HAProxy wants ONE file: the fullchain followed by the private key.'',
       ''#   cat '' @ base @ ''-fullchain.pem '' @ base @ ''.key > /etc/haproxy/certs/'' @ base @ ''.pem'',
       [],
       ''frontend https'',
       ''    bind *:443 ssl crt /etc/haproxy/certs/'',
       ''    mode http'',
       ''    option httplog'',
       ''    http-request set-header X-Forwarded-Proto https'',
       ''    default_backend app'',
       [],
       ''backend app'',
       ''    mode http'',
       ''    server app1 127.0.0.1:8080 check'']"

definition goma_snippet :: "certificate \<Rightarrow> string \<Rightarrow> string" where
  "goma_snippet c base =
     text_lines [
       ''# Generated by Certio '' @ em_dash @ '' Goma Gateway global TLS configuration.'',
       ''# Certificate: '' @ cr_common_name c @ '' (expires '' @ date_text (cr_not_after c) @ '')'',
       ''#'',
       ''# Goma matches a certificate to a request by SNI, against the certificate'' @ [CHR 0x27] @ ''s'',
       ''# common name and SANs. This one covers:'']
     @ text_lines (map (\<lambda>name. ''#   '' @ name) (dns_names c))
     @ text_lines [
       [],
       ''version: 2'',
       ''gateway:'',
       ''  tls:'',
       ''    certificates:'',
       ''      - cert: /etc/goma/certs/'' @ base @ ''-fullchain.pem'',
       ''        key: /etc/goma/certs/'' @ base @ ''.key'',
       [],
       ''    # Fallback for a request whose SNI matches no certificate above.'',
       ''    # default:'',
       ''    #   cert: /etc/goma/certs/'' @ base @ ''-fullchain.pem'',
       ''    #   key: /etc/goma/certs/'' @ base @ ''.key'',
       [],
       ''    # Or drop the list entirely and let Goma discover every certificate in a'',
       ''    # directory. Files pair up by base name '' @ em_dash @ '' <name>.crt/.cert/.pem with'',
       ''    # <name>.key '' @ em_dash @ '' which is what the Certio ZIP export already produces.'',
       ''    # certsDir: /etc/goma/certs'']"

definition goma_route_snippet :: "certificate \<Rightarrow> string \<Rightarrow> string" where
  "goma_route_snippet c base =
     text_lines [
       ''# Generated by Certio '' @ em_dash @ '' Goma Gateway route with a dedicated certificate.'',
       ''# Certificate: '' @ cr_common_name c @ '' (expires '' @ date_text (cr_not_after c) @ '')'',
       ''# A route-level certificate overrides the gateway-wide list for these hosts.'',
       [],
       ''version: 2'',
       ''gateway:'',
       ''  routes:'',
       ''    - path: /'',
       ''      name: '' @ base,
       ''      hosts: ['' @ quote_list (dns_names c) @ '']'',
       ''      backends:'',
       ''        - endpoint: http://127.0.0.1:8080'',
       ''      tls:'',
       ''        certificate:'',
       ''          cert: /etc/goma/certs/'' @ base @ ''-fullchain.pem'',
       ''          key: /etc/goma/certs/'' @ base @ ''.key'',
       ''        provider: none'']
     @ (if serves_clients c then text_lines [
       [],
       ''      # This certificate carries clientAuth, so it can also be presented to'',
       ''      # the backend instead of only being served to callers:'',
       ''      #   security:'',
       ''      #     tls:'',
       ''      #       clientCert: /etc/goma/certs/'' @ base @ ''.crt'',
       ''      #       clientKey:  /etc/goma/certs/'' @ base @ ''.key'',
       ''      #       rootCAs:    /etc/goma/certs/root.crt'',
       ''      #'',
       ''      # Verifying *incoming* callers is gateway-wide, not per route:'',
       ''      #   gateway:'',
       ''      #     tls:'',
       ''      #       clientAuth:'',
       ''      #         clientCA: /etc/goma/certs/root.crt'',
       ''      #         required: true''] else [])"

definition compose_snippet :: "certificate \<Rightarrow> string \<Rightarrow> string" where
  "compose_snippet c base =
     text_lines [
       ''# Generated by Certio '' @ em_dash @ '' mount the bundle read-only into your service.'',
       ''# Certificate: '' @ cr_common_name c @ '' (expires '' @ date_text (cr_not_after c) @ '')'',
       ''services:'',
       ''  app:'',
       ''    image: nginx:alpine'',
       ''    ports:'',
       ''      - '' @ [CHR 0x22] @ ''443:443'' @ [CHR 0x22],
       ''    volumes:'',
       ''      - ./certs/'' @ base @ ''-fullchain.pem:/etc/nginx/certs/'' @ base @ ''-fullchain.pem:ro'',
       ''      - ./certs/'' @ base @ ''.key:/etc/nginx/certs/'' @ base @ ''.key:ro'',
       ''      - ./certs/'' @ base @ ''-nginx.conf:/etc/nginx/conf.d/default.conf:ro'',
       ''    restart: unless-stopped'']"

section \<open>Rendering\<close>

datatype piece = Text string | Base64 pem

datatype export_data =
    PemData pem | TextData "piece list" | CsrData document | Pkcs12Data private_key x509 "x509 list" string
  | ZipData "(string \<times> export_data) list"

record export =
  ex_filename :: string
  ex_content_type :: string
  ex_data :: export_data

record export_options =
  eo_format :: string
  eo_password :: string
  eo_secret_name :: string
  eo_namespace :: string

datatype export_error = ExInvalid string | ExKeyUnavailable | ExBundle bundle_error | ExPkcs12 string

definition bundle_pkcs12 :: "cert_bundle \<Rightarrow> string \<Rightarrow> export_error + export_data" where
  "bundle_pkcs12 b password = (case b_private_key b of
       None \<Rightarrow> Inl (ExPkcs12 ''pki: PKCS#12 export requires the private key'')
     | Some k \<Rightarrow>
         if password = [] then Inl (ExPkcs12 ''pki: PKCS#12 export requires a password'')
         else if \<not> can_sign k then Inl (ExPkcs12 ''pki: encode PKCS#12'')
         else Inr (Pkcs12Data k (b_certificate b) (b_chain b) password))"

definition kubernetes_secret :: "certificate \<Rightarrow> cert_bundle \<Rightarrow> export_options \<Rightarrow> export_error + export_data" where
  "kubernetes_secret c b opts =
     (if b_private_key b = None then Inl ExKeyUnavailable
      else bindE (map_err ExBundle (bundle_key_pem b [])) (\<lambda>key.
        let name = (if eo_secret_name opts = [] then safe_filename (cr_common_name c) @ ''-tls'' else eo_secret_name opts);
            namespace = (if eo_namespace opts = [] then ''default'' else eo_namespace opts)
        in Inr (TextData
             ([Text (secret_head name namespace c), Text ''  tls.crt: '', Base64 (bundle_full_chain_pem b), Text nl,
               Text ''  tls.key: '', Base64 key, Text nl] @
              (if b_chain b \<noteq> [] then [Text ''  ca.crt: '', Base64 (bundle_root_pem b), Text nl] else [])))))"

definition zip_bundle :: "certificate \<Rightarrow> cert_bundle \<Rightarrow> string \<Rightarrow> export_options \<Rightarrow> export_error + export_data" where
  "zip_bundle c b base opts =
     bindE (case b_private_key b of
         None \<Rightarrow> Inr []
       | Some _ \<Rightarrow> bindE (map_err ExBundle (bundle_key_pem b (eo_password opts))) (\<lambda>key. Inr [(base @ ''.key'', PemData key)])) (\<lambda>keys.
     Inr (ZipData
       ([(base @ ''.crt'', PemData (bundle_cert_pem b)), (base @ ''-fullchain.pem'', PemData (bundle_full_chain_pem b))] @
        (if b_chain b \<noteq> [] then [(base @ ''-chain.pem'', PemData (bundle_chain_pem b)), (''root.crt'', PemData (bundle_root_pem b))] else []) @
        keys @
        (case cr_csr_pem c of None \<Rightarrow> [] | Some csr \<Rightarrow> [(base @ ''.csr'', CsrData csr)]) @
        [(''README.txt'', TextData [Text (zip_readme c base (b_private_key b \<noteq> None))])])))"

definition mime_pem :: string where "mime_pem = ''application/x-pem-file''"
definition mime_yaml :: string where "mime_yaml = ''application/yaml''"
definition mime_text :: string where "mime_text = ''text/plain; charset=utf-8''"

definition rendered :: "string \<Rightarrow> string \<Rightarrow> export_data \<Rightarrow> export" where
  "rendered name mime data = \<lparr>ex_filename = name, ex_content_type = mime, ex_data = data\<rparr>"

definition snippet :: "string \<Rightarrow> string \<Rightarrow> string \<Rightarrow> export" where
  "snippet name mime t = rendered name mime (TextData [Text t])"

definition export_certificate :: "certificate \<Rightarrow> cert_bundle \<Rightarrow> export_options \<Rightarrow> export_error + export" where
  "export_certificate c b opts =
     (let base = safe_filename (cr_common_name c); f = eo_format opts in
      if f = ''pem'' \<or> f = [] then Inr (rendered (base @ ''.crt'') mime_pem (PemData (bundle_cert_pem b)))
      else if f = ''fullchain'' then Inr (rendered (base @ ''-fullchain.pem'') mime_pem (PemData (bundle_full_chain_pem b)))
      else if f = ''chain'' then Inr (rendered (base @ ''-chain.pem'') mime_pem (PemData (bundle_chain_pem b)))
      else if f = ''root'' then Inr (rendered (base @ ''-root.crt'') mime_pem (PemData (bundle_root_pem b)))
      else if f = ''csr'' then (case cr_csr_pem c of
          None \<Rightarrow> Inl (ExInvalid ''no CSR was stored'')
        | Some csr \<Rightarrow> Inr (rendered (base @ ''.csr'') ''application/pkcs10'' (CsrData csr)))
      else if f = ''key'' then
        bindE (map_err ExBundle (bundle_key_pem b (eo_password opts))) (\<lambda>key. Inr (rendered (base @ ''.key'') mime_pem (PemData key)))
      else if f = ''p12'' then
        (if eo_password opts = [] then Inl (ExInvalid ''a password is required for PKCS#12 export'')
         else bindE (bundle_pkcs12 b (eo_password opts)) (\<lambda>data. Inr (rendered (base @ ''.p12'') ''application/x-pkcs12'' data)))
      else if f = ''k8s'' then bindE (kubernetes_secret c b opts) (\<lambda>data. Inr (rendered (base @ ''-tls-secret.yaml'') mime_yaml data))
      else if f = ''nginx'' then Inr (snippet (base @ ''-nginx.conf'') mime_text (nginx_snippet c base))
      else if f = ''traefik'' then Inr (snippet (base @ ''-traefik.yaml'') mime_yaml (traefik_snippet base))
      else if f = ''haproxy'' then Inr (snippet (base @ ''-haproxy.cfg'') mime_text (haproxy_snippet base))
      else if f = ''goma'' then Inr (snippet (base @ ''-goma.yml'') mime_yaml (goma_snippet c base))
      else if f = ''goma-route'' then Inr (snippet (base @ ''-goma-route.yml'') mime_yaml (goma_route_snippet c base))
      else if f = ''compose'' then Inr (snippet (base @ ''-compose.yml'') mime_yaml (compose_snippet c base))
      else if f = ''zip'' then bindE (zip_bundle c b base opts) (\<lambda>data. Inr (rendered (base @ ''.zip'') ''application/zip'' data))
      else Inl (ExInvalid (''unknown export format '' @ go_quote f)))"

section \<open>Downloading\<close>

datatype download_error = DlService svc_error | DlExport export_error

definition download_certificate :: "svc_env \<Rightarrow> string \<Rightarrow> export_options \<Rightarrow> (db, download_error, export) op" where
  "download_certificate E i opts =
     (let opts = (if eo_format opts = [] then opts\<lparr>eo_format := ''pem''\<rparr> else opts); needs_key = format_needs_key (eo_format opts) in
      bindS (readS (\<lambda>d. map_err DlService (load_bundle E i needs_key d))) (\<lambda>(b, c).
      bindS (whenS needs_key (map_errS DlService (authorize_key_download E c))) (\<lambda>_.
      liftE (map_err DlExport (export_certificate c b opts)))))"

section \<open>Trust instructions\<close>

record trust_instructions =
  tg_platform :: string
  tg_title :: string
  tg_commands :: string
  tg_note :: string

definition trust_guide :: "svc_env \<Rightarrow> authority \<Rightarrow> trust_instructions list" where
  "trust_guide E a =
     (let url = cfg_base_url E @ ''/ca/'' @ au_id a @ ''/root.crt''; file = safe_filename (au_name a) @ ''-root.crt'' in [
       \<lparr>tg_platform = ''linux-debian'', tg_title = ''Linux (Debian, Ubuntu)'',
         tg_commands = ''curl -fsSL '' @ url @ '' -o '' @ file @ nl @ ''sudo cp '' @ file @ '' /usr/local/share/ca-certificates/'' @ trim_suffix ''.crt'' file @ ''.crt'' @ nl @ ''sudo update-ca-certificates'', tg_note = []\<rparr>,
       \<lparr>tg_platform = ''linux-rhel'', tg_title = ''Linux (RHEL, Fedora, Rocky)'',
         tg_commands = ''curl -fsSL '' @ url @ '' -o '' @ file @ nl @ ''sudo cp '' @ file @ '' /etc/pki/ca-trust/source/anchors/'' @ nl @ ''sudo update-ca-trust extract'', tg_note = []\<rparr>,
       \<lparr>tg_platform = ''macos'', tg_title = ''macOS'',
         tg_commands = ''curl -fsSL '' @ url @ '' -o '' @ file @ nl @ ''sudo security add-trusted-cert -d -r trustRoot '' @ [CHR 0x5C] @ nl @ ''  -k /Library/Keychains/System.keychain '' @ file, tg_note = ''Firefox keeps its own trust store; import the root under Settings '' @ right_arrow @ '' Privacy & Security '' @ right_arrow @ '' Certificates.''\<rparr>,
       \<lparr>tg_platform = ''windows'', tg_title = ''Windows (PowerShell as Administrator)'',
         tg_commands = ''Invoke-WebRequest -Uri '' @ url @ '' -OutFile '' @ file @ nl @ ''Import-Certificate -FilePath '' @ file @ '' -CertStoreLocation Cert:'' @ [CHR 0x5C] @ ''LocalMachine'' @ [CHR 0x5C] @ ''Root'', tg_note = []\<rparr>,
       \<lparr>tg_platform = ''java'', tg_title = ''Java keystore'',
         tg_commands = ''curl -fsSL '' @ url @ '' -o '' @ file @ nl @ ''keytool -importcert -trustcacerts -noprompt '' @ [CHR 0x5C] @ nl @ ''  -alias '' @ slugify (au_name a) @ '' -file '' @ file @ '' '' @ [CHR 0x5C] @ nl @ ''  -keystore '' @ [CHR 0x22] @ ''$JAVA_HOME/lib/security/cacerts'' @ [CHR 0x22] @ '' -storepass changeit'', tg_note = []\<rparr>,
       \<lparr>tg_platform = ''node'', tg_title = ''Node.js'',
         tg_commands = ''curl -fsSL '' @ url @ '' -o '' @ file @ nl @ ''export NODE_EXTRA_CA_CERTS='' @ [CHR 0x22] @ ''$PWD/'' @ file @ [CHR 0x22], tg_note = ''NODE_EXTRA_CA_CERTS is read once at startup; restart the process after setting it.''\<rparr>,
       \<lparr>tg_platform = ''docker'', tg_title = ''Docker image'',
         tg_commands = ''# In your Dockerfile:'' @ nl @ ''COPY '' @ file @ '' /usr/local/share/ca-certificates/'' @ nl @ ''RUN update-ca-certificates'', tg_note = []\<rparr>,
       \<lparr>tg_platform = ''curl'', tg_title = ''One-off with curl or git'',
         tg_commands = ''curl -fsSL '' @ url @ '' -o '' @ file @ nl @ ''curl --cacert '' @ file @ '' https://your-service.example'' @ nl @ ''git -c http.sslCAInfo='' @ file @ '' clone https://your-service.example/repo.git'', tg_note = []\<rparr>])"

section \<open>Key material\<close>

definition key_block :: "pem_block \<Rightarrow> bool" where
  "key_block b = (case pem_bytes b of DerKey _ _ \<Rightarrow> True | _ \<Rightarrow> False)"

definition holds_key_pem :: "pem \<Rightarrow> bool" where
  "holds_key_pem p = list_ex key_block p"

definition holds_key_piece :: "piece \<Rightarrow> bool" where
  "holds_key_piece x = (case x of Text _ \<Rightarrow> False | Base64 p \<Rightarrow> holds_key_pem p)"

fun holds_key :: "export_data \<Rightarrow> bool" where
  "holds_key (PemData p) = holds_key_pem p"
| "holds_key (TextData ps) = list_ex holds_key_piece ps"
| "holds_key (CsrData _) = False"
| "holds_key (Pkcs12Data _ _ _ _) = True"
| "holds_key (ZipData es) = list_ex holds_key (map snd es)"

lemma no_key_in_certificates [simp]:
  "\<not> holds_key_pem (encode_certificate_pem c)"
  "\<not> holds_key_pem (bundle_cert_pem b)" "\<not> holds_key_pem (bundle_chain_pem b)" "\<not> holds_key_pem (bundle_full_chain_pem b)"
  "\<not> holds_key_pem (bundle_root_pem b)"
  by (auto simp: holds_key_pem_def list_ex_iff key_block_def encode_certificate_pem_def plain_block_def bundle_cert_pem_def
      bundle_chain_pem_def bundle_full_chain_pem_def bundle_root_pem_def)

lemma keyless_formats:
  assumes "export_certificate c b opts = Inr x" "\<not> format_needs_key (eo_format opts)"
  shows "\<not> holds_key (ex_data x)"
  using assms
  by (auto simp: export_certificate_def format_needs_key_def rendered_def snippet_def holds_key_piece_def Let_def
      split: if_splits option.splits)

lemma plain_key_export:
  assumes "b_private_key b = Some k" "can_sign k" "eo_format opts = ''key''"
  shows "\<exists>x. export_certificate c b opts = Inr x \<and> holds_key (ex_data x)"
  using assms
  by (auto simp: export_certificate_def rendered_def bundle_key_pem_def marshal_private_key_pem_def encrypt_private_key_pem_def
      holds_key_pem_def key_block_def plain_block_def Let_def)

section \<open>What a download does to the row\<close>

lemma load_bundle_row:
  assumes "load_bundle E i w d = Inr (b, c)"
  shows "get_certificate i d = Inr c" "cr_id c = i" "w \<Longrightarrow> has_private_key c" "w \<Longrightarrow> b_private_key b \<noteq> None"
  using assms
  by (auto simp: load_bundle_def bindE_Inr_iff get_with_authority_def get_certificate_def split: if_splits dest: tbl_get_InrD)

definition spent_download :: "svc_env \<Rightarrow> string \<Rightarrow> certificate \<Rightarrow> db \<Rightarrow> db" where
  "spent_download E i c d = db_certificates_update (tbl_set (\<lambda>r. cr_id r = i)
     (\<lambda>r. r\<lparr>cr_key_downloads := cr_key_downloads c + 1, cr_last_downloaded := Some (se_now E)\<rparr>)) d"

lemma tbl_get_mapped:
  assumes "\<And>r. key (f r) = key r" "tbl_get key i rows = Inr r"
  shows "tbl_get key i (map (\<lambda>r. if key r = i then f r else r) rows) = Inr (f r)"
  using assms(2) by (induction rows) (auto simp: tbl_get_def assms(1) split: if_splits)

lemma spent_row:
  assumes "get_certificate i d = Inr c"
  shows "\<exists>c'. get_certificate i (spent_download E i c d) = Inr c' \<and> cr_key_downloads c' = cr_key_downloads c + 1"
  using tbl_get_mapped [of cr_id "\<lambda>r :: certificate. r\<lparr>cr_key_downloads := cr_key_downloads c + 1, cr_last_downloaded := Some (se_now E)\<rparr>"] assms
  by (simp add: get_certificate_def spent_download_def tbl_set_def)

text \<open>A download that needs the key: refused by the policy, or the row is marked before the format is rendered.\<close>

lemma download_with_key:
  assumes "load_bundle E i True d = Inr (b, c)" "format_needs_key (eo_format opts)" "eo_format opts \<noteq> []"
  shows "download_certificate E i opts d =
    (if cfg_download_policy E = ''never'' then (Inl (DlService (EForbidden ''private key downloads are disabled'')), d)
     else if cfg_download_policy E = ''once'' \<and> 0 < cr_key_downloads c then
       (Inl (DlService (EForbidden ''this private key has already been downloaded once'')), d)
     else (map_err DlExport (export_certificate c b opts), spent_download E i c d))"
proof -
  have row: "cr_id c = i" "has_private_key c" "tbl_has cr_id i (db_certificates d)"
    using load_bundle_row [OF assms(1)] by (auto simp: get_certificate_def tbl_has_iff image_iff dest!: tbl_get_InrD)
  show ?thesis
    using assms row
    by (simp add: download_certificate_def Let_def authorize_key_download_def bindS_def map_errS_def store_op_def
        update_certificate_fields_def spent_download_def)
qed

section \<open>File names\<close>

definition unsafe_chars :: "char list" where
  "unsafe_chars = ''*/: <>|?'' @ [CHR 0x5C, CHR 0x22]"

fun double_dot :: "string \<Rightarrow> bool" where
  "double_dot (a # b # s) = ((a = CHR ''.'' \<and> b = CHR ''.'') \<or> double_dot (b # s))"
| "double_dot _ = False"

lemma double_dot_Cons: "double_dot (c # s) \<longleftrightarrow> c = CHR ''.'' \<and> s \<noteq> [] \<and> hd s = CHR ''.'' \<or> double_dot s"
  by (cases s) auto

lemma double_dot_sublist: "sublist ''..'' s \<Longrightarrow> double_dot s"
proof -
  have "double_dot (ps @ CHR ''.'' # CHR ''.'' # ss)" for ps ss
    by (induction ps) (simp_all add: double_dot_Cons)
  then show "sublist ''..'' s \<Longrightarrow> double_dot s" by (auto simp: sublist_def)
qed

lemma replace_unsafe_step:
  obtains (star) "replace_unsafe (c # s) = ''wildcard'' @ replace_unsafe s"
  | (dash) s' where "replace_unsafe (c # s) = CHR ''-'' # replace_unsafe s'" "length s' \<le> length s"
  | (keep) "replace_unsafe (c # s) = c # replace_unsafe s" "c \<notin> set unsafe_chars" "\<not> (c = CHR ''.'' \<and> s \<noteq> [] \<and> hd s = CHR ''.'')"
proof -
  define sep more dots where "sep \<longleftrightarrow> c \<in> {CHR ''/'', CHR 0x5C, CHR '':'', CHR '' ''}"
    and "more \<longleftrightarrow> c \<in> {CHR ''<'', CHR ''>'', CHR ''|'', CHR ''?'', CHR 0x22}" and "dots \<longleftrightarrow> c = CHR ''.'' \<and> s \<noteq> [] \<and> hd s = CHR ''.''"
  have eq: "replace_unsafe (c # s) = (if c = CHR ''*'' then ''wildcard'' @ replace_unsafe s else if sep then CHR ''-'' # replace_unsafe s
      else if dots then CHR ''-'' # replace_unsafe (tl s) else if more then CHR ''-'' # replace_unsafe s else c # replace_unsafe s)"
    by (simp only: replace_unsafe.simps sep_def more_def dots_def)
  have "c \<notin> set unsafe_chars" if "c \<noteq> CHR ''*''" "\<not> sep" "\<not> more"
    using that by (simp add: unsafe_chars_def sep_def more_def)
  then show thesis
    using star dash [of s] dash [of "tl s"] keep eq unfolding dots_def [symmetric]
    by (cases "c = CHR ''*''"; cases sep; cases dots; cases more) simp_all
qed

lemma replace_unsafe_chars: "set (replace_unsafe s) \<inter> set unsafe_chars = {}"
proof (induction s rule: length_induct)
  case (1 s)
  show ?case
  proof (cases s)
    case (Cons c r)
    have IH: "set (replace_unsafe x) \<inter> set unsafe_chars = {}" if "length x \<le> length r" for x using 1 that Cons by simp
    have U: "set ''wildcard'' \<inter> set unsafe_chars = {}" "CHR ''-'' \<notin> set unsafe_chars" by (simp_all add: unsafe_chars_def)
    have "set (replace_unsafe (c # r)) \<inter> set unsafe_chars = {}"
    proof (cases c r rule: replace_unsafe_step)
      case star
      show ?thesis by (simp only: star set_append Int_Un_distrib2 U(1) IH [OF order_refl] Un_empty)
    next
      case (dash x)
      show ?thesis by (simp only: dash(1) list.set Int_insert_left U(2) if_False IH [OF dash(2)])
    next
      case keep
      show ?thesis by (simp only: keep(1) list.set Int_insert_left keep(2) if_False IH [OF order_refl])
    qed
    then show ?thesis by (simp only: Cons)
  qed simp
qed

lemma replace_unsafe_dots:
  "\<not> double_dot (replace_unsafe s) \<and> (replace_unsafe s \<noteq> [] \<and> hd (replace_unsafe s) = CHR ''.'' \<longrightarrow> s \<noteq> [] \<and> hd s = CHR ''.'')"
proof (induction s rule: length_induct)
  case (1 s)
  show ?case
  proof (cases s)
    case (Cons c r)
    have IH: "\<not> double_dot (replace_unsafe x) \<and> (replace_unsafe x \<noteq> [] \<and> hd (replace_unsafe x) = CHR ''.'' \<longrightarrow> x \<noteq> [] \<and> hd x = CHR ''.'')"
      if "length x \<le> length r" for x using 1 that Cons by simp
    have "\<not> double_dot (replace_unsafe (c # r)) \<and> (replace_unsafe (c # r) \<noteq> [] \<and> hd (replace_unsafe (c # r)) = CHR ''.'' \<longrightarrow> c # r \<noteq> [] \<and> hd (c # r) = CHR ''.'')"
    proof (cases c r rule: replace_unsafe_step)
      case star
      then show ?thesis
        using IH [of r] by (simp only: star) (simp add: double_dot_Cons)
    next
      case (dash x)
      then show ?thesis
        using IH [of x] by (simp only: dash(1)) (simp add: double_dot_Cons)
    next
      case keep
      then show ?thesis
        using IH [of r] by (simp only: keep(1)) (auto simp: double_dot_Cons)
    qed
    then show ?thesis unfolding Cons by blast
  qed simp
qed

lemma trimmed_part: "sublist (trim_chars p s) s"
proof -
  have "sublist (trim_chars p s) (trim_left p s)" by (simp add: trim_chars_def prefix_trim_right prefix_imp_sublist)
  moreover have "sublist (trim_left p s) s" by (simp add: trim_left_def suffix_dropWhile suffix_imp_sublist)
  ultimately show ?thesis by (rule sublist_order.order_trans)
qed

lemma safe_filename_part:
  "safe_filename name = ''certificate'' \<or> safe_filename name \<noteq> [] \<and> sublist (safe_filename name) (replace_unsafe (to_lower (trim_space name)))"
proof -
  let ?r = "replace_unsafe (to_lower (trim_space name))"
  let ?t = "trim_chars (\<lambda>c. c = CHR ''-'' \<or> c = CHR ''.'') ?r"
  let ?p = "trim_prefix ''wildcard.'' ?t"
  have "sublist ?p ?t" by (simp add: trim_prefix_def suffix_imp_sublist suffix_drop)
  moreover have "sublist (take 100 ?p) ?p" by (simp add: take_is_prefix prefix_imp_sublist)
  ultimately have "sublist ?p ?r" "sublist (take 100 ?p) ?r"
    using trimmed_part [of _ ?r] by (meson sublist_order.order_trans)+
  then show ?thesis by (auto simp: safe_filename_def Let_def)
qed

text \<open>The file name of an export is fit for any file system and for the header that carries it: whatever the
  common name (a wildcard, a path, \<open>..\<close>), it is not empty, has at most 100 bytes, has no path
  separator, quote, blank or wildcard character, and no two dots in a row.\<close>

theorem export_names_are_safe:
  "safe_filename name \<noteq> [] \<and> length (safe_filename name) \<le> 100 \<and> set (safe_filename name) \<inter> set unsafe_chars = {} \<and>
   \<not> sublist ''..'' (safe_filename name)"
proof -
  let ?r = "replace_unsafe (to_lower (trim_space name))"
  have "length (safe_filename name) \<le> 100" by (simp add: safe_filename_def Let_def)
  moreover have "\<not> sublist ''..'' ''certificate''" by (simp add: sublist_Cons_right)
  moreover have "set ''certificate'' \<inter> set unsafe_chars = {}" by (simp add: unsafe_chars_def)
  moreover have "set s \<inter> set unsafe_chars = {}" "\<not> sublist ''..'' s" if "sublist s ?r" for s
    using replace_unsafe_chars [of "to_lower (trim_space name)"] replace_unsafe_dots [of "to_lower (trim_space name)"] double_dot_sublist [of ?r]
      set_mono_sublist [OF that] sublist_order.order_trans [OF _ that] by blast+
  ultimately show ?thesis using safe_filename_part [of name] by (elim disjE) auto
qed

end
