(* ===== verification/SrvGuarantees.thy ===== *)
theory SrvGuarantees
  imports SrvRoutes SvcExport Samples AuthSamples
begin

text \<open>
  Who gets through to which endpoint, and what a download hands out: the properties of the route
  tables, of the middlewares in front of them and of the exports behind one of them.
\<close>

section \<open>The tables, row by row\<close>

definition own_account_handlers :: "string list" where
  "own_account_handlers = [''SetupTwoFactor'', ''EnableTwoFactor'', ''DisableTwoFactor'', ''RegenerateRecoveryCodes'']"

definition own_token_handlers :: "string list" where
  "own_token_handlers = [''CreateToken'', ''RevokeToken'']"

definition inspection_handlers :: "string list" where
  "inspection_handlers = [''Inspect'']"

definition administration_handlers :: "string list" where
  "administration_handlers =
     [''DeleteAuthority'', ''RenewAuthority'', ''ListUsers'', ''CreateUser'', ''GetUser'', ''UpdateUser'', ''DeleteUser'', ''ResetUserTwoFactor'',
      ''GetOAuthProvider'', ''SaveOAuthProvider'', ''DeleteOAuthProvider'', ''ListNotifications'', ''CreateNotification'', ''UpdateNotification'',
      ''DeleteNotification'', ''TestNotification'', ''CreateDeployment'', ''UpdateDeployment'', ''DeleteDeployment'', ''TestDeployment'',
      ''ListExternalAccounts'', ''CreateExternalAccount'', ''DeleteExternalAccount'', ''ListACMEAccounts'', ''ListAuditLogs'', ''ListJobs'', ''UpdateSettings'']"

definition read_scopes :: "string list" where
  "read_scopes = [''authorities:read'', ''certificates:read'', ''deployments:read'', ''notifications:read'', ''users:read'', ''tokens:read'',
     ''audit:read'', ''settings:read'']"

definition write_scopes :: "string list" where
  "write_scopes = [''authorities:write'', ''certificates:write'', ''deployments:write'', ''notifications:write'', ''users:write'', ''tokens:write'',
     ''settings:write'']"

lemma table_writes:
  "list_all (\<lambda>rt. rt_group rt = Api_Group \<longrightarrow> rt_method rt = Get \<or>
     rt_handler rt \<in> set (own_account_handlers @ own_token_handlers @ inspection_handlers) \<or>
     Role_Check [role_admin, role_operator] \<in> set (rt_checks rt) \<or> Role_Check [role_admin] \<in> set (rt_checks rt)) server_routes"
  by code_simp

lemma table_administration:
  "list_all (\<lambda>rt. rt_handler rt \<in> set administration_handlers \<longrightarrow> rt_group rt = Api_Group \<and> Role_Check [role_admin] \<in> set (rt_checks rt)) server_routes"
  by code_simp

lemma table_scopes:
  "list_all (\<lambda>rt. rt_group rt = Api_Group \<longrightarrow> rt_method rt = Get \<or> rt_handler rt \<in> set (own_account_handlers @ inspection_handlers) \<or>
     list_ex (\<lambda>s. Scope_Check s \<in> set (rt_checks rt)) write_scopes) server_routes"
  by code_simp

lemma read_clean: "list_all (\<lambda>r. clean_scope r = r) read_scopes"
  by code_simp

lemma read_table:
  "list_all (\<lambda>w. case cut CHR '':'' w of (resource, action, _) \<Rightarrow> list_all (\<lambda>r. r \<noteq> scope_all \<and> r \<noteq> w \<and> r \<noteq> resource @ '':*'' \<and>
     (r = resource @ '':write'' \<longrightarrow> action \<noteq> ''read'')) read_scopes) write_scopes"
  by code_simp

lemma read_grants: "w \<in> set write_scopes \<Longrightarrow> r \<in> set read_scopes \<Longrightarrow> \<not> grants w r"
  using read_clean read_table by (auto simp: grants_def Let_def list_all_iff split: prod.splits)

section \<open>Who passes\<close>


definition limits :: "auth_db \<Rightarrow> gate" where
  "limits d = \<lparr>gt_auth = d, gt_login = new_limiter 5 minute 0, gt_issue = new_limiter 60 minute 0, gt_acme = new_limiter 240 minute 0\<rparr>"

lemma limits_simps [simp]: "gt_auth (limits d) = d" "(limits d)\<lparr>gt_auth := e\<rparr> = limits e"
  by (simp_all add: limits_def)

definition delete_user_route :: route where
  "delete_user_route = route Delete ''/users/{id}'' ''DeleteUser'' Api_Group (admin_checks ''users:write'')"

lemma admitted_deletion:
  "admit (desk_jwt 0) (desk minute Sqlite) desk_auth ''10.0.0.1'' (cookie ''eyJ1'') delete_user_route (limits (with_users us)) =
   (Inr (Some root_principal), limits (with_users us))"
  by (simp add: admit_def group_middleware_def delete_user_route_def route_def admin_checks_def on_accounts_def admitted_root bindS_def
      run_check_def require_role_def require_scope_def has_scope_def root_principal_def)


text \<open>A request that carries an API token of which every scope is a reading one gets through to no endpoint
  that changes something, but for the inspection of an uploaded certificate and the two-factor
  settings of the account that owns the token.\<close>

theorem reading_tokens_change_nothing:
  assumes "rt \<in> set server_routes" "rt_group rt = Api_Group" "admit L E A ip r rt g = (Inr (Some q), g')"
    "pr_token q \<noteq> []" "pr_scopes q \<noteq> []" "set (pr_scopes q) \<subseteq> set read_scopes"
  shows "rt_method rt = Get \<or> rt_handler rt \<in> set (own_account_handlers @ inspection_handlers)"
proof -
  have q: "\<And>scope. Scope_Check scope \<in> set (rt_checks rt) \<Longrightarrow> has_scope (Some q) scope"
    using admitted_api [OF assms(3,2)] by (metis option.inject)
  have "\<not> has_scope (Some q) w" if "w \<in> set write_scopes" for w
    using read_grants [OF that] assms(4-6) by (auto simp: has_scope_def list_ex_iff)
  then show ?thesis
    using table_scopes assms(1,2) q unfolding list_all_iff list_ex_iff by blast
qed

definition reading_token :: api_token where
  "reading_token = \<lparr>tk_id = ''k1'', tk_created_at = 0, tk_user = ''a'', tk_name = ''ci'', tk_hash = hash_api_token (ae_sha256 (desk minute Sqlite)) ''certio_x'',
     tk_prefix = ''certio_x'', tk_scopes = [''certificates:read''], tk_expires = None, tk_last_used = None, tk_revoked = None\<rparr>"

definition token_db :: "instant option \<Rightarrow> auth_db" where
  "token_db t = \<lparr>ad_users = [root old_pw], ad_tokens = [reading_token\<lparr>tk_last_used := t\<rparr>], ad_sessions = [], ad_providers = []\<rparr>"

definition reading_principal :: principal where
  "reading_principal = \<lparr>pr_user = ''a'', pr_email = ''r@x'', pr_name = ''Root'', pr_role = role_admin, pr_token = ''k1'',
     pr_scopes = [''certificates:read''], pr_session = [], pr_session_expiry = zero_time\<rparr>"

definition list_route :: route where
  "list_route = route Get ''/certificates'' ''ListCertificates'' Api_Group (read_checks ''certificates:read'')"

lemma grants_itself: "grants ''certificates:read'' ''certificates:read''"
  using read_clean by (simp add: read_scopes_def grants_def Let_def split: prod.splits)

lemma admitted_reader:
  "\<exists>g. admit (desk_jwt 0) (desk minute Sqlite) desk_auth ''10.0.0.1'' (cookie ''certio_x'') list_route (limits (token_db None)) = (Inr (Some reading_principal), g)"
  by (simp add: admit_def group_middleware_def list_route_def route_def read_checks_def on_accounts_def bindS_def auth_middleware_def Let_def
      resolve_bearer_def authenticate_api_token_def token_by_hash_def token_db_def tbl_get_def reading_token_def token_usable_def get_user_def
      is_active_def map_errS_def session_revoked_def reading_principal_def run_check_def require_scope_def has_scope_def grants_itself
      split: prod.splits)

theorem reading_tokens_change_nothing_witness:
  "list_route \<in> set server_routes \<and> (rt_method list_route = Get \<or> rt_handler list_route \<in> set (own_account_handlers @ inspection_handlers))"
proof -
  obtain g where g: "admit (desk_jwt 0) (desk minute Sqlite) desk_auth ''10.0.0.1'' (cookie ''certio_x'') list_route (limits (token_db None)) =
      (Inr (Some reading_principal), g)"
    using admitted_reader by blast
  have r: "list_route \<in> set server_routes" "rt_group list_route = Api_Group"
    by (simp_all add: list_route_def route_def server_routes_def certificate_routes_def)
  then show ?thesis
    using reading_tokens_change_nothing [OF r g] by (simp add: reading_principal_def read_scopes_def)
qed

section \<open>What a download hands out\<close>

definition blank_options :: export_options where
  "blank_options = \<lparr>eo_format = [], eo_password = [], eo_secret_name = [], eo_namespace = []\<rparr>"


lemma www_loads: "\<exists>b. load_bundle sample_env ''cert-1'' True db2 = Inr (b, www_row) \<and> b_private_key b = Some www_key"
  by (simp add: load_bundle_def get_www chain_for_def parse_encoded chain_certificates_def authority_chain_def eval_nat_numeral open_key_def
      has_private_key_def sample_env_simps)

lemma www_key_signs: "can_sign www_key"
  by code_simp

lemma www_downloads: "cr_key_downloads www_row = 0" "cfg_download_policy sample_env = ''once''"
  by (simp_all add: www_row_def certificate_row_def Let_def sample_env_def)


text \<open>The one download that the policy \<open>once\<close> allows is spent without a key leaving: the compose format, whose
  text only names the files, counts as a download of the key, and so does a PKCS#12 export that is
  refused because it has no password.  After either, no format that needs the key is served.\<close>

theorem download_is_spent_without_a_key:
  assumes "load_bundle E i True d = Inr (b, c)" "cfg_download_policy E = ''once''" "cr_key_downloads c = 0"
    "opts = blank_options\<lparr>eo_format := f\<rparr>" "f = ''compose'' \<or> f = ''p12''"
  shows "\<exists>r d'. download_certificate E i opts d = (r, d') \<and> (case r of Inl _ \<Rightarrow> f = ''p12'' | Inr x \<Rightarrow> \<not> holds_key (ex_data x)) \<and>
    (\<forall>E' opts'. cfg_download_policy E' = ''once'' \<and> format_needs_key (eo_format opts') \<longrightarrow>
       (\<exists>e. fst (download_certificate E' i opts' d') = Inl e))"
proof -
  let ?d = "spent_download E i c d"
  have f: "format_needs_key (eo_format opts)" "eo_format opts \<noteq> []" "eo_password opts = []"
    using assms(4,5) by (auto simp: format_needs_key_def blank_options_def)
  have run: "download_certificate E i opts d = (map_err DlExport (export_certificate c b opts), ?d)"
    using download_with_key [OF assms(1) f(1,2)] assms(2,3) by simp
  have "case map_err DlExport (export_certificate c b opts) of Inl _ \<Rightarrow> f = ''p12'' | Inr x \<Rightarrow> \<not> holds_key (ex_data x)"
    using assms(4,5) by (auto simp: export_certificate_def blank_options_def snippet_def rendered_def holds_key_piece_def Let_def)
  moreover have "\<exists>e. fst (download_certificate E' i opts' ?d) = Inl e"
    if E': "cfg_download_policy E' = ''once''" "format_needs_key (eo_format opts')" for E' opts'
  proof (cases "load_bundle E' i True ?d")
    case (Inl e)
    have "eo_format opts' \<noteq> []" using E'(2) by (auto simp: format_needs_key_def)
    then show ?thesis using Inl E'(2) by (simp add: download_certificate_def bindS_def)
  next
    case (Inr bc)
    obtain b' c' where bc: "bc = (b', c')" by (cases bc)
    have "eo_format opts' \<noteq> []" using E'(2) by (auto simp: format_needs_key_def)
    moreover have "0 < cr_key_downloads c'"
      using spent_row [OF load_bundle_row(1) [OF assms(1)], of E] load_bundle_row(1) [OF Inr [unfolded bc]] assms(3) by auto
    ultimately show ?thesis using download_with_key [OF Inr [unfolded bc] E'(2)] E'(1) by simp
  qed
  ultimately show ?thesis using run by auto
qed

theorem download_is_spent_without_a_key_witness:
  "\<exists>r d'. download_certificate sample_env ''cert-1'' (blank_options\<lparr>eo_format := ''compose''\<rparr>) db2 = (r, d') \<and>
    (\<exists>e. fst (download_certificate sample_env ''cert-1'' (blank_options\<lparr>eo_format := ''key''\<rparr>) d') = Inl e)"
proof -
  obtain b where b: "load_bundle sample_env ''cert-1'' True db2 = Inr (b, www_row)" using www_loads by blast
  obtain r d' where r: "download_certificate sample_env ''cert-1'' (blank_options\<lparr>eo_format := ''compose''\<rparr>) db2 = (r, d')"
    "\<forall>E' opts'. cfg_download_policy E' = ''once'' \<and> format_needs_key (eo_format opts') \<longrightarrow>
       (\<exists>e. fst (download_certificate E' ''cert-1'' opts' d') = Inl e)"
    using download_is_spent_without_a_key [OF b www_downloads(2,1) refl, of "''compose''"] by auto
  moreover have "format_needs_key (eo_format (blank_options\<lparr>eo_format := ''key''\<rparr>))" by (simp add: format_needs_key_def)
  ultimately show ?thesis using www_downloads(2) by blast
qed

text \<open>Reading is enough to take a private key: the endpoint of downloads asks for no role, only, of an API token, for
  the scope \<open>certificates:read\<close>, and behind it the format \<open>key\<close> hands out the key of any certificate
  while the policy allows a download, also to a viewer.\<close>

theorem readers_take_private_keys:
  assumes "load_bundle E i True d = Inr (b, c)" "b_private_key b = Some k" "can_sign k"
    "cfg_download_policy E \<noteq> ''never''" "cr_key_downloads c = 0"
  shows "\<exists>rt \<in> set server_routes. rt_handler rt = ''DownloadCertificate'' \<and> rt_method rt = Get \<and>
    (\<forall>ip now q g. pr_token q = [] \<or> ''certificates:read'' \<in> set (pr_scopes q) \<longrightarrow> run_checks ip now (Some q) (rt_checks rt) g = (Inr (), g)) \<and>
    (\<exists>x d'. download_certificate E i (blank_options\<lparr>eo_format := ''key''\<rparr>) d = (Inr x, d') \<and> holds_key (ex_data x))"
proof -
  let ?rt = "route Get ''/certificates/{id}/download'' ''DownloadCertificate'' Api_Group (read_checks ''certificates:read'')"
  have "run_checks ip now (Some q) (rt_checks ?rt) h = (Inr (), h)"
    if "pr_token q = [] \<or> ''certificates:read'' \<in> set (pr_scopes q)" for ip now q h
    using that grants_itself
    by (auto simp: route_def read_checks_def run_check_def require_scope_def has_scope_def list_ex_iff bindS_def)
  moreover have "?rt \<in> set server_routes" by (simp add: server_routes_def certificate_routes_def)
  moreover have "\<exists>x d'. download_certificate E i (blank_options\<lparr>eo_format := ''key''\<rparr>) d = (Inr x, d') \<and> holds_key (ex_data x)"
    using download_with_key [OF assms(1), of "blank_options\<lparr>eo_format := ''key''\<rparr>"] assms(2-5)
      plain_key_export [OF assms(2,3), of "blank_options\<lparr>eo_format := ''key''\<rparr>" c]
    by (auto simp: format_needs_key_def)
  ultimately show ?thesis by (intro bexI [of _ ?rt]) (auto simp: route_def)
qed

theorem readers_take_private_keys_witness:
  "\<exists>rt \<in> set server_routes. rt_handler rt = ''DownloadCertificate'' \<and>
    (\<exists>x d'. download_certificate sample_env ''cert-1'' (blank_options\<lparr>eo_format := ''key''\<rparr>) db2 = (Inr x, d') \<and> holds_key (ex_data x))"
proof -
  obtain b where b: "load_bundle sample_env ''cert-1'' True db2 = Inr (b, www_row)" "b_private_key b = Some www_key" using www_loads by blast
  have "cfg_download_policy sample_env \<noteq> ''never''" by (simp add: www_downloads)
  then show ?thesis using readers_take_private_keys [OF b www_key_signs _ www_downloads(1)] by blast
qed

end
