(* ===== verification/AcmeWire.thy ===== *)
theory AcmeWire
  imports Password SvcAcme GoTime
begin

text \<open>
  \<open>internal/acme/jws.go\<close> and \<open>challenge.go\<close>: the signed requests of ACME clients, their keys, and
  the outbound checks of a challenge.  Bytes are \<open>octet\<close> lists.  \<open>acme_lib\<close> is what the file calls
  of other packages: the JSON decoders, the hashes, the signature schemes on a digest, and
  whether a point is on its curve; \<open>validator\<close> has the port of http-01, the answers of the HTTP
  client and those of the resolver.
\<close>

section \<open>Base64 as the decoder reads it\<close>

text \<open>\<open>base64.RawURLEncoding\<close> is not strict: line breaks are skipped and left-over bits are ignored.\<close>

fun lax_undigits :: "nat list \<Rightarrow> nat list option" where
  "lax_undigits [] = Some []"
| "lax_undigits [d] = None"
| "lax_undigits [d, e] = Some [d * 4 + e div 16]"
| "lax_undigits [d, e, f] = Some [d * 4 + e div 16, e mod 16 * 16 + f div 4]"
| "lax_undigits (d # e # f # g # r) = map_option (\<lambda>bs. (d * 4 + e div 16) # (e mod 16 * 16 + f div 4) # (f mod 4 * 64 + g) # bs) (lax_undigits r)"

definition b64url_decode :: "string \<Rightarrow> octet list option" where
  "b64url_decode s =
     (case those (map (b64_val b64_url) (filter (\<lambda>c. ord c \<noteq> 10 \<and> ord c \<noteq> 13) s)) of
        None \<Rightarrow> None
      | Some ds \<Rightarrow> map_option (map of_nat) (lax_undigits ds))"

definition b64url_encode :: "octet list \<Rightarrow> string" where
  "b64url_encode = b64_encode b64_url"

section \<open>Requests and keys\<close>

record jws =
  js_protected :: string
  js_payload :: string
  js_signature :: string

record wire_jwk =
  wk_kty :: string
  wk_crv :: string
  wk_x :: string
  wk_y :: string
  wk_n :: string
  wk_e :: string

record jws_header =
  jh_alg :: string
  jh_nonce :: string
  jh_url :: string
  jh_jwk :: "wire_jwk option"
  jh_kid :: string

datatype jws_hash = No_Hash | Sha256 | Sha384 | Sha512
datatype named_curve = P256 | P384 | P521
datatype wire_key = Wire_RSA nat int | Wire_EC named_curve "octet list" | Wire_Ed25519 "octet list"

datatype jws_error =
    NotJws | MissingParts | BadBase64 string | BadHeader | NotOneKey | UnsupportedAlg string | WrongKeyType string
  | WrongSignatureSize string nat nat | NotVerified | BindingAlg string | BindingNotVerified | NoKeySupplied
  | UnsupportedCurve string | WrongCoordinates nat | OffCurve | ShortModulus | BadExponent | WrongEd25519Size
  | UnsupportedKeyType string

record acme_lib =
  al_jws :: "octet list \<Rightarrow> jws option"
  al_header :: "octet list \<Rightarrow> jws_header option"
  al_jwk :: "string \<Rightarrow> wire_jwk option"
  al_encode_jwk :: "wire_jwk \<Rightarrow> string"
  al_digest :: "jws_hash \<Rightarrow> octet list \<Rightarrow> octet list"
  al_rsa :: "nat \<Rightarrow> int \<Rightarrow> jws_hash \<Rightarrow> octet list \<Rightarrow> octet list \<Rightarrow> bool"
  al_ecdsa :: "named_curve \<Rightarrow> octet list \<Rightarrow> octet list \<Rightarrow> nat \<Rightarrow> nat \<Rightarrow> bool"
  al_ed25519 :: "octet list \<Rightarrow> octet list \<Rightarrow> octet list \<Rightarrow> bool"
  al_hmac :: "octet list \<Rightarrow> octet list \<Rightarrow> octet list"
  al_on_curve :: "named_curve \<Rightarrow> octet list \<Rightarrow> bool"

definition b64_part :: "string \<Rightarrow> string \<Rightarrow> jws_error + octet list" where
  "b64_part what s = (case b64url_decode s of None \<Rightarrow> Inl (BadBase64 what) | Some bs \<Rightarrow> Inr bs)"

text \<open>Decoding after the outer JSON, which a binding nested in another request has already passed.\<close>

definition parse_jws_parts :: "acme_lib \<Rightarrow> jws \<Rightarrow> jws_error + (jws \<times> jws_header \<times> octet list)" where
  "parse_jws_parts L j =
     (if js_protected j = [] \<or> js_signature j = [] then Inl MissingParts
      else
        bindE (b64_part ''protected'' (js_protected j)) (\<lambda>raw.
        case al_header L raw of
          None \<Rightarrow> Inl BadHeader
        | Some h \<Rightarrow>
            if (jh_jwk h = None) = (jh_kid h = []) then Inl NotOneKey
            else bindE (b64_part ''payload'' (js_payload j)) (\<lambda>payload. Inr (j, h, payload))))"

definition parse_jws :: "acme_lib \<Rightarrow> octet list \<Rightarrow> jws_error + (jws \<times> jws_header \<times> octet list)" where
  "parse_jws L body = (case al_jws L body of None \<Rightarrow> Inl NotJws | Some j \<Rightarrow> parse_jws_parts L j)"

definition signing_input :: "jws \<Rightarrow> octet list" where
  "signing_input j = text_octets (js_protected j @ ''.'' @ js_payload j)"

definition hash_for :: "string \<Rightarrow> jws_error + jws_hash" where
  "hash_for alg =
     (if alg \<in> set [''RS256'', ''ES256'', ''HS256''] then Inr Sha256
      else if alg \<in> set [''RS384'', ''ES384''] then Inr Sha384
      else if alg \<in> set [''RS512'', ''ES512''] then Inr Sha512
      else if alg = ''EdDSA'' then Inr No_Hash
      else Inl (UnsupportedAlg alg))"

definition digest_of :: "acme_lib \<Rightarrow> jws_hash \<Rightarrow> octet list \<Rightarrow> octet list" where
  "digest_of L h m = al_digest L (if h = Sha384 \<or> h = Sha512 then h else Sha256) m"

definition curve_bits :: "named_curve \<Rightarrow> nat" where
  "curve_bits c = (case c of P256 \<Rightarrow> 256 | P384 \<Rightarrow> 384 | P521 \<Rightarrow> 521)"

definition be_nat :: "octet list \<Rightarrow> nat" where
  "be_nat bs = foldl (\<lambda>n b. n * 256 + unat b) 0 bs"

definition jws_verify :: "acme_lib \<Rightarrow> jws \<Rightarrow> jws_header \<Rightarrow> wire_key \<Rightarrow> jws_error + unit" where
  "jws_verify L j h key =
     bindE (b64_part ''signature'' (js_signature j)) (\<lambda>sig.
     let alg = jh_alg h; m = signing_input j in
     bindE (hash_for alg) (\<lambda>hash.
     if alg \<in> set [''RS256'', ''RS384'', ''RS512''] then
       (case key of
          Wire_RSA n e \<Rightarrow> guardE (al_rsa L n e hash (digest_of L hash m) sig) NotVerified
        | _ \<Rightarrow> Inl (WrongKeyType alg))
     else if alg \<in> set [''ES256'', ''ES384'', ''ES512''] then
       (case key of
          Wire_EC crv point \<Rightarrow>
            let size = (curve_bits crv + 7) div 8 in
            if length sig \<noteq> 2 * size then Inl (WrongSignatureSize alg (2 * size) (length sig))
            else guardE (al_ecdsa L crv point (digest_of L hash m) (be_nat (take size sig)) (be_nat (drop size sig))) NotVerified
        | _ \<Rightarrow> Inl (WrongKeyType alg))
     else if alg = ''EdDSA'' then
       (case key of
          Wire_Ed25519 x \<Rightarrow> guardE (al_ed25519 L x m sig) NotVerified
        | _ \<Rightarrow> Inl (WrongKeyType alg))
     else Inl (UnsupportedAlg alg)))"

definition jws_verify_hmac :: "acme_lib \<Rightarrow> jws \<Rightarrow> string \<Rightarrow> octet list \<Rightarrow> jws_error + unit" where
  "jws_verify_hmac L j alg secret =
     (if alg \<noteq> ''HS256'' then Inl (BindingAlg alg)
      else bindE (b64_part ''signature'' (js_signature j)) (\<lambda>sig.
        guardE (al_hmac L secret (signing_input j) = sig) BindingNotVerified))"

definition curve_for :: "string \<Rightarrow> jws_error + (named_curve \<times> nat)" where
  "curve_for name =
     (if name = ''P-256'' then Inr (P256, 32) else if name = ''P-384'' then Inr (P384, 48)
      else if name = ''P-521'' then Inr (P521, 66) else Inl (UnsupportedCurve name))"

definition jwk_public_key :: "acme_lib \<Rightarrow> wire_jwk \<Rightarrow> jws_error + wire_key" where
  "jwk_public_key L k =
     (if wk_kty k = ''EC'' then
        bindE (curve_for (wk_crv k)) (\<lambda>(crv, size).
        bindE (b64_part ''x'' (wk_x k)) (\<lambda>x.
        bindE (b64_part ''y'' (wk_y k)) (\<lambda>y.
        if length x \<noteq> size \<or> length y \<noteq> size then Inl (WrongCoordinates size)
        else let point = 4 # x @ y in if al_on_curve L crv point then Inr (Wire_EC crv point) else Inl OffCurve)))
      else if wk_kty k = ''RSA'' then
        bindE (b64_part ''n'' (wk_n k)) (\<lambda>n.
        bindE (b64_part ''e'' (wk_e k)) (\<lambda>e.
        if length n < 256 then Inl ShortModulus
        else if \<not> be_nat e < 2 ^ 63 \<or> be_nat e < 3 then Inl BadExponent
        else Inr (Wire_RSA (be_nat n) (int (be_nat e)))))
      else if wk_kty k = ''OKP'' then
        (if wk_crv k \<noteq> ''Ed25519'' then Inl (UnsupportedCurve (wk_crv k))
         else bindE (b64_part ''x'' (wk_x k)) (\<lambda>x. if length x \<noteq> 32 then Inl WrongEd25519Size else Inr (Wire_Ed25519 x)))
      else Inl (UnsupportedKeyType (wk_kty k)))"

definition member :: "string \<Rightarrow> string \<Rightarrow> string" where
  "member name v = go_quote name @ '':'' @ go_quote v"

definition jwk_canonical :: "wire_jwk \<Rightarrow> jws_error + string" where
  "jwk_canonical k =
     (let obj = (\<lambda>ms. Inr (''{'' @ join_with '','' ms @ ''}'')) in
      if wk_kty k = ''EC'' then obj [member ''crv'' (wk_crv k), member ''kty'' ''EC'', member ''x'' (wk_x k), member ''y'' (wk_y k)]
      else if wk_kty k = ''RSA'' then obj [member ''e'' (wk_e k), member ''kty'' ''RSA'', member ''n'' (wk_n k)]
      else if wk_kty k = ''OKP'' then obj [member ''crv'' (wk_crv k), member ''kty'' ''OKP'', member ''x'' (wk_x k)]
      else Inl (UnsupportedKeyType (wk_kty k)))"

definition sha256_b64 :: "acme_lib \<Rightarrow> string \<Rightarrow> string" where
  "sha256_b64 L s = b64url_encode (al_digest L Sha256 (text_octets s))"

definition thumbprint :: "acme_lib \<Rightarrow> wire_jwk \<Rightarrow> jws_error + string" where
  "thumbprint L k = bindE (jwk_canonical k) (\<lambda>s. Inr (sha256_b64 L s))"

definition key_authorization :: "acme_lib \<Rightarrow> string \<Rightarrow> wire_jwk \<Rightarrow> jws_error + string" where
  "key_authorization L token k = bindE (thumbprint L k) (\<lambda>t. Inr (token @ ''.'' @ t))"

definition dns_record_value :: "acme_lib \<Rightarrow> string \<Rightarrow> string" where
  "dns_record_value L = sha256_b64 L"

section \<open>Challenges\<close>

text \<open>An answer is an error, or the status code and line and the body, which may fail to be read.\<close>

record validator =
  va_port :: int
  va_url_ok :: "string \<Rightarrow> bool"
  va_fetch :: "string \<Rightarrow> string \<Rightarrow> string + (int \<times> string \<times> (string + string))"
  va_txt :: "string \<Rightarrow> string + string list"

datatype challenge_problem = ChMalformed string | ChConnection string | ChIncorrect string | ChDns string

definition max_challenge_body :: nat where "max_challenge_body = 4096"

definition http01_url :: "validator \<Rightarrow> string \<Rightarrow> string \<Rightarrow> string" where
  "http01_url V ident token =
     (let host = (if va_port V \<noteq> 80 then join_host_port ident (dec_int (va_port V)) else ident)
      in ''http://'' @ host @ ''/.well-known/acme-challenge/'' @ token)"

definition validate_http01 :: "validator \<Rightarrow> string \<Rightarrow> string \<Rightarrow> string \<Rightarrow> challenge_problem + unit" where
  "validate_http01 V ident token key_auth =
     (if prefix ''*.'' ident then Inl (ChMalformed ident)
      else
        let url = http01_url V ident token in
        if \<not> va_url_ok V url then Inl (ChMalformed url)
        else (case va_fetch V url ident of
            Inl e \<Rightarrow> Inl (ChConnection (''could not fetch '' @ url @ '': '' @ e))
          | Inr (st, status, body) \<Rightarrow>
              if st \<noteq> 200 then Inl (ChIncorrect (url @ '' returned '' @ status @ '', want 200''))
              else (case body of
                  Inl e \<Rightarrow> Inl (ChConnection (''could not read '' @ url @ '': '' @ e))
                | Inr b \<Rightarrow>
                    if trim_space (take max_challenge_body b) \<noteq> key_auth
                    then Inl (ChIncorrect (url @ '' served the wrong key authorization''))
                    else Inr ())))"

definition validate_dns01 :: "acme_lib \<Rightarrow> validator \<Rightarrow> string \<Rightarrow> string \<Rightarrow> challenge_problem + unit" where
  "validate_dns01 L V ident key_auth =
     (let name = ''_acme-challenge.'' @ trim_prefix ''*.'' ident; want = dns_record_value L key_auth in
      case va_txt V name of
        Inl e \<Rightarrow> Inl (ChDns (''could not look up TXT '' @ name @ '': '' @ e))
      | Inr records \<Rightarrow>
          if records = [] then Inl (ChDns (''no TXT record at '' @ name))
          else if list_ex (\<lambda>r. trim_space r = want) records then Inr ()
          else Inl (ChIncorrect (''none of the TXT records matched at '' @ name)))"

definition validate_challenge :: "acme_lib \<Rightarrow> validator \<Rightarrow> string \<Rightarrow> string \<Rightarrow> string \<Rightarrow> string \<Rightarrow> challenge_problem + unit" where
  "validate_challenge L V ty ident token key_auth =
     (if ty = ''http-01'' then validate_http01 V ident token key_auth
      else if ty = ''dns-01'' then validate_dns01 L V ident key_auth
      else Inl (ChMalformed (''unsupported challenge type '' @ ty)))"

section \<open>Laws\<close>

lemma b64_digits_range: "\<forall>n \<in> set ns. n < 256 \<Longrightarrow> \<forall>d \<in> set (b64_digits ns). d < 64"
  by (induction ns rule: b64_digits.induct) auto

lemma lax_digits: "\<forall>n \<in> set ns. n < 256 \<Longrightarrow> lax_undigits (b64_digits ns) = Some ns"
  by (induction ns rule: b64_digits.induct) auto

end
