(* ===== verification/SrvAcme.thy ===== *)
theory SrvAcme
  imports AcmeWire
begin

text \<open>
  \<open>internal/server/handlers/acme.go\<close>: what a signed request passes before its payload is read, and the
  endpoints behind it.  \<open>acme_site\<close> has the two settings the handlers read; \<open>payloads\<close> the JSON
  decoders of the request types and the comparison of a certificate's key with a JWK's.  A handler
  gives what it renders, before the rendering; the fresh nonce on every answer is \<open>attach_nonce\<close>.
\<close>

record acme_site =
  as_enabled :: bool
  as_base_url :: string

record wire_account_request =
  wr_contact :: "string list"
  wr_terms_agreed :: bool
  wr_only_existing :: bool
  wr_binding :: "jws option"

record update_account_request =
  ur_contact :: "string list option"
  ur_status :: string

record revoke_request =
  rr_certificate :: string
  rr_reason :: "int option"

record payloads =
  pl_account :: "octet list \<Rightarrow> wire_account_request option"
  pl_update :: "octet list \<Rightarrow> update_account_request option"
  pl_order :: "octet list \<Rightarrow> new_order_request option"
  pl_csr :: "octet list \<Rightarrow> string option"
  pl_revoke :: "octet list \<Rightarrow> revoke_request option"
  pl_der :: "octet list \<Rightarrow> der"
  pl_same_key :: "public_key \<Rightarrow> wire_key \<Rightarrow> bool option"

definition acme_url :: "acme_site \<Rightarrow> string \<Rightarrow> string" where
  "acme_url H path = trim_right (\<lambda>c. c = CHR ''/'') (as_base_url H) @ ''/acme'' @ path"

definition max_acme_body :: nat where "max_acme_body = 256 * 1024"

definition octets_text :: "octet list \<Rightarrow> string" where
  "octets_text bs = map (\<lambda>b. char_of (unat b)) bs"

section \<open>Verification\<close>

record verified =
  vf_account :: "acme_account option"
  vf_key :: wire_jwk
  vf_payload :: "octet list"
  vf_header :: jws_header

definition account_id_from_kid :: "string \<Rightarrow> string" where
  "account_id_from_kid kid =
     (let t = trim_right (\<lambda>c. c = CHR ''/'') kid
      in if CHR ''/'' \<in> set t then rev (takeWhile (\<lambda>c. c \<noteq> CHR ''/'') (rev t)) else [])"

definition touch_account :: "instant \<Rightarrow> string \<Rightarrow> db \<Rightarrow> db" where
  "touch_account now i = db_accounts_update (tbl_set (\<lambda>a. aa_id a = i) (\<lambda>a. a\<lparr>aa_last_used := Some now\<rparr>))"

definition jws_problem :: "acme_error \<Rightarrow> jws_error + 'a \<Rightarrow> problem + 'a" where
  "jws_problem k r = map_err (\<lambda>_. Problem k ''acme'') r"

definition verify_signer :: "acme_lib \<Rightarrow> acme_env \<Rightarrow> jws \<Rightarrow> jws_header \<Rightarrow> octet list \<Rightarrow> verified acme" where
  "verify_signer L E j h payload = (case jh_jwk h of
       Some k \<Rightarrow>
         bindS (liftE (jws_problem BadPublicKey (jwk_public_key L k))) (\<lambda>key.
         bindS (liftE (jws_problem Unauthorized (jws_verify L j h key))) (\<lambda>_.
         returnS \<lparr>vf_account = None, vf_key = k, vf_payload = payload, vf_header = h\<rparr>))
     | None \<Rightarrow>
         let i = account_id_from_kid (jh_kid h) in
         if i = [] then failP Malformed (jh_kid h)
         else
           bindS (readP AccountDoesNotExist ''no such account'' (get_account i)) (\<lambda>a.
           if aa_status a = AcDeactivated then failP Unauthorized ''this account has been deactivated''
           else (case al_jwk L (aa_jwk a) of
               None \<Rightarrow> failP ServerInternal ''could not read the account key''
             | Some k \<Rightarrow>
                 bindS (liftE (jws_problem ServerInternal (jwk_public_key L k))) (\<lambda>key.
                 bindS (liftE (jws_problem Unauthorized (jws_verify L j h key))) (\<lambda>_.
                 bindS (modifyS (touch_account (se_now E) (aa_id a))) (\<lambda>_.
                 returnS \<lparr>vf_account = Some a, vf_key = k, vf_payload = payload, vf_header = h\<rparr>))))))"

definition verify_acme :: "acme_lib \<Rightarrow> acme_site \<Rightarrow> acme_env \<Rightarrow> string \<Rightarrow> octet list \<Rightarrow> verified acme" where
  "verify_acme L H E endpoint raw =
     (if \<not> as_enabled H then failP ServerInternal ''ACME is not enabled on this instance''
      else
        bindS (liftE (jws_problem Malformed (parse_jws L (take max_acme_body raw)))) (\<lambda>(j, h, payload).
        bindS (spend_nonce E (jh_nonce h)) (\<lambda>_.
        if jh_url h \<noteq> acme_url H endpoint then failP Malformed (jh_url h)
        else verify_signer L E j h payload)))"

definition attach_nonce :: "acme_env \<Rightarrow> string \<Rightarrow> db \<Rightarrow> db" where
  "attach_nonce E drawn d = snd (new_nonce E drawn d)"

section \<open>Endpoints\<close>

definition jwk_of :: "acme_lib \<Rightarrow> wire_jwk \<Rightarrow> jwk" where
  "jwk_of L k = \<lparr>jwk_thumbprint = (case thumbprint L k of Inl _ \<Rightarrow> None | Inr t \<Rightarrow> Some t), jwk_encoded = Some (al_encode_jwk L k)\<rparr>"

definition eab_of :: "acme_lib \<Rightarrow> jws \<Rightarrow> eab" where
  "eab_of L b = \<lparr>
     eb_parsed = (case parse_jws_parts L b of
         Inl _ \<Rightarrow> None
       | Inr (_, h, payload) \<Rightarrow> Some \<lparr>eb_kid = jh_kid h, eb_url = jh_url h, eb_alg = jh_alg h,
           eb_payload = map_option (jwk_of L) (al_jwk L (octets_text payload))\<rparr>),
     eb_hmac_ok = (\<lambda>alg secret. jws_verify_hmac L b alg (text_octets secret) = Inr ())\<rparr>"

definition request_of :: "acme_lib \<Rightarrow> wire_account_request \<Rightarrow> new_account_request" where
  "request_of L r = \<lparr>nr_contact = wr_contact r, nr_terms_agreed = wr_terms_agreed r, nr_only_existing = wr_only_existing r,
     nr_binding = map_option (eab_of L) (wr_binding r)\<rparr>"

definition blank_account_request :: wire_account_request where
  "blank_account_request = \<lparr>wr_contact = [], wr_terms_agreed = False, wr_only_existing = False, wr_binding = None\<rparr>"

definition decoded :: "'a option \<Rightarrow> 'a acme" where
  "decoded x = (case x of None \<Rightarrow> failP Malformed ''the payload is not valid JSON'' | Some v \<Rightarrow> returnS v)"

definition post_new_account ::
    "acme_lib \<Rightarrow> payloads \<Rightarrow> acme_site \<Rightarrow> acme_env \<Rightarrow> string \<Rightarrow> octet list \<Rightarrow> (acme_account \<times> bool) acme" where
  "post_new_account L P H E uuid raw =
     bindS (verify_acme L H E ''/new-account'' raw) (\<lambda>v.
     case jh_jwk (vf_header v) of
       None \<Rightarrow> failP Malformed ''new-account must be signed with an embedded jwk, not a kid''
     | Some k \<Rightarrow>
         bindS (if vf_payload v = [] then returnS blank_account_request else decoded (pl_account P (vf_payload v))) (\<lambda>req.
         acme_register E uuid (jwk_of L k) (request_of L req) (acme_url H ''/new-account'')))"

definition post_account :: "acme_lib \<Rightarrow> payloads \<Rightarrow> acme_site \<Rightarrow> acme_env \<Rightarrow> string \<Rightarrow> octet list \<Rightarrow> acme_account acme" where
  "post_account L P H E i raw =
     bindS (verify_acme L H E (''/account/'' @ i) raw) (\<lambda>v.
     case vf_account v of
       None \<Rightarrow> failP Unauthorized ''an account may only be read or changed by itself''
     | Some a \<Rightarrow>
         if aa_id a \<noteq> i then failP Unauthorized ''an account may only be read or changed by itself''
         else if vf_payload v = [] then returnS a
         else
           bindS (decoded (pl_update P (vf_payload v))) (\<lambda>req.
           if ur_status req = ''deactivated'' then
             bindS (as_problem ServerInternal ''could not deactivate the account'' (acme_deactivate a)) (\<lambda>_.
             returnS (a\<lparr>aa_status := AcDeactivated\<rparr>))
           else (case ur_contact req of
               None \<Rightarrow> returnS a
             | Some contact \<Rightarrow>
                 let a = a\<lparr>aa_contact := contact\<rparr> in
                 bindS (as_problem ServerInternal ''could not update the account'' (update_account a)) (\<lambda>_. returnS a))))"

definition post_new_order ::
    "acme_lib \<Rightarrow> payloads \<Rightarrow> acme_site \<Rightarrow> acme_env \<Rightarrow> order_draws \<Rightarrow> octet list \<Rightarrow> (acme_order \<times> acme_authz list) acme" where
  "post_new_order L P H E R raw =
     bindS (verify_acme L H E ''/new-order'' raw) (\<lambda>v.
     case vf_account v of
       None \<Rightarrow> failP Malformed ''new-order must be signed with a kid''
     | Some a \<Rightarrow> bindS (decoded (pl_order P (vf_payload v))) (\<lambda>req. acme_new_order E R a req))"

definition own_order :: "verified \<Rightarrow> acme_order \<Rightarrow> bool" where
  "own_order v q = (case vf_account v of None \<Rightarrow> False | Some a \<Rightarrow> ao_account q = aa_id a)"

definition post_order :: "acme_lib \<Rightarrow> acme_site \<Rightarrow> acme_env \<Rightarrow> string \<Rightarrow> octet list \<Rightarrow> (acme_order \<times> acme_authz list) acme" where
  "post_order L H E i raw =
     bindS (verify_acme L H E (''/order/'' @ i) raw) (\<lambda>v.
     bindS (readP Malformed ''no such order'' (get_order i)) (\<lambda>q.
     if \<not> own_order v q then failP Unauthorized ''this order belongs to another account''
     else readS (\<lambda>d. Inr (q, authzs_by_order (ao_id q) d))))"

definition post_order_list :: "acme_lib \<Rightarrow> acme_site \<Rightarrow> acme_env \<Rightarrow> string \<Rightarrow> octet list \<Rightarrow> string list acme" where
  "post_order_list L H E i raw =
     bindS (verify_acme L H E (''/account/'' @ i @ ''/orders'') raw) (\<lambda>v.
     case vf_account v of
       None \<Rightarrow> failP Unauthorized ''this list belongs to another account''
     | Some a \<Rightarrow>
         if aa_id a \<noteq> i then failP Unauthorized ''this list belongs to another account''
         else readS (\<lambda>d. Inr (map (\<lambda>q. acme_url H (''/order/'' @ ao_id q)) (orders_by_account i 100 d))))"

definition own_authz :: "verified \<Rightarrow> acme_authz \<Rightarrow> bool" where
  "own_authz v z = (case vf_account v of None \<Rightarrow> False | Some a \<Rightarrow> az_account z = aa_id a)"

definition post_authorization ::
    "acme_lib \<Rightarrow> acme_site \<Rightarrow> acme_env \<Rightarrow> string \<Rightarrow> octet list \<Rightarrow> (acme_authz \<times> acme_challenge list) acme" where
  "post_authorization L H E i raw =
     bindS (verify_acme L H E (''/authz/'' @ i) raw) (\<lambda>v.
     bindS (readP Malformed ''no such authorization'' (get_authz i)) (\<lambda>z.
     if \<not> own_authz v z then failP Unauthorized ''this authorization belongs to another account''
     else readS (\<lambda>d. Inr (z, challenges_by_authz (az_id z) d))))"

text \<open>The validation of a challenge with the checks of \<open>AcmeWire\<close>: the key authorization and the outcome it asks for.\<close>

definition challenge_detail :: "challenge_problem \<Rightarrow> string" where
  "challenge_detail p = (case p of ChMalformed t \<Rightarrow> t | ChConnection t \<Rightarrow> t | ChIncorrect t \<Rightarrow> t | ChDns t \<Rightarrow> t)"

definition authorization_text :: "acme_lib \<Rightarrow> acme_account \<Rightarrow> string \<Rightarrow> string option" where
  "authorization_text L a token = (case al_jwk L (aa_jwk a) of
       None \<Rightarrow> None
     | Some k \<Rightarrow> (case key_authorization L token k of Inl _ \<Rightarrow> None | Inr t \<Rightarrow> Some t))"

definition challenge_outcome :: "acme_lib \<Rightarrow> validator \<Rightarrow> acme_account \<Rightarrow> acme_challenge \<Rightarrow> acme_authz \<Rightarrow> string option" where
  "challenge_outcome L V a c z = (case authorization_text L a (ch_token c) of
       None \<Rightarrow> None
     | Some t \<Rightarrow> (case validate_challenge L V (ch_type c) (az_identifier z) (ch_token c) t of
         Inl p \<Rightarrow> Some (challenge_detail p)
       | Inr _ \<Rightarrow> None))"

definition run_challenge :: "acme_lib \<Rightarrow> validator \<Rightarrow> acme_env \<Rightarrow> acme_account \<Rightarrow> string \<Rightarrow> acme_challenge acme" where
  "run_challenge L V E a i =
     bindS (readP Malformed ''no such challenge'' (get_challenge i)) (\<lambda>c.
     bindS (readP ServerInternal ''could not load the authorization'' (get_authz (ch_authz c))) (\<lambda>z.
     acme_validate_challenge E a i (authorization_text L a (ch_token c)) (challenge_outcome L V a c z)))"

definition post_challenge ::
    "acme_lib \<Rightarrow> validator \<Rightarrow> acme_site \<Rightarrow> acme_env \<Rightarrow> string \<Rightarrow> octet list \<Rightarrow> (acme_challenge \<times> acme_authz) acme" where
  "post_challenge L V H E i raw =
     bindS (verify_acme L H E (''/challenge/'' @ i) raw) (\<lambda>v.
     case vf_account v of
       None \<Rightarrow> failP Malformed ''this endpoint needs a kid''
     | Some a \<Rightarrow>
         bindS (readP Malformed ''no such challenge'' (get_challenge i)) (\<lambda>c.
         bindS (if trim_space (octets_text (vf_payload v)) \<noteq> [] then run_challenge L V E a i else returnS c) (\<lambda>c.
         bindS (readP Unauthorized ''this challenge belongs to another account'' (get_authz (ch_authz c))) (\<lambda>z.
         if az_account z \<noteq> aa_id a then failP Unauthorized ''this challenge belongs to another account''
         else returnS (c, z)))))"

definition padded_b64 :: "string \<Rightarrow> octet list option" where
  "padded_b64 s = b64url_decode (trim_right (\<lambda>c. c = CHR ''='') s)"

definition post_finalize ::
    "acme_lib \<Rightarrow> payloads \<Rightarrow> acme_site \<Rightarrow> acme_env \<Rightarrow> draws \<Rightarrow> string \<Rightarrow> octet list \<Rightarrow> (acme_order \<times> acme_authz list) acme" where
  "post_finalize L P H E R i raw =
     bindS (verify_acme L H E (''/order/'' @ i @ ''/finalize'') raw) (\<lambda>v.
     case vf_account v of
       None \<Rightarrow> failP Malformed ''finalize must be signed with a kid''
     | Some a \<Rightarrow>
         bindS (decoded (pl_csr P (vf_payload v))) (\<lambda>csr.
         bindS (acme_finalize E R a i (map_option (pl_der P) (padded_b64 csr))) (\<lambda>q.
         readS (\<lambda>d. Inr (q, authzs_by_order (ao_id q) d)))))"

definition post_certificate :: "acme_lib \<Rightarrow> acme_site \<Rightarrow> acme_env \<Rightarrow> string \<Rightarrow> octet list \<Rightarrow> pem acme" where
  "post_certificate L H E i raw =
     bindS (verify_acme L H E (''/cert/'' @ i) raw) (\<lambda>v.
     bindS (readP Malformed ''no certificate for that order'' (get_order i)) (\<lambda>q.
     if ao_certificate q = [] then failP Malformed ''no certificate for that order''
     else if \<not> own_order v q then failP Unauthorized ''this order belongs to another account''
     else bindS (readP ServerInternal ''could not load the certificate'' (load_bundle (base_env E) (ao_certificate q) False)) (\<lambda>(b, _).
       returnS (bundle_full_chain_pem b))))"

definition matches_certificate_key :: "acme_lib \<Rightarrow> payloads \<Rightarrow> wire_jwk \<Rightarrow> der \<Rightarrow> problem + bool" where
  "matches_certificate_key L P k der =
     bindE (map_err (\<lambda>_. Problem Malformed ''the certificate is not valid DER'') (parse_certificate_der der)) (\<lambda>cert.
     bindE (jws_problem BadPublicKey (jwk_public_key L k)) (\<lambda>key.
     case pl_same_key P (x_public_key cert) key of
       None \<Rightarrow> Inl (Problem BadPublicKey ''the certificate carries a key type that cannot be compared'')
     | Some same \<Rightarrow> Inr same))"

definition post_revoke_cert ::
    "acme_lib \<Rightarrow> payloads \<Rightarrow> acme_site \<Rightarrow> acme_env \<Rightarrow> draws \<Rightarrow> octet list \<Rightarrow> unit acme" where
  "post_revoke_cert L P H E R raw =
     bindS (verify_acme L H E ''/revoke-cert'' raw) (\<lambda>v.
     bindS (decoded (pl_revoke P (vf_payload v))) (\<lambda>req.
     case padded_b64 (rr_certificate req) of
       None \<Rightarrow> failP Malformed ''the certificate is not valid base64url DER''
     | Some bytes \<Rightarrow>
         let der = pl_der P bytes; reason = (case rr_reason req of None \<Rightarrow> 0 | Some r \<Rightarrow> r) in
         bindS (case (vf_account v, jh_jwk (vf_header v)) of
             (None, Some k) \<Rightarrow> bindS (liftE (matches_certificate_key L P k der)) (\<lambda>same.
               if same then returnS True else failP Unauthorized ''neither a registered account nor the certificate's own key'')
           | _ \<Rightarrow> returnS False) (\<lambda>by_key.
         acme_revoke E R (vf_account v) der reason by_key)))"

end
