(* ===== verification/WireGuarantees.thy ===== *)
theory WireGuarantees
  imports SrvAcme Samples
begin

text \<open>
  What the ACME endpoints guarantee of a request before they act on it: the encoding round trip,
  that an accepted request is fresh, addressed and signed by the key it names, that it cannot be
  replayed, that what an endpoint shows belongs to the signer, and what a passed challenge proves.
\<close>

section \<open>The encoding\<close>

lemma lax_strict: "b64_undigits ds = Some bs \<Longrightarrow> lax_undigits ds = Some bs"
  by (induction ds arbitrary: bs rule: b64_undigits.induct) (auto split: if_splits option.splits)

lemma decode_strict: "b64_decode_strict b64_url s = Some bs \<Longrightarrow> b64url_decode s = Some bs"
  by (auto simp: b64_decode_strict_def b64url_decode_def dest: lax_strict split: option.splits)

text \<open>What \<open>Base64URL\<close> encodes (nonces, tokens, thumbprints), the decoder reads back.\<close>

lemma b64url_roundtrip: "b64url_decode (b64url_encode bs) = Some bs"
  unfolding b64url_encode_def by (rule decode_strict [OF b64_roundtrip [OF alphabets(2)]])

section \<open>One account and its requests\<close>

definition wire_site :: acme_site where
  "wire_site = \<lparr>as_enabled = True, as_base_url = ''https://pki.lan/''\<rparr>"

definition wire_key_json :: wire_jwk where
  "wire_key_json = \<lparr>wk_kty = ''OKP'', wk_crv = ''Ed25519'', wk_x = b64url_encode (replicate 32 0), wk_y = [], wk_n = [], wk_e = []\<rparr>"

definition wire_header :: "string \<Rightarrow> jws_header" where
  "wire_header ep = \<lparr>jh_alg = ''EdDSA'', jh_nonce = ''n1'', jh_url = acme_url wire_site ep, jh_jwk = None,
     jh_kid = ''https://pki.lan/acme/account/acct-1''\<rparr>"

definition wire_jws :: jws where
  "wire_jws = \<lparr>js_protected = ''AA'', js_payload = ''e30'', js_signature = ''AA''\<rparr>"

text \<open>Every body is the same request, addressed to \<open>ep\<close>; every signature of the one key is good.\<close>

definition wire_lib :: "string \<Rightarrow> acme_lib" where
  "wire_lib ep = \<lparr>al_jws = (\<lambda>_. Some wire_jws), al_header = (\<lambda>_. Some (wire_header ep)),
     al_jwk = (\<lambda>_. Some wire_key_json), al_encode_jwk = (\<lambda>_. []), al_digest = (\<lambda>_ _. [1, 2, 3]), al_rsa = (\<lambda>_ _ _ _ _. False),
     al_ecdsa = (\<lambda>_ _ _ _ _. False), al_ed25519 = (\<lambda>_ _ _. True), al_hmac = (\<lambda>_ _. []), al_on_curve = (\<lambda>_ _. False)\<rparr>"

definition wire_env :: acme_env where
  "wire_env = \<lparr>se_parsers = sample_parsers, se_fingerprint = se_fingerprint sample_env, se_now = se_now sample_env, se_master = 1,
     cfg_key_algorithm = ''ed25519'', cfg_ca_validity = 3650, cfg_organization = ''Acme'', cfg_country = ''DE'', cfg_base_url = ''https://pki.lan'',
     cfg_crl_validity = 24 * hour, cfg_warn_days = 30, cfg_download_policy = ''once'', ac_authority = ''root'', ac_validity_days = 90,
     ac_require_eab = False, ac_http01 = True, ac_dns01 = True, ac_terms_url = [], ac_parse_time = (\<lambda>_. None)\<rparr>"

definition wire_account :: acme_account where
  "wire_account = \<lparr>aa_id = ''acct-1'', aa_thumbprint = ''t'', aa_jwk = ''{}'', aa_contact = [], aa_status = AcValid, aa_terms = True,
     aa_external = [], aa_last_used = None\<rparr>"

definition wire_nonce :: acme_nonce where
  "wire_nonce = \<lparr>nc_value = ''n1'', nc_issued = 0, nc_expires = se_now sample_env + 1\<rparr>"

definition wire_order :: acme_order where
  "wire_order = \<lparr>ao_id = ''o-1'', ao_created_at = 0, ao_account = ''acct-1'', ao_status = AcPending, ao_identifiers = [''www.lan''],
     ao_not_before = None, ao_not_after = None, ao_expires = 0, ao_certificate = [], ao_error = []\<rparr>"

definition wire_authz :: acme_authz where
  "wire_authz = \<lparr>az_id = ''z-1'', az_created_at = 0, az_order = ''o-1'', az_account = ''acct-1'', az_identifier = ''www.lan'',
     az_wildcard = False, az_status = AcPending, az_expires = 0\<rparr>"

definition wire_challenge :: acme_challenge where
  "wire_challenge = \<lparr>ch_id = ''c-1'', ch_created_at = 0, ch_authz = ''z-1'', ch_type = ''http-01'', ch_token = ''tok'', ch_status = AcPending,
     ch_validated = None, ch_error = [], ch_attempts = 0\<rparr>"

definition wire_db :: db where
  "wire_db = empty_db\<lparr>db_accounts := [wire_account], db_nonces := [wire_nonce], db_orders := [wire_order], db_authzs := [wire_authz],
     db_challenges := [wire_challenge]\<rparr>"

definition wire_verified :: "string \<Rightarrow> verified" where
  "wire_verified ep = \<lparr>vf_account = Some wire_account, vf_key = wire_key_json, vf_payload = [123, 125], vf_header = wire_header ep\<rparr>"

definition wire_spent :: db where
  "wire_spent = touch_account (se_now sample_env) ''acct-1'' (wire_db\<lparr>db_nonces := []\<rparr>)"

lemma wire_lib_simps [simp]:
  "al_jws (wire_lib ep) = (\<lambda>_. Some wire_jws)" "al_header (wire_lib ep) = (\<lambda>_. Some (wire_header ep))"
  "al_jwk (wire_lib ep) = (\<lambda>_. Some wire_key_json)" "al_ed25519 (wire_lib ep) = (\<lambda>_ _ _. True)"
  "al_digest (wire_lib ep) = (\<lambda>_ _. [1, 2, 3])"
  by (simp_all add: wire_lib_def)

lemma wire_record_simps [simp]:
  "js_protected wire_jws = ''AA''" "js_payload wire_jws = ''e30''" "js_signature wire_jws = ''AA''"
  "jh_alg (wire_header ep) = ''EdDSA''" "jh_nonce (wire_header ep) = ''n1''" "jh_url (wire_header ep) = acme_url wire_site ep"
  "jh_jwk (wire_header ep) = None" "jh_kid (wire_header ep) = ''https://pki.lan/acme/account/acct-1''"
  "aa_id wire_account = ''acct-1''" "aa_status wire_account = AcValid" "as_enabled wire_site" "se_now wire_env = se_now sample_env"
  "db_accounts (wire_db\<lparr>db_nonces := ns\<rparr>) = [wire_account]"
  by (simp_all add: wire_jws_def wire_header_def wire_account_def wire_site_def wire_env_def wire_db_def)

lemma wire_decodes: "b64url_decode ''AA'' = Some [0]" "b64url_decode ''e30'' = Some [123, 125]"
  "account_id_from_kid ''https://pki.lan/acme/account/acct-1'' = ''acct-1''"
  by code_simp+

lemma wire_key: "jwk_public_key (wire_lib ep) wire_key_json = Inr (Wire_Ed25519 (replicate 32 0))"
  by (simp add: jwk_public_key_def wire_key_json_def b64_part_def b64url_roundtrip)

lemma wire_accepted: "verify_acme (wire_lib ep) wire_site wire_env ep raw wire_db = (Inr (wire_verified ep), wire_spent)"
proof -
  have parsed: "parse_jws (wire_lib ep) bytes = Inr (wire_jws, wire_header ep, [123, 125])" for bytes
    by (simp add: parse_jws_def parse_jws_parts_def b64_part_def wire_decodes)
  have nonce: "spend_nonce wire_env ''n1'' wire_db = (Inr (), wire_db\<lparr>db_nonces := []\<rparr>)"
    by (simp add: spend_nonce_def spend_nonce_row_def nonce_live_def wire_db_def wire_nonce_def)
  have verified: "jws_verify (wire_lib ep) wire_jws (wire_header ep) (Wire_Ed25519 x) = Inr ()" for x
    by (simp add: jws_verify_def b64_part_def wire_decodes hash_for_def guardE_def)
  have account: "get_account ''acct-1'' (wire_db\<lparr>db_nonces := []\<rparr>) = Inr wire_account"
    by (simp add: get_account_def tbl_get_def)
  have "verify_signer (wire_lib ep) wire_env wire_jws (wire_header ep) [123, 125] (wire_db\<lparr>db_nonces := []\<rparr>) = (Inr (wire_verified ep), wire_spent)"
    by (simp add: verify_signer_def wire_decodes account bindS_def readP_def jws_problem_def wire_key verified wire_verified_def wire_spent_def)
  then show ?thesis
    by (simp add: verify_acme_def parsed jws_problem_def bindS_def nonce)
qed

section \<open>A verified request\<close>

text \<open>The signature of a request holds under a key: the primitive of the key's own type accepted it.\<close>

definition signature_holds :: "acme_lib \<Rightarrow> jws \<Rightarrow> string \<Rightarrow> wire_key \<Rightarrow> bool" where
  "signature_holds L j alg key \<longleftrightarrow> (\<exists>sig hash. b64url_decode (js_signature j) = Some sig \<and> hash_for alg = Inr hash \<and> (case key of
       Wire_RSA n e \<Rightarrow> alg \<in> set [''RS256'', ''RS384'', ''RS512''] \<and> al_rsa L n e hash (digest_of L hash (signing_input j)) sig
     | Wire_EC crv point \<Rightarrow> alg \<in> set [''ES256'', ''ES384'', ''ES512''] \<and>
         (let size = (curve_bits crv + 7) div 8 in length sig = 2 * size \<and>
           al_ecdsa L crv point (digest_of L hash (signing_input j)) (be_nat (take size sig)) (be_nat (drop size sig)))
     | Wire_Ed25519 x \<Rightarrow> alg = ''EdDSA'' \<and> al_ed25519 L x (signing_input j) sig))"

lemma b64_part_Inr [simp]: "b64_part what s = Inr bs \<longleftrightarrow> b64url_decode s = Some bs"
  by (simp add: b64_part_def split: option.splits)

lemma guardE_Inr [simp]: "guardE b e = Inr u \<longleftrightarrow> b"
  by (simp add: guardE_def)

lemma verify_holds: "jws_verify L j h key = Inr u \<Longrightarrow> signature_holds L j (jh_alg h) key"
  unfolding jws_verify_def signature_holds_def
  by (cases key) (auto simp: bindE_Inr_iff Let_def split: if_splits)

lemma jws_problem_Inr [simp]: "jws_problem k r = Inr x \<longleftrightarrow> r = Inr x"
  by (simp add: jws_problem_def)

lemma readP_Inr: "readP k t f d = (Inr x, d') \<longleftrightarrow> f d = Inr x \<and> d' = d"
  by (auto simp: readP_def)

lemma spent: "spend_nonce E v d = (Inr u, d') \<longleftrightarrow> v \<noteq> [] \<and> (\<exists>n \<in> set (db_nonces d). nonce_live (se_now E) v n) \<and>
    d' = db_nonces_update (filter (\<lambda>n. \<not> nonce_live (se_now E) v n)) d"
  by (auto simp: spend_nonce_def failP_def spend_nonce_row_def list_ex_iff split: if_splits)

lemma touch_nonces [simp]: "db_nonces (touch_account now i d) = db_nonces d"
  by (simp add: touch_account_def)

definition named_key :: "acme_lib \<Rightarrow> db \<Rightarrow> verified \<Rightarrow> bool" where
  "named_key L d v \<longleftrightarrow> (case vf_account v of
       None \<Rightarrow> jh_jwk (vf_header v) = Some (vf_key v)
     | Some a \<Rightarrow> jh_jwk (vf_header v) = None \<and> a \<in> set (db_accounts d) \<and> aa_id a = account_id_from_kid (jh_kid (vf_header v)) \<and>
         aa_status a \<noteq> AcDeactivated \<and> al_jwk L (aa_jwk a) = Some (vf_key v))"

lemma signer_steps:
  assumes "verify_signer L E j h payload d = (Inr v, d')"
  shows "vf_header v = h \<and> vf_payload v = payload \<and> db_nonces d' = db_nonces d \<and> named_key L d v \<and>
    (\<exists>key. jwk_public_key L (vf_key v) = Inr key \<and> jws_verify L j h key = Inr ())"
proof (cases "jh_jwk h")
  case (Some k)
  then show ?thesis using assms by (auto simp: verify_signer_def bindS_Inr_iff named_key_def)
next
  case None
  then obtain a k key where a: "get_account (account_id_from_kid (jh_kid h)) d = Inr a" "aa_status a \<noteq> AcDeactivated"
      "al_jwk L (aa_jwk a) = Some k" "jwk_public_key L k = Inr key" "jws_verify L j h key = Inr ()"
    and v: "v = \<lparr>vf_account = Some a, vf_key = k, vf_payload = payload, vf_header = h\<rparr>" "d' = touch_account (se_now E) (aa_id a) d"
    using assms by (auto simp: verify_signer_def Let_def failP_def bindS_Inr_iff readP_Inr split: if_splits option.splits)
  then show ?thesis using None by (auto simp: named_key_def get_account_def dest: tbl_get_InrD)
qed

lemma verify_steps:
  assumes "verify_acme L H E ep raw d = (Inr v, d')"
  shows "\<exists>j key. parse_jws L (take max_acme_body raw) = Inr (j, vf_header v, vf_payload v) \<and> jh_url (vf_header v) = acme_url H ep \<and>
    (\<exists>n \<in> set (db_nonces d). nonce_live (se_now E) (jh_nonce (vf_header v)) n) \<and>
    set (db_nonces d') = {n \<in> set (db_nonces d). \<not> nonce_live (se_now E) (jh_nonce (vf_header v)) n} \<and>
    jwk_public_key L (vf_key v) = Inr key \<and> jws_verify L j (vf_header v) key = Inr () \<and> named_key L d v"
proof -
  have "as_enabled H" using assms by (cases "as_enabled H") (simp_all add: verify_acme_def failP_def)
  then obtain x where x: "parse_jws L (take max_acme_body raw) = Inr x"
    and x2: "(case x of (j, h, payload) \<Rightarrow> bindS (spend_nonce E (jh_nonce h)) (\<lambda>_.
        if jh_url h \<noteq> acme_url H ep then failP Malformed (jh_url h) else verify_signer L E j h payload)) d = (Inr v, d')"
    using assms by (auto simp: verify_acme_def bindS_Inr_iff)
  obtain j h payload where xe: "x = (j, h, payload)" by (cases x) auto
  obtain e where e: "spend_nonce E (jh_nonce h) d = (Inr (), e)"
    and e2: "(if jh_url h \<noteq> acme_url H ep then failP Malformed (jh_url h) else verify_signer L E j h payload) e = (Inr v, d')"
    using x2 unfolding xe prod.case by (rule bindS_InrE) simp
  have url: "jh_url h = acme_url H ep" and s: "verify_signer L E j h payload e = (Inr v, d')"
    using e2 by (auto simp: failP_def split: if_splits)
  note st = signer_steps [OF s]
  have "db_accounts e = db_accounts d" using e by (auto simp: spent)
  then have "named_key L d v" using st by (auto simp: named_key_def split: option.splits)
  then show ?thesis using x url st e by (auto simp: xe spent)
qed

text \<open>C11: A request that passes the checks of the ACME endpoints was addressed to the endpoint it reached, spends a
  nonce that this server had issued and that had not expired, and carries a signature over its header
  and payload that the scheme of the key's own type accepts: the key in its header, or the stored key
  of the account it names, which exists and is not deactivated.  No header chooses another scheme
  (\<open>none\<close>, or a public key taken as an HMAC secret) and none names two keys.\<close>

theorem acme_requests_are_signed_and_fresh:
  assumes "verify_acme L H E ep raw d = (Inr v, d')"
  shows "\<exists>j key. parse_jws L (take max_acme_body raw) = Inr (j, vf_header v, vf_payload v) \<and>
    signature_holds L j (jh_alg (vf_header v)) key \<and> jwk_public_key L (vf_key v) = Inr key \<and> named_key L d v \<and>
    jh_url (vf_header v) = acme_url H ep \<and>
    (\<exists>n \<in> set (db_nonces d). nc_value n = jh_nonce (vf_header v) \<and> se_now E < nc_expires n \<and> n \<notin> set (db_nonces d'))"
proof -
  obtain j key where v: "parse_jws L (take max_acme_body raw) = Inr (j, vf_header v, vf_payload v)" "jh_url (vf_header v) = acme_url H ep"
    "\<exists>n \<in> set (db_nonces d). nonce_live (se_now E) (jh_nonce (vf_header v)) n"
    "set (db_nonces d') = {n \<in> set (db_nonces d). \<not> nonce_live (se_now E) (jh_nonce (vf_header v)) n}"
    "jwk_public_key L (vf_key v) = Inr key" "jws_verify L j (vf_header v) key = Inr ()" "named_key L d v"
    using verify_steps [OF assms] by blast
  moreover have "signature_holds L j (jh_alg (vf_header v)) key" by (rule verify_holds [OF v(6)])
  moreover have "\<exists>n \<in> set (db_nonces d). nc_value n = jh_nonce (vf_header v) \<and> se_now E < nc_expires n \<and> n \<notin> set (db_nonces d')"
    using v(3,4) by (auto simp: nonce_live_def)
  ultimately show ?thesis by blast
qed

theorem acme_requests_are_signed_and_fresh_witness:
  "\<exists>j key. signature_holds (wire_lib ''/new-order'') j ''EdDSA'' key \<and> jwk_public_key (wire_lib ''/new-order'') wire_key_json = Inr key \<and>
    wire_nonce \<in> set (db_nonces wire_db) \<and> wire_nonce \<notin> set (db_nonces wire_spent)"
  using acme_requests_are_signed_and_fresh [OF wire_accepted [of "''/new-order''" "[]"]]
  by (auto simp: wire_verified_def wire_spent_def wire_db_def)

text \<open>C10: An accepted request is never accepted again, by any endpoint: as long as the server does not draw its
  nonce a second time, a replay of the same bytes at any later time and in any later state fails.\<close>

theorem acme_requests_are_not_replayed:
  assumes "verify_acme L H E ep raw d = (Inr v, d')"
    "\<forall>n \<in> set (db_nonces later). nc_value n = jh_nonce (vf_header v) \<longrightarrow> n \<in> set (db_nonces d')" "se_now E \<le> se_now E'"
  shows "fst (verify_acme L H' E' ep' raw later) \<noteq> Inr w"
proof
  assume "fst (verify_acme L H' E' ep' raw later) = Inr w"
  then have w: "verify_acme L H' E' ep' raw later = (Inr w, snd (verify_acme L H' E' ep' raw later))" by (metis prod.collapse)
  obtain j k where v: "parse_jws L (take max_acme_body raw) = Inr (j, vf_header v, vf_payload v)"
    "set (db_nonces d') = {n \<in> set (db_nonces d). \<not> nonce_live (se_now E) (jh_nonce (vf_header v)) n}"
    using verify_steps [OF assms(1)] by blast
  obtain n where n: "n \<in> set (db_nonces later)" "nonce_live (se_now E') (jh_nonce (vf_header w)) n" "vf_header w = vf_header v"
    using verify_steps [OF w] v(1) by fastforce
  then have "n \<in> set (db_nonces d')" "nonce_live (se_now E) (jh_nonce (vf_header v)) n"
    using assms(2,3) by (auto simp: nonce_live_def)
  then show False using v(2) by simp
qed

theorem acme_requests_are_not_replayed_witness:
  "fst (verify_acme (wire_lib ''/new-order'') wire_site wire_env ''/new-order'' [] wire_db) = Inr (wire_verified ''/new-order'') \<and>
    (\<nexists>w. fst (verify_acme (wire_lib ''/new-order'') wire_site wire_env ''/new-order'' [] wire_spent) = Inr w)"
  using acme_requests_are_not_replayed [OF wire_accepted, of wire_spent "''/new-order''" wire_env] by (simp add: wire_accepted)

section \<open>Whose objects an endpoint shows\<close>

definition signed_for :: "acme_lib \<Rightarrow> acme_site \<Rightarrow> acme_env \<Rightarrow> string \<Rightarrow> octet list \<Rightarrow> db \<Rightarrow> acme_account \<Rightarrow> bool" where
  "signed_for L H E ep raw d a \<longleftrightarrow> (\<exists>v d'. verify_acme L H E ep raw d = (Inr v, d') \<and> vf_account v = Some a)"

lemma challenge_kept: "acme_validate_challenge E a i t r d = (Inr c, d') \<Longrightarrow> \<exists>z. get_authz (ch_authz c) d = Inr z \<and> az_account z = aa_id a"
proof -
  assume run: "acme_validate_challenge E a i t r d = (Inr c, d')"
  obtain c0 z where c0: "get_challenge i d = Inr c0" "get_authz (ch_authz c0) d = Inr z" "az_account z = aa_id a"
    using run by (auto simp: acme_validate_challenge_def bindS_Inr_iff readP_Inr failP_def split: if_splits)
  have "ch_authz c = ch_authz c0"
    using run c0 by (auto simp: acme_validate_challenge_def bindS_Inr_iff readP_Inr failP_def Let_def split: if_splits option.splits)
  then show ?thesis using c0 by auto
qed

text \<open>C12: The endpoints of orders, order lists, authorizations and certificates answer the account that owns the
  object: what they return belongs to the account whose key has signed the request for that very
  endpoint.\<close>

theorem acme_objects_are_the_signers:
  "(post_order L H E i raw d = (Inr (q, azs), d') \<longrightarrow>
      (\<exists>a. signed_for L H E (''/order/'' @ i) raw d a \<and> ao_id q = i \<and> ao_account q = aa_id a \<and> (\<forall>z \<in> set azs. az_order z = i))) \<and>
   (post_order_list L H E i raw d = (Inr urls, d') \<longrightarrow>
      (\<exists>a. signed_for L H E (''/account/'' @ i @ ''/orders'') raw d a \<and> aa_id a = i)) \<and>
   (post_authorization L H E i raw d = (Inr (z, cs), d') \<longrightarrow>
      (\<exists>a. signed_for L H E (''/authz/'' @ i) raw d a \<and> az_id z = i \<and> az_account z = aa_id a)) \<and>
   (post_certificate L H E i raw d = (Inr chain, d') \<longrightarrow>
      (\<exists>a q e. signed_for L H E (''/cert/'' @ i) raw d a \<and> get_order i e = Inr q \<and> ao_account q = aa_id a \<and>
        (\<exists>b c. load_bundle (base_env E) (ao_certificate q) False e = Inr (b, c) \<and> chain = bundle_full_chain_pem b)))"
proof (intro conjI impI)
  assume "post_order L H E i raw d = (Inr (q, azs), d')"
  then show "\<exists>a. signed_for L H E (''/order/'' @ i) raw d a \<and> ao_id q = i \<and> ao_account q = aa_id a \<and> (\<forall>z \<in> set azs. az_order z = i)"
    by (auto simp: post_order_def bindS_Inr_iff readP_Inr failP_def own_order_def signed_for_def get_order_def authzs_by_order_def
        split: if_splits option.splits dest!: tbl_get_InrD)
next
  assume "post_order_list L H E i raw d = (Inr urls, d')"
  then show "\<exists>a. signed_for L H E (''/account/'' @ i @ ''/orders'') raw d a \<and> aa_id a = i"
    by (auto simp: post_order_list_def bindS_Inr_iff failP_def signed_for_def split: if_splits option.splits)
next
  assume "post_authorization L H E i raw d = (Inr (z, cs), d')"
  then show "\<exists>a. signed_for L H E (''/authz/'' @ i) raw d a \<and> az_id z = i \<and> az_account z = aa_id a"
    by (auto simp: post_authorization_def bindS_Inr_iff readP_Inr failP_def own_authz_def signed_for_def get_authz_def
        split: if_splits option.splits dest!: tbl_get_InrD)
next
  assume "post_certificate L H E i raw d = (Inr chain, d')"
  then show "\<exists>a q e. signed_for L H E (''/cert/'' @ i) raw d a \<and> get_order i e = Inr q \<and> ao_account q = aa_id a \<and>
        (\<exists>b c. load_bundle (base_env E) (ao_certificate q) False e = Inr (b, c) \<and> chain = bundle_full_chain_pem b)"
    by (fastforce simp: post_certificate_def bindS_Inr_iff readP_Inr failP_def own_order_def signed_for_def
        split: if_splits option.splits)
qed

theorem acme_objects_are_the_signers_witness:
  "\<exists>d'. post_order (wire_lib ''/order/o-1'') wire_site wire_env ''o-1'' [] wire_db = (Inr (wire_order, [wire_authz]), d') \<and>
    (\<exists>a. signed_for (wire_lib ''/order/o-1'') wire_site wire_env ''/order/o-1'' [] wire_db a \<and> ao_account wire_order = aa_id a)"
proof -
  have r: "post_order (wire_lib ''/order/o-1'') wire_site wire_env ''o-1'' [] wire_db = (Inr (wire_order, [wire_authz]), wire_spent)"
    using wire_accepted [of "''/order/o-1''" "[]"]
    by (simp add: post_order_def bindS_def readP_def get_order_def tbl_get_def wire_spent_def touch_account_def wire_db_def wire_order_def
        own_order_def wire_verified_def authzs_by_order_def wire_authz_def)
  then show ?thesis using acme_objects_are_the_signers [THEN conjunct1, THEN mp, OF r] by auto
qed

section \<open>What a passed challenge proves\<close>

lemma challenge_passes:
  assumes "run_challenge L V E a i d = (Inr c', d')" "get_challenge i d = Inr c" "\<not> SvcAcme.settled c" "ch_status c' = AcValid"
  shows "\<exists>z k t. get_authz (ch_authz c) d = Inr z \<and> az_account z = aa_id a \<and> al_jwk L (aa_jwk a) = Some k \<and> thumbprint L k = Inr t \<and>
    validate_challenge L V (ch_type c) (az_identifier z) (ch_token c) (ch_token c @ ''.'' @ t) = Inr ()"
proof -
  obtain z where z: "get_authz (ch_authz c) d = Inr z"
    and run: "acme_validate_challenge E a i (authorization_text L a (ch_token c)) (challenge_outcome L V a c z) d = (Inr c', d')"
    using assms(1,2) by (auto simp: run_challenge_def bindS_Inr_iff readP_Inr)
  have own: "az_account z = aa_id a" using run assms(2) z
    by (auto simp: acme_validate_challenge_def bindS_Inr_iff readP_Inr failP_def split: if_splits)
  obtain t where t: "authorization_text L a (ch_token c) = Some t"
    using run assms(2,3) z own by (auto simp: acme_validate_challenge_def bindS_Inr_iff readP_Inr failP_def split: if_splits option.splits)
  have "challenge_outcome L V a c z = None"
  proof (rule ccontr)
    assume "challenge_outcome L V a c z \<noteq> None"
    then show False using run assms(2-4) z own t
      by (auto simp: acme_validate_challenge_def bindS_Inr_iff readP_Inr failP_def Let_def split: if_splits)
  qed
  then have "validate_challenge L V (ch_type c) (az_identifier z) (ch_token c) t = Inr ()"
    using t by (auto simp: challenge_outcome_def split: sum.splits)
  then show ?thesis using z own t
    by (auto simp: authorization_text_def key_authorization_def bindE_Inr_iff split: option.splits sum.splits)
qed

text \<open>C9: A challenge becomes valid only when the name has answered for the account: the server fetched, from the
  name itself over HTTP, a body that is the token of the challenge, a dot and the thumbprint of the
  account's key (and no wildcard is proved this way), or it found among the TXT records under
  \<open>_acme-challenge\<close> the digest of that text.\<close>

theorem challenges_prove_control:
  assumes "run_challenge L V E a i d = (Inr c', d')" "get_challenge i d = Inr c" "\<not> SvcAcme.settled c" "ch_status c' = AcValid"
  shows "\<exists>z k t. get_authz (ch_authz c) d = Inr z \<and> az_account z = aa_id a \<and> al_jwk L (aa_jwk a) = Some k \<and> thumbprint L k = Inr t \<and>
    (ch_type c = ''http-01'' \<and> \<not> prefix ''*.'' (az_identifier z) \<and>
       (\<exists>status body. va_fetch V (http01_url V (az_identifier z) (ch_token c)) (az_identifier z) = Inr (200, status, Inr body) \<and>
          trim_space (take max_challenge_body body) = ch_token c @ ''.'' @ t) \<or>
     ch_type c = ''dns-01'' \<and>
       (\<exists>records. va_txt V (''_acme-challenge.'' @ trim_prefix ''*.'' (az_identifier z)) = Inr records \<and>
          (\<exists>r \<in> set records. trim_space r = sha256_b64 L (ch_token c @ ''.'' @ t))))"
proof -
  obtain z k t where z: "get_authz (ch_authz c) d = Inr z" "az_account z = aa_id a" "al_jwk L (aa_jwk a) = Some k" "thumbprint L k = Inr t"
    and v: "validate_challenge L V (ch_type c) (az_identifier z) (ch_token c) (ch_token c @ ''.'' @ t) = Inr ()"
    using challenge_passes [OF assms] by blast
  have "ch_type c = ''http-01'' \<and> validate_http01 V (az_identifier z) (ch_token c) (ch_token c @ ''.'' @ t) = Inr () \<or>
      ch_type c = ''dns-01'' \<and> validate_dns01 L V (az_identifier z) (ch_token c @ ''.'' @ t) = Inr ()"
    using v by (simp add: validate_challenge_def split: if_splits)
  then show ?thesis
  proof
    assume h: "ch_type c = ''http-01'' \<and> validate_http01 V (az_identifier z) (ch_token c) (ch_token c @ ''.'' @ t) = Inr ()"
    then have "\<not> prefix ''*.'' (az_identifier z) \<and>
       (\<exists>status body. va_fetch V (http01_url V (az_identifier z) (ch_token c)) (az_identifier z) = Inr (200, status, Inr body) \<and>
          trim_space (take max_challenge_body body) = ch_token c @ ''.'' @ t)"
      by (auto simp: validate_http01_def Let_def split: if_splits sum.splits prod.splits)
    then show ?thesis using z h by blast
  next
    assume h: "ch_type c = ''dns-01'' \<and> validate_dns01 L V (az_identifier z) (ch_token c @ ''.'' @ t) = Inr ()"
    then have "\<exists>records. va_txt V (''_acme-challenge.'' @ trim_prefix ''*.'' (az_identifier z)) = Inr records \<and>
          (\<exists>r \<in> set records. trim_space r = sha256_b64 L (ch_token c @ ''.'' @ t))"
      by (auto simp: validate_dns01_def dns_record_value_def list_ex_iff Let_def split: if_splits sum.splits)
    then show ?thesis using z h by blast
  qed
qed

definition wire_validator :: validator where
  "wire_validator = \<lparr>va_port = 80, va_url_ok = (\<lambda>_. True), va_fetch = (\<lambda>_ _. Inr (200, ''200 OK'', Inr (''tok.AQID'' @ [CHR 0x0A]))),
     va_txt = (\<lambda>_. Inl ''no such host'')\<rparr>"

lemma wire_thumbprint: "thumbprint (wire_lib ep) wire_key_json = Inr ''AQID''"
proof -
  have "b64url_encode [1, 2, 3] = ''AQID''" by code_simp
  then show ?thesis by (simp add: thumbprint_def jwk_canonical_def wire_key_json_def sha256_b64_def)
qed

lemma wire_body: "trim_space (take max_challenge_body (''tok.AQID'' @ [CHR 0x0A])) = ''tok.AQID''"
  by (simp add: max_challenge_body_def trim_space_def trim_chars_def trim_left_def trim_right_def is_space_def)

theorem challenges_prove_control_witness:
  "\<exists>c' d'. run_challenge (wire_lib []) wire_validator wire_env wire_account ''c-1'' wire_db = (Inr c', d') \<and> ch_status c' = AcValid \<and>
    (\<exists>status body. va_fetch wire_validator (http01_url wire_validator ''www.lan'' ''tok'') ''www.lan'' = Inr (200, status, Inr body))"
proof -
  have c: "get_challenge ''c-1'' wire_db = Inr wire_challenge" "\<not> SvcAcme.settled wire_challenge"
    by (simp_all add: get_challenge_def tbl_get_def wire_db_def wire_challenge_def SvcAcme.settled_def)
  have z: "get_authz ''z-1'' wire_db = Inr wire_authz" by (simp add: get_authz_def tbl_get_def wire_db_def wire_authz_def)
  have t: "authorization_text (wire_lib []) wire_account ''tok'' = Some ''tok.AQID''"
    by (simp add: authorization_text_def key_authorization_def wire_thumbprint)
  have out: "challenge_outcome (wire_lib []) wire_validator wire_account wire_challenge wire_authz = None"
    using wire_body by (simp add: challenge_outcome_def wire_challenge_def t validate_challenge_def validate_http01_def wire_authz_def wire_validator_def Let_def)
  have "\<exists>c' d'. run_challenge (wire_lib []) wire_validator wire_env wire_account ''c-1'' wire_db = (Inr c', d') \<and> ch_status c' = AcValid"
    using c z t out
    by (simp add: run_challenge_def bindS_def readP_def wire_challenge_def wire_authz_def acme_validate_challenge_def SvcAcme.settled_def
        max_challenge_attempts_def Let_def ignoreS_def update_challenge_def update_authz_def repo_save_def as_problem_def map_errS_def
        tbl_put_def tbl_has_def wire_db_def refresh_order_status_def get_order_def tbl_get_def authzs_by_order_def wire_order_def update_order_def
        split: prod.splits)
  then obtain c' d' where r: "run_challenge (wire_lib []) wire_validator wire_env wire_account ''c-1'' wire_db = (Inr c', d')" "ch_status c' = AcValid"
    by blast
  show ?thesis using challenges_prove_control [OF r(1) c r(2)] r z by (auto simp: wire_challenge_def wire_authz_def)
qed

section \<open>Keys and names that are not what they seem\<close>

text \<open>The lower bound on an RSA account key counts bytes, leading zeros included: the modulus 15 passes for 2048 bits.\<close>

lemma be_nat_zeros: "be_nat (replicate n 0 @ bs) = be_nat bs"
  by (induction n) (simp_all add: be_nat_def)

lemma small_modulus_is_accepted:
  "jwk_public_key L \<lparr>wk_kty = ''RSA'', wk_crv = [], wk_x = [], wk_y = [], wk_n = b64url_encode (replicate 255 0 @ [15]), wk_e = b64url_encode [3]\<rparr> =
   Inr (Wire_RSA 15 3)"
  by (simp add: jwk_public_key_def b64url_roundtrip be_nat_zeros) (simp add: be_nat_def)

text \<open>
  The thumbprint is taken of the text of a JWK, and one key has many texts: the decoder skips line
  breaks, so a key with a line feed in its coordinate is the same key with another thumbprint
  input, and can register a second account.
\<close>

lemma line_break_is_skipped: "b64url_decode (s @ [CHR 0x0A]) = b64url_decode s"
  by (simp add: b64url_decode_def)

lemma quote_inj: "go_quote s = go_quote t \<Longrightarrow> length (concat (map quoted_char s)) = length (concat (map quoted_char t))"
  by (simp add: go_quote_def)

lemma one_key_two_thumbprint_inputs:
  assumes "wk_kty k = ''OKP''"
  shows "jwk_public_key L (k\<lparr>wk_x := wk_x k @ [CHR 0x0A]\<rparr>) = jwk_public_key L k"
    and "jwk_canonical (k\<lparr>wk_x := wk_x k @ [CHR 0x0A]\<rparr>) \<noteq> jwk_canonical k"
proof -
  show "jwk_public_key L (k\<lparr>wk_x := wk_x k @ [CHR 0x0A]\<rparr>) = jwk_public_key L k"
    using assms by (simp add: jwk_public_key_def b64_part_def line_break_is_skipped)
  have "length (go_quote (wk_x k @ [CHR 0x0A])) \<noteq> length (go_quote (wk_x k))"
    by (simp add: go_quote_def quoted_char_def)
  then show "jwk_canonical (k\<lparr>wk_x := wk_x k @ [CHR 0x0A]\<rparr>) \<noteq> jwk_canonical k"
    using assms by (auto simp: jwk_canonical_def member_def)
qed

text \<open>The names of an order need not be names: under an authority that is constrained to \<open>lan\<close>, an order for
  \<open>127.0.0.1:9000/x?.lan\<close> passes the checks of \<open>checkACMEIdentifier\<close>, and its http-01 challenge makes
  the server fetch that path of its own port 9000.\<close>

theorem identifiers_reach_internal_services:
  "order_name wire_env wire_account db1 \<lparr>idn_type = ''dns'', idn_value = ''127.0.0.1:9000/x?.lan''\<rparr> = Inr ''127.0.0.1:9000/x?.lan'' \<and>
   http01_url wire_validator ''127.0.0.1:9000/x?.lan'' ''tok'' = ''http://127.0.0.1:9000/x?.lan/.well-known/acme-challenge/tok''"
proof -
  let ?name = "''127.0.0.1:9000/x?.lan''"
  have "to_lower (trim_space ?name) = ?name" "parse_ip (trim_prefix ''*.'' ?name) = None" "count_char CHR ''*'' ?name = 0"
    "permits_dns (no_constraints\<lparr>permitted_dns := [''lan'']\<rparr>) ?name" "\<not> nc_is_zero (no_constraints\<lparr>permitted_dns := [''lan'']\<rparr>)"
    by code_simp+
  moreover have "acme_authority wire_env db1 = Inr root_row"
    by (simp add: acme_authority_def wire_env_def resolve_authority_def get_authority_def get_authority_by_slug_def tbl_get_def)
  ultimately show ?thesis
    by (simp add: order_name_def check_acme_identifier_def binding_allows_def wire_account_def http01_url_def wire_validator_def Let_def)
qed

end
