(* ===== verification/Notify.thy ===== *)
theory Notify
  imports Deploy "HOL-Library.List_Lexorder" "HOL-Library.Char_ord"
begin

text \<open>
  \<open>internal/notify/notify.go\<close>: the channels a notification goes through, built from settings, the
  texts they send, and what a delivery reports.  The far ends are outside the repository:
  \<open>couriers\<close> answers the HTTP requests, of which it gets the structure that the code writes as
  JSON, and the mail server's side of an SMTP dialogue.  What \<open>net/smtp\<close> refuses by itself is
  part of the model: a password over a connection that is not encrypted, and an address with a
  line break.
\<close>

section \<open>Events\<close>

definition event_expiring :: string where "event_expiring = ''certificate.expiring''"
definition event_expired :: string where "event_expired = ''certificate.expired''"
definition event_renewed :: string where "event_renewed = ''certificate.renewed''"
definition event_authority_expiring :: string where "event_authority_expiring = ''authority.expiring''"
definition event_renewal_failed :: string where "event_renewal_failed = ''renewal.failed''"
definition event_test :: string where "event_test = ''test''"

definition event_names :: "string list" where
  "event_names = [''certificate.issued'', event_expiring, event_expired, event_renewed, ''certificate.revoked'',
     event_authority_expiring, event_renewal_failed]"

text \<open>\<open>fmt.Sprint\<close> of a value of an event; a map comes in the order of its keys.\<close>

fun show_value :: "json \<Rightarrow> string" where
  "show_value JNull = ''<nil>''"
| "show_value (JBool b) = (if b then ''true'' else ''false'')"
| "show_value (JInt i) = dec_int i"
| "show_value (JFloat s) = s"
| "show_value (JStr s) = s"
| "show_value (JArr vs) = ''['' @ join_with '' '' (map show_value vs) @ '']''"
| "show_value (JObj fs) = ''map['' @ join_with '' '' (map (\<lambda>(k, s). k @ '':'' @ s) (sort_key fst (map (\<lambda>(k, v). (k, show_value v)) fs))) @ '']''"

section \<open>Sorting the keys\<close>

text \<open>The inner loop moves one key down while it is smaller than the key before it.\<close>

fun sift_down :: "nat \<Rightarrow> string list \<Rightarrow> string list" where
  "sift_down 0 keys = keys"
| "sift_down (Suc j) keys = (if keys ! Suc j < keys ! j
     then sift_down j (keys[Suc j := keys ! j, j := keys ! Suc j]) else keys)"

definition sorted_keys :: "(string \<times> 'v) list \<Rightarrow> string list" where
  "sorted_keys m = (let keys = map fst m in fold sift_down [1 ..< length keys] keys)"

definition event_value :: "notify_event \<Rightarrow> string \<Rightarrow> string" where
  "event_value ev k = (case map_of (ev_data ev) k of None \<Rightarrow> ''<nil>'' | Some v \<Rightarrow> show_value v)"

section \<open>Channels\<close>

record webhook_channel =
  wh_url :: string
  wh_secret :: string

record slack_channel =
  sl_url :: string
  sl_channel :: string
  sl_username :: string

record telegram_channel =
  tg_token :: string
  tg_chat :: string
  tg_thread :: string
  tg_silent :: bool
  tg_base :: string

record smtp_channel =
  sm_host :: string
  sm_port :: int
  sm_username :: string
  sm_password :: string
  sm_from :: string
  sm_to :: "string list"
  sm_tls :: string
  sm_insecure :: bool

datatype notifier = WebhookChannel webhook_channel | SlackChannel slack_channel | TelegramChannel telegram_channel | SmtpChannel smtp_channel

definition notifier_channel :: "notifier \<Rightarrow> string" where
  "notifier_channel n = (case n of WebhookChannel _ \<Rightarrow> ''webhook'' | SlackChannel _ \<Rightarrow> ''slack''
     | TelegramChannel _ \<Rightarrow> ''telegram'' | SmtpChannel _ \<Rightarrow> ''smtp'')"

definition split_list :: "string \<Rightarrow> string list" where
  "split_list raw = filter (\<lambda>p. p \<noteq> []) (map trim_space
     (fields_func (\<lambda>c. c = CHR '','' \<or> c = CHR '';'' \<or> c = CHR '' '' \<or> c = CHR 0x0A) [] raw))"

definition build_telegram :: "(string \<times> string) list \<Rightarrow> string + notifier" where
  "build_telegram cfg =
     (let token = first_non_empty [setting_of cfg ''bot_token'', setting_of cfg ''token''];
          chat = first_non_empty [setting_of cfg ''chat_id'', setting_of cfg ''chat'']
      in if token = [] \<or> chat = [] then Inl ''notify: telegram bot token and chat id are required''
         else Inr (TelegramChannel \<lparr>tg_token = token, tg_chat = chat,
           tg_thread = first_non_empty [setting_of cfg ''message_thread_id'', setting_of cfg ''thread_id''],
           tg_silent = (parse_bool (setting_of cfg ''silent'') = Some True), tg_base = setting_of cfg ''api_base_url''\<rparr>))"

definition build_notifier :: "string \<Rightarrow> (string \<times> string) list \<Rightarrow> string + notifier" where
  "build_notifier kind cfg =
     (if kind = ''webhook'' then Inr (WebhookChannel \<lparr>wh_url = setting_of cfg ''url'', wh_secret = setting_of cfg ''secret''\<rparr>)
      else if kind = ''slack'' then
        Inr (SlackChannel \<lparr>sl_url = first_non_empty [setting_of cfg ''webhook_url'', setting_of cfg ''url''],
          sl_channel = setting_of cfg ''channel'', sl_username = first_non_empty [setting_of cfg ''username'', ''certio'']\<rparr>)
      else if kind = ''telegram'' then build_telegram cfg
      else if kind = ''smtp'' then
        Inr (SmtpChannel \<lparr>sm_host = setting_of cfg ''host'', sm_port = atoi_or_zero (setting_of cfg ''port''),
          sm_username = setting_of cfg ''username'', sm_password = setting_of cfg ''password'', sm_from = setting_of cfg ''from'',
          sm_to = split_list (setting_of cfg ''to''), sm_tls = first_non_empty [setting_of cfg ''tls'', ''starttls''],
          sm_insecure = (parse_bool (setting_of cfg ''insecure_skip_verify'') = Some True)\<rparr>)
      else Inl (''notify: unknown channel '' @ go_quote kind @ '' (want webhook, smtp, slack or telegram)''))"

section \<open>Texts\<close>

definition severity_emoji :: "string \<Rightarrow> string" where
  "severity_emoji severity =
     (if severity \<in> set [''critical'', ''expired''] then [CHR 0xF0, CHR 0x9F, CHR 0x94, CHR 0xB4]
      else if severity \<in> set [''warning'', ''expiring''] then [CHR 0xF0, CHR 0x9F, CHR 0x9F, CHR 0xA0]
      else if severity = ''success'' then [CHR 0xF0, CHR 0x9F, CHR 0x9F, CHR 0xA2]
      else [CHR 0xF0, CHR 0x9F, CHR 0x94, CHR 0xB5])"

definition escape_char :: "char \<Rightarrow> string" where
  "escape_char c =
     (if c = CHR ''&'' then ''&amp;'' else if c = CHR 0x27 then ''&#39;'' else if c = CHR ''<'' then ''&lt;''
      else if c = CHR ''>'' then ''&gt;'' else if c = CHR 0x22 then ''&#34;'' else [c])"

definition html_escape :: "string \<Rightarrow> string" where
  "html_escape s = concat (map escape_char s)"

text \<open>The length of the UTF-8 sequence a text starts with, 0 when it starts with none.\<close>

definition tail_byte :: "nat \<Rightarrow> nat \<Rightarrow> char \<Rightarrow> bool" where
  "tail_byte lo hi c = (lo \<le> ord c \<and> ord c \<le> hi)"

definition utf8_size :: "string \<Rightarrow> nat" where
  "utf8_size s = (case s of [] \<Rightarrow> 0
   | c # r \<Rightarrow> (let n = ord c; second = (\<lambda>lo hi. r \<noteq> [] \<and> tail_byte lo hi (hd r));
                  more = (\<lambda>k. k < length r \<and> tail_byte 128 191 (r ! k))
     in if n < 128 then 1
        else if 194 \<le> n \<and> n \<le> 223 then (if second 128 191 then 2 else 0)
        else if 224 \<le> n \<and> n \<le> 239 then
          (if second (if n = 224 then 160 else 128) (if n = 237 then 159 else 191) \<and> more 1 then 3 else 0)
        else if 240 \<le> n \<and> n \<le> 244 then
          (if second (if n = 240 then 144 else 128) (if n = 244 then 143 else 191) \<and> more 1 \<and> more 2 then 4 else 0)
        else 0))"

text \<open>\<open>strings.ToValidUTF8(s, "")\<close>.\<close>

function to_valid_utf8 :: "string \<Rightarrow> string" where
  "to_valid_utf8 [] = []"
| "to_valid_utf8 (c # s) = (let n = utf8_size (c # s) in
     if n = 0 then to_valid_utf8 s else take n (c # s) @ to_valid_utf8 (drop n (c # s)))"
  by pat_completeness auto
termination by (relation "measure length") auto

text \<open>The part of a text before the last \<open><\<close>, when no \<open>>\<close> comes after it.\<close>

definition last_index :: "char \<Rightarrow> string \<Rightarrow> int" where
  "last_index c s = (if c \<in> set s then int (length s) - 1 - int (length (takeWhile (\<lambda>x. x \<noteq> c) (rev s))) else -1)"

definition drop_open_tag :: "string \<Rightarrow> string" where
  "drop_open_tag s = (let cut = last_index CHR ''<'' s in if last_index CHR ''>'' s < cut then take (nat cut) s else s)"

definition telegram_max_text :: nat where "telegram_max_text = 4096"

definition telegram_details :: "notify_event \<Rightarrow> string" where
  "telegram_details ev = (if ev_data ev = [] then []
     else nl @ concat (map (\<lambda>k. nl @ bullet @ '' <b>'' @ html_escape k @ ''</b>: <code>'' @ html_escape (event_value ev k) @ ''</code>'')
       (sorted_keys (ev_data ev))))"

definition telegram_body :: "notify_event \<Rightarrow> string" where
  "telegram_body ev = severity_emoji (ev_severity ev) @ '' <b>'' @ html_escape (ev_title ev) @ ''</b>'' @ nl @ nl @
     html_escape (ev_message ev) @ telegram_details ev @
     nl @ nl @ ''<i>certio '' @ middle_dot @ '' '' @ html_escape (ev_type ev) @ '' '' @ middle_dot @ '' '' @ rfc3339 (ev_timestamp ev) @ ''</i>''"

definition telegram_text :: "notify_event \<Rightarrow> string" where
  "telegram_text ev = (let text = telegram_body ev in
     if telegram_max_text < length text
     then drop_open_tag (to_valid_utf8 (take (telegram_max_text - length ellipsis) text)) @ ellipsis
     else text)"

definition crlf :: string where "crlf = [CHR 0x0D, CHR 0x0A]"

definition build_message :: "string \<Rightarrow> string list \<Rightarrow> notify_event \<Rightarrow> string" where
  "build_message sender to ev =
     concat (map (\<lambda>l. l @ crlf)
       ([''From: '' @ sender, ''To: '' @ join_with '', '' to, ''Subject: [certio] '' @ ev_title ev,
         ''Date: '' @ rfc1123z (ev_timestamp ev), ''MIME-Version: 1.0'', ''Content-Type: text/plain; charset=utf-8'',
         ''X-Certio-Event: '' @ ev_type ev, [], ev_message ev] @
        (if ev_data ev = [] then [] else [[], ''Details'', ''-------''] @
           map (\<lambda>k. ''  '' @ pad_right 20 (k @ '':'') @ '' '' @ event_value ev k) (sorted_keys (ev_data ev))) @
        [[], ''-- '', ''Sent by Certio'']))"

section \<open>The far ends\<close>

record slack_payload =
  sp_text :: string
  sp_header :: string
  sp_section :: string
  sp_context :: string
  sp_username :: "string option"
  sp_channel :: "string option"

record telegram_payload =
  tp_chat :: string
  tp_text :: string
  tp_thread :: "string option"
  tp_silent :: bool

text \<open>What the Bot API answered: success by the status code, the status line, the body, and the fields \<open>ok\<close> and \<open>description\<close> of the body.\<close>

record telegram_answer =
  ta_success :: bool
  ta_status :: string
  ta_body :: string
  ta_ok :: bool
  ta_description :: string

text \<open>One step of a mail delivery: the connection, the greeting, and what the client sends.\<close>

datatype smtp_step = Dial string bool | Greeting | StartTls | PlainAuth string string | MailFrom string | RcptTo string | Data | Body string | EndData

record couriers =
  co_request :: "string \<Rightarrow> string option"
  co_webhook :: "webhook_channel \<Rightarrow> notify_event \<Rightarrow> http_answer"
  co_slack :: "slack_channel \<Rightarrow> slack_payload \<Rightarrow> http_answer"
  co_telegram :: "string \<Rightarrow> telegram_payload \<Rightarrow> string + telegram_answer"
  co_starttls :: "string \<Rightarrow> bool"
  co_smtp :: "smtp_channel \<Rightarrow> smtp_step list \<Rightarrow> smtp_step \<Rightarrow> string option"

section \<open>Sending\<close>

definition send_webhook :: "couriers \<Rightarrow> webhook_channel \<Rightarrow> notify_event \<Rightarrow> string + unit" where
  "send_webhook C w ev =
     (if wh_url w = [] then Inl ''notify: webhook url is not configured''
      else (case co_request C (wh_url w) of Some e \<Rightarrow> Inl (''notify: build webhook request: '' @ e)
        | None \<Rightarrow> (case co_webhook C w ev of
            Inl e \<Rightarrow> Inl (''notify: deliver webhook: '' @ e)
          | Inr (code, status, body) \<Rightarrow> if 300 \<le> code
              then Inl (''notify: webhook returned '' @ status @ '': '' @ trim_space (take 512 body)) else Inr ())))"

definition slack_message :: "slack_channel \<Rightarrow> notify_event \<Rightarrow> slack_payload" where
  "slack_message s ev = \<lparr>sp_text = ev_title ev, sp_header = severity_emoji (ev_severity ev) @ '' '' @ ev_title ev,
     sp_section = ev_message ev,
     sp_context = ''*certio* '' @ middle_dot @ '' '' @ ev_type ev @ '' '' @ middle_dot @ '' '' @ rfc3339 (ev_timestamp ev),
     sp_username = (if sl_username s \<noteq> [] then Some (sl_username s) else None),
     sp_channel = (if sl_channel s \<noteq> [] then Some (sl_channel s) else None)\<rparr>"

definition send_slack :: "couriers \<Rightarrow> slack_channel \<Rightarrow> notify_event \<Rightarrow> string + unit" where
  "send_slack C s ev =
     (if sl_url s = [] then Inl ''notify: slack webhook url is not configured''
      else (case co_request C (sl_url s) of Some e \<Rightarrow> Inl (''notify: build slack request: '' @ e)
        | None \<Rightarrow> (case co_slack C s (slack_message s ev) of
            Inl e \<Rightarrow> Inl (''notify: deliver slack message: '' @ e)
          | Inr (code, status, body) \<Rightarrow> if 300 \<le> code
              then Inl (''notify: slack returned '' @ status @ '': '' @ trim_space (take 512 body)) else Inr ())))"

definition telegram_api :: string where "telegram_api = ''https://api.telegram.org''"

definition send_telegram :: "couriers \<Rightarrow> telegram_channel \<Rightarrow> notify_event \<Rightarrow> string + unit" where
  "send_telegram C t ev =
     (if tg_token t = [] \<or> tg_chat t = [] then Inl ''notify: telegram bot token and chat id are required''
      else
        let payload = \<lparr>tp_chat = tg_chat t, tp_text = telegram_text ev,
              tp_thread = (if tg_thread t \<noteq> [] then Some (tg_thread t) else None), tp_silent = tg_silent t\<rparr>;
            base = trim_right (\<lambda>c. c = CHR ''/'') (first_non_empty [tg_base t, telegram_api])
        in case co_telegram C (base @ ''/bot'' @ tg_token t @ ''/sendMessage'') payload of
             Inl e \<Rightarrow> Inl (''notify: deliver telegram message: '' @ e)
           | Inr a \<Rightarrow>
               if ta_success a \<and> ta_ok a then Inr ()
               else let detail = trim_space (ta_description a);
                        detail = (if detail = [] then trim_space (take 512 (ta_body a)) else detail)
                    in Inl (''notify: telegram returned '' @ ta_status a @ '': '' @ detail))"

subsection \<open>Mail\<close>

definition is_localhost :: "string \<Rightarrow> bool" where
  "is_localhost h = (h = ''localhost'' \<or> h = ''127.0.0.1'' \<or> h = ''::1'')"

text \<open>A connection is encrypted when it was dialled so, or once \<open>STARTTLS\<close> is through.\<close>

definition encrypted :: "smtp_step list \<Rightarrow> bool" where
  "encrypted done = list_ex (\<lambda>x. case x of Dial _ tls \<Rightarrow> tls | StartTls \<Rightarrow> True | _ \<Rightarrow> False) done"

definition one_line :: "string \<Rightarrow> bool" where
  "one_line s = (CHR 0x0A \<notin> set s \<and> CHR 0x0D \<notin> set s)"

definition client_refuses :: "string \<Rightarrow> smtp_step list \<Rightarrow> smtp_step \<Rightarrow> string option" where
  "client_refuses host done x = (case x of
     PlainAuth _ _ \<Rightarrow> if encrypted done \<or> is_localhost host then None else Some ''unencrypted connection''
   | MailFrom a \<Rightarrow> if one_line a then None else Some ''smtp: A line must not contain CR or LF''
   | RcptTo a \<Rightarrow> if one_line a then None else Some ''smtp: A line must not contain CR or LF''
   | _ \<Rightarrow> None)"

definition step_label :: "smtp_step \<Rightarrow> string" where
  "step_label x = (case x of
     Dial addr tls \<Rightarrow> (if tls then ''notify: dial smtp over tls '' else ''notify: dial smtp '') @ addr @ '': ''
   | Greeting \<Rightarrow> ''notify: smtp handshake: ''
   | StartTls \<Rightarrow> ''notify: smtp starttls: ''
   | PlainAuth _ _ \<Rightarrow> ''notify: smtp auth: ''
   | MailFrom _ \<Rightarrow> ''notify: smtp MAIL FROM: ''
   | RcptTo a \<Rightarrow> ''notify: smtp RCPT TO '' @ a @ '': ''
   | Data \<Rightarrow> ''notify: smtp DATA: ''
   | Body _ \<Rightarrow> ''notify: write message: ''
   | EndData \<Rightarrow> ''notify: close message: '')"

text \<open>The steps in order, up to the first that fails; the result has the steps that reached the server.\<close>

fun smtp_run :: "couriers \<Rightarrow> smtp_channel \<Rightarrow> smtp_step list \<Rightarrow> smtp_step list \<Rightarrow> smtp_step list \<times> (string + unit)" where
  "smtp_run C s done [] = (done, Inr ())"
| "smtp_run C s done (x # xs) = (case client_refuses (sm_host s) done x of
     Some e \<Rightarrow> (done, Inl (step_label x @ e))
   | None \<Rightarrow> (case co_smtp C s done x of
       Some e \<Rightarrow> (done @ [x], Inl (step_label x @ e))
     | None \<Rightarrow> smtp_run C s (done @ [x]) xs))"

definition mail_steps :: "string \<Rightarrow> string list \<Rightarrow> string \<Rightarrow> smtp_step list" where
  "mail_steps sender to message = [MailFrom sender] @ map RcptTo to @ [Data, Body message, EndData]"

definition smtp_steps :: "couriers \<Rightarrow> smtp_channel \<Rightarrow> notify_event \<Rightarrow> smtp_step list" where
  "smtp_steps C s ev =
     (let port = (if sm_port s = 0 then 587 else sm_port s);
          sender = (if sm_from s = [] then ''certio@localhost'' else sm_from s);
          addr = join_host_port (sm_host s) (dec_int port);
          auth = (if sm_username s \<noteq> [] then [PlainAuth (sm_username s) (sm_password s)] else []);
          mail = mail_steps sender (sm_to s) (build_message sender (sm_to s) ev)
      in if equal_fold (sm_tls s) ''tls'' then [Dial addr True, Greeting] @ auth @ mail
         else [Dial addr False, Greeting] @
           (if \<not> equal_fold (sm_tls s) ''none'' \<and> co_starttls C (sm_host s) then [StartTls] else []) @ auth @ mail)"

definition smtp_dialogue :: "couriers \<Rightarrow> smtp_channel \<Rightarrow> notify_event \<Rightarrow> smtp_step list \<times> (string + unit)" where
  "smtp_dialogue C s ev =
     (if sm_host s = [] \<or> sm_to s = [] then ([], Inl ''notify: smtp host and at least one recipient are required'')
      else smtp_run C s [] (smtp_steps C s ev))"

definition notify_send :: "couriers \<Rightarrow> notifier \<Rightarrow> notify_event \<Rightarrow> string + unit" where
  "notify_send C n ev = (case n of
     WebhookChannel w \<Rightarrow> send_webhook C w ev
   | SlackChannel s \<Rightarrow> send_slack C s ev
   | TelegramChannel t \<Rightarrow> send_telegram C t ev
   | SmtpChannel s \<Rightarrow> snd (smtp_dialogue C s ev))"

end
