(* ===== verification/SvcNotify.thy ===== *)
theory SvcNotify
  imports SvcDeploy Notify
begin

text \<open>
  \<open>internal/service/notification.go\<close>: the delivery channels of an instance, delivering an event to
  every channel that subscribes to it, and the queue of deliveries that failed.  \<open>couriers\<close> are
  the far ends, \<open>deploy_env\<close> has the environment of the services and the dialect of the
  database; a run reads the clock once, and \<open>ids\<close> gives the keys of the rows it adds.
\<close>

section \<open>Configuring channels\<close>

datatype notify_error = NInvalid string | NStore store_error | NSend string

type_synonym 'a notifying = "(instance_db, notify_error, 'a) op"

definition channel_op :: "(instance_db, store_error, 'a) op \<Rightarrow> 'a notifying" where
  "channel_op = map_errS NStore"

record channel_input =
  ni_name :: string
  ni_channel :: string
  ni_config :: "(string \<times> string) list"
  ni_events :: "string list"
  ni_enabled :: bool

definition create_notification :: "deploy_env \<Rightarrow> string \<Rightarrow> channel_input \<Rightarrow> channel notifying" where
  "create_notification E i inp =
     (if ni_name inp = [] then failS (NInvalid ''a channel name is required'')
      else
        bindS (liftE (map_err NInvalid (build_notifier (ni_channel inp) (ni_config inp)))) (\<lambda>_.
        let row = \<lparr>nf_id = i, nf_created_at = se_now (de_svc E), nf_name = ni_name inp, nf_channel = ni_channel inp,
              nf_config = seal_config (de_svc E) (ni_config inp),
              nf_events = (if ni_events inp = [] then [''*''] else ni_events inp), nf_enabled = ni_enabled inp,
              nf_last_sent = None, nf_last_error = []\<rparr> in
        bindS (channel_op (create_channel (de_dialect E) row)) (\<lambda>_. returnS row)))"

record channel_update =
  nu_name :: "string option"
  nu_config :: "(string \<times> string) list option"
  nu_events :: "string list option"
  nu_enabled :: "bool option"

definition update_notification :: "deploy_env \<Rightarrow> string \<Rightarrow> channel_update \<Rightarrow> channel notifying" where
  "update_notification E i inp =
     bindS (readS (\<lambda>d. map_err NStore (get_channel i d))) (\<lambda>row.
     let row = row\<lparr>nf_name := given (nu_name inp) (nf_name row), nf_events := given (nu_events inp) (nf_events row),
           nf_enabled := given (nu_enabled inp) (nf_enabled row)\<rparr> in
     bindS (liftE (case nu_config inp of
         None \<Rightarrow> Inr row
       | Some cfg \<Rightarrow> bindE (map_err NInvalid (build_notifier (nf_channel row) cfg)) (\<lambda>_.
           Inr (row\<lparr>nf_config := seal_config (de_svc E) cfg\<rparr>)))) (\<lambda>row.
     bindS (channel_op (update_channel (de_dialect E) row)) (\<lambda>_. returnS row)))"

definition delete_notification :: "string \<Rightarrow> unit notifying" where
  "delete_notification i =
     bindS (readS (\<lambda>d. map_err NStore (get_channel i d))) (\<lambda>_. channel_op (delete_channel i))"

section \<open>One delivery\<close>

definition notifier_for :: "deploy_env \<Rightarrow> channel \<Rightarrow> string + notifier" where
  "notifier_for E row = bindE (open_sealed_config (de_svc E) (nf_config row)) (build_notifier (nf_channel row))"

definition stamped :: "deploy_env \<Rightarrow> channel \<Rightarrow> string + unit \<Rightarrow> channel" where
  "stamped E row r = row\<lparr>nf_last_sent := Some (se_now (de_svc E)), nf_last_error := (case r of Inl e \<Rightarrow> e | Inr _ \<Rightarrow> [])\<rparr>"

definition record_delivery :: "deploy_env \<Rightarrow> channel \<Rightarrow> string + unit \<Rightarrow> instance_db \<Rightarrow> instance_db" where
  "record_delivery E row r d = snd (update_channel (de_dialect E) (stamped E row r) d)"

definition attempt :: "deploy_env \<Rightarrow> couriers \<Rightarrow> channel \<Rightarrow> notify_event \<Rightarrow> string + unit" where
  "attempt E C row ev = bindE (notifier_for E row) (\<lambda>n. notify_send C n ev)"

definition deliver :: "deploy_env \<Rightarrow> couriers \<Rightarrow> channel \<Rightarrow> notify_event \<Rightarrow> (instance_db, string, unit) op" where
  "deliver E C row ev = (\<lambda>d. let r = attempt E C row ev in (r, record_delivery E row r d))"

text \<open>A probe: a channel that cannot be built leaves no mark on its row.\<close>

definition probe_event :: "deploy_env \<Rightarrow> channel \<Rightarrow> notify_event" where
  "probe_event E row = \<lparr>ev_type = event_test, ev_title = ''Certio test notification'',
     ev_message = ''This is a test from the '' @ go_quote (nf_name row) @ '' channel. If you can read this, delivery works.'',
     ev_severity = ''info'', ev_timestamp = se_now (de_svc E),
     ev_data = [(''channel'', JStr (nf_channel row)), (''instance'', JStr (cfg_base_url (de_svc E)))]\<rparr>"

definition test_notification :: "deploy_env \<Rightarrow> couriers \<Rightarrow> string \<Rightarrow> unit notifying" where
  "test_notification E C i =
     bindS (readS (\<lambda>d. map_err NStore (get_channel i d))) (\<lambda>row.
     bindS (liftE (map_err NSend (notifier_for E row))) (\<lambda>n.
     let r = notify_send C n (probe_event E row) in
     bindS (modifyS (record_delivery E row r)) (\<lambda>_. liftE (map_err NSend r))))"

section \<open>The queue\<close>

definition max_delivery_attempts :: int where "max_delivery_attempts = 6"

definition retry_backoff :: "duration list" where
  "retry_backoff = [30 * second, 2 * minute, 5 * minute, 15 * minute, 30 * minute]"

definition backoff_for :: "int \<Rightarrow> duration" where
  "backoff_for n =
     (let index = n - 1;
          index = (if index < 0 then 0 else index);
          index = (if int (length retry_backoff) \<le> index then int (length retry_backoff) - 1 else index)
      in retry_backoff ! nat index)"

definition queued :: "deploy_env \<Rightarrow> string \<Rightarrow> channel \<Rightarrow> notify_event \<Rightarrow> string \<Rightarrow> delivery" where
  "queued E i row ev cause = \<lparr>dl_id = i, dl_created_at = se_now (de_svc E), dl_channel = nf_id row, dl_event = ev_type ev,
     dl_payload = ev, dl_status = DeliveryPending, dl_attempts = 1, dl_last_error = cause,
     dl_next = se_now (de_svc E) + retry_backoff ! 0, dl_delivered = None\<rparr>"

definition queue_retry :: "deploy_env \<Rightarrow> string \<Rightarrow> channel \<Rightarrow> notify_event \<Rightarrow> string \<Rightarrow> instance_db \<Rightarrow> instance_db" where
  "queue_retry E i row ev cause d = snd (create_delivery (de_dialect E) (queued E i row ev cause) d)"

definition dispatch_one :: "deploy_env \<Rightarrow> couriers \<Rightarrow> notify_event \<Rightarrow> string \<Rightarrow> channel \<Rightarrow> instance_db \<Rightarrow> instance_db" where
  "dispatch_one E C ev i row d = (case deliver E C row ev d of
       (Inl e, d) \<Rightarrow> queue_retry E i row ev e d
     | (Inr _, d) \<Rightarrow> d)"

fun dispatch_loop :: "deploy_env \<Rightarrow> couriers \<Rightarrow> notify_event \<Rightarrow> (nat \<Rightarrow> string) \<Rightarrow> nat \<Rightarrow> channel list \<Rightarrow> instance_db \<Rightarrow> instance_db" where
  "dispatch_loop E C ev ids n [] d = d"
| "dispatch_loop E C ev ids n (row # rows) d = dispatch_loop E C ev ids (Suc n) rows (dispatch_one E C ev (ids n) row d)"

definition dispatch :: "deploy_env \<Rightarrow> couriers \<Rightarrow> (nat \<Rightarrow> string) \<Rightarrow> notify_event \<Rightarrow> instance_db \<Rightarrow> instance_db" where
  "dispatch E C ids ev d = dispatch_loop E C ev ids 0 (enabled_channels (ev_type ev) d) d"

section \<open>A pass over the queue\<close>

datatype retry_outcome = Delivered | Retried | Abandoned

definition after_attempt :: "deploy_env \<Rightarrow> string + unit \<Rightarrow> delivery \<Rightarrow> retry_outcome \<times> delivery" where
  "after_attempt E r row =
     (let now = se_now (de_svc E); row = row\<lparr>dl_attempts := dl_attempts row + 1\<rparr>
      in case r of
          Inr _ \<Rightarrow> (Delivered, row\<lparr>dl_status := DeliveryDelivered, dl_delivered := Some now, dl_last_error := []\<rparr>)
        | Inl e \<Rightarrow> if max_delivery_attempts \<le> dl_attempts row then (Abandoned, row\<lparr>dl_status := DeliveryFailed, dl_last_error := e\<rparr>)
            else (Retried, row\<lparr>dl_last_error := e, dl_next := now + backoff_for (dl_attempts row)\<rparr>))"

definition retry_one :: "deploy_env \<Rightarrow> couriers \<Rightarrow> delivery \<Rightarrow> channel option \<Rightarrow> instance_db \<Rightarrow> retry_outcome \<times> instance_db" where
  "retry_one E C row ch d = (case ch of
       Some n \<Rightarrow> if nf_enabled n
         then (case deliver E C n (dl_payload row) d of (r, d) \<Rightarrow> (case after_attempt E r row of (o', row) \<Rightarrow>
                 (o', snd (update_delivery (de_dialect E) row d))))
         else (Abandoned, snd (update_delivery (de_dialect E) (row\<lparr>dl_status := DeliveryFailed,
                 dl_last_error := ''the channel was removed or disabled before this could be delivered''\<rparr>) d))
     | None \<Rightarrow> (Abandoned, snd (update_delivery (de_dialect E) (row\<lparr>dl_status := DeliveryFailed,
                 dl_last_error := ''the channel was removed or disabled before this could be delivered''\<rparr>) d)))"

definition tally :: "retry_outcome \<Rightarrow> nat \<times> nat \<times> nat \<Rightarrow> nat \<times> nat \<times> nat" where
  "tally o' n = (case n of (a, b, c) \<Rightarrow> (case o' of Delivered \<Rightarrow> (Suc a, b, c) | Retried \<Rightarrow> (a, Suc b, c) | Abandoned \<Rightarrow> (a, b, Suc c)))"

fun retry_loop :: "deploy_env \<Rightarrow> couriers \<Rightarrow> (delivery \<times> channel option) list \<Rightarrow> nat \<times> nat \<times> nat \<Rightarrow> instance_db \<Rightarrow> (nat \<times> nat \<times> nat) \<times> instance_db" where
  "retry_loop E C [] n d = (n, d)"
| "retry_loop E C ((row, ch) # rest) n d = (case retry_one E C row ch d of (o', d) \<Rightarrow> retry_loop E C rest (tally o' n) d)"

definition retry_deliveries :: "deploy_env \<Rightarrow> couriers \<Rightarrow> instance_db \<Rightarrow> (nat \<times> nat \<times> nat) \<times> instance_db" where
  "retry_deliveries E C d = retry_loop E C (due_deliveries (se_now (de_svc E)) 100 d) (0, 0, 0) d"

end
