(* ===== verification/NotifyLaws.thy ===== *)
theory NotifyLaws
  imports SvcNotify "HOL-Library.Multiset"
begin

text \<open>
  Laws of the notifications: the keys of an event come sorted, the texts keep to their limits,
  a mail delivery takes its steps in order, and what an event and a pass over the queue do to the
  tables of channels and deliveries.
\<close>

section \<open>Sorting\<close>

lemma insort_snoc: "x < y \<Longrightarrow> insort x (xs @ [y]) = insort x xs @ [y]"
  by (induction xs) auto

lemma sift_down_insort:
  "i < length keys \<Longrightarrow> sorted (take i keys) \<Longrightarrow> sift_down i keys = insort (keys ! i) (take i keys) @ drop (Suc i) keys"
proof (induction i arbitrary: keys)
  case 0
  then show ?case by (simp add: Cons_nth_drop_Suc)
next
  case (Suc j)
  have t: "take (Suc j) keys = take j keys @ [keys ! j]"
    using Suc.prems(1) by (simp add: take_Suc_conv_app_nth)
  show ?case
  proof (cases "keys ! Suc j < keys ! j")
    case True
    let ?k = "keys[Suc j := keys ! j, j := keys ! Suc j]"
    have s: "sorted (take j keys)"
      using Suc.prems(2) by (simp add: t sorted_append)
    have "sift_down j ?k = insort (?k ! j) (take j ?k) @ drop (Suc j) ?k"
      using Suc.prems(1) s by (intro Suc.IH) simp_all
    also have "drop (Suc j) ?k = keys ! j # drop (Suc (Suc j)) keys"
      using Suc.prems(1) Cons_nth_drop_Suc [of "Suc j" ?k] by (simp add: drop_update_cancel)
    finally show ?thesis
      using True Suc.prems(1) by (simp add: t insort_snoc)
  next
    case False
    have "\<forall>x \<in> set (take (Suc j) keys). x \<le> keys ! Suc j"
      using False Suc.prems(2) by (force simp: t sorted_append)
    then have "insort (keys ! Suc j) (take (Suc j) keys) = take (Suc j) keys @ [keys ! Suc j]"
      using Suc.prems(2) by (intro sorted_insort_is_snoc)
    then show ?thesis
      using False Suc.prems(1) by (simp add: Cons_nth_drop_Suc id_take_nth_drop [symmetric])
  qed
qed

lemma insort_sort: "insort x (sort xs) = sort (xs @ [x])" for x :: "'a :: linorder"
  by (rule properties_for_sort [symmetric]) (simp_all add: sorted_insort)

lemma fold_sift_down: "i \<le> length keys \<Longrightarrow> fold sift_down [1 ..< i] keys = sort (take i keys) @ drop i keys"
proof (induction i)
  case (Suc i)
  show ?case
  proof (cases "i = 0")
    case True
    then show ?thesis using Suc.prems by (cases keys) simp_all
  next
    case False
    let ?s = "sort (take i keys) @ drop i keys"
    have len: "length (sort (take i keys)) = i" using Suc.prems by simp
    have "fold sift_down [1 ..< Suc i] keys = sift_down i ?s"
      using Suc False by simp
    also have "\<dots> = insort (?s ! i) (take i ?s) @ drop (Suc i) ?s"
      using Suc.prems len by (intro sift_down_insort) simp_all
    also have "\<dots> = insort (keys ! i) (sort (take i keys)) @ drop (Suc i) keys"
      using Suc.prems len by (simp add: nth_append)
    also have "\<dots> = sort (take (Suc i) keys) @ drop (Suc i) keys"
      using Suc.prems by (simp add: insort_sort take_Suc_conv_app_nth)
    finally show ?thesis .
  qed
qed simp

lemma sorted_keys_sort: "sorted_keys m = sort (map fst m)"
  using fold_sift_down [of "length m" "map fst m"] by (simp add: sorted_keys_def)

section \<open>Texts\<close>

lemma valid_utf8_length: "length (to_valid_utf8 s) \<le> length s"
proof (induction s rule: to_valid_utf8.induct)
  case (2 c s)
  show ?case
  proof (cases "utf8_size (c # s) = 0")
    case False
    have "length (to_valid_utf8 (drop (utf8_size (c # s)) (c # s))) \<le> length (c # s) - utf8_size (c # s)"
      using "2.IH"(2) [OF refl False] by simp
    then show ?thesis using False by (simp add: Let_def)
  qed (use "2.IH"(1) [OF refl] in \<open>simp add: Let_def\<close>)
qed simp

lemma drop_open_tag_length: "length (drop_open_tag s) \<le> length s"
  by (simp add: drop_open_tag_def Let_def)

lemma telegram_text_length: "length (telegram_text ev) \<le> telegram_max_text"
proof (cases "telegram_max_text < length (telegram_body ev)")
  case True
  let ?t = "take (telegram_max_text - length ellipsis) (telegram_body ev)"
  have "length (drop_open_tag (to_valid_utf8 ?t)) \<le> telegram_max_text - length ellipsis"
    using drop_open_tag_length [of "to_valid_utf8 ?t"] valid_utf8_length [of ?t] True by simp
  then show ?thesis using True by (simp add: telegram_text_def Let_def telegram_max_text_def ellipsis_def)
qed (simp add: telegram_text_def)

definition plain_char :: "char \<Rightarrow> bool" where
  "plain_char c = (ord c < 128 \<and> c \<notin> set ''<>&'' \<and> c \<noteq> CHR 0x22 \<and> c \<noteq> CHR 0x27)"

lemma escape_plain: "list_all plain_char s \<Longrightarrow> html_escape s = s"
  by (induction s) (auto simp: html_escape_def escape_char_def plain_char_def)

lemma valid_ascii: "\<forall>c \<in> set s. ord c < 128 \<Longrightarrow> to_valid_utf8 s = s"
  by (induction s) (simp_all add: utf8_size_def Let_def)

lemma valid_ascii_append: "ord c < 128 \<Longrightarrow> to_valid_utf8 (c # s) = c # to_valid_utf8 s"
  by (simp add: utf8_size_def Let_def)

section \<open>Mail\<close>

definition passwords_safe :: "string \<Rightarrow> smtp_step list \<Rightarrow> bool" where
  "passwords_safe host steps \<longleftrightarrow>
     (\<forall>xs u p ys. steps = xs @ PlainAuth u p # ys \<longrightarrow> encrypted xs \<or> is_localhost host)"

lemma passwords_safe_snoc:
  assumes "passwords_safe host steps" "client_refuses host steps x = None"
  shows "passwords_safe host (steps @ [x])"
  unfolding passwords_safe_def
proof (intro allI impI)
  fix xs u p ys
  assume eq: "steps @ [x] = xs @ PlainAuth u p # ys"
  show "encrypted xs \<or> is_localhost host"
  proof (cases ys rule: rev_cases)
    case Nil
    with eq assms(2) show ?thesis by (auto simp: client_refuses_def split: if_splits)
  next
    case (snoc zs z)
    with eq have "steps = xs @ PlainAuth u p # zs" by simp
    with assms(1) show ?thesis unfolding passwords_safe_def by blast
  qed
qed

lemma smtp_run_passwords:
  "smtp_run C s steps xs = (steps', r) \<Longrightarrow> passwords_safe (sm_host s) steps \<Longrightarrow> passwords_safe (sm_host s) steps'"
  by (induction xs arbitrary: steps) (auto split: option.splits dest: passwords_safe_snoc)

lemma smtp_run_complete: "smtp_run C s steps xs = (steps', Inr ()) \<Longrightarrow> steps' = steps @ xs"
proof (induction xs arbitrary: steps)
  case (Cons x xs)
  then have "steps' = (steps @ [x]) @ xs"
    by (auto split: option.splits simp del: append_assoc)
  then show ?case by simp
qed simp

lemma smtp_run_prefix: "smtp_run C s steps xs = (steps', r) \<Longrightarrow> \<exists>ys zs. steps' = steps @ ys \<and> xs = ys @ zs"
  by (induction xs arbitrary: steps) (fastforce split: option.splits)+

section \<open>One delivery\<close>

text \<open>On the default database a row of an existing channel is always written.\<close>

lemma deliver_run:
  "de_dialect E = Sqlite \<Longrightarrow>
   deliver E C row ev d = (attempt E C row ev, in_channels_update (tbl_put nf_id (stamped E row (attempt E C row ev))) d)"
  by (simp add: deliver_def Let_def record_delivery_def update_channel_def repo_save_def channel_clash_def fits_def)

lemma stamped_id [simp]: "nf_id (stamped E row r) = nf_id row"
  by (simp add: stamped_def)

lemma dispatch_one_run:
  assumes "de_dialect E = Sqlite" "nf_id row \<in> nf_id ` set (in_channels d)" "i \<notin> dl_id ` set (in_deliveries d)"
  shows "dispatch_one E C ev i row d =
    in_deliveries_update (\<lambda>ls. ls @ (case attempt E C row ev of Inl e \<Rightarrow> [queued E i row ev e] | Inr _ \<Rightarrow> []))
      (in_channels_update (tbl_put nf_id (stamped E row (attempt E C row ev))) d)"
  using assms
  by (cases "attempt E C row ev")
    (auto simp: dispatch_one_def deliver_run queue_retry_def create_delivery_def repo_create_def delivery_clash_def fits_def
      queued_def tbl_has_iff set_tbl_put image_iff keys_tbl_put)

lemma dispatch_loop_tables:
  assumes "de_dialect E = Sqlite" "distinct (map nf_id rows)" "nf_id ` set rows \<subseteq> nf_id ` set (in_channels d)"
    "inj ids" "\<forall>k \<ge> n. ids k \<notin> dl_id ` set (in_deliveries d)"
  shows "let d' = dispatch_loop E C ev ids n rows d in
    (\<forall>x \<in> set (in_channels d). nf_id x \<notin> nf_id ` set rows \<longrightarrow> x \<in> set (in_channels d')) \<and>
    (\<forall>row \<in> set rows. stamped E row (attempt E C row ev) \<in> set (in_channels d')) \<and>
    (\<forall>row \<in> set rows. \<forall>e. attempt E C row ev = Inl e \<longrightarrow> (\<exists>i. queued E i row ev e \<in> set (in_deliveries d'))) \<and>
    set (in_deliveries d) \<subseteq> set (in_deliveries d')"
  using assms
proof (induction rows arbitrary: d n)
  case (Cons row rows)
  define e where "e = dispatch_one E C ev (ids n) row d"
  have run: "e = in_deliveries_update (\<lambda>ls. ls @ (case attempt E C row ev of Inl x \<Rightarrow> [queued E (ids n) row ev x] | Inr _ \<Rightarrow> []))
      (in_channels_update (tbl_put nf_id (stamped E row (attempt E C row ev))) d)"
    unfolding e_def using Cons.prems by (intro dispatch_one_run) auto
  have ids: "\<forall>k \<ge> Suc n. ids k \<notin> dl_id ` set (in_deliveries e)"
  proof (intro allI impI)
    fix k assume "Suc n \<le> k"
    then have "ids k \<noteq> ids n" "ids k \<notin> dl_id ` set (in_deliveries d)"
      using Cons.prems(4,5) by (auto dest: injD)
    then show "ids k \<notin> dl_id ` set (in_deliveries e)"
      by (auto simp: run queued_def split: sum.splits)
  qed
  have keys: "nf_id ` set rows \<subseteq> nf_id ` set (in_channels e)"
    using Cons.prems(3) by (auto simp: run keys_tbl_put)
  have away: "nf_id row \<notin> nf_id ` set rows" and dist: "distinct (map nf_id rows)"
    using Cons.prems(2) by simp_all
  have here: "stamped E row (attempt E C row ev) \<in> set (in_channels e)"
    and there: "\<And>x. x \<in> set (in_channels d) \<Longrightarrow> nf_id x \<noteq> nf_id row \<Longrightarrow> x \<in> set (in_channels e)"
    and queue: "\<And>x. attempt E C row ev = Inl x \<Longrightarrow> queued E (ids n) row ev x \<in> set (in_deliveries e)"
    and sub: "set (in_deliveries d) \<subseteq> set (in_deliveries e)"
    by (auto simp: run set_tbl_put)
  note IH = Cons.IH [OF Cons.prems(1) dist keys Cons.prems(4) ids, unfolded Let_def]
  have step: "dispatch_loop E C ev ids n (row # rows) d = dispatch_loop E C ev ids (Suc n) rows e"
    by (simp add: e_def)
  show ?case
    unfolding Let_def step
  proof (intro conjI ballI allI impI)
    fix x assume x: "x \<in> set (in_channels d)" "nf_id x \<notin> nf_id ` set (row # rows)"
    then show "x \<in> set (in_channels (dispatch_loop E C ev ids (Suc n) rows e))"
      using IH there [OF x(1)] by auto
  next
    fix r assume r: "r \<in> set (row # rows)"
    show "stamped E r (attempt E C r ev) \<in> set (in_channels (dispatch_loop E C ev ids (Suc n) rows e))"
    proof (cases "r = row")
      case True
      then show ?thesis using IH here away by auto
    next
      case False
      then show ?thesis using IH r by auto
    qed
  next
    fix r x assume r: "r \<in> set (row # rows)" "attempt E C r ev = Inl x"
    show "\<exists>i. queued E i r ev x \<in> set (in_deliveries (dispatch_loop E C ev ids (Suc n) rows e))"
    proof (cases "r = row")
      case True
      then show ?thesis using IH queue r(2) by blast
    next
      case False
      then show ?thesis using IH r by auto
    qed
  next
    show "set (in_deliveries d) \<subseteq> set (in_deliveries (dispatch_loop E C ev ids (Suc n) rows e))"
      using IH sub by blast
  qed
qed simp

section \<open>The queue\<close>

text \<open>A delivery that waits has been tried at least once and fewer than six times.\<close>

definition delivery_ok :: "delivery \<Rightarrow> bool" where
  "delivery_ok l \<longleftrightarrow> 1 \<le> dl_attempts l \<and> dl_attempts l \<le> max_delivery_attempts \<and>
     (dl_status l = DeliveryPending \<longrightarrow> dl_attempts l < max_delivery_attempts)"

definition queue_ok :: "instance_db \<Rightarrow> bool" where
  "queue_ok d \<longleftrightarrow> (\<forall>l \<in> set (in_deliveries d). delivery_ok l)"

lemma queue_ok_update_channel: "queue_ok (snd (update_channel D n d)) = queue_ok d"
  by (simp add: update_channel_def repo_save_def queue_ok_def split: option.split)

lemma queue_ok_record: "queue_ok (record_delivery E row r d) = queue_ok d"
  by (simp add: record_delivery_def queue_ok_update_channel)

lemma queue_ok_deliver: "queue_ok (snd (deliver E C row ev d)) = queue_ok d"
  by (simp add: deliver_def Let_def queue_ok_record)

lemma queue_ok_save:
  assumes "delivery_ok l" "queue_ok d"
  shows "queue_ok (snd (update_delivery D l d))" "queue_ok (snd (create_delivery D l d))"
  using assms
  by (auto simp: update_delivery_def create_delivery_def repo_save_def repo_create_def queue_ok_def set_tbl_put split: option.split)

lemma queue_ok_dispatch_one: "queue_ok d \<Longrightarrow> queue_ok (dispatch_one E C ev i row d)"
  using queue_ok_deliver [of E C row ev d]
  by (auto simp: dispatch_one_def queue_retry_def split: prod.splits sum.splits
      intro!: queue_ok_save(2) simp: delivery_ok_def queued_def max_delivery_attempts_def)

lemma queue_ok_dispatch_loop: "queue_ok d \<Longrightarrow> queue_ok (dispatch_loop E C ev ids n rows d)"
  by (induction rows arbitrary: n d) (simp_all add: queue_ok_dispatch_one)

lemma queue_ok_dispatch: "queue_ok d \<Longrightarrow> queue_ok (dispatch E C ids ev d)"
  by (simp add: dispatch_def queue_ok_dispatch_loop)

lemma after_attempt_ok:
  "delivery_ok row \<Longrightarrow> dl_status row = DeliveryPending \<Longrightarrow> after_attempt E r row = (o', row') \<Longrightarrow> delivery_ok row'"
  by (auto simp: after_attempt_def Let_def delivery_ok_def max_delivery_attempts_def split: sum.splits if_splits)

lemma queue_ok_retry_one:
  assumes "delivery_ok row" "dl_status row = DeliveryPending" "queue_ok d"
  shows "queue_ok (snd (retry_one E C row ch d))"
proof -
  have closed: "delivery_ok (row\<lparr>dl_status := DeliveryFailed, dl_last_error := e\<rparr>)" for e
    using assms(1) by (simp add: delivery_ok_def)
  have "queue_ok (snd (deliver E C n ev d))" for n ev
    using assms(3) by (simp add: queue_ok_deliver)
  then show ?thesis
    using assms closed after_attempt_ok [OF assms(1,2)]
    by (auto simp: retry_one_def split: option.splits prod.splits intro!: queue_ok_save(1)) (metis snd_conv)
qed

lemma queue_ok_retry_loop:
  "\<forall>(row, ch) \<in> set due. delivery_ok row \<and> dl_status row = DeliveryPending \<Longrightarrow> queue_ok d \<Longrightarrow>
   queue_ok (snd (retry_loop E C due n d))"
proof (induction due arbitrary: n d)
  case (Cons p rest)
  obtain row ch where p: "p = (row, ch)" by force
  obtain x e where x: "retry_one E C row ch d = (x, e)" by force
  have "queue_ok e"
    using queue_ok_retry_one [of row d E C ch] Cons.prems by (simp add: p x)
  then show ?case using Cons by (simp add: p x)
qed simp

lemma due_member:
  assumes "(row, ch) \<in> set (due_deliveries now limit d)"
  shows "row \<in> set (in_deliveries d) \<and> dl_status row = DeliveryPending \<and> dl_next row \<le> now \<and>
    ch = List.find (\<lambda>n. nf_id n = dl_channel row) (in_channels d)"
  using assms by (auto simp: due_deliveries_def dest!: in_set_takeD)

lemma queue_ok_retry: "queue_ok d \<Longrightarrow> queue_ok (snd (retry_deliveries E C d))"
  unfolding retry_deliveries_def
  by (rule queue_ok_retry_loop) (auto dest!: due_member simp: queue_ok_def)

text \<open>A pass writes each delivery it takes up: it is settled, or one attempt further.\<close>

definition moved :: "delivery \<Rightarrow> delivery \<Rightarrow> bool" where
  "moved row row' \<longleftrightarrow> dl_id row' = dl_id row \<and>
     (dl_status row' \<noteq> DeliveryPending \<or> dl_status row = DeliveryPending \<and> dl_attempts row' = dl_attempts row + 1)"

definition channels_known :: "instance_db \<Rightarrow> delivery \<Rightarrow> bool" where
  "channels_known d l \<longleftrightarrow> dl_channel l \<in> nf_id ` set (in_channels d)"

lemma update_delivery_run:
  "channels_known d l \<Longrightarrow> snd (update_delivery Sqlite l d) = in_deliveries_update (tbl_put dl_id l) d"
  by (auto simp: update_delivery_def repo_save_def delivery_clash_def fits_def tbl_has_iff channels_known_def)

lemma retry_one_run:
  assumes "de_dialect E = Sqlite" "dl_status row = DeliveryPending" "channels_known d row"
    "\<And>n. ch = Some n \<Longrightarrow> nf_id n = dl_channel row"
  shows "\<exists>o' row' d'. retry_one E C row ch d = (o', in_deliveries_update (tbl_put dl_id row') d') \<and> moved row row' \<and>
    in_deliveries d' = in_deliveries d \<and> nf_id ` set (in_channels d) \<subseteq> nf_id ` set (in_channels d')"
proof (cases "\<exists>n. ch = Some n \<and> nf_enabled n")
  case True
  then obtain n where n: "ch = Some n" "nf_enabled n" by blast
  define d' where "d' = in_channels_update (tbl_put nf_id (stamped E n (attempt E C n (dl_payload row)))) d"
  obtain o' row' where r: "after_attempt E (attempt E C n (dl_payload row)) row = (o', row')" by force
  have m: "moved row row'" and c: "dl_channel row' = dl_channel row"
    using r assms(2) by (auto simp: after_attempt_def Let_def moved_def split: sum.splits if_splits)
  have "channels_known d' row'"
    using assms(3) c by (simp add: channels_known_def d'_def keys_tbl_put)
  then have "retry_one E C row ch d = (o', in_deliveries_update (tbl_put dl_id row') d')"
    using n assms(1) by (simp add: retry_one_def deliver_run r d'_def [symmetric] update_delivery_run)
  moreover have "in_deliveries d' = in_deliveries d" "nf_id ` set (in_channels d) \<subseteq> nf_id ` set (in_channels d')"
    by (auto simp: d'_def keys_tbl_put)
  ultimately show ?thesis using m by blast
next
  case False
  define row' where "row' = row\<lparr>dl_status := DeliveryFailed,
    dl_last_error := ''the channel was removed or disabled before this could be delivered''\<rparr>"
  have "channels_known d row'" "moved row row'"
    using assms(3) by (simp_all add: channels_known_def row'_def moved_def)
  moreover have "retry_one E C row ch d = (Abandoned, snd (update_delivery (de_dialect E) row' d))"
    using False unfolding row'_def by (auto simp: retry_one_def split: option.split)
  ultimately show ?thesis using assms(1) by (auto simp: update_delivery_run)
qed

lemma retry_loop_moves:
  assumes "de_dialect E = Sqlite" "distinct (map (\<lambda>p. dl_id (fst p)) due)" "distinct (map dl_id (in_deliveries d))"
    "\<forall>(row, ch) \<in> set due. dl_status row = DeliveryPending \<and> channels_known d row \<and> (\<forall>n. ch = Some n \<longrightarrow> nf_id n = dl_channel row)"
  shows "let d' = snd (retry_loop E C due n d) in
    (\<forall>x \<in> set (in_deliveries d). dl_id x \<notin> (\<lambda>p. dl_id (fst p)) ` set due \<longrightarrow> x \<in> set (in_deliveries d')) \<and>
    (\<forall>p \<in> set due. \<exists>row' \<in> set (in_deliveries d'). moved (fst p) row')"
  using assms
proof (induction due arbitrary: d n)
  case (Cons p rest)
  obtain row ch where p: "p = (row, ch)" by force
  have h: "dl_status row = DeliveryPending" "channels_known d row" "\<And>m. ch = Some m \<Longrightarrow> nf_id m = dl_channel row"
    using Cons.prems(4) by (simp_all add: p)
  obtain x row' e where r: "retry_one E C row ch d = (x, in_deliveries_update (tbl_put dl_id row') e)"
    and m: "moved row row'" and e: "in_deliveries e = in_deliveries d"
    and ks: "nf_id ` set (in_channels d) \<subseteq> nf_id ` set (in_channels e)"
    using retry_one_run [where E = E and C = C and ch = ch, OF Cons.prems(1) h] by blast
  define f where "f = in_deliveries_update (tbl_put dl_id row') e"
  have idr: "dl_id row' = dl_id row" using m by (simp add: moved_def)
  have dist: "distinct (map dl_id (in_deliveries f))"
    using Cons.prems(3) by (simp add: f_def e distinct_tbl_put)
  have known: "\<forall>(row, ch) \<in> set rest. dl_status row = DeliveryPending \<and> channels_known f row \<and> (\<forall>n. ch = Some n \<longrightarrow> nf_id n = dl_channel row)"
  proof -
    have "channels_known f l" if "channels_known d l" for l
      using that ks unfolding channels_known_def f_def by auto
    then show ?thesis using Cons.prems(4) by auto
  qed
  have rest: "distinct (map (\<lambda>p. dl_id (fst p)) rest)" "dl_id row \<notin> (\<lambda>p. dl_id (fst p)) ` set rest"
    using Cons.prems(2) by (simp_all add: p)
  have here: "row' \<in> set (in_deliveries f)"
    and there: "\<And>y. y \<in> set (in_deliveries d) \<Longrightarrow> dl_id y \<noteq> dl_id row \<Longrightarrow> y \<in> set (in_deliveries f)"
    by (auto simp: f_def e set_tbl_put idr)
  have step: "retry_loop E C (p # rest) n d = retry_loop E C rest (tally x n) f"
    by (simp add: p r f_def)
  note IH = Cons.IH [OF Cons.prems(1) rest(1) dist known, of "tally x n", unfolded Let_def]
  show ?case
    unfolding Let_def step
  proof (intro conjI ballI impI)
    fix y assume "y \<in> set (in_deliveries d)" "dl_id y \<notin> (\<lambda>p. dl_id (fst p)) ` set (p # rest)"
    then show "y \<in> set (in_deliveries (snd (retry_loop E C rest (tally x n) f)))"
      using IH there [of y] by (simp add: p)
  next
    fix q assume q: "q \<in> set (p # rest)"
    have "row' \<in> set (in_deliveries (snd (retry_loop E C rest (tally x n) f)))"
      using IH here rest(2) idr by simp
    then show "\<exists>row' \<in> set (in_deliveries (snd (retry_loop E C rest (tally x n) f))). moved (fst q) row'"
      using IH q m p by auto
  qed
qed simp

lemma due_distinct:
  assumes "distinct (map dl_id (in_deliveries d))"
  shows "distinct (map (\<lambda>p. dl_id (fst p)) (due_deliveries now limit d))"
proof -
  let ?p = "\<lambda>l. dl_status l = DeliveryPending \<and> dl_next l \<le> now"
  have "distinct (map dl_id (filter ?p (in_deliveries d)))"
    using assms by (simp add: distinct_map_filter)
  then have "distinct (map dl_id (sort_key dl_created_at (filter ?p (in_deliveries d))))"
    by (simp add: distinct_map)
  then show ?thesis
    unfolding due_deliveries_def by (simp add: comp_def take_map [symmetric] distinct_take)
qed

lemma retry_moves:
  assumes "de_dialect E = Sqlite" "distinct (map dl_id (in_deliveries d))"
    "\<forall>l \<in> set (in_deliveries d). channels_known d l"
    "(row, ch) \<in> set (due_deliveries (se_now (de_svc E)) 100 d)"
  shows "\<exists>row' \<in> set (in_deliveries (snd (retry_deliveries E C d))). moved row row'"
proof -
  have due: "\<forall>(row, ch) \<in> set (due_deliveries (se_now (de_svc E)) 100 d).
      dl_status row = DeliveryPending \<and> channels_known d row \<and> (\<forall>n. ch = Some n \<longrightarrow> nf_id n = dl_channel row)"
    using assms(3) by (auto dest!: due_member dest: find_SomeD)
  show ?thesis
    using retry_loop_moves [OF assms(1) due_distinct [OF assms(2)] assms(2) due, where n = "(0, 0, 0)" and C = C] assms(4)
    unfolding Let_def retry_deliveries_def by force
qed

end
