(* ===== verification/NotifyGuarantees.thy ===== *)
theory NotifyGuarantees
  imports NotifyLaws Samples
begin

text \<open>
  The properties of notifications: what an event leaves behind for every channel that subscribes
  to it, how often a delivery is tried, how a pass gets each of them nearer to its end, which mail
  connections carry a password, and what the texts do with long and hostile input.
\<close>

section \<open>Samples\<close>

definition deaf_couriers :: couriers where
  "deaf_couriers = \<lparr>co_request = (\<lambda>_. None), co_webhook = (\<lambda>_ _. Inl ''timeout''), co_slack = (\<lambda>_ _. Inl ''timeout''),
     co_telegram = (\<lambda>_ _. Inl ''timeout''), co_starttls = (\<lambda>_. False), co_smtp = (\<lambda>_ _ _. None)\<rparr>"

definition no_transports :: transports where
  "no_transports = \<lparr>tr_ca_pool = (\<lambda>_. True), tr_kube = (\<lambda>_ _ _ _. Inl ''timeout''), tr_hook = (\<lambda>_ _. Inl ''timeout''),
     tr_ssh_key = (\<lambda>_ _. True), tr_host_key = (\<lambda>_. True), tr_dial = (\<lambda>_. Some (False, ''timeout'')), tr_session = (\<lambda>_ _ _. None)\<rparr>"

definition hook_env :: deploy_env where
  "hook_env = \<lparr>de_svc = sample_env, de_dialect = Sqlite, de_transports = no_transports\<rparr>"

definition ops_channel :: channel where
  "ops_channel = \<lparr>nf_id = ''n-1'', nf_created_at = 0, nf_name = ''ops'', nf_channel = ''webhook'',
     nf_config = seal_config sample_env [(''url'', ''https://ops.lan'')], nf_events = [''*''], nf_enabled = True,
     nf_last_sent = None, nf_last_error = []\<rparr>"

definition ops_instance :: instance_db where
  "ops_instance = \<lparr>in_pki = empty_db, in_auth = empty_auth, in_channels = [ops_channel], in_deliveries = [], in_targets = [], in_jobs = []\<rparr>"

definition ops_event :: notify_event where
  "ops_event = \<lparr>ev_type = event_expiring, ev_title = ''Certificate www.lan expires in 3 days'', ev_message = [], ev_severity = ''warning'',
     ev_timestamp = 0, ev_data = []\<rparr>"

definition numbered :: "nat \<Rightarrow> string" where
  "numbered n = replicate n CHR ''i''"

lemma inj_numbered: "inj numbered"
  by (rule injI) (metis numbered_def length_replicate)

lemma hook_env_simps [simp]: "de_svc hook_env = sample_env" "de_dialect hook_env = Sqlite"
  by (simp_all add: hook_env_def)

lemma ops_simps [simp]:
  "in_channels ops_instance = [ops_channel]" "in_deliveries ops_instance = []" "nf_id ops_channel = ''n-1''" "nf_enabled ops_channel"
  by (simp_all add: ops_instance_def ops_channel_def)

lemma ops_subscribes: "enabled_channels (ev_type ops_event) ops_instance = [ops_channel]"
  by (simp add: enabled_channels_def Let_def ops_instance_def ops_channel_def)

lemma ops_attempt: "attempt hook_env deaf_couriers ops_channel ev = Inl ''notify: deliver webhook: timeout''"
  by (simp add: attempt_def notifier_for_def ops_channel_def open_sealed_config_def seal_config_def build_notifier_def setting_of_def
      label_value_def notify_send_def send_webhook_def deaf_couriers_def)

section \<open>Events\<close>

lemma enabled_ids:
  "set (enabled_channels e d) \<subseteq> set (in_channels d)"
  "distinct (map nf_id (in_channels d)) \<Longrightarrow> distinct (map nf_id (enabled_channels e d))"
  by (auto simp: enabled_channels_def Let_def distinct_map_filter split: if_splits)



section \<open>The queue\<close>

inductive notify_step :: "deploy_env \<Rightarrow> couriers \<Rightarrow> instance_db \<Rightarrow> instance_db \<Rightarrow> bool" for E :: deploy_env and C :: couriers where
  notify_create: "notify_step E C d (snd (create_notification E i inp d))"
| notify_update: "notify_step E C d (snd (update_notification E i unp d))"
| notify_delete: "notify_step E C d (snd (delete_notification i d))"
| notify_probe: "notify_step E C d (snd (test_notification E C i d))"
| notify_dispatch: "notify_step E C d (dispatch E C ids ev d)"
| notify_retry: "notify_step E C d (snd (retry_deliveries E C d))"
| notify_prune: "notify_step E C d (snd (prune_delivered before d))"

inductive notified :: "instance_db \<Rightarrow> bool" where
  notified_start: "in_deliveries d = [] \<Longrightarrow> notified d"
| notified_step: "notified d \<Longrightarrow> notify_step E C d d' \<Longrightarrow> notified d'"

inductive_cases notify_stepE: "notify_step E C d d'"

lemma keeps_queue:
  "keeps queue_ok (create_channel D n)" "keeps queue_ok (update_channel D n)" "keeps queue_ok (delete_channel i)"
  "keeps queue_ok (modifyS (record_delivery E row r))"
  by (auto simp: keeps_def create_channel_def repo_create_def update_channel_def repo_save_def delete_channel_def queue_ok_def
      modifyS_def record_delivery_def split: option.split)

lemma keeps_queue_services:
  "keeps queue_ok (create_notification E i inp)" "keeps queue_ok (update_notification E i unp)"
  "keeps queue_ok (delete_notification i)" "keeps queue_ok (test_notification E C i)"
  unfolding create_notification_def update_notification_def delete_notification_def test_notification_def channel_op_def Let_def
  by (intro keeps_intros keeps_basic keeps_map_errS keeps_queue)+

lemma queue_ok_step: "notify_step E C d d' \<Longrightarrow> queue_ok d \<Longrightarrow> queue_ok d'"
  by (induction rule: notify_step.induct)
    (auto simp: keepsD [OF keeps_queue_services(1)] keepsD [OF keeps_queue_services(2)] keepsD [OF keeps_queue_services(3)]
      keepsD [OF keeps_queue_services(4)] queue_ok_dispatch queue_ok_retry, auto simp: queue_ok_def prune_delivered_def Let_def)

lemma notified_queue_ok: "notified d \<Longrightarrow> queue_ok d"
proof (induction rule: notified.induct)
  case (notified_start d)
  then show ?case by (simp add: queue_ok_def)
qed (rule queue_ok_step)


lemma ops_queue:
  "in_deliveries (dispatch hook_env deaf_couriers numbered ops_event ops_instance) =
     [queued hook_env [] ops_channel ops_event ''notify: deliver webhook: timeout'']"
  by (simp add: dispatch_def ops_subscribes numbered_def dispatch_one_run ops_attempt del: replicate.simps) (simp add: numbered_def)


text \<open>A pass over the queue leaves every delivery it takes up either settled, delivered or given
  up, or waiting with one attempt more; with at most six attempts each, the deliveries of any
  channel come to an end.\<close>

theorem a_pass_moves_every_due_delivery:
  assumes "de_dialect E = Sqlite" "distinct (map dl_id (in_deliveries d))"
    "\<forall>l \<in> set (in_deliveries d). dl_channel l \<in> nf_id ` set (in_channels d)"
    "(l, ch) \<in> set (due_deliveries (se_now (de_svc E)) 100 d)"
  shows "\<exists>l' \<in> set (in_deliveries (snd (retry_deliveries E C d))). dl_id l' = dl_id l \<and>
    (dl_status l' \<noteq> DeliveryPending \<or> dl_attempts l' = dl_attempts l + 1)"
  using retry_moves [OF assms(1,2) _ assms(4), of C] assms(3) by (auto simp: channels_known_def moved_def)

definition waiting :: delivery where
  "waiting = \<lparr>dl_id = ''d-1'', dl_created_at = 0, dl_channel = ''n-1'', dl_event = event_expiring, dl_payload = ops_event,
     dl_status = DeliveryPending, dl_attempts = 5, dl_last_error = ''timeout'', dl_next = 0, dl_delivered = None\<rparr>"

lemma ops_due: "due_deliveries (se_now sample_env) 100 (ops_instance\<lparr>in_deliveries := [waiting]\<rparr>) = [(waiting, Some ops_channel)]"
  by (simp add: due_deliveries_def waiting_def ops_instance_def sample_env_def second_def)

theorem a_pass_moves_every_due_delivery_witness:
  "\<exists>l' \<in> set (in_deliveries (snd (retry_deliveries hook_env deaf_couriers (ops_instance\<lparr>in_deliveries := [waiting]\<rparr>)))).
     dl_id l' = ''d-1'' \<and> (dl_status l' \<noteq> DeliveryPending \<or> dl_attempts l' = 6)"
  using a_pass_moves_every_due_delivery
      [where E = hook_env and C = deaf_couriers and d = "ops_instance\<lparr>in_deliveries := [waiting]\<rparr>" and l = waiting and ch = "Some ops_channel"]
  by (simp add: ops_due) (simp add: waiting_def)

section \<open>Mail\<close>


definition mail_channel :: "string \<Rightarrow> smtp_channel" where
  "mail_channel user = \<lparr>sm_host = ''mx.lan'', sm_port = 0, sm_username = user, sm_password = ''pw'', sm_from = [], sm_to = [''ops@lan''],
     sm_tls = ''starttls'', sm_insecure = False\<rparr>"

text \<open>A server that offers \<open>STARTTLS\<close> and accepts everything.\<close>

abbreviation tls_couriers :: couriers where
  "tls_couriers \<equiv> deaf_couriers\<lparr>co_starttls := \<lambda>_. True\<rparr>"

lemma tls_mail: "smtp_dialogue tls_couriers (mail_channel ''certio'') ev =
    ([Dial (join_host_port ''mx.lan'' (dec_int 587)) False, Greeting, StartTls] @ PlainAuth ''certio'' ''pw'' #
       [MailFrom ''certio@localhost'', RcptTo ''ops@lan'', Data, Body (build_message ''certio@localhost'' [''ops@lan''] ev), EndData], Inr ())"
  by (simp add: smtp_dialogue_def smtp_steps_def mail_channel_def deaf_couriers_def Let_def equal_fold_def client_refuses_def
      encrypted_def one_line_def mail_steps_def)


text \<open>
  A channel set to \<open>starttls\<close> whose server does not offer it sends the message in the clear, when it
  has no user name.
\<close>

lemma starttls_falls_back:
  "snd (smtp_dialogue deaf_couriers (mail_channel []) ev) = Inr () \<and>
   \<not> encrypted (fst (smtp_dialogue deaf_couriers (mail_channel []) ev)) \<and>
   Body (build_message ''certio@localhost'' [''ops@lan''] ev) \<in> set (fst (smtp_dialogue deaf_couriers (mail_channel []) ev))"
proof -
  have "smtp_dialogue deaf_couriers (mail_channel []) ev = ([Dial (join_host_port ''mx.lan'' (dec_int 587)) False, Greeting,
      MailFrom ''certio@localhost'', RcptTo ''ops@lan'', Data, Body (build_message ''certio@localhost'' [''ops@lan''] ev), EndData], Inr ())"
    by (simp add: smtp_dialogue_def smtp_steps_def mail_channel_def deaf_couriers_def Let_def equal_fold_def client_refuses_def
        one_line_def mail_steps_def)
  then show ?thesis by (simp add: encrypted_def)
qed

section \<open>Texts\<close>

text \<open>A Telegram message never exceeds the 4096 bytes its server takes.\<close>

theorem telegram_text_fits: "length (telegram_text ev) \<le> 4096"
  using telegram_text_length [of ev] by (simp add: telegram_max_text_def)

text \<open>The details of an event come in the order of their keys: the insertion sort of the code is
  the sorting function.\<close>

theorem details_come_sorted: "sorted_keys m = sort (map fst m)"
  by (rule sorted_keys_sort)

text \<open>
  The cut of a long text opens a tag it does not close: a title of more than 4085 plain characters
  leaves the bold tag open, and the server refuses the message.
\<close>

lemma last_index_none: "c \<notin> set s \<Longrightarrow> last_index c s = -1"
  by (simp add: last_index_def)

lemma last_index_last:
  assumes "c \<notin> set t"
  shows "last_index c (s @ c # t) = int (length s)"
proof -
  have "takeWhile (\<lambda>x. x \<noteq> c) (rev t) = rev t"
    using assms by (auto simp: takeWhile_eq_all_conv)
  note tw = this
  show ?thesis by (simp add: last_index_def takeWhile_tail tw)
qed

lemma title_markup_is_cut:
  assumes "list_all plain_char (ev_title ev)" "4085 \<le> length (ev_title ev)" "ev_severity ev = ''critical''"
  shows "telegram_text ev = severity_emoji ''critical'' @ '' <b>'' @ take 4085 (ev_title ev) @ ellipsis"
proof -
  define emoji where "emoji = severity_emoji ''critical''"
  define title where "title = take 4085 (ev_title ev)"
  have e: "length emoji = 4" "to_valid_utf8 (emoji @ s) = emoji @ to_valid_utf8 s" "CHR ''<'' \<notin> set emoji" "CHR ''>'' \<notin> set emoji" for s
    by (simp_all add: emoji_def severity_emoji_def utf8_size_def tail_byte_def)
  have plain: "\<forall>c \<in> set title. plain_char c"
    using assms(1) unfolding title_def list_all_iff by (blast dest: in_set_takeD)
  obtain r where r: "telegram_body ev = emoji @ '' <b>'' @ ev_title ev @ ''</b>'' @ r"
    unfolding telegram_body_def escape_plain [OF assms(1)] assms(3) emoji_def [symmetric] by blast
  have "take 4093 (telegram_body ev) = emoji @ '' <b>'' @ title"
    using assms(2) by (simp add: r e(1) title_def take_Cons')
  moreover have "to_valid_utf8 (emoji @ '' <b>'' @ title) = emoji @ '' <b>'' @ title"
    using plain by (subst e(2), subst valid_ascii) (auto simp: plain_char_def)
  moreover have "drop_open_tag (emoji @ '' <b>'' @ title) = emoji @ '' <b>'' @ title"
  proof -
    have t: "CHR ''<'' \<notin> set title" "CHR ''>'' \<notin> set title"
      using plain by (auto simp: plain_char_def)
    have "last_index CHR ''>'' ((emoji @ '' <b'') @ CHR ''>'' # title) = int (length (emoji @ '' <b''))"
      by (rule last_index_last) (rule t(2))
    moreover have "last_index CHR ''<'' ((emoji @ '' '') @ CHR ''<'' # ''b>'' @ title) = int (length (emoji @ '' ''))"
      by (rule last_index_last) (simp add: t(1))
    ultimately show ?thesis by (simp add: drop_open_tag_def Let_def)
  qed
  moreover have "4096 < length (telegram_body ev)"
    using assms(2) by (simp add: r e(1))
  ultimately show ?thesis
    by (simp add: telegram_text_def telegram_max_text_def ellipsis_def emoji_def title_def)
qed

text \<open>A line break in the title of an event ends the subject of the mail and starts another header.\<close>

lemma title_adds_a_header:
  assumes "ev_title ev = t @ crlf @ ''Bcc: x@lan''"
  shows "\<exists>a b. build_message sender to ev = a @ crlf @ ''Bcc: x@lan'' @ crlf @ b"
  unfolding build_message_def
  by (rule exI [of _ "''From: '' @ sender @ crlf @ ''To: '' @ join_with '', '' to @ crlf @ ''Subject: [certio] '' @ t"]) (simp add: assms)

text \<open>A channel with deliveries on record cannot be deleted.\<close>

lemma channel_with_deliveries_stays:
  assumes "get_channel i d = Inr n" "l \<in> set (in_deliveries d)" "dl_channel l = i"
  shows "delete_notification i d = (Inl (NStore ForeignKeyViolation), d)"
proof -
  have "tbl_has nf_id i (in_channels d)"
    using assms(1) by (auto simp: get_channel_def tbl_has_iff dest: tbl_get_InrD)
  then show ?thesis
    using assms by (auto simp: delete_notification_def bindS_def readS_def channel_op_def map_errS_def map_err_def delete_channel_def list_ex_iff)
qed

end
