(* ===== verification/Scheduler.thy ===== *)
theory Scheduler
  imports SvcNotify SvcAcme
begin

text \<open>
  \<open>internal/schedule/scheduler.go\<close>: the background jobs, each recorded in the table of jobs, and a pass
  over them.  \<open>sched_env\<close> has what the jobs use: the environment of the services, the far ends
  of notifications and deployments, the texts of errors, and the random draws and keys of new
  rows, by the number of the certificate or event they are for.  The clock is read once in a pass,
  and the pass is not cancelled.  A job, and with it a pass, has no result when the process
  crashes in it.
\<close>

record sched_env =
  sc_deploy :: deploy_env
  sc_couriers :: couriers
  sc_error_text :: "svc_error \<Rightarrow> string"
  sc_draws :: "nat \<Rightarrow> draws"
  sc_ids :: "nat \<Rightarrow> nat \<Rightarrow> string"
  sc_job_id :: "string \<Rightarrow> string"

type_synonym job_result = "string + (string \<times> int) list"

abbreviation sc_svc :: "sched_env \<Rightarrow> svc_env" where "sc_svc S \<equiv> de_svc (sc_deploy S)"

definition on_pki :: "(db, 'e, 'a) op \<Rightarrow> (instance_db, 'e, 'a) op" where
  "on_pki m = (\<lambda>d. case m (in_pki d) of (r, p) \<Rightarrow> (r, in_pki_update (\<lambda>_. p) d))"

section \<open>Expiry\<close>

definition job_expiry_scan :: string where "job_expiry_scan = ''expiry_scan''"
definition job_auto_renew :: string where "job_auto_renew = ''auto_renew''"
definition job_crl_refresh :: string where "job_crl_refresh = ''crl_refresh''"
definition job_deploy :: string where "job_deploy = ''deploy''"
definition job_retry_notify :: string where "job_retry_notify = ''notify_retry''"
definition job_prune :: string where "job_prune = ''prune''"

definition expiry_event :: "instant \<Rightarrow> certificate \<Rightarrow> notify_event" where
  "expiry_event now c =
     (let gone = days_remaining now c < 0
      in \<lparr>ev_type = (if gone then event_expired else event_expiring),
          ev_title = (if gone then ''Certificate '' @ cr_common_name c @ '' has expired''
             else ''Certificate '' @ cr_common_name c @ '' expires in '' @ dec_int (days_remaining now c) @ '' days''),
          ev_message = (if gone then cr_common_name c @ '' expired on '' @ date_text (cr_not_after c) @ '' and is no longer accepted by clients.''
             else cr_common_name c @ '' expires on '' @ date_text (cr_not_after c) @ ''. Renew it before then, or enable auto-renew.''),
          ev_severity = (if gone then ''critical'' else ''warning''), ev_timestamp = now,
          ev_data = [(''common_name'', JStr (cr_common_name c)), (''serial_number'', JStr (cr_serial c)),
            (''not_after'', JStr (rfc3339 (cr_not_after c))), (''days_remaining'', JInt (days_remaining now c)),
            (''auto_renew'', JBool (cr_auto_renew c))]\<rparr>)"

definition authority_event :: "instant \<Rightarrow> authority \<Rightarrow> notify_event" where
  "authority_event now a =
     (let days = whole_days (au_not_after a - now)
      in \<lparr>ev_type = event_authority_expiring,
          ev_title = ''Certificate authority '' @ au_name a @ '' expires in '' @ dec_int days @ '' days'',
          ev_message = au_name a @ '' expires on '' @ date_text (au_not_after a) @
            ''. Every certificate it issued stops verifying then. Renew the CA before renewing anything under it.'',
          ev_severity = ''critical'', ev_timestamp = now,
          ev_data = [(''authority'', JStr (au_name a)), (''not_after'', JStr (rfc3339 (au_not_after a))), (''days_remaining'', JInt days)]\<rparr>)"

definition renewing_itself :: "instant \<Rightarrow> certificate \<Rightarrow> bool" where
  "renewing_itself now c = (cr_auto_renew c \<and> 0 < days_remaining now c)"

text \<open>One event after the other; the number of the event picks the keys of its deliveries.\<close>

fun dispatch_all :: "sched_env \<Rightarrow> nat \<Rightarrow> notify_event list \<Rightarrow> instance_db \<Rightarrow> instance_db" where
  "dispatch_all S n [] d = d"
| "dispatch_all S n (ev # evs) d = dispatch_all S (Suc n) evs (dispatch (sc_deploy S) (sc_couriers S) (sc_ids S n) ev d)"

definition urgent_authority :: "authority \<Rightarrow> bool" where
  "urgent_authority a = (au_status a = StExpiring \<or> au_status a = StExpired)"

definition scan_events :: "instant \<Rightarrow> int \<Rightarrow> db \<Rightarrow> notify_event list" where
  "scan_events now warn d =
     map (expiry_event now) (filter (\<lambda>c. \<not> renewing_itself now c) (expiring_before (add_days now warn) d)) @
     map (authority_event now) (filter urgent_authority (all_authorities d))"

definition expiry_scan :: "sched_env \<Rightarrow> instance_db \<Rightarrow> job_result \<times> instance_db" where
  "expiry_scan S d =
     (let E = sc_svc S; now = se_now E in
      case on_pki (refresh_certificate_statuses E) d of
        (Inl e, d) \<Rightarrow> (Inl (''refresh certificate statuses: '' @ sc_error_text S e), d)
      | (Inr certs, d) \<Rightarrow> (case on_pki (refresh_authority_statuses E) d of
          (Inl e, d) \<Rightarrow> (Inl (''refresh authority statuses: '' @ sc_error_text S e), d)
        | (Inr cas, d) \<Rightarrow>
            let evs = scan_events now (cfg_warn_days E) (in_pki d)
            in (Inr [(''certificates_updated'', certs), (''authorities_updated'', cas),
                  (''expiring'', int (length (expiring_before (add_days now (cfg_warn_days E)) (in_pki d)))),
                  (''notifications_sent'', int (length evs))],
                dispatch_all S 0 evs d)))"

section \<open>Renewal\<close>

definition failed_renewal_event :: "instant \<Rightarrow> certificate \<Rightarrow> string \<Rightarrow> notify_event" where
  "failed_renewal_event now c e = \<lparr>ev_type = event_renewal_failed, ev_title = ''Auto-renewal failed for '' @ cr_common_name c,
     ev_message = ''Certio could not renew '' @ cr_common_name c @ '': '' @ e, ev_severity = ''critical'', ev_timestamp = now,
     ev_data = [(''common_name'', JStr (cr_common_name c)), (''certificate_id'', JStr (cr_id c)),
       (''not_after'', JStr (rfc3339 (cr_not_after c))), (''error'', JStr e)]\<rparr>"

definition renewed_event :: "instant \<Rightarrow> certificate \<Rightarrow> certificate \<Rightarrow> notify_event" where
  "renewed_event now c new = \<lparr>ev_type = event_renewed, ev_title = ''Renewed '' @ cr_common_name c,
     ev_message = cr_common_name c @ '' was renewed automatically and is now valid until '' @ date_text (cr_not_after new) @
       ''. Deploy the new certificate to take effect.'',
     ev_severity = ''success'', ev_timestamp = now,
     ev_data = [(''common_name'', JStr (cr_common_name c)), (''old_id'', JStr (cr_id c)), (''new_id'', JStr (cr_id new)),
       (''new_serial'', JStr (cr_serial new)), (''new_not_after'', JStr (rfc3339 (cr_not_after new)))]\<rparr>"

definition scheduled_renewal :: renew_input where
  "scheduled_renewal = \<lparr>wi_rekey = False, wi_key_algorithm = [], wi_validity_days = 0, wi_sans = [],
     wi_passphrase = []\<rparr>"

text \<open>Renewing the \<open>n\<close>-th certificate that is due, and telling about it.\<close>

definition renew_one :: "sched_env \<Rightarrow> nat \<Rightarrow> certificate \<Rightarrow> instance_db \<Rightarrow> bool \<times> instance_db" where
  "renew_one S n c d =
     (let E = sc_svc S; now = se_now E; tell = (\<lambda>ev. dispatch (sc_deploy S) (sc_couriers S) (sc_ids S n) ev) in
      case on_pki (renew_certificate E (sc_draws S n) (cr_id c) scheduled_renewal) d of
        (Inl e, d) \<Rightarrow> (False, tell (failed_renewal_event now c (sc_error_text S e)) d)
      | (Inr res, d) \<Rightarrow> (True, tell (renewed_event now c (ir_row res)) d))"

fun renew_all :: "sched_env \<Rightarrow> nat \<Rightarrow> certificate list \<Rightarrow> nat \<times> nat \<Rightarrow> instance_db \<Rightarrow> (nat \<times> nat) \<times> instance_db" where
  "renew_all S n [] (renewed, failed) d = ((renewed, failed), d)"
| "renew_all S n (c # cs) (renewed, failed) d = (case renew_one S n c d of
     (ok, d) \<Rightarrow> renew_all S (Suc n) cs (if ok then (Suc renewed, failed) else (renewed, Suc failed)) d)"

definition auto_renew :: "sched_env \<Rightarrow> instance_db \<Rightarrow> job_result \<times> instance_db" where
  "auto_renew S d =
     (let due = due_for_auto_renew (se_now (sc_svc S)) (in_pki d) in
      case renew_all S 0 due (0, 0) d of ((renewed, failed), d) \<Rightarrow>
        (Inr [(''due'', int (length due)), (''renewed'', int renewed), (''failed'', int failed)], d))"

section \<open>Deploying, retrying, pruning\<close>

definition deploy_job :: "sched_env \<Rightarrow> instance_db \<Rightarrow> (job_result \<times> instance_db) option" where
  "deploy_job S d = map_option (\<lambda>((deployed, failed), d). (Inr [(''deployed'', int deployed), (''failed'', int failed)], d))
     (deploy_pending (sc_deploy S) d)"

definition retry_notifications :: "sched_env \<Rightarrow> instance_db \<Rightarrow> job_result \<times> instance_db" where
  "retry_notifications S d = (case retry_deliveries (sc_deploy S) (sc_couriers S) d of ((delivered, retried, abandoned), d) \<Rightarrow>
     (Inr [(''delivered'', int delivered), (''retried'', int retried), (''abandoned'', int abandoned)], d))"

definition job_history_days :: int where "job_history_days = 30"
definition delivery_history_days :: int where "delivery_history_days = 7"

definition prune :: "sched_env \<Rightarrow> instance_db \<Rightarrow> job_result \<times> instance_db" where
  "prune S d =
     (let now = se_now (sc_svc S) in
      case prune_sessions now (in_auth d) of (sessions, au) \<Rightarrow>
      case prune_jobs (add_days now (- job_history_days)) (in_auth_update (\<lambda>_. au) d) of (jobs, d) \<Rightarrow>
      case prune_acme now (in_pki d) of ((nonces, orders), p) \<Rightarrow>
      case prune_delivered (add_days now (- delivery_history_days)) (in_pki_update (\<lambda>_. p) d) of (deliveries, d) \<Rightarrow>
        (Inr [(''sessions'', int sessions), (''jobs'', int jobs), (''deliveries'', int deliveries),
           (''acme_nonces'', int nonces), (''acme_orders'', int orders)], d))"

section \<open>Revocation lists\<close>

definition unattended :: "authority \<Rightarrow> bool" where
  "unattended a = (\<not> au_passphrase_protected a \<and> au_status a \<noteq> StExpired)"

fun refresh_lists :: "svc_env \<Rightarrow> authority list \<Rightarrow> nat \<times> nat \<times> nat \<Rightarrow> instance_db \<Rightarrow> (nat \<times> nat \<times> nat) \<times> instance_db" where
  "refresh_lists E [] n d = (n, d)"
| "refresh_lists E (a # as) (refreshed, skipped, failed) d =
     (if \<not> unattended a then refresh_lists E as (refreshed, Suc skipped, failed) d
      else (case on_pki (publish_crl E (au_id a) []) d of
          (Inl _, d) \<Rightarrow> refresh_lists E as (refreshed, skipped, Suc failed) d
        | (Inr _, d) \<Rightarrow> refresh_lists E as (Suc refreshed, skipped, failed) d))"

definition refresh_crls :: "sched_env \<Rightarrow> instance_db \<Rightarrow> job_result \<times> instance_db" where
  "refresh_crls S d = (case refresh_lists (sc_svc S) (all_authorities (in_pki d)) (0, 0, 0) d of ((refreshed, skipped, failed), d) \<Rightarrow>
     (Inr [(''refreshed'', int refreshed), (''skipped'', int skipped), (''failed'', int failed)], d))"

section \<open>Jobs\<close>

definition new_job :: "sched_env \<Rightarrow> string \<Rightarrow> job" where
  "new_job S kind = \<lparr>jb_id = sc_job_id S kind, jb_created_at = se_now (sc_svc S), jb_kind = kind, jb_status = JobRunning,
     jb_result = [], jb_error = [], jb_started = Some (se_now (sc_svc S)), jb_finished = None\<rparr>"

definition finished_job :: "sched_env \<Rightarrow> string \<Rightarrow> job_result \<Rightarrow> job" where
  "finished_job S kind r = (let j = (new_job S kind)\<lparr>jb_finished := Some (se_now (sc_svc S))\<rparr> in
     case r of Inl e \<Rightarrow> j\<lparr>jb_status := JobFailed, jb_error := e\<rparr> | Inr res \<Rightarrow> j\<lparr>jb_status := JobSucceeded, jb_result := res\<rparr>)"

definition run_job :: "sched_env \<Rightarrow> string \<Rightarrow> (instance_db \<Rightarrow> (job_result \<times> instance_db) option) \<Rightarrow> instance_db \<Rightarrow> instance_db option" where
  "run_job S kind f d = (case f (snd (create_job (de_dialect (sc_deploy S)) (new_job S kind) d)) of
       None \<Rightarrow> None
     | Some (r, d) \<Rightarrow> Some (snd (update_job (de_dialect (sc_deploy S)) (finished_job S kind r) d)))"

definition run_once :: "sched_env \<Rightarrow> instance_db \<Rightarrow> instance_db option" where
  "run_once S d =
     Option.bind (run_job S job_expiry_scan (\<lambda>d. Some (expiry_scan S d)) d) (\<lambda>d.
     Option.bind (run_job S job_auto_renew (\<lambda>d. Some (auto_renew S d)) d) (\<lambda>d.
     Option.bind (run_job S job_deploy (deploy_job S) d) (\<lambda>d.
     Option.bind (run_job S job_retry_notify (\<lambda>d. Some (retry_notifications S d)) d) (\<lambda>d.
     run_job S job_prune (\<lambda>d. Some (prune S d)) d))))"

definition refresh_all_crls :: "sched_env \<Rightarrow> instance_db \<Rightarrow> instance_db option" where
  "refresh_all_crls S = run_job S job_crl_refresh (\<lambda>d. Some (refresh_crls S d))"

end
