(* ===== verification/Dashboard.thy ===== *)
theory Dashboard
  imports StoreOps
begin

text \<open>
  \<open>internal/service/dashboard.go\<close> and \<open>internal/service/metrics.go\<close>: what the landing page shows of a
  database, and the state of the PKI that a scrape reads.  Durations are 64-bit counts of
  nanoseconds, whose product wraps around.
\<close>

section \<open>Durations in 64 bits\<close>

definition wrap64 :: "int \<Rightarrow> int" where
  "wrap64 i = (i + 2 ^ 63) mod 2 ^ 64 - 2 ^ 63"

text \<open>\<open>Time.Sub\<close> stops at the ends of the range.\<close>

definition time_sub :: "instant \<Rightarrow> instant \<Rightarrow> duration" where
  "time_sub a b = max (- (2 ^ 63)) (min (2 ^ 63 - 1) (a - b))"

lemma wrap64_id: "- (2 ^ 63) \<le> i \<Longrightarrow> i < 2 ^ 63 \<Longrightarrow> wrap64 i = i"
  by (simp add: wrap64_def)

lemma time_sub_id: "- (2 ^ 63) \<le> a - b \<Longrightarrow> a - b < 2 ^ 63 \<Longrightarrow> time_sub a b = a - b"
  by (simp add: time_sub_def)

section \<open>The landing page\<close>

definition percent_elapsed :: "instant \<Rightarrow> instant \<Rightarrow> instant \<Rightarrow> int" where
  "percent_elapsed nb na now =
     (let total = time_sub na nb in
      if total \<le> 0 then 100
      else
        let elapsed = time_sub now nb;
            pct = trunc_div (wrap64 (elapsed * 100)) total
        in if pct < 0 then 0 else if 100 < pct then 100 else pct)"

datatype severity = SevOk | SevWarning | SevCritical | SevExpired

definition critical_days :: int where "critical_days = 7"

definition severity_for :: "certificate \<Rightarrow> int \<Rightarrow> instant \<Rightarrow> severity" where
  "severity_for c warn now =
     (if cr_status c = StRevoked \<or> cr_not_after c < now then SevExpired
      else if cr_not_after c < add_days now critical_days then SevCritical
      else if cr_not_after c < add_days now warn then SevWarning
      else SevOk)"

record expiry_entry =
  ee_id :: string
  ee_common_name :: string
  ee_authority :: string
  ee_authority_name :: string
  ee_not_before :: instant
  ee_not_after :: instant
  ee_days :: int
  ee_percent :: int
  ee_status :: status
  ee_severity :: severity
  ee_auto_renew :: bool

definition authority_name :: "authority list \<Rightarrow> string \<Rightarrow> string" where
  "authority_name as i = (case List.find (\<lambda>a. au_id a = i) (rev as) of None \<Rightarrow> [] | Some a \<Rightarrow> au_name a)"

definition expiry_entry_of :: "instant \<Rightarrow> int \<Rightarrow> authority list \<Rightarrow> certificate \<Rightarrow> expiry_entry" where
  "expiry_entry_of now warn as c = \<lparr>ee_id = cr_id c, ee_common_name = cr_common_name c, ee_authority = cr_authority c,
     ee_authority_name = authority_name as (cr_authority c), ee_not_before = cr_not_before c, ee_not_after = cr_not_after c,
     ee_days = days_remaining now c, ee_percent = percent_elapsed (cr_not_before c) (cr_not_after c) now,
     ee_status = derive_status now warn c, ee_severity = severity_for c warn now, ee_auto_renew = cr_auto_renew c\<rparr>"

definition expiry_timeline :: "dialect \<Rightarrow> instant \<Rightarrow> int \<Rightarrow> int \<Rightarrow> db \<Rightarrow> expiry_entry list" where
  "expiry_timeline D now warn limit d =
     sort_key ee_not_after (map (expiry_entry_of now warn (all_authorities d))
       (p_items (list_certificates D now (any_certificate\<lparr>cf_sort_by := ''not_after''\<rparr>) \<lparr>pg_page = 1, pg_limit = limit\<rparr> d)))"

record count_summary =
  cs_total :: nat
  cs_active :: nat
  cs_expiring :: nat
  cs_expired :: nat
  cs_revoked :: nat

definition count_of :: "string \<Rightarrow> (string \<times> nat) list \<Rightarrow> nat" where
  "count_of k m = (case map_of m k of None \<Rightarrow> 0 | Some n \<Rightarrow> n)"

definition summarize :: "(string \<times> nat) list \<Rightarrow> count_summary" where
  "summarize m = \<lparr>cs_total = sum_list (map snd m), cs_active = count_of ''active'' m, cs_expiring = count_of ''expiring'' m,
     cs_expired = count_of ''expired'' m, cs_revoked = count_of ''revoked'' m\<rparr>"

record dashboard_stats =
  ds_authorities :: count_summary
  ds_certificates :: count_summary
  ds_expiring_soon :: "expiry_entry list"
  ds_timeline :: "expiry_entry list"
  ds_revocations :: nat
  ds_by_profile :: "(string \<times> nat) list"
  ds_recent :: "audit_log list"
  ds_last_job :: "job option"
  ds_generated :: instant

definition dashboard :: "dialect \<Rightarrow> instant \<Rightarrow> int \<Rightarrow> audit_log list \<Rightarrow> instance_db \<Rightarrow> dashboard_stats" where
  "dashboard D now warn logs d =
     (let timeline = expiry_timeline D now warn 20 (in_pki d)
      in \<lparr>ds_authorities = summarize (count_authorities_by_status (in_pki d)),
          ds_certificates = summarize (count_certificates_by_status (in_pki d)),
          ds_expiring_soon = filter (\<lambda>e. ee_not_after e < add_days now warn) timeline, ds_timeline = timeline,
          ds_revocations = count_revocations (in_pki d), ds_by_profile = count_certificates_by_profile (in_pki d),
          ds_recent = recent_audit 10 logs,
          ds_last_job = (case last_run ''expiry_scan'' d of Inl _ \<Rightarrow> None | Inr j \<Rightarrow> Some j), ds_generated = now\<rparr>)"

section \<open>A scrape\<close>

record certificate_state =
  ct_common_name :: string
  ct_authority :: string
  ct_serial :: string
  ct_profile :: string
  ct_status :: status
  ct_not_after :: instant
  ct_auto_renew :: bool

record authority_state =
  at_name :: string
  at_type :: authority_type
  at_status :: status
  at_not_after :: instant

record snapshot =
  sn_certificates :: "certificate_state list"
  sn_authorities :: "authority_state list"
  sn_revocations :: nat

text \<open>The status of a summary is derived as that of a row with the same status and end.\<close>

definition summary_status :: "instant \<Rightarrow> int \<Rightarrow> certificate_summary \<Rightarrow> status" where
  "summary_status now warn r =
     (if sm_status r = StRevoked then StRevoked
      else if sm_status r = StHeld then StHeld
      else if sm_not_after r < now then StExpired
      else if sm_not_after r < add_days now warn then StExpiring
      else StActive)"

definition certificate_state_of :: "instant \<Rightarrow> int \<Rightarrow> authority list \<Rightarrow> certificate_summary \<Rightarrow> certificate_state" where
  "certificate_state_of now warn as r = \<lparr>ct_common_name = sm_common_name r, ct_authority = authority_name as (sm_authority r),
     ct_serial = sm_serial r, ct_profile = sm_profile r, ct_status = summary_status now warn r,
     ct_not_after = sm_not_after r, ct_auto_renew = sm_auto_renew r\<rparr>"

definition metrics_snapshot :: "instant \<Rightarrow> int \<Rightarrow> db \<Rightarrow> snapshot" where
  "metrics_snapshot now warn d =
     (let as = all_authorities d
      in \<lparr>sn_certificates = map (certificate_state_of now warn as) (certificate_summaries d),
          sn_authorities = map (\<lambda>a. \<lparr>at_name = au_name a, at_type = au_type a, at_status = au_status a, at_not_after = au_not_after a\<rparr>) as,
          sn_revocations = count_revocations d\<rparr>)"

section \<open>Properties\<close>

lemma percent_bounds: "0 \<le> percent_elapsed nb na now \<and> percent_elapsed nb na now \<le> 100"
  by (simp add: percent_elapsed_def Let_def)

end
