(* ===== verification/SchedulerGuarantees.thy ===== *)
theory SchedulerGuarantees
  imports Scheduler CertioReach DeployLaws NotifyLaws Dashboard Samples
begin

text \<open>
  The properties of the background work: a pass only makes steps that the services make, so every
  invariant of the database holds after it; when an expiry is announced; and what
  the landing page counts and measures.
\<close>

section \<open>What notifications leave alone\<close>

lemma record_delivery_pki [simp]: "in_pki (record_delivery E row r d) = in_pki d"
  by (simp add: record_delivery_def update_channel_def repo_save_def split: option.split)

lemma dispatch_one_pki [simp]: "in_pki (dispatch_one E C ev i row d) = in_pki d"
  by (simp add: dispatch_one_def deliver_def Let_def queue_retry_def create_delivery_def repo_create_def
      split: sum.split prod.split option.split)

lemma dispatch_loop_pki [simp]: "in_pki (dispatch_loop E C ev ids n rows d) = in_pki d"
  by (induction rows arbitrary: n d) simp_all

lemma dispatch_pki [simp]: "in_pki (dispatch E C ids ev d) = in_pki d"
  by (simp add: dispatch_def)

lemma dispatch_all_pki [simp]: "in_pki (dispatch_all S n evs d) = in_pki d"
  by (induction evs arbitrary: n d) simp_all

lemma update_delivery_pki [simp]: "in_pki (snd (update_delivery D l d)) = in_pki d"
  by (simp add: update_delivery_def repo_save_def split: option.split)

lemma retry_one_pki [simp]: "in_pki (snd (retry_one E C row ch d)) = in_pki d"
  by (simp add: retry_one_def deliver_def Let_def split: option.split prod.split)

lemma retry_loop_pki [simp]: "in_pki (snd (retry_loop E C due n d)) = in_pki d"
proof (induction due arbitrary: n d)
  case (Cons p due)
  obtain row ch where p: "p = (row, ch)" by force
  obtain x e where r: "retry_one E C row ch d = (x, e)" by force
  have "in_pki e = in_pki d" using retry_one_pki [of E C row ch d] by (simp add: r)
  then show ?case using Cons [of "tally x n" e] by (simp add: p r)
qed simp

lemma retry_pki [simp]: "in_pki (snd (retry_deliveries E C d)) = in_pki d"
  by (simp add: retry_deliveries_def)

lemma job_rows_pki [simp]: "in_pki (snd (create_job D j d)) = in_pki d" "in_pki (snd (update_job D j d)) = in_pki d"
  by (simp_all add: create_job_def update_job_def repo_create_def repo_save_def split: option.split)

section \<open>Steps of the services\<close>

lemma on_pki_snd [simp]: "in_pki (snd (on_pki m d)) = snd (m (in_pki d))"
  by (simp add: on_pki_def split: prod.split)

lemma on_pki_step: "on_pki m d = (r, d') \<Longrightarrow> in_pki d' = snd (m (in_pki d))"
  using on_pki_snd [of m d] by simp

lemma certio_calls:
  assumes "certio d"
  shows "certio (snd (refresh_certificate_statuses E d))" "certio (snd (refresh_authority_statuses E d))"
    "certio (snd (renew_certificate E R i inp d))" "certio (snd (publish_crl E i p d))" "certio (snd (prune_acme now d))"
  by (rule certio_pki [OF assms step_refresh] certio_pki [OF assms step_refresh_authorities] certio_pki [OF assms step_renew]
      certio_pki [OF assms step_publish_crl] certio_acme [OF assms acme_prune])+

lemma scan_certio: "certio (in_pki d) \<Longrightarrow> certio (in_pki (snd (expiry_scan S d)))"
  by (auto simp: expiry_scan_def Let_def certio_calls split: prod.split sum.split dest!: on_pki_step)

lemma renew_one_certio: "certio (in_pki d) \<Longrightarrow> certio (in_pki (snd (renew_one S n c d)))"
  by (auto simp: renew_one_def Let_def certio_calls split: prod.split sum.split dest!: on_pki_step)

lemma renew_all_certio: "certio (in_pki d) \<Longrightarrow> certio (in_pki (snd (renew_all S n cs k d)))"
proof (induction cs arbitrary: n k d)
  case Nil
  then show ?case by (cases k) simp
next
  case (Cons c cs)
  obtain a b where k: "k = (a, b)" by force
  obtain ok e where r: "renew_one S n c d = (ok, e)" by force
  have "certio (in_pki e)" using renew_one_certio [OF Cons.prems, of S n c] by (simp add: r)
  then show ?case using Cons.IH by (simp add: k r)
qed

lemma auto_renew_certio: "certio (in_pki d) \<Longrightarrow> certio (in_pki (snd (auto_renew S d)))"
  using renew_all_certio [of d S 0 "due_for_auto_renew (se_now (sc_svc S)) (in_pki d)" "(0, 0)"]
  by (auto simp: auto_renew_def Let_def split: prod.split)

lemma deploy_pki: "deploy_pending E d = Some (n, d') \<Longrightarrow> in_pki d' = in_pki d"
  by (auto simp: deploy_pending_def Let_def split: if_splits dest: pending_pki)

lemma prune_certio: "certio (in_pki d) \<Longrightarrow> certio (in_pki (snd (prune S d)))"
  using certio_calls(5) [of "in_pki d" "se_now (sc_svc S)"]
  by (auto simp: prune_def Let_def prune_jobs_def prune_delivered_def split: prod.split)

lemma lists_certio: "certio (in_pki d) \<Longrightarrow> certio (in_pki (snd (refresh_lists E as n d)))"
proof (induction E as n d rule: refresh_lists.induct)
  case (2 E a as refreshed skipped failed d)
  show ?case
  proof (cases "unattended a")
    case True
    obtain r e where r: "on_pki (publish_crl E (au_id a) []) d = (r, e)" by force
    have "certio (in_pki e)"
      using "2.prems" on_pki_step [OF r] by (simp add: certio_calls)
    then show ?thesis using True r "2.IH"(2,3) by (auto split: sum.split)
  qed (use 2 in simp)
qed simp

lemma run_job_certio:
  assumes "\<And>d r d'. f d = Some (r, d') \<Longrightarrow> certio (in_pki d) \<Longrightarrow> certio (in_pki d')"
    "run_job S kind f d = Some d'" "certio (in_pki d)"
  shows "certio (in_pki d')"
proof -
  obtain r e where e: "f (snd (create_job (de_dialect (sc_deploy S)) (new_job S kind) d)) = Some (r, e)" "in_pki d' = in_pki e"
    using assms(2) by (auto simp: run_job_def split: option.splits)
  then show ?thesis using assms(1) [OF e(1)] assms(3) by simp
qed

lemma run_total_job_certio:
  assumes "run_job S kind (\<lambda>d. Some (f d)) d = Some d'" "certio (in_pki d)" "\<And>d. certio (in_pki d) \<Longrightarrow> certio (in_pki (snd (f d)))"
  shows "certio (in_pki d')"
  using assms(3) by (intro run_job_certio [OF _ assms(1,2)]) (metis option.inject snd_conv)

lemma crls_certio: "certio (in_pki d) \<Longrightarrow> certio (in_pki (snd (refresh_crls S d)))"
  using lists_certio [of d "sc_svc S" "all_authorities (in_pki d)" "(0, 0, 0)"]
  by (auto simp: refresh_crls_def split: prod.split)

lemma retry_certio: "certio (in_pki d) \<Longrightarrow> certio (in_pki (snd (retry_notifications S d)))"
  using retry_pki [of "sc_deploy S" "sc_couriers S" d]
  by (auto simp: retry_notifications_def split: prod.split simp del: retry_pki)

lemma deploy_certio: "run_job S kind (deploy_job S) d = Some d' \<Longrightarrow> certio (in_pki d) \<Longrightarrow> certio (in_pki d')"
  by (erule run_job_certio [rotated]) (auto simp: deploy_job_def dest: deploy_pki)

lemmas job_certio = run_total_job_certio [OF _ _ scan_certio] run_total_job_certio [OF _ _ auto_renew_certio] deploy_certio
  run_total_job_certio [OF _ _ retry_certio] run_total_job_certio [OF _ _ prune_certio] run_total_job_certio [OF _ _ crls_certio]

lemma run_once_certio: "run_once S d = Some d' \<Longrightarrow> certio (in_pki d) \<Longrightarrow> certio (in_pki d')"
  by (auto simp: run_once_def bind_eq_Some_conv dest!: job_certio)

lemma refresh_crls_certio: "refresh_all_crls S d = Some d' \<Longrightarrow> certio (in_pki d) \<Longrightarrow> certio (in_pki d')"
  by (auto simp: refresh_all_crls_def dest!: job_certio)

text \<open>C28: the background work takes the database nowhere the services could not: after a full pass
  (scanning, renewing, deploying, retrying, pruning) and after a refresh of the revocation lists, the
  tables of the PKI and of ACME are in a state that calls of the services reach, so all their
  invariants hold.\<close>

theorem background_work_keeps_the_invariants:
  assumes "certio (in_pki d)" "run_once S d = Some d' \<or> refresh_all_crls S d = Some d'"
  shows "certio (in_pki d') \<and> both_inv (in_pki d')"
  using assms run_once_certio refresh_crls_certio certio_both by blast

lemma run_job_total: "\<exists>d'. run_job S kind (\<lambda>d. Some (g d)) d = Some d'"
  by (simp add: run_job_def split: prod.split)

definition quiet_sched :: sched_env where
  "quiet_sched = \<lparr>sc_deploy = \<lparr>de_svc = sample_env, de_dialect = Sqlite, de_transports =
       \<lparr>tr_ca_pool = (\<lambda>_. True), tr_kube = (\<lambda>_ _ _ _. Inl ''timeout''), tr_hook = (\<lambda>_ _. Inl ''timeout''), tr_ssh_key = (\<lambda>_ _. True),
        tr_host_key = (\<lambda>_. True), tr_dial = (\<lambda>_. None), tr_session = (\<lambda>_ _ _. None)\<rparr>\<rparr>,
     sc_couriers = \<lparr>co_request = (\<lambda>_. None), co_webhook = (\<lambda>_ _. Inl ''timeout''), co_slack = (\<lambda>_ _. Inl ''timeout''),
       co_telegram = (\<lambda>_ _. Inl ''timeout''), co_starttls = (\<lambda>_. False), co_smtp = (\<lambda>_ _ _. None)\<rparr>,
     sc_error_text = (\<lambda>_. ''failed''), sc_draws = (\<lambda>n. sample_draws n ''cert-9''), sc_ids = (\<lambda>_ _. ''d-1''), sc_job_id = (\<lambda>k. k)\<rparr>"

definition plain_instance :: "db \<Rightarrow> instance_db" where
  "plain_instance d = \<lparr>in_pki = d, in_auth = empty_auth, in_channels = [], in_deliveries = [], in_targets = [], in_jobs = []\<rparr>"

theorem background_work_keeps_the_invariants_witness:
  "\<exists>d'. refresh_all_crls quiet_sched (plain_instance db2) = Some d' \<and> certio (in_pki d')"
proof -
  obtain d' where "refresh_all_crls quiet_sched (plain_instance db2) = Some d'"
    using run_job_total [of quiet_sched job_crl_refresh "refresh_crls quiet_sched"] unfolding refresh_all_crls_def by blast
  then show ?thesis
    using background_work_keeps_the_invariants [of "plain_instance db2" quiet_sched] certio_reachable [OF reachable_db2]
    by (simp add: plain_instance_def)
qed

section \<open>Announcements\<close>

lemma whole_days_negative: "whole_days d < 0 \<longleftrightarrow> d \<le> - day"
proof (cases "0 \<le> d")
  case True
  then show ?thesis by (auto simp: whole_days_nonneg pos_imp_zdiv_neg_iff day_def hour_def minute_def second_def)
next
  case False
  then have "whole_days d = - ((- d) div day)"
    by (simp add: whole_days_def trunc_div_def sgn_if day_def hour_def minute_def second_def)
  moreover have "0 < (- d) div day \<longleftrightarrow> day \<le> - d"
    by (simp add: pos_imp_zdiv_pos_iff day_def hour_def minute_def second_def)
  ultimately show ?thesis by linarith
qed

text \<open>A scan announces a certificate as expired only once it has been so for a whole day; before
  that, also past its end, the event says that it expires in 0 days.\<close>

theorem expiry_is_announced_a_day_late:
  "(ev_type (expiry_event now c) = event_expired \<longleftrightarrow> cr_not_after c + day \<le> now) \<and>
   (cr_not_after c < now \<and> now < cr_not_after c + day \<longrightarrow>
     ev_title (expiry_event now c) = ''Certificate '' @ cr_common_name c @ '' expires in 0 days'')"
proof -
  have d: "days_remaining now c < 0 \<longleftrightarrow> cr_not_after c + day \<le> now"
    using whole_days_negative [of "cr_not_after c - now"] by (auto simp: days_remaining_def)
  moreover have "days_remaining now c \<le> 0" if "cr_not_after c < now"
    using that whole_days_mono_neg [of "cr_not_after c - now"] by (simp add: days_remaining_def)
  moreover have "dec_int 0 = ''0''" by code_simp
  moreover have "event_expired \<noteq> event_expiring" by (simp add: event_expired_def event_expiring_def)
  ultimately show ?thesis by (auto simp: expiry_event_def Let_def order.antisym)
qed

theorem expiry_is_announced_a_day_late_witness:
  "ev_title (expiry_event (cr_not_after www_row + hour) www_row) =
     ''Certificate '' @ cr_common_name www_row @ '' expires in 0 days''"
  using expiry_is_announced_a_day_late [of "cr_not_after www_row + hour" www_row]
  by (simp add: day_def hour_def minute_def second_def)

section \<open>The landing page\<close>

lemma count_by_total: "sum_list (map snd (count_by f rows)) = length rows"
proof -
  have "(\<Sum>v \<in> set (map f rows). length (filter (\<lambda>r. f r = v) rows)) = length rows"
  proof (induction rows)
    case (Cons r rows)
    have "(\<Sum>v \<in> insert (f r) (f ` set rows). length (filter (\<lambda>x. f x = v) (r # rows))) =
        (\<Sum>v \<in> insert (f r) (f ` set rows). length (filter (\<lambda>x. f x = v) rows) + (if v = f r then 1 else 0))"
      by (rule sum.cong) auto
    also have "\<dots> = (\<Sum>v \<in> insert (f r) (f ` set rows). length (filter (\<lambda>x. f x = v) rows)) + 1"
      by (simp add: sum.distrib)
    also have "(\<Sum>v \<in> insert (f r) (f ` set rows). length (filter (\<lambda>x. f x = v) rows)) = length rows"
    proof (cases "f r \<in> f ` set rows")
      case True
      then show ?thesis using Cons by (simp add: insert_absorb)
    next
      case False
      then have "filter (\<lambda>x. f x = f r) rows = []" by (auto simp: filter_empty_conv image_iff)
      then show ?thesis using Cons False by simp
    qed
    finally show ?case by simp
  qed simp
  then show ?thesis
    by (simp add: count_by_def comp_def sum_list_distinct_conv_sum_set)
qed

lemma count_of_by: "count_of k (count_by f rows) = length (filter (\<lambda>r. f r = k) rows)"
proof -
  have "map_of (map (\<lambda>v. (v, g v)) vs) k = (if k \<in> set vs then Some (g k) else None)" for vs and g :: "string \<Rightarrow> nat"
    by (induction vs) auto
  then show ?thesis
    by (auto simp: count_of_def count_by_def filter_empty_conv image_iff)
qed

text \<open>The counts of the landing page are those of the table: the total is the number of
  certificates, each status counts its rows, and what is missing from the four is held.\<close>

theorem dashboard_counts_the_table:
  "let s = ds_certificates (dashboard D now warn logs d); n = (\<lambda>st. length (filter (\<lambda>c. cr_status c = st) (db_certificates (in_pki d)))) in
     cs_total s = length (db_certificates (in_pki d)) \<and> cs_active s = n StActive \<and> cs_expiring s = n StExpiring \<and>
     cs_expired s = n StExpired \<and> cs_revoked s = n StRevoked \<and>
     cs_total s = cs_active s + cs_expiring s + cs_expired s + cs_revoked s + n StHeld"
proof -
  have names: "status_name st = ''active'' \<longleftrightarrow> st = StActive" "status_name st = ''expiring'' \<longleftrightarrow> st = StExpiring"
    "status_name st = ''expired'' \<longleftrightarrow> st = StExpired" "status_name st = ''revoked'' \<longleftrightarrow> st = StRevoked" for st
    by (cases st; simp add: status_name_def)+
  have split: "length cs = length (filter (\<lambda>c. cr_status c = StActive) cs) + length (filter (\<lambda>c. cr_status c = StExpiring) cs) +
      length (filter (\<lambda>c. cr_status c = StExpired) cs) + length (filter (\<lambda>c. cr_status c = StRevoked) cs) +
      length (filter (\<lambda>c. cr_status c = StHeld) cs)" for cs
  proof (induction cs)
    case (Cons c cs)
    then show ?case by (cases "cr_status c") simp_all
  qed simp
  show ?thesis
    using split [of "db_certificates (in_pki d)"]
    by (simp add: dashboard_def Let_def summarize_def count_certificates_by_status_def count_by_total count_of_by names)
qed

text \<open>The share of its life a certificate is shown with lies between 0 and 100, and is the exact
  whole percentage while less than 92233720368547759 nanoseconds, some 2.9 years, have passed.\<close>

theorem elapsed_share_is_a_percentage:
  "0 \<le> percent_elapsed nb na now \<and> percent_elapsed nb na now \<le> 100 \<and>
   (nb \<le> now \<and> now - nb < 92233720368547759 \<and> nb < na \<and> na - nb < 2 ^ 63 \<longrightarrow>
     percent_elapsed nb na now = min 100 ((now - nb) * 100 div (na - nb)))"
proof -
  have "percent_elapsed nb na now = min 100 ((now - nb) * 100 div (na - nb))"
    if h: "nb \<le> now" "now - nb < 92233720368547759" "nb < na" "na - nb < 2 ^ 63"
  proof -
    have s: "time_sub na nb = na - nb" "time_sub now nb = now - nb"
      using h by (simp_all add: time_sub_id)
    have w: "wrap64 ((now - nb) * 100) = (now - nb) * 100"
      using h by (intro wrap64_id) simp_all
    have t: "trunc_div ((now - nb) * 100) (na - nb) = (now - nb) * 100 div (na - nb)"
      using h by (simp add: trunc_div_def sgn_if)
    have "0 \<le> (now - nb) * 100 div (na - nb)"
      using h by (simp add: pos_imp_zdiv_nonneg_iff)
    then show ?thesis
      using h(1,3) unfolding percent_elapsed_def Let_def s w t by (auto simp: min_def)
  qed
  then show ?thesis using percent_bounds by blast
qed

theorem elapsed_share_is_a_percentage_witness:
  "percent_elapsed 0 (397 * day) (100 * day) = 25"
  using elapsed_share_is_a_percentage [of 0 "397 * day" "100 * day"]
  by (simp add: day_def hour_def minute_def second_def)

text \<open>After that the product of the code wraps around: three years after it was issued, a certificate of 397 days is shown at 0 percent.\<close>

lemma elapsed_share_wraps: "percent_elapsed 0 (397 * day) (3 * 365 * day) = 0"
  by (simp add: percent_elapsed_def time_sub_def wrap64_def trunc_div_def day_def hour_def minute_def second_def)

end
