(* ===== verification/SrvHandlers.thy ===== *)
theory SrvHandlers
  imports StoreOps SvcOcsp SvcReach
begin

text \<open>
  The handlers of \<open>internal/server/handlers\<close> that decide something themselves: the status a service
  error becomes (\<open>handlers.go\<close>), the filter of a listing, the overriding names of a request and the
  bulk operations (\<open>certificate.go\<close>), and the public chain and OCSP endpoints (\<open>authority.go\<close>).  A
  handler gives what it renders.  The authorities of a bulk revocation are a Go map, which is
  walked in no fixed order: \<open>order\<close> is the order of that run.
\<close>

section \<open>Errors\<close>

definition store_status :: "store_error \<Rightarrow> nat \<times> string" where
  "store_status e = (case e of
       RecordNotFound \<Rightarrow> (404, ''not_found'') | RecordConflict \<Rightarrow> (409, ''conflict'') | RecordInUse _ \<Rightarrow> (409, ''conflict'')
     | ForeignKeyViolation \<Rightarrow> (500, ''internal_error'') | ChainTooLong _ \<Rightarrow> (500, ''internal_error'') | ValueTooLong \<Rightarrow> (500, ''internal_error''))"

definition fail_status :: "svc_error \<Rightarrow> nat \<times> string" where
  "fail_status e = (case e of
       EStore s \<Rightarrow> store_status s
     | EMissing _ \<Rightarrow> (404, ''not_found'')
     | EInvalid _ \<Rightarrow> (400, ''validation_failed'') | EInvalidPki _ \<Rightarrow> (400, ''validation_failed'') | EInvalidReason _ \<Rightarrow> (400, ''validation_failed'')
     | EConflict _ \<Rightarrow> (409, ''conflict'')
     | EForbidden _ \<Rightarrow> (403, ''forbidden'')
     | EPassphraseRequired _ \<Rightarrow> (428, ''passphrase_required'')
     | EKeyUnavailable \<Rightarrow> (422, ''key_unavailable'')
     | EPki _ \<Rightarrow> (500, ''internal_error'') | ECrl _ \<Rightarrow> (500, ''internal_error'') | EOcsp _ \<Rightarrow> (500, ''internal_error'')
     | EUnauthorized _ \<Rightarrow> (500, ''internal_error''))"

definition message_prefixes :: "string list" where
  "message_prefixes = [''validation failed: '', ''pki: '', ''store: '', ''service: '', ''invalid email or password: '']"

definition clean_message :: "string \<Rightarrow> string" where
  "clean_message msg = foldl (\<lambda>m p. trim_prefix p m) msg message_prefixes"

section \<open>Listings\<close>

text \<open>\<open>strconv.Atoi\<close>.\<close>

definition go_atoi :: "string \<Rightarrow> int option" where
  "go_atoi s =
     (let (neg, ds) = (case s of c # r \<Rightarrow> if c = CHR ''-'' then (True, r) else if c = CHR ''+'' then (False, r) else (False, s) | [] \<Rightarrow> (False, s))
      in if ds = [] \<or> \<not> list_all is_digit ds then None
         else let n = foldl (\<lambda>n c. n * 10 + (int (ord c) - 48)) 0 ds; v = (if neg then - n else n)
              in if - (2 ^ 63) \<le> v \<and> v < 2 ^ 63 then Some v else None)"

definition expiring_days :: "string \<Rightarrow> int option" where
  "expiring_days raw = (if raw = [] then None else go_atoi (trim_suffix ''d'' raw))"

fun parse_labels :: "string list \<Rightarrow> labels \<Rightarrow> labels" where
  "parse_labels [] out = out"
| "parse_labels (raw # rest) out = (case cut CHR ''='' raw of (key, v, ok) \<Rightarrow>
     let key = trim_space key in
     parse_labels rest (if \<not> ok \<or> key = [] then out else tbl_put fst (key, trim_space v) out))"

record list_request =
  lr_authority :: string
  lr_status :: string
  lr_profile :: string
  lr_expiring_in :: string
  lr_auto_renew :: "bool option"
  lr_include_revoked :: "bool option"
  lr_query :: string
  lr_labels :: "string list"
  lr_sort :: string
  lr_order :: string
  lr_page :: int
  lr_limit :: int

text \<open>An authority is named by its identifier or its slug; one that is not found is filtered by as it stands.\<close>

definition list_filter :: "list_request \<Rightarrow> db \<Rightarrow> certificate_filter" where
  "list_filter r d = \<lparr>
     cf_authority = (if lr_authority r = [] then [] else (case resolve_authority (lr_authority r) d of
         Inl _ \<Rightarrow> lr_authority r | Inr a \<Rightarrow> au_id a)),
     cf_status = lr_status r, cf_profile = lr_profile r, cf_query = lr_query r, cf_expiring_days = expiring_days (lr_expiring_in r),
     cf_auto_renew = lr_auto_renew r, cf_include_revoked = (case lr_include_revoked r of None \<Rightarrow> True | Some b \<Rightarrow> b),
     cf_labels = parse_labels (lr_labels r) [], cf_sort_by = lr_sort r, cf_sort_desc = (lr_order r = ''desc'')\<rparr>"

definition list_certificates_page :: "dialect \<Rightarrow> instant \<Rightarrow> list_request \<Rightarrow> db \<Rightarrow> certificate page" where
  "list_certificates_page D now r d = list_certificates D now (list_filter r d) \<lparr>pg_page = lr_page r, pg_limit = lr_limit r\<rparr> d"

definition to_san_set :: "parsers \<Rightarrow> (string \<times> string) list \<Rightarrow> san_error + san_set" where
  "to_san_set P entries = bindE (mapE (\<lambda>(t, v). let s = mk_san t v in bindE (san_validate P s) (\<lambda>_. Inr s)) entries)
     (\<lambda>es. Inr (foldl san_add [] es))"

section \<open>Bulk operations\<close>

record bulk_result =
  br_id :: string
  br_error :: "svc_error option"
  br_new_id :: string

definition succeeded :: "bulk_result \<Rightarrow> bool" where
  "succeeded r = (br_error r = None)"

fun renew_each :: "svc_env \<Rightarrow> (nat \<Rightarrow> draws) \<Rightarrow> renew_input \<Rightarrow> nat \<Rightarrow> string list \<Rightarrow> db \<Rightarrow> bulk_result list \<times> db" where
  "renew_each E R inp n [] d = ([], d)"
| "renew_each E R inp n (i # ids) d = (case renew_certificate E (R n) i inp d of
     (Inl e, d) \<Rightarrow> (case renew_each E R inp (Suc n) ids d of (rs, d) \<Rightarrow> (\<lparr>br_id = i, br_error = Some e, br_new_id = []\<rparr> # rs, d))
   | (Inr res, d) \<Rightarrow> (case renew_each E R inp (Suc n) ids d of (rs, d) \<Rightarrow>
       (\<lparr>br_id = i, br_error = None, br_new_id = cr_id (ir_row res)\<rparr> # rs, d)))"

definition bulk_renew :: "svc_env \<Rightarrow> (nat \<Rightarrow> draws) \<Rightarrow> bool \<Rightarrow> string \<Rightarrow> string list \<Rightarrow> db \<Rightarrow> (string + bulk_result list) \<times> db" where
  "bulk_renew E R rekey passphrase ids d =
     (if ids = [] then (Inl ''at least one certificate id is required'', d)
      else (case renew_each E R \<lparr>wi_rekey = rekey, wi_key_algorithm = [], wi_validity_days = 0, wi_sans = [], wi_passphrase = passphrase\<rparr> 0 ids d of
          (rs, d) \<Rightarrow> (Inr rs, d)))"

text \<open>Revoking without publishing; the authorities of what was revoked are collected.\<close>

fun revoke_each :: "svc_env \<Rightarrow> (nat \<Rightarrow> draws) \<Rightarrow> string \<Rightarrow> revoke_input \<Rightarrow> nat \<Rightarrow> string list \<Rightarrow> db \<Rightarrow> (bulk_result list \<times> string list) \<times> db" where
  "revoke_each E R actor inp n [] d = (([], []), d)"
| "revoke_each E R actor inp n (i # ids) d = (case get_certificate i d of
     Inl e \<Rightarrow> (case revoke_each E R actor inp (Suc n) ids d of ((rs, cas), d) \<Rightarrow>
       ((\<lparr>br_id = i, br_error = Some (EStore e), br_new_id = []\<rparr> # rs, cas), d))
   | Inr c \<Rightarrow> (case revoke_certificate E (R n) actor i inp d of
       (Inl e, d) \<Rightarrow> (case revoke_each E R actor inp (Suc n) ids d of ((rs, cas), d) \<Rightarrow>
         ((\<lparr>br_id = i, br_error = Some e, br_new_id = []\<rparr> # rs, cas), d))
     | (Inr _, d) \<Rightarrow> (case revoke_each E R actor inp (Suc n) ids d of ((rs, cas), d) \<Rightarrow>
         ((\<lparr>br_id = i, br_error = None, br_new_id = []\<rparr> # rs, cr_authority c # cas), d))))"

fun publish_each :: "svc_env \<Rightarrow> string \<Rightarrow> string list \<Rightarrow> db \<Rightarrow> db" where
  "publish_each E passphrase [] d = d"
| "publish_each E passphrase (a # as) d = publish_each E passphrase as (snd (publish_crl E a passphrase d))"

definition bulk_revoke ::
    "svc_env \<Rightarrow> (nat \<Rightarrow> draws) \<Rightarrow> string \<Rightarrow> (string list \<Rightarrow> string list) \<Rightarrow> int \<Rightarrow> string \<Rightarrow> string list \<Rightarrow> db \<Rightarrow> (string + bulk_result list) \<times> db" where
  "bulk_revoke E R actor order reason passphrase ids d =
     (if ids = [] then (Inl ''at least one certificate id is required'', d)
      else (case revoke_each E R actor \<lparr>ki_reason = reason, ki_passphrase = passphrase, ki_skip_crl = True\<rparr> 0 ids d of
          ((rs, cas), d) \<Rightarrow> (Inr rs, publish_each E passphrase (order (remdups cas)) d)))"

section \<open>Public endpoints\<close>

definition public_chain :: "string \<Rightarrow> db \<Rightarrow> svc_error + pem" where
  "public_chain i d =
     bindE (map_err EStore (resolve_authority i d)) (\<lambda>a.
     bindE (map_err EStore (authority_chain a d)) (\<lambda>chain. Inr (au_cert_pem a @ concat (map au_cert_pem chain))))"

datatype 'r ocsp_reply = MalformedReply | UnauthorizedReply | InternalReply | SignedReply 'r

text \<open>The request as read from the body or the path, absent when it cannot be; then as the parser decodes it.\<close>

definition public_ocsp :: "svc_env \<Rightarrow> 'r ocsp_lib \<Rightarrow> string \<Rightarrow> ocsp_query option option \<Rightarrow> db \<Rightarrow> 'r ocsp_reply" where
  "public_ocsp E L i body d = (case body of
       None \<Rightarrow> MalformedReply
     | Some query \<Rightarrow> (case ocsp_respond E L i query d of
           Inr r \<Rightarrow> SignedReply r
         | Inl e \<Rightarrow>
             if (case e of EUnauthorized _ \<Rightarrow> True | _ \<Rightarrow> fst (fail_status e) = 404) then UnauthorizedReply
             else if fst (fail_status e) = 400 then MalformedReply
             else InternalReply))"

section \<open>Laws of the bulk revocation\<close>

lemma revoke_ids:
  assumes "pki_inv d" "dr_uuid R \<notin> rv_id ` set (db_revocations d)"
  shows "rv_id ` set (db_revocations (snd (revoke_certificate E R actor i inp d))) \<subseteq> insert (dr_uuid R) (rv_id ` set (db_revocations d))"
proof (cases "validate_revocation_reason (ki_reason inp) = Inr () \<and> (\<exists>c a. get_with_authority i d = Inr (c, a) \<and> cr_status c \<noteq> StRevoked)")
  case True
  then obtain c a where ca: "get_with_authority i d = Inr (c, a)" "cr_status c \<noteq> StRevoked"
    and reason: "validate_revocation_reason (ki_reason inp) = Inr ()" by blast
  show ?thesis
    using revoke_certificate_run [OF assms(1) ca reason assms(2)]
    by (auto simp: revoked_db_def forget_revocations_def revocation_row_def)
next
  case False
  have "db_revocations (snd (revoke_certificate E R actor i inp d)) = db_revocations d"
    using False unfolding revoke_certificate_def
    by (intro inv_bind_read(2) [where I = "\<lambda>e. db_revocations e = db_revocations d"]
        inv_bind_store_read [where I = "\<lambda>e. db_revocations e = db_revocations d"]) auto
  then show ?thesis by auto
qed

lemma revoke_success:
  assumes "pki_inv d" "dr_uuid R \<notin> rv_id ` set (db_revocations d)" "revoke_certificate E R actor i inp d = (Inr row, d')"
    "ki_reason inp \<noteq> reason_certificate_hold"
  shows "\<exists>r. final_revocation r d' \<and> rv_certificate r = i"
proof -
  obtain c a where ca: "get_with_authority i d = Inr (c, a)" "cr_status c \<noteq> StRevoked"
    and reason: "validate_revocation_reason (ki_reason inp) = Inr ()"
    using assms(3) unfolding revoke_certificate_def by (auto simp: bindS_Inr_iff split: if_splits)
  have "rv_certificate (revocation_row E (dr_uuid R) actor c (ki_reason inp)) = i"
    "rv_reason_code (revocation_row E (dr_uuid R) actor c (ki_reason inp)) = ki_reason inp"
    using ca(1) pki_invD(1) [OF assms(1)] by (simp_all add: revocation_row_def get_with_authority_iff)
  moreover have "revocation_row E (dr_uuid R) actor c (ki_reason inp) \<in> set (db_revocations d')"
    using revoke_certificate_run [OF assms(1) ca reason assms(2), of E actor] assms(3) by (auto simp: revoked_db_def)
  ultimately show ?thesis using assms(4) unfolding final_revocation_def by metis
qed

lemma publish_revs [simp]: "db_revocations (snd (publish_crl E i p d)) = db_revocations d"
  by (rule revs_same) (intro keeps_intros)

lemma publish_each_inv: "pki_inv d \<Longrightarrow> pki_inv (publish_each E p as d) \<and> db_revocations (publish_each E p as d) = db_revocations d"
  by (induction as arbitrary: d) (simp_all add: inv_publish_crl)

lemma publish_each_reachable: "reachable d \<Longrightarrow> reachable (publish_each E p as d)"
  by (induction as arbitrary: d) (simp_all add: reachable_step [OF _ step_publish_crl])

definition fresh_draws :: "(nat \<Rightarrow> draws) \<Rightarrow> nat \<Rightarrow> db \<Rightarrow> bool" where
  "fresh_draws R n d \<longleftrightarrow> (\<forall>k \<ge> n. dr_uuid (R k) \<notin> rv_id ` set (db_revocations d))"

lemma fresh_draws_revoke:
  assumes "pki_inv d" "inj (\<lambda>n. dr_uuid (R n))" "fresh_draws R n d"
  shows "fresh_draws R (Suc n) (snd (revoke_certificate E (R n) actor i inp d))"
  unfolding fresh_draws_def
proof (intro allI impI)
  fix k assume "Suc n \<le> k"
  then have "dr_uuid (R k) \<noteq> dr_uuid (R n)" "dr_uuid (R k) \<notin> rv_id ` set (db_revocations d)"
    using assms(2,3) by (auto simp: fresh_draws_def dest: injD)
  then show "dr_uuid (R k) \<notin> rv_id ` set (db_revocations (snd (revoke_certificate E (R n) actor i inp d)))"
    using revoke_ids [OF assms(1), of "R n" E actor i inp] assms(3) by (auto simp: fresh_draws_def)
qed

lemma revoke_each_laws:
  assumes "reachable d" "inj (\<lambda>n. dr_uuid (R n))" "fresh_draws R n d" "ki_reason inp \<noteq> reason_certificate_hold"
  shows "case revoke_each E R actor inp n ids d of ((rs, cas), d') \<Rightarrow>
    reachable d' \<and> map br_id rs = ids \<and> (\<forall>r. final_revocation r d \<longrightarrow> final_revocation r d') \<and>
    (\<forall>b \<in> set rs. succeeded b \<longrightarrow> (\<exists>r. final_revocation r d' \<and> rv_certificate r = br_id b))"
  using assms
proof (induction ids arbitrary: n d)
  case (Cons i ids)
  obtain x e where re: "revoke_certificate E (R n) actor i inp d = (x, e)" by force
  have inv: "pki_inv d" and fresh: "dr_uuid (R n) \<notin> rv_id ` set (db_revocations d)"
    using Cons.prems by (simp_all add: reachable_inv fresh_draws_def)
  have e: "reachable e" "fresh_draws R (Suc n) e" "\<And>r. final_revocation r d \<Longrightarrow> final_revocation r e"
    using reachable_step [OF Cons.prems(1) step_revoke [OF fresh], of E actor i inp] fresh_draws_revoke [OF inv Cons.prems(2,3)]
      final_revoke [OF inv fresh, of _ E actor i inp] re
    by (metis snd_conv)+
  have skip: "fresh_draws R (Suc n) d" using Cons.prems(3) by (simp add: fresh_draws_def)
  show ?case
  proof (cases "get_certificate i d")
    case (Inl err)
    then show ?thesis
      using Cons.IH [OF Cons.prems(1,2) skip Cons.prems(4)] by (auto simp: succeeded_def split: prod.splits)
  next
    case (Inr c)
    show ?thesis
    proof (cases x)
      case X: (Inl err)
      then show ?thesis
        using Inr re Cons.IH [OF e(1) Cons.prems(2) e(2) Cons.prems(4)] e(3) by (auto simp: succeeded_def split: prod.splits)
    next
      case X: (Inr row)
      then obtain r where r: "final_revocation r e" "rv_certificate r = i"
        using revoke_success [OF inv fresh _ Cons.prems(4)] re by blast
      then show ?thesis
        using X Inr re Cons.IH [OF e(1) Cons.prems(2) e(2) Cons.prems(4)] e(3) by (auto simp: succeeded_def split: prod.splits)
    qed
  qed
qed simp

lemma final_has_row:
  assumes "pki_inv d" "final_revocation r d"
  shows "\<exists>c \<in> set (db_certificates d). cr_id c = rv_certificate r \<and> cr_status c = StRevoked"
proof -
  have "rv_certificate r \<in> cr_id ` set (db_certificates d)"
    using pki_invD(1) [OF assms(1)] assms(2) unfolding db_ok_def fk_ok_iff final_revocation_def by blast
  then obtain c where "c \<in> set (db_certificates d)" "cr_id c = rv_certificate r" by force
  then show ?thesis using final_is_revoked [OF assms] by blast
qed

end
