(* ===== verification/BulkGuarantees.thy ===== *)
theory BulkGuarantees
  imports SrvHandlers Samples
begin

text \<open>
  The property of the bulk operations of \<open>internal/server/handlers/certificate.go\<close>: what a bulk
  revocation reports as done has been done, for every entry of the request.
\<close>

definition done_in :: "db \<Rightarrow> bulk_result \<Rightarrow> bool" where
  "done_in d b = (succeeded b \<longrightarrow> list_ex (\<lambda>c. cr_id c = br_id b \<and> cr_status c = StRevoked) (db_certificates d))"

text \<open>C33: a bulk revocation for a reason other than a hold answers for every certificate of the request, in
  the order of the request; each one that it reports as revoked is revoked in the table and stays on
  the lists, whatever the other entries came to and whether or not the lists could be published, and
  the database is one that the services could have reached one certificate at a time.  The
  identifiers drawn for the revocation rows are assumed fresh.\<close>

theorem bulk_revocation_is_done:
  assumes "reachable d" "inj (\<lambda>n. dr_uuid (R n))" "\<forall>n. dr_uuid (R n) \<notin> rv_id ` set (db_revocations d)"
    and "reason \<noteq> reason_certificate_hold" "bulk_revoke E R actor order reason passphrase ids d = (Inr rs, d')"
  shows "reachable d' \<and> map br_id rs = ids \<and> list_all (done_in d') rs"
proof -
  let ?inp = "\<lparr>ki_reason = reason, ki_passphrase = passphrase, ki_skip_crl = True\<rparr>"
  obtain cas e where run: "revoke_each E R actor ?inp 0 ids d = ((rs, cas), e)"
    and d': "d' = publish_each E passphrase (order (remdups cas)) e"
    using assms(5) by (auto simp: bulk_revoke_def split: if_splits prod.splits)
  have e: "reachable e" "map br_id rs = ids"
    "\<And>b. b \<in> set rs \<Longrightarrow> succeeded b \<Longrightarrow> \<exists>r. final_revocation r e \<and> rv_certificate r = br_id b"
    using revoke_each_laws [OF assms(1,2), of 0 ?inp ids E actor] assms(3,4) run by (simp_all add: fresh_draws_def)
  have d'_ok: "reachable d'" "db_revocations d' = db_revocations e"
    using publish_each_reachable [OF e(1)] publish_each_inv [OF reachable_inv [OF e(1)]] d' by auto
  have "done_in d' b" if "b \<in> set rs" for b
    using e(3) [OF that] final_has_row [OF reachable_inv [OF d'_ok(1)]] d'_ok(2)
    unfolding done_in_def list_ex_iff final_revocation_def by metis
  then show ?thesis using d'_ok(1) e(2) by (simp add: list_all_iff)
qed

definition bulk_draws :: "nat \<Rightarrow> draws" where
  "bulk_draws n = sample_draws n (replicate n CHR ''r'')"

text \<open>The certificate of the samples and one that is not there, for the reason of a compromised key.\<close>

lemma run_bulk: "\<exists>e. bulk_revoke sample_env bulk_draws ''admin'' (\<lambda>as. as) 1 [] [''cert-1'', ''cert-9''] db2 =
  (Inr [\<lparr>br_id = ''cert-1'', br_error = None, br_new_id = []\<rparr>,
        \<lparr>br_id = ''cert-9'', br_error = Some (EStore RecordNotFound), br_new_id = []\<rparr>], e)"
proof -
  let ?inp = "\<lparr>ki_reason = 1, ki_passphrase = [], ki_skip_crl = True\<rparr>"
  have reason: "validate_revocation_reason (ki_reason ?inp) = Inr ()" by code_simp
  have "revoke_certificate sample_env (bulk_draws 0) ''admin'' ''cert-1'' ?inp db2 =
    (Inr (revocation_row sample_env (dr_uuid (bulk_draws 0)) ''admin'' www_row 1), revoked_db sample_env (bulk_draws 0) ''admin'' www_row 1 db2)"
    using revoke_certificate_run [OF reachable_inv [OF reachable_db2] get_www _ reason, of "bulk_draws 0" sample_env "''admin''"]
    by (simp add: publish_after_def)
  moreover have "get_certificate ''cert-1'' db2 = Inr www_row" by (simp add: get_certificate_def tbl_get_def)
  moreover have "get_certificate ''cert-9'' (revoked_db sample_env (bulk_draws 0) ''admin'' www_row 1 db2) = Inl RecordNotFound"
    by (simp add: get_certificate_def tbl_get_def revoked_db_def forget_revocations_def tbl_put_def)
  ultimately show ?thesis by (simp add: bulk_revoke_def)
qed

theorem bulk_revocation_is_done_witness:
  "\<exists>e. reachable e \<and> list_ex (\<lambda>c. cr_id c = ''cert-1'' \<and> cr_status c = StRevoked) (db_certificates e) \<and>
     snd (bulk_revoke sample_env bulk_draws ''admin'' (\<lambda>as. as) 1 [] [''cert-1'', ''cert-9''] db2) = e"
proof -
  obtain e where e: "bulk_revoke sample_env bulk_draws ''admin'' (\<lambda>as. as) 1 [] [''cert-1'', ''cert-9''] db2 =
    (Inr [\<lparr>br_id = ''cert-1'', br_error = None, br_new_id = []\<rparr>,
        \<lparr>br_id = ''cert-9'', br_error = Some (EStore RecordNotFound), br_new_id = []\<rparr>], e)"
    using run_bulk by blast
  have "inj (\<lambda>n. dr_uuid (bulk_draws n))"
    by (rule injI) (metis bulk_draws_def sample_draws_simps(1) length_replicate)
  then show ?thesis
    using bulk_revocation_is_done [OF reachable_db2 _ _ _ e] e by (simp add: reason_certificate_hold_def done_in_def succeeded_def)
qed

end
