(* ===== verification/EnvelopeGuarantees.thy ===== *)
theory EnvelopeGuarantees
  imports Envelope Samples
begin

text \<open>
  The property of the key envelope: what the services see of it is the container of \<open>SvcCore\<close>.  The
  laws of the primitives are stated for keys of the size the code derives, the absence of collisions
  only for the two inputs that are compared.
\<close>

definition master_number :: "octet list \<Rightarrow> nat" where
  "master_number = foldl (\<lambda>n b. n * 256 + unat b) 0"

lemma master_number_snoc: "master_number (m @ [b]) = master_number m * 256 + unat b"
  by (simp add: master_number_def)

lemma base_256_digits: "b < 256 \<Longrightarrow> c < 256 \<Longrightarrow> x * 256 + b = y * 256 + c \<Longrightarrow> x = y \<and> b = (c :: nat)"
proof -
  assume b: "b < 256" "c < 256" and eq: "x * 256 + b = y * 256 + c"
  have "(x * 256 + b) div 256 = x" "(y * 256 + c) div 256 = y" using b by simp_all
  then show "x = y \<and> b = c" using eq by simp
qed

lemma master_number_inj: "length m = length n \<Longrightarrow> master_number m = master_number n \<Longrightarrow> m = n"
proof (induction m arbitrary: n rule: rev_induct)
  case (snoc b m)
  then obtain c n' where n: "n = n' @ [c]" by (cases n rule: rev_cases) auto
  have small: "unat b < 256" "unat c < 256"
    using unsigned_less [of b, where ?'a = nat] unsigned_less [of c, where ?'a = nat] by simp_all
  have eq: "master_number m * 256 + unat b = master_number n' * 256 + unat c"
    using snoc.prems(2) n by (simp add: master_number_snoc)
  have "master_number m = master_number n'" "unat b = unat c" using base_256_digits [OF small eq] by blast+
  then show ?case using snoc.IH [of n'] snoc.prems(1) n by (simp add: word_unat_eq_iff)
qed simp

text \<open>HKDF gives a key of the size asked for and Argon2id as many bytes as asked for; AES-GCM opens with the key it sealed with and no other.\<close>

definition primitives_work :: "envelope_lib \<Rightarrow> bool" where
  "primitives_work L \<longleftrightarrow>
     (\<forall>x salt. \<exists>key. el_hkdf L x salt hkdf_info master_key_size = Some key \<and> length key = 32) \<and>
     (\<forall>pw salt. length (el_argon L pw salt argon_time argon_memory argon_threads argon_key_len) = 32) \<and>
     (\<forall>k k' n v. length k = 32 \<and> length k' = 32 \<longrightarrow>
        el_seal L k n v \<noteq> [] \<and> el_open L k' n (el_seal L k n v) = (if k' = k then Some v else None))"

definition no_collision :: "envelope_lib \<Rightarrow> octet list \<Rightarrow> string \<Rightarrow> octet list \<Rightarrow> string \<Rightarrow> octet list \<Rightarrow> bool" where
  "no_collision L m p m' p' salt \<longleftrightarrow>
     (let stretch = (\<lambda>q. el_argon L (text_octets q) salt argon_time argon_memory argon_threads argon_key_len);
          derive = (\<lambda>x. el_hkdf L x salt hkdf_info master_key_size) in
      (stretch p = stretch p' \<longrightarrow> text_octets p = text_octets p') \<and>
      (derive (input_key L m salt p) = derive (input_key L m' salt p') \<longrightarrow> input_key L m salt p = input_key L m' salt p'))"

lemma text_octets_inj: "text_octets s = text_octets t \<Longrightarrow> s = t"
proof (induction s arbitrary: t)
  case (Cons c s)
  then obtain e t' where t: "t = e # t'" by (cases t) (auto simp: text_octets_def)
  have small: "ord c < 256" "ord e < 256" by (rule ord_less)+
  have "(of_nat (ord c) :: octet) = of_nat (ord e)" using Cons.prems t by (simp add: text_octets_def)
  then have "unat (of_nat (ord c) :: octet) = unat (of_nat (ord e) :: octet)" by (rule arg_cong)
  then have "ord c = ord e" using small by (simp add: unsigned_of_nat take_bit_eq_mod)
  then show ?case using Cons t by (simp add: text_octets_def)
qed (simp add: text_octets_def)

lemma input_keys_differ:
  assumes "primitives_work L" "no_collision L m p m' p' salt" "length m = 32" "length m' = 32"
  shows "input_key L m salt p = input_key L m' salt p' \<longleftrightarrow> m' = m \<and> p' = p"
  using assms text_octets_inj [of p p'] unfolding primitives_work_def no_collision_def input_key_def Let_def
  by (cases "p = []"; cases "p' = []") (fastforce dest: arg_cong [where f = length])+

lemma aead_key:
  assumes "primitives_work L"
  obtains key where "el_hkdf L (input_key L m salt p) salt hkdf_info master_key_size = Some key" "length key = 32"
    "envelope_aead L m salt p = Inr key"
proof -
  obtain key where "el_hkdf L (input_key L m salt p) salt hkdf_info master_key_size = Some key" "length key = 32"
    using assms unfolding primitives_work_def by blast
  then show ?thesis by (intro that) (simp_all add: envelope_aead_def)
qed

text \<open>C26: the envelope implements the sealed keys of the service model: what was sealed under a master key and a
  passphrase opens under exactly these two, and gives back what went in; under any other master key
  or passphrase, a missing one included, it gives the one error that asks for the passphrase.  So
  opening an envelope answers as \<open>open_key\<close> does of the container that \<open>seal_key\<close> makes.\<close>

theorem envelope_implements_sealed_keys:
  assumes "primitives_work L" "no_collision L m p m' p' (en_salt e)"
    "new_keyring m = Inr m" "new_keyring m' = Inr m'"
    "envelope_seal L (Some salt) (Some nonce) m (encode k) p = Inr e" "length nonce = 12"
    "seal_key (E\<lparr>se_master := master_number m\<rparr>) k p = Inr s"
  shows "envelope_open L m' e p' = (case open_key (E\<lparr>se_master := master_number m'\<rparr>) s p' of
    Inl _ \<Rightarrow> Inl WrongPassphrase | Inr k' \<Rightarrow> Inr (encode k'))"
proof -
  have len: "length m = 32" "length m' = 32"
    using assms(3,4) by (auto simp: new_keyring_def master_key_size_def split: if_splits)
  obtain key where key: "el_hkdf L (input_key L m salt p) salt hkdf_info master_key_size = Some key" "length key = 32"
    "envelope_aead L m salt p = Inr key" by (rule aead_key [OF assms(1)])
  obtain key' where key': "el_hkdf L (input_key L m' salt p') salt hkdf_info master_key_size = Some key'" "length key' = 32"
    "envelope_aead L m' salt p' = Inr key'" by (rule aead_key [OF assms(1)])
  have e: "e = \<lparr>en_ciphertext = el_seal L key nonce (encode k), en_nonce = nonce, en_salt = salt\<rparr>"
    using assms(5) key(3) by (simp add: envelope_seal_def)
  have same: "key' = key \<longleftrightarrow> m' = m \<and> p' = p"
    using input_keys_differ [OF assms(1,2) len] assms(2) key(1) key'(1) e
    by (auto simp: no_collision_def Let_def)
  have "el_open L key' nonce (el_seal L key nonce (encode k)) = (if key' = key then Some (encode k) else None)"
    "el_seal L key nonce (encode k) \<noteq> []"
    using assms(1) key(2) key'(2) unfolding primitives_work_def by blast+
  then have "envelope_open L m' e p' = (if m' = m \<and> p' = p then Inr (encode k) else Inl WrongPassphrase)"
    using assms(6) key'(3) same by (simp add: envelope_open_def envelope_is_zero_def e nonce_size_def)
  moreover have "s = Sealed (master_number m) p k"
    using assms(7) by (auto simp: seal_key_def bindE_Inr_iff)
  moreover have "master_number m = master_number m' \<longleftrightarrow> m' = m"
    using master_number_inj [of m m'] len by auto
  ultimately show ?thesis by (auto simp: open_key_def)
qed

text \<open>A library for an instance: HKDF keeps the last bytes of its input, Argon2id fills up with zeros, and a sealed text starts with its key.\<close>

definition plain_lib :: envelope_lib where
  "plain_lib = \<lparr>el_argon = (\<lambda>pw salt t m h n. take n (pw @ replicate n 0)),
     el_hkdf = (\<lambda>x salt info n. Some (take n (rev x @ replicate n 0))),
     el_seal = (\<lambda>k n v. k @ v), el_open = (\<lambda>k n c. if take (length k) c = k then Some (drop (length k) c) else None)\<rparr>"

lemma plain_lib_works: "primitives_work plain_lib"
  by (auto simp: primitives_work_def plain_lib_def master_key_size_def argon_key_len_def)

lemma plain_no_collision:
  "no_collision plain_lib (replicate 32 1) ''pw'' (replicate 32 1) ''pw'' salt"
  "no_collision plain_lib (replicate 32 1) ''pw'' (replicate 32 1) [] salt"
proof -
  have stretch: "take 32 (text_octets ''pw'' @ replicate 32 0) \<noteq> take 32 (text_octets [] @ replicate 32 0)"
    by (rule notI, drule arg_cong [where f = hd]) (simp add: text_octets_def)
  have "take 32 (rev (replicate 32 1 @ take 32 (text_octets ''pw'' @ replicate 32 0)) @ replicate 32 0) \<noteq>
    take 32 (rev (replicate 32 1) @ replicate 32 (0 :: octet))"
    by (rule notI, drule arg_cong [where f = hd]) (simp add: text_octets_def)
  then show "no_collision plain_lib (replicate 32 1) ''pw'' (replicate 32 1) [] salt"
    using stretch by (simp add: no_collision_def Let_def plain_lib_def input_key_def argon_key_len_def master_key_size_def)
qed (simp add: no_collision_def Let_def)

theorem envelope_implements_sealed_keys_witness:
  "\<exists>e. envelope_seal plain_lib (Some (replicate 16 0)) (Some (replicate 12 0)) (replicate 32 1) [7] ''pw'' = Inr e \<and>
     envelope_open plain_lib (replicate 32 1) e ''pw'' = Inr [7] \<and>
     envelope_open plain_lib (replicate 32 1) e [] = Inl WrongPassphrase"
proof -
  let ?m = "replicate 32 (1 :: octet)"
  have m: "new_keyring ?m = Inr ?m" by (simp add: new_keyring_def master_key_size_def)
  obtain key where "envelope_aead plain_lib ?m (replicate 16 0) ''pw'' = Inr key" by (rule aead_key [OF plain_lib_works])
  then obtain e where e: "envelope_seal plain_lib (Some (replicate 16 0)) (Some (replicate 12 0)) ?m [7] ''pw'' = Inr e"
    by (simp add: envelope_seal_def)
  have s: "seal_key (sample_env\<lparr>se_master := master_number ?m\<rparr>) www_key ''pw'' = Inr (Sealed (master_number ?m) ''pw'' www_key)"
    by (simp add: seal_key_def run root_facts www_facts)
  note opens = envelope_implements_sealed_keys [OF plain_lib_works _ m m _ _ s, where encode = "\<lambda>_. [7]", OF _ e]
  have "envelope_open plain_lib ?m e ''pw'' = Inr [7]" "envelope_open plain_lib ?m e [] = Inl WrongPassphrase"
    using opens [OF plain_no_collision(1)] opens [OF plain_no_collision(2)] by (simp_all add: open_key_def)
  then show ?thesis using e by blast
qed

end
