(* ===== verification/Config.thy ===== *)
theory Config
  imports Envelope StoreOps SvcCore
begin

text \<open>
  \<open>internal/config/config.go\<close>: the configuration document, its defaults, the overlay of the environment
  and its validation; the secrets, the keyring and the stored settings of \<open>internal/app/app.go\<close>; and the
  settings handlers of \<open>internal/server/handlers/admin.go\<close>.  The YAML decoder, \<open>go-utils\<close> (the typed
  lookups of variables), the readers of durations and URLs and the files are arguments.
\<close>

section \<open>The document\<close>

record server_config =
  sv_host :: string
  sv_port :: int
  sv_base_url :: string
  sv_read_timeout :: int
  sv_write_timeout :: int
  sv_idle_timeout :: int
  sv_cors :: "string list"
  sv_docs :: bool
  sv_tls_cert :: string
  sv_tls_key :: string

record database_config =
  dc_url :: string
  dc_driver :: string
  dc_path :: string
  dc_dsn :: string

record acme_config =
  am_enabled :: bool
  am_authority :: string
  am_validity_days :: int
  am_require_eab :: bool
  am_http01 :: bool
  am_dns01 :: bool
  am_http01_port :: int
  am_resolver :: string
  am_terms :: string
  am_website :: string

record security_config =
  se_master_key :: string
  se_master_key_file :: string
  se_jwt_secret :: string
  se_jwt_secret_file :: string
  se_jwt_issuer :: string
  se_access_ttl :: duration
  se_refresh_ttl :: duration
  se_download_policy :: string
  se_login_limit :: int
  se_login_window :: duration
  se_issue_limit :: int
  se_issue_window :: duration

record admin_config =
  bc_email :: string
  bc_password :: string
  bc_name :: string

record scheduler_config =
  hc_enabled :: bool
  hc_interval :: duration
  hc_crl_interval :: duration
  hc_warn_days :: int

record log_config =
  lc_level :: string
  lc_format :: string
  lc_file :: string
  lc_caller :: bool

record pki_config =
  kc_organization :: string
  kc_country :: string
  kc_key_algorithm :: string
  kc_validity_days :: int
  kc_ca_validity :: int
  kc_crl_validity :: duration

record config =
  cn_production :: bool
  cn_server :: server_config
  cn_database :: database_config
  cn_acme :: acme_config
  cn_security :: security_config
  cn_admin :: admin_config
  cn_scheduler :: scheduler_config
  cn_log :: log_config
  cn_pki :: pki_config

definition key_download_once :: string where "key_download_once = ''once''"
definition key_download_always :: string where "key_download_always = ''always''"
definition key_download_never :: string where "key_download_never = ''never''"
definition driver_sqlite :: string where "driver_sqlite = ''sqlite''"
definition driver_postgres :: string where "driver_postgres = ''postgres''"

definition default_config :: config where
  "default_config = \<lparr>cn_production = False,
     cn_server = \<lparr>sv_host = ''0.0.0.0'', sv_port = 8080, sv_base_url = ''http://localhost:8080'', sv_read_timeout = 30,
       sv_write_timeout = 60, sv_idle_timeout = 120, sv_cors = [''*''], sv_docs = True, sv_tls_cert = [], sv_tls_key = []\<rparr>,
     cn_database = \<lparr>dc_url = [], dc_driver = driver_sqlite, dc_path = ''certio.db'', dc_dsn = []\<rparr>,
     cn_acme = \<lparr>am_enabled = False, am_authority = [], am_validity_days = 90, am_require_eab = True, am_http01 = True,
       am_dns01 = True, am_http01_port = 80, am_resolver = [], am_terms = [], am_website = []\<rparr>,
     cn_security = \<lparr>se_master_key = [], se_master_key_file = [], se_jwt_secret = [], se_jwt_secret_file = [],
       se_jwt_issuer = ''certio'', se_access_ttl = hour, se_refresh_ttl = 7 * 24 * hour, se_download_policy = key_download_always,
       se_login_limit = 10, se_login_window = minute, se_issue_limit = 60, se_issue_window = minute\<rparr>,
     cn_admin = \<lparr>bc_email = [], bc_password = [], bc_name = ''Administrator''\<rparr>,
     cn_scheduler = \<lparr>hc_enabled = True, hc_interval = hour, hc_crl_interval = 24 * hour, hc_warn_days = 30\<rparr>,
     cn_log = \<lparr>lc_level = ''info'', lc_format = ''text'', lc_file = [], lc_caller = False\<rparr>,
     cn_pki = \<lparr>kc_organization = [], kc_country = [], kc_key_algorithm = ''ecdsa-p256'', kc_validity_days = 397,
       kc_ca_validity = 3650, kc_crl_validity = 7 * 24 * hour\<rparr>\<rparr>"

section \<open>The environment\<close>

text \<open>\<open>goutils.Env\<close>, \<open>EnvInt\<close> and \<open>EnvBool\<close>, and \<open>time.ParseDuration\<close>; each has a variable and a fallback.\<close>

record environment =
  gv_string :: "string \<Rightarrow> string \<Rightarrow> string"
  gv_int :: "string \<Rightarrow> int \<Rightarrow> int"
  gv_bool :: "string \<Rightarrow> bool \<Rightarrow> bool"
  gv_parse_duration :: "string \<Rightarrow> duration option"

definition env_prefix :: string where "env_prefix = ''CERTIO_''"

definition env_text :: "environment \<Rightarrow> string \<Rightarrow> string \<Rightarrow> string" where
  "env_text V key = gv_string V (env_prefix @ key)"

definition env_int :: "environment \<Rightarrow> string \<Rightarrow> int \<Rightarrow> int" where
  "env_int V key = gv_int V (env_prefix @ key)"

definition env_bool :: "environment \<Rightarrow> string \<Rightarrow> bool \<Rightarrow> bool" where
  "env_bool V key = gv_bool V (env_prefix @ key)"

definition env_duration :: "environment \<Rightarrow> string \<Rightarrow> duration \<Rightarrow> duration" where
  "env_duration V key fallback = (let raw = gv_string V (env_prefix @ key) [] in
     if raw = [] then fallback else (case gv_parse_duration V raw of None \<Rightarrow> fallback | Some d \<Rightarrow> d))"

definition env_list :: "environment \<Rightarrow> string \<Rightarrow> string list \<Rightarrow> string list" where
  "env_list V key fallback = (let raw = gv_string V (env_prefix @ key) [] in
     if raw = [] then fallback
     else let out = filter (\<lambda>p. p \<noteq> []) (map trim_space (split_on CHR '','' raw)) in if out = [] then fallback else out)"

definition apply_env :: "environment \<Rightarrow> config \<Rightarrow> config" where
  "apply_env V c = (let s = cn_server c; a = cn_acme c; d = cn_database c; k = cn_security c; b = cn_admin c; h = cn_scheduler c;
       l = cn_log c; p = cn_pki c; dsn = env_text V ''DB_DSN'' (dc_dsn d) in
     \<lparr>cn_production = env_bool V ''PRODUCTION'' (cn_production c),
      cn_server = \<lparr>sv_host = env_text V ''HOST'' (sv_host s), sv_port = env_int V ''PORT'' (sv_port s),
        sv_base_url = env_text V ''BASE_URL'' (sv_base_url s), sv_read_timeout = env_int V ''READ_TIMEOUT'' (sv_read_timeout s),
        sv_write_timeout = env_int V ''WRITE_TIMEOUT'' (sv_write_timeout s), sv_idle_timeout = env_int V ''IDLE_TIMEOUT'' (sv_idle_timeout s),
        sv_cors = env_list V ''CORS_ORIGINS'' (sv_cors s), sv_docs = env_bool V ''ENABLE_DOCS'' (sv_docs s),
        sv_tls_cert = env_text V ''TLS_CERT'' (sv_tls_cert s), sv_tls_key = env_text V ''TLS_KEY'' (sv_tls_key s)\<rparr>,
      cn_database = \<lparr>dc_url = env_text V ''DB_URL'' (dc_url d), dc_driver = env_text V ''DB_DRIVER'' (dc_driver d),
        dc_path = env_text V ''DB_PATH'' (dc_path d), dc_dsn = (if dsn = [] then env_text V ''DB_URL'' dsn else dsn)\<rparr>,
      cn_acme = \<lparr>am_enabled = env_bool V ''ACME_ENABLED'' (am_enabled a), am_authority = env_text V ''ACME_AUTHORITY'' (am_authority a),
        am_validity_days = env_int V ''ACME_VALIDITY_DAYS'' (am_validity_days a), am_require_eab = env_bool V ''ACME_REQUIRE_EAB'' (am_require_eab a),
        am_http01 = env_bool V ''ACME_HTTP01_ENABLED'' (am_http01 a), am_dns01 = env_bool V ''ACME_DNS01_ENABLED'' (am_dns01 a),
        am_http01_port = env_int V ''ACME_HTTP01_PORT'' (am_http01_port a), am_resolver = env_text V ''ACME_RESOLVER'' (am_resolver a),
        am_terms = env_text V ''ACME_TERMS_URL'' (am_terms a), am_website = env_text V ''ACME_WEBSITE_URL'' (am_website a)\<rparr>,
      cn_security = \<lparr>se_master_key = env_text V ''MASTER_KEY'' (se_master_key k),
        se_master_key_file = env_text V ''MASTER_KEY_FILE'' (se_master_key_file k), se_jwt_secret = env_text V ''JWT_SECRET'' (se_jwt_secret k),
        se_jwt_secret_file = env_text V ''JWT_SECRET_FILE'' (se_jwt_secret_file k), se_jwt_issuer = env_text V ''JWT_ISSUER'' (se_jwt_issuer k),
        se_access_ttl = env_duration V ''ACCESS_TOKEN_TTL'' (se_access_ttl k), se_refresh_ttl = env_duration V ''REFRESH_TOKEN_TTL'' (se_refresh_ttl k),
        se_download_policy = env_text V ''KEY_DOWNLOAD_POLICY'' (se_download_policy k),
        se_login_limit = env_int V ''LOGIN_RATE_LIMIT'' (se_login_limit k), se_login_window = env_duration V ''LOGIN_RATE_WINDOW'' (se_login_window k),
        se_issue_limit = env_int V ''ISSUE_RATE_LIMIT'' (se_issue_limit k), se_issue_window = env_duration V ''ISSUE_RATE_WINDOW'' (se_issue_window k)\<rparr>,
      cn_admin = \<lparr>bc_email = env_text V ''ADMIN_EMAIL'' (bc_email b), bc_password = env_text V ''ADMIN_PASSWORD'' (bc_password b),
        bc_name = env_text V ''ADMIN_NAME'' (bc_name b)\<rparr>,
      cn_scheduler = \<lparr>hc_enabled = env_bool V ''SCHEDULER_ENABLED'' (hc_enabled h), hc_interval = env_duration V ''SCHEDULER_INTERVAL'' (hc_interval h),
        hc_crl_interval = env_duration V ''CRL_INTERVAL'' (hc_crl_interval h), hc_warn_days = env_int V ''EXPIRY_WARN_DAYS'' (hc_warn_days h)\<rparr>,
      cn_log = \<lparr>lc_level = env_text V ''LOG_LEVEL'' (lc_level l), lc_format = env_text V ''LOG_FORMAT'' (lc_format l),
        lc_file = env_text V ''LOG_FILE'' (lc_file l), lc_caller = env_bool V ''LOG_CALLER'' (lc_caller l)\<rparr>,
      cn_pki = \<lparr>kc_organization = env_text V ''DEFAULT_ORGANIZATION'' (kc_organization p), kc_country = env_text V ''DEFAULT_COUNTRY'' (kc_country p),
        kc_key_algorithm = env_text V ''DEFAULT_KEY_ALGORITHM'' (kc_key_algorithm p),
        kc_validity_days = env_int V ''DEFAULT_VALIDITY_DAYS'' (kc_validity_days p),
        kc_ca_validity = env_int V ''DEFAULT_CA_VALIDITY_DAYS'' (kc_ca_validity p), kc_crl_validity = env_duration V ''CRL_VALIDITY'' (kc_crl_validity p)\<rparr>\<rparr>)"

section \<open>Validation\<close>

datatype config_error =
    ReadConfig string | ParseConfig string | PortRange int | BadDatabaseUrl | NoSqliteFile | UnsupportedScheme string
  | NoSqlitePath | NoPostgresDsn | UnsupportedDriver string | BadDownloadPolicy string | AcmeNeedsAuthority | AcmeNeedsChallenge

text \<open>What \<open>url.Parse\<close> gives, as far as it is used.\<close>

record database_url =
  du_opaque :: string
  du_host :: string
  du_path :: string
  du_query :: string

definition apply_database_url :: "(string \<Rightarrow> database_url option) \<Rightarrow> database_config \<Rightarrow> config_error + database_config" where
  "apply_database_url U d = (let raw = trim_space (dc_url d) in
     if raw = [] then Inr d
     else case cut CHR '':'' raw of (scheme, _, has_scheme) \<Rightarrow>
       if \<not> has_scheme \<or> prefix ''/'' raw \<or> prefix ''.'' raw
       then Inr (d\<lparr>dc_driver := driver_sqlite, dc_path := raw, dc_dsn := []\<rparr>)
       else if to_lower scheme \<in> set [driver_postgres, ''postgresql'', ''pgx'']
       then Inr (d\<lparr>dc_driver := driver_postgres, dc_dsn := raw, dc_path := []\<rparr>)
       else if to_lower scheme \<in> set [driver_sqlite, ''sqlite3'', ''file'']
       then (case U raw of
           None \<Rightarrow> Inl BadDatabaseUrl
         | Some u \<Rightarrow> let path = (if du_opaque u = [] then du_host u @ du_path u else du_opaque u) in
             if path = [] then Inl NoSqliteFile
             else Inr (d\<lparr>dc_driver := driver_sqlite, dc_path := path,
               dc_dsn := (if du_query u \<noteq> [] then path @ ''?'' @ du_query u else [])\<rparr>))
       else Inl (UnsupportedScheme scheme))"

definition check_driver :: "database_config \<Rightarrow> config_error + database_config" where
  "check_driver d =
     (if dc_driver d \<in> set [driver_sqlite, []]
      then (if dc_path d = [] \<and> dc_dsn d = [] then Inl NoSqlitePath else Inr (d\<lparr>dc_driver := driver_sqlite\<rparr>))
      else if dc_driver d \<in> set [driver_postgres, ''postgresql'', ''pgx'']
      then (if dc_dsn d = [] then Inl NoPostgresDsn else Inr (d\<lparr>dc_driver := driver_postgres\<rparr>))
      else Inl (UnsupportedDriver (dc_driver d)))"

definition check_acme :: "acme_config \<Rightarrow> config_error + acme_config" where
  "check_acme a =
     (if \<not> am_enabled a then Inr a
      else if am_authority a = [] then Inl AcmeNeedsAuthority
      else if \<not> am_http01 a \<and> \<not> am_dns01 a then Inl AcmeNeedsChallenge
      else Inr (a\<lparr>am_validity_days := (if am_validity_days a \<le> 0 then 90 else am_validity_days a),
        am_http01_port := (if am_http01_port a \<le> 0 then 80 else am_http01_port a)\<rparr>))"

definition validate_config :: "(string \<Rightarrow> database_url option) \<Rightarrow> config \<Rightarrow> config_error + config" where
  "validate_config U c =
     (if sv_port (cn_server c) \<le> 0 \<or> 65535 < sv_port (cn_server c) then Inl (PortRange (sv_port (cn_server c)))
      else
        bindE (apply_database_url U (cn_database c)) (\<lambda>d.
        bindE (check_driver d) (\<lambda>d.
        if se_download_policy (cn_security c) \<notin> set [key_download_once, key_download_always, key_download_never]
        then Inl (BadDownloadPolicy (se_download_policy (cn_security c)))
        else
          let h = cn_scheduler c; p = cn_pki c;
              h = h\<lparr>hc_warn_days := (if hc_warn_days h \<le> 0 then 30 else hc_warn_days h)\<rparr>;
              p = p\<lparr>kc_validity_days := (if kc_validity_days p \<le> 0 then 397 else kc_validity_days p)\<rparr>;
              p = p\<lparr>kc_ca_validity := (if kc_ca_validity p \<le> 0 then 3650 else kc_ca_validity p)\<rparr>;
              p = p\<lparr>kc_crl_validity := (if kc_crl_validity p \<le> 0 then 7 * 24 * hour else kc_crl_validity p)\<rparr>
          in bindE (check_acme (cn_acme c)) (\<lambda>a.
            Inr (c\<lparr>cn_database := d, cn_scheduler := h, cn_pki := p, cn_acme := a,
              cn_server := (cn_server c)\<lparr>sv_base_url := trim_suffix ''/'' (sv_base_url (cn_server c))\<rparr>\<rparr>)))))"

text \<open>A file is absent, unreadable or has bytes; the YAML decoder overlays them on a document.\<close>

datatype file_read = NoSuchFile | ReadError string | FileBytes string

definition load_config ::
    "environment \<Rightarrow> (string \<Rightarrow> database_url option) \<Rightarrow> (string \<Rightarrow> file_read) \<Rightarrow> (string \<Rightarrow> config \<Rightarrow> config option) \<Rightarrow> string \<Rightarrow> config_error + config" where
  "load_config V U F yaml path =
     bindE (if path = [] then Inr default_config
            else case F path of
                NoSuchFile \<Rightarrow> Inr default_config
              | ReadError e \<Rightarrow> Inl (ReadConfig path)
              | FileBytes bytes \<Rightarrow> of_opt (ParseConfig path) (yaml bytes default_config)) (\<lambda>c.
       validate_config U (apply_env V c))"

definition config_addr :: "config \<Rightarrow> string" where
  "config_addr c = sv_host (cn_server c) @ '':'' @ dec_int (sv_port (cn_server c))"

definition sqlite_pragmas :: string where
  "sqlite_pragmas = ''?_pragma=foreign_keys(1)&_pragma=busy_timeout(5000)&_pragma=journal_mode(WAL)''"

definition database_dsn :: "config \<Rightarrow> string" where
  "database_dsn c = (let d = cn_database c in
     if dc_dsn d \<noteq> [] then dc_dsn d
     else if dc_driver d = driver_postgres then []
     else dc_path d @ sqlite_pragmas)"

section \<open>Secrets\<close>

datatype startup_error = SecretUnreadable string | MasterKeyRequired | JwtSecretRequired | KeyringError envelope_error

definition resolve_secret :: "(string \<Rightarrow> file_read) \<Rightarrow> string \<Rightarrow> string \<Rightarrow> startup_error + string" where
  "resolve_secret F inline file =
     (if file \<noteq> [] then (case F file of FileBytes bytes \<Rightarrow> Inr (trim_space bytes) | _ \<Rightarrow> Inl (SecretUnreadable file))
      else Inr inline)"

definition load_keyring :: "(string \<Rightarrow> file_read) \<Rightarrow> octet list option \<Rightarrow> config \<Rightarrow> startup_error + octet list" where
  "load_keyring F random c =
     bindE (resolve_secret F (se_master_key (cn_security c)) (se_master_key_file (cn_security c))) (\<lambda>raw.
     if raw = [] then
       if cn_production c then Inl MasterKeyRequired
       else bindE (map_err KeyringError (generate_master_key random)) (\<lambda>key. map_err KeyringError (new_keyring key))
     else bindE (map_err KeyringError (parse_master_key raw)) (\<lambda>key. map_err KeyringError (new_keyring key)))"

definition load_jwt_secret :: "(string \<Rightarrow> file_read) \<Rightarrow> octet list option \<Rightarrow> config \<Rightarrow> startup_error + octet list" where
  "load_jwt_secret F random c =
     bindE (resolve_secret F (se_jwt_secret (cn_security c)) (se_jwt_secret_file (cn_security c))) (\<lambda>raw.
     if raw \<noteq> [] then Inr (text_octets raw)
     else if cn_production c then Inl JwtSecretRequired
     else bindE (of_opt (KeyringError NoRandom) random) (\<lambda>bytes. Inr (text_octets (random_string bytes))))"

section \<open>Stored settings\<close>

definition setting_atoi :: "string \<Rightarrow> int \<Rightarrow> int" where
  "setting_atoi s fallback = (case scan_int s of None \<Rightarrow> fallback | Some (n, _) \<Rightarrow> n)"

definition apply_setting :: "setting \<Rightarrow> config \<Rightarrow> config" where
  "apply_setting row c =
     (if sg_key row = ''default_organization'' then c\<lparr>cn_pki := (cn_pki c)\<lparr>kc_organization := sg_value row\<rparr>\<rparr>
      else if sg_key row = ''default_country'' then c\<lparr>cn_pki := (cn_pki c)\<lparr>kc_country := sg_value row\<rparr>\<rparr>
      else if sg_key row = ''default_key_algorithm'' then c\<lparr>cn_pki := (cn_pki c)\<lparr>kc_key_algorithm := sg_value row\<rparr>\<rparr>
      else if sg_key row = ''default_validity_days''
      then c\<lparr>cn_pki := (cn_pki c)\<lparr>kc_validity_days := setting_atoi (sg_value row) (kc_validity_days (cn_pki c))\<rparr>\<rparr>
      else if sg_key row = ''expiry_warn_days''
      then c\<lparr>cn_scheduler := (cn_scheduler c)\<lparr>hc_warn_days := setting_atoi (sg_value row) (hc_warn_days (cn_scheduler c))\<rparr>\<rparr>
      else c)"

definition apply_stored_settings :: "setting list \<Rightarrow> config \<Rightarrow> config" where
  "apply_stored_settings rows c = fold apply_setting (all_settings rows) c"

text \<open>The negation of the least integer is itself, so its text is the sign alone.\<close>

definition setting_itoa :: "int \<Rightarrow> string" where
  "setting_itoa n = (if n = - (2 ^ 63) then ''-'' else dec_int n)"

record settings_input =
  su_organization :: "string option"
  su_country :: "string option"
  su_key_algorithm :: "string option"
  su_validity_days :: "int option"
  su_warn_days :: "int option"

text \<open>Each change is stored and then made to the running configuration.\<close>

definition update_settings :: "instant \<Rightarrow> settings_input \<Rightarrow> setting list \<times> config \<Rightarrow> setting list \<times> config" where
  "update_settings now inp s0 =
     (let put = (\<lambda>k v f (rows, c). (set_setting now k v rows, f c));
          s1 = (case su_organization inp of None \<Rightarrow> s0
            | Some v \<Rightarrow> put ''default_organization'' v (\<lambda>c. c\<lparr>cn_pki := (cn_pki c)\<lparr>kc_organization := v\<rparr>\<rparr>) s0);
          s2 = (case su_country inp of None \<Rightarrow> s1
            | Some v \<Rightarrow> put ''default_country'' v (\<lambda>c. c\<lparr>cn_pki := (cn_pki c)\<lparr>kc_country := v\<rparr>\<rparr>) s1);
          s3 = (case su_key_algorithm inp of None \<Rightarrow> s2
            | Some v \<Rightarrow> put ''default_key_algorithm'' v (\<lambda>c. c\<lparr>cn_pki := (cn_pki c)\<lparr>kc_key_algorithm := v\<rparr>\<rparr>) s2);
          s4 = (case su_validity_days inp of None \<Rightarrow> s3
            | Some n \<Rightarrow> put ''default_validity_days'' (setting_itoa n) (\<lambda>c. c\<lparr>cn_pki := (cn_pki c)\<lparr>kc_validity_days := n\<rparr>\<rparr>) s3)
      in case su_warn_days inp of None \<Rightarrow> s4
           | Some n \<Rightarrow> put ''expiry_warn_days'' (setting_itoa n) (\<lambda>c. c\<lparr>cn_scheduler := (cn_scheduler c)\<lparr>hc_warn_days := n\<rparr>\<rparr>) s4)"

text \<open>The part of the configuration that the services read.\<close>

definition service_env :: "config \<Rightarrow> svc_env \<Rightarrow> svc_env" where
  "service_env c E = E\<lparr>cfg_key_algorithm := kc_key_algorithm (cn_pki c), cfg_ca_validity := kc_ca_validity (cn_pki c),
     cfg_organization := kc_organization (cn_pki c), cfg_country := kc_country (cn_pki c), cfg_base_url := sv_base_url (cn_server c),
     cfg_crl_validity := kc_crl_validity (cn_pki c), cfg_warn_days := hc_warn_days (cn_scheduler c),
     cfg_download_policy := se_download_policy (cn_security c)\<rparr>"

end
