(* ===== verification/ConfigGuarantees.thy ===== *)
theory ConfigGuarantees
  imports Config StatusAnswers
begin

text \<open>
  The properties of the configuration: what a loaded document is good for, and that what an
  administrator sets at run time is what the next start finds.
\<close>

section \<open>Loading\<close>

lemma checked_driver:
  assumes "check_driver d = Inr d'"
  shows "(dc_driver d' = driver_sqlite \<and> (dc_path d' \<noteq> [] \<or> dc_dsn d' \<noteq> [])) \<or> (dc_driver d' = driver_postgres \<and> dc_dsn d' \<noteq> [])"
  using assms by (auto simp: check_driver_def split: if_splits)

lemma checked_acme:
  assumes "check_acme a = Inr a'" "am_enabled a'"
  shows "am_authority a' \<noteq> [] \<and> (am_http01 a' \<or> am_dns01 a') \<and> 0 < am_validity_days a' \<and> 0 < am_http01_port a'"
  using assms by (auto simp: check_acme_def split: if_splits)

lemma sqlite_pragmas_not_Nil [simp]: "sqlite_pragmas \<noteq> []"
  by (simp add: sqlite_pragmas_def)

lemma validated:
  assumes "validate_config U c0 = Inr c"
  obtains d d' a' where "0 < sv_port (cn_server c0) \<and> sv_port (cn_server c0) \<le> 65535" "check_driver d = Inr d'"
    "se_download_policy (cn_security c0) \<in> {key_download_once, key_download_always, key_download_never}" "check_acme (cn_acme c0) = Inr a'"
    "sv_port (cn_server c) = sv_port (cn_server c0)" "cn_database c = d'" "cn_security c = cn_security c0" "cn_acme c = a'"
    "0 < kc_validity_days (cn_pki c) \<and> 0 < kc_ca_validity (cn_pki c)" "0 < kc_crl_validity (cn_pki c)" "0 < hc_warn_days (cn_scheduler c)"
proof -
  have port: "\<not> (sv_port (cn_server c0) \<le> 0 \<or> 65535 < sv_port (cn_server c0))"
    using assms unfolding validate_config_def by (rule contrapos_pn) simp
  obtain d d' where d: "apply_database_url U (cn_database c0) = Inr d" "check_driver d = Inr d'"
    using assms port unfolding validate_config_def if_not_P [OF port] bindE_Inr_iff by blast
  note run = assms [unfolded validate_config_def if_not_P [OF port] d bindE_simps]
  have policy: "\<not> se_download_policy (cn_security c0) \<notin> set [key_download_once, key_download_always, key_download_never]"
    using run by (rule contrapos_pn) simp
  obtain a' where a': "check_acme (cn_acme c0) = Inr a'"
    using run unfolding if_not_P [OF policy] Let_def bindE_Inr_iff by blast
  note c = run [unfolded if_not_P [OF policy] Let_def a' bindE_simps sum.inject]
  show thesis
  proof (rule that [OF _ d(2) _ a'])
    show "0 < kc_crl_validity (cn_pki c)" unfolding c [symmetric] by (simp add: hour_def minute_def second_def)
  qed (use port policy in \<open>auto simp: c [symmetric]\<close>)
qed


definition bare_environment :: environment where
  "bare_environment = \<lparr>gv_string = (\<lambda>k f. f), gv_int = (\<lambda>k f. if k = ''CERTIO_PORT'' then 8443 else f),
     gv_bool = (\<lambda>k f. f), gv_parse_duration = (\<lambda>_. None)\<rparr>"


text \<open>
  A query on the address of a SQLite file takes the place of the pragmas, foreign keys among them,
  although the program relies on them.
\<close>

lemma query_drops_foreign_keys:
  "apply_database_url (\<lambda>_. Some \<lparr>du_opaque = ''certio.db'', du_host = [], du_path = [], du_query = ''cache=shared''\<rparr>)
     \<lparr>dc_url = ''sqlite:certio.db?cache=shared'', dc_driver = [], dc_path = [], dc_dsn = []\<rparr> =
   Inr \<lparr>dc_url = ''sqlite:certio.db?cache=shared'', dc_driver = ''sqlite'', dc_path = ''certio.db'', dc_dsn = ''certio.db?cache=shared''\<rparr>"
  by code_simp

section \<open>Settings\<close>

text \<open>A table of settings as a map, and what a start makes of the map; the order of the rows plays no part.\<close>

definition setting_map :: "setting list \<Rightarrow> string \<Rightarrow> string option" where
  "setting_map rows = map_of (map (\<lambda>r. (sg_key r, sg_value r)) rows)"

definition overlay :: "(string \<Rightarrow> string option) \<Rightarrow> config \<Rightarrow> config" where
  "overlay m c = (let txt = (\<lambda>k v. case m k of None \<Rightarrow> v | Some s \<Rightarrow> s); num = (\<lambda>k n. case m k of None \<Rightarrow> n | Some s \<Rightarrow> setting_atoi s n) in
     c\<lparr>cn_pki := (cn_pki c)\<lparr>kc_organization := txt ''default_organization'' (kc_organization (cn_pki c)),
         kc_country := txt ''default_country'' (kc_country (cn_pki c)), kc_key_algorithm := txt ''default_key_algorithm'' (kc_key_algorithm (cn_pki c)),
         kc_validity_days := num ''default_validity_days'' (kc_validity_days (cn_pki c))\<rparr>,
       cn_scheduler := (cn_scheduler c)\<lparr>hc_warn_days := num ''expiry_warn_days'' (hc_warn_days (cn_scheduler c))\<rparr>\<rparr>)"

lemma overlay_empty: "overlay Map.empty c = c"
  by (cases c) (simp add: overlay_def)

lemma overlay_apply: "m (sg_key r) = None \<Longrightarrow> overlay m (apply_setting r c) = overlay (m(sg_key r \<mapsto> sg_value r)) c"
proof -
  assume m: "m (sg_key r) = None"
  consider "sg_key r = ''default_organization''" | "sg_key r = ''default_country''" | "sg_key r = ''default_key_algorithm''"
    | "sg_key r = ''default_validity_days''" | "sg_key r = ''expiry_warn_days''"
    | (other) "sg_key r \<noteq> ''default_organization''" "sg_key r \<noteq> ''default_country''" "sg_key r \<noteq> ''default_key_algorithm''"
      "sg_key r \<noteq> ''default_validity_days''" "sg_key r \<noteq> ''expiry_warn_days''"
    by blast
  then show ?thesis
  proof cases
    case other
    then show ?thesis using other [symmetric] by (simp add: overlay_def apply_setting_def Let_def)
  qed (use m in \<open>simp_all add: overlay_def apply_setting_def Let_def\<close>)
qed

lemma setting_map_Cons: "setting_map (r # rows) = (setting_map rows)(sg_key r \<mapsto> sg_value r)"
  by (rule ext) (simp add: setting_map_def)

lemma fold_apply_setting: "distinct (map sg_key rows) \<Longrightarrow> fold apply_setting rows c = overlay (setting_map rows) c"
proof (induction rows arbitrary: c)
  case (Cons r rows)
  then have "setting_map rows (sg_key r) = None" by (auto simp: setting_map_def map_of_eq_None_iff)
  then have "overlay (setting_map rows) (apply_setting r c) = overlay (setting_map (r # rows)) c"
    unfolding setting_map_Cons by (rule overlay_apply)
  then show ?case using Cons by simp
qed (simp add: setting_map_def overlay_empty)

lemma stored_settings: "distinct (map sg_key rows) \<Longrightarrow> apply_stored_settings rows c = overlay (setting_map rows) c"
proof -
  assume d: "distinct (map sg_key rows)"
  have keys: "distinct (map sg_key (all_settings rows))"
    using d by (simp add: all_settings_def distinct_map)
  have "setting_map (all_settings rows) = setting_map rows"
    unfolding setting_map_def using d keys by (subst map_of_inject_set) (simp_all add: comp_def all_settings_def)
  then show ?thesis using fold_apply_setting [OF keys] by (simp add: apply_stored_settings_def)
qed

lemma setting_map_Some:
  "distinct (map sg_key rows) \<Longrightarrow> setting_map rows x = Some y \<longleftrightarrow> (\<exists>r \<in> set rows. sg_key r = x \<and> sg_value r = y)"
  by (auto simp: setting_map_def map_of_eq_Some_iff comp_def)

lemma setting_map_set:
  assumes "distinct (map sg_key rows)"
  shows "setting_map (set_setting now k v rows) = (setting_map rows)(k \<mapsto> v)"
proof
  fix x
  let ?new = "set_setting now k v rows"
  let ?r = "\<lparr>sg_key = k, sg_value = v, sg_sealed = None, sg_secret = False, sg_updated = now\<rparr>"
  have d: "distinct (map sg_key ?new)" using assms by (simp add: set_setting_def distinct_tbl_put)
  have rows: "set ?new = insert ?r {s \<in> set rows. sg_key s \<noteq> k}"
    by (auto simp: set_setting_def set_tbl_put)
  have "setting_map ?new x = Some y \<longleftrightarrow> ((setting_map rows)(k \<mapsto> v)) x = Some y" for y
    using setting_map_Some [OF assms, of x y] unfolding setting_map_Some [OF d] rows by auto
  then show "setting_map ?new x = ((setting_map rows)(k \<mapsto> v)) x"
    by (metis option.exhaust)
qed

lemma distinct_set_setting: "distinct (map sg_key rows) \<Longrightarrow> distinct (map sg_key (set_setting now k v rows))"
  by (simp add: set_setting_def distinct_tbl_put)

subsection \<open>Numbers\<close>

lemma digits_are_digits: "list_all is_digit (dec_nat n)"
  using set_digits_of [of 10 n] by (auto simp: list_all_iff dec_nat_def is_digit_def digit_char_def)

lemma scan_dec_nat: "scan_digits (dec_nat n) = Some (n, [])"
proof -
  have all: "\<forall>c \<in> set (dec_nat n). is_digit c" using digits_are_digits by (simp add: list_all_iff)
  then have same: "takeWhile is_digit (dec_nat n) = dec_nat n" "dropWhile is_digit (dec_nat n) = []" by simp_all
  obtain c s where cs: "dec_nat n = c # s" by (cases "dec_nat n") (auto simp: dec_nat_def)
  have parse: "parse_digits 10 0 (c # s) = Some n" using parse_digits_of [of 10 n] cs by (simp add: dec_nat_def del: parse_digits.simps)
  show ?thesis unfolding scan_digits_def same unfolding cs by (simp add: parse del: parse_digits.simps)
qed

lemma scan_dec_int: "- (2 ^ 63) \<le> n \<Longrightarrow> n < 2 ^ 63 \<Longrightarrow> scan_int (dec_int n) = Some (n, [])"
proof -
  assume n: "- (2 ^ 63) \<le> n" "n < 2 ^ 63"
  obtain c s where cs: "dec_nat (nat \<bar>n\<bar>) = c # s" by (cases "dec_nat (nat \<bar>n\<bar>)") (auto simp: dec_nat_def)
  have c: "is_digit c" using digits_are_digits [of "nat \<bar>n\<bar>"] cs by simp
  then have c': "ord c \<noteq> 10" "\<not> is_space c" "c \<noteq> CHR ''-''" "c \<noteq> CHR ''+''"
    by (auto simp: is_digit_def is_space_def)
  have scan: "scan_digits (c # s) = Some (nat \<bar>n\<bar>, [])" using scan_dec_nat [of "nat \<bar>n\<bar>"] cs by simp
  have minus: "skip_space (CHR ''-'' # c # s) = Some (CHR ''-'' # c # s)" by (simp add: is_space_def)
  show ?thesis
  proof (cases "n < 0")
    case True
    then show ?thesis using n cs scan minus by (simp add: scan_int_def dec_int_def)
  next
    case False
    then show ?thesis using n cs c' scan by (simp add: scan_int_def dec_int_def)
  qed
qed

lemma setting_number: "- (2 ^ 63) < n \<Longrightarrow> n < 2 ^ 63 \<Longrightarrow> setting_atoi (setting_itoa n) m = n"
  by (simp add: setting_atoi_def setting_itoa_def scan_dec_int)

subsection \<open>What an administrator sets\<close>

lemma overlay_texts:
  "overlay (m(''default_organization'' \<mapsto> v)) c = (overlay m c)\<lparr>cn_pki := (cn_pki (overlay m c))\<lparr>kc_organization := v\<rparr>\<rparr>"
  "overlay (m(''default_country'' \<mapsto> v)) c = (overlay m c)\<lparr>cn_pki := (cn_pki (overlay m c))\<lparr>kc_country := v\<rparr>\<rparr>"
  "overlay (m(''default_key_algorithm'' \<mapsto> v)) c = (overlay m c)\<lparr>cn_pki := (cn_pki (overlay m c))\<lparr>kc_key_algorithm := v\<rparr>\<rparr>"
  by (simp_all add: overlay_def Let_def)

lemma overlay_numbers:
  assumes "- (2 ^ 63) < n" "n < 2 ^ 63"
  shows "overlay (m(''default_validity_days'' \<mapsto> setting_itoa n)) c = (overlay m c)\<lparr>cn_pki := (cn_pki (overlay m c))\<lparr>kc_validity_days := n\<rparr>\<rparr>"
    "overlay (m(''expiry_warn_days'' \<mapsto> setting_itoa n)) c = (overlay m c)\<lparr>cn_scheduler := (cn_scheduler (overlay m c))\<lparr>hc_warn_days := n\<rparr>\<rparr>"
  by (simp_all add: overlay_def Let_def setting_number [OF assms])

text \<open>The rows are those a start would make the configuration of.\<close>

definition in_force :: "config \<Rightarrow> setting list \<times> config \<Rightarrow> bool" where
  "in_force c0 s \<longleftrightarrow> distinct (map sg_key (fst s)) \<and> snd s = overlay (setting_map (fst s)) c0"

lemma in_force_put:
  assumes "in_force c0 (rows, c)" "\<And>m. overlay (m(k \<mapsto> v)) c0 = f (overlay m c0)"
  shows "in_force c0 (set_setting now k v rows, f c)"
  using assms by (simp add: in_force_def distinct_set_setting setting_map_set)

definition small_numbers :: "settings_input \<Rightarrow> bool" where
  "small_numbers inp = ((case su_validity_days inp of None \<Rightarrow> True | Some n \<Rightarrow> - (2 ^ 63) < n \<and> n < 2 ^ 63) \<and>
     (case su_warn_days inp of None \<Rightarrow> True | Some n \<Rightarrow> - (2 ^ 63) < n \<and> n < 2 ^ 63))"

lemma in_force_update:
  assumes "in_force c0 s" "small_numbers inp"
  shows "in_force c0 (update_settings now inp s)"
proof -
  have put: "in_force c0 ((\<lambda>(rows, c). (set_setting now k v rows, f c)) t)"
    if "in_force c0 t" "\<And>m. overlay (m(k \<mapsto> v)) c0 = f (overlay m c0)" for k v f t
    using in_force_put [of c0 "fst t" "snd t"] that by (cases t) simp
  show ?thesis
    using assms unfolding update_settings_def Let_def small_numbers_def
    by (auto split: option.splits intro!: put overlay_texts overlay_numbers)
qed

text \<open>C40: what an administrator sets is what the next start finds: after any changes of the settings, the
  configuration the instance runs with is the one that a start makes of the same file and environment
  and of the stored settings.  The one number that is lost is the least of 64 bits, whose text is a
  sign without digits.\<close>

theorem settings_survive_a_restart:
  assumes "fold (\<lambda>(now, inp). update_settings now inp) changes ([], c0) = (rows, c)"
    "\<forall>(now, inp) \<in> set changes. small_numbers inp"
  shows "apply_stored_settings rows c0 = c"
proof -
  have "in_force c0 (fold (\<lambda>(now, inp). update_settings now inp) changes s)"
    if "in_force c0 s" "\<forall>(now, inp) \<in> set changes. small_numbers inp" for s
    using that
  proof (induction changes arbitrary: s)
    case (Cons x changes)
    obtain now inp where x: "x = (now, inp)" by force
    show ?case using Cons.IH [OF in_force_update [OF Cons.prems(1)]] Cons.prems(2) by (simp add: x)
  qed simp
  moreover have "in_force c0 ([], c0)" by (simp add: in_force_def setting_map_def overlay_empty)
  ultimately have "in_force c0 (rows, c)" using assms by metis
  then show ?thesis by (simp add: in_force_def stored_settings)
qed

definition warn_change :: settings_input where
  "warn_change = \<lparr>su_organization = Some ''Acme'', su_country = None, su_key_algorithm = None, su_validity_days = None, su_warn_days = Some (- 5)\<rparr>"

text \<open>Nothing checks a setting against the bounds that \<open>Validate\<close> gives the configuration.\<close>

theorem settings_survive_a_restart_witness:
  "\<exists>rows c. update_settings 7 warn_change ([], default_config) = (rows, c) \<and> hc_warn_days (cn_scheduler c) = - 5 \<and>
     apply_stored_settings rows default_config = c"
proof -
  obtain rows c where run: "update_settings 7 warn_change ([], default_config) = (rows, c)" by force
  have "hc_warn_days (cn_scheduler c) = - 5"
    using run by (auto simp: update_settings_def warn_change_def Let_def)
  moreover have "apply_stored_settings rows default_config = c"
  proof (rule settings_survive_a_restart [of "[(7, warn_change)]"])
    show "\<forall>(now, inp) \<in> set [(7, warn_change)]. small_numbers inp" by (simp add: small_numbers_def warn_change_def)
  qed (simp add: run)
  ultimately show ?thesis using run by blast
qed

end
