(* ===== verification/PkiInspect.thy ===== *)
theory PkiInspect
  imports PkiRevocation Store
begin

text \<open>
  \<open>internal/pki/inspect.go\<close>, with what it uses of \<open>csr.go\<close> and \<open>keys.go\<close>: the description of a document
  that somebody pastes, a certificate with its chain, a request, a key or a list.  What the bytes
  of a document decode to, the digests of a certificate, the bytes of a key identifier and the text
  of a name are arguments; the digest of a certificate is of its DER.
\<close>

record inspect_lib =
  il_pem :: "string \<Rightarrow> pem"
  il_der :: "string \<Rightarrow> der"
  il_sha256 :: "x509 \<Rightarrow> nat list"
  il_sha1 :: "x509 \<Rightarrow> nat list"
  il_key_id :: "public_key \<Rightarrow> nat list"
  il_name_text :: "pkix_name \<Rightarrow> string"

section \<open>Descriptions\<close>

definition hex_upper :: "nat \<Rightarrow> string" where
  "hex_upper b = to_upper [digit_char (b div 16), digit_char (b mod 16)]"

definition colon_hex :: "nat list \<Rightarrow> string" where
  "colon_hex bs = (if bs = [] then [] else join_with '':'' (map hex_upper bs))"

definition fingerprint :: "inspect_lib \<Rightarrow> x509 \<Rightarrow> string" where
  "fingerprint L c = concat (map (\<lambda>b. [digit_char (b div 16), digit_char (b mod 16)]) (il_sha256 L c))"

definition public_keys_equal :: "public_key \<Rightarrow> public_key \<Rightarrow> bool" where
  "public_keys_equal a b = (case a of OtherPub _ \<Rightarrow> False | _ \<Rightarrow> a = b)"

definition marshal_public_key_pem :: "public_key \<Rightarrow> x509_error + pem" where
  "marshal_public_key_pem k = (if marshalable k then Inr [plain_block ''PUBLIC KEY'' (DerPublicKey k)] else Inl KeyUnsupported)"

text \<open>\<open>SignatureAlgorithm.String\<close>.\<close>

definition signature_algorithm_text :: "signature_algorithm \<Rightarrow> string" where
  "signature_algorithm_text a = (case a of
     SHA256WithRSA \<Rightarrow> ''SHA256-RSA'' | SHA384WithRSA \<Rightarrow> ''SHA384-RSA'' | SHA512WithRSA \<Rightarrow> ''SHA512-RSA''
   | ECDSAWithSHA256 \<Rightarrow> ''ECDSA-SHA256'' | ECDSAWithSHA384 \<Rightarrow> ''ECDSA-SHA384'' | ECDSAWithSHA512 \<Rightarrow> ''ECDSA-SHA512''
   | PureEd25519 \<Rightarrow> ''Ed25519'' | UnknownSignatureAlgorithm \<Rightarrow> ''0'')"

record certificate_details =
  cd_subject :: subject
  cd_subject_dn :: string
  cd_issuer :: subject
  cd_issuer_dn :: string
  cd_serial :: string
  cd_not_before :: instant
  cd_not_after :: instant
  cd_days_remaining :: int
  cd_expired :: bool
  cd_self_signed :: bool
  cd_is_ca :: bool
  cd_max_path_len :: int
  cd_sans :: san_set
  cd_key_algorithm :: string
  cd_key_size :: int
  cd_signature_algorithm :: string
  cd_key_usage :: "string list"
  cd_ext_key_usage :: "string list"
  cd_sha256 :: string
  cd_sha1 :: string
  cd_subject_key_id :: string
  cd_authority_key_id :: string
  cd_crl :: "string list"
  cd_ocsp :: "string list"
  cd_profile :: string
  cd_pem :: pem

text \<open>A key of an unknown kind has the empty specification.\<close>

definition key_id_text :: "inspect_lib \<Rightarrow> public_key option \<Rightarrow> string" where
  "key_id_text L k = (case k of None \<Rightarrow> [] | Some k \<Rightarrow> colon_hex (il_key_id L k))"

definition describe_certificate :: "inspect_lib \<Rightarrow> instant \<Rightarrow> x509 \<Rightarrow> certificate_details" where
  "describe_certificate L now c =
     (let spec = (case spec_of (x_public_key c) of Inl _ \<Rightarrow> no_spec | Inr s \<Rightarrow> s);
          subj = subject_from_pkix (x_subject c); iss = subject_from_pkix (x_issuer c) in
      \<lparr>cd_subject = subj, cd_subject_dn = dn subj, cd_issuer = iss, cd_issuer_dn = dn iss,
       cd_serial = format_serial (Some (x_serial c)), cd_not_before = x_not_before c, cd_not_after = x_not_after c,
       cd_days_remaining = whole_days (x_not_after c - now), cd_expired = (x_not_after c < now), cd_self_signed = is_self_signed c,
       cd_is_ca = x_is_ca c, cd_max_path_len = x_max_path_len c, cd_sans = sans_from_certificate_like (x_sans c),
       cd_key_algorithm = spec_display spec, cd_key_size = key_size spec, cd_signature_algorithm = signature_algorithm_text (x_sig_alg c),
       cd_key_usage = key_usage_strings (x_key_usage c), cd_ext_key_usage = ext_key_usage_strings (x_eku c),
       cd_sha256 = colon_hex (il_sha256 L c), cd_sha1 = colon_hex (il_sha1 L c),
       cd_subject_key_id = key_id_text L (x_skid c), cd_authority_key_id = key_id_text L (x_akid c),
       cd_crl = x_crl_urls c, cd_ocsp = x_ocsp_urls c, cd_profile = infer_profile c, cd_pem = encode_certificate_pem c\<rparr>)"

record csr_details =
  rd_subject :: subject
  rd_sans :: san_set
  rd_key_algorithm :: string
  rd_key_size :: int
  rd_signature_algorithm :: string
  rd_dn :: string

definition describe_csr :: "csr \<Rightarrow> pki_error + csr_details" where
  "describe_csr c = bindE (map_err EKey (spec_of (csr_public_key c))) (\<lambda>spec.
     let subj = subject_from_pkix (csr_subject c) in
     Inr \<lparr>rd_subject = subj, rd_sans = sans_from_certificate_like (csr_sans c), rd_key_algorithm = spec_string spec,
       rd_key_size = key_size spec, rd_signature_algorithm = signature_algorithm_text (csr_sig_alg c), rd_dn = dn subj\<rparr>)"

definition encode_csr_pem :: "der \<Rightarrow> pem" where
  "encode_csr_pem d = [plain_block block_certificate_req d]"

record crl_entry_detail =
  ed_serial :: string
  ed_revoked_at :: instant
  ed_reason :: string
  ed_reason_code :: int

record crl_details =
  ld_issuer :: string
  ld_number :: string
  ld_this :: instant
  ld_next :: instant
  ld_entries :: "crl_entry_detail list"

definition describe_crl :: "inspect_lib \<Rightarrow> crl \<Rightarrow> crl_details" where
  "describe_crl L c = \<lparr>ld_issuer = il_name_text L (crl_issuer c), ld_number = dec_int (crl_number c),
     ld_this = crl_this c, ld_next = crl_next c,
     ld_entries = map (\<lambda>e. \<lparr>ed_serial = format_serial (Some (ce_serial e)), ed_revoked_at = ce_at e,
       ed_reason = revocation_reason_name (ce_reason e), ed_reason_code = ce_reason e\<rparr>) (crl_entries c)\<rparr>"

record key_details =
  kd_algorithm :: string
  kd_size :: int
  kd_public_key :: pem

section \<open>Inspection\<close>

datatype inspect_error = NothingToInspect | InspectPki pki_error | InspectX509 x509_error | BadRevocationList | UnsupportedBlock string | NotRecognised

datatype inspection =
    CertificateView certificate_details "certificate_details list" | CsrView csr_details | CrlView crl_details | KeyView key_details

definition inspect_der :: "inspect_lib \<Rightarrow> instant \<Rightarrow> string \<Rightarrow> inspect_error + inspection" where
  "inspect_der L now data = (case parse_certificate (il_der L data) of
       Some c \<Rightarrow> Inr (CertificateView (describe_certificate L now c) [])
     | None \<Rightarrow> (case parse_request (il_der L data) of
         Some c \<Rightarrow> map_err InspectPki (bindE (describe_csr c) (\<lambda>d. Inr (CsrView d)))
       | None \<Rightarrow> (case parse_revocation_list (il_der L data) of
           Some c \<Rightarrow> Inr (CrlView (describe_crl L c))
         | None \<Rightarrow> Inl NotRecognised)))"

definition describe_key :: "private_key \<Rightarrow> inspect_error + key_details" where
  "describe_key k =
     bindE (map_err (\<lambda>e. InspectPki (EKey e)) (spec_of (public_of k))) (\<lambda>spec.
     bindE (map_err InspectX509 (marshal_public_key_pem (public_of k))) (\<lambda>p.
       Inr \<lparr>kd_algorithm = spec_display spec, kd_size = key_size spec, kd_public_key = p\<rparr>))"

definition inspect_document :: "inspect_lib \<Rightarrow> instant \<Rightarrow> string \<Rightarrow> inspect_error + inspection" where
  "inspect_document L now data =
     (let trimmed = trim_space data; doc = \<lparr>doc_blocks = il_pem L trimmed, doc_raw = il_der L trimmed\<rparr> in
      if trimmed = [] then Inl NothingToInspect
      else case il_pem L trimmed of
          [] \<Rightarrow> inspect_der L now trimmed
        | b # bs \<Rightarrow>
            if pem_type b = block_certificate then
              bindE (map_err InspectPki (parse_certificates_pem (il_pem L trimmed))) (\<lambda>cs.
                Inr (CertificateView (describe_certificate L now (hd cs)) (map (describe_certificate L now) (tl cs))))
            else if pem_type b = block_certificate_req \<or> pem_type b = block_new_cert_req then
              map_err InspectPki (bindE (parse_csr doc) (\<lambda>c. bindE (describe_csr c) (\<lambda>d. Inr (CsrView d))))
            else if pem_type b = block_crl then
              bindE (of_opt BadRevocationList (parse_crl doc)) (\<lambda>c. Inr (CrlView (describe_crl L c)))
            else if sublist block_private_key (pem_type b) then
              bindE (map_err InspectPki (parse_private_key_pem (il_pem L trimmed))) (\<lambda>k.
              bindE (describe_key k) (\<lambda>d. Inr (KeyView d)))
            else Inl (UnsupportedBlock (pem_type b)))"

section \<open>Laws\<close>

text \<open>A pasted chain is described certificate by certificate, in its order.\<close>

lemma inspect_chain:
  assumes "trim_space data \<noteq> []" "il_pem L (trim_space data) = concat (map encode_certificate_pem (c # cs))"
  shows "inspect_document L now data = Inr (CertificateView (describe_certificate L now c) (map (describe_certificate L now) cs))"
proof -
  have parsed: "mapE (\<lambda>b. of_opt BadCertificate (parse_certificate (pem_bytes b)))
      (filter (\<lambda>b. pem_type b = block_certificate) (concat (map encode_certificate_pem ds))) = Inr ds" for ds
    by (induction ds) (simp_all add: encode_certificate_pem_def plain_block_def parse_certificate_def of_opt_def)
  have "parse_certificates_pem (il_pem L (trim_space data)) = Inr (c # cs)"
    using parsed [of "c # cs"] unfolding parse_certificates_pem_def assms(2) by simp
  moreover obtain bs where "il_pem L (trim_space data) = plain_block block_certificate (DerCert c) # bs"
    using assms(2) by (simp add: encode_certificate_pem_def)
  ultimately show ?thesis using assms(1) by (simp add: inspect_document_def plain_block_def Let_def)
qed

text \<open>The description of a key has its public half only, which says nothing of how the private half is encoded.\<close>

lemma inspected_key_is_public:
  assumes "describe_key k = Inr d"
  shows "kd_public_key d = [plain_block ''PUBLIC KEY'' (DerPublicKey (public_of k))]"
  using assms by (auto simp: describe_key_def marshal_public_key_pem_def bindE_Inr_iff split: if_splits)

text \<open>
  White space is trimmed before the bytes are taken for DER: a certificate whose last byte, one of
  its signature, is a line feed or a space loses it and is not recognised.
\<close>

lemma blank_signature_byte_is_cut:
  assumes "il_pem L ''0x'' = []" "il_der L ''0x'' = DerJunk ''0x''"
  shows "inspect_document L now (''0x'' @ [CHR 0x0A]) = Inl NotRecognised"
proof -
  have "trim_space (''0x'' @ [CHR 0x0A]) = ''0x''" by code_simp
  then show ?thesis
    using assms by (simp add: inspect_document_def inspect_der_def parse_certificate_def parse_request_def parse_revocation_list_def Let_def)
qed

text \<open>A request in PEM is described only if its signature holds; the same request in DER is described without a look at it.\<close>

lemma raw_requests_are_not_checked:
  assumes "trim_space data \<noteq> []" "il_pem L (trim_space data) = []" "il_der L (trim_space data) = DerCSR c" "describe_csr c = Inr d"
  shows "inspect_document L now data = Inr (CsrView d)"
  using assms by (simp add: inspect_document_def inspect_der_def parse_certificate_def parse_request_def Let_def)

end
