(* ===== verification/Spec2Isabelle.thy ===== *)
theory Spec2Isabelle
  imports AcmeGuarantees AuthGuarantees RateLimit DeployGuarantees SrvGuarantees WireGuarantees
    NotifyGuarantees SchedulerGuarantees BulkGuarantees EnvelopeGuarantees ConfigGuarantees PkiInspect
begin

text \<open>
  Certio is a private certificate authority in one Go process.  A PKI engine (\<open>internal/pki\<close>) makes
  keys, certificates, lists and OCSP answers; a store (\<open>internal/store\<close>) keeps rows in SQLite or
  PostgreSQL; a service (\<open>internal/service\<close>) implements every operation over the two; a server
  (\<open>internal/server\<close>, \<open>internal/acme\<close>) lets requests in by session, API token or ACME signature; a
  scheduler (\<open>internal/schedule\<close>) runs the same operations in the background and lets certificates out
  through targets (\<open>internal/deploy\<close>) and channels (\<open>internal/notify\<close>).  All of them meet in the
  tables of one database, which is the state of the model.

  \<^bold>\<open>How the code is read.\<close>  A function that returns a value and an error returns a sum, the error on
  the left.  A method that writes is a function of the database into its result and the database it
  leaves (\<open>bindS\<close> of \<open>Prelude\<close>); the error of a step leaves what the steps before it have written, as
  the code does without a transaction.  Rows are records with the names of the code, tables are lists
  in insertion order; a constraint the database enforces (primary and unique keys, foreign keys, the
  width of a column where PostgreSQL rejects a row) is a failing branch of the write.  What a run
  draws (keys, serials, identifiers, tokens, salts) and the clock are arguments; one call reads one
  clock, also where the code reads it twice.  Strings are lists of bytes.  Instants and durations are
  nanoseconds, as integers, wrapped to 64 bits where an overflow can be reached.

  \<^bold>\<open>Foundations.\<close>
  \<^item> \<open>Prelude\<close>: results, state passing, tables; \<open>GoText\<close>, \<open>GoNet\<close>, \<open>GoTime\<close>: what the program uses of the
    standard library's strings, numbers, addresses and times.

  \<^bold>\<open>PKI engine\<close> (\<open>internal/pki\<close>).
  \<^item> \<open>PkiSan\<close>, \<open>PkiConstraints\<close>, \<open>PkiSubject\<close>, \<open>PkiKeys\<close>, \<open>PkiProfile\<close>: the files \<open>san.go\<close>,
    \<open>constraints.go\<close>, \<open>subject.go\<close>, \<open>keys.go\<close>, \<open>profile.go\<close>; \<open>X509\<close>: certificates, with a signature being the
    key that made it.
  \<^item> \<open>PkiSign\<close> (\<open>ca.go\<close>, \<open>sign.go\<close>, \<open>csr.go\<close>), \<open>PkiRevocation\<close> (\<open>crl.go\<close>, \<open>ocsp.go\<close>), \<open>PkiBundle\<close>
    (\<open>bundle.go\<close>); \<open>PkiSignLaws\<close> and \<open>PkiGuarantees\<close>: what is signed verifies, stays within its issuer's
    life and limits, and the texts of names and serials read back.  \<open>PkiInspect\<close> (\<open>inspect.go\<close>): what a
    pasted document is described as.

  \<^bold>\<open>Store\<close> (\<open>internal/store\<close>).
  \<^item> \<open>Store\<close> (the rows and the contract of a repository as the locales \<open>keyed_repo\<close> and \<open>repository\<close>),
    \<open>StorePki\<close>, \<open>StoreAcme\<close>, \<open>StoreAuth\<close>, \<open>StoreOps\<close>: the repositories, each interpreting that contract;
    \<open>StoreInv\<close>: integrity, which every write keeps.

  \<^bold>\<open>Certificates\<close> (\<open>internal/service\<close>).
  \<^item> \<open>SvcCore\<close> (\<open>service.go\<close>), \<open>SvcAuthority\<close> (\<open>authority.go\<close>), \<open>SvcCertificate\<close> (\<open>certificate.go\<close>),
    \<open>SvcOcsp\<close> (\<open>ocsp.go\<close>), \<open>SvcExport\<close> (\<open>export.go\<close>): one definition per method.
  \<^item> \<open>SvcInv\<close>, \<open>SvcReach\<close>: the invariant of the PKI tables and the state machine of the service.
    \<open>CertificateLife\<close>, \<open>StatusAnswers\<close>, \<open>IssuanceGuarantees\<close>: a revocation is final, what was issued does
    not change, lists and OCSP answers agree with the tables, keys leave by the policy.  \<open>Samples\<close>: a run
    for the witnesses.

  \<^bold>\<open>ACME\<close> (\<open>internal/acme\<close>, \<open>service/acme.go\<close>, \<open>server/handlers/acme.go\<close>).
  \<^item> \<open>SvcAcme\<close>: accounts, bindings, orders, challenges, finalization; \<open>AcmeInv\<close>, \<open>AcmeReach\<close>, \<open>CertioReach\<close>:
    its invariant, beside that of the PKI tables, in one state machine (the locales \<open>pki_frame\<close> and
    \<open>acme_store_frame\<close> say what each service leaves alone); \<open>AcmeOrders\<close>: the refinement of the order
    machine of RFC 8555; \<open>AcmeSamples\<close>, \<open>AcmeGuarantees\<close>.
  \<^item> \<open>AcmeWire\<close> (\<open>jws.go\<close>, \<open>challenge.go\<close>), \<open>SrvAcme\<close> (the endpoints), \<open>WireGuarantees\<close>: requests are signed,
    addressed, fresh and answered only to the owner; a valid challenge was answered by the name.

  \<^bold>\<open>Accounts\<close>.
  \<^item> \<open>Password\<close>, \<open>Totp\<close> (\<open>internal/crypto\<close>), \<open>SvcScope\<close>, \<open>SvcTwoFactor\<close>, \<open>SvcAuth\<close>, \<open>SvcOAuth\<close>
    (\<open>internal/service\<close>), \<open>SrvMiddleware\<close> (\<open>internal/server/middleware\<close>); \<open>AuthReach\<close>: the state machine of
    the accounts; \<open>AuthSamples\<close>, \<open>AuthGuarantees\<close>, \<open>RateLimit\<close>: credentials, sessions, administrators,
    second factors, and the limiter over sequences of requests.

  \<^bold>\<open>Server\<close> (\<open>internal/server\<close>).
  \<^item> \<open>SrvRoutes\<close>: the table of endpoints and what a request passes before its handler; \<open>SrvHandlers\<close>: the
    handlers that decide something themselves; \<open>SrvGuarantees\<close>, \<open>BulkGuarantees\<close>.

  \<^bold>\<open>Background\<close>.
  \<^item> \<open>Deploy\<close>, \<open>SvcDeploy\<close>, \<open>DeployLaws\<close>, \<open>DeployGuarantees\<close>; \<open>Notify\<close>, \<open>SvcNotify\<close>, \<open>NotifyLaws\<close>,
    \<open>NotifyGuarantees\<close>; \<open>Scheduler\<close>, \<open>Dashboard\<close>, \<open>SchedulerGuarantees\<close>: targets, channels, the queue of
    deliveries, the jobs and what the landing page counts.

  \<^bold>\<open>Start\<close>.
  \<^item> \<open>Envelope\<close> (\<open>internal/crypto/envelope.go\<close>), \<open>EnvelopeGuarantees\<close>: sealed values, which refine the sealed
    keys of \<open>SvcCore\<close>; \<open>Config\<close> (\<open>internal/config\<close>, the secrets and stored settings of \<open>internal/app\<close>),
    \<open>ConfigGuarantees\<close>: what a loaded configuration is good for, and that settings survive a restart.

  \<^bold>\<open>Bounds.\<close>  The walk to a root has the code's own limit of 16 issuers, and fails beyond it;
  an instance of up to 16 authorities is shown not to reach it.  The history of
  renewals is cut at 64 and the suffixes of a slug are tried from 2 to 99, both as in the code.  A
  serial is drawn up to 8 times.  No other definition has fuel: loops over rows and texts are
  structural or have a measure.

  \<^bold>\<open>Assumed.\<close>  Cryptography is ideal: a signature verifies under the key that made it and no other, a
  sealed value opens with its master key and passphrase only.  The JWT library, Argon2id, HMAC and
  hashes, the parsers of JSON, URLs and mailboxes, the identity provider, DNS, HTTP, SMTP, SSH and the
  Kubernetes API are arguments of the definitions that use them; theorems that need a law of one state
  it as a hypothesis.  SQLite enforces foreign keys, as the default connection string asks for.

  \<^bold>\<open>Not modelled.\<close>  Flags and output of \<open>internal/cli\<close>, the wiring of \<open>internal/app\<close> and the
  Prometheus registry compute nothing the services decide on.  The remaining handlers bind a request,
  call one method modelled here and render its result; \<open>internal/server/dto\<close> holds the shapes they
  render.  The audit recorder writes rows nobody reads back into a decision.  The directories of the
  database file are the operating system's.  Requests are atomic: two at once are two orders of their
  steps only where a theorem says so.
\<close>

end
